(* ===== verification/Prelude.thy ===== *)
theory Prelude
  imports Main "HOL-Library.Word"
begin

text \<open>
  Shared vocabulary of the development: the fixed-width integer types of the 64-bit build
  (\<^verbatim>\<open>SIMRV_XLEN = 64\<close>), the C++ conversions between them, the bit-counting functions of
  \<^verbatim>\<open><bit>\<close>, little-endian byte sequences (what \<^verbatim>\<open>memcpy\<close> between an integer and a byte
  buffer does on the supported x86-64 hosts), and the generic lemmas on words the component
  theories use. The collections \<open>cast_simps\<close> (width changes), \<open>field_simps_rv\<close> (instruction
  fields) and \<open>csr_defs\<close> (the CSR masks) are filled by the component theories.
\<close>

unbundle bit_operations_syntax

named_theorems cast_simps
named_theorems field_simps_rv
named_theorems csr_defs

subsection \<open>Integer types\<close>

type_synonym u8 = "8 word"
type_synonym u16 = "16 word"
type_synonym u32 = "32 word"
type_synonym u64 = "64 word"

text \<open>The semantic aliases of \<^verbatim>\<open>include/simrv/xlen/Types.hpp\<close> in the 64-bit build.\<close>

type_synonym Word = u64
type_synonym Register = u64
type_synonym Address = u64
type_synonym CSRValue = u64
type_synonym CSRAddress = u64
type_synonym ImmValue = u64
type_synonym TrapCause = u64
type_synonym Instruction = u32
type_synonym FloatingRegister = u64

definition kXLenBits :: nat where
  "kXLenBits = 64"

subsection \<open>Conversions\<close>

text \<open>
  \<open>sext32\<close> is \<^verbatim>\<open>static_cast<Register>(static_cast<int64_t>(static_cast<int32_t>(x)))\<close>;
  \<open>zext32\<close> is \<^verbatim>\<open>static_cast<uint64_t>(static_cast<uint32_t>(x))\<close>.
\<close>

definition sext32 :: "u64 \<Rightarrow> u64" where
  "sext32 x = scast (ucast x :: u32)"

definition zext32 :: "u64 \<Rightarrow> u64" where
  "zext32 x = ucast (ucast x :: u32)"

definition of_bool32 :: "bool \<Rightarrow> u32" where
  "of_bool32 b = (if b then 1 else 0)"

definition of_bool64 :: "bool \<Rightarrow> u64" where
  "of_bool64 b = (if b then 1 else 0)"

text \<open>
  \<^verbatim>\<open>sign_extend(value, bits)\<close> and \<^verbatim>\<open>zero_extend(value, bits)\<close> of
  \<^verbatim>\<open>include/simrv/xlen/Math.hpp\<close> for a 64-bit argument: shift left, then arithmetic shift
  right (sign), or mask with \<^verbatim>\<open>(1 << bits) - 1\<close> (zero).
\<close>

definition sign_extend :: "u64 \<Rightarrow> nat \<Rightarrow> u64" where
  "sign_extend value bits =
     (if bits \<ge> 64 then value
      else signed_drop_bit (64 - bits) (push_bit (64 - bits) value))"

definition zero_extend :: "u64 \<Rightarrow> nat \<Rightarrow> u64" where
  "zero_extend value bits =
     (if bits \<ge> 64 then value else value AND (push_bit bits 1 - 1))"

subsection \<open>Bit counting and rotation\<close>

definition popcount :: "'a::len word \<Rightarrow> nat" where
  "popcount w = length (filter (bit w) [0..<LENGTH('a)])"

definition countr_zero :: "'a::len word \<Rightarrow> nat" where
  "countr_zero w = length (takeWhile (\<lambda>i. \<not> bit w i) [0..<LENGTH('a)])"

definition countl_zero :: "'a::len word \<Rightarrow> nat" where
  "countl_zero w = length (takeWhile (\<lambda>i. \<not> bit w (LENGTH('a) - 1 - i)) [0..<LENGTH('a)])"

definition bit_width :: "'a::len word \<Rightarrow> nat" where
  "bit_width w = LENGTH('a) - countl_zero w"

subsection \<open>Little-endian byte sequences\<close>

definition byte_at :: "nat \<Rightarrow> 'a::len word \<Rightarrow> u8" where
  "byte_at i w = ucast (drop_bit (8 * i) w)"

definition le_bytes :: "nat \<Rightarrow> 'a::len word \<Rightarrow> u8 list" where
  "le_bytes n w = map (\<lambda>i. byte_at i w) [0..<n]"

fun le_word :: "u8 list \<Rightarrow> 'a::len word" where
  "le_word [] = 0"
| "le_word (b # bs) = ucast b OR push_bit 8 (le_word bs)"

definition byteswap :: "u64 \<Rightarrow> u64" where
  "byteswap w = le_word (rev (le_bytes 8 w))"

subsection \<open>Lemmas on conversions\<close>

lemma bit_sext32 [bit_simps]:
  "bit (sext32 x) n \<longleftrightarrow> n < 64 \<and> bit x (if n < 32 then n else 31)"
  by (cases "n = 31") (auto simp: sext32_def bit_simps min_def)

lemma bit_zext32 [bit_simps]:
  "bit (zext32 x) n \<longleftrightarrow> n < 32 \<and> bit x n"
  by (auto simp: zext32_def bit_simps)

lemma sext32_idem [simp]: "sext32 (sext32 x) = sext32 x"
  by (rule bit_word_eqI) (auto simp: bit_simps)

lemma sext32_zext32 [simp]: "sext32 (zext32 x) = sext32 x"
  by (rule bit_word_eqI) (auto simp: bit_simps)

lemma zext32_sext32 [simp]: "zext32 (sext32 x) = zext32 x"
  by (rule bit_word_eqI) (auto simp: bit_simps)

lemma ucast32_sext32 [simp]: "(ucast (sext32 x) :: u32) = ucast x"
  by (rule bit_word_eqI) (auto simp: bit_simps)

lemma ucast32_zext32 [simp]: "(ucast (zext32 x) :: u32) = ucast x"
  by (rule bit_word_eqI) (auto simp: bit_simps)

lemma sext32_scast [simp]: "sext32 (scast (y :: u32)) = scast y"
  by (rule bit_word_eqI) (auto simp: bit_simps)

lemma sext32_canonical_iff: "sext32 x = x \<longleftrightarrow> (\<exists>y :: u32. x = scast y)"
proof
  assume "sext32 x = x"
  then have "x = scast (ucast x :: u32)"
    by (simp add: sext32_def)
  then show "\<exists>y :: u32. x = scast y" ..
qed auto

lemma bit_sign_extend [bit_simps]:
  "0 < bits \<Longrightarrow> bit (sign_extend v bits) n \<longleftrightarrow>
     n < 64 \<and> bit v (if n < bits then n else bits - 1)"
  by (auto simp: sign_extend_def bit_simps min_def dest: bit_imp_le_length)

lemma sign_extend_32: "sign_extend v 32 = sext32 v"
  by (rule bit_word_eqI) (auto simp: bit_simps)

subsection \<open>Signed and unsigned readings\<close>

lemma sint_nonneg_eq_uint: "0 \<le> sint v \<Longrightarrow> sint v = uint v" for v :: "'a::len word"
proof -
  assume nn: "0 \<le> sint v"
  have "sint v < 2 ^ LENGTH('a)"
    using sint_lt [of v] by (rule less_le_trans) (simp add: power_increasing)
  then have "take_bit LENGTH('a) (sint v) = sint v"
    using nn by (simp add: take_bit_int_eq_self_iff)
  then show ?thesis by (simp add: uint_sint)
qed

lemma uint_drop_bit: "uint (drop_bit n w) = uint w div 2 ^ n" for w :: "'a::len word"
  unfolding drop_bit_eq_div [symmetric, where 'a = int]
  by (rule bit_eqI) (auto simp: bit_simps dest: bit_imp_le_length)

lemma sint_of_int_range:
  "- (2 ^ (LENGTH('a) - 1)) \<le> k \<Longrightarrow> k < 2 ^ (LENGTH('a) - 1) \<Longrightarrow> sint (word_of_int k :: 'a::len word) = k"
  by (simp add: sint_sbintrunc' signed_take_bit_int_eq_self)

lemma sint_eq_0_iff: "sint b = 0 \<longleftrightarrow> b = 0" for b :: "'a::len word"
  by (metis signed_word_eqI sint_0)

lemma word_of_int_take_bit_64: "(word_of_int (take_bit LENGTH(64) k) :: u32) = word_of_int k"
  by (rule bit_word_eqI) (auto simp: bit_simps)

lemma ucast_down_add [cast_simps]: "(ucast (a + b) :: u32) = ucast a + ucast b" for a b :: u64
  by (simp only: ucast_eq uint_word_arith_bintrs word_of_int_take_bit_64 wi_hom_add)

lemma ucast_down_diff [cast_simps]: "(ucast (a - b) :: u32) = ucast a - ucast b" for a b :: u64
  by (simp only: ucast_eq uint_word_arith_bintrs word_of_int_take_bit_64 wi_hom_sub)

lemma ucast_down_mult [cast_simps]: "(ucast (a * b) :: u32) = ucast a * ucast b" for a b :: u64
  by (simp only: ucast_eq uint_word_arith_bintrs word_of_int_take_bit_64 wi_hom_mult)

lemma ucast_down_scast [cast_simps]: "(ucast (scast r :: u64) :: u32) = r" for r :: u32
  by (rule bit_word_eqI) (auto simp: bit_simps)

lemma test_bit_and_1: "drop_bit i w AND 1 \<noteq> 0 \<longleftrightarrow> bit w i" for w :: "'a::len word"
  by (simp add: and_one_eq bit_iff_odd_drop_bit odd_iff_mod_2_eq_one)

lemma uint_eq_sint: "uint w = (if sint w < 0 then sint w + 2 ^ LENGTH('a) else sint w)"
  for w :: "'a::len word"
proof (cases "sint w < 0")
  case True
  have "- (2 ^ LENGTH('a)) \<le> sint w"
    using sint_ge [of w] by (rule order_trans [rotated]) (simp add: power_increasing)
  then have "(sint w + 2 ^ LENGTH('a)) mod 2 ^ LENGTH('a) = sint w + 2 ^ LENGTH('a)"
    using True by (intro mod_pos_pos_trivial) auto
  then show ?thesis
    using True by (simp add: uint_sint take_bit_eq_mod)
next
  case False
  then show ?thesis using sint_nonneg_eq_uint [of w] by simp
qed

lemma sint_scast32 [simp]: "sint (scast x :: u64) = sint x" for x :: u32
  by (rule sint_up_scast) (simp add: is_up)

lemma scast32_less [simp]: "(scast x :: u64) < scast y \<longleftrightarrow> x < y" for x y :: u32
proof -
  note b = sint_ge [of x] sint_lt [of x] sint_ge [of y] sint_lt [of y]
  show ?thesis
    using b by (simp add: word_less_def uint_eq_sint)
qed

lemma scast32_le [simp]: "(scast x :: u64) \<le> scast y \<longleftrightarrow> x \<le> y" for x y :: u32
  by (simp add: linorder_not_less [symmetric])

lemma scast32_eq [simp]: "(scast x :: u64) = scast y \<longleftrightarrow> x = y" for x y :: u32
  by (metis ucast_down_scast)

subsection \<open>Lemmas on byte sequences\<close>

lemma bit_byte_at [bit_simps]:
  "bit (byte_at i (w :: 'a::len word)) n \<longleftrightarrow> n < 8 \<and> bit w (8 * i + n)"
  by (auto simp: byte_at_def bit_simps)

lemma length_le_bytes [simp]: "length (le_bytes n w) = n"
  by (simp add: le_bytes_def)

lemma le_bytes_nth [simp]: "i < n \<Longrightarrow> le_bytes n w ! i = byte_at i w"
  by (simp add: le_bytes_def)

lemma bit_le_word [bit_simps]:
  "bit (le_word bs :: 'a::len word) n \<longleftrightarrow>
     n < LENGTH('a) \<and> n < 8 * length bs \<and> bit (bs ! (n div 8)) (n mod 8)"
proof (induction bs arbitrary: n)
  case Nil
  then show ?case by simp
next
  case (Cons b bs)
  show ?case
  proof (cases "n < 8")
    case True
    then show ?thesis by (auto simp: bit_simps)
  next
    case False
    then obtain m where m: "n = m + 8"
      by (metis add.commute le_add_diff_inverse not_less)
    then have "\<not> bit (ucast b :: 'a word) n"
      by (auto simp: bit_simps dest: bit_imp_le_length)
    then have "bit (le_word (b # bs) :: 'a word) n \<longleftrightarrow>
        n < LENGTH('a) \<and> bit (le_word bs :: 'a word) m"
      using m by (auto simp: bit_simps)
    then show ?thesis
      using m Cons.IH [of m] by (auto simp: div_add_self2)
  qed
qed

lemma le_word_le_bytes:
  "(le_word (le_bytes n w) :: 'a::len word) = take_bit (8 * n) w"
  by (rule bit_word_eqI) (auto simp: bit_simps)

lemma le_bytes_le_word:
  "8 * length bs \<le> LENGTH('a) \<Longrightarrow> le_bytes (length bs) (le_word bs :: 'a::len word) = bs"
  by (rule nth_equalityI, simp, rule bit_word_eqI) (auto simp: bit_simps)

lemma byteswap_involution: "byteswap (byteswap w) = w"
proof -
  have "le_bytes 8 (byteswap w) = rev (le_bytes 8 w)"
    using le_bytes_le_word [of "rev (le_bytes 8 w)", where 'a = 64]
    by (simp add: byteswap_def)
  then have "byteswap (byteswap w) = le_word (le_bytes 8 w)"
    by (simp add: byteswap_def)
  also have "\<dots> = w"
    by (simp add: le_word_le_bytes take_bit_word_eq_self)
  finally show ?thesis .
qed

subsection \<open>Bits of literals\<close>

lemma bit_shifted_mask: "w = push_bit a (mask k) \<Longrightarrow> bit w n \<longleftrightarrow> a \<le> n \<and> n < a + k" for w :: int
  by (auto simp: bit_simps)

text \<open>The contiguous masks that occur as literals.\<close>

lemma bit_mask_literals [bit_simps]:
  "bit (3 :: int) n \<longleftrightarrow> n < 2"
  "bit (7 :: int) n \<longleftrightarrow> n < 3"
  "bit (15 :: int) n \<longleftrightarrow> n < 4"
  "bit (31 :: int) n \<longleftrightarrow> n < 5"
  "bit (63 :: int) n \<longleftrightarrow> n < 6"
  "bit (127 :: int) n \<longleftrightarrow> n < 7"
  "bit (255 :: int) n \<longleftrightarrow> n < 8"
  "bit (1023 :: int) n \<longleftrightarrow> n < 10"
  "bit (4095 :: int) n \<longleftrightarrow> n < 12"
  "bit (65535 :: int) n \<longleftrightarrow> n < 16"
  "bit (4294967295 :: int) n \<longleftrightarrow> n < 32"
  "bit (4293918720 :: int) n \<longleftrightarrow> 20 \<le> n \<and> n < 32"
  "bit (3968 :: int) n \<longleftrightarrow> 7 \<le> n \<and> n < 12"
  "bit (4261412864 :: int) n \<longleftrightarrow> 25 \<le> n \<and> n < 32"
  "bit (2113929216 :: int) n \<longleftrightarrow> 25 \<le> n \<and> n < 31"
  "bit (1044480 :: int) n \<longleftrightarrow> 12 \<le> n \<and> n < 20"
  "bit (4294963200 :: int) n \<longleftrightarrow> 12 \<le> n \<and> n < 32"
  "bit (3840 :: int) n \<longleftrightarrow> 8 \<le> n \<and> n < 12"
  "bit (2145386496 :: int) n \<longleftrightarrow> 21 \<le> n \<and> n < 31"
  "bit (33554400 :: int) n \<longleftrightarrow> 5 \<le> n \<and> n < 25"
  "bit (32505856 :: int) n \<longleftrightarrow> 20 \<le> n \<and> n < 25"
  "bit (1015808 :: int) n \<longleftrightarrow> 15 \<le> n \<and> n < 20"
  "bit (28672 :: int) n \<longleftrightarrow> 12 \<le> n \<and> n < 15"
  "bit (4294967264 :: int) n \<longleftrightarrow> 5 \<le> n \<and> n < 32"
  "bit (4294965248 :: int) n \<longleftrightarrow> 11 \<le> n \<and> n < 32"
  "bit (4294836224 :: int) n \<longleftrightarrow> 17 \<le> n \<and> n < 32"
  "bit (4294966784 :: int) n \<longleftrightarrow> 9 \<le> n \<and> n < 32"
  "bit (4294967040 :: int) n \<longleftrightarrow> 8 \<le> n \<and> n < 32"
  using bit_shifted_mask [of 3 0 2 n]
    bit_shifted_mask [of 7 0 3 n]
    bit_shifted_mask [of 15 0 4 n]
    bit_shifted_mask [of 31 0 5 n]
    bit_shifted_mask [of 63 0 6 n]
    bit_shifted_mask [of 127 0 7 n]
    bit_shifted_mask [of 255 0 8 n]
    bit_shifted_mask [of 1023 0 10 n]
    bit_shifted_mask [of 4095 0 12 n]
    bit_shifted_mask [of 65535 0 16 n]
    bit_shifted_mask [of 4294967295 0 32 n]
    bit_shifted_mask [of 4293918720 20 12 n]
    bit_shifted_mask [of 3968 7 5 n]
    bit_shifted_mask [of 4261412864 25 7 n]
    bit_shifted_mask [of 2113929216 25 6 n]
    bit_shifted_mask [of 1044480 12 8 n]
    bit_shifted_mask [of 4294963200 12 20 n]
    bit_shifted_mask [of 3840 8 4 n]
    bit_shifted_mask [of 2145386496 21 10 n]
    bit_shifted_mask [of 33554400 5 20 n]
    bit_shifted_mask [of 32505856 20 5 n]
    bit_shifted_mask [of 1015808 15 5 n]
    bit_shifted_mask [of 28672 12 3 n]
    bit_shifted_mask [of 4294967264 5 27 n]
    bit_shifted_mask [of 4294965248 11 21 n]
    bit_shifted_mask [of 4294836224 17 15 n]
    bit_shifted_mask [of 4294966784 9 23 n]
    bit_shifted_mask [of 4294967040 8 24 n]
  by (simp_all add: mask_eq_exp_minus_1 push_bit_eq_mult numeral_2_eq_2)

lemma bit_single: "w = 2 ^ a \<Longrightarrow> bit w n \<longleftrightarrow> n = a" for w :: int
  by (auto simp: bit_simps)

lemma bit_single_literals [bit_simps]:
  "bit (2 :: int) n \<longleftrightarrow> n = 1"
  "bit (4 :: int) n \<longleftrightarrow> n = 2"
  "bit (8 :: int) n \<longleftrightarrow> n = 3"
  "bit (16 :: int) n \<longleftrightarrow> n = 4"
  "bit (32 :: int) n \<longleftrightarrow> n = 5"
  "bit (64 :: int) n \<longleftrightarrow> n = 6"
  "bit (128 :: int) n \<longleftrightarrow> n = 7"
  "bit (256 :: int) n \<longleftrightarrow> n = 8"
  "bit (512 :: int) n \<longleftrightarrow> n = 9"
  "bit (1024 :: int) n \<longleftrightarrow> n = 10"
  "bit (2048 :: int) n \<longleftrightarrow> n = 11"
  "bit (4096 :: int) n \<longleftrightarrow> n = 12"
  "bit (8192 :: int) n \<longleftrightarrow> n = 13"
  "bit (16384 :: int) n \<longleftrightarrow> n = 14"
  "bit (32768 :: int) n \<longleftrightarrow> n = 15"
  "bit (65536 :: int) n \<longleftrightarrow> n = 16"
  "bit (131072 :: int) n \<longleftrightarrow> n = 17"
  "bit (262144 :: int) n \<longleftrightarrow> n = 18"
  "bit (524288 :: int) n \<longleftrightarrow> n = 19"
  "bit (1048576 :: int) n \<longleftrightarrow> n = 20"
  "bit (2097152 :: int) n \<longleftrightarrow> n = 21"
  "bit (4194304 :: int) n \<longleftrightarrow> n = 22"
  "bit (8388608 :: int) n \<longleftrightarrow> n = 23"
  "bit (16777216 :: int) n \<longleftrightarrow> n = 24"
  "bit (33554432 :: int) n \<longleftrightarrow> n = 25"
  "bit (67108864 :: int) n \<longleftrightarrow> n = 26"
  "bit (134217728 :: int) n \<longleftrightarrow> n = 27"
  "bit (268435456 :: int) n \<longleftrightarrow> n = 28"
  "bit (536870912 :: int) n \<longleftrightarrow> n = 29"
  "bit (1073741824 :: int) n \<longleftrightarrow> n = 30"
  "bit (2147483648 :: int) n \<longleftrightarrow> n = 31"
  "bit (4294967296 :: int) n \<longleftrightarrow> n = 32"
  "bit (8589934592 :: int) n \<longleftrightarrow> n = 33"
  "bit (17179869184 :: int) n \<longleftrightarrow> n = 34"
  "bit (34359738368 :: int) n \<longleftrightarrow> n = 35"
  "bit (68719476736 :: int) n \<longleftrightarrow> n = 36"
  "bit (137438953472 :: int) n \<longleftrightarrow> n = 37"
  "bit (274877906944 :: int) n \<longleftrightarrow> n = 38"
  "bit (549755813888 :: int) n \<longleftrightarrow> n = 39"
  "bit (1099511627776 :: int) n \<longleftrightarrow> n = 40"
  "bit (2199023255552 :: int) n \<longleftrightarrow> n = 41"
  "bit (4398046511104 :: int) n \<longleftrightarrow> n = 42"
  "bit (8796093022208 :: int) n \<longleftrightarrow> n = 43"
  "bit (17592186044416 :: int) n \<longleftrightarrow> n = 44"
  "bit (35184372088832 :: int) n \<longleftrightarrow> n = 45"
  "bit (70368744177664 :: int) n \<longleftrightarrow> n = 46"
  "bit (140737488355328 :: int) n \<longleftrightarrow> n = 47"
  "bit (281474976710656 :: int) n \<longleftrightarrow> n = 48"
  "bit (562949953421312 :: int) n \<longleftrightarrow> n = 49"
  "bit (1125899906842624 :: int) n \<longleftrightarrow> n = 50"
  "bit (2251799813685248 :: int) n \<longleftrightarrow> n = 51"
  "bit (4503599627370496 :: int) n \<longleftrightarrow> n = 52"
  "bit (9007199254740992 :: int) n \<longleftrightarrow> n = 53"
  "bit (18014398509481984 :: int) n \<longleftrightarrow> n = 54"
  "bit (36028797018963968 :: int) n \<longleftrightarrow> n = 55"
  "bit (72057594037927936 :: int) n \<longleftrightarrow> n = 56"
  "bit (144115188075855872 :: int) n \<longleftrightarrow> n = 57"
  "bit (288230376151711744 :: int) n \<longleftrightarrow> n = 58"
  "bit (576460752303423488 :: int) n \<longleftrightarrow> n = 59"
  "bit (1152921504606846976 :: int) n \<longleftrightarrow> n = 60"
  "bit (2305843009213693952 :: int) n \<longleftrightarrow> n = 61"
  "bit (4611686018427387904 :: int) n \<longleftrightarrow> n = 62"
  "bit (9223372036854775808 :: int) n \<longleftrightarrow> n = 63"
  by (rule bit_single, simp)+

lemma bit_beyond: "LENGTH('a) \<le> n \<Longrightarrow> \<not> bit w n" for w :: "'a::len word"
  by (auto dest: bit_imp_le_length)

lemma below_32: "(\<forall>n < 32. P n) \<longleftrightarrow> P 0 \<and> P 1 \<and> P 2 \<and> P 3 \<and> P 4 \<and> P 5 \<and> P 6 \<and> P 7 \<and> P 8 \<and> P 9 \<and> P 10 \<and> P 11 \<and> P 12 \<and> P 13 \<and> P 14 \<and> P 15 \<and> P 16 \<and> P 17 \<and> P 18 \<and> P 19 \<and> P 20 \<and> P 21 \<and> P 22 \<and> P 23 \<and> P 24 \<and> P 25 \<and> P 26 \<and> P 27 \<and> P 28 \<and> P 29 \<and> P 30 \<and> P 31" for P :: "nat \<Rightarrow> bool"
  by (simp add: numeral_eq_Suc All_less_Suc conj_ac)

lemma word32_eqI: "(\<forall>n < 32. bit a n = bit b n) \<Longrightarrow> a = b" for a b :: u32
  by (rule bit_word_eqI) simp

subsection \<open>Fields of 64-bit registers\<close>

text \<open>\<open>bits_within v m\<close> says that a register value has no bit outside the mask \<open>m\<close>.\<close>

lemma bit_masks_csr [bit_simps]:
  "bit (1536 :: int) n \<longleftrightarrow> 9 \<le> n \<and> n < 11"
  "bit (6144 :: int) n \<longleftrightarrow> 11 \<le> n \<and> n < 13"
  "bit (24576 :: int) n \<longleftrightarrow> 13 \<le> n \<and> n < 15"
  "bit (98304 :: int) n \<longleftrightarrow> 15 \<le> n \<and> n < 17"
  "bit (17592186044415 :: int) n \<longleftrightarrow> n < 44"
  "bit (4194303 :: int) n \<longleftrightarrow> n < 22"
  "bit (511 :: int) n \<longleftrightarrow> n < 9"
  using bit_shifted_mask [of 1536 9 2 n] bit_shifted_mask [of 6144 11 2 n]
    bit_shifted_mask [of 24576 13 2 n] bit_shifted_mask [of 98304 15 2 n]
    bit_shifted_mask [of 17592186044415 0 44 n] bit_shifted_mask [of 4194303 0 22 n]
    bit_shifted_mask [of 511 0 9 n]
  by (simp_all add: mask_eq_exp_minus_1 push_bit_eq_mult numeral_2_eq_2)

lemma below_64: "(\<forall>n < 64. P n) \<longleftrightarrow> P 0 \<and> P 1 \<and> P 2 \<and> P 3 \<and> P 4 \<and> P 5 \<and> P 6 \<and> P 7 \<and> P 8 \<and> P 9 \<and> P 10 \<and> P 11 \<and> P 12 \<and> P 13 \<and> P 14 \<and> P 15 \<and> P 16 \<and> P 17 \<and> P 18 \<and> P 19 \<and> P 20 \<and> P 21 \<and> P 22 \<and> P 23 \<and> P 24 \<and> P 25 \<and> P 26 \<and> P 27 \<and> P 28 \<and> P 29 \<and> P 30 \<and> P 31 \<and> P 32 \<and> P 33 \<and> P 34 \<and> P 35 \<and> P 36 \<and> P 37 \<and> P 38 \<and> P 39 \<and> P 40 \<and> P 41 \<and> P 42 \<and> P 43 \<and> P 44 \<and> P 45 \<and> P 46 \<and> P 47 \<and> P 48 \<and> P 49 \<and> P 50 \<and> P 51 \<and> P 52 \<and> P 53 \<and> P 54 \<and> P 55 \<and> P 56 \<and> P 57 \<and> P 58 \<and> P 59 \<and> P 60 \<and> P 61 \<and> P 62 \<and> P 63" for P :: "nat \<Rightarrow> bool"
  by (simp add: numeral_eq_Suc All_less_Suc conj_ac)

lemma bit64_tableI:
  "\<forall>n < 64. bit w n = F n \<Longrightarrow> \<forall>n. F n \<longrightarrow> n < 64 \<Longrightarrow> bit w n = F n" for w :: u64
  by (cases "n < 64") (auto dest: bit_imp_le_length)

lemma and_push_bit_1_eq_0 [simp]: "v AND push_bit n 1 = 0 \<longleftrightarrow> \<not> bit v n" for v :: "'a::len word"
  by (simp add: push_bit_of_1 and_exp_eq_0_iff_not_bit)

lemma single_bit_tests:
  "v AND 1 = 0 \<longleftrightarrow> \<not> bit v 0"
  "v AND 2 = 0 \<longleftrightarrow> \<not> bit v 1"
  "v AND 4 = 0 \<longleftrightarrow> \<not> bit v 2"
  "v AND 8 = 0 \<longleftrightarrow> \<not> bit v 3"
  "v AND 16 = 0 \<longleftrightarrow> \<not> bit v 4"
  "v AND 32 = 0 \<longleftrightarrow> \<not> bit v 5"
  "v AND 64 = 0 \<longleftrightarrow> \<not> bit v 6"
  "v AND 128 = 0 \<longleftrightarrow> \<not> bit v 7"
  "v AND 256 = 0 \<longleftrightarrow> \<not> bit v 8"
  "v AND 512 = 0 \<longleftrightarrow> \<not> bit v 9"
  "v AND 1024 = 0 \<longleftrightarrow> \<not> bit v 10"
  "v AND 2048 = 0 \<longleftrightarrow> \<not> bit v 11"
  "v AND 4096 = 0 \<longleftrightarrow> \<not> bit v 12"
  "v AND 8192 = 0 \<longleftrightarrow> \<not> bit v 13"
  "v AND 16384 = 0 \<longleftrightarrow> \<not> bit v 14"
  "v AND 32768 = 0 \<longleftrightarrow> \<not> bit v 15"
  "v AND 65536 = 0 \<longleftrightarrow> \<not> bit v 16"
  "v AND 131072 = 0 \<longleftrightarrow> \<not> bit v 17"
  "v AND 262144 = 0 \<longleftrightarrow> \<not> bit v 18"
  "v AND 524288 = 0 \<longleftrightarrow> \<not> bit v 19"
  "v AND 1048576 = 0 \<longleftrightarrow> \<not> bit v 20"
  "v AND 2097152 = 0 \<longleftrightarrow> \<not> bit v 21"
  "v AND 4194304 = 0 \<longleftrightarrow> \<not> bit v 22"
  "v AND 8388608 = 0 \<longleftrightarrow> \<not> bit v 23"
  "v AND 2147483648 = 0 \<longleftrightarrow> \<not> bit v 31"
  "v AND 4294967296 = 0 \<longleftrightarrow> \<not> bit v 32"
  "v AND 9223372036854775808 = 0 \<longleftrightarrow> \<not> bit v 63"
  for v :: u64
  using and_exp_eq_0_iff_not_bit [of v 0] and_exp_eq_0_iff_not_bit [of v 1] and_exp_eq_0_iff_not_bit [of v 2] and_exp_eq_0_iff_not_bit [of v 3] and_exp_eq_0_iff_not_bit [of v 4] and_exp_eq_0_iff_not_bit [of v 5] and_exp_eq_0_iff_not_bit [of v 6] and_exp_eq_0_iff_not_bit [of v 7] and_exp_eq_0_iff_not_bit [of v 8] and_exp_eq_0_iff_not_bit [of v 9] and_exp_eq_0_iff_not_bit [of v 10] and_exp_eq_0_iff_not_bit [of v 11] and_exp_eq_0_iff_not_bit [of v 12] and_exp_eq_0_iff_not_bit [of v 13] and_exp_eq_0_iff_not_bit [of v 14] and_exp_eq_0_iff_not_bit [of v 15] and_exp_eq_0_iff_not_bit [of v 16] and_exp_eq_0_iff_not_bit [of v 17] and_exp_eq_0_iff_not_bit [of v 18] and_exp_eq_0_iff_not_bit [of v 19] and_exp_eq_0_iff_not_bit [of v 20] and_exp_eq_0_iff_not_bit [of v 21] and_exp_eq_0_iff_not_bit [of v 22] and_exp_eq_0_iff_not_bit [of v 23] and_exp_eq_0_iff_not_bit [of v 31] and_exp_eq_0_iff_not_bit [of v 32] and_exp_eq_0_iff_not_bit [of v 63]
  by simp_all

definition bits_within :: "CSRValue \<Rightarrow> CSRValue \<Rightarrow> bool" where
  "bits_within v m \<longleftrightarrow> v AND NOT m = 0"

lemma bits_within_iff: "bits_within v m \<longleftrightarrow> (\<forall>n. bit v n \<longrightarrow> bit m n)"
proof
  assume w: "bits_within v m"
  show "\<forall>n. bit v n \<longrightarrow> bit m n"
  proof (intro allI impI)
    fix n assume "bit v n"
    moreover from this have "n < 64" by (auto dest: bit_imp_le_length)
    moreover have "\<not> bit (v AND NOT m) n" using w by (simp add: bits_within_def)
    ultimately show "bit m n" by (simp add: bit_simps)
  qed
next
  assume "\<forall>n. bit v n \<longrightarrow> bit m n"
  then show "bits_within v m"
    unfolding bits_within_def by (intro bit_word_eqI) (auto simp: bit_simps)
qed

lemma two_bit_field: "drop_bit i w AND 3 = (if bit w i then if bit w (Suc i) then 3 else 1 else if bit w (Suc i) then 2 else 0)" for w :: u64
  by (rule bit_word_eqI) (rename_tac n, case_tac n, auto simp: bit_simps, rename_tac m, case_tac m, auto simp: bit_simps)
end
