(* ===== verification/Operation_Id.thy ===== *)
theory Operation_Id
  imports Prelude
begin

text \<open>
  The operation identifiers of \<^verbatim>\<open>include/simrv/isa/OperationId.hpp\<close>. The source declares an
  unscoped enumeration over \<^verbatim>\<open>uint16_t\<close> whose enumerators are numbered from 0 in the order of
  their declaration, and the code relies on that numbering: it tests ranges
  (\<^verbatim>\<open>op_id >= VSETVLI && op_id <= VWSLL_VI\<close>) and indexes arrays with it. Each enumerator is
  therefore its number as a 16-bit word. The names \<open>AND\<close>, \<open>OR\<close>, \<open>XOR\<close>, \<open>MIN\<close> and \<open>MAX\<close>
  are operators of the logic, so those five carry the suffix \<open>_op\<close>.
\<close>

type_synonym OperationId = u16


subsection \<open>RV32I\<close>

abbreviation (input) LUI :: OperationId where "LUI \<equiv> 0"
abbreviation (input) AUIPC :: OperationId where "AUIPC \<equiv> 1"
abbreviation (input) JAL :: OperationId where "JAL \<equiv> 2"
abbreviation (input) JALR :: OperationId where "JALR \<equiv> 3"
abbreviation (input) BEQ :: OperationId where "BEQ \<equiv> 4"
abbreviation (input) BNE :: OperationId where "BNE \<equiv> 5"
abbreviation (input) BLT :: OperationId where "BLT \<equiv> 6"
abbreviation (input) BGE :: OperationId where "BGE \<equiv> 7"
abbreviation (input) BLTU :: OperationId where "BLTU \<equiv> 8"
abbreviation (input) BGEU :: OperationId where "BGEU \<equiv> 9"
abbreviation (input) LB :: OperationId where "LB \<equiv> 10"
abbreviation (input) LH :: OperationId where "LH \<equiv> 11"
abbreviation (input) LW :: OperationId where "LW \<equiv> 12"
abbreviation (input) LD :: OperationId where "LD \<equiv> 13"
abbreviation (input) LBU :: OperationId where "LBU \<equiv> 14"
abbreviation (input) LHU :: OperationId where "LHU \<equiv> 15"
abbreviation (input) LWU :: OperationId where "LWU \<equiv> 16"
abbreviation (input) SB :: OperationId where "SB \<equiv> 17"
abbreviation (input) SH :: OperationId where "SH \<equiv> 18"
abbreviation (input) SW :: OperationId where "SW \<equiv> 19"
abbreviation (input) SD :: OperationId where "SD \<equiv> 20"
abbreviation (input) ADDI :: OperationId where "ADDI \<equiv> 21"
abbreviation (input) SLTI :: OperationId where "SLTI \<equiv> 22"
abbreviation (input) SLTIU :: OperationId where "SLTIU \<equiv> 23"
abbreviation (input) XORI :: OperationId where "XORI \<equiv> 24"
abbreviation (input) ORI :: OperationId where "ORI \<equiv> 25"
abbreviation (input) ANDI :: OperationId where "ANDI \<equiv> 26"
abbreviation (input) SLLI :: OperationId where "SLLI \<equiv> 27"
abbreviation (input) SRLI :: OperationId where "SRLI \<equiv> 28"
abbreviation (input) SRAI :: OperationId where "SRAI \<equiv> 29"
abbreviation (input) ADDIW :: OperationId where "ADDIW \<equiv> 30"
abbreviation (input) SLLIW :: OperationId where "SLLIW \<equiv> 31"
abbreviation (input) SRLIW :: OperationId where "SRLIW \<equiv> 32"
abbreviation (input) SRAIW :: OperationId where "SRAIW \<equiv> 33"
abbreviation (input) ADD :: OperationId where "ADD \<equiv> 34"
abbreviation (input) SUB :: OperationId where "SUB \<equiv> 35"
abbreviation (input) SLL :: OperationId where "SLL \<equiv> 36"
abbreviation (input) SLT :: OperationId where "SLT \<equiv> 37"
abbreviation (input) SLTU :: OperationId where "SLTU \<equiv> 38"
abbreviation (input) XOR_op :: OperationId where "XOR_op \<equiv> 39"
abbreviation (input) SRL :: OperationId where "SRL \<equiv> 40"
abbreviation (input) SRA :: OperationId where "SRA \<equiv> 41"
abbreviation (input) OR_op :: OperationId where "OR_op \<equiv> 42"
abbreviation (input) AND_op :: OperationId where "AND_op \<equiv> 43"
abbreviation (input) ADDW :: OperationId where "ADDW \<equiv> 44"
abbreviation (input) SUBW :: OperationId where "SUBW \<equiv> 45"
abbreviation (input) SLLW :: OperationId where "SLLW \<equiv> 46"
abbreviation (input) SRLW :: OperationId where "SRLW \<equiv> 47"
abbreviation (input) SRAW :: OperationId where "SRAW \<equiv> 48"
abbreviation (input) FENCE :: OperationId where "FENCE \<equiv> 49"
abbreviation (input) FENCE_I :: OperationId where "FENCE_I \<equiv> 50"
abbreviation (input) ECALL :: OperationId where "ECALL \<equiv> 51"
abbreviation (input) EBREAK :: OperationId where "EBREAK \<equiv> 52"
abbreviation (input) CSRRW :: OperationId where "CSRRW \<equiv> 53"
abbreviation (input) CSRRS :: OperationId where "CSRRS \<equiv> 54"
abbreviation (input) CSRRC :: OperationId where "CSRRC \<equiv> 55"
abbreviation (input) CSRRWI :: OperationId where "CSRRWI \<equiv> 56"
abbreviation (input) CSRRSI :: OperationId where "CSRRSI \<equiv> 57"
abbreviation (input) CSRRCI :: OperationId where "CSRRCI \<equiv> 58"

subsection \<open>Privileged\<close>

abbreviation (input) URET :: OperationId where "URET \<equiv> 59"
abbreviation (input) SRET :: OperationId where "SRET \<equiv> 60"
abbreviation (input) MRET :: OperationId where "MRET \<equiv> 61"
abbreviation (input) WFI :: OperationId where "WFI \<equiv> 62"
abbreviation (input) SFENCE_VMA :: OperationId where "SFENCE_VMA \<equiv> 63"

subsection \<open>RV32M\<close>

abbreviation (input) MUL :: OperationId where "MUL \<equiv> 64"
abbreviation (input) MULH :: OperationId where "MULH \<equiv> 65"
abbreviation (input) MULHSU :: OperationId where "MULHSU \<equiv> 66"
abbreviation (input) MULHU :: OperationId where "MULHU \<equiv> 67"
abbreviation (input) DIV :: OperationId where "DIV \<equiv> 68"
abbreviation (input) DIVU :: OperationId where "DIVU \<equiv> 69"
abbreviation (input) REM :: OperationId where "REM \<equiv> 70"
abbreviation (input) REMU :: OperationId where "REMU \<equiv> 71"
abbreviation (input) MULW :: OperationId where "MULW \<equiv> 72"
abbreviation (input) DIVW :: OperationId where "DIVW \<equiv> 73"
abbreviation (input) DIVUW :: OperationId where "DIVUW \<equiv> 74"
abbreviation (input) REMW :: OperationId where "REMW \<equiv> 75"
abbreviation (input) REMUW :: OperationId where "REMUW \<equiv> 76"

subsection \<open>RV32A\<close>

abbreviation (input) LR_W :: OperationId where "LR_W \<equiv> 77"
abbreviation (input) SC_W :: OperationId where "SC_W \<equiv> 78"
abbreviation (input) AMOSWAP_W :: OperationId where "AMOSWAP_W \<equiv> 79"
abbreviation (input) AMOADD_W :: OperationId where "AMOADD_W \<equiv> 80"
abbreviation (input) AMOXOR_W :: OperationId where "AMOXOR_W \<equiv> 81"
abbreviation (input) AMOAND_W :: OperationId where "AMOAND_W \<equiv> 82"
abbreviation (input) AMOOR_W :: OperationId where "AMOOR_W \<equiv> 83"
abbreviation (input) AMOMIN_W :: OperationId where "AMOMIN_W \<equiv> 84"
abbreviation (input) AMOMAX_W :: OperationId where "AMOMAX_W \<equiv> 85"
abbreviation (input) AMOMINU_W :: OperationId where "AMOMINU_W \<equiv> 86"
abbreviation (input) AMOMAXU_W :: OperationId where "AMOMAXU_W \<equiv> 87"

subsection \<open>RV64A\<close>

abbreviation (input) LR_D :: OperationId where "LR_D \<equiv> 88"
abbreviation (input) SC_D :: OperationId where "SC_D \<equiv> 89"
abbreviation (input) AMOSWAP_D :: OperationId where "AMOSWAP_D \<equiv> 90"
abbreviation (input) AMOADD_D :: OperationId where "AMOADD_D \<equiv> 91"
abbreviation (input) AMOXOR_D :: OperationId where "AMOXOR_D \<equiv> 92"
abbreviation (input) AMOAND_D :: OperationId where "AMOAND_D \<equiv> 93"
abbreviation (input) AMOOR_D :: OperationId where "AMOOR_D \<equiv> 94"
abbreviation (input) AMOMIN_D :: OperationId where "AMOMIN_D \<equiv> 95"
abbreviation (input) AMOMAX_D :: OperationId where "AMOMAX_D \<equiv> 96"
abbreviation (input) AMOMINU_D :: OperationId where "AMOMINU_D \<equiv> 97"
abbreviation (input) AMOMAXU_D :: OperationId where "AMOMAXU_D \<equiv> 98"

subsection \<open>RV32F\<close>

abbreviation (input) FLW :: OperationId where "FLW \<equiv> 99"
abbreviation (input) FSW :: OperationId where "FSW \<equiv> 100"
abbreviation (input) FMADD_S :: OperationId where "FMADD_S \<equiv> 101"
abbreviation (input) FMSUB_S :: OperationId where "FMSUB_S \<equiv> 102"
abbreviation (input) FNMADD_S :: OperationId where "FNMADD_S \<equiv> 103"
abbreviation (input) FNMSUB_S :: OperationId where "FNMSUB_S \<equiv> 104"
abbreviation (input) FADD_S :: OperationId where "FADD_S \<equiv> 105"
abbreviation (input) FSUB_S :: OperationId where "FSUB_S \<equiv> 106"
abbreviation (input) FMUL_S :: OperationId where "FMUL_S \<equiv> 107"
abbreviation (input) FDIV_S :: OperationId where "FDIV_S \<equiv> 108"
abbreviation (input) FSQRT_S :: OperationId where "FSQRT_S \<equiv> 109"
abbreviation (input) FSGNJ_S :: OperationId where "FSGNJ_S \<equiv> 110"
abbreviation (input) FSGNJN_S :: OperationId where "FSGNJN_S \<equiv> 111"
abbreviation (input) FSGNJX_S :: OperationId where "FSGNJX_S \<equiv> 112"
abbreviation (input) FMIN_S :: OperationId where "FMIN_S \<equiv> 113"
abbreviation (input) FMAX_S :: OperationId where "FMAX_S \<equiv> 114"
abbreviation (input) FCVT_W_S :: OperationId where "FCVT_W_S \<equiv> 115"
abbreviation (input) FCVT_WU_S :: OperationId where "FCVT_WU_S \<equiv> 116"
abbreviation (input) FMV_X_W :: OperationId where "FMV_X_W \<equiv> 117"
abbreviation (input) FEQ_S :: OperationId where "FEQ_S \<equiv> 118"
abbreviation (input) FLT_S :: OperationId where "FLT_S \<equiv> 119"
abbreviation (input) FLE_S :: OperationId where "FLE_S \<equiv> 120"
abbreviation (input) FCLASS_S :: OperationId where "FCLASS_S \<equiv> 121"
abbreviation (input) FCVT_S_W :: OperationId where "FCVT_S_W \<equiv> 122"
abbreviation (input) FCVT_S_WU :: OperationId where "FCVT_S_WU \<equiv> 123"
abbreviation (input) FMV_W_X :: OperationId where "FMV_W_X \<equiv> 124"
abbreviation (input) FCVT_L_S :: OperationId where "FCVT_L_S \<equiv> 125"
abbreviation (input) FCVT_LU_S :: OperationId where "FCVT_LU_S \<equiv> 126"
abbreviation (input) FCVT_S_L :: OperationId where "FCVT_S_L \<equiv> 127"
abbreviation (input) FCVT_S_LU :: OperationId where "FCVT_S_LU \<equiv> 128"

subsection \<open>RV32D\<close>

abbreviation (input) FLD :: OperationId where "FLD \<equiv> 129"
abbreviation (input) FSD :: OperationId where "FSD \<equiv> 130"
abbreviation (input) FMADD_D :: OperationId where "FMADD_D \<equiv> 131"
abbreviation (input) FMSUB_D :: OperationId where "FMSUB_D \<equiv> 132"
abbreviation (input) FNMSUB_D :: OperationId where "FNMSUB_D \<equiv> 133"
abbreviation (input) FNMADD_D :: OperationId where "FNMADD_D \<equiv> 134"
abbreviation (input) FADD_D :: OperationId where "FADD_D \<equiv> 135"
abbreviation (input) FSUB_D :: OperationId where "FSUB_D \<equiv> 136"
abbreviation (input) FMUL_D :: OperationId where "FMUL_D \<equiv> 137"
abbreviation (input) FDIV_D :: OperationId where "FDIV_D \<equiv> 138"
abbreviation (input) FSQRT_D :: OperationId where "FSQRT_D \<equiv> 139"
abbreviation (input) FSGNJ_D :: OperationId where "FSGNJ_D \<equiv> 140"
abbreviation (input) FSGNJN_D :: OperationId where "FSGNJN_D \<equiv> 141"
abbreviation (input) FSGNJX_D :: OperationId where "FSGNJX_D \<equiv> 142"
abbreviation (input) FMIN_D :: OperationId where "FMIN_D \<equiv> 143"
abbreviation (input) FMAX_D :: OperationId where "FMAX_D \<equiv> 144"
abbreviation (input) FCVT_S_D :: OperationId where "FCVT_S_D \<equiv> 145"
abbreviation (input) FCVT_D_S :: OperationId where "FCVT_D_S \<equiv> 146"
abbreviation (input) FEQ_D :: OperationId where "FEQ_D \<equiv> 147"
abbreviation (input) FLT_D :: OperationId where "FLT_D \<equiv> 148"
abbreviation (input) FLE_D :: OperationId where "FLE_D \<equiv> 149"
abbreviation (input) FCLASS_D :: OperationId where "FCLASS_D \<equiv> 150"
abbreviation (input) FCVT_W_D :: OperationId where "FCVT_W_D \<equiv> 151"
abbreviation (input) FCVT_WU_D :: OperationId where "FCVT_WU_D \<equiv> 152"
abbreviation (input) FCVT_D_W :: OperationId where "FCVT_D_W \<equiv> 153"
abbreviation (input) FCVT_D_WU :: OperationId where "FCVT_D_WU \<equiv> 154"
abbreviation (input) FMV_X_D :: OperationId where "FMV_X_D \<equiv> 155"
abbreviation (input) FMV_D_X :: OperationId where "FMV_D_X \<equiv> 156"
abbreviation (input) FCVT_L_D :: OperationId where "FCVT_L_D \<equiv> 157"
abbreviation (input) FCVT_LU_D :: OperationId where "FCVT_LU_D \<equiv> 158"
abbreviation (input) FCVT_D_L :: OperationId where "FCVT_D_L \<equiv> 159"
abbreviation (input) FCVT_D_LU :: OperationId where "FCVT_D_LU \<equiv> 160"

subsection \<open>Bitmanip (B) Extension\<close>

abbreviation (input) SH1ADD :: OperationId where "SH1ADD \<equiv> 161"
abbreviation (input) SH2ADD :: OperationId where "SH2ADD \<equiv> 162"
abbreviation (input) SH3ADD :: OperationId where "SH3ADD \<equiv> 163"
abbreviation (input) SH1ADD_UW :: OperationId where "SH1ADD_UW \<equiv> 164"
abbreviation (input) SH2ADD_UW :: OperationId where "SH2ADD_UW \<equiv> 165"
abbreviation (input) SH3ADD_UW :: OperationId where "SH3ADD_UW \<equiv> 166"
abbreviation (input) ADD_UW :: OperationId where "ADD_UW \<equiv> 167"
abbreviation (input) SLLI_UW :: OperationId where "SLLI_UW \<equiv> 168"
abbreviation (input) ANDN :: OperationId where "ANDN \<equiv> 169"
abbreviation (input) ORN :: OperationId where "ORN \<equiv> 170"
abbreviation (input) XNOR :: OperationId where "XNOR \<equiv> 171"
abbreviation (input) CLZ :: OperationId where "CLZ \<equiv> 172"
abbreviation (input) CTZ :: OperationId where "CTZ \<equiv> 173"
abbreviation (input) CPOP :: OperationId where "CPOP \<equiv> 174"
abbreviation (input) MIN_op :: OperationId where "MIN_op \<equiv> 175"
abbreviation (input) MAX_op :: OperationId where "MAX_op \<equiv> 176"
abbreviation (input) MINU :: OperationId where "MINU \<equiv> 177"
abbreviation (input) MAXU :: OperationId where "MAXU \<equiv> 178"
abbreviation (input) SEXT_B :: OperationId where "SEXT_B \<equiv> 179"
abbreviation (input) SEXT_H :: OperationId where "SEXT_H \<equiv> 180"
abbreviation (input) ZEXT_H :: OperationId where "ZEXT_H \<equiv> 181"
abbreviation (input) ROL :: OperationId where "ROL \<equiv> 182"
abbreviation (input) ROR :: OperationId where "ROR \<equiv> 183"
abbreviation (input) RORI :: OperationId where "RORI \<equiv> 184"
abbreviation (input) CLZW :: OperationId where "CLZW \<equiv> 185"
abbreviation (input) CTZW :: OperationId where "CTZW \<equiv> 186"
abbreviation (input) CPOPW :: OperationId where "CPOPW \<equiv> 187"
abbreviation (input) ROLW :: OperationId where "ROLW \<equiv> 188"
abbreviation (input) RORW :: OperationId where "RORW \<equiv> 189"
abbreviation (input) RORIW :: OperationId where "RORIW \<equiv> 190"
abbreviation (input) CLMUL :: OperationId where "CLMUL \<equiv> 191"
abbreviation (input) CLMULH :: OperationId where "CLMULH \<equiv> 192"
abbreviation (input) CLMULR :: OperationId where "CLMULR \<equiv> 193"
abbreviation (input) BSET :: OperationId where "BSET \<equiv> 194"
abbreviation (input) BSETI :: OperationId where "BSETI \<equiv> 195"
abbreviation (input) BCLR :: OperationId where "BCLR \<equiv> 196"
abbreviation (input) BCLRI :: OperationId where "BCLRI \<equiv> 197"
abbreviation (input) BINV :: OperationId where "BINV \<equiv> 198"
abbreviation (input) BINVI :: OperationId where "BINVI \<equiv> 199"
abbreviation (input) BEXT :: OperationId where "BEXT \<equiv> 200"
abbreviation (input) BEXTI :: OperationId where "BEXTI \<equiv> 201"
abbreviation (input) ORC_B :: OperationId where "ORC_B \<equiv> 202"
abbreviation (input) REV8 :: OperationId where "REV8 \<equiv> 203"
abbreviation (input) PACK :: OperationId where "PACK \<equiv> 204"
abbreviation (input) PACKW :: OperationId where "PACKW \<equiv> 205"

subsection \<open>Vector instructions\<close>

abbreviation (input) VSETVLI :: OperationId where "VSETVLI \<equiv> 206"
abbreviation (input) VSETIVLI :: OperationId where "VSETIVLI \<equiv> 207"
abbreviation (input) VSETVL :: OperationId where "VSETVL \<equiv> 208"
abbreviation (input) VLE8_V :: OperationId where "VLE8_V \<equiv> 209"
abbreviation (input) VLE16_V :: OperationId where "VLE16_V \<equiv> 210"
abbreviation (input) VLE32_V :: OperationId where "VLE32_V \<equiv> 211"
abbreviation (input) VLE64_V :: OperationId where "VLE64_V \<equiv> 212"
abbreviation (input) VSE8_V :: OperationId where "VSE8_V \<equiv> 213"
abbreviation (input) VSE16_V :: OperationId where "VSE16_V \<equiv> 214"
abbreviation (input) VSE32_V :: OperationId where "VSE32_V \<equiv> 215"
abbreviation (input) VSE64_V :: OperationId where "VSE64_V \<equiv> 216"
abbreviation (input) VADD_VV :: OperationId where "VADD_VV \<equiv> 217"
abbreviation (input) VADD_VX :: OperationId where "VADD_VX \<equiv> 218"
abbreviation (input) VADD_VI :: OperationId where "VADD_VI \<equiv> 219"
abbreviation (input) VSUB_VV :: OperationId where "VSUB_VV \<equiv> 220"
abbreviation (input) VSUB_VX :: OperationId where "VSUB_VX \<equiv> 221"
abbreviation (input) VMUL_VV :: OperationId where "VMUL_VV \<equiv> 222"
abbreviation (input) VMUL_VX :: OperationId where "VMUL_VX \<equiv> 223"
abbreviation (input) VDIV_VV :: OperationId where "VDIV_VV \<equiv> 224"
abbreviation (input) VDIV_VX :: OperationId where "VDIV_VX \<equiv> 225"
abbreviation (input) VDIVU_VV :: OperationId where "VDIVU_VV \<equiv> 226"
abbreviation (input) VDIVU_VX :: OperationId where "VDIVU_VX \<equiv> 227"
abbreviation (input) VAND_VV :: OperationId where "VAND_VV \<equiv> 228"
abbreviation (input) VAND_VX :: OperationId where "VAND_VX \<equiv> 229"
abbreviation (input) VAND_VI :: OperationId where "VAND_VI \<equiv> 230"
abbreviation (input) VOR_VV :: OperationId where "VOR_VV \<equiv> 231"
abbreviation (input) VOR_VX :: OperationId where "VOR_VX \<equiv> 232"
abbreviation (input) VOR_VI :: OperationId where "VOR_VI \<equiv> 233"
abbreviation (input) VXOR_VV :: OperationId where "VXOR_VV \<equiv> 234"
abbreviation (input) VXOR_VX :: OperationId where "VXOR_VX \<equiv> 235"
abbreviation (input) VXOR_VI :: OperationId where "VXOR_VI \<equiv> 236"
abbreviation (input) VSLL_VV :: OperationId where "VSLL_VV \<equiv> 237"
abbreviation (input) VSLL_VX :: OperationId where "VSLL_VX \<equiv> 238"
abbreviation (input) VSLL_VI :: OperationId where "VSLL_VI \<equiv> 239"
abbreviation (input) VSRL_VV :: OperationId where "VSRL_VV \<equiv> 240"
abbreviation (input) VSRL_VX :: OperationId where "VSRL_VX \<equiv> 241"
abbreviation (input) VSRL_VI :: OperationId where "VSRL_VI \<equiv> 242"
abbreviation (input) VSRA_VV :: OperationId where "VSRA_VV \<equiv> 243"
abbreviation (input) VSRA_VX :: OperationId where "VSRA_VX \<equiv> 244"
abbreviation (input) VSRA_VI :: OperationId where "VSRA_VI \<equiv> 245"
abbreviation (input) VMV_V_V :: OperationId where "VMV_V_V \<equiv> 246"
abbreviation (input) VMV_V_X :: OperationId where "VMV_V_X \<equiv> 247"
abbreviation (input) VMV_V_I :: OperationId where "VMV_V_I \<equiv> 248"
abbreviation (input) VMV_X_S :: OperationId where "VMV_X_S \<equiv> 249"
abbreviation (input) VMV_S_X :: OperationId where "VMV_S_X \<equiv> 250"
abbreviation (input) VMSEQ_VV :: OperationId where "VMSEQ_VV \<equiv> 251"
abbreviation (input) VMSEQ_VX :: OperationId where "VMSEQ_VX \<equiv> 252"
abbreviation (input) VMSEQ_VI :: OperationId where "VMSEQ_VI \<equiv> 253"
abbreviation (input) VMSNE_VV :: OperationId where "VMSNE_VV \<equiv> 254"
abbreviation (input) VMSNE_VX :: OperationId where "VMSNE_VX \<equiv> 255"
abbreviation (input) VMSNE_VI :: OperationId where "VMSNE_VI \<equiv> 256"
abbreviation (input) VMSLT_VV :: OperationId where "VMSLT_VV \<equiv> 257"
abbreviation (input) VMSLT_VX :: OperationId where "VMSLT_VX \<equiv> 258"
abbreviation (input) VMSLTU_VV :: OperationId where "VMSLTU_VV \<equiv> 259"
abbreviation (input) VMSLTU_VX :: OperationId where "VMSLTU_VX \<equiv> 260"
abbreviation (input) VMSLE_VV :: OperationId where "VMSLE_VV \<equiv> 261"
abbreviation (input) VMSLE_VX :: OperationId where "VMSLE_VX \<equiv> 262"
abbreviation (input) VMSLE_VI :: OperationId where "VMSLE_VI \<equiv> 263"
abbreviation (input) VMSLEU_VV :: OperationId where "VMSLEU_VV \<equiv> 264"
abbreviation (input) VMSLEU_VX :: OperationId where "VMSLEU_VX \<equiv> 265"
abbreviation (input) VMSLEU_VI :: OperationId where "VMSLEU_VI \<equiv> 266"
abbreviation (input) VMSGT_VX :: OperationId where "VMSGT_VX \<equiv> 267"
abbreviation (input) VMSGT_VI :: OperationId where "VMSGT_VI \<equiv> 268"
abbreviation (input) VMSGTU_VX :: OperationId where "VMSGTU_VX \<equiv> 269"
abbreviation (input) VMSGTU_VI :: OperationId where "VMSGTU_VI \<equiv> 270"
abbreviation (input) VMERGE_VVM :: OperationId where "VMERGE_VVM \<equiv> 271"
abbreviation (input) VMERGE_VXM :: OperationId where "VMERGE_VXM \<equiv> 272"
abbreviation (input) VMERGE_VIM :: OperationId where "VMERGE_VIM \<equiv> 273"
abbreviation (input) VMACC_VV :: OperationId where "VMACC_VV \<equiv> 274"
abbreviation (input) VMACC_VX :: OperationId where "VMACC_VX \<equiv> 275"
abbreviation (input) VMADD_VV :: OperationId where "VMADD_VV \<equiv> 276"
abbreviation (input) VMADD_VX :: OperationId where "VMADD_VX \<equiv> 277"
abbreviation (input) VNMSAC_VV :: OperationId where "VNMSAC_VV \<equiv> 278"
abbreviation (input) VNMSAC_VX :: OperationId where "VNMSAC_VX \<equiv> 279"
abbreviation (input) VNSUB_VV :: OperationId where "VNSUB_VV \<equiv> 280"
abbreviation (input) VNSUB_VX :: OperationId where "VNSUB_VX \<equiv> 281"
abbreviation (input) VWMACCU_VV :: OperationId where "VWMACCU_VV \<equiv> 282"
abbreviation (input) VWMACCU_VX :: OperationId where "VWMACCU_VX \<equiv> 283"
abbreviation (input) VWMACC_VV :: OperationId where "VWMACC_VV \<equiv> 284"
abbreviation (input) VWMACC_VX :: OperationId where "VWMACC_VX \<equiv> 285"
abbreviation (input) VWMACCUS_VX :: OperationId where "VWMACCUS_VX \<equiv> 286"
abbreviation (input) VWMACCSU_VV :: OperationId where "VWMACCSU_VV \<equiv> 287"
abbreviation (input) VWMACCSU_VX :: OperationId where "VWMACCSU_VX \<equiv> 288"
abbreviation (input) VMIN_VV :: OperationId where "VMIN_VV \<equiv> 289"
abbreviation (input) VMIN_VX :: OperationId where "VMIN_VX \<equiv> 290"
abbreviation (input) VMINU_VV :: OperationId where "VMINU_VV \<equiv> 291"
abbreviation (input) VMINU_VX :: OperationId where "VMINU_VX \<equiv> 292"
abbreviation (input) VMAX_VV :: OperationId where "VMAX_VV \<equiv> 293"
abbreviation (input) VMAX_VX :: OperationId where "VMAX_VX \<equiv> 294"
abbreviation (input) VMAXU_VV :: OperationId where "VMAXU_VV \<equiv> 295"
abbreviation (input) VMAXU_VX :: OperationId where "VMAXU_VX \<equiv> 296"
abbreviation (input) VLSE8_V :: OperationId where "VLSE8_V \<equiv> 297"
abbreviation (input) VLSE16_V :: OperationId where "VLSE16_V \<equiv> 298"
abbreviation (input) VLSE32_V :: OperationId where "VLSE32_V \<equiv> 299"
abbreviation (input) VLSE64_V :: OperationId where "VLSE64_V \<equiv> 300"
abbreviation (input) VSSE8_V :: OperationId where "VSSE8_V \<equiv> 301"
abbreviation (input) VSSE16_V :: OperationId where "VSSE16_V \<equiv> 302"
abbreviation (input) VSSE32_V :: OperationId where "VSSE32_V \<equiv> 303"
abbreviation (input) VSSE64_V :: OperationId where "VSSE64_V \<equiv> 304"
abbreviation (input) VLUXEI8_V :: OperationId where "VLUXEI8_V \<equiv> 305"
abbreviation (input) VLUXEI16_V :: OperationId where "VLUXEI16_V \<equiv> 306"
abbreviation (input) VLUXEI32_V :: OperationId where "VLUXEI32_V \<equiv> 307"
abbreviation (input) VLUXEI64_V :: OperationId where "VLUXEI64_V \<equiv> 308"
abbreviation (input) VLOXEI8_V :: OperationId where "VLOXEI8_V \<equiv> 309"
abbreviation (input) VLOXEI16_V :: OperationId where "VLOXEI16_V \<equiv> 310"
abbreviation (input) VLOXEI32_V :: OperationId where "VLOXEI32_V \<equiv> 311"
abbreviation (input) VLOXEI64_V :: OperationId where "VLOXEI64_V \<equiv> 312"
abbreviation (input) VSUXEI8_V :: OperationId where "VSUXEI8_V \<equiv> 313"
abbreviation (input) VSUXEI16_V :: OperationId where "VSUXEI16_V \<equiv> 314"
abbreviation (input) VSUXEI32_V :: OperationId where "VSUXEI32_V \<equiv> 315"
abbreviation (input) VSUXEI64_V :: OperationId where "VSUXEI64_V \<equiv> 316"
abbreviation (input) VSOXEI8_V :: OperationId where "VSOXEI8_V \<equiv> 317"
abbreviation (input) VSOXEI16_V :: OperationId where "VSOXEI16_V \<equiv> 318"
abbreviation (input) VSOXEI32_V :: OperationId where "VSOXEI32_V \<equiv> 319"
abbreviation (input) VSOXEI64_V :: OperationId where "VSOXEI64_V \<equiv> 320"
abbreviation (input) VID_V :: OperationId where "VID_V \<equiv> 321"
abbreviation (input) VFMACC_VV :: OperationId where "VFMACC_VV \<equiv> 322"
abbreviation (input) VFMACC_VF :: OperationId where "VFMACC_VF \<equiv> 323"
abbreviation (input) VREDSUM_VS :: OperationId where "VREDSUM_VS \<equiv> 324"
abbreviation (input) VWMUL_VV :: OperationId where "VWMUL_VV \<equiv> 325"
abbreviation (input) VWMUL_VX :: OperationId where "VWMUL_VX \<equiv> 326"
abbreviation (input) VNCLIP_WV :: OperationId where "VNCLIP_WV \<equiv> 327"
abbreviation (input) VNCLIP_WX :: OperationId where "VNCLIP_WX \<equiv> 328"
abbreviation (input) VNCLIP_WI :: OperationId where "VNCLIP_WI \<equiv> 329"
abbreviation (input) VNCLIPU_WV :: OperationId where "VNCLIPU_WV \<equiv> 330"
abbreviation (input) VNCLIPU_WX :: OperationId where "VNCLIPU_WX \<equiv> 331"
abbreviation (input) VNCLIPU_WI :: OperationId where "VNCLIPU_WI \<equiv> 332"
abbreviation (input) VNSRL_WV :: OperationId where "VNSRL_WV \<equiv> 333"
abbreviation (input) VNSRL_WX :: OperationId where "VNSRL_WX \<equiv> 334"
abbreviation (input) VNSRL_WI :: OperationId where "VNSRL_WI \<equiv> 335"
abbreviation (input) VNSRA_WV :: OperationId where "VNSRA_WV \<equiv> 336"
abbreviation (input) VNSRA_WX :: OperationId where "VNSRA_WX \<equiv> 337"
abbreviation (input) VNSRA_WI :: OperationId where "VNSRA_WI \<equiv> 338"
abbreviation (input) VSLIDE1UP_VX :: OperationId where "VSLIDE1UP_VX \<equiv> 339"
abbreviation (input) VSLIDE1DOWN_VX :: OperationId where "VSLIDE1DOWN_VX \<equiv> 340"
abbreviation (input) VFADD_VV :: OperationId where "VFADD_VV \<equiv> 341"
abbreviation (input) VFADD_VF :: OperationId where "VFADD_VF \<equiv> 342"
abbreviation (input) VRSUB_VX :: OperationId where "VRSUB_VX \<equiv> 343"
abbreviation (input) VRSUB_VI :: OperationId where "VRSUB_VI \<equiv> 344"
abbreviation (input) VSADD_VV :: OperationId where "VSADD_VV \<equiv> 345"
abbreviation (input) VSADD_VX :: OperationId where "VSADD_VX \<equiv> 346"
abbreviation (input) VSADD_VI :: OperationId where "VSADD_VI \<equiv> 347"
abbreviation (input) VSADDU_VV :: OperationId where "VSADDU_VV \<equiv> 348"
abbreviation (input) VSADDU_VX :: OperationId where "VSADDU_VX \<equiv> 349"
abbreviation (input) VSADDU_VI :: OperationId where "VSADDU_VI \<equiv> 350"
abbreviation (input) VSBC_VVM :: OperationId where "VSBC_VVM \<equiv> 351"
abbreviation (input) VSBC_VXM :: OperationId where "VSBC_VXM \<equiv> 352"
abbreviation (input) VSEXT_VF2 :: OperationId where "VSEXT_VF2 \<equiv> 353"
abbreviation (input) VSEXT_VF4 :: OperationId where "VSEXT_VF4 \<equiv> 354"
abbreviation (input) VSEXT_VF8 :: OperationId where "VSEXT_VF8 \<equiv> 355"
abbreviation (input) VZEXT_VF2 :: OperationId where "VZEXT_VF2 \<equiv> 356"
abbreviation (input) VZEXT_VF4 :: OperationId where "VZEXT_VF4 \<equiv> 357"
abbreviation (input) VZEXT_VF8 :: OperationId where "VZEXT_VF8 \<equiv> 358"
abbreviation (input) VSLIDEDOWN_VX :: OperationId where "VSLIDEDOWN_VX \<equiv> 359"
abbreviation (input) VSLIDEDOWN_VI :: OperationId where "VSLIDEDOWN_VI \<equiv> 360"
abbreviation (input) VSLIDEUP_VX :: OperationId where "VSLIDEUP_VX \<equiv> 361"
abbreviation (input) VSLIDEUP_VI :: OperationId where "VSLIDEUP_VI \<equiv> 362"
abbreviation (input) VSMUL_VV :: OperationId where "VSMUL_VV \<equiv> 363"
abbreviation (input) VSMUL_VX :: OperationId where "VSMUL_VX \<equiv> 364"
abbreviation (input) VSSRA_VV :: OperationId where "VSSRA_VV \<equiv> 365"
abbreviation (input) VSSRA_VX :: OperationId where "VSSRA_VX \<equiv> 366"
abbreviation (input) VSSRA_VI :: OperationId where "VSSRA_VI \<equiv> 367"
abbreviation (input) VSSRL_VV :: OperationId where "VSSRL_VV \<equiv> 368"
abbreviation (input) VSSRL_VX :: OperationId where "VSSRL_VX \<equiv> 369"
abbreviation (input) VSSRL_VI :: OperationId where "VSSRL_VI \<equiv> 370"
abbreviation (input) VSSUB_VV :: OperationId where "VSSUB_VV \<equiv> 371"
abbreviation (input) VSSUB_VX :: OperationId where "VSSUB_VX \<equiv> 372"
abbreviation (input) VSSUBU_VV :: OperationId where "VSSUBU_VV \<equiv> 373"
abbreviation (input) VSSUBU_VX :: OperationId where "VSSUBU_VX \<equiv> 374"
abbreviation (input) VWADD_VV :: OperationId where "VWADD_VV \<equiv> 375"
abbreviation (input) VWADD_VX :: OperationId where "VWADD_VX \<equiv> 376"
abbreviation (input) VWADD_WV :: OperationId where "VWADD_WV \<equiv> 377"
abbreviation (input) VWADD_WX :: OperationId where "VWADD_WX \<equiv> 378"
abbreviation (input) VWADDU_VV :: OperationId where "VWADDU_VV \<equiv> 379"
abbreviation (input) VWADDU_VX :: OperationId where "VWADDU_VX \<equiv> 380"
abbreviation (input) VWADDU_WV :: OperationId where "VWADDU_WV \<equiv> 381"
abbreviation (input) VWADDU_WX :: OperationId where "VWADDU_WX \<equiv> 382"
abbreviation (input) VWSUB_VV :: OperationId where "VWSUB_VV \<equiv> 383"
abbreviation (input) VWSUB_VX :: OperationId where "VWSUB_VX \<equiv> 384"
abbreviation (input) VWSUB_WV :: OperationId where "VWSUB_WV \<equiv> 385"
abbreviation (input) VWSUB_WX :: OperationId where "VWSUB_WX \<equiv> 386"
abbreviation (input) VWSUBU_VV :: OperationId where "VWSUBU_VV \<equiv> 387"
abbreviation (input) VWSUBU_VX :: OperationId where "VWSUBU_VX \<equiv> 388"
abbreviation (input) VWSUBU_WV :: OperationId where "VWSUBU_WV \<equiv> 389"
abbreviation (input) VWSUBU_WX :: OperationId where "VWSUBU_WX \<equiv> 390"
abbreviation (input) VWMULU_VV :: OperationId where "VWMULU_VV \<equiv> 391"
abbreviation (input) VWMULU_VX :: OperationId where "VWMULU_VX \<equiv> 392"
abbreviation (input) VWMULSU_VV :: OperationId where "VWMULSU_VV \<equiv> 393"
abbreviation (input) VWMULSU_VX :: OperationId where "VWMULSU_VX \<equiv> 394"
abbreviation (input) VWREDSUM_VS :: OperationId where "VWREDSUM_VS \<equiv> 395"
abbreviation (input) VWREDSUMU_VS :: OperationId where "VWREDSUMU_VS \<equiv> 396"

subsection \<open>Whole register moves\<close>

abbreviation (input) VMV1R_V :: OperationId where "VMV1R_V \<equiv> 397"
abbreviation (input) VMV2R_V :: OperationId where "VMV2R_V \<equiv> 398"
abbreviation (input) VMV4R_V :: OperationId where "VMV4R_V \<equiv> 399"
abbreviation (input) VMV8R_V :: OperationId where "VMV8R_V \<equiv> 400"

subsection \<open>Whole register loads\<close>

abbreviation (input) VL1RE8_V :: OperationId where "VL1RE8_V \<equiv> 401"
abbreviation (input) VL1RE16_V :: OperationId where "VL1RE16_V \<equiv> 402"
abbreviation (input) VL1RE32_V :: OperationId where "VL1RE32_V \<equiv> 403"
abbreviation (input) VL1RE64_V :: OperationId where "VL1RE64_V \<equiv> 404"
abbreviation (input) VL2RE8_V :: OperationId where "VL2RE8_V \<equiv> 405"
abbreviation (input) VL2RE16_V :: OperationId where "VL2RE16_V \<equiv> 406"
abbreviation (input) VL2RE32_V :: OperationId where "VL2RE32_V \<equiv> 407"
abbreviation (input) VL2RE64_V :: OperationId where "VL2RE64_V \<equiv> 408"
abbreviation (input) VL4RE8_V :: OperationId where "VL4RE8_V \<equiv> 409"
abbreviation (input) VL4RE16_V :: OperationId where "VL4RE16_V \<equiv> 410"
abbreviation (input) VL4RE32_V :: OperationId where "VL4RE32_V \<equiv> 411"
abbreviation (input) VL4RE64_V :: OperationId where "VL4RE64_V \<equiv> 412"
abbreviation (input) VL8RE8_V :: OperationId where "VL8RE8_V \<equiv> 413"
abbreviation (input) VL8RE16_V :: OperationId where "VL8RE16_V \<equiv> 414"
abbreviation (input) VL8RE32_V :: OperationId where "VL8RE32_V \<equiv> 415"
abbreviation (input) VL8RE64_V :: OperationId where "VL8RE64_V \<equiv> 416"

subsection \<open>Whole register stores\<close>

abbreviation (input) VS1R_V :: OperationId where "VS1R_V \<equiv> 417"
abbreviation (input) VS2R_V :: OperationId where "VS2R_V \<equiv> 418"
abbreviation (input) VS4R_V :: OperationId where "VS4R_V \<equiv> 419"
abbreviation (input) VS8R_V :: OperationId where "VS8R_V \<equiv> 420"

subsection \<open>Add with carry / subtract with borrow\<close>

abbreviation (input) VADC_VVM :: OperationId where "VADC_VVM \<equiv> 421"
abbreviation (input) VADC_VXM :: OperationId where "VADC_VXM \<equiv> 422"
abbreviation (input) VADC_VIM :: OperationId where "VADC_VIM \<equiv> 423"
abbreviation (input) VMADC_VV :: OperationId where "VMADC_VV \<equiv> 424"
abbreviation (input) VMADC_VX :: OperationId where "VMADC_VX \<equiv> 425"
abbreviation (input) VMADC_VI :: OperationId where "VMADC_VI \<equiv> 426"
abbreviation (input) VMADC_VVM :: OperationId where "VMADC_VVM \<equiv> 427"
abbreviation (input) VMADC_VXM :: OperationId where "VMADC_VXM \<equiv> 428"
abbreviation (input) VMADC_VIM :: OperationId where "VMADC_VIM \<equiv> 429"
abbreviation (input) VMSBC_VV :: OperationId where "VMSBC_VV \<equiv> 430"
abbreviation (input) VMSBC_VX :: OperationId where "VMSBC_VX \<equiv> 431"
abbreviation (input) VMSBC_VVM :: OperationId where "VMSBC_VVM \<equiv> 432"
abbreviation (input) VMSBC_VXM :: OperationId where "VMSBC_VXM \<equiv> 433"

subsection \<open>Mask instructions\<close>

abbreviation (input) VMSBF_M :: OperationId where "VMSBF_M \<equiv> 434"
abbreviation (input) VMSIF_M :: OperationId where "VMSIF_M \<equiv> 435"
abbreviation (input) VMSOF_M :: OperationId where "VMSOF_M \<equiv> 436"
abbreviation (input) VFIRST_M :: OperationId where "VFIRST_M \<equiv> 437"
abbreviation (input) VCPOP_M :: OperationId where "VCPOP_M \<equiv> 438"
abbreviation (input) VIOTA_M :: OperationId where "VIOTA_M \<equiv> 439"
abbreviation (input) VCOMPRESS_VM :: OperationId where "VCOMPRESS_VM \<equiv> 440"

subsection \<open>Vector bitmanip Zvbb/Zvbc\<close>

abbreviation (input) VANDN_VV :: OperationId where "VANDN_VV \<equiv> 441"
abbreviation (input) VANDN_VX :: OperationId where "VANDN_VX \<equiv> 442"
abbreviation (input) VROL_VV :: OperationId where "VROL_VV \<equiv> 443"
abbreviation (input) VROL_VX :: OperationId where "VROL_VX \<equiv> 444"
abbreviation (input) VROR_VV :: OperationId where "VROR_VV \<equiv> 445"
abbreviation (input) VROR_VX :: OperationId where "VROR_VX \<equiv> 446"
abbreviation (input) VROR_VI :: OperationId where "VROR_VI \<equiv> 447"
abbreviation (input) VCLZ_V :: OperationId where "VCLZ_V \<equiv> 448"
abbreviation (input) VCTZ_V :: OperationId where "VCTZ_V \<equiv> 449"
abbreviation (input) VCPOP_V :: OperationId where "VCPOP_V \<equiv> 450"
abbreviation (input) VBREV_V :: OperationId where "VBREV_V \<equiv> 451"
abbreviation (input) VBREV8_V :: OperationId where "VBREV8_V \<equiv> 452"
abbreviation (input) VREV8_V :: OperationId where "VREV8_V \<equiv> 453"
abbreviation (input) VCLMUL_VV :: OperationId where "VCLMUL_VV \<equiv> 454"
abbreviation (input) VCLMUL_VX :: OperationId where "VCLMUL_VX \<equiv> 455"
abbreviation (input) VCLMULH_VV :: OperationId where "VCLMULH_VV \<equiv> 456"
abbreviation (input) VCLMULH_VX :: OperationId where "VCLMULH_VX \<equiv> 457"
abbreviation (input) VMAND_MM :: OperationId where "VMAND_MM \<equiv> 458"
abbreviation (input) VMNAND_MM :: OperationId where "VMNAND_MM \<equiv> 459"
abbreviation (input) VMANDN_MM :: OperationId where "VMANDN_MM \<equiv> 460"
abbreviation (input) VMOR_MM :: OperationId where "VMOR_MM \<equiv> 461"
abbreviation (input) VMNOR_MM :: OperationId where "VMNOR_MM \<equiv> 462"
abbreviation (input) VMORN_MM :: OperationId where "VMORN_MM \<equiv> 463"
abbreviation (input) VMXOR_MM :: OperationId where "VMXOR_MM \<equiv> 464"
abbreviation (input) VMXNOR_MM :: OperationId where "VMXNOR_MM \<equiv> 465"
abbreviation (input) VFMV_F_S :: OperationId where "VFMV_F_S \<equiv> 466"
abbreviation (input) VFMV_S_F :: OperationId where "VFMV_S_F \<equiv> 467"
abbreviation (input) VFMERGE_VFM :: OperationId where "VFMERGE_VFM \<equiv> 468"
abbreviation (input) VWSLL_VV :: OperationId where "VWSLL_VV \<equiv> 469"
abbreviation (input) VWSLL_VX :: OperationId where "VWSLL_VX \<equiv> 470"
abbreviation (input) VWSLL_VI :: OperationId where "VWSLL_VI \<equiv> 471"
abbreviation (input) VCHECK :: OperationId where "VCHECK \<equiv> 472"

subsection \<open>Others\<close>

abbreviation (input) UNKNOWN :: OperationId where "UNKNOWN \<equiv> 473"
abbreviation (input) OperationIdCount :: OperationId where "OperationIdCount \<equiv> 474"

text \<open>The range test the pipeline uses to recognise vector operations.\<close>

definition is_vector_op_id :: "OperationId \<Rightarrow> bool" where
  "is_vector_op_id op_id \<longleftrightarrow> VSETVLI \<le> op_id \<and> op_id \<le> VWSLL_VI"

end
