(* ===== verification/Alu.thy ===== *)
theory Alu
  imports Operation_Id "HOL-Library.Signed_Division"
begin

text \<open>
  The integer execution unit: \<^verbatim>\<open>include/simrv/xlen/Math.hpp\<close> (the high halves of products),
  \<^verbatim>\<open>src/execute/ExecuteUnitInt.cpp\<close> (base, M and AMO arithmetic, branch conditions, CSR write
  values) and \<^verbatim>\<open>src/execute/ExecuteUnitB.cpp\<close> (bit manipulation). Registers are 64-bit words;
  an \<^verbatim>\<open>int32_t\<close> and a \<^verbatim>\<open>uint32_t\<close> are both the 32-bit word with that bit pattern, read with
  \<open>sint\<close> or \<open>uint\<close>. A \<^verbatim>\<open>switch\<close> over the operation is a chain of conditionals in the same order.
\<close>

subsection \<open>High halves of products\<close>

definition unsigned_abs :: "u64 \<Rightarrow> u64" where
  "unsigned_abs value = (if value <s 0 then NOT value + 1 else value)"

text \<open>The two bodies of \<^verbatim>\<open>detail::mul_high_unsigned64\<close>: with and without a 128-bit integer type.\<close>

definition mul_high_unsigned64 :: "u64 \<Rightarrow> u64 \<Rightarrow> u64" where
  "mul_high_unsigned64 lhs rhs = ucast (drop_bit 64 (ucast lhs * ucast rhs :: 128 word))"

definition mul_high_unsigned64_portable :: "u64 \<Rightarrow> u64 \<Rightarrow> u64" where
  "mul_high_unsigned64_portable lhs rhs =
     (let mask32 = 0xffffffff;
          lhs_low = lhs AND mask32; lhs_high = drop_bit 32 lhs;
          rhs_low = rhs AND mask32; rhs_high = drop_bit 32 rhs;
          p0 = lhs_low * rhs_low; p1 = lhs_low * rhs_high;
          p2 = lhs_high * rhs_low; p3 = lhs_high * rhs_high;
          carry = drop_bit 32 (drop_bit 32 p0 + (p1 AND mask32) + (p2 AND mask32))
      in p3 + drop_bit 32 p1 + drop_bit 32 p2 + carry)"

definition negate_high_low :: "u64 \<Rightarrow> u64 \<Rightarrow> u64" where
  "negate_high_low high low = NOT high + (if low = 0 then 1 else 0)"

definition mul_low :: "Register \<Rightarrow> Register \<Rightarrow> Register" where
  "mul_low lhs rhs = lhs * rhs"

definition mul_high_signed_with :: "(u64 \<Rightarrow> u64 \<Rightarrow> u64) \<Rightarrow> Register \<Rightarrow> Register \<Rightarrow> Register" where
  "mul_high_signed_with mulhu lhs rhs =
     (let lhs_negative = lhs <s 0; rhs_negative = rhs <s 0;
          lhs_abs = unsigned_abs lhs; rhs_abs = unsigned_abs rhs;
          low = lhs_abs * rhs_abs; high = mulhu lhs_abs rhs_abs
      in if lhs_negative \<noteq> rhs_negative then negate_high_low high low else high)"

definition mul_high_signed_unsigned_with :: "(u64 \<Rightarrow> u64 \<Rightarrow> u64) \<Rightarrow> Register \<Rightarrow> Register \<Rightarrow> Register" where
  "mul_high_signed_unsigned_with mulhu lhs rhs =
     (let lhs_negative = lhs <s 0;
          lhs_abs = unsigned_abs lhs;
          low = lhs_abs * rhs; high = mulhu lhs_abs rhs
      in if lhs_negative then negate_high_low high low else high)"

definition mul_high_signed :: "Register \<Rightarrow> Register \<Rightarrow> Register" where
  "mul_high_signed = mul_high_signed_with mul_high_unsigned64"

definition mul_high_signed_unsigned :: "Register \<Rightarrow> Register \<Rightarrow> Register" where
  "mul_high_signed_unsigned = mul_high_signed_unsigned_with mul_high_unsigned64"

definition mul_high_unsigned :: "Register \<Rightarrow> Register \<Rightarrow> Register" where
  "mul_high_unsigned lhs rhs = mul_high_unsigned64 lhs rhs"

subsection \<open>Signed minimum, maximum and truncating division\<close>

definition smin :: "'a::len word \<Rightarrow> 'a word \<Rightarrow> 'a word" where
  "smin a b = (if b <s a then b else a)"

definition smax :: "'a::len word \<Rightarrow> 'a word \<Rightarrow> 'a word" where
  "smax a b = (if a <s b then b else a)"

text \<open>C++ \<^verbatim>\<open>/\<close> and \<^verbatim>\<open>%\<close> on signed operands truncate towards zero.\<close>

definition sdiv_word :: "'a::len word \<Rightarrow> 'a word \<Rightarrow> 'a word" where
  "sdiv_word a b = word_of_int (sint a sdiv sint b)"

definition smod_word :: "'a::len word \<Rightarrow> 'a word \<Rightarrow> 'a word" where
  "smod_word a b = word_of_int (sint a smod sint b)"

text \<open>\<^verbatim>\<open>std::numeric_limits<T>::min()\<close> of the signed type with the width of \<open>'a\<close>.\<close>

definition min_signed :: "'a::len word" where
  "min_signed = push_bit (LENGTH('a) - 1) 1"

subsection \<open>Bit manipulation, 32-bit operands\<close>

definition orc_b32 :: "u32 \<Rightarrow> u32" where
  "orc_b32 u1 = foldl (\<lambda>r i. if drop_bit i u1 AND 0xFF \<noteq> 0 then r OR push_bit i 0xFF else r)
     0 [0, 8, 16, 24]"

definition clmul32 :: "u32 \<Rightarrow> u32 \<Rightarrow> u32" where
  "clmul32 u1 u2 = foldl (\<lambda>r i. if drop_bit i u2 AND 1 \<noteq> 0 then r XOR push_bit i u1 else r)
     0 [0..<32]"

definition clmulh32 :: "u32 \<Rightarrow> u32 \<Rightarrow> u32" where
  "clmulh32 u1 u2 = foldl (\<lambda>r i. if drop_bit i u2 AND 1 \<noteq> 0 then r XOR drop_bit (32 - i) u1 else r)
     0 [1..<32]"

definition clmulr32 :: "u32 \<Rightarrow> u32 \<Rightarrow> u32" where
  "clmulr32 u1 u2 = foldl (\<lambda>r i. if drop_bit i u2 AND 1 \<noteq> 0 then r XOR drop_bit (31 - i) u1 else r)
     0 [0..<32]"

definition alu_int_b32 :: "u32 \<Rightarrow> u32 \<Rightarrow> OperationId \<Rightarrow> u32" where
  "alu_int_b32 u1 u2 op_id =
     (if op_id = SH1ADD then u2 + push_bit 1 u1
      else if op_id = SH2ADD then u2 + push_bit 2 u1
      else if op_id = SH3ADD then u2 + push_bit 3 u1
      else if op_id = ANDN then u1 AND NOT u2
      else if op_id = ORN then u1 OR NOT u2
      else if op_id = XNOR then NOT (u1 XOR u2)
      else if op_id = CLZ then of_nat (countl_zero u1)
      else if op_id = CTZ then of_nat (countr_zero u1)
      else if op_id = CPOP then of_nat (popcount u1)
      else if op_id = MIN_op then smin u1 u2
      else if op_id = MAX_op then smax u1 u2
      else if op_id = MINU then min u1 u2
      else if op_id = MAXU then max u1 u2
      else if op_id = SEXT_B then scast (ucast u1 :: u8)
      else if op_id = SEXT_H then scast (ucast u1 :: u16)
      else if op_id = ZEXT_H then u1 AND 0xFFFF
      else if op_id = ROL then word_rotl (unat (u2 AND 31)) u1
      else if op_id = ROR \<or> op_id = RORI then word_rotr (unat (u2 AND 31)) u1
      else if op_id = BSET \<or> op_id = BSETI then u1 OR push_bit (unat (u2 AND 31)) 1
      else if op_id = BCLR \<or> op_id = BCLRI then u1 AND NOT (push_bit (unat (u2 AND 31)) 1)
      else if op_id = BINV \<or> op_id = BINVI then u1 XOR push_bit (unat (u2 AND 31)) 1
      else if op_id = BEXT \<or> op_id = BEXTI then drop_bit (unat (u2 AND 31)) u1 AND 1
      else if op_id = ORC_B then orc_b32 u1
      else if op_id = REV8 then
        push_bit 24 (u1 AND 0x000000FF) OR push_bit 8 (u1 AND 0x0000FF00) OR
        drop_bit 8 (u1 AND 0x00FF0000) OR drop_bit 24 (u1 AND 0xFF000000)
      else if op_id = PACK then (u1 AND 0xFFFF) OR push_bit 16 (u2 AND 0xFFFF)
      else if op_id = CLMUL then clmul32 u1 u2
      else if op_id = CLMULH then clmulh32 u1 u2
      else if op_id = CLMULR then clmulr32 u1 u2
      else 0)"

subsection \<open>Bit manipulation, full-width operands\<close>

definition orc_b64 :: "Register \<Rightarrow> Register" where
  "orc_b64 in1 = foldl (\<lambda>r i. if drop_bit (i * 8) in1 AND 0xFF \<noteq> 0
                              then r OR push_bit (i * 8) 0xFF else r) 0 [0..<8]"

definition clmul64 :: "Register \<Rightarrow> Register \<Rightarrow> nat \<Rightarrow> Register" where
  "clmul64 in1 in2 xlen =
     foldl (\<lambda>r i. if drop_bit i in2 AND 1 \<noteq> 0 then r XOR push_bit i in1 else r) 0 [0..<xlen]"

definition clmulh64 :: "Register \<Rightarrow> Register \<Rightarrow> nat \<Rightarrow> Register" where
  "clmulh64 in1 in2 xlen =
     foldl (\<lambda>r i. if drop_bit i in2 AND 1 \<noteq> 0 then r XOR drop_bit (xlen - i) in1 else r)
       0 [1..<xlen]"

definition clmulr64 :: "Register \<Rightarrow> Register \<Rightarrow> nat \<Rightarrow> Register" where
  "clmulr64 in1 in2 xlen =
     foldl (\<lambda>r i. if drop_bit i in2 AND 1 \<noteq> 0 then r XOR drop_bit (xlen - 1 - i) in1 else r)
       0 [0..<xlen]"

definition alu_int_b64 :: "Register \<Rightarrow> Register \<Rightarrow> OperationId \<Rightarrow> nat \<Rightarrow> Register" where
  "alu_int_b64 in1 in2 op_id xlen =
     (let shamt = unat (in2 AND of_nat (xlen - 1)) in
      if op_id = SH1ADD then in2 + push_bit 1 in1
      else if op_id = SH2ADD then in2 + push_bit 2 in1
      else if op_id = SH3ADD then in2 + push_bit 3 in1
      else if op_id = ANDN then in1 AND NOT in2
      else if op_id = ORN then in1 OR NOT in2
      else if op_id = XNOR then NOT (in1 XOR in2)
      else if op_id = CLZ then of_nat (countl_zero in1)
      else if op_id = CTZ then of_nat (countr_zero in1)
      else if op_id = CPOP then of_nat (popcount in1)
      else if op_id = MIN_op then smin in1 in2
      else if op_id = MAX_op then smax in1 in2
      else if op_id = MINU then min in1 in2
      else if op_id = MAXU then max in1 in2
      else if op_id = SEXT_B then scast (ucast in1 :: u8)
      else if op_id = SEXT_H then scast (ucast in1 :: u16)
      else if op_id = ZEXT_H then in1 AND 0xFFFF
      else if op_id = ROL then word_rotl shamt in1
      else if op_id = ROR \<or> op_id = RORI then word_rotr shamt in1
      else if op_id = CLMUL then clmul64 in1 in2 xlen
      else if op_id = CLMULH then clmulh64 in1 in2 xlen
      else if op_id = CLMULR then clmulr64 in1 in2 xlen
      else if op_id = BSET \<or> op_id = BSETI then in1 OR push_bit shamt 1
      else if op_id = BCLR \<or> op_id = BCLRI then in1 AND NOT (push_bit shamt 1)
      else if op_id = BINV \<or> op_id = BINVI then in1 XOR push_bit shamt 1
      else if op_id = BEXT \<or> op_id = BEXTI then drop_bit shamt in1 AND 1
      else if op_id = ORC_B then orc_b64 in1
      else if op_id = REV8 then byteswap in1
      else if op_id = PACK then (in1 AND (push_bit 32 1 - 1)) OR push_bit 32 in2
      else 0)"

definition aluIntB :: "Register \<Rightarrow> Register \<Rightarrow> OperationId \<Rightarrow> nat \<Rightarrow> Register" where
  "aluIntB in1 in2 op_id xlen_param =
     (if xlen_param = 32 then scast (alu_int_b32 (ucast in1) (ucast in2) op_id)
      else alu_int_b64 in1 in2 op_id xlen_param)"

definition aluIntBW :: "Register \<Rightarrow> Register \<Rightarrow> OperationId \<Rightarrow> Register" where
  "aluIntBW in1 in2 op_id =
     (let lhs32 = ucast in1 :: u32; rhs32 = ucast in2 :: u32 in
      if op_id = ADD_UW then ucast lhs32 + in2
      else if op_id = SLLI_UW then push_bit (unat (in2 AND 0x3F)) (ucast lhs32)
      else if op_id = SH1ADD_UW then in2 + push_bit 1 (ucast lhs32)
      else if op_id = SH2ADD_UW then in2 + push_bit 2 (ucast lhs32)
      else if op_id = SH3ADD_UW then in2 + push_bit 3 (ucast lhs32)
      else if op_id = CLZW then scast (of_nat (countl_zero lhs32) :: u32)
      else if op_id = CTZW then scast (of_nat (countr_zero lhs32) :: u32)
      else if op_id = CPOPW then scast (of_nat (popcount lhs32) :: u32)
      else if op_id = ROLW then scast (word_rotl (unat (in2 AND 31)) lhs32)
      else if op_id = RORW \<or> op_id = RORIW then scast (word_rotr (unat (in2 AND 31)) lhs32)
      else if op_id = PACKW then scast ((lhs32 AND 0xFFFF) OR push_bit 16 rhs32)
      else 0)"

subsection \<open>Base and M operations\<close>

definition aluInt32 :: "Register \<Rightarrow> Register \<Rightarrow> OperationId \<Rightarrow> Register" where
  "aluInt32 in1 in2 op_id =
     (let u1 = ucast in1 :: u32; u2 = ucast in2 :: u32 in
      if op_id = ADD \<or> op_id = ADDI then scast (u1 + u2)
      else if op_id = SUB then scast (u1 - u2)
      else if op_id = SLL \<or> op_id = SLLI then scast (push_bit (unat (u2 AND 0x1F)) u1)
      else if op_id = SLT \<or> op_id = SLTI then scast (of_bool32 (u1 <s u2))
      else if op_id = SLTU \<or> op_id = SLTIU then scast (of_bool32 (u1 < u2))
      else if op_id = XOR_op \<or> op_id = XORI then scast (u1 XOR u2)
      else if op_id = SRL \<or> op_id = SRLI then scast (drop_bit (unat (u2 AND 0x1F)) u1)
      else if op_id = SRA \<or> op_id = SRAI then scast (signed_drop_bit (unat (u2 AND 0x1F)) u1)
      else if op_id = OR_op \<or> op_id = ORI then scast (u1 OR u2)
      else if op_id = AND_op \<or> op_id = ANDI then scast (u1 AND u2)
      else if op_id = MUL then scast (u1 * u2)
      else if op_id = MULH then
        scast (ucast (signed_drop_bit 32 (scast u1 * scast u2 :: u64)) :: u32)
      else if op_id = MULHSU then
        scast (ucast (drop_bit 32 (scast u1 * ucast u2 :: u64)) :: u32)
      else if op_id = MULHU then
        scast (ucast (drop_bit 32 (ucast u1 * ucast u2 :: u64)) :: u32)
      else if op_id = DIV then
        scast (if u2 = 0 then -1 else if u1 = min_signed \<and> u2 = -1 then u1 else sdiv_word u1 u2)
      else if op_id = DIVU then scast (if u2 = 0 then -1 else u1 div u2)
      else if op_id = REM then
        scast (if u2 = 0 then u1 else if u1 = min_signed \<and> u2 = -1 then 0 else smod_word u1 u2)
      else if op_id = REMU then scast (if u2 = 0 then u1 else u1 mod u2)
      else aluIntB in1 in2 op_id 32)"

definition xlen_shift_mask :: Word where
  "xlen_shift_mask = 63"

definition aluInt :: "Register \<Rightarrow> Register \<Rightarrow> OperationId \<Rightarrow> nat \<Rightarrow> Register" where
  "aluInt in1 in2 op_id xlen =
     (if xlen = 32 then aluInt32 in1 in2 op_id
      else if op_id = ADD \<or> op_id = ADDI then in1 + in2
      else if op_id = SUB then in1 - in2
      else if op_id = SLL \<or> op_id = SLLI then push_bit (unat (in2 AND xlen_shift_mask)) in1
      else if op_id = SLT \<or> op_id = SLTI then of_bool64 (in1 <s in2)
      else if op_id = SLTU \<or> op_id = SLTIU then of_bool64 (in1 < in2)
      else if op_id = XOR_op \<or> op_id = XORI then in1 XOR in2
      else if op_id = SRL \<or> op_id = SRLI then drop_bit (unat (in2 AND xlen_shift_mask)) in1
      else if op_id = SRA \<or> op_id = SRAI then
        signed_drop_bit (unat (in2 AND xlen_shift_mask)) in1
      else if op_id = OR_op \<or> op_id = ORI then in1 OR in2
      else if op_id = AND_op \<or> op_id = ANDI then in1 AND in2
      else if op_id = MUL then mul_low in1 in2
      else if op_id = MULH then mul_high_signed in1 in2
      else if op_id = MULHSU then mul_high_signed_unsigned in1 in2
      else if op_id = MULHU then mul_high_unsigned in1 in2
      else if op_id = DIV then
        (if in2 = 0 then -1 else if in1 = min_signed \<and> in2 = -1 then in1 else sdiv_word in1 in2)
      else if op_id = DIVU then (if in2 = 0 then -1 else in1 div in2)
      else if op_id = REM then
        (if in2 = 0 then in1 else if in1 = min_signed \<and> in2 = -1 then 0 else smod_word in1 in2)
      else if op_id = REMU then (if in2 = 0 then in1 else in1 mod in2)
      else if op_id \<in> {SH1ADD, SH2ADD, SH3ADD, ANDN, ORN, XNOR, CLZ, CTZ, CPOP, MIN_op, MAX_op,
          MINU, MAXU, SEXT_B, SEXT_H, ZEXT_H, ROL, ROR, RORI, CLMUL, CLMULH, CLMULR, BSET, BSETI,
          BCLR, BCLRI, BINV, BINVI, BEXT, BEXTI, ORC_B, REV8, PACK}
        then aluIntB in1 in2 op_id xlen
      else 0)"

definition aluIntW :: "Register \<Rightarrow> Register \<Rightarrow> OperationId \<Rightarrow> Register" where
  "aluIntW in1 in2 op_id =
     (let lhs32 = ucast in1 :: u32; rhs32 = ucast in2 :: u32 in
      if op_id = ADDW \<or> op_id = ADDIW then scast (lhs32 + rhs32)
      else if op_id = SUBW then scast (lhs32 - rhs32)
      else if op_id = SLLW \<or> op_id = SLLIW then scast (push_bit (unat (rhs32 AND 0x1F)) lhs32)
      else if op_id = SRLW \<or> op_id = SRLIW then scast (drop_bit (unat (rhs32 AND 0x1F)) lhs32)
      else if op_id = SRAW \<or> op_id = SRAIW then
        scast (signed_drop_bit (unat (rhs32 AND 0x1F)) lhs32)
      else if op_id = MULW then scast (lhs32 * rhs32)
      else if op_id = DIVW then
        scast (if rhs32 = 0 then -1
               else if lhs32 = min_signed \<and> rhs32 = -1 then lhs32 else sdiv_word lhs32 rhs32)
      else if op_id = DIVUW then scast (if rhs32 = 0 then -1 else lhs32 div rhs32)
      else if op_id = REMW then
        scast (if rhs32 = 0 then lhs32
               else if lhs32 = min_signed \<and> rhs32 = -1 then 0 else smod_word lhs32 rhs32)
      else if op_id = REMUW then scast (if rhs32 = 0 then lhs32 else lhs32 mod rhs32)
      else if op_id \<in> {ADD_UW, SLLI_UW, SH1ADD_UW, SH2ADD_UW, SH3ADD_UW, CLZW, CTZW, CPOPW,
          ROLW, RORW, RORIW, PACKW} then aluIntBW in1 in2 op_id
      else 0)"

subsection \<open>Branches, atomic operations, CSR write values\<close>

definition branchTaken :: "Register \<Rightarrow> Register \<Rightarrow> u8 \<Rightarrow> nat \<Rightarrow> bool" where
  "branchTaken in1 in2 funct3 xlen =
     (if xlen = 32 then
        (let u1 = ucast in1 :: u32; u2 = ucast in2 :: u32 in
         if funct3 = 0 then u1 = u2
         else if funct3 = 1 then u1 \<noteq> u2
         else if funct3 = 4 then u1 <s u2
         else if funct3 = 5 then u2 \<le>s u1
         else if funct3 = 6 then u1 < u2
         else if funct3 = 7 then u2 \<le> u1
         else False)
      else if funct3 = 0 then in1 = in2
      else if funct3 = 1 then in1 \<noteq> in2
      else if funct3 = 4 then in1 <s in2
      else if funct3 = 5 then in2 \<le>s in1
      else if funct3 = 6 then in1 < in2
      else if funct3 = 7 then in2 \<le> in1
      else False)"

definition perform_amo_op :: "'a::len word \<Rightarrow> 'a word \<Rightarrow> u8 \<Rightarrow> 'a word" where
  "perform_amo_op reg_val mem_val funct5 =
     (if funct5 = 0x01 then reg_val
      else if funct5 = 0x00 then mem_val + reg_val
      else if funct5 = 0x0c then mem_val AND reg_val
      else if funct5 = 0x08 then mem_val OR reg_val
      else if funct5 = 0x04 then mem_val XOR reg_val
      else if funct5 = 0x10 then smin reg_val mem_val
      else if funct5 = 0x14 then smax reg_val mem_val
      else if funct5 = 0x18 then min reg_val mem_val
      else if funct5 = 0x1c then max reg_val mem_val
      else mem_val)"

definition aluAmo :: "Register \<Rightarrow> Register \<Rightarrow> u8 \<Rightarrow> u8 \<Rightarrow> Register" where
  "aluAmo in1 in2 funct5 funct3 =
     (if funct3 = 2 then scast (perform_amo_op (ucast in1 :: u32) (ucast in2) funct5)
      else perform_amo_op in1 in2 funct5)"

definition csrWriteValue :: "CSRValue \<Rightarrow> Register \<Rightarrow> ImmValue \<Rightarrow> u8 \<Rightarrow> TrapCause + CSRValue" where
  "csrWriteValue rcsr rrs1 imm funct3 =
     (if funct3 = 1 then Inr rrs1
      else if funct3 = 2 then Inr (rcsr OR rrs1)
      else if funct3 = 3 then Inr (rcsr AND NOT rrs1)
      else if funct3 = 5 then Inr imm
      else if funct3 = 6 then Inr (rcsr OR imm)
      else if funct3 = 7 then Inr (rcsr AND NOT imm)
      else Inl 2)"

subsection \<open>Specification of carry-less products\<close>

text \<open>The 127-bit product of two polynomials over the two-element field.\<close>

definition cl_product :: "Register \<Rightarrow> Register \<Rightarrow> 128 word" where
  "cl_product a b = foldl (\<lambda>r i. if bit b i then r XOR push_bit i (ucast a) else r) 0 [0..<64]"

subsection \<open>Products: lemmas\<close>

lemma uint_unsigned_abs: "uint (unsigned_abs v) = \<bar>sint v\<bar>"
proof (cases "v <s 0")
  case True
  then have neg: "sint v < 0" by (simp add: word_sless_alt)
  have "unsigned_abs v = - v" using True by (simp add: unsigned_abs_def minus_eq_not_plus_1)
  also have "\<dots> = word_of_int (- sint v)" by simp
  finally have "uint (unsigned_abs v) = uint (word_of_int (- sint v) :: u64)" by (rule arg_cong)
  also have "\<dots> = take_bit 64 (- sint v)" by (simp only: uint_word_of_int_eq) simp
  also have "\<dots> = - sint v"
    using neg sint_ge [of v] by (simp add: take_bit_int_eq_self_iff)
  finally show ?thesis using neg by simp
next
  case False
  then have "0 \<le> sint v" by (simp add: word_sless_alt)
  then show ?thesis using False sint_nonneg_eq_uint [of v] by (simp add: unsigned_abs_def)
qed

lemma mult_word_eq_0_iff: "a * b = 0 \<longleftrightarrow> uint a * uint b mod 2 ^ 64 = 0" for a b :: u64
proof -
  have "a * b = 0 \<longleftrightarrow> uint (a * b) = 0" by (simp only: uint_0_iff)
  then show ?thesis by (simp only: uint_word_ariths) simp
qed

lemma negate_high_low_correct:
  fixes a b :: u64
  assumes "uint high = uint a * uint b div 2 ^ 64" and "low = a * b"
  shows "negate_high_low high low = word_of_int (- (uint a * uint b) div 2 ^ 64)"
proof -
  let ?v = "uint a * uint b"
  have low0: "low = 0 \<longleftrightarrow> ?v mod 2 ^ 64 = 0"
    by (simp only: assms(2) mult_word_eq_0_iff)
  have "- ?v div 2 ^ 64 = - uint high - (if low = 0 then 0 else 1)"
    using low0 by (simp add: assms(1) zdiv_zminus1_eq_if)
  then show ?thesis
    by (simp add: negate_high_low_def not_eq_complement)
qed
lemma product_div_bounds:
  assumes "\<bar>x\<bar> \<le> 2 ^ 63" and "\<bar>y\<bar> < (2 :: int) ^ 64"
  shows "- (2 ^ 63) \<le> x * y div 2 ^ 64 \<and> x * y div 2 ^ 64 < 2 ^ 63"
proof -
  define z where "z = x * y"
  have "\<bar>z\<bar> \<le> 2 ^ 63 * (2 ^ 64 - 1)"
    using assms mult_mono [of "\<bar>x\<bar>" "2 ^ 63" "\<bar>y\<bar>" "2 ^ 64 - 1"] by (simp add: abs_mult z_def)
  then show ?thesis
    unfolding z_def [symmetric] by simp linarith
qed

lemma uint_product_bounds:
  fixes a b :: u64
  shows "0 \<le> uint a * uint b" and "uint a * uint b < 2 ^ 128" and "uint a * uint b div 2 ^ 64 < 2 ^ 64"
proof -
  show "0 \<le> uint a * uint b" by simp
  have "uint a * uint b < 2 ^ 64 * 2 ^ 64"
    using uint_lt2p [of a] uint_lt2p [of b] by (intro mult_strict_mono) simp_all
  then show "uint a * uint b < 2 ^ 128" and "uint a * uint b div 2 ^ 64 < 2 ^ 64"
    by (simp_all add: div_less_iff_less_mult)
qed

lemma uint_ucast_128: "uint (ucast a :: 128 word) = uint a" for a :: u64
  by (rule uint_up_ucast) (simp add: is_up)

lemma uint_low32: "uint (a AND 0xffffffff) = uint a mod 2 ^ 32" for a :: u64
proof -
  have m: "(0xffffffff :: u64) = mask 32" by (simp add: mask_eq_exp_minus_1)
  show ?thesis
    unfolding m take_bit_eq_mod [symmetric, where 'a = int]
    by (rule bit_eqI) (auto simp: bit_simps dest: bit_imp_le_length)
qed

lemma mul_high_unsigned64_correct: "uint (mul_high_unsigned64 a b) = uint a * uint b div 2 ^ 64"
proof -
  have "uint (ucast a * ucast b :: 128 word) = uint a * uint b"
    using uint_product_bounds (1,2) [of a b] by (simp only: uint_word_ariths uint_ucast_128) simp
  then show ?thesis
    using uint_product_bounds (3) [of a b]
    by (simp only: mul_high_unsigned64_def unsigned_ucast_eq uint_drop_bit)
       (simp add: take_bit_int_eq_self pos_imp_zdiv_nonneg_iff)
qed

lemma schoolbook_high:
  fixes al ah bl bh M :: int
  assumes "0 < M"
  shows "(ah * M + al) * (bh * M + bl) div (M * M) =
    ah * bh + al * bh div M + ah * bl div M +
    (al * bl div M + al * bh mod M + ah * bl mod M) div M"
proof -
  define p0 p1 p2 where "p0 = al * bl" and "p1 = al * bh" and "p2 = ah * bl"
  define s where "s = p0 div M + p1 mod M + p2 mod M"
  have p1: "p1 = p1 div M * M + p1 mod M" and p2: "p2 = p2 div M * M + p2 mod M"
    and p0: "p0 = p0 div M * M + p0 mod M"
    by simp_all
  have "(ah * M + al) * (bh * M + bl) = ah * bh * (M * M) + p1 * M + p2 * M + p0"
    by (simp add: p0_def p1_def p2_def algebra_simps)
  also have "\<dots> = (ah * bh + p1 div M + p2 div M) * (M * M) + (s * M + p0 mod M)"
    unfolding s_def
    by (subst (1) p1, subst (1) p2, subst (1) p0) (simp only: algebra_simps)
  finally have eq: "(ah * M + al) * (bh * M + bl) =
      (ah * bh + p1 div M + p2 div M) * (M * M) + (s * M + p0 mod M)" .
  have "(s * M + p0 mod M) div (M * M) = (s * M + p0 mod M) div M div M"
    using assms by (simp add: zdiv_zmult2_eq)
  also have "(s * M + p0 mod M) div M = s"
    using assms by simp
  finally have tail: "(s * M + p0 mod M) div (M * M) = s div M" .
  show ?thesis
    unfolding eq using assms
    by (subst div_mult_self3) (simp_all add: tail, simp add: s_def p0_def p1_def p2_def)
qed

lemma len64: "LENGTH(64) = 64"
  by simp

lemma mul_high_unsigned64_portable_correct:
  "uint (mul_high_unsigned64_portable a b) = uint a * uint b div 2 ^ 64"
proof -
  define al ah bl bh where "al = uint a mod 2 ^ 32" and "ah = uint a div 2 ^ 32"
    and "bl = uint b mod 2 ^ 32" and "bh = uint b div 2 ^ 32"
  note defs = al_def ah_def bl_def bh_def
  have small: "0 \<le> al" "al < 2 ^ 32" "0 \<le> ah" "ah < 2 ^ 32" "0 \<le> bl" "bl < 2 ^ 32" "0 \<le> bh" "bh < 2 ^ 32"
    using uint_lt2p [of a] uint_lt2p [of b] by (simp_all add: defs pos_imp_zdiv_nonneg_iff)
  have prod: "x * y mod 2 ^ 64 = x * y"
    if "0 \<le> x" "x < 2 ^ 32" "0 \<le> y" "y < 2 ^ 32" for x y :: int
  proof -
    have "x * y < 2 ^ 32 * 2 ^ 32" using that by (intro mult_strict_mono) simp_all
    then show ?thesis using that by simp
  qed
  have split: "uint a = ah * 2 ^ 32 + al" "uint b = bh * 2 ^ 32 + bl"
    by (simp_all add: defs)
  note p = prod [OF small(1,2,5,6)] prod [OF small(1,2,7,8)] prod [OF small(3,4,5,6)]
    prod [OF small(3,4,7,8)]
  have "uint (mul_high_unsigned64_portable a b) =
      (ah * bh + al * bh div 2 ^ 32 + ah * bl div 2 ^ 32 +
       (al * bl div 2 ^ 32 + al * bh mod 2 ^ 32 + ah * bl mod 2 ^ 32) mod 2 ^ 64 div 2 ^ 32) mod 2 ^ 64"
    unfolding mul_high_unsigned64_portable_def Let_def
    by (simp only: uint_word_ariths uint_drop_bit uint_low32 flip: defs)
       (simp only: len64 p mod_simps)
  also have "(al * bl div 2 ^ 32 + al * bh mod 2 ^ 32 + ah * bl mod 2 ^ 32) mod 2 ^ 64 =
      al * bl div 2 ^ 32 + al * bh mod 2 ^ 32 + ah * bl mod 2 ^ 32"
  proof -
    have "al * bl < 2 ^ 64" "0 \<le> al * bl"
      using p(1) small by (metis pos_mod_bound zero_less_numeral zero_less_power, simp)
    then show ?thesis by simp
  qed
  also have "ah * bh + al * bh div 2 ^ 32 + ah * bl div 2 ^ 32 +
       (al * bl div 2 ^ 32 + al * bh mod 2 ^ 32 + ah * bl mod 2 ^ 32) div 2 ^ 32 =
       uint a * uint b div 2 ^ 64"
  proof -
    have pow: "(2 :: int) ^ 64 = 2 ^ 32 * 2 ^ 32" by simp
    show ?thesis unfolding split pow by (rule schoolbook_high [symmetric]) simp
  qed
  finally show ?thesis
    using uint_product_bounds (3) [of a b] by (simp add: pos_imp_zdiv_nonneg_iff)
qed

text \<open>
  The contract the signed high products need of an unsigned one. Both bodies of
  \<^verbatim>\<open>detail::mul_high_unsigned64\<close> satisfy it, so the signed routines are right with either.
\<close>

locale unsigned_high_product =
  fixes mulhu :: "u64 \<Rightarrow> u64 \<Rightarrow> u64"
  assumes mulhu_correct: "uint (mulhu a b) = uint a * uint b div 2 ^ 64"
begin

lemma signed_high:
  "sint (mul_high_signed_with mulhu a b) = sint a * sint b div 2 ^ 64"
proof -
  let ?a = "unsigned_abs a" and ?b = "unsigned_abs b"
  have bounds: "\<bar>sint a\<bar> \<le> 2 ^ 63" "\<bar>sint b\<bar> < 2 ^ 64"
    using sint_ge [of a] sint_lt [of a] sint_ge [of b] sint_lt [of b] by auto
  have "mul_high_signed_with mulhu a b = word_of_int (sint a * sint b div 2 ^ 64)"
  proof (cases "(a <s 0) = (b <s 0)")
    case True
    then have "uint ?a * uint ?b = sint a * sint b"
      by (cases "sint a < 0") (simp_all add: uint_unsigned_abs word_sless_alt)
    then have "mulhu ?a ?b = word_of_int (sint a * sint b div 2 ^ 64)"
      using mulhu_correct [of ?a ?b] by (metis word_of_int_uint)
    then show ?thesis using True by (simp add: mul_high_signed_with_def)
  next
    case False
    then have "uint ?a * uint ?b = - (sint a * sint b)"
      by (cases "sint a < 0") (simp_all add: uint_unsigned_abs word_sless_alt)
    then show ?thesis
      using False negate_high_low_correct [OF mulhu_correct refl, of ?a ?b]
      by (simp add: mul_high_signed_with_def Let_def)
  qed
  then show ?thesis
    using product_div_bounds [OF bounds] sint_of_int_range [where 'a = 64] by auto
qed

lemma signed_unsigned_high:
  "sint (mul_high_signed_unsigned_with mulhu a b) = sint a * uint b div 2 ^ 64"
proof -
  let ?a = "unsigned_abs a"
  have bounds: "\<bar>sint a\<bar> \<le> 2 ^ 63" "\<bar>uint b\<bar> < 2 ^ 64"
    using sint_ge [of a] sint_lt [of a] uint_lt2p [of b] by auto
  have "mul_high_signed_unsigned_with mulhu a b = word_of_int (sint a * uint b div 2 ^ 64)"
  proof (cases "a <s 0")
    case False
    then have "uint ?a * uint b = sint a * uint b"
      by (simp add: uint_unsigned_abs word_sless_alt)
    then have "mulhu ?a b = word_of_int (sint a * uint b div 2 ^ 64)"
      using mulhu_correct [of ?a b] by (metis word_of_int_uint)
    then show ?thesis using False by (simp add: mul_high_signed_unsigned_with_def)
  next
    case True
    then have "uint ?a * uint b = - (sint a * uint b)"
      by (simp add: uint_unsigned_abs word_sless_alt)
    then show ?thesis
      using True negate_high_low_correct [OF mulhu_correct refl, of ?a b]
      by (simp add: mul_high_signed_unsigned_with_def Let_def)
  qed
  then show ?thesis
    using product_div_bounds [OF bounds] sint_of_int_range [where 'a = 64] by auto
qed

end

interpretation native: unsigned_high_product mul_high_unsigned64
  by unfold_locales (rule mul_high_unsigned64_correct)

interpretation portable: unsigned_high_product mul_high_unsigned64_portable
  by unfold_locales (rule mul_high_unsigned64_portable_correct)

subsection \<open>Division: lemmas\<close>

lemma minus_min_signed: "- min_signed = (min_signed :: 'a::len word)"
proof -
  have "2 * min_signed = (2 :: 'a word) ^ Suc (LENGTH('a) - 1)"
    by (simp only: min_signed_def push_bit_of_1 power_Suc)
  also have "\<dots> = 2 ^ LENGTH('a)" by (simp only: Suc_diff_1 [OF len_gt_0])
  finally have "min_signed + min_signed = (0 :: 'a word)"
    by (simp only: mult_2 [symmetric] word_exp_length_eq_0)
  then show ?thesis by (simp only: eq_neg_iff_add_eq_0 [symmetric])
qed

lemma sint_min_signed: "sint (min_signed :: 'a::len word) = - (2 ^ (LENGTH('a) - 1))"
proof -
  have "(min_signed :: 'a word) = word_of_int (- (2 ^ (LENGTH('a) - 1)))"
    by (subst minus_min_signed [symmetric]) (simp add: min_signed_def push_bit_of_1)
  then have "sint (min_signed :: 'a word) = sint (word_of_int (- (2 ^ (LENGTH('a) - 1))) :: 'a word)"
    by (rule arg_cong)
  also have "\<dots> = - (2 ^ (LENGTH('a) - 1))"
    by (rule sint_of_int_range) simp_all
  finally show ?thesis .
qed

lemma sint_smod_word:
  fixes a b :: "'a::len word"
  shows "sint (smod_word a b) = sint a smod sint b"
proof (cases "b = 0")
  case True
  then show ?thesis by (simp add: smod_word_def)
next
  case False
  then have "sint a smod sint b \<in> {- \<bar>sint b\<bar> + 1..\<bar>sint b\<bar> - 1}"
    by (intro smod_int_range) (simp add: sint_eq_0_iff)
  then show ?thesis
    using sint_ge [of b] sint_lt [of b] unfolding smod_word_def
    by (intro sint_of_int_range) (auto simp: abs_if split: if_splits)
qed

lemma sint_sdiv_word:
  fixes a b :: "'a::len word"
  assumes "\<not> (a = min_signed \<and> b = -1)"
  shows "sint (sdiv_word a b) = sint a sdiv sint b"
  unfolding sdiv_word_def
proof (rule sint_of_int_range)
  let ?h = "2 ^ (LENGTH('a) - 1) :: int"
  have range: "sint a sdiv sint b \<in> {- \<bar>sint a\<bar>..\<bar>sint a\<bar>}" by (rule sdiv_int_range)
  then show "- ?h \<le> sint a sdiv sint b"
    using sint_ge [of a] sint_lt [of a] by (auto simp: abs_if split: if_splits)
  show "sint a sdiv sint b < ?h"
  proof (cases "a = min_signed")
    case True
    then have "sint b \<noteq> -1" using assms by (metis signed_word_eqI sint_n1)
    then have "sint a sdiv sint b \<noteq> - sint a"
      using True by (subst int_sdiv_negated_is_minus1) (simp_all add: sint_min_signed)
    then show ?thesis using range True by (simp add: sint_min_signed)
  next
    case False
    then have "sint a \<noteq> - ?h" by (metis sint_min_signed signed_word_eqI)
    then show ?thesis using range sint_ge [of a] sint_lt [of a] by (auto simp: abs_if split: if_splits)
  qed
qed

lemma sdiv_smod_word: "sdiv_word a b * b + smod_word a b = a" for a b :: "'a::len word"
proof -
  have "sdiv_word a b * b + smod_word a b = word_of_int (sint a sdiv sint b * sint b + sint a smod sint b)"
    unfolding sdiv_word_def smod_word_def by simp
  then show ?thesis by (simp add: sdiv_mult_smod_eq)
qed

lemmas alu_cases = aluInt_def aluInt32_def aluIntW_def Let_def

subsection \<open>Carry-less products: lemmas\<close>

lemma foldl_xor_linear:
  assumes "\<And>x y. h (x XOR y) = h x XOR h y" and "\<And>i. i \<in> set xs \<Longrightarrow> h (f i) = g i"
  shows "h (foldl (\<lambda>r i. if P i then r XOR f i else r) z xs) =
    foldl (\<lambda>r i. if P i then r XOR g i else r) (h z) xs"
  using assms(2) by (induction xs arbitrary: z) (auto simp: assms(1))

lemma foldl_xor_skip:
  "\<lbrakk>a < b; g a = 0\<rbrakk> \<Longrightarrow> foldl (\<lambda>r i. if P i then r XOR g i else r) z [a..<b] =
     foldl (\<lambda>r i. if P i then r XOR g i else r) z [Suc a..<b]"
  by (simp add: upt_conv_Cons)

lemmas clmul_defs = aluInt_def aluIntB_def alu_int_b64_def clmul64_def clmulh64_def clmulr64_def
  test_bit_and_1 foldl_xor_skip

lemma clmul_low: "aluInt a b CLMUL 64 = ucast (cl_product a b)"
  unfolding cl_product_def
  by (subst foldl_xor_linear [where h = "ucast :: 128 word \<Rightarrow> u64" and g = "\<lambda>i. push_bit i a"];
      (rule bit_word_eqI; auto simp: bit_simps; fail)?)
     (simp_all add: clmul_defs del: upt_rec_numeral)

lemma clmul_reversed: "aluInt a b CLMULR 64 = ucast (drop_bit 63 (cl_product a b))"
  unfolding cl_product_def
  by (subst foldl_xor_linear [where h = "\<lambda>p :: 128 word. ucast (drop_bit 63 p) :: u64"
          and g = "\<lambda>i. drop_bit (64 - 1 - i) a"];
      (rule bit_word_eqI; auto simp: bit_simps; fail)?)
     (simp_all add: clmul_defs del: upt_rec_numeral)

lemma clmul_high: "aluInt a b CLMULH 64 = ucast (drop_bit 64 (cl_product a b))"
proof -
  have zero: "drop_bit 64 a = 0"
    by (rule bit_word_eqI) (auto simp: bit_simps)
  show ?thesis
    unfolding cl_product_def
    by (subst foldl_xor_linear [where h = "\<lambda>p :: 128 word. ucast (drop_bit 64 p) :: u64"
            and g = "\<lambda>i. drop_bit (64 - i) a"];
        (rule bit_word_eqI; auto simp: bit_simps; fail)?)
       (simp_all add: clmul_defs zero del: upt_rec_numeral)
qed

subsection \<open>Properties\<close>

text \<open>(C23) \<open>MULH\<close>, \<open>MULHSU\<close> and \<open>MULHU\<close> of the 64-bit ALU return the upper half of the exact
  128-bit product of their operands, read signed by signed, signed by unsigned and unsigned by
  unsigned: the absolute-value-and-negate routine is correct on every input, the most negative
  operand included.\<close>

theorem mul_high_correct:
  "sint (aluInt a b MULH 64) = sint a * sint b div 2 ^ 64 \<and>
   sint (aluInt a b MULHSU 64) = sint a * uint b div 2 ^ 64 \<and>
   uint (aluInt a b MULHU 64) = uint a * uint b div 2 ^ 64"
  using native.signed_high [of a b] native.signed_unsigned_high [of a b] native.mulhu_correct [of a b]
  by (simp add: aluInt_def mul_high_signed_def mul_high_signed_unsigned_def mul_high_unsigned_def)

text \<open>The four-partial-product fallback of \<^verbatim>\<open>mul_high_unsigned64\<close>, used where the compiler
  has no 128-bit integers, computes the same function as the 128-bit multiplication, and so do the
  signed routines built on it.\<close>

theorem mul_high_portable_equiv:
  "mul_high_unsigned64_portable = mul_high_unsigned64 \<and>
   mul_high_signed_with mul_high_unsigned64_portable = mul_high_signed \<and>
   mul_high_signed_unsigned_with mul_high_unsigned64_portable = mul_high_signed_unsigned"
proof -
  have "mul_high_unsigned64_portable = mul_high_unsigned64"
    by (intro ext word_uint_eqI) (simp only: portable.mulhu_correct native.mulhu_correct)
  then show ?thesis
    by (simp add: mul_high_signed_def mul_high_signed_unsigned_def)
qed

text \<open>Signed division truncates towards zero and the remainder takes the sign of the
  dividend, for every divisor but zero; the one overflowing quotient
  (\<open>-2^63 / -1\<close>) is replaced by the dividend and its remainder is 0.\<close>

theorem signed_division_correct:
  assumes "b \<noteq> 0"
  shows "sint (aluInt a b DIV 64) =
      (if a = min_signed \<and> b = - 1 then sint a else sint a sdiv sint b) \<and>
    sint (aluInt a b REM 64) = sint a smod sint b \<and> \<bar>sint (aluInt a b REM 64)\<bar> < \<bar>sint b\<bar>"
proof (intro conjI)
  show "sint (aluInt a b DIV 64) =
      (if a = min_signed \<and> b = - 1 then sint a else sint a sdiv sint b)"
    using assms by (auto simp: alu_cases sint_sdiv_word)
  show rem: "sint (aluInt a b REM 64) = sint a smod sint b"
    using assms by (auto simp: alu_cases sint_smod_word smod_int_alt_def)
  have "sint a smod sint b \<in> {- \<bar>sint b\<bar> + 1..\<bar>sint b\<bar> - 1}"
    using assms by (intro smod_int_range) (simp add: sint_eq_0_iff)
  then show "\<bar>sint (aluInt a b REM 64)\<bar> < \<bar>sint b\<bar>"
    unfolding rem by auto
qed

theorem signed_division_witness:
  "sint (aluInt (- 7) 2 DIV 64) = - 3 \<and> sint (aluInt (- 7) 2 REM 64) = - 1"
  using signed_division_correct [of 2 "- 7"] by (simp add: min_signed_def)

text \<open>Quotient and remainder reconstruct the dividend modulo the register width for every pair
  of operands, division by zero and overflow included, in the signed, unsigned and 32-bit forms.\<close>

theorem division_reconstructs:
  "aluInt a b DIV 64 * b + aluInt a b REM 64 = a \<and>
   aluInt a b DIVU 64 * b + aluInt a b REMU 64 = a \<and>
   sext32 (aluIntW a b DIVW * b + aluIntW a b REMW) = sext32 a \<and>
   sext32 (aluIntW a b DIVUW * b + aluIntW a b REMUW) = sext32 a"
  by (auto simp: alu_cases sext32_def cast_simps sdiv_smod_word minus_min_signed div_mult_mod_eq)

text \<open>In the 32-bit personality every ALU result is the sign extension of a 32-bit value and
  depends on the low words of the operands only; so RV32 code never sees the upper register
  halves, and registers stay sign-extended.\<close>

theorem rv32_results_canonical:
  "sext32 (aluInt a b op_id 32) = aluInt a b op_id 32 \<and>
   aluInt (zext32 a) (zext32 b) op_id 32 = aluInt a b op_id 32"
proof
  show "sext32 (aluInt a b op_id 32) = aluInt a b op_id 32"
    by (simp add: alu_cases aluIntB_def)
  show "aluInt (zext32 a) (zext32 b) op_id 32 = aluInt a b op_id 32"
    by (simp only: aluInt_def aluInt32_def aluIntB_def ucast32_zext32 if_True simp_thms)
qed

text \<open>The word forms of RV64 compute what the RV32 ALU computes on the same registers.\<close>

theorem word_forms_are_rv32:
  "list_all (\<lambda>(opw, op). aluIntW a b opw = aluInt a b op 32)
     [(ADDW, ADD), (ADDIW, ADDI), (SUBW, SUB), (SLLW, SLL), (SLLIW, SLLI), (SRLW, SRL),
      (SRLIW, SRLI), (SRAW, SRA), (SRAIW, SRAI), (MULW, MUL), (DIVW, DIV), (DIVUW, DIVU),
      (REMW, REM), (REMUW, REMU)]"
  by (simp add: alu_cases)

text \<open>\<open>CLMUL\<close>, \<open>CLMULH\<close> and \<open>CLMULR\<close> are the bits 0..63, 64..127 and 63..126 of the
  carry-less product of the operands.\<close>

theorem carryless_products_correct:
  "aluInt a b CLMUL 64 = ucast (cl_product a b) \<and>
   aluInt a b CLMULH 64 = ucast (drop_bit 64 (cl_product a b)) \<and>
   aluInt a b CLMULR 64 = ucast (drop_bit 63 (cl_product a b))"
  by (simp only: clmul_low clmul_high clmul_reversed simp_thms)

text \<open>
 On sign-extended registers the 32-bit and the 64-bit branch comparisons agree for every
  condition code, the unsigned ones included.\<close>

theorem branch_personalities_agree:
  assumes "sext32 a = a" and "sext32 b = b"
  shows "branchTaken a b funct3 32 = branchTaken a b funct3 64"
proof -
  obtain x y :: u32 where "a = scast x" "b = scast y"
    using assms sext32_canonical_iff by metis
  then show ?thesis
    by (simp add: branchTaken_def cast_simps word_sless_alt word_sle_eq)
qed

theorem branch_personalities_witness: "branchTaken (- 1) 5 6 32 = branchTaken (- 1) 5 6 64"
  by (rule branch_personalities_agree) code_simp+

end
