(* ===== verification/Isa_Types.thy ===== *)
theory Isa_Types
  imports Alu
begin

text \<open>
  The instruction-set vocabulary: \<^verbatim>\<open>include/simrv/isa/{Base,Amo,Priv,Common}.hpp\<close> and the
  privilege levels and exception codes of \<^verbatim>\<open>xlen/Types.hpp\<close> and \<^verbatim>\<open>Define.hpp\<close>. The source
  obtains \<^verbatim>\<open>Opcode\<close>, \<^verbatim>\<open>Funct3\<close>, \<^verbatim>\<open>Funct5Amo\<close>, \<^verbatim>\<open>PrivilegeLevel\<close> and \<^verbatim>\<open>ExceptionCode\<close>
  values by \<^verbatim>\<open>static_cast\<close> from instruction bits, so a value of such a type need not be one of
  the enumerators: they are 8-bit words here, with the enumerators as abbreviations. Enumerations
  that are never cast to are datatypes.
\<close>

type_synonym Opcode = u8
type_synonym Funct3 = u8
type_synonym Funct5Amo = u8
type_synonym PrivilegeLevel = u8
type_synonym ExceptionCode = u8

subsection \<open>Enumerators\<close>

abbreviation (input) Opcode_OpImm32 :: Opcode where "Opcode_OpImm32 \<equiv> 0x1B"
abbreviation (input) Opcode_Op :: Opcode where "Opcode_Op \<equiv> 0x33"
abbreviation (input) Opcode_Op32 :: Opcode where "Opcode_Op32 \<equiv> 0x3B"
abbreviation (input) Opcode_OpFp :: Opcode where "Opcode_OpFp \<equiv> 0x53"
abbreviation (input) Opcode_Amo :: Opcode where "Opcode_Amo \<equiv> 0x2F"
abbreviation (input) Opcode_OpImm :: Opcode where "Opcode_OpImm \<equiv> 0x13"
abbreviation (input) Opcode_Load :: Opcode where "Opcode_Load \<equiv> 0x03"
abbreviation (input) Opcode_LoadFp :: Opcode where "Opcode_LoadFp \<equiv> 0x07"
abbreviation (input) Opcode_Jalr :: Opcode where "Opcode_Jalr \<equiv> 0x67"
abbreviation (input) Opcode_Store :: Opcode where "Opcode_Store \<equiv> 0x23"
abbreviation (input) Opcode_StoreFp :: Opcode where "Opcode_StoreFp \<equiv> 0x27"
abbreviation (input) Opcode_Branch :: Opcode where "Opcode_Branch \<equiv> 0x63"
abbreviation (input) Opcode_MAdd :: Opcode where "Opcode_MAdd \<equiv> 0x43"
abbreviation (input) Opcode_MSub :: Opcode where "Opcode_MSub \<equiv> 0x47"
abbreviation (input) Opcode_NMSub :: Opcode where "Opcode_NMSub \<equiv> 0x4B"
abbreviation (input) Opcode_NMAdd :: Opcode where "Opcode_NMAdd \<equiv> 0x4F"
abbreviation (input) Opcode_Lui :: Opcode where "Opcode_Lui \<equiv> 0x37"
abbreviation (input) Opcode_Auipc :: Opcode where "Opcode_Auipc \<equiv> 0x17"
abbreviation (input) Opcode_Jal :: Opcode where "Opcode_Jal \<equiv> 0x6F"
abbreviation (input) Opcode_MiscMem :: Opcode where "Opcode_MiscMem \<equiv> 0x0F"
abbreviation (input) Opcode_System :: Opcode where "Opcode_System \<equiv> 0x73"
abbreviation (input) Opcode_OpV :: Opcode where "Opcode_OpV \<equiv> 0x57"
abbreviation (input) Opcode_Custom0 :: Opcode where "Opcode_Custom0 \<equiv> 0x0B"

abbreviation (input) Funct3_Add :: Funct3 where "Funct3_Add \<equiv> 0x0"
abbreviation (input) Funct3_Sll :: Funct3 where "Funct3_Sll \<equiv> 0x1"
abbreviation (input) Funct3_Slt :: Funct3 where "Funct3_Slt \<equiv> 0x2"
abbreviation (input) Funct3_Sltu :: Funct3 where "Funct3_Sltu \<equiv> 0x3"
abbreviation (input) Funct3_Xor :: Funct3 where "Funct3_Xor \<equiv> 0x4"
abbreviation (input) Funct3_Srl :: Funct3 where "Funct3_Srl \<equiv> 0x5"
abbreviation (input) Funct3_Or :: Funct3 where "Funct3_Or \<equiv> 0x6"
abbreviation (input) Funct3_And :: Funct3 where "Funct3_And \<equiv> 0x7"
abbreviation (input) Funct3_Mul :: Funct3 where "Funct3_Mul \<equiv> 0x0"
abbreviation (input) Funct3_Mulh :: Funct3 where "Funct3_Mulh \<equiv> 0x1"
abbreviation (input) Funct3_Mulhsu :: Funct3 where "Funct3_Mulhsu \<equiv> 0x2"
abbreviation (input) Funct3_Mulhu :: Funct3 where "Funct3_Mulhu \<equiv> 0x3"
abbreviation (input) Funct3_Div :: Funct3 where "Funct3_Div \<equiv> 0x4"
abbreviation (input) Funct3_Divu :: Funct3 where "Funct3_Divu \<equiv> 0x5"
abbreviation (input) Funct3_Rem :: Funct3 where "Funct3_Rem \<equiv> 0x6"
abbreviation (input) Funct3_Remu :: Funct3 where "Funct3_Remu \<equiv> 0x7"
abbreviation (input) Funct3_Sb :: Funct3 where "Funct3_Sb \<equiv> 0x0"
abbreviation (input) Funct3_Sh :: Funct3 where "Funct3_Sh \<equiv> 0x1"
abbreviation (input) Funct3_Sw :: Funct3 where "Funct3_Sw \<equiv> 0x2"
abbreviation (input) Funct3_Sd :: Funct3 where "Funct3_Sd \<equiv> 0x3"
abbreviation (input) Funct3_Lb :: Funct3 where "Funct3_Lb \<equiv> 0x0"
abbreviation (input) Funct3_Lh :: Funct3 where "Funct3_Lh \<equiv> 0x1"
abbreviation (input) Funct3_Lw :: Funct3 where "Funct3_Lw \<equiv> 0x2"
abbreviation (input) Funct3_Ld :: Funct3 where "Funct3_Ld \<equiv> 0x3"
abbreviation (input) Funct3_Lbu :: Funct3 where "Funct3_Lbu \<equiv> 0x4"
abbreviation (input) Funct3_Lhu :: Funct3 where "Funct3_Lhu \<equiv> 0x5"
abbreviation (input) Funct3_Lwu :: Funct3 where "Funct3_Lwu \<equiv> 0x6"
abbreviation (input) Funct3_Flw :: Funct3 where "Funct3_Flw \<equiv> 0x2"
abbreviation (input) Funct3_Fld :: Funct3 where "Funct3_Fld \<equiv> 0x3"
abbreviation (input) Funct3_Fsw :: Funct3 where "Funct3_Fsw \<equiv> 0x2"
abbreviation (input) Funct3_Fsd :: Funct3 where "Funct3_Fsd \<equiv> 0x3"
abbreviation (input) Funct3_Beq :: Funct3 where "Funct3_Beq \<equiv> 0x0"
abbreviation (input) Funct3_Bne :: Funct3 where "Funct3_Bne \<equiv> 0x1"
abbreviation (input) Funct3_Blt :: Funct3 where "Funct3_Blt \<equiv> 0x4"
abbreviation (input) Funct3_Bge :: Funct3 where "Funct3_Bge \<equiv> 0x5"
abbreviation (input) Funct3_Bltu :: Funct3 where "Funct3_Bltu \<equiv> 0x6"
abbreviation (input) Funct3_Bgeu :: Funct3 where "Funct3_Bgeu \<equiv> 0x7"
abbreviation (input) Funct3_Fence :: Funct3 where "Funct3_Fence \<equiv> 0x0"
abbreviation (input) Funct3_FenceI :: Funct3 where "Funct3_FenceI \<equiv> 0x1"
abbreviation (input) Funct3_Priv :: Funct3 where "Funct3_Priv \<equiv> 0x0"
abbreviation (input) Funct3_Csrrw :: Funct3 where "Funct3_Csrrw \<equiv> 0x1"
abbreviation (input) Funct3_Csrrs :: Funct3 where "Funct3_Csrrs \<equiv> 0x2"
abbreviation (input) Funct3_Csrrc :: Funct3 where "Funct3_Csrrc \<equiv> 0x3"
abbreviation (input) Funct3_Csrrwi :: Funct3 where "Funct3_Csrrwi \<equiv> 0x5"
abbreviation (input) Funct3_Csrrsi :: Funct3 where "Funct3_Csrrsi \<equiv> 0x6"
abbreviation (input) Funct3_Csrrci :: Funct3 where "Funct3_Csrrci \<equiv> 0x7"

abbreviation (input) Funct5Amo_Lr :: Funct5Amo where "Funct5Amo_Lr \<equiv> 0x02"
abbreviation (input) Funct5Amo_Sc :: Funct5Amo where "Funct5Amo_Sc \<equiv> 0x03"
abbreviation (input) Funct5Amo_Swap :: Funct5Amo where "Funct5Amo_Swap \<equiv> 0x01"
abbreviation (input) Funct5Amo_Add :: Funct5Amo where "Funct5Amo_Add \<equiv> 0x00"
abbreviation (input) Funct5Amo_And :: Funct5Amo where "Funct5Amo_And \<equiv> 0x0c"
abbreviation (input) Funct5Amo_Or :: Funct5Amo where "Funct5Amo_Or \<equiv> 0x08"
abbreviation (input) Funct5Amo_Xor :: Funct5Amo where "Funct5Amo_Xor \<equiv> 0x04"
abbreviation (input) Funct5Amo_Min :: Funct5Amo where "Funct5Amo_Min \<equiv> 0x10"
abbreviation (input) Funct5Amo_Minu :: Funct5Amo where "Funct5Amo_Minu \<equiv> 0x18"
abbreviation (input) Funct5Amo_Max :: Funct5Amo where "Funct5Amo_Max \<equiv> 0x14"
abbreviation (input) Funct5Amo_Maxu :: Funct5Amo where "Funct5Amo_Maxu \<equiv> 0x1c"

abbreviation (input) AmoStatus_Success :: u8 where "AmoStatus_Success \<equiv> 0"
abbreviation (input) AmoStatus_Failure :: u8 where "AmoStatus_Failure \<equiv> 1"

abbreviation (input) Funct12Priv_Ecall :: u16 where "Funct12Priv_Ecall \<equiv> 0x000"
abbreviation (input) Funct12Priv_Ebreak :: u16 where "Funct12Priv_Ebreak \<equiv> 0x001"
abbreviation (input) Funct12Priv_Uret :: u16 where "Funct12Priv_Uret \<equiv> 0x002"
abbreviation (input) Funct12Priv_Sret :: u16 where "Funct12Priv_Sret \<equiv> 0x102"
abbreviation (input) Funct12Priv_Mret :: u16 where "Funct12Priv_Mret \<equiv> 0x302"
abbreviation (input) Funct12Priv_Wfi :: u16 where "Funct12Priv_Wfi \<equiv> 0x105"

abbreviation (input) User :: PrivilegeLevel where "User \<equiv> 0"
abbreviation (input) Supervisor :: PrivilegeLevel where "Supervisor \<equiv> 1"
abbreviation (input) Machine :: PrivilegeLevel where "Machine \<equiv> 3"

abbreviation (input) MisalignedFetch :: ExceptionCode where "MisalignedFetch \<equiv> 0x0"
abbreviation (input) FaultFetch :: ExceptionCode where "FaultFetch \<equiv> 0x1"
abbreviation (input) IllegalInstruction :: ExceptionCode where "IllegalInstruction \<equiv> 0x2"
abbreviation (input) Breakpoint :: ExceptionCode where "Breakpoint \<equiv> 0x3"
abbreviation (input) MisalignedLoad :: ExceptionCode where "MisalignedLoad \<equiv> 0x4"
abbreviation (input) FaultLoad :: ExceptionCode where "FaultLoad \<equiv> 0x5"
abbreviation (input) MisalignedStore :: ExceptionCode where "MisalignedStore \<equiv> 0x6"
abbreviation (input) FaultStore :: ExceptionCode where "FaultStore \<equiv> 0x7"
abbreviation (input) UserEcall :: ExceptionCode where "UserEcall \<equiv> 0x8"
abbreviation (input) SupervisorEcall :: ExceptionCode where "SupervisorEcall \<equiv> 0x9"
abbreviation (input) HypervisorEcall :: ExceptionCode where "HypervisorEcall \<equiv> 0xa"
abbreviation (input) MachineEcall :: ExceptionCode where "MachineEcall \<equiv> 0xb"
abbreviation (input) FetchPageFault :: ExceptionCode where "FetchPageFault \<equiv> 0xc"
abbreviation (input) LoadPageFault :: ExceptionCode where "LoadPageFault \<equiv> 0xd"
abbreviation (input) StorePageFault :: ExceptionCode where "StorePageFault \<equiv> 0xf"

datatype IsaExtension =
  Ext_A | Ext_B | Ext_C | Ext_D | Ext_F | Ext_I | Ext_M | Ext_S | Ext_U | Ext_V

text \<open>The enumerators of \<^verbatim>\<open>IsaExtension\<close> are bit positions of \<^verbatim>\<open>misa\<close>.\<close>

primrec extension_position :: "IsaExtension \<Rightarrow> nat" where
  "extension_position Ext_A = 0"
| "extension_position Ext_B = 1"
| "extension_position Ext_C = 2"
| "extension_position Ext_D = 3"
| "extension_position Ext_F = 5"
| "extension_position Ext_I = 8"
| "extension_position Ext_M = 12"
| "extension_position Ext_S = 18"
| "extension_position Ext_U = 20"
| "extension_position Ext_V = 21"

datatype MisaProfile = Profile_I | Profile_IMAC | Profile_GC | Profile_GCBV

datatype InstFormat = Format_R | Format_I | Format_S | Format_B | Format_U | Format_J | Format_R4
  | Format_Unknown

subsection \<open>Instruction fields\<close>

definition opcode_of :: "Instruction \<Rightarrow> Opcode" where
  "opcode_of ir = ucast (ir AND 0x7F)"

definition funct3_of :: "Instruction \<Rightarrow> Funct3" where
  "funct3_of ir = ucast (drop_bit 12 ir AND 0x7)"

definition funct12_of :: "Instruction \<Rightarrow> Instruction" where
  "funct12_of ir = drop_bit 20 ir AND 0xFFF"

definition funct7_of :: "Instruction \<Rightarrow> Instruction" where
  "funct7_of ir = drop_bit 25 ir AND 0x7F"

definition funct5_of :: "Instruction \<Rightarrow> Funct5Amo" where
  "funct5_of ir = ucast (drop_bit 27 ir AND 0x1F)"

subsection \<open>Atomic operand widths\<close>

definition amo_operand_bytes :: "Funct3 \<Rightarrow> nat" where
  "amo_operand_bytes funct3 =
     (if funct3 = Funct3_Lw then 4 else if funct3 = Funct3_Ld then 8 else 0)"

definition amo_width_supported :: "Funct3 \<Rightarrow> bool" where
  "amo_width_supported funct3 \<longleftrightarrow> funct3 = Funct3_Lw \<or> funct3 = Funct3_Ld"

definition amo_address_aligned :: "Address \<Rightarrow> Funct3 \<Rightarrow> bool" where
  "amo_address_aligned address funct3 \<longleftrightarrow>
     (let bytes = amo_operand_bytes funct3 in
      bytes \<noteq> 0 \<and> address AND of_nat (bytes - 1) = 0)"

subsection \<open>The misa register\<close>

definition misa_extension_bit :: "IsaExtension \<Rightarrow> CSRValue" where
  "misa_extension_bit ext = push_bit (extension_position ext) 1"

definition misa_base_bits :: CSRValue where
  "misa_base_bits =
     misa_extension_bit Ext_I OR misa_extension_bit Ext_M OR misa_extension_bit Ext_A OR
     misa_extension_bit Ext_B OR misa_extension_bit Ext_F OR misa_extension_bit Ext_D OR
     misa_extension_bit Ext_C OR misa_extension_bit Ext_S OR misa_extension_bit Ext_U OR
     misa_extension_bit Ext_V"

primrec misa_profile_bits :: "MisaProfile \<Rightarrow> CSRValue" where
  "misa_profile_bits Profile_I = misa_extension_bit Ext_I"
| "misa_profile_bits Profile_IMAC =
     misa_extension_bit Ext_I OR misa_extension_bit Ext_M OR misa_extension_bit Ext_A OR
     misa_extension_bit Ext_C"
| "misa_profile_bits Profile_GC =
     misa_extension_bit Ext_I OR misa_extension_bit Ext_M OR misa_extension_bit Ext_A OR
     misa_extension_bit Ext_F OR misa_extension_bit Ext_D OR misa_extension_bit Ext_C OR
     misa_extension_bit Ext_S OR misa_extension_bit Ext_U"
| "misa_profile_bits Profile_GCBV = misa_base_bits"

definition misa_mxl_field :: CSRValue where
  "misa_mxl_field = push_bit 62 2"

definition misa_with_mxl :: "CSRValue \<Rightarrow> CSRValue" where
  "misa_with_mxl misa_extensions = misa_extensions OR misa_mxl_field"

definition kMisaDefault :: CSRValue where
  "kMisaDefault = misa_profile_bits Profile_GCBV"

definition misa_has_extension :: "CSRValue \<Rightarrow> IsaExtension \<Rightarrow> bool" where
  "misa_has_extension misa ext \<longleftrightarrow> misa AND misa_extension_bit ext \<noteq> 0"

definition epc_read_value :: "CSRValue \<Rightarrow> CSRValue \<Rightarrow> CSRValue" where
  "epc_read_value epc misa =
     (let alignment_mask = (if misa_has_extension misa Ext_C then 1 else 3) in
      epc AND NOT alignment_mask)"

subsection \<open>Extension gating\<close>

definition required_extension_for_instruction :: "Instruction \<Rightarrow> bool \<Rightarrow> IsaExtension" where
  "required_extension_for_instruction ir compressed =
     (if compressed then Ext_C
      else let opcode = opcode_of ir in
        if opcode = Opcode_Amo then Ext_A
        else if opcode = Opcode_Op \<or> opcode = Opcode_Op32 then
          (if funct7_of ir AND 0x1 \<noteq> 0 then Ext_M else Ext_I)
        else if opcode = Opcode_LoadFp \<or> opcode = Opcode_StoreFp then
          (let f3 = funct3_of ir in
           if f3 = Funct3_Fld \<or> f3 = Funct3_Fsd then Ext_D
           else if f3 = 2 then Ext_F
           else Ext_V)
        else if opcode = Opcode_OpV then Ext_V
        else if opcode = Opcode_OpFp \<or> opcode = Opcode_MAdd \<or> opcode = Opcode_MSub \<or>
                opcode = Opcode_NMAdd \<or> opcode = Opcode_NMSub then
          (if opcode = Opcode_OpFp \<and> funct7_of ir = 0x20 then Ext_D
           else if drop_bit 25 ir AND 0x3 = 0x1 then Ext_D else Ext_F)
        else Ext_I)"

definition instruction_enabled_by_misa :: "CSRValue \<Rightarrow> Instruction \<Rightarrow> bool \<Rightarrow> bool" where
  "instruction_enabled_by_misa misa ir compressed =
     misa_has_extension misa (required_extension_for_instruction ir compressed)"

definition is_destination_fp :: "Opcode \<Rightarrow> OperationId \<Rightarrow> bool" where
  "is_destination_fp opcode op_id =
    (if opcode = Opcode_LoadFp then True
     else if opcode \<noteq> Opcode_OpFp then False
     else if op_id \<in> {FCVT_W_S, FCVT_WU_S, FCVT_L_S, FCVT_LU_S, FCVT_W_D, FCVT_WU_D, FCVT_L_D,
           FCVT_LU_D, FEQ_S, FLT_S, FLE_S, FEQ_D, FLT_D, FLE_D, FCLASS_S, FCLASS_D, FMV_X_W,
           FMV_X_D} then
       False
     else True)"

definition is_rs1_fp :: "Opcode \<Rightarrow> OperationId \<Rightarrow> bool" where
  "is_rs1_fp opcode op_id =
    (if opcode = Opcode_StoreFp then True
     else if opcode \<noteq> Opcode_OpFp \<and> opcode \<noteq> Opcode_MAdd \<and> opcode \<noteq> Opcode_MSub \<and>
           opcode \<noteq> Opcode_NMSub \<and> opcode \<noteq> Opcode_NMAdd then
       False
     else if op_id \<in> {FCVT_S_W, FCVT_S_WU, FCVT_S_L, FCVT_S_LU, FCVT_D_W, FCVT_D_WU, FCVT_D_L,
           FCVT_D_LU, FMV_W_X, FMV_D_X} then
       False
     else True)"

definition is_rs2_fp :: "Opcode \<Rightarrow> OperationId \<Rightarrow> bool" where
  "is_rs2_fp opcode op_id =
    (if opcode = Opcode_StoreFp then True
     else if opcode \<noteq> Opcode_OpFp \<and> opcode \<noteq> Opcode_MAdd \<and> opcode \<noteq> Opcode_MSub \<and>
           opcode \<noteq> Opcode_NMSub \<and> opcode \<noteq> Opcode_NMAdd then
       False
     else True)"

definition get_instruction_format :: "Opcode \<Rightarrow> InstFormat" where
  "get_instruction_format op =
    (if op \<in> {Opcode_Load, Opcode_LoadFp, Opcode_MiscMem, Opcode_OpImm, Opcode_OpImm32,
          Opcode_Jalr, Opcode_System} then
       Format_I
     else if op = Opcode_Store \<or> op = Opcode_StoreFp then Format_S
     else if op = Opcode_Branch then Format_B
     else if op = Opcode_Auipc \<or> op = Opcode_Lui then Format_U
     else if op = Opcode_Jal then Format_J
     else if op \<in> {Opcode_Op, Opcode_Op32, Opcode_Amo, Opcode_OpFp, Opcode_OpV} then Format_R
     else if op \<in> {Opcode_MAdd, Opcode_MSub, Opcode_NMSub, Opcode_NMAdd} then Format_R4
     else Format_Unknown)"

definition requires_rv64 :: "OperationId \<Rightarrow> bool" where
  "requires_rv64 op_id =
    (if op_id \<in> {LD, LWU, SD, ADDIW, SLLIW, SRLIW, SRAIW, ADDW, SUBW, SLLW, SRLW, SRAW, MULW,
          DIVW, DIVUW, REMW, REMUW, FCVT_L_S, FCVT_LU_S, FCVT_S_L, FCVT_S_LU, FCVT_L_D,
          FCVT_LU_D, FCVT_D_L, FCVT_D_LU, FMV_X_D, FMV_D_X} then
       True
     else False)"

end
