(* ===== verification/Decoder.thy ===== *)
theory Decoder
  imports Isa_Types
begin

text \<open>
  Instruction decoding: the field and immediate accessors of \<^verbatim>\<open>class Decoder\<close>
  (\<^verbatim>\<open>include/simrv/pipeline/Decoder.hpp\<close>) and the decision tree of
  \<^verbatim>\<open>src/pipeline/Decoder.cpp\<close> from a 32-bit instruction word to an operation identifier. Each
  helper function of the source is one definition with the same name and the same order of tests;
  a \<^verbatim>\<open>switch\<close> is a chain of conditionals and code that falls through a \<^verbatim>\<open>break\<close> continues with
  the statement after it (\<open>next1\<close>, \<open>next2\<close> and so on name such continuations).
\<close>

subsection \<open>Fields and immediates\<close>

definition is_compressed :: "Instruction \<Rightarrow> bool" where
  "is_compressed inst \<longleftrightarrow> inst AND 0x3 \<noteq> 0x3"

definition rd_of :: "Instruction \<Rightarrow> u8" where
  "rd_of inst = ucast (drop_bit 7 inst AND 0x1F)"

definition rs1_of :: "Instruction \<Rightarrow> u8" where
  "rs1_of inst = ucast (drop_bit 15 inst AND 0x1F)"

definition rs2_of :: "Instruction \<Rightarrow> u8" where
  "rs2_of inst = ucast (drop_bit 20 inst AND 0x1F)"

definition rs3_of :: "Instruction \<Rightarrow> u8" where
  "rs3_of inst = ucast (drop_bit 27 inst AND 0x1F)"

definition imm_i :: "Instruction \<Rightarrow> u32" where
  "imm_i inst = signed_drop_bit 20 inst"

definition imm_s :: "Instruction \<Rightarrow> u32" where
  "imm_s inst = signed_drop_bit 20 (inst AND 0xFE000000) OR (drop_bit 7 inst AND 0x1F)"

definition imm_b :: "Instruction \<Rightarrow> u32" where
  "imm_b inst =
     signed_drop_bit 19 (inst AND 0x80000000) OR drop_bit 20 (inst AND 0x7E000000) OR
     drop_bit 7 (inst AND 0x00000F00) OR push_bit 4 (inst AND 0x00000080)"

definition imm_u :: "Instruction \<Rightarrow> u32" where
  "imm_u inst = inst AND 0xFFFFF000"

definition imm_j :: "Instruction \<Rightarrow> u32" where
  "imm_j inst =
     signed_drop_bit 11 (inst AND 0x80000000) OR (inst AND 0x000FF000) OR
     drop_bit 9 (inst AND 0x00100000) OR drop_bit 20 (inst AND 0x7FE00000)"

definition csr_of :: "Instruction \<Rightarrow> u32" where
  "csr_of inst = drop_bit 20 inst AND 0xFFF"

definition zimm_of :: "Instruction \<Rightarrow> u32" where
  "zimm_of inst = ucast (rs1_of inst)"

definition c_op :: "Instruction \<Rightarrow> u32" where
  "c_op inst = drop_bit 13 inst AND 0x7"

definition c_funct4 :: "Instruction \<Rightarrow> u32" where
  "c_funct4 inst = drop_bit 12 inst AND 0xF"

definition c_rs1_rd :: "Instruction \<Rightarrow> u8" where
  "c_rs1_rd inst = ucast (drop_bit 7 inst AND 0x1F)"

definition c_rs2 :: "Instruction \<Rightarrow> u8" where
  "c_rs2 inst = ucast (drop_bit 2 inst AND 0x1F)"

definition c_rs1_rd_p :: "Instruction \<Rightarrow> u8" where
  "c_rs1_rd_p inst = ucast (8 + (drop_bit 7 inst AND 0x7))"

definition c_rs2_p :: "Instruction \<Rightarrow> u8" where
  "c_rs2_p inst = ucast (8 + (drop_bit 2 inst AND 0x7))"

subsection \<open>Base integer instructions\<close>

definition decode_branch :: "u32 \<Rightarrow> OperationId" where
  "decode_branch funct3 =
    (if funct3 = 0 then BEQ
     else if funct3 = 1 then BNE
     else if funct3 = 4 then BLT
     else if funct3 = 5 then BGE
     else if funct3 = 6 then BLTU
     else if funct3 = 7 then BGEU
     else UNKNOWN)"

definition decode_load :: "u32 \<Rightarrow> OperationId" where
  "decode_load funct3 =
    (if funct3 = 0 then LB
     else if funct3 = 1 then LH
     else if funct3 = 2 then LW
     else if funct3 = 3 then LD
     else if funct3 = 4 then LBU
     else if funct3 = 5 then LHU
     else if funct3 = 6 then LWU
     else UNKNOWN)"

definition decode_store :: "u32 \<Rightarrow> OperationId" where
  "decode_store funct3 =
    (if funct3 = 0 then SB
     else if funct3 = 1 then SH
     else if funct3 = 2 then SW
     else if funct3 = 3 then SD
     else UNKNOWN)"

definition decode_op_imm :: "u32 \<Rightarrow> u32 \<Rightarrow> u32 \<Rightarrow> OperationId" where
  "decode_op_imm funct3 funct7 ir =
    (let imm12 = drop_bit 20 ir;
         imm6 = drop_bit 6 imm12
     in
      (if funct3 = 0 then ADDI
       else if funct3 = 1 then
         (if imm12 = 0x600 then CLZ
          else if imm12 = 0x601 then CTZ
          else if imm12 = 0x602 then CPOP
          else if imm12 = 0x604 then SEXT_B
          else if imm12 = 0x605 then SEXT_H
          else if imm6 = 0x0A then BSETI
          else if imm6 = 0x12 then BCLRI
          else if imm6 = 0x1A then BINVI
          else if funct7 = 0x00 \<or> funct7 = 0x01 then SLLI
          else UNKNOWN)
       else if funct3 = 2 then SLTI
       else if funct3 = 3 then SLTIU
       else if funct3 = 4 then XORI
       else if funct3 = 5 then
         (if imm12 = 0x287 then ORC_B
          else if imm12 = 0x698 \<or> imm12 = 0x6b8 then REV8
          else if imm6 = 0x18 then RORI
          else if imm6 = 0x12 then BEXTI
          else if funct7 = 0x00 \<or> funct7 = 0x01 then SRLI
          else if funct7 = 0x20 \<or> funct7 = 0x21 then SRAI
          else UNKNOWN)
       else if funct3 = 6 then ORI
       else if funct3 = 7 then ANDI
       else UNKNOWN))"

definition decode_op_standard :: "u32 \<Rightarrow> u32 \<Rightarrow> OperationId" where
  "decode_op_standard funct3 funct7 =
    (if funct3 = 0 then
       (if funct7 = 0x00 then ADD
        else if funct7 = 0x20 then SUB
        else UNKNOWN)
     else if funct3 = 1 then
       (if funct7 = 0x30 then ROL
        else if funct7 = 0x05 then CLMUL
        else if funct7 = 0x14 then BSET
        else if funct7 = 0x24 then BCLR
        else if funct7 = 0x34 then BINV
        else if funct7 = 0x00 then SLL
        else UNKNOWN)
     else if funct3 = 2 then
       (if funct7 = 0x10 then SH1ADD
        else if funct7 = 0x05 then CLMULR
        else if funct7 = 0x00 then SLT
        else UNKNOWN)
     else if funct3 = 3 then
       (if funct7 = 0x05 then CLMULH
        else if funct7 = 0x00 then SLTU
        else UNKNOWN)
     else if funct3 = 4 then
       (if funct7 = 0x10 then SH2ADD
        else if funct7 = 0x20 then XNOR
        else if funct7 = 0x05 then MIN_op
        else if funct7 = 0x04 then PACK
        else if funct7 = 0x00 then XOR_op
        else UNKNOWN)
     else if funct3 = 5 then
       (if funct7 = 0x30 then ROR
        else if funct7 = 0x24 then BEXT
        else if funct7 = 0x05 then MINU
        else if funct7 = 0x00 then SRL
        else if funct7 = 0x20 then SRA
        else UNKNOWN)
     else if funct3 = 6 then
       (if funct7 = 0x10 then SH3ADD
        else if funct7 = 0x20 then ORN
        else if funct7 = 0x05 then MAX_op
        else if funct7 = 0x00 then OR_op
        else UNKNOWN)
     else if funct3 = 7 then
       (if funct7 = 0x20 then ANDN
        else if funct7 = 0x05 then MAXU
        else if funct7 = 0x00 then AND_op
        else UNKNOWN)
     else UNKNOWN)"

definition decode_op_imm32 :: "u32 \<Rightarrow> u32 \<Rightarrow> u32 \<Rightarrow> OperationId" where
  "decode_op_imm32 funct3 funct7 ir =
    (let imm12 = drop_bit 20 ir;
         imm6 = drop_bit 6 imm12
     in
      (if funct3 = 0 then ADDIW
       else if funct3 = 1 then
         (if imm12 = 0x600 then CLZW
          else if imm12 = 0x601 then CTZW
          else if imm12 = 0x602 then CPOPW
          else if imm6 = 0x02 then SLLI_UW
          else if funct7 = 0x00 then SLLIW
          else UNKNOWN)
       else if funct3 = 5 then
         (if imm6 = 0x18 then RORIW
          else if funct7 = 0x00 then SRLIW
          else if funct7 = 0x20 then SRAIW
          else UNKNOWN)
       else UNKNOWN))"

definition decode_op32_standard :: "u32 \<Rightarrow> u32 \<Rightarrow> OperationId" where
  "decode_op32_standard funct3 funct7 =
    (if funct3 = 0 then
       (if funct7 = 0x04 then ADD_UW
        else if funct7 = 0x00 then ADDW
        else if funct7 = 0x20 then SUBW
        else UNKNOWN)
     else if funct3 = 1 then
       (if funct7 = 0x30 then ROLW
        else if funct7 = 0x00 then SLLW
        else UNKNOWN)
     else if funct3 = 2 then
       (if funct7 = 0x10 then SH1ADD_UW
        else UNKNOWN)
     else if funct3 = 4 then
       (if funct7 = 0x10 then SH2ADD_UW
        else if funct7 = 0x04 then PACKW
        else UNKNOWN)
     else if funct3 = 5 then
       (if funct7 = 0x30 then RORW
        else if funct7 = 0x00 then SRLW
        else if funct7 = 0x20 then SRAW
        else UNKNOWN)
     else if funct3 = 6 then
       (if funct7 = 0x10 then SH3ADD_UW
        else UNKNOWN)
     else UNKNOWN)"

definition decode_system_priv :: "u32 \<Rightarrow> u32 \<Rightarrow> OperationId" where
  "decode_system_priv funct7 ir =
    (let f12 = drop_bit 20 ir;
         rd_is_zero = drop_bit 7 ir AND 0x1F = 0;
         rs1_is_zero = drop_bit 15 ir AND 0x1F = 0
     in
      (if f12 = 0x000 then
         (if rd_is_zero \<and> rs1_is_zero then ECALL
          else UNKNOWN)
       else if f12 = 0x001 then
         (if rd_is_zero \<and> rs1_is_zero then EBREAK
          else UNKNOWN)
       else if f12 = 0x002 then UNKNOWN
       else if f12 = 0x102 then
         (if rd_is_zero \<and> rs1_is_zero then SRET
          else UNKNOWN)
       else if f12 = 0x302 then
         (if rd_is_zero \<and> rs1_is_zero then MRET
          else UNKNOWN)
       else if f12 = 0x105 then
         (if rd_is_zero \<and> rs1_is_zero then WFI
          else UNKNOWN)
       else if funct7 = 0x09 \<and> rd_is_zero then SFENCE_VMA
       else UNKNOWN))"

definition decode_system_csr :: "u32 \<Rightarrow> OperationId" where
  "decode_system_csr funct3 =
    (if funct3 = 1 then CSRRW
     else if funct3 = 2 then CSRRS
     else if funct3 = 3 then CSRRC
     else if funct3 = 5 then CSRRWI
     else if funct3 = 6 then CSRRSI
     else if funct3 = 7 then CSRRCI
     else UNKNOWN)"

definition decode_system :: "u32 \<Rightarrow> u32 \<Rightarrow> u32 \<Rightarrow> OperationId" where
  "decode_system funct3 funct7 ir =
    (if funct3 = 0 then decode_system_priv funct7 ir
     else decode_system_csr funct3)"

definition decode_ext_i :: "Opcode \<Rightarrow> u32 \<Rightarrow> u32 \<Rightarrow> u32 \<Rightarrow> OperationId" where
  "decode_ext_i op funct3 funct7 ir =
    (if op = Opcode_Lui then LUI
     else if op = Opcode_Auipc then AUIPC
     else if op = Opcode_Jal then JAL
     else if op = Opcode_Jalr then JALR
     else if op = Opcode_Branch then decode_branch funct3
     else if op = Opcode_Load then decode_load funct3
     else if op = Opcode_Store then decode_store funct3
     else if op = Opcode_OpImm then decode_op_imm funct3 funct7 ir
     else if op = Opcode_OpImm32 then decode_op_imm32 funct3 funct7 ir
     else if op = Opcode_Op then decode_op_standard funct3 funct7
     else if op = Opcode_Op32 then decode_op32_standard funct3 funct7
     else if op = Opcode_MiscMem then
       (if funct3 = 0 then FENCE
        else if funct3 = 1 then FENCE_I
        else UNKNOWN)
     else if op = Opcode_System then decode_system funct3 funct7 ir
     else UNKNOWN)"

subsection \<open>Multiplication and atomics\<close>

definition decode_ext_m_op :: "u32 \<Rightarrow> OperationId" where
  "decode_ext_m_op funct3 =
    (if funct3 = 0 then MUL
     else if funct3 = 1 then MULH
     else if funct3 = 2 then MULHSU
     else if funct3 = 3 then MULHU
     else if funct3 = 4 then DIV
     else if funct3 = 5 then DIVU
     else if funct3 = 6 then REM
     else if funct3 = 7 then REMU
     else UNKNOWN)"

definition decode_ext_m_op32 :: "u32 \<Rightarrow> OperationId" where
  "decode_ext_m_op32 funct3 =
    (if funct3 = 0 then MULW
     else if funct3 = 4 then DIVW
     else if funct3 = 5 then DIVUW
     else if funct3 = 6 then REMW
     else if funct3 = 7 then REMUW
     else UNKNOWN)"

definition decode_ext_m :: "Opcode \<Rightarrow> u32 \<Rightarrow> OperationId" where
  "decode_ext_m op funct3 =
    (if op = Opcode_Op32 then decode_ext_m_op32 funct3
     else decode_ext_m_op funct3)"

definition decode_ext_a :: "u32 \<Rightarrow> u32 \<Rightarrow> u32 \<Rightarrow> OperationId" where
  "decode_ext_a funct7 funct3 rs2 =
    (if \<not> (amo_width_supported (ucast funct3)) then UNKNOWN
     else
       (let funct5 = drop_bit 2 funct7
        in
         (if funct5 = (ucast Funct5Amo_Lr) \<and> rs2 \<noteq> 0 then UNKNOWN
          else if funct3 = 2 then
            (if funct5 = 0x02 then LR_W
             else if funct5 = 0x03 then SC_W
             else if funct5 = 0x01 then AMOSWAP_W
             else if funct5 = 0x00 then AMOADD_W
             else if funct5 = 0x04 then AMOXOR_W
             else if funct5 = 0x0C then AMOAND_W
             else if funct5 = 0x08 then AMOOR_W
             else if funct5 = 0x10 then AMOMIN_W
             else if funct5 = 0x14 then AMOMAX_W
             else if funct5 = 0x18 then AMOMINU_W
             else if funct5 = 0x1C then AMOMAXU_W
             else UNKNOWN)
          else if funct3 = 3 then
            (if funct5 = 0x02 then LR_D
             else if funct5 = 0x03 then SC_D
             else if funct5 = 0x01 then AMOSWAP_D
             else if funct5 = 0x00 then AMOADD_D
             else if funct5 = 0x04 then AMOXOR_D
             else if funct5 = 0x0C then AMOAND_D
             else if funct5 = 0x08 then AMOOR_D
             else if funct5 = 0x10 then AMOMIN_D
             else if funct5 = 0x14 then AMOMAX_D
             else if funct5 = 0x18 then AMOMINU_D
             else if funct5 = 0x1C then AMOMAXU_D
             else UNKNOWN)
          else UNKNOWN)))"

subsection \<open>Floating point\<close>

definition decode_fma :: "Opcode \<Rightarrow> u32 \<Rightarrow> OperationId" where
  "decode_fma op funct7 =
    (let fmt = funct7 AND 0x03
     in
      (if fmt > 1 then UNKNOWN
       else
         (let is_double = fmt = 1
          in
           (if op = Opcode_MAdd then
              (if is_double then FMADD_D
               else FMADD_S)
            else if op = Opcode_MSub then
              (if is_double then FMSUB_D
               else FMSUB_S)
            else if op = Opcode_NMSub then
              (if is_double then FNMSUB_D
               else FNMSUB_S)
            else if op = Opcode_NMAdd then
              (if is_double then FNMADD_D
               else FNMADD_S)
            else UNKNOWN))))"

definition decode_op_fp_single_arith :: "u32 \<Rightarrow> u32 \<Rightarrow> u32 \<Rightarrow> OperationId" where
  "decode_op_fp_single_arith funct3 f5 rs2 =
    (if f5 = 0x00 then FADD_S
     else if f5 = 0x01 then FSUB_S
     else if f5 = 0x02 then FMUL_S
     else if f5 = 0x03 then FDIV_S
     else if f5 = 0x04 then
       (if funct3 = 0 then FSGNJ_S
        else if funct3 = 1 then FSGNJN_S
        else if funct3 = 2 then FSGNJX_S
        else UNKNOWN)
     else if f5 = 0x05 then
       (if funct3 = 0 then FMIN_S
        else if funct3 = 1 then FMAX_S
        else UNKNOWN)
     else if f5 = 0x0B then
       (if rs2 = 0 then FSQRT_S
        else UNKNOWN)
     else if f5 = 0x1E then
       (if rs2 = 0 \<and> funct3 = 0 then FMV_W_X
        else UNKNOWN)
     else UNKNOWN)"

definition decode_op_fp_single_fcvt :: "u32 \<Rightarrow> u32 \<Rightarrow> OperationId" where
  "decode_op_fp_single_fcvt f5 rs2 =
    (if f5 = 0x08 then
       (if rs2 = 1 then FCVT_S_D
        else UNKNOWN)
     else if f5 = 0x18 then
       (if rs2 = 0 then FCVT_W_S
        else if rs2 = 1 then FCVT_WU_S
        else if rs2 = 2 then FCVT_L_S
        else if rs2 = 3 then FCVT_LU_S
        else UNKNOWN)
     else if f5 = 0x1A then
       (if rs2 = 0 then FCVT_S_W
        else if rs2 = 1 then FCVT_S_WU
        else if rs2 = 2 then FCVT_S_L
        else if rs2 = 3 then FCVT_S_LU
        else UNKNOWN)
     else UNKNOWN)"

definition decode_op_fp_single_cmp :: "u32 \<Rightarrow> u32 \<Rightarrow> OperationId" where
  "decode_op_fp_single_cmp funct3 f5 =
    (if f5 = 0x14 then
       (if funct3 = 0 then FLE_S
        else if funct3 = 1 then FLT_S
        else if funct3 = 2 then FEQ_S
        else UNKNOWN)
     else if f5 = 0x1C then
       (if funct3 = 0 then FMV_X_W
        else if funct3 = 1 then FCLASS_S
        else UNKNOWN)
     else UNKNOWN)"

definition decode_op_fp_single :: "u32 \<Rightarrow> u32 \<Rightarrow> u32 \<Rightarrow> OperationId" where
  "decode_op_fp_single funct3 f5 rs2 =
    (if f5 = 0x08 \<or> f5 = 0x18 \<or> f5 = 0x1A then decode_op_fp_single_fcvt f5 rs2
     else if f5 = 0x1C \<and> rs2 \<noteq> 0 then UNKNOWN
     else if f5 = 0x14 \<or> f5 = 0x1C then decode_op_fp_single_cmp funct3 f5
     else decode_op_fp_single_arith funct3 f5 rs2)"

definition decode_op_fp_double_arith :: "u32 \<Rightarrow> u32 \<Rightarrow> u32 \<Rightarrow> OperationId" where
  "decode_op_fp_double_arith funct3 f5 rs2 =
    (if f5 = 0x00 then FADD_D
     else if f5 = 0x01 then FSUB_D
     else if f5 = 0x02 then FMUL_D
     else if f5 = 0x03 then FDIV_D
     else if f5 = 0x04 then
       (if funct3 = 0 then FSGNJ_D
        else if funct3 = 1 then FSGNJN_D
        else if funct3 = 2 then FSGNJX_D
        else UNKNOWN)
     else if f5 = 0x05 then
       (if funct3 = 0 then FMIN_D
        else if funct3 = 1 then FMAX_D
        else UNKNOWN)
     else if f5 = 0x0B then
       (if rs2 = 0 then FSQRT_D
        else UNKNOWN)
     else UNKNOWN)"

definition decode_op_fp_double_fcvt :: "u32 \<Rightarrow> u32 \<Rightarrow> u32 \<Rightarrow> OperationId" where
  "decode_op_fp_double_fcvt funct3 f5 rs2 =
    (if f5 = 0x08 then
       (if rs2 = 0 \<and> funct3 = 0 then FCVT_D_S
        else UNKNOWN)
     else if f5 = 0x18 then
       (if rs2 = 0 then FCVT_W_D
        else if rs2 = 1 then FCVT_WU_D
        else if rs2 = 2 then FCVT_L_D
        else if rs2 = 3 then FCVT_LU_D
        else UNKNOWN)
     else if f5 = 0x1A then
       (if rs2 = 0 then FCVT_D_W
        else if rs2 = 1 then FCVT_D_WU
        else if rs2 = 2 then FCVT_D_L
        else if rs2 = 3 then FCVT_D_LU
        else UNKNOWN)
     else UNKNOWN)"

definition decode_op_fp_double_cmp :: "u32 \<Rightarrow> u32 \<Rightarrow> OperationId" where
  "decode_op_fp_double_cmp funct3 f5 =
    (if f5 = 0x14 then
       (if funct3 = 0 then FLE_D
        else if funct3 = 1 then FLT_D
        else if funct3 = 2 then FEQ_D
        else UNKNOWN)
     else if f5 = 0x1C then
       (if funct3 = 0 then FMV_X_D
        else if funct3 = 1 then FCLASS_D
        else UNKNOWN)
     else if f5 = 0x1E then
       (if funct3 = 0 then FMV_D_X
        else UNKNOWN)
     else UNKNOWN)"

definition decode_op_fp_double :: "u32 \<Rightarrow> u32 \<Rightarrow> u32 \<Rightarrow> OperationId" where
  "decode_op_fp_double funct3 f5 rs2 =
    (if f5 = 0x08 \<or> f5 = 0x18 \<or> f5 = 0x1A then decode_op_fp_double_fcvt funct3 f5 rs2
     else if (f5 = 0x1C \<or> f5 = 0x1E) \<and> rs2 \<noteq> 0 then UNKNOWN
     else if f5 = 0x14 \<or> f5 = 0x1C \<or> f5 = 0x1E then decode_op_fp_double_cmp funct3 f5
     else decode_op_fp_double_arith funct3 f5 rs2)"

definition decode_op_fp :: "u32 \<Rightarrow> u32 \<Rightarrow> u32 \<Rightarrow> OperationId" where
  "decode_op_fp funct3 funct7 rs2 =
    (let fmt = funct7 AND 0x03;
         f5 = drop_bit 2 funct7
     in
      (if fmt = 0 then decode_op_fp_single funct3 f5 rs2
       else if fmt = 1 then decode_op_fp_double funct3 f5 rs2
       else UNKNOWN))"

subsection \<open>Vector instructions\<close>

definition decode_ext_v_range0 :: "u32 \<Rightarrow> u32 \<Rightarrow> OperationId" where
  "decode_ext_v_range0 f6 funct3 =
    (if f6 = 0x00 then
       (if funct3 = 0 then VADD_VV
        else if funct3 = 4 then VADD_VX
        else if funct3 = 3 then VADD_VI
        else if funct3 = 1 then VFADD_VV
        else if funct3 = 5 then VFADD_VF
        else if funct3 = 2 then VREDSUM_VS
        else UNKNOWN)
     else if f6 = 0x01 then
       (if funct3 = 0 then VANDN_VV
        else if funct3 = 4 then VANDN_VX
        else UNKNOWN)
     else if f6 = 0x02 then
       (if funct3 = 0 then VSUB_VV
        else if funct3 = 4 then VSUB_VX
        else UNKNOWN)
     else if f6 = 0x03 then
       (if funct3 = 4 then VRSUB_VX
        else if funct3 = 3 then VRSUB_VI
        else UNKNOWN)
     else if f6 = 0x04 then
       (if funct3 = 0 then VMINU_VV
        else if funct3 = 4 then VMINU_VX
        else UNKNOWN)
     else if f6 = 0x05 then
       (if funct3 = 0 then VMIN_VV
        else if funct3 = 4 then VMIN_VX
        else UNKNOWN)
     else if f6 = 0x06 then
       (if funct3 = 0 then VMAXU_VV
        else if funct3 = 4 then VMAXU_VX
        else UNKNOWN)
     else if f6 = 0x07 then
       (if funct3 = 0 then VMAX_VV
        else if funct3 = 4 then VMAX_VX
        else UNKNOWN)
     else if f6 = 0x09 then
       (if funct3 = 0 then VAND_VV
        else if funct3 = 4 then VAND_VX
        else if funct3 = 3 then VAND_VI
        else UNKNOWN)
     else if f6 = 0x0A then
       (if funct3 = 0 then VOR_VV
        else if funct3 = 4 then VOR_VX
        else if funct3 = 3 then VOR_VI
        else UNKNOWN)
     else if f6 = 0x0B then
       (if funct3 = 0 then VXOR_VV
        else if funct3 = 4 then VXOR_VX
        else if funct3 = 3 then VXOR_VI
        else UNKNOWN)
     else if f6 = 0x0C then
       (if funct3 = 2 then VCLMUL_VV
        else if funct3 = 6 then VCLMUL_VX
        else UNKNOWN)
     else if f6 = 0x0D then
       (if funct3 = 2 then VCLMULH_VV
        else if funct3 = 6 then VCLMULH_VX
        else UNKNOWN)
     else if f6 = 0x0E then
       (if funct3 = 6 then VSLIDE1UP_VX
        else if funct3 = 4 then VSLIDEUP_VX
        else if funct3 = 3 then VSLIDEUP_VI
        else UNKNOWN)
     else if f6 = 0x0F then
       (if funct3 = 6 then VSLIDE1DOWN_VX
        else if funct3 = 4 then VSLIDEDOWN_VX
        else if funct3 = 3 then VSLIDEDOWN_VI
        else UNKNOWN)
     else UNKNOWN)"

definition decode_ext_v_range1 :: "u32 \<Rightarrow> u32 \<Rightarrow> bool \<Rightarrow> u32 \<Rightarrow> OperationId" where
  "decode_ext_v_range1 f6 funct3 vm ir =
    (if f6 = 0x10 then
       (if funct3 = 2 then
          (let rs1_val = drop_bit 15 ir AND 0x1F
           in
            (if rs1_val = 0 then VMV_X_S
             else if rs1_val = 16 then VCPOP_M
             else if rs1_val = 17 then VFIRST_M
             else UNKNOWN))
        else if funct3 = 6 then VMV_S_X
        else if funct3 = 1 then
          (let rs1_val = drop_bit 15 ir AND 0x1F
           in
            (if rs1_val = 0 then VFMV_F_S
             else UNKNOWN))
        else if funct3 = 5 then
          (let vs2 = drop_bit 20 ir AND 0x1F
           in
            (if vs2 = 0 then VFMV_S_F
             else UNKNOWN))
        else if \<not> vm then
          (if funct3 = 0 then VADC_VVM
           else if funct3 = 4 then VADC_VXM
           else if funct3 = 3 then VADC_VIM
           else UNKNOWN)
        else UNKNOWN)
     else if f6 = 0x11 then
       (if vm then
          (if funct3 = 0 then VMADC_VV
           else if funct3 = 4 then VMADC_VX
           else if funct3 = 3 then VMADC_VI
           else UNKNOWN)
        else if funct3 = 0 then VMADC_VVM
        else if funct3 = 4 then VMADC_VXM
        else if funct3 = 3 then VMADC_VIM
        else UNKNOWN)
     else if f6 = 0x12 then
       (if funct3 = 0 then VSBC_VVM
        else if funct3 = 4 then VSBC_VXM
        else if funct3 = 2 then
          (let rs1_val = drop_bit 15 ir AND 0x1F
           in
            (if rs1_val = 7 then VSEXT_VF2
             else if rs1_val = 5 then VSEXT_VF4
             else if rs1_val = 3 then VSEXT_VF8
             else if rs1_val = 6 then VZEXT_VF2
             else if rs1_val = 4 then VZEXT_VF4
             else if rs1_val = 2 then VZEXT_VF8
             else if rs1_val = 8 then VCLZ_V
             else if rs1_val = 9 then VBREV8_V
             else if rs1_val = 10 then VREV8_V
             else if rs1_val = 12 then VBREV_V
             else if rs1_val = 13 then VCTZ_V
             else if rs1_val = 14 then VCPOP_V
             else UNKNOWN))
        else UNKNOWN)
     else if f6 = 0x13 then
       (if vm then
          (if funct3 = 0 then VMSBC_VV
           else if funct3 = 4 then VMSBC_VX
           else UNKNOWN)
        else if funct3 = 0 then VMSBC_VVM
        else if funct3 = 4 then VMSBC_VXM
        else UNKNOWN)
     else if f6 = 0x14 then
       (if funct3 = 0 then VROR_VV
        else if funct3 = 4 then VROR_VX
        else if funct3 = 3 then VROR_VI
        else if funct3 = 2 then
          (let rs1_val = drop_bit 15 ir AND 0x1F
           in
            (if rs1_val = 1 then VMSBF_M
             else if rs1_val = 2 then VMSOF_M
             else if rs1_val = 3 then VMSIF_M
             else if rs1_val = 16 then VIOTA_M
             else if rs1_val = 17 \<and> drop_bit 20 ir AND 0x1F = 0 then VID_V
             else UNKNOWN))
        else UNKNOWN)
     else if f6 = 0x15 then
       (if funct3 = 0 then VROL_VV
        else if funct3 = 4 then VROL_VX
        else UNKNOWN)
     else if f6 = 0x17 then
       (if vm then
          (if funct3 = 0 then VMV_V_V
           else if funct3 = 4 then VMV_V_X
           else if funct3 = 3 then VMV_V_I
           else if funct3 = 2 then VCOMPRESS_VM
           else UNKNOWN)
        else if funct3 = 0 then VMERGE_VVM
        else if funct3 = 4 then VMERGE_VXM
        else if funct3 = 3 then VMERGE_VIM
        else if funct3 = 5 then VFMERGE_VFM
        else UNKNOWN)
     else if f6 = 0x18 then
       (if funct3 = 0 then VMSEQ_VV
        else if funct3 = 4 then VMSEQ_VX
        else if funct3 = 3 then VMSEQ_VI
        else if funct3 = 2 then VMNAND_MM
        else UNKNOWN)
     else if f6 = 0x19 then
       (if funct3 = 0 then VMSNE_VV
        else if funct3 = 4 then VMSNE_VX
        else if funct3 = 3 then VMSNE_VI
        else if funct3 = 2 then VMAND_MM
        else UNKNOWN)
     else if f6 = 0x1A then
       (if funct3 = 0 then VMSLTU_VV
        else if funct3 = 4 then VMSLTU_VX
        else if funct3 = 2 then VMANDN_MM
        else UNKNOWN)
     else if f6 = 0x1B then
       (if funct3 = 0 then VMSLT_VV
        else if funct3 = 4 then VMSLT_VX
        else if funct3 = 2 then VMXOR_MM
        else UNKNOWN)
     else if f6 = 0x1C then
       (if funct3 = 0 then VMSLEU_VV
        else if funct3 = 4 then VMSLEU_VX
        else if funct3 = 3 then VMSLEU_VI
        else if funct3 = 2 then VMOR_MM
        else UNKNOWN)
     else if f6 = 0x1D then
       (if funct3 = 0 then VMSLE_VV
        else if funct3 = 4 then VMSLE_VX
        else if funct3 = 3 then VMSLE_VI
        else if funct3 = 2 then VMNOR_MM
        else UNKNOWN)
     else if f6 = 0x1E then
       (if funct3 = 4 then VMSGTU_VX
        else if funct3 = 3 then VMSGTU_VI
        else if funct3 = 2 then VMORN_MM
        else UNKNOWN)
     else if f6 = 0x1F then
       (if funct3 = 4 then VMSGT_VX
        else if funct3 = 3 then VMSGT_VI
        else if funct3 = 2 then VMXNOR_MM
        else UNKNOWN)
     else UNKNOWN)"

definition decode_ext_v_range2 :: "u32 \<Rightarrow> u32 \<Rightarrow> u32 \<Rightarrow> OperationId" where
  "decode_ext_v_range2 f6 funct3 ir =
    (if f6 = 0x20 then
       (if funct3 = 2 then VDIVU_VV
        else if funct3 = 6 then VDIVU_VX
        else if funct3 = 0 then VSADDU_VV
        else if funct3 = 4 then VSADDU_VX
        else if funct3 = 3 then VSADDU_VI
        else UNKNOWN)
     else if f6 = 0x21 then
       (if funct3 = 2 then VDIV_VV
        else if funct3 = 6 then VDIV_VX
        else if funct3 = 0 then VSADD_VV
        else if funct3 = 4 then VSADD_VX
        else if funct3 = 3 then VSADD_VI
        else UNKNOWN)
     else if f6 = 0x22 then
       (if funct3 = 0 then VSSUBU_VV
        else if funct3 = 4 then VSSUBU_VX
        else UNKNOWN)
     else if f6 = 0x23 then
       (if funct3 = 0 then VSSUB_VV
        else if funct3 = 4 then VSSUB_VX
        else UNKNOWN)
     else if f6 = 0x25 then
       (if funct3 = 0 then VSLL_VV
        else if funct3 = 4 then VSLL_VX
        else if funct3 = 3 then VSLL_VI
        else if funct3 = 2 then VMUL_VV
        else if funct3 = 6 then VMUL_VX
        else UNKNOWN)
     else if f6 = 0x27 then
       (if funct3 = 0 then VSMUL_VV
        else if funct3 = 4 then VSMUL_VX
        else if funct3 = 3 then
          (let simm5 = drop_bit 15 ir AND 0x1F
           in
            (if simm5 = 0 then VMV1R_V
             else if simm5 = 1 then VMV2R_V
             else if simm5 = 3 then VMV4R_V
             else if simm5 = 7 then VMV8R_V
             else UNKNOWN))
        else UNKNOWN)
     else if f6 = 0x28 then
       (if funct3 = 0 then VSRL_VV
        else if funct3 = 4 then VSRL_VX
        else if funct3 = 3 then VSRL_VI
        else UNKNOWN)
     else if f6 = 0x29 then
       (if funct3 = 0 then VSRA_VV
        else if funct3 = 4 then VSRA_VX
        else if funct3 = 3 then VSRA_VI
        else if funct3 = 2 then VMADD_VV
        else if funct3 = 6 then VMADD_VX
        else UNKNOWN)
     else if f6 = 0x2A then
       (if funct3 = 0 then VSSRL_VV
        else if funct3 = 4 then VSSRL_VX
        else if funct3 = 3 then VSSRL_VI
        else UNKNOWN)
     else if f6 = 0x2B then
       (if funct3 = 2 then VNSUB_VV
        else if funct3 = 6 then VNSUB_VX
        else if funct3 = 0 then VSSRA_VV
        else if funct3 = 4 then VSSRA_VX
        else if funct3 = 3 then VSSRA_VI
        else UNKNOWN)
     else if f6 = 0x2C then
       (if funct3 = 0 then VNSRL_WV
        else if funct3 = 4 then VNSRL_WX
        else if funct3 = 3 then VNSRL_WI
        else if funct3 = 1 then VFMACC_VV
        else if funct3 = 5 then VFMACC_VF
        else UNKNOWN)
     else if f6 = 0x2D then
       (if funct3 = 0 then VNSRA_WV
        else if funct3 = 4 then VNSRA_WX
        else if funct3 = 3 then VNSRA_WI
        else if funct3 = 2 then VMACC_VV
        else if funct3 = 6 then VMACC_VX
        else UNKNOWN)
     else if f6 = 0x2E then
       (if funct3 = 0 then VNCLIPU_WV
        else if funct3 = 4 then VNCLIPU_WX
        else if funct3 = 3 then VNCLIPU_WI
        else UNKNOWN)
     else if f6 = 0x2F then
       (if funct3 = 2 then VNMSAC_VV
        else if funct3 = 6 then VNMSAC_VX
        else if funct3 = 0 then VNCLIP_WV
        else if funct3 = 4 then VNCLIP_WX
        else if funct3 = 3 then VNCLIP_WI
        else UNKNOWN)
     else if f6 = 0x30 then
       (if funct3 = 2 then VWADDU_VV
        else if funct3 = 6 then VWADDU_VX
        else if funct3 = 0 then VWREDSUMU_VS
        else UNKNOWN)
     else if f6 = 0x31 then
       (if funct3 = 2 then VWADD_VV
        else if funct3 = 6 then VWADD_VX
        else if funct3 = 0 then VWREDSUM_VS
        else UNKNOWN)
     else if f6 = 0x32 then
       (if funct3 = 2 then VWSUBU_VV
        else if funct3 = 6 then VWSUBU_VX
        else UNKNOWN)
     else if f6 = 0x33 then
       (if funct3 = 2 then VWSUB_VV
        else if funct3 = 6 then VWSUB_VX
        else UNKNOWN)
     else if f6 = 0x34 then
       (if funct3 = 2 then VWADDU_WV
        else if funct3 = 6 then VWADDU_WX
        else UNKNOWN)
     else if f6 = 0x35 then
       (if funct3 = 2 then VWADD_WV
        else if funct3 = 6 then VWADD_WX
        else if funct3 = 0 then VWSLL_VV
        else if funct3 = 4 then VWSLL_VX
        else if funct3 = 3 then VWSLL_VI
        else UNKNOWN)
     else if f6 = 0x36 then
       (if funct3 = 2 then VWSUBU_WV
        else if funct3 = 6 then VWSUBU_WX
        else UNKNOWN)
     else if f6 = 0x37 then
       (if funct3 = 2 then VWSUB_WV
        else if funct3 = 6 then VWSUB_WX
        else UNKNOWN)
     else if f6 = 0x38 then
       (if funct3 = 2 then VWMULU_VV
        else if funct3 = 6 then VWMULU_VX
        else UNKNOWN)
     else if f6 = 0x3A then
       (if funct3 = 2 then VWMULSU_VV
        else if funct3 = 6 then VWMULSU_VX
        else UNKNOWN)
     else if f6 = 0x3B then
       (if funct3 = 2 then VWMUL_VV
        else if funct3 = 6 then VWMUL_VX
        else UNKNOWN)
     else if f6 = 0x3C then
       (if funct3 = 2 then VWMACCU_VV
        else if funct3 = 6 then VWMACCU_VX
        else UNKNOWN)
     else if f6 = 0x3D then
       (if funct3 = 2 then VWMACC_VV
        else if funct3 = 6 then VWMACC_VX
        else UNKNOWN)
     else if f6 = 0x3E then
       (if funct3 = 6 then VWMACCUS_VX
        else UNKNOWN)
     else if f6 = 0x3F then
       (if funct3 = 2 then VWMACCSU_VV
        else if funct3 = 6 then VWMACCSU_VX
        else UNKNOWN)
     else UNKNOWN)"

definition decode_ext_v :: "u32 \<Rightarrow> u32 \<Rightarrow> u32 \<Rightarrow> OperationId" where
  "decode_ext_v funct3 funct7 ir =
    (if funct3 = 7 then
       (if ir AND (push_bit 31 1) = 0 then VSETVLI
        else if drop_bit 30 ir AND 0x3 = 0x3 then VSETIVLI
        else if funct7 = 0x40 then VSETVL
        else UNKNOWN)
     else
       (let vm = ir AND (push_bit 25 1) \<noteq> 0;
            f6 = drop_bit 1 funct7
        in
         (if f6 \<le> 0x0F then decode_ext_v_range0 f6 funct3
          else if f6 \<le> 0x1F then decode_ext_v_range1 f6 funct3 vm ir
          else decode_ext_v_range2 f6 funct3 ir)))"

definition decode_ext_f_d :: "Opcode \<Rightarrow> u32 \<Rightarrow> u32 \<Rightarrow> u32 \<Rightarrow> u32 \<Rightarrow> OperationId" where
  "decode_ext_f_d op funct3 funct7 rs2 ir =
    (if op = Opcode_LoadFp then
       (if funct3 = 2 then FLW
        else if funct3 = 3 then FLD
        else
          (let mop = drop_bit 26 ir AND 3
           in
            (if mop = 0 then
               (let lumop = drop_bit 20 ir AND 0x1F
                in
                 (if lumop = 8 then
                    (let nf = drop_bit 29 ir AND 7;
                         next3 =
                        (let next2 =
                            (let next1 =
                                (if nf = 7 then
                                   (if funct3 = 0 then VL8RE8_V
                                    else if funct3 = 5 then VL8RE16_V
                                    else if funct3 = 6 then VL8RE32_V
                                    else if funct3 = 7 then VL8RE64_V
                                    else UNKNOWN)
                                 else UNKNOWN)
                             in
                              (if nf = 3 then
                                 (if funct3 = 0 then VL4RE8_V
                                  else if funct3 = 5 then VL4RE16_V
                                  else if funct3 = 6 then VL4RE32_V
                                  else if funct3 = 7 then VL4RE64_V
                                  else next1)
                               else next1))
                         in
                          (if nf = 1 then
                             (if funct3 = 0 then VL2RE8_V
                              else if funct3 = 5 then VL2RE16_V
                              else if funct3 = 6 then VL2RE32_V
                              else if funct3 = 7 then VL2RE64_V
                              else next2)
                           else next2))
                     in
                      (if nf = 0 then
                         (if funct3 = 0 then VL1RE8_V
                          else if funct3 = 5 then VL1RE16_V
                          else if funct3 = 6 then VL1RE32_V
                          else if funct3 = 7 then VL1RE64_V
                          else next3)
                       else next3))
                  else if funct3 = 0 then VLE8_V
                  else if funct3 = 5 then VLE16_V
                  else if funct3 = 6 then VLE32_V
                  else if funct3 = 7 then VLE64_V
                  else UNKNOWN))
             else if mop = 2 then
               (if funct3 = 0 then VLSE8_V
                else if funct3 = 5 then VLSE16_V
                else if funct3 = 6 then VLSE32_V
                else if funct3 = 7 then VLSE64_V
                else UNKNOWN)
             else if mop = 1 then
               (if funct3 = 0 then VLUXEI8_V
                else if funct3 = 5 then VLUXEI16_V
                else if funct3 = 6 then VLUXEI32_V
                else if funct3 = 7 then VLUXEI64_V
                else UNKNOWN)
             else if mop = 3 then
               (if funct3 = 0 then VLOXEI8_V
                else if funct3 = 5 then VLOXEI16_V
                else if funct3 = 6 then VLOXEI32_V
                else if funct3 = 7 then VLOXEI64_V
                else UNKNOWN)
             else UNKNOWN)))
     else if op = Opcode_StoreFp then
       (if funct3 = 2 then FSW
        else if funct3 = 3 then FSD
        else
          (let mop = drop_bit 26 ir AND 3
           in
            (if mop = 0 then
               (let sumop = drop_bit 20 ir AND 0x1F
                in
                 (if sumop = 8 then
                    (let nf = drop_bit 29 ir AND 7
                     in
                      (if funct3 = 0 then
                         (if nf = 0 then VS1R_V
                          else if nf = 1 then VS2R_V
                          else if nf = 3 then VS4R_V
                          else if nf = 7 then VS8R_V
                          else UNKNOWN)
                       else UNKNOWN))
                  else if funct3 = 0 then VSE8_V
                  else if funct3 = 5 then VSE16_V
                  else if funct3 = 6 then VSE32_V
                  else if funct3 = 7 then VSE64_V
                  else UNKNOWN))
             else if mop = 2 then
               (if funct3 = 0 then VSSE8_V
                else if funct3 = 5 then VSSE16_V
                else if funct3 = 6 then VSSE32_V
                else if funct3 = 7 then VSSE64_V
                else UNKNOWN)
             else if mop = 1 then
               (if funct3 = 0 then VSUXEI8_V
                else if funct3 = 5 then VSUXEI16_V
                else if funct3 = 6 then VSUXEI32_V
                else if funct3 = 7 then VSUXEI64_V
                else UNKNOWN)
             else if mop = 3 then
               (if funct3 = 0 then VSOXEI8_V
                else if funct3 = 5 then VSOXEI16_V
                else if funct3 = 6 then VSOXEI32_V
                else if funct3 = 7 then VSOXEI64_V
                else UNKNOWN)
             else UNKNOWN)))
     else if op \<in> {Opcode_MAdd, Opcode_MSub, Opcode_NMSub, Opcode_NMAdd} then decode_fma op funct7
     else if op = Opcode_OpFp then decode_op_fp funct3 funct7 rs2
     else UNKNOWN)"

subsection \<open>The decoder\<close>

text \<open>In the 64-bit build the \<^verbatim>\<open>if constexpr (!kIsXLen64)\<close> filter of the floating-point branch is
  compiled out.\<close>

definition decoder :: "Instruction \<Rightarrow> OperationId" where
  "decoder ir =
    (let op = opcode_of ir;
         funct3 = ucast (funct3_of ir) :: u32;
         funct7 = funct7_of ir
     in
      (if op = Opcode_Amo then decode_ext_a funct7 funct3 (ucast (rs2_of ir))
       else if op \<in> {Opcode_LoadFp, Opcode_StoreFp, Opcode_OpFp, Opcode_MAdd, Opcode_MSub,
             Opcode_NMSub, Opcode_NMAdd} then
         decode_ext_f_d op funct3 funct7 (ucast (rs2_of ir)) ir
       else if op = Opcode_OpV then decode_ext_v funct3 funct7 ir
       else if op = Opcode_Custom0 then VCHECK
       else if (op = Opcode_Op \<or> op = Opcode_Op32) \<and> funct7 = 0x01 then decode_ext_m op funct3
       else decode_ext_i op funct3 funct7 ir))"

subsection \<open>Which instructions decode to vector operations\<close>

lemma not_vector_if: "is_vector_op_id (if b then x else y) \<longleftrightarrow> (if b then is_vector_op_id x else is_vector_op_id y)"
  by simp

lemma not_vector_base:
  "\<not> is_vector_op_id (decode_branch f3)" "\<not> is_vector_op_id (decode_load f3)"
  "\<not> is_vector_op_id (decode_store f3)" "\<not> is_vector_op_id (decode_op_imm f3 f7 ir)"
  "\<not> is_vector_op_id (decode_op_standard f3 f7)" "\<not> is_vector_op_id (decode_op_imm32 f3 f7 ir)"
  "\<not> is_vector_op_id (decode_op32_standard f3 f7)" "\<not> is_vector_op_id (decode_system f3 f7 ir)"
  unfolding decode_branch_def decode_load_def decode_store_def decode_op_imm_def decode_op_standard_def
    decode_op_imm32_def decode_op32_standard_def decode_system_def decode_system_priv_def decode_system_csr_def
    Let_def not_vector_if
  by (simp_all add: is_vector_op_id_def)

lemma not_vector_ext:
  "\<not> is_vector_op_id (decode_ext_i op f3 f7 ir)" "\<not> is_vector_op_id (decode_ext_m op f3)"
  "\<not> is_vector_op_id (decode_ext_a f7 f3 rs2)" "\<not> is_vector_op_id (decode_fma op f7)"
  unfolding decode_ext_i_def decode_ext_m_def decode_ext_m_op_def decode_ext_m_op32_def decode_ext_a_def
    decode_fma_def Let_def not_vector_if
  by (simp_all add: not_vector_base) (simp_all add: is_vector_op_id_def word_le_nat_alt)

lemma not_vector_fp: "\<not> is_vector_op_id (decode_op_fp f3 f7 rs2)"
  unfolding decode_op_fp_def decode_op_fp_single_def decode_op_fp_double_def
    decode_op_fp_single_arith_def decode_op_fp_single_fcvt_def decode_op_fp_single_cmp_def
    decode_op_fp_double_arith_def decode_op_fp_double_fcvt_def decode_op_fp_double_cmp_def
    Let_def not_vector_if
  by (simp add: is_vector_op_id_def)

lemma not_vector_fp_memory:
  "op \<in> {Opcode_LoadFp, Opcode_StoreFp} \<Longrightarrow> f3 = 2 \<or> f3 = 3 \<Longrightarrow>
     \<not> is_vector_op_id (decode_ext_f_d op f3 f7 rs2 ir)"
  by (auto simp: decode_ext_f_d_def is_vector_op_id_def)

lemma not_vector_fp_compute:
  "op \<notin> {Opcode_LoadFp, Opcode_StoreFp} \<Longrightarrow> \<not> is_vector_op_id (decode_ext_f_d op f3 f7 rs2 ir)"
  unfolding decode_ext_f_d_def not_vector_if
  by (simp add: not_vector_ext not_vector_fp) (simp add: is_vector_op_id_def)

text \<open>The pipeline recognises a vector instruction in two ways: by opcode when it checks that
  the vector state is enabled, and by the range of operation identifiers when it executes. Every
  word that decodes into the range has a vector opcode, so no vector operation escapes the check.\<close>

theorem vector_ops_gated:
  assumes "is_vector_op_id (decoder ir)"
  shows "opcode_of ir = Opcode_OpV \<or>
    (opcode_of ir = Opcode_LoadFp \<or> opcode_of ir = Opcode_StoreFp) \<and>
      funct3_of ir \<noteq> 2 \<and> funct3_of ir \<noteq> 3"
proof (rule ccontr)
  assume *: "\<not> ?thesis"
  have "\<not> is_vector_op_id VCHECK" by (simp add: is_vector_op_id_def)
  moreover have "\<not> is_vector_op_id (decode_ext_f_d (opcode_of ir) (ucast (funct3_of ir)) (funct7_of ir) (ucast (rs2_of ir)) ir)"
  proof (cases "opcode_of ir \<in> {Opcode_LoadFp, Opcode_StoreFp}")
    case True
    then have "(ucast (funct3_of ir) :: u32) = 2 \<or> (ucast (funct3_of ir) :: u32) = 3"
      using * by auto
    then show ?thesis using True by (rule not_vector_fp_memory [rotated])
  qed (rule not_vector_fp_compute)
  ultimately show False
    using assms * unfolding decoder_def Let_def not_vector_if
    by (simp add: not_vector_ext split: if_splits)
qed

theorem vector_ops_gated_witness:
  "opcode_of 0x02000057 = Opcode_OpV \<or>
    (opcode_of 0x02000057 = Opcode_LoadFp \<or> opcode_of 0x02000057 = Opcode_StoreFp) \<and>
      funct3_of 0x02000057 \<noteq> 2 \<and> funct3_of 0x02000057 \<noteq> 3"
  by (rule vector_ops_gated) code_simp

end
