(* ===== verification/Decompress.thy ===== *)
theory Decompress
  imports Decoder
begin

text \<open>
  Expansion of the compressed instructions (\<^verbatim>\<open>decompressInstruction\<close> and its helpers in
  \<^verbatim>\<open>src/pipeline/Decoder.cpp\<close>): the encoders \<^verbatim>\<open>make_*_type\<close> of the 32-bit formats and one
  definition per quadrant.
\<close>

subsection \<open>Encoders\<close>

definition make_r_type :: "u32 \<Rightarrow> u32 \<Rightarrow> u32 \<Rightarrow> u32 \<Rightarrow> u32 \<Rightarrow> u32 \<Rightarrow> u32" where
  "make_r_type opcode funct3 funct7 rd rs1 rs2 =
    opcode OR push_bit 7 rd OR push_bit 12 funct3 OR push_bit 15 rs1 OR push_bit 20 rs2 OR
          push_bit 25 funct7"

definition make_i_type :: "u32 \<Rightarrow> u32 \<Rightarrow> u32 \<Rightarrow> u32 \<Rightarrow> u32 \<Rightarrow> u32" where
  "make_i_type opcode funct3 rd rs1 imm =
    opcode OR push_bit 7 rd OR push_bit 12 funct3 OR push_bit 15 rs1 OR
          push_bit 20 (imm AND 0xFFF)"

definition make_s_type :: "u32 \<Rightarrow> u32 \<Rightarrow> u32 \<Rightarrow> u32 \<Rightarrow> u32 \<Rightarrow> u32" where
  "make_s_type opcode funct3 rs1 rs2 imm =
    opcode OR push_bit 7 (imm AND 0x1F) OR push_bit 12 funct3 OR push_bit 15 rs1 OR
          push_bit 20 rs2 OR push_bit 25 (drop_bit 5 imm AND 0x7F)"

definition make_b_type :: "u32 \<Rightarrow> u32 \<Rightarrow> u32 \<Rightarrow> u32 \<Rightarrow> u32 \<Rightarrow> u32" where
  "make_b_type opcode funct3 rs1 rs2 imm =
    opcode OR push_bit 7 (drop_bit 11 imm AND 0x1) OR push_bit 8 (drop_bit 1 imm AND 0xF) OR
          push_bit 12 funct3 OR push_bit 15 rs1 OR push_bit 20 rs2 OR
          push_bit 25 (drop_bit 5 imm AND 0x3F) OR push_bit 31 (drop_bit 12 imm AND 0x1)"

definition make_u_type :: "u32 \<Rightarrow> u32 \<Rightarrow> u32 \<Rightarrow> u32" where
  "make_u_type opcode rd imm =
    opcode OR push_bit 7 rd OR (imm AND 0xFFFFF000)"

definition make_j_type :: "u32 \<Rightarrow> u32 \<Rightarrow> u32 \<Rightarrow> u32" where
  "make_j_type opcode rd imm =
    opcode OR push_bit 7 rd OR push_bit 12 (drop_bit 12 imm AND 0xFF) OR
          push_bit 20 (drop_bit 11 imm AND 0x1) OR push_bit 21 (drop_bit 1 imm AND 0x3FF) OR
          push_bit 31 (drop_bit 20 imm AND 0x1)"

subsection \<open>Quadrants\<close>

definition decompress_q0 :: "u32 \<Rightarrow> bool \<Rightarrow> u32 \<Rightarrow> u32 \<Rightarrow> u32 \<Rightarrow> u32" where
  "decompress_q0 ir is_rv64 op rs1_p rs2_p =
    (if op = 0 then
       (let imm = push_bit 6 (drop_bit 7 ir AND 0xF) OR push_bit 4 (drop_bit 11 ir AND 0x3) OR
             push_bit 3 (drop_bit 5 ir AND 0x1) OR push_bit 2 (drop_bit 6 ir AND 0x1)
        in
         (if imm = 0 then 0
          else make_i_type 0x13 0x0 rs2_p 2 imm))
     else if op = 1 then
       (let imm = push_bit 6 (drop_bit 5 ir AND 0x3) OR push_bit 3 (drop_bit 10 ir AND 0x7)
        in
         make_i_type 0x07 0x3 rs2_p rs1_p imm)
     else if op = 2 then
       (let imm = push_bit 6 (drop_bit 5 ir AND 0x1) OR push_bit 3 (drop_bit 10 ir AND 0x7) OR
             push_bit 2 (drop_bit 6 ir AND 0x1)
        in
         make_i_type 0x03 0x2 rs2_p rs1_p imm)
     else if op = 3 then
       (if is_rv64 then
          (let imm = push_bit 6 (drop_bit 5 ir AND 0x3) OR push_bit 3 (drop_bit 10 ir AND 0x7)
           in
            make_i_type 0x03 0x3 rs2_p rs1_p imm)
        else
          (let imm = push_bit 6 (drop_bit 5 ir AND 0x1) OR push_bit 3 (drop_bit 10 ir AND 0x7) OR
                push_bit 2 (drop_bit 6 ir AND 0x1)
           in
            make_i_type 0x07 0x2 rs2_p rs1_p imm))
     else if op = 5 then
       (let imm = push_bit 6 (drop_bit 5 ir AND 0x3) OR push_bit 3 (drop_bit 10 ir AND 0x7)
        in
         make_s_type 0x27 0x3 rs1_p rs2_p imm)
     else if op = 6 then
       (let imm = push_bit 6 (drop_bit 5 ir AND 0x1) OR push_bit 3 (drop_bit 10 ir AND 0x7) OR
             push_bit 2 (drop_bit 6 ir AND 0x1)
        in
         make_s_type 0x23 0x2 rs1_p rs2_p imm)
     else if op = 7 then
       (if is_rv64 then
          (let imm = push_bit 6 (drop_bit 5 ir AND 0x3) OR push_bit 3 (drop_bit 10 ir AND 0x7)
           in
            make_s_type 0x23 0x3 rs1_p rs2_p imm)
        else
          (let imm = push_bit 6 (drop_bit 5 ir AND 0x1) OR push_bit 3 (drop_bit 10 ir AND 0x7) OR
                push_bit 2 (drop_bit 6 ir AND 0x1)
           in
            make_s_type 0x27 0x2 rs1_p rs2_p imm))
     else 0)"

definition decompress_q1_op4 :: "u32 \<Rightarrow> u32 \<Rightarrow> u32 \<Rightarrow> u32" where
  "decompress_q1_op4 ir rs1_p rs2_p =
    (let sub_op = drop_bit 10 ir AND 0x3
     in
      (if sub_op = 0 \<or> sub_op = 1 then
         (let shamt = (drop_bit 2 ir AND 0x1F) OR push_bit 5 (drop_bit 12 ir AND 0x1);
              funct7 = if (sub_op = 1) then 0x20 else 0x00
          in
           make_r_type 0x13 0x5 funct7 rs1_p rs1_p shamt)
       else if sub_op = 2 then
         (let imm = (drop_bit 2 ir AND 0x1F) OR
               (if ((drop_bit 12 ir AND 0x1) \<noteq> 0) then 0xFFFFFFE0 else 0)
          in
           make_i_type 0x13 0x7 rs1_p rs1_p imm)
       else
         (let funct_sub = drop_bit 5 ir AND 0x3;
              bit12 = drop_bit 12 ir AND 0x1
          in
           (if bit12 = 0 then
              (if funct_sub = 0 then make_r_type 0x33 0x0 0x20 rs1_p rs1_p rs2_p
               else if funct_sub = 1 then make_r_type 0x33 0x4 0x00 rs1_p rs1_p rs2_p
               else if funct_sub = 2 then make_r_type 0x33 0x6 0x00 rs1_p rs1_p rs2_p
               else if funct_sub = 3 then make_r_type 0x33 0x7 0x00 rs1_p rs1_p rs2_p
               else 0)
            else if funct_sub = 0 then make_r_type 0x3B 0x0 0x20 rs1_p rs1_p rs2_p
            else if funct_sub = 1 then make_r_type 0x3B 0x0 0x00 rs1_p rs1_p rs2_p
            else 0))))"

definition decompress_q1_op1 :: "u32 \<Rightarrow> bool \<Rightarrow> u32 \<Rightarrow> u32" where
  "decompress_q1_op1 ir is_rv64 rs1_rd =
    (if is_rv64 then
       (let imm = (drop_bit 2 ir AND 0x1F) OR
             (if ((drop_bit 12 ir AND 0x1) \<noteq> 0) then 0xFFFFFFE0 else 0)
        in
         make_i_type 0x1B 0x0 rs1_rd rs1_rd imm)
     else
       (let imm = push_bit 5 (drop_bit 2 ir AND 0x1) OR push_bit 1 (drop_bit 3 ir AND 0x7) OR
             push_bit 7 (drop_bit 6 ir AND 0x1) OR push_bit 6 (drop_bit 7 ir AND 0x1) OR
             push_bit 10 (drop_bit 8 ir AND 0x1) OR push_bit 8 (drop_bit 9 ir AND 0x3) OR
             push_bit 4 (drop_bit 11 ir AND 0x1) OR
             (if ((drop_bit 12 ir AND 0x1) \<noteq> 0) then 0xFFFFF800 else 0)
        in
         make_j_type 0x6F 1 imm))"

definition decompress_q1_op3 :: "u32 \<Rightarrow> u32 \<Rightarrow> u32" where
  "decompress_q1_op3 ir rs1_rd =
    (if rs1_rd = 2 then
       (let imm = push_bit 5 (drop_bit 2 ir AND 0x1) OR push_bit 7 (drop_bit 3 ir AND 0x3) OR
             push_bit 6 (drop_bit 5 ir AND 0x1) OR push_bit 4 (drop_bit 6 ir AND 0x1) OR
             (if ((drop_bit 12 ir AND 0x1) \<noteq> 0) then 0xFFFFFE00 else 0)
        in
         make_i_type 0x13 0x0 2 2 imm)
     else
       (let imm = push_bit 12 (drop_bit 2 ir AND 0x1F) OR
             (if ((drop_bit 12 ir AND 0x1) \<noteq> 0) then 0xFFFE0000 else 0)
        in
         make_u_type 0x37 rs1_rd imm))"

definition decompress_q1 :: "u32 \<Rightarrow> bool \<Rightarrow> u32 \<Rightarrow> u32 \<Rightarrow> u32 \<Rightarrow> u32 \<Rightarrow> u32" where
  "decompress_q1 ir is_rv64 op rs1_rd rs1_p rs2_p =
    (if op = 0 then
       (let imm = (drop_bit 2 ir AND 0x1F) OR
             (if ((drop_bit 12 ir AND 0x1) \<noteq> 0) then 0xFFFFFFE0 else 0)
        in
         make_i_type 0x13 0x0 rs1_rd rs1_rd imm)
     else if op = 1 then decompress_q1_op1 ir is_rv64 rs1_rd
     else if op = 2 then
       (let imm = (drop_bit 2 ir AND 0x1F) OR
             (if ((drop_bit 12 ir AND 0x1) \<noteq> 0) then 0xFFFFFFE0 else 0)
        in
         make_i_type 0x13 0x0 rs1_rd 0 imm)
     else if op = 3 then decompress_q1_op3 ir rs1_rd
     else if op = 4 then decompress_q1_op4 ir rs1_p rs2_p
     else if op = 5 then
       (let imm = push_bit 5 (drop_bit 2 ir AND 0x1) OR push_bit 1 (drop_bit 3 ir AND 0x7) OR
             push_bit 7 (drop_bit 6 ir AND 0x1) OR push_bit 6 (drop_bit 7 ir AND 0x1) OR
             push_bit 10 (drop_bit 8 ir AND 0x1) OR push_bit 8 (drop_bit 9 ir AND 0x3) OR
             push_bit 4 (drop_bit 11 ir AND 0x1) OR
             (if ((drop_bit 12 ir AND 0x1) \<noteq> 0) then 0xFFFFF800 else 0)
        in
         make_j_type 0x6F 0 imm)
     else if op = 6 \<or> op = 7 then
       (let imm = push_bit 5 (drop_bit 2 ir AND 0x1) OR push_bit 1 (drop_bit 3 ir AND 0x3) OR
             push_bit 6 (drop_bit 5 ir AND 0x3) OR push_bit 3 (drop_bit 10 ir AND 0x3) OR
             (if ((drop_bit 12 ir AND 0x1) \<noteq> 0) then 0xFFFFFF00 else 0)
        in
         make_b_type 0x63 (if (op = 6) then 0x0 else 0x1) rs1_p 0 imm)
     else 0)"

definition decompress_q2_op4 :: "u32 \<Rightarrow> u32 \<Rightarrow> u32 \<Rightarrow> u32" where
  "decompress_q2_op4 ir rs1_rd rs2 =
    (let bit12 = drop_bit 12 ir AND 0x1
     in
      (if bit12 = 0 then
         (if rs2 = 0 then make_i_type 0x67 0x0 0 rs1_rd 0
          else make_r_type 0x33 0x0 0x00 rs1_rd 0 rs2)
       else if rs1_rd = 0 \<and> rs2 = 0 then 0x00100073
       else if rs2 = 0 then make_i_type 0x67 0x0 1 rs1_rd 0
       else make_r_type 0x33 0x0 0x00 rs1_rd rs1_rd rs2))"

definition decompress_q2 :: "u32 \<Rightarrow> bool \<Rightarrow> u32 \<Rightarrow> u32 \<Rightarrow> u32 \<Rightarrow> u32" where
  "decompress_q2 ir is_rv64 op rs1_rd rs2 =
    (if op = 0 then
       (let shamt = (drop_bit 2 ir AND 0x1F) OR push_bit 5 (drop_bit 12 ir AND 0x1)
        in
         make_r_type 0x13 0x1 0x00 rs1_rd rs1_rd shamt)
     else if op = 1 then
       (let imm = push_bit 6 (drop_bit 2 ir AND 0x7) OR push_bit 3 (drop_bit 5 ir AND 0x3) OR
             push_bit 5 (drop_bit 12 ir AND 0x1)
        in
         make_i_type 0x07 0x3 rs1_rd 2 imm)
     else if op = 2 then
       (let imm = push_bit 6 (drop_bit 2 ir AND 0x3) OR push_bit 2 (drop_bit 4 ir AND 0x7) OR
             push_bit 5 (drop_bit 12 ir AND 0x1)
        in
         make_i_type 0x03 0x2 rs1_rd 2 imm)
     else if op = 3 then
       (if is_rv64 then
          (let imm = push_bit 6 (drop_bit 2 ir AND 0x7) OR push_bit 3 (drop_bit 5 ir AND 0x3) OR
                push_bit 5 (drop_bit 12 ir AND 0x1)
           in
            make_i_type 0x03 0x3 rs1_rd 2 imm)
        else
          (let imm = push_bit 6 (drop_bit 2 ir AND 0x3) OR push_bit 2 (drop_bit 4 ir AND 0x7) OR
                push_bit 5 (drop_bit 12 ir AND 0x1)
           in
            make_i_type 0x07 0x2 rs1_rd 2 imm))
     else if op = 4 then decompress_q2_op4 ir rs1_rd rs2
     else if op = 5 then
       (let imm = push_bit 6 (drop_bit 7 ir AND 0x7) OR push_bit 3 (drop_bit 10 ir AND 0x7)
        in
         make_s_type 0x27 0x3 2 rs2 imm)
     else if op = 6 then
       (let imm = push_bit 6 (drop_bit 7 ir AND 0x3) OR push_bit 2 (drop_bit 9 ir AND 0xF)
        in
         make_s_type 0x23 0x2 2 rs2 imm)
     else if op = 7 then
       (if is_rv64 then
          (let imm = push_bit 6 (drop_bit 7 ir AND 0x7) OR push_bit 3 (drop_bit 10 ir AND 0x7)
           in
            make_s_type 0x23 0x3 2 rs2 imm)
        else
          (let imm = push_bit 6 (drop_bit 7 ir AND 0x3) OR push_bit 2 (drop_bit 9 ir AND 0xF)
           in
            make_s_type 0x27 0x2 2 rs2 imm))
     else 0)"

definition decompressInstruction :: "Instruction \<Rightarrow> bool \<Rightarrow> Instruction" where
  "decompressInstruction ir is_rv64 =
    (if \<not> is_compressed ir then ir
     else
       (let quadrant = ir AND 0x3;
            op = c_op ir;
            rs1_rd = ucast (c_rs1_rd ir) :: u32;
            rs2 = ucast (c_rs2 ir) :: u32;
            rs1_p = ucast (c_rs1_rd_p ir) :: u32;
            rs2_p = ucast (c_rs2_p ir) :: u32
        in
         (if quadrant = 0x0 then decompress_q0 ir is_rv64 op rs1_p rs2_p
          else if quadrant = 0x1 then decompress_q1 ir is_rv64 op rs1_rd rs1_p rs2_p
          else if quadrant = 0x2 then decompress_q2 ir is_rv64 op rs1_rd rs2
          else 0)))"

subsection \<open>Specification of expansions\<close>

text \<open>The operations a compressed instruction can stand for.\<close>

definition compressed_ops :: "OperationId set" where
  "compressed_ops = {ADDI, FLD, LW, LD, FLW, FSD, SW, SD, FSW, ADDIW, JAL, LUI, SRLI, SRAI, ANDI,
     SUB, XOR_op, OR_op, AND_op, SUBW, ADDW, BEQ, BNE, SLLI, JALR, ADD, EBREAK}"

text \<open>An expansion is well formed when it is the illegal word 0 or one of these operations.\<close>

definition expansion_ok :: "Instruction \<Rightarrow> bool" where
  "expansion_ok w \<longleftrightarrow> w = 0 \<or> \<not> is_compressed w \<and> decoder w \<in> compressed_ops"

subsection \<open>Encoders against field accessors\<close>

lemmas field_defs = opcode_of_def funct3_of_def funct7_of_def rd_of_def rs1_of_def rs2_of_def
  imm_i_def imm_s_def imm_b_def imm_u_def imm_j_def

lemmas encode_defs = make_r_type_def make_i_type_def make_s_type_def make_b_type_def
  make_u_type_def make_j_type_def

lemma r_type_fields [field_simps_rv]:
  "opcode_of (make_r_type (ucast (opc :: 7 word)) (ucast (f3 :: 3 word)) (ucast (f7 :: 7 word)) (ucast (rd :: 5 word)) (ucast (rs1 :: 5 word)) (ucast (rs2 :: 5 word))) = ucast opc"
  "funct3_of (make_r_type (ucast (opc :: 7 word)) (ucast (f3 :: 3 word)) (ucast (f7 :: 7 word)) (ucast (rd :: 5 word)) (ucast (rs1 :: 5 word)) (ucast (rs2 :: 5 word))) = ucast f3"
  "funct7_of (make_r_type (ucast (opc :: 7 word)) (ucast (f3 :: 3 word)) (ucast (f7 :: 7 word)) (ucast (rd :: 5 word)) (ucast (rs1 :: 5 word)) (ucast (rs2 :: 5 word))) = ucast f7"
  "rd_of (make_r_type (ucast (opc :: 7 word)) (ucast (f3 :: 3 word)) (ucast (f7 :: 7 word)) (ucast (rd :: 5 word)) (ucast (rs1 :: 5 word)) (ucast (rs2 :: 5 word))) = ucast rd"
  "rs1_of (make_r_type (ucast (opc :: 7 word)) (ucast (f3 :: 3 word)) (ucast (f7 :: 7 word)) (ucast (rd :: 5 word)) (ucast (rs1 :: 5 word)) (ucast (rs2 :: 5 word))) = ucast rs1"
  "rs2_of (make_r_type (ucast (opc :: 7 word)) (ucast (f3 :: 3 word)) (ucast (f7 :: 7 word)) (ucast (rd :: 5 word)) (ucast (rs1 :: 5 word)) (ucast (rs2 :: 5 word))) = ucast rs2"
  by (rule bit_word_eqI, auto simp: field_defs encode_defs bit_simps dest: bit_imp_le_length)+

lemma i_type_fields [field_simps_rv]:
  "opcode_of (make_i_type (ucast (opc :: 7 word)) (ucast (f3 :: 3 word)) (ucast (rd :: 5 word)) (ucast (rs1 :: 5 word)) imm) = ucast opc"
  "funct3_of (make_i_type (ucast (opc :: 7 word)) (ucast (f3 :: 3 word)) (ucast (rd :: 5 word)) (ucast (rs1 :: 5 word)) imm) = ucast f3"
  "rd_of (make_i_type (ucast (opc :: 7 word)) (ucast (f3 :: 3 word)) (ucast (rd :: 5 word)) (ucast (rs1 :: 5 word)) imm) = ucast rd"
  "rs1_of (make_i_type (ucast (opc :: 7 word)) (ucast (f3 :: 3 word)) (ucast (rd :: 5 word)) (ucast (rs1 :: 5 word)) imm) = ucast rs1"
  by (rule bit_word_eqI, auto simp: field_defs encode_defs bit_simps dest: bit_imp_le_length)+

lemma s_type_fields [field_simps_rv]:
  "opcode_of (make_s_type (ucast (opc :: 7 word)) (ucast (f3 :: 3 word)) (ucast (rs1 :: 5 word)) (ucast (rs2 :: 5 word)) imm) = ucast opc"
  "funct3_of (make_s_type (ucast (opc :: 7 word)) (ucast (f3 :: 3 word)) (ucast (rs1 :: 5 word)) (ucast (rs2 :: 5 word)) imm) = ucast f3"
  "rs1_of (make_s_type (ucast (opc :: 7 word)) (ucast (f3 :: 3 word)) (ucast (rs1 :: 5 word)) (ucast (rs2 :: 5 word)) imm) = ucast rs1"
  "rs2_of (make_s_type (ucast (opc :: 7 word)) (ucast (f3 :: 3 word)) (ucast (rs1 :: 5 word)) (ucast (rs2 :: 5 word)) imm) = ucast rs2"
  by (rule bit_word_eqI, auto simp: field_defs encode_defs bit_simps dest: bit_imp_le_length)+

lemma b_type_fields [field_simps_rv]:
  "opcode_of (make_b_type (ucast (opc :: 7 word)) (ucast (f3 :: 3 word)) (ucast (rs1 :: 5 word)) (ucast (rs2 :: 5 word)) imm) = ucast opc"
  "funct3_of (make_b_type (ucast (opc :: 7 word)) (ucast (f3 :: 3 word)) (ucast (rs1 :: 5 word)) (ucast (rs2 :: 5 word)) imm) = ucast f3"
  "rs1_of (make_b_type (ucast (opc :: 7 word)) (ucast (f3 :: 3 word)) (ucast (rs1 :: 5 word)) (ucast (rs2 :: 5 word)) imm) = ucast rs1"
  "rs2_of (make_b_type (ucast (opc :: 7 word)) (ucast (f3 :: 3 word)) (ucast (rs1 :: 5 word)) (ucast (rs2 :: 5 word)) imm) = ucast rs2"
  by (rule bit_word_eqI, auto simp: field_defs encode_defs bit_simps dest: bit_imp_le_length)+

lemma u_type_fields [field_simps_rv]:
  "opcode_of (make_u_type (ucast (opc :: 7 word)) (ucast (rd :: 5 word)) imm) = ucast opc"
  "rd_of (make_u_type (ucast (opc :: 7 word)) (ucast (rd :: 5 word)) imm) = ucast rd"
  by (rule bit_word_eqI, auto simp: field_defs encode_defs bit_simps dest: bit_imp_le_length)+

lemma j_type_fields [field_simps_rv]:
  "opcode_of (make_j_type (ucast (opc :: 7 word)) (ucast (rd :: 5 word)) imm) = ucast opc"
  "rd_of (make_j_type (ucast (opc :: 7 word)) (ucast (rd :: 5 word)) imm) = ucast rd"
  by (rule bit_word_eqI, auto simp: field_defs encode_defs bit_simps dest: bit_imp_le_length)+

lemma i_type_imm [field_simps_rv]:
  "imm_i (make_i_type (ucast (opc :: 7 word)) (ucast (f3 :: 3 word)) (ucast (rd :: 5 word)) (ucast (rs1 :: 5 word)) imm) = signed_take_bit 11 imm"
  by (rule bit_word_eqI, rename_tac n, case_tac "n = 11")
     (auto simp: field_defs encode_defs bit_simps min_def dest: bit_imp_le_length)

lemma s_type_imm [field_simps_rv]:
  "imm_s (make_s_type (ucast (opc :: 7 word)) (ucast (f3 :: 3 word)) (ucast (rs1 :: 5 word)) (ucast (rs2 :: 5 word)) imm) = signed_take_bit 11 imm"
  by (rule bit_word_eqI, rename_tac n, case_tac "n = 11")
     (auto simp: field_defs encode_defs bit_simps min_def dest: bit_imp_le_length)

lemma b_type_imm [field_simps_rv]:
  "imm_b (make_b_type (ucast (opc :: 7 word)) (ucast (f3 :: 3 word)) (ucast (rs1 :: 5 word)) (ucast (rs2 :: 5 word)) imm) = signed_take_bit 12 (imm AND NOT 1)"
  by (rule word32_eqI) (simp only: below_32, simp add: field_defs encode_defs bit_simps bit_beyond, simp add: numeral_2_eq_2 numeral_3_eq_3)

lemma u_type_imm [field_simps_rv]:
  "imm_u (make_u_type (ucast (opc :: 7 word)) (ucast (rd :: 5 word)) imm) = imm AND 0xFFFFF000"
  by (rule bit_word_eqI) (auto simp: field_defs encode_defs bit_simps dest: bit_imp_le_length)

lemma j_type_imm [field_simps_rv]:
  "imm_j (make_j_type (ucast (opc :: 7 word)) (ucast (rd :: 5 word)) imm) = signed_take_bit 20 (imm AND NOT 1)"
  by (rule word32_eqI) (simp only: below_32, simp add: field_defs encode_defs bit_simps bit_beyond, simp add: numeral_2_eq_2 numeral_3_eq_3)

subsection \<open>Encoders on numeric fields\<close>

lemma is_compressed_bits: "is_compressed w \<longleftrightarrow> \<not> (bit w 0 \<and> bit w 1)"
proof -
  have "w AND 3 = 3 \<longleftrightarrow> (\<forall>n < 32. bit w n \<or> \<not> n < 2)"
    unfolding bit_eq_iff by (auto simp: bit_simps)
  also have "\<dots> \<longleftrightarrow> bit w 0 \<and> bit w 1"
    by (simp only: below_32) simp
  finally show ?thesis by (simp add: is_compressed_def)
qed

lemma below_power_is_ucast:
  assumes "(w :: u32) < 2 ^ LENGTH('b)" "LENGTH('b) < 32"
  shows "\<exists>x :: 'b::len word. w = ucast x"
proof
  have "take_bit LENGTH('b) w = w"
    using assms by (simp add: take_bit_eq_mod mod_word_less)
  then show "w = ucast (ucast w :: 'b word)"
    by (intro bit_word_eqI) (auto simp: bit_simps dest: arg_cong [of _ _ "\<lambda>w. bit w _"])
qed

lemmas below_128_is_ucast = below_power_is_ucast [where 'b = 7, simplified]
lemmas below_8_is_ucast = below_power_is_ucast [where 'b = 3, simplified]
lemmas below_32_is_ucast = below_power_is_ucast [where 'b = 5, simplified]

lemma ucast_ucast_u8: "(ucast (ucast x :: u32) :: u8) = ucast x" for x :: "'a::len word"
  by (rule bit_word_eqI) (auto simp: bit_simps)

lemma r_type_decode:
  assumes "opc < 128" "f3 < 8" "f7 < 128" "rd < 32" "rs1 < 32" "rs2 < 32"
  shows "opcode_of (make_r_type opc f3 f7 rd rs1 rs2) = ucast opc"
    and "funct3_of (make_r_type opc f3 f7 rd rs1 rs2) = ucast f3"
    and "funct7_of (make_r_type opc f3 f7 rd rs1 rs2) = f7"
proof -
  obtain opc' :: "7 word" where [simp]: "opc = ucast opc'"
    using assms below_128_is_ucast by metis
  obtain f3' :: "3 word" where [simp]: "f3 = ucast f3'"
    using assms below_8_is_ucast by metis
  obtain f7' :: "7 word" where [simp]: "f7 = ucast f7'"
    using assms below_128_is_ucast by metis
  obtain rd' :: "5 word" where [simp]: "rd = ucast rd'"
    using assms below_32_is_ucast by metis
  obtain rs1' :: "5 word" where [simp]: "rs1 = ucast rs1'"
    using assms below_32_is_ucast by metis
  obtain rs2' :: "5 word" where [simp]: "rs2 = ucast rs2'"
    using assms below_32_is_ucast by metis
  show "opcode_of (make_r_type opc f3 f7 rd rs1 rs2) = ucast opc"
    and "funct3_of (make_r_type opc f3 f7 rd rs1 rs2) = ucast f3"
    and "funct7_of (make_r_type opc f3 f7 rd rs1 rs2) = f7"
    by (simp_all add: field_simps_rv ucast_ucast_u8)
qed

lemma i_type_decode:
  assumes "opc < 128" "f3 < 8" "rd < 32" "rs1 < 32"
  shows "opcode_of (make_i_type opc f3 rd rs1 imm) = ucast opc"
    and "funct3_of (make_i_type opc f3 rd rs1 imm) = ucast f3"
proof -
  obtain opc' :: "7 word" where [simp]: "opc = ucast opc'"
    using assms below_128_is_ucast by metis
  obtain f3' :: "3 word" where [simp]: "f3 = ucast f3'"
    using assms below_8_is_ucast by metis
  obtain rd' :: "5 word" where [simp]: "rd = ucast rd'"
    using assms below_32_is_ucast by metis
  obtain rs1' :: "5 word" where [simp]: "rs1 = ucast rs1'"
    using assms below_32_is_ucast by metis
  show "opcode_of (make_i_type opc f3 rd rs1 imm) = ucast opc"
    and "funct3_of (make_i_type opc f3 rd rs1 imm) = ucast f3"
    by (simp_all add: field_simps_rv ucast_ucast_u8)
qed

lemma s_type_decode:
  assumes "opc < 128" "f3 < 8" "rs1 < 32" "rs2 < 32"
  shows "opcode_of (make_s_type opc f3 rs1 rs2 imm) = ucast opc"
    and "funct3_of (make_s_type opc f3 rs1 rs2 imm) = ucast f3"
proof -
  obtain opc' :: "7 word" where [simp]: "opc = ucast opc'"
    using assms below_128_is_ucast by metis
  obtain f3' :: "3 word" where [simp]: "f3 = ucast f3'"
    using assms below_8_is_ucast by metis
  obtain rs1' :: "5 word" where [simp]: "rs1 = ucast rs1'"
    using assms below_32_is_ucast by metis
  obtain rs2' :: "5 word" where [simp]: "rs2 = ucast rs2'"
    using assms below_32_is_ucast by metis
  show "opcode_of (make_s_type opc f3 rs1 rs2 imm) = ucast opc"
    and "funct3_of (make_s_type opc f3 rs1 rs2 imm) = ucast f3"
    by (simp_all add: field_simps_rv ucast_ucast_u8)
qed

lemma b_type_decode:
  assumes "opc < 128" "f3 < 8" "rs1 < 32" "rs2 < 32"
  shows "opcode_of (make_b_type opc f3 rs1 rs2 imm) = ucast opc"
    and "funct3_of (make_b_type opc f3 rs1 rs2 imm) = ucast f3"
proof -
  obtain opc' :: "7 word" where [simp]: "opc = ucast opc'"
    using assms below_128_is_ucast by metis
  obtain f3' :: "3 word" where [simp]: "f3 = ucast f3'"
    using assms below_8_is_ucast by metis
  obtain rs1' :: "5 word" where [simp]: "rs1 = ucast rs1'"
    using assms below_32_is_ucast by metis
  obtain rs2' :: "5 word" where [simp]: "rs2 = ucast rs2'"
    using assms below_32_is_ucast by metis
  show "opcode_of (make_b_type opc f3 rs1 rs2 imm) = ucast opc"
    and "funct3_of (make_b_type opc f3 rs1 rs2 imm) = ucast f3"
    by (simp_all add: field_simps_rv ucast_ucast_u8)
qed

lemma u_type_decode:
  assumes "opc < 128" "rd < 32"
  shows "opcode_of (make_u_type opc rd imm) = ucast opc"
proof -
  obtain opc' :: "7 word" where [simp]: "opc = ucast opc'"
    using assms below_128_is_ucast by metis
  obtain rd' :: "5 word" where [simp]: "rd = ucast rd'"
    using assms below_32_is_ucast by metis
  show "opcode_of (make_u_type opc rd imm) = ucast opc"
    by (simp_all add: field_simps_rv ucast_ucast_u8)
qed

lemma j_type_decode:
  assumes "opc < 128" "rd < 32"
  shows "opcode_of (make_j_type opc rd imm) = ucast opc"
proof -
  obtain opc' :: "7 word" where [simp]: "opc = ucast opc'"
    using assms below_128_is_ucast by metis
  obtain rd' :: "5 word" where [simp]: "rd = ucast rd'"
    using assms below_32_is_ucast by metis
  show "opcode_of (make_j_type opc rd imm) = ucast opc"
    by (simp_all add: field_simps_rv ucast_ucast_u8)
qed

lemma encoders_uncompressed:
  assumes "bit opcode 0 \<and> bit opcode 1"
  shows "\<not> is_compressed (make_r_type opcode f3 f7 rd rs1 rs2)"
    and "\<not> is_compressed (make_i_type opcode f3 rd rs1 imm)"
    and "\<not> is_compressed (make_s_type opcode f3 rs1 rs2 imm)"
    and "\<not> is_compressed (make_b_type opcode f3 rs1 rs2 imm)"
    and "\<not> is_compressed (make_u_type opcode rd imm)"
    and "\<not> is_compressed (make_j_type opcode rd imm)"
  using assms by (simp_all add: is_compressed_bits encode_defs bit_simps)

lemma ebreak_uncompressed: "\<not> is_compressed 0x00100073"
  by (simp add: is_compressed_def)

lemma unat_ucast_u32: "unat (ucast x :: u32) = unat x" if "LENGTH('a) \<le> 32" for x :: "'a::len word"
proof -
  have "unat x < 2 ^ LENGTH('a)" by (rule unsigned_less)
  also have "\<dots> \<le> 2 ^ 32" using that by (intro power_increasing) simp_all
  finally show ?thesis by (simp add: unsigned_ucast_eq take_bit_nat_eq_self)
qed

lemma ucast_5_below: "(ucast x :: u32) < 32" for x :: "5 word"
  using unsigned_less [of x, where 'a = nat] by (simp add: word_less_nat_alt unat_ucast_u32)

lemma reg_fields_are_ucast:
  "(ucast (c_rs1_rd ir) :: u32) = ucast (ucast (drop_bit 7 ir) :: 5 word)"
  "(ucast (c_rs2 ir) :: u32) = ucast (ucast (drop_bit 2 ir) :: 5 word)"
  by (rule bit_word_eqI, auto simp: c_rs1_rd_def c_rs2_def bit_simps)+

lemma reg_fields_lt:
  "(ucast (c_rs1_rd ir) :: u32) < 32" "(ucast (c_rs2 ir) :: u32) < 32"
  unfolding reg_fields_are_ucast by (rule ucast_5_below)+

lemma prime_fields_are_ucast:
  "(ucast (c_rs1_rd_p ir) :: u32) = ucast (8 OR (ucast (ucast (drop_bit 7 ir) :: 3 word)) :: 5 word)"
  "(ucast (c_rs2_p ir) :: u32) = ucast (8 OR (ucast (ucast (drop_bit 2 ir) :: 3 word)) :: 5 word)"
proof -
  have "8 + (w AND 7) = 8 OR (w AND 7)" for w :: u32
    by (rule disjunctive_add) (auto simp: bit_simps)
  then show "(ucast (c_rs1_rd_p ir) :: u32) = ucast (8 OR (ucast (ucast (drop_bit 7 ir) :: 3 word)) :: 5 word)"
  "(ucast (c_rs2_p ir) :: u32) = ucast (8 OR (ucast (ucast (drop_bit 2 ir) :: 3 word)) :: 5 word)"
    by (simp_all only: c_rs1_rd_p_def c_rs2_p_def, (intro bit_word_eqI; auto simp: bit_simps)+)
qed

lemma prime_fields_lt:
  "(ucast (c_rs1_rd_p ir) :: u32) < 32" "(ucast (c_rs2_p ir) :: u32) < 32"
  unfolding prime_fields_are_ucast by (rule ucast_5_below)+

lemmas compressed_regs_lt = reg_fields_lt prime_fields_lt

lemmas decode_defs = decoder_def decode_ext_i_def decode_ext_f_d_def decode_branch_def
  decode_load_def decode_store_def decode_op_standard_def decode_op32_standard_def
  decode_op_imm32_def Let_def

lemma decode_i_types:
  assumes "rd < 32" "rs1 < 32"
  shows "decoder (make_i_type 0x13 0x0 rd rs1 imm) = ADDI"
    and "decoder (make_i_type 0x13 0x7 rd rs1 imm) = ANDI"
    and "decoder (make_i_type 0x1B 0x0 rd rs1 imm) = ADDIW"
    and "decoder (make_i_type 0x07 0x3 rd rs1 imm) = FLD"
    and "decoder (make_i_type 0x07 0x2 rd rs1 imm) = FLW"
    and "decoder (make_i_type 0x03 0x2 rd rs1 imm) = LW"
    and "decoder (make_i_type 0x03 0x3 rd rs1 imm) = LD"
    and "decoder (make_i_type 0x67 0x0 rd rs1 imm) = JALR"
  using assms by (simp_all add: decode_defs decode_op_imm_def i_type_decode)

lemma decode_s_types:
  assumes "rs1 < 32" "rs2 < 32"
  shows "decoder (make_s_type 0x27 0x3 rs1 rs2 imm) = FSD"
    and "decoder (make_s_type 0x27 0x2 rs1 rs2 imm) = FSW"
    and "decoder (make_s_type 0x23 0x2 rs1 rs2 imm) = SW"
    and "decoder (make_s_type 0x23 0x3 rs1 rs2 imm) = SD"
  using assms by (simp_all add: decode_defs s_type_decode)

lemma decode_b_u_j_types:
  assumes "rs1 < 32" "rs2 < 32" "rd < 32"
  shows "decoder (make_b_type 0x63 0x0 rs1 rs2 imm) = BEQ"
    and "decoder (make_b_type 0x63 0x1 rs1 rs2 imm) = BNE"
    and "decoder (make_u_type 0x37 rd imm) = LUI"
    and "decoder (make_j_type 0x6F rd imm) = JAL"
  using assms by (simp_all add: decode_defs b_type_decode u_type_decode j_type_decode)

lemma decode_r_types:
  assumes "rd < 32" "rs1 < 32" "rs2 < 32"
  shows "decoder (make_r_type 0x33 0x0 0x00 rd rs1 rs2) = ADD"
    and "decoder (make_r_type 0x33 0x0 0x20 rd rs1 rs2) = SUB"
    and "decoder (make_r_type 0x33 0x4 0x00 rd rs1 rs2) = XOR_op"
    and "decoder (make_r_type 0x33 0x6 0x00 rd rs1 rs2) = OR_op"
    and "decoder (make_r_type 0x33 0x7 0x00 rd rs1 rs2) = AND_op"
    and "decoder (make_r_type 0x3B 0x0 0x20 rd rs1 rs2) = SUBW"
    and "decoder (make_r_type 0x3B 0x0 0x00 rd rs1 rs2) = ADDW"
  using assms by (simp_all add: decode_defs r_type_decode)

lemma decode_ebreak: "decoder 0x00100073 = EBREAK"
  by (simp add: decode_defs opcode_of_def funct3_of_def funct7_of_def decode_system_def
      decode_system_priv_def)

lemma imm6_funct7: "drop_bit 6 (drop_bit 20 ir) = drop_bit 1 (funct7_of ir)"
  by (rule bit_word_eqI) (auto simp: funct7_of_def bit_simps dest: bit_imp_le_length)

lemma decode_op_imm_shift:
  assumes "funct7_of ir = f7"
  shows "f7 \<in> {0, 1} \<Longrightarrow> decode_op_imm 1 f7 ir = SLLI"
    and "f7 \<in> {0, 1} \<Longrightarrow> decode_op_imm 5 f7 ir = SRLI"
    and "f7 \<in> {0x20, 0x21} \<Longrightarrow> decode_op_imm 5 f7 ir = SRAI"
proof -
  have imm6: "drop_bit 6 (drop_bit 20 ir) = drop_bit 1 f7"
    using assms imm6_funct7 by metis
  have imm12: "drop_bit 20 ir \<noteq> c" if "drop_bit 6 c \<noteq> drop_bit 1 f7" for c
    using that imm6 by metis
  show "f7 \<in> {0, 1} \<Longrightarrow> decode_op_imm 1 f7 ir = SLLI"
    and "f7 \<in> {0, 1} \<Longrightarrow> decode_op_imm 5 f7 ir = SRLI"
    and "f7 \<in> {0x20, 0x21} \<Longrightarrow> decode_op_imm 5 f7 ir = SRAI"
    unfolding decode_op_imm_def Let_def imm6 by (auto simp: imm12)
qed

lemma shift_encoding:
  "make_r_type 0x13 f3 f7 rd rs1 shamt =
     make_r_type 0x13 f3 (f7 OR drop_bit 5 shamt) rd rs1 (shamt AND 31)"
  by (rule word32_eqI) (simp only: below_32, auto simp: make_r_type_def bit_simps)

lemma decode_shift_types:
  assumes "rd < 32" "rs1 < 32" "drop_bit 5 shamt \<in> {0, 1}"
  shows "decoder (make_r_type 0x13 0x1 0x00 rd rs1 shamt) = SLLI"
    and "decoder (make_r_type 0x13 0x5 0x00 rd rs1 shamt) = SRLI"
    and "decoder (make_r_type 0x13 0x5 0x20 rd rs1 shamt) = SRAI"
proof -
  have low: "shamt AND 31 < 32"
    by (rule le_less_trans [OF word_and_le1]) simp
  have decode: "decoder (make_r_type 0x13 f3 f7 rd rs1 shamt) =
      decode_op_imm f3 (f7 OR drop_bit 5 shamt)
        (make_r_type 0x13 f3 (f7 OR drop_bit 5 shamt) rd rs1 (shamt AND 31)) \<and>
      funct7_of (make_r_type 0x13 f3 (f7 OR drop_bit 5 shamt) rd rs1 (shamt AND 31)) =
        f7 OR drop_bit 5 shamt"
    if "f3 \<in> {1, 5}" "f7 \<in> {0, 0x20}" for f3 f7
  proof -
    have "f3 < 8" "f7 OR drop_bit 5 shamt < 128" using that assms(3) by auto
    note fields = r_type_decode [of "0x13", OF _ this assms(1,2) low, simplified]
    show ?thesis
      unfolding shift_encoding [of _ _ rd rs1 shamt]
      using that by (auto simp: decoder_def Let_def fields decode_ext_i_def)
  qed
  show "decoder (make_r_type 0x13 0x1 0x00 rd rs1 shamt) = SLLI"
    using decode [of 1 0] assms(3) by (auto intro!: decode_op_imm_shift)
  show "decoder (make_r_type 0x13 0x5 0x00 rd rs1 shamt) = SRLI"
    using decode [of 5 0] assms(3) by (auto intro!: decode_op_imm_shift)
  show "decoder (make_r_type 0x13 0x5 0x20 rd rs1 shamt) = SRAI"
    using decode [of 5 "0x20"] assms(3) by (auto intro!: decode_op_imm_shift)
qed

lemma compressed_shamt: "drop_bit 5 ((drop_bit 2 ir AND 0x1F) OR push_bit 5 (drop_bit 12 ir AND 0x1)) \<in> {0, 1}"
  for ir :: u32
proof -
  have "drop_bit 5 ((drop_bit 2 ir AND 0x1F) OR push_bit 5 (drop_bit 12 ir AND 0x1)) = (drop_bit 12 ir AND 1)"
    by (rule bit_word_eqI) (auto simp: bit_simps)
  then show ?thesis by (auto simp: and_one_eq)
qed

lemma literal_low_bits:
  "bit (0x13 :: u32) 0 \<and> bit (0x13 :: u32) 1" "bit (0x1B :: u32) 0 \<and> bit (0x1B :: u32) 1"
  "bit (0x07 :: u32) 0 \<and> bit (0x07 :: u32) 1" "bit (0x03 :: u32) 0 \<and> bit (0x03 :: u32) 1"
  "bit (0x67 :: u32) 0 \<and> bit (0x67 :: u32) 1" "bit (0x27 :: u32) 0 \<and> bit (0x27 :: u32) 1"
  "bit (0x23 :: u32) 0 \<and> bit (0x23 :: u32) 1" "bit (0x63 :: u32) 0 \<and> bit (0x63 :: u32) 1"
  "bit (0x37 :: u32) 0 \<and> bit (0x37 :: u32) 1" "bit (0x6F :: u32) 0 \<and> bit (0x6F :: u32) 1"
  "bit (0x33 :: u32) 0 \<and> bit (0x33 :: u32) 1" "bit (0x3B :: u32) 0 \<and> bit (0x3B :: u32) 1"
  by simp_all

lemmas expansion_defs = expansion_ok_def compressed_ops_def encoders_uncompressed literal_low_bits

lemma expansion_ok_i:
  assumes "rd < 32" "rs1 < 32"
  shows "expansion_ok (make_i_type 0x13 0x0 rd rs1 imm)"
    "expansion_ok (make_i_type 0x13 0x7 rd rs1 imm)"
    "expansion_ok (make_i_type 0x1B 0x0 rd rs1 imm)"
    "expansion_ok (make_i_type 0x07 0x3 rd rs1 imm)"
    "expansion_ok (make_i_type 0x07 0x2 rd rs1 imm)"
    "expansion_ok (make_i_type 0x03 0x2 rd rs1 imm)"
    "expansion_ok (make_i_type 0x03 0x3 rd rs1 imm)"
    "expansion_ok (make_i_type 0x67 0x0 rd rs1 imm)"
  unfolding expansion_defs by (simp_all add: decode_i_types [OF assms] expansion_defs)

lemma expansion_ok_s:
  assumes "rs1 < 32" "rs2 < 32"
  shows "expansion_ok (make_s_type 0x27 0x3 rs1 rs2 imm)"
    "expansion_ok (make_s_type 0x27 0x2 rs1 rs2 imm)"
    "expansion_ok (make_s_type 0x23 0x2 rs1 rs2 imm)"
    "expansion_ok (make_s_type 0x23 0x3 rs1 rs2 imm)"
  unfolding expansion_defs by (simp_all add: decode_s_types [OF assms] expansion_defs)

lemma expansion_ok_b_u_j:
  assumes "rs1 < 32" "rs2 < 32" "rd < 32"
  shows "expansion_ok (make_b_type 0x63 0x0 rs1 rs2 imm)"
    "expansion_ok (make_b_type 0x63 0x1 rs1 rs2 imm)"
    "expansion_ok (make_u_type 0x37 rd imm)"
    "expansion_ok (make_j_type 0x6F rd imm)"
  unfolding expansion_defs by (simp_all add: decode_b_u_j_types [OF assms] expansion_defs)

lemma expansion_ok_r:
  assumes "rd < 32" "rs1 < 32" "rs2 < 32"
  shows "expansion_ok (make_r_type 0x33 0x0 0x00 rd rs1 rs2)"
    "expansion_ok (make_r_type 0x33 0x0 0x20 rd rs1 rs2)"
    "expansion_ok (make_r_type 0x33 0x4 0x00 rd rs1 rs2)"
    "expansion_ok (make_r_type 0x33 0x6 0x00 rd rs1 rs2)"
    "expansion_ok (make_r_type 0x33 0x7 0x00 rd rs1 rs2)"
    "expansion_ok (make_r_type 0x3B 0x0 0x20 rd rs1 rs2)"
    "expansion_ok (make_r_type 0x3B 0x0 0x00 rd rs1 rs2)"
  unfolding expansion_defs by (simp_all add: decode_r_types [OF assms] expansion_defs)

lemma expansion_ok_shift:
  assumes "rd < 32" "rs1 < 32" "drop_bit 5 shamt \<in> {0, 1}"
  shows "expansion_ok (make_r_type 0x13 0x1 0x00 rd rs1 shamt)"
    "expansion_ok (make_r_type 0x13 0x5 0x00 rd rs1 shamt)"
    "expansion_ok (make_r_type 0x13 0x5 0x20 rd rs1 shamt)"
  unfolding expansion_defs by (simp_all add: decode_shift_types [OF assms] expansion_defs)

lemma expansion_ok_const: "expansion_ok 0" "expansion_ok 0x00100073"
  by (simp_all add: expansion_ok_def ebreak_uncompressed decode_ebreak compressed_ops_def)

lemmas expansions_ok = expansion_ok_i expansion_ok_s expansion_ok_b_u_j expansion_ok_r
  expansion_ok_shift [OF _ _ compressed_shamt, simplified] expansion_ok_const

lemma expansion_ok_if: "expansion_ok (if b then x else y) \<longleftrightarrow> (if b then expansion_ok x else expansion_ok y)"
  by simp

lemma q0_ok: "rs1_p < 32 \<Longrightarrow> rs2_p < 32 \<Longrightarrow> expansion_ok (decompress_q0 ir is_rv64 op rs1_p rs2_p)"
  unfolding decompress_q0_def Let_def expansion_ok_if by (simp add: expansions_ok)

lemma q1_op4_ok: "rs1_p < 32 \<Longrightarrow> rs2_p < 32 \<Longrightarrow> expansion_ok (decompress_q1_op4 ir rs1_p rs2_p)"
  unfolding decompress_q1_op4_def Let_def expansion_ok_if
  by (cases "drop_bit 10 ir AND 3 = 1") (simp_all add: expansions_ok)

lemma q1_op1_ok: "rs1_rd < 32 \<Longrightarrow> expansion_ok (decompress_q1_op1 ir is_rv64 rs1_rd)"
  unfolding decompress_q1_op1_def Let_def expansion_ok_if by (simp add: expansions_ok)

lemma q1_op3_ok: "rs1_rd < 32 \<Longrightarrow> expansion_ok (decompress_q1_op3 ir rs1_rd)"
  unfolding decompress_q1_op3_def Let_def expansion_ok_if by (simp add: expansions_ok)

lemma q1_ok:
  assumes "rs1_rd < 32" "rs1_p < 32" "rs2_p < 32"
  shows "expansion_ok (decompress_q1 ir is_rv64 op rs1_rd rs1_p rs2_p)"
  unfolding decompress_q1_def Let_def expansion_ok_if using assms
  by (cases "op = 6") (simp_all add: expansions_ok q1_op4_ok q1_op1_ok q1_op3_ok)

lemma q2_op4_ok: "rs1_rd < 32 \<Longrightarrow> rs2 < 32 \<Longrightarrow> expansion_ok (decompress_q2_op4 ir rs1_rd rs2)"
  unfolding decompress_q2_op4_def Let_def expansion_ok_if by (simp add: expansions_ok)

lemma q2_ok: "rs1_rd < 32 \<Longrightarrow> rs2 < 32 \<Longrightarrow> expansion_ok (decompress_q2 ir is_rv64 op rs1_rd rs2)"
  unfolding decompress_q2_def Let_def expansion_ok_if by (simp add: expansions_ok q2_op4_ok)

subsection \<open>Properties\<close>

text \<open>(C24) Encoding and field extraction are inverse on every format: every opcode, function and register
  field of the format comes back unchanged, and the immediates come back sign-extended from their 12, 13 or 21
  bits (branch and jump offsets without bit 0).\<close>

theorem encode_fields_roundtrip:
  fixes opc :: "7 word" and f3 :: "3 word" and f7 :: "7 word" and rd rs1 rs2 :: "5 word"
  shows "let r = make_r_type (ucast opc) (ucast f3) (ucast f7) (ucast rd) (ucast rs1) (ucast rs2);
      i = make_i_type (ucast opc) (ucast f3) (ucast rd) (ucast rs1) imm;
      s = make_s_type (ucast opc) (ucast f3) (ucast rs1) (ucast rs2) imm;
      b = make_b_type (ucast opc) (ucast f3) (ucast rs1) (ucast rs2) imm;
      u = make_u_type (ucast opc) (ucast rd) imm;
      j = make_j_type (ucast opc) (ucast rd) imm
    in opcode_of r = ucast opc \<and> funct3_of r = ucast f3 \<and> funct7_of r = ucast f7 \<and>
      rd_of r = ucast rd \<and> rs1_of r = ucast rs1 \<and> rs2_of r = ucast rs2 \<and>
    opcode_of i = ucast opc \<and> funct3_of i = ucast f3 \<and> rd_of i = ucast rd \<and> rs1_of i = ucast rs1 \<and>
      imm_i i = signed_take_bit 11 imm \<and>
    opcode_of s = ucast opc \<and> funct3_of s = ucast f3 \<and> rs1_of s = ucast rs1 \<and> rs2_of s = ucast rs2 \<and>
      imm_s s = signed_take_bit 11 imm \<and>
    opcode_of b = ucast opc \<and> funct3_of b = ucast f3 \<and> rs1_of b = ucast rs1 \<and> rs2_of b = ucast rs2 \<and>
      imm_b b = signed_take_bit 12 (imm AND NOT 1) \<and>
    opcode_of u = ucast opc \<and> rd_of u = ucast rd \<and> imm_u u = imm AND 0xFFFFF000 \<and>
    opcode_of j = ucast opc \<and> rd_of j = ucast rd \<and> imm_j j = signed_take_bit 20 (imm AND NOT 1)"
  by (simp add: Let_def field_simps_rv)

text \<open>(C25) Expansion of compressed instructions is well formed: an uncompressed word is left alone; a
  compressed one becomes either the illegal word 0 or a 32-bit word that is not itself compressed
  and that the decoder recognises as one of the 27 operations the C extension abbreviates.\<close>

theorem expansion_well_formed:
  "\<not> is_compressed ir \<and> decompressInstruction ir is_rv64 = ir \<or>
   is_compressed ir \<and> (decompressInstruction ir is_rv64 = 0 \<or>
     \<not> is_compressed (decompressInstruction ir is_rv64) \<and>
     decoder (decompressInstruction ir is_rv64) \<in> compressed_ops)"
proof (cases "is_compressed ir")
  case True
  then have "expansion_ok (decompressInstruction ir is_rv64)"
    unfolding decompressInstruction_def Let_def expansion_ok_if
    by (simp add: compressed_regs_lt q0_ok q1_ok q2_ok expansion_ok_const)
  then show ?thesis using True by (simp add: expansion_ok_def)
qed (simp add: decompressInstruction_def)

text \<open>No instruction is gated by the B extension: \<^verbatim>\<open>required_extension_for_instruction\<close> never
  answers B, so with a profile without B the bit-manipulation instruction \<open>ANDN a0, a1, a2\<close> is
  still enabled (it counts as I), and \<open>CLMUL\<close> is gated by M.\<close>

theorem bitmanip_never_gated:
  "required_extension_for_instruction ir compressed \<noteq> Ext_B \<and>
   decoder 0x40c5f533 = ANDN \<and>
   instruction_enabled_by_misa (misa_profile_bits Profile_GC) 0x40c5f533 False \<and>
   \<not> misa_has_extension (misa_profile_bits Profile_GC) Ext_B \<and>
   decoder 0x0ac59533 = CLMUL \<and> required_extension_for_instruction 0x0ac59533 False = Ext_M"
  by (simp add: decode_defs field_defs instruction_enabled_by_misa_def
      required_extension_for_instruction_def misa_has_extension_def misa_extension_bit_def)

end
