(* ===== verification/Arch_State.thy ===== *)
theory Arch_State
  imports Decompress
begin

text \<open>
  The architectural state. The first half holds the CSR vocabulary of
  \<^verbatim>\<open>include/simrv/core/CsrTypes.hpp\<close> (status and pending bits, CSR numbers, the masks and the
  legalisation functions of \<^verbatim>\<open>mstatus\<close>, the cause conversions) and the \<^verbatim>\<open>satp\<close> accessors of
  \<^verbatim>\<open>include/simrv/xlen/Constants.hpp\<close>. The second half holds \<^verbatim>\<open>class RegisterFile\<close> and
  \<^verbatim>\<open>struct ArchState\<close> with their member functions. An array of registers is a function of its
  8-bit register number; the source only indexes it with the 5-bit numbers the decoder produces.
\<close>

subsection \<open>Status bits, pending bits and CSR numbers\<close>

abbreviation (input) Mstatus_Uie :: CSRValue where "Mstatus_Uie \<equiv> 0x1"
abbreviation (input) Mstatus_Sie :: CSRValue where "Mstatus_Sie \<equiv> 0x2"
abbreviation (input) Mstatus_Hie :: CSRValue where "Mstatus_Hie \<equiv> 0x4"
abbreviation (input) Mstatus_Mie :: CSRValue where "Mstatus_Mie \<equiv> 0x8"
abbreviation (input) Mstatus_Upie :: CSRValue where "Mstatus_Upie \<equiv> 0x10"
abbreviation (input) Mstatus_Spie :: CSRValue where "Mstatus_Spie \<equiv> 0x20"
abbreviation (input) Mstatus_Hpie :: CSRValue where "Mstatus_Hpie \<equiv> 0x40"
abbreviation (input) Mstatus_Mpie :: CSRValue where "Mstatus_Mpie \<equiv> 0x80"
abbreviation (input) Mstatus_Spp :: CSRValue where "Mstatus_Spp \<equiv> 0x100"
abbreviation (input) Mstatus_Vs :: CSRValue where "Mstatus_Vs \<equiv> 0x600"
abbreviation (input) Mstatus_Mpp :: CSRValue where "Mstatus_Mpp \<equiv> 0x1800"
abbreviation (input) Mstatus_Fs :: CSRValue where "Mstatus_Fs \<equiv> 0x6000"
abbreviation (input) Mstatus_Xs :: CSRValue where "Mstatus_Xs \<equiv> 0x18000"
abbreviation (input) Mstatus_Mprv :: CSRValue where "Mstatus_Mprv \<equiv> 0x20000"
abbreviation (input) Mstatus_Sum :: CSRValue where "Mstatus_Sum \<equiv> 0x40000"
abbreviation (input) Mstatus_Mxr :: CSRValue where "Mstatus_Mxr \<equiv> 0x80000"
abbreviation (input) Mstatus_Tvm :: CSRValue where "Mstatus_Tvm \<equiv> 0x100000"
abbreviation (input) Mstatus_Tw :: CSRValue where "Mstatus_Tw \<equiv> 0x200000"
abbreviation (input) Mstatus_Tsr :: CSRValue where "Mstatus_Tsr \<equiv> 0x400000"

abbreviation (input) Mip_Usip :: CSRValue where "Mip_Usip \<equiv> 0x1"
abbreviation (input) Mip_Ssip :: CSRValue where "Mip_Ssip \<equiv> 0x2"
abbreviation (input) Mip_Hsip :: CSRValue where "Mip_Hsip \<equiv> 0x4"
abbreviation (input) Mip_Msip :: CSRValue where "Mip_Msip \<equiv> 0x8"
abbreviation (input) Mip_Utip :: CSRValue where "Mip_Utip \<equiv> 0x10"
abbreviation (input) Mip_Stip :: CSRValue where "Mip_Stip \<equiv> 0x20"
abbreviation (input) Mip_Htip :: CSRValue where "Mip_Htip \<equiv> 0x40"
abbreviation (input) Mip_Mtip :: CSRValue where "Mip_Mtip \<equiv> 0x80"
abbreviation (input) Mip_Ueip :: CSRValue where "Mip_Ueip \<equiv> 0x100"
abbreviation (input) Mip_Seip :: CSRValue where "Mip_Seip \<equiv> 0x200"
abbreviation (input) Mip_Heip :: CSRValue where "Mip_Heip \<equiv> 0x400"
abbreviation (input) Mip_Meip :: CSRValue where "Mip_Meip \<equiv> 0x800"

abbreviation (input) Csr_Ustatus :: CSRAddress where "Csr_Ustatus \<equiv> 0x0"
abbreviation (input) Csr_Uie :: CSRAddress where "Csr_Uie \<equiv> 0x4"
abbreviation (input) Csr_Utvec :: CSRAddress where "Csr_Utvec \<equiv> 0x5"
abbreviation (input) Csr_Uscratch :: CSRAddress where "Csr_Uscratch \<equiv> 0x40"
abbreviation (input) Csr_Uepc :: CSRAddress where "Csr_Uepc \<equiv> 0x41"
abbreviation (input) Csr_Ucause :: CSRAddress where "Csr_Ucause \<equiv> 0x42"
abbreviation (input) Csr_Utval :: CSRAddress where "Csr_Utval \<equiv> 0x43"
abbreviation (input) Csr_Uip :: CSRAddress where "Csr_Uip \<equiv> 0x44"
abbreviation (input) Csr_Fflags :: CSRAddress where "Csr_Fflags \<equiv> 0x1"
abbreviation (input) Csr_Frm :: CSRAddress where "Csr_Frm \<equiv> 0x2"
abbreviation (input) Csr_Fcsr :: CSRAddress where "Csr_Fcsr \<equiv> 0x3"
abbreviation (input) Csr_Vstart :: CSRAddress where "Csr_Vstart \<equiv> 0x8"
abbreviation (input) Csr_Vxsat :: CSRAddress where "Csr_Vxsat \<equiv> 0x9"
abbreviation (input) Csr_Vxrm :: CSRAddress where "Csr_Vxrm \<equiv> 0xa"
abbreviation (input) Csr_Vcsr :: CSRAddress where "Csr_Vcsr \<equiv> 0xf"
abbreviation (input) Csr_Pmpcfg0 :: CSRAddress where "Csr_Pmpcfg0 \<equiv> 0x3a0"
abbreviation (input) Csr_Pmpaddr0 :: CSRAddress where "Csr_Pmpaddr0 \<equiv> 0x3b0"
abbreviation (input) Csr_Cycle :: CSRAddress where "Csr_Cycle \<equiv> 0xc00"
abbreviation (input) Csr_Time :: CSRAddress where "Csr_Time \<equiv> 0xc01"
abbreviation (input) Csr_Instret :: CSRAddress where "Csr_Instret \<equiv> 0xc02"
abbreviation (input) Csr_Vl :: CSRAddress where "Csr_Vl \<equiv> 0xc20"
abbreviation (input) Csr_Vtype :: CSRAddress where "Csr_Vtype \<equiv> 0xc21"
abbreviation (input) Csr_Vlenb :: CSRAddress where "Csr_Vlenb \<equiv> 0xc22"
abbreviation (input) Csr_Sstatus :: CSRAddress where "Csr_Sstatus \<equiv> 0x100"
abbreviation (input) Csr_Sedeleg :: CSRAddress where "Csr_Sedeleg \<equiv> 0x102"
abbreviation (input) Csr_Sideleg :: CSRAddress where "Csr_Sideleg \<equiv> 0x103"
abbreviation (input) Csr_Sie :: CSRAddress where "Csr_Sie \<equiv> 0x104"
abbreviation (input) Csr_Stvec :: CSRAddress where "Csr_Stvec \<equiv> 0x105"
abbreviation (input) Csr_Scounteren :: CSRAddress where "Csr_Scounteren \<equiv> 0x106"
abbreviation (input) Csr_Sscratch :: CSRAddress where "Csr_Sscratch \<equiv> 0x140"
abbreviation (input) Csr_Sepc :: CSRAddress where "Csr_Sepc \<equiv> 0x141"
abbreviation (input) Csr_Scause :: CSRAddress where "Csr_Scause \<equiv> 0x142"
abbreviation (input) Csr_Stval :: CSRAddress where "Csr_Stval \<equiv> 0x143"
abbreviation (input) Csr_Sip :: CSRAddress where "Csr_Sip \<equiv> 0x144"
abbreviation (input) Csr_Satp :: CSRAddress where "Csr_Satp \<equiv> 0x180"
abbreviation (input) Csr_Mvendorid :: CSRAddress where "Csr_Mvendorid \<equiv> 0xf11"
abbreviation (input) Csr_Marchid :: CSRAddress where "Csr_Marchid \<equiv> 0xf12"
abbreviation (input) Csr_Mimpid :: CSRAddress where "Csr_Mimpid \<equiv> 0xf13"
abbreviation (input) Csr_Mhartid :: CSRAddress where "Csr_Mhartid \<equiv> 0xf14"
abbreviation (input) Csr_Mconfigptr :: CSRAddress where "Csr_Mconfigptr \<equiv> 0xf15"
abbreviation (input) Csr_Mstatus :: CSRAddress where "Csr_Mstatus \<equiv> 0x300"
abbreviation (input) Csr_Misa :: CSRAddress where "Csr_Misa \<equiv> 0x301"
abbreviation (input) Csr_Medeleg :: CSRAddress where "Csr_Medeleg \<equiv> 0x302"
abbreviation (input) Csr_Mideleg :: CSRAddress where "Csr_Mideleg \<equiv> 0x303"
abbreviation (input) Csr_Mie :: CSRAddress where "Csr_Mie \<equiv> 0x304"
abbreviation (input) Csr_Mtvec :: CSRAddress where "Csr_Mtvec \<equiv> 0x305"
abbreviation (input) Csr_Mcounteren :: CSRAddress where "Csr_Mcounteren \<equiv> 0x306"
abbreviation (input) Csr_Mscratch :: CSRAddress where "Csr_Mscratch \<equiv> 0x340"
abbreviation (input) Csr_Mepc :: CSRAddress where "Csr_Mepc \<equiv> 0x341"
abbreviation (input) Csr_Mcause :: CSRAddress where "Csr_Mcause \<equiv> 0x342"
abbreviation (input) Csr_Mtval :: CSRAddress where "Csr_Mtval \<equiv> 0x343"
abbreviation (input) Csr_Mip :: CSRAddress where "Csr_Mip \<equiv> 0x344"
abbreviation (input) Csr_Mcycle :: CSRAddress where "Csr_Mcycle \<equiv> 0xb00"
abbreviation (input) Csr_Minstret :: CSRAddress where "Csr_Minstret \<equiv> 0xb02"
abbreviation (input) Csr_Mcycleh :: CSRAddress where "Csr_Mcycleh \<equiv> 0xb80"
abbreviation (input) Csr_Minstreth :: CSRAddress where "Csr_Minstreth \<equiv> 0xb82"
abbreviation (input) Csr_Cycleh :: CSRAddress where "Csr_Cycleh \<equiv> 0xc80"
abbreviation (input) Csr_Timeh :: CSRAddress where "Csr_Timeh \<equiv> 0xc81"
abbreviation (input) Csr_Instreth :: CSRAddress where "Csr_Instreth \<equiv> 0xc82"

subsection \<open>Masks and legalisation\<close>

definition interrupt_implemented_mask :: "bool \<Rightarrow> CSRValue" where
  "interrupt_implemented_mask has_s =
     (let mask = Mip_Msip OR Mip_Mtip OR Mip_Meip in
      if has_s then mask OR (Mip_Ssip OR Mip_Stip OR Mip_Seip) else mask)"

definition mip_writable_mask :: "bool \<Rightarrow> CSRValue" where
  "mip_writable_mask has_s = (if has_s then Mip_Ssip OR Mip_Stip OR Mip_Seip else 0)"

definition mideleg_writable_mask :: "bool \<Rightarrow> CSRValue" where
  "mideleg_writable_mask has_s = (if has_s then Mip_Ssip OR Mip_Stip OR Mip_Seip else 0)"

definition mip_rmw_base :: "CSRValue \<Rightarrow> bool \<Rightarrow> CSRValue" where
  "mip_rmw_base visible_mip seip_software =
     (let v = visible_mip AND NOT Mip_Seip in
      if seip_software then v OR Mip_Seip else v)"

definition kMstatusMask :: CSRValue where
  "kMstatusMask =
     Mstatus_Sie OR Mstatus_Mie OR Mstatus_Spie OR Mstatus_Mpie OR Mstatus_Spp OR Mstatus_Mpp OR
     Mstatus_Fs OR Mstatus_Vs OR Mstatus_Mprv OR Mstatus_Sum OR Mstatus_Mxr OR Mstatus_Tvm OR
     Mstatus_Tw OR Mstatus_Tsr OR push_bit 32 0xF"

definition kSstatusMask :: CSRValue where
  "kSstatusMask =
     Mstatus_Sie OR Mstatus_Spie OR Mstatus_Spp OR Mstatus_Fs OR Mstatus_Vs OR Mstatus_Xs OR
     Mstatus_Sum OR Mstatus_Mxr OR push_bit 32 0x3"

definition kMstatusSd :: CSRValue where
  "kMstatusSd = push_bit 63 1"

definition kMstatusSstatusReadMask :: CSRValue where
  "kMstatusSstatusReadMask = kSstatusMask OR kMstatusSd"

definition kMstatusReadMask :: CSRValue where
  "kMstatusReadMask = NOT 0"

definition kMedelegWritableMask :: CSRValue where
  "kMedelegWritableMask = 0xB1FF"

definition kFflagsMask :: CSRValue where
  "kFflagsMask = 0x1f"

definition kFrmMask :: CSRValue where
  "kFrmMask = 0x7"

definition kFcsrMask :: CSRValue where
  "kFcsrMask = 0xff"

definition kFrmShift :: nat where
  "kFrmShift = 5"

definition mstatus_with_sd :: "CSRValue \<Rightarrow> CSRValue" where
  "mstatus_with_sd mstatus =
     (let fs_dirty = (mstatus AND Mstatus_Fs = Mstatus_Fs);
          vs_dirty = (mstatus AND Mstatus_Vs = Mstatus_Vs);
          xs_dirty = (mstatus AND Mstatus_Xs = Mstatus_Xs)
      in if fs_dirty \<or> vs_dirty \<or> xs_dirty then mstatus OR kMstatusSd
         else mstatus AND NOT kMstatusSd)"

definition mstatus_writable_mask :: "bool \<Rightarrow> bool \<Rightarrow> bool \<Rightarrow> bool \<Rightarrow> CSRValue" where
  "mstatus_writable_mask has_s has_u has_f has_v =
     (let m0 = kMstatusMask;
          m1 = (if \<not> has_s
                then m0 AND NOT (Mstatus_Sie OR Mstatus_Spie OR Mstatus_Spp OR Mstatus_Sum OR
                                 Mstatus_Mxr OR Mstatus_Tvm OR Mstatus_Tsr)
                        AND NOT (push_bit 34 0x3)
                else m0);
          m2 = (if \<not> has_u then m1 AND NOT Mstatus_Mprv AND NOT (push_bit 32 0x3) else m1);
          m3 = (if \<not> has_s \<and> \<not> has_u then m2 AND NOT Mstatus_Tw else m2);
          m4 = (if \<not> has_f then m3 AND NOT Mstatus_Fs else m3)
      in if \<not> has_v then m4 AND NOT Mstatus_Vs else m4)"

definition mstatus_legalize_mpp :: "CSRValue \<Rightarrow> bool \<Rightarrow> bool \<Rightarrow> CSRValue" where
  "mstatus_legalize_mpp value has_s has_u =
     (let requested = drop_bit 11 (value AND Mstatus_Mpp);
          legal = (requested = 3 \<or> requested = 1 \<and> has_s \<or> requested = 0 \<and> has_u)
      in if legal then value
         else (value AND NOT Mstatus_Mpp) OR push_bit 11 3)"

definition least_supported_mpp :: "bool \<Rightarrow> bool \<Rightarrow> CSRValue" where
  "least_supported_mpp has_s has_u = (if has_u then 0 else if has_s then 1 else 3)"

definition mstatus_read_value :: "CSRValue \<Rightarrow> CSRValue \<Rightarrow> nat \<Rightarrow> CSRValue" where
  "mstatus_read_value mstatus m xlen =
     (let value = mstatus_with_sd mstatus AND m in
      if xlen = 32 then
        let sd = (value AND kMstatusSd \<noteq> 0);
            value' = zext32 value
        in if sd then value' OR push_bit 31 1 else value'
      else value)"

definition pmp_csr_exists :: "CSRAddress \<Rightarrow> nat \<Rightarrow> bool" where
  "pmp_csr_exists address xlen =
     (if address \<ge> 0x3A0 \<and> address \<le> 0x3AF then xlen = 32 \<or> address AND 1 = 0
      else address \<ge> 0x3B0 \<and> address \<le> 0x3EF)"

definition is_debug_csr :: "CSRAddress \<Rightarrow> bool" where
  "is_debug_csr address \<longleftrightarrow> address \<ge> 0x7A0 \<and> address \<le> 0x7BF"

definition csr_access_permitted ::
    "PrivilegeLevel \<Rightarrow> bool \<Rightarrow> bool \<Rightarrow> CSRAddress \<Rightarrow> bool \<Rightarrow> bool" where
  "csr_access_permitted current_priv has_s has_u address is_write =
     (let required_priv = drop_bit 8 address AND 0x3;
          read_only = (drop_bit 10 address AND 0x3 = 0x3)
      in if is_debug_csr address then False
         else if required_priv = 1 \<and> \<not> has_s then False
         else if \<not> has_s \<and> (address = 0x302 \<or> address = 0x303) then False
         else if \<not> has_u \<and> address = 0x306 then False
         else if ucast current_priv < required_priv then False
         else \<not> is_write \<or> \<not> read_only)"

definition is_zero_hpm_csr :: "CSRAddress \<Rightarrow> nat \<Rightarrow> bool" where
  "is_zero_hpm_csr address xlen =
     (if (address \<ge> 0x323 \<and> address \<le> 0x33F) \<or> (address \<ge> 0xB03 \<and> address \<le> 0xB1F) \<or>
         (address \<ge> 0xC03 \<and> address \<le> 0xC1F) then True
      else xlen = 32 \<and>
        ((address \<ge> 0xB83 \<and> address \<le> 0xB9F) \<or> (address \<ge> 0xC83 \<and> address \<le> 0xC9F)))"

definition cause_read_value :: "CSRValue \<Rightarrow> nat \<Rightarrow> CSRValue" where
  "cause_read_value value xlen =
     (let kInternalInterrupt = push_bit 63 1 in
      if xlen = 32 then
        let interrupt = (value AND kInternalInterrupt \<noteq> 0);
            value' = zext32 value
        in if interrupt then value' OR push_bit 31 1 else value'
      else value)"

definition cause_write_value :: "CSRValue \<Rightarrow> nat \<Rightarrow> CSRValue" where
  "cause_write_value value xlen =
     (let kArchitecturalRv32Interrupt = push_bit 31 1;
          kInternalInterrupt = push_bit 63 1
      in if xlen = 32 then
           let value' = zext32 value in
           if value' AND kArchitecturalRv32Interrupt \<noteq> 0
           then (value' AND NOT kArchitecturalRv32Interrupt) OR kInternalInterrupt
           else value'
         else value)"

subsection \<open>The fields of satp\<close>

text \<open>
  The source has a template per width and a run-time dispatch on the personality; the 64-bit build
  compiles both instances.
\<close>

definition satp_mode :: "Word \<Rightarrow> nat \<Rightarrow> Word" where
  "satp_mode satp xlen =
     (if xlen = 64 then drop_bit 60 satp AND 0xF else drop_bit 31 satp AND 0x1)"

definition satp_translation_enabled :: "Word \<Rightarrow> nat \<Rightarrow> bool" where
  "satp_translation_enabled satp xlen \<longleftrightarrow> satp_mode satp xlen \<noteq> 0"

definition satp_mode_supported :: "Word \<Rightarrow> nat \<Rightarrow> bool" where
  "satp_mode_supported m xlen =
     (if xlen = 64 then m = 0 \<or> m = 8 \<or> m = 9 else m = 0 \<or> m = 1)"

definition satp_asid :: "Word \<Rightarrow> nat \<Rightarrow> Word" where
  "satp_asid satp xlen =
     (if xlen = 64 then drop_bit 44 satp AND 0xffff else drop_bit 22 satp AND 0x1ff)"

definition satp_root_ppn :: "Word \<Rightarrow> nat \<Rightarrow> Word" where
  "satp_root_ppn satp xlen =
     (if xlen = 64 then satp AND 0x00000fffffffffff else satp AND 0x003fffff)"

subsection \<open>Register file\<close>

type_synonym RegId = u8

type_synonym VectorRegister = "nat \<Rightarrow> u8"

record RegisterFile =
  xlen :: nat
  vlen :: nat
  reg :: "RegId \<Rightarrow> Register"
  freg :: "RegId \<Rightarrow> FloatingRegister"
  vreg :: "RegId \<Rightarrow> VectorRegister"

definition vlen_bytes :: "RegisterFile \<Rightarrow> nat" where
  "vlen_bytes rf = vlen rf div 8"

definition vstart_mask :: "RegisterFile \<Rightarrow> CSRValue" where
  "vstart_mask rf = of_nat (vlen rf - 1)"

definition read_reg :: "RegisterFile \<Rightarrow> RegId \<Rightarrow> Register" where
  "read_reg rf idx = reg rf idx"

definition write_reg :: "RegisterFile \<Rightarrow> RegId \<Rightarrow> Register \<Rightarrow> RegisterFile" where
  "write_reg rf idx val =
     (if idx \<noteq> 0 then
        let val' = (if xlen rf = 32 then sext32 val else val)
        in rf\<lparr>reg := (reg rf)(idx := val')\<rparr>
      else rf)"

definition write_branchless :: "RegisterFile \<Rightarrow> RegId \<Rightarrow> Register \<Rightarrow> RegisterFile" where
  "write_branchless rf idx val =
     (let val' = (if xlen rf = 32 then sext32 val else val);
          rf1 = rf\<lparr>reg := (reg rf)(idx := val')\<rparr>
      in rf1\<lparr>reg := (reg rf1)(0 := 0)\<rparr>)"

definition read_fp :: "RegisterFile \<Rightarrow> RegId \<Rightarrow> FloatingRegister" where
  "read_fp rf idx = freg rf idx"

definition write_fp :: "RegisterFile \<Rightarrow> RegId \<Rightarrow> FloatingRegister \<Rightarrow> RegisterFile" where
  "write_fp rf idx val = rf\<lparr>freg := (freg rf)(idx := val)\<rparr>"

definition read_vector :: "RegisterFile \<Rightarrow> RegId \<Rightarrow> VectorRegister" where
  "read_vector rf idx = vreg rf idx"

definition write_vector :: "RegisterFile \<Rightarrow> RegId \<Rightarrow> VectorRegister \<Rightarrow> RegisterFile" where
  "write_vector rf idx val = rf\<lparr>vreg := (vreg rf)(idx := val)\<rparr>"

definition fill_reg :: "RegisterFile \<Rightarrow> Register \<Rightarrow> RegisterFile" where
  "fill_reg rf val = rf\<lparr>reg := (\<lambda>_. val)(0 := 0)\<rparr>"

definition fill_fp :: "RegisterFile \<Rightarrow> FloatingRegister \<Rightarrow> RegisterFile" where
  "fill_fp rf val = rf\<lparr>freg := (\<lambda>_. val)\<rparr>"

definition fill_vector :: "RegisterFile \<Rightarrow> VectorRegister \<Rightarrow> RegisterFile" where
  "fill_vector rf val = rf\<lparr>vreg := (\<lambda>_. val)\<rparr>"

definition initial_RegisterFile :: RegisterFile where
  "initial_RegisterFile =
     \<lparr>xlen = 64, vlen = 256, reg = (\<lambda>_. 0), freg = (\<lambda>_. 0), vreg = (\<lambda>_ _. 0)\<rparr>"

subsection \<open>Architectural state\<close>

record ArchState =
  pc :: Register
  regs :: RegisterFile
  mstatus :: CSRValue
  mtvec :: CSRValue
  mscratch :: CSRValue
  mepc :: CSRValue
  mcause :: TrapCause
  mtval :: CSRValue
  mhartid :: CSRValue
  misa :: CSRValue
  mie :: CSRValue
  mip :: CSRValue
  seip_software :: bool
  seip_external :: bool
  stip_software :: bool
  stip_timer :: bool
  medeleg :: CSRValue
  mideleg :: CSRValue
  mcounteren :: CSRValue
  stvec :: CSRValue
  sscratch :: CSRValue
  sepc :: CSRValue
  scause :: TrapCause
  stval :: CSRValue
  satp :: CSRValue
  scounteren :: CSRValue
  fcsr :: CSRValue
  vstart :: CSRValue
  vxsat :: CSRValue
  vxrm :: CSRValue
  vl :: CSRValue
  vtype :: CSRValue
  priv :: PrivilegeLevel
  load_res :: Address
  reserved :: CSRValue

definition initial_ArchState :: ArchState where
  "initial_ArchState =
     \<lparr>pc = 0, regs = initial_RegisterFile, mstatus = 0, mtvec = 0, mscratch = 0, mepc = 0,
      mcause = 0, mtval = 0, mhartid = 0, misa = kMisaDefault, mie = 0, mip = 0,
      seip_software = False, seip_external = False, stip_software = False, stip_timer = False,
      medeleg = 0, mideleg = 0, mcounteren = 0, stvec = 0, sscratch = 0, sepc = 0, scause = 0,
      stval = 0, satp = 0, scounteren = 0, fcsr = 0, vstart = 0, vxsat = 0, vxrm = 0, vl = 0,
      vtype = 0, priv = Machine, load_res = 0, reserved = 0\<rparr>"

definition refresh_supervisor_pending :: "ArchState \<Rightarrow> ArchState" where
  "refresh_supervisor_pending s =
     (let mip1 = (if seip_software s \<or> seip_external s then mip s OR Mip_Seip
                  else mip s AND NOT Mip_Seip);
          mip2 = (if stip_software s \<or> stip_timer s then mip1 OR Mip_Stip
                  else mip1 AND NOT Mip_Stip)
      in s\<lparr>mip := mip2\<rparr>)"

definition xlen_for_privilege :: "ArchState \<Rightarrow> PrivilegeLevel \<Rightarrow> nat" where
  "xlen_for_privilege s level =
     (let mxl = drop_bit 62 (misa s) AND 3 in
      if mxl = 1 then 32
      else if level = Machine then 64
      else if level = Supervisor then
        (let sxl = drop_bit 34 (mstatus s) AND 3 in if sxl = 1 then 32 else 64)
      else
        (let uxl = drop_bit 32 (mstatus s) AND 3 in if uxl = 1 then 32 else 64))"

definition current_xlen :: "ArchState \<Rightarrow> nat" where
  "current_xlen s = xlen_for_privilege s (priv s)"

definition update_xlen :: "ArchState \<Rightarrow> ArchState" where
  "update_xlen s = s\<lparr>regs := (regs s)\<lparr>xlen := current_xlen s\<rparr>\<rparr>"

definition initialize_lower_xlen_fields :: "ArchState \<Rightarrow> ArchState" where
  "initialize_lower_xlen_fields s =
     (let has_s = misa_has_extension (misa s) Ext_S;
          has_u = misa_has_extension (misa s) Ext_U;
          has_f = misa_has_extension (misa s) Ext_F;
          has_v = misa_has_extension (misa s) Ext_V;
          kLowerXlenMask = push_bit 32 0xF;
          mxl = drop_bit 62 (misa s) AND 0x3;
          lower_xlen = (if mxl = 1 then 1 else 2);
          updated = (mstatus s AND NOT kLowerXlenMask) OR
                    (if has_u then push_bit 32 lower_xlen else 0) OR
                    (if has_s then push_bit 34 lower_xlen else 0);
          m1 = mstatus_legalize_mpp updated has_s has_u;
          m2 = m1 AND mstatus_writable_mask has_s has_u has_f has_v
      in update_xlen (s\<lparr>mstatus := m2\<rparr>))"

subsection \<open>Well-formed architectural states\<close>

text \<open>
  \<open>arch_wf\<close> is the WARL invariant of the CSR file: no unimplemented status, delegation, enable or
  pending bit is ever stored, MPP and the current privilege name implemented modes, SXL and UXL hold
  legal widths with UXL not above SXL, the pending bits with two sources are the disjunction of
  their sources, the trap vectors and return addresses are aligned, the floating-point and vector
  control fields fit their widths, the register file follows the width of the current privilege
  and x0 is zero.
\<close>

definition priv_implemented :: "CSRValue \<Rightarrow> PrivilegeLevel \<Rightarrow> bool" where
  "priv_implemented m p \<longleftrightarrow>
     p = Machine \<or> p = Supervisor \<and> misa_has_extension m Ext_S \<or>
     p = User \<and> misa_has_extension m Ext_U"

definition mpp_of :: "CSRValue \<Rightarrow> CSRValue" where
  "mpp_of m = drop_bit 11 m AND 3"

definition sxl_of :: "CSRValue \<Rightarrow> CSRValue" where
  "sxl_of m = drop_bit 34 m AND 3"

definition uxl_of :: "CSRValue \<Rightarrow> CSRValue" where
  "uxl_of m = drop_bit 32 m AND 3"

definition mstatus_mask_of :: "CSRValue \<Rightarrow> CSRValue" where
  "mstatus_mask_of m =
     mstatus_writable_mask (misa_has_extension m Ext_S) (misa_has_extension m Ext_U)
       (misa_has_extension m Ext_F) (misa_has_extension m Ext_V)"

definition mstatus_wf :: "CSRValue \<Rightarrow> CSRValue \<Rightarrow> bool" where
  "mstatus_wf m ms \<longleftrightarrow>
     bits_within ms (mstatus_mask_of m) \<and>
     priv_implemented m (ucast (mpp_of ms)) \<and>
     (misa_has_extension m Ext_S \<longrightarrow>
        (sxl_of ms = 1 \<or> sxl_of ms = 2 \<and> drop_bit 62 m AND 3 \<noteq> 1) \<and>
        (uxl_of ms = 1 \<or> uxl_of ms = 2 \<and> sxl_of ms = 2))"

definition arch_wf :: "ArchState \<Rightarrow> bool" where
  "arch_wf s \<longleftrightarrow>
     (misa_has_extension (misa s) Ext_S \<longrightarrow> misa_has_extension (misa s) Ext_U) \<and>
     mstatus_wf (misa s) (mstatus s) \<and>
     priv_implemented (misa s) (priv s) \<and>
     xlen (regs s) = current_xlen s \<and>
     read_reg (regs s) 0 = 0 \<and>
     bits_within (medeleg s) kMedelegWritableMask \<and>
     bits_within (mideleg s) (mideleg_writable_mask (misa_has_extension (misa s) Ext_S)) \<and>
     bits_within (mie s) (interrupt_implemented_mask (misa_has_extension (misa s) Ext_S)) \<and>
     bits_within (mip s) (interrupt_implemented_mask True) \<and>
     bit (mip s) 9 = (seip_software s \<or> seip_external s) \<and>
     bit (mip s) 5 = (stip_software s \<or> stip_timer s) \<and>
     \<not> bit (mtvec s) 1 \<and> \<not> bit (stvec s) 1 \<and>
     \<not> bit (pc s) 0 \<and> \<not> bit (mepc s) 0 \<and> \<not> bit (sepc s) 0 \<and>
     bits_within (mcounteren s) 7 \<and> bits_within (scounteren s) 7 \<and>
     bits_within (fcsr s) kFcsrMask \<and>
     bits_within (vxsat s) 1 \<and> bits_within (vxrm s) 3 \<and>
     bits_within (vstart s) (vstart_mask (regs s))"
subsection \<open>Bits of the masks\<close>

lemma bit_kMstatusMask [bit_simps]:
  "bit kMstatusMask n \<longleftrightarrow> n = 1 \<or> n = 3 \<or> n = 5 \<or> (7 \<le> n \<and> n \<le> 14) \<or> (17 \<le> n \<and> n \<le> 22) \<or> (32 \<le> n \<and> n \<le> 35)"
  by (rule bit64_tableI, unfold below_64) (auto simp: kMstatusMask_def)

lemma bit_kSstatusMask [bit_simps]:
  "bit kSstatusMask n \<longleftrightarrow> n = 1 \<or> n = 5 \<or> (8 \<le> n \<and> n \<le> 10) \<or> (13 \<le> n \<and> n \<le> 16) \<or> n = 18 \<or> n = 19 \<or> n = 32 \<or> n = 33"
  by (rule bit64_tableI, unfold below_64) (auto simp: kSstatusMask_def)

lemma bit_kMstatusSd [bit_simps]: "bit kMstatusSd n \<longleftrightarrow> n = 63"
  by (auto simp add: kMstatusSd_def bit_simps)

lemma bit_mstatus_writable_mask [bit_simps]:
  "bit (mstatus_writable_mask has_s has_u has_f has_v) n \<longleftrightarrow>
     n = 3 \<or> n = 7 \<or> n = 11 \<or> n = 12 \<or>
     has_s \<and> (n = 1 \<or> n = 5 \<or> n = 8 \<or> n = 18 \<or> n = 19 \<or> n = 20 \<or> n = 22 \<or> n = 34 \<or> n = 35) \<or>
     has_u \<and> (n = 17 \<or> n = 32 \<or> n = 33) \<or>
     (has_s \<or> has_u) \<and> n = 21 \<or> has_f \<and> (n = 13 \<or> n = 14) \<or> has_v \<and> (n = 9 \<or> n = 10)"
proof (rule bit64_tableI)
  show "\<forall>n < 64. bit (mstatus_writable_mask has_s has_u has_f has_v) n = (n = 3 \<or> n = 7 \<or> n = 11 \<or> n = 12 \<or>
     has_s \<and> (n = 1 \<or> n = 5 \<or> n = 8 \<or> n = 18 \<or> n = 19 \<or> n = 20 \<or> n = 22 \<or> n = 34 \<or> n = 35) \<or>
     has_u \<and> (n = 17 \<or> n = 32 \<or> n = 33) \<or>
     (has_s \<or> has_u) \<and> n = 21 \<or> has_f \<and> (n = 13 \<or> n = 14) \<or> has_v \<and> (n = 9 \<or> n = 10))"
    by (cases has_s; cases has_u; cases has_f; cases has_v;
        simp add: mstatus_writable_mask_def kMstatusMask_def del: All_less_Suc; unfold below_64; simp)
qed (simp only: disj_imp, auto)

lemma bit_interrupt_implemented_mask [bit_simps]:
  "bit (interrupt_implemented_mask has_s) n \<longleftrightarrow>
     n = 3 \<or> n = 7 \<or> n = 11 \<or> has_s \<and> (n = 1 \<or> n = 5 \<or> n = 9)"
  unfolding interrupt_implemented_mask_def Let_def if_distrib [of "\<lambda>x. bit x n"]
  by (simp only: bit_or_iff) (auto simp: bit_simps)

lemma bit_mideleg_writable_mask [bit_simps]:
  "bit (mideleg_writable_mask has_s) n \<longleftrightarrow> has_s \<and> (n = 1 \<or> n = 5 \<or> n = 9)"
  unfolding mideleg_writable_mask_def if_distrib [of "\<lambda>x. bit x n"]
  by (simp only: bit_or_iff) (auto simp: bit_simps)

lemma bit_mip_writable_mask [bit_simps]:
  "bit (mip_writable_mask has_s) n \<longleftrightarrow> has_s \<and> (n = 1 \<or> n = 5 \<or> n = 9)"
  unfolding mip_writable_mask_def if_distrib [of "\<lambda>x. bit x n"]
  by (simp only: bit_or_iff) (auto simp: bit_simps)

lemma bit_refresh_supervisor_pending:
  "bit (mip (refresh_supervisor_pending s)) n \<longleftrightarrow>
     (if n = 9 then seip_software s \<or> seip_external s
      else if n = 5 then stip_software s \<or> stip_timer s else bit (mip s) n)"
  by (auto simp: refresh_supervisor_pending_def Let_def bit_simps dest: bit_imp_le_length)

subsection \<open>Register file and cause conversions\<close>

lemma read_write_reg [simp]:
  "read_reg (write_reg rf idx val) j =
     (if j = idx \<and> idx \<noteq> 0 then if xlen rf = 32 then sext32 val else val else read_reg rf j)"
  by (auto simp: read_reg_def write_reg_def Let_def)

lemma write_reg_sel [simp]:
  "xlen (write_reg rf idx val) = xlen rf" "vlen (write_reg rf idx val) = vlen rf"
  "freg (write_reg rf idx val) = freg rf" "vreg (write_reg rf idx val) = vreg rf"
  by (simp_all add: write_reg_def Let_def)

text \<open>
  Register writes. With x0 holding zero, the branch-free write of the hot paths is the ordinary
  write; x0 keeps its zero, the written register reads back the value (sign-extended from 32 bits
  in the RV32 personality) and every other register is unchanged.
\<close>

theorem register_file_writes:
  assumes "read_reg rf 0 = 0"
  shows "write_branchless rf idx val = write_reg rf idx val \<and>
         read_reg (write_reg rf idx val) 0 = 0 \<and>
         (\<forall>j. read_reg (write_reg rf idx val) j =
            (if j = idx \<and> idx \<noteq> 0 then if xlen rf = 32 then sext32 val else val
             else read_reg rf j))"
proof -
  have "write_branchless rf idx val = write_reg rf idx val"
    using assms by (auto simp: write_branchless_def write_reg_def read_reg_def Let_def fun_upd_def fun_eq_iff intro!: RegisterFile.equality)
  then show ?thesis using assms by simp
qed

theorem register_file_writes_witness:
  "write_branchless initial_RegisterFile 0 7 = write_reg initial_RegisterFile 0 7"
  using register_file_writes [of initial_RegisterFile 0 7]
  by (simp add: read_reg_def initial_RegisterFile_def)

lemma bit_cause_read_value:
  "bit (cause_read_value v 32) n \<longleftrightarrow> n < 31 \<and> bit v n \<or> n = 31 \<and> (bit v 31 \<or> bit v 63)"
  by (cases "n = 31") (auto simp: cause_read_value_def Let_def single_bit_tests bit_simps)

lemma bit_cause_write_value:
  "bit (cause_write_value v 32) n \<longleftrightarrow> n < 31 \<and> bit v n \<or> n = 63 \<and> bit v 31"
  by (cases "n = 31") (auto simp: cause_write_value_def Let_def single_bit_tests bit_simps)

lemma cause_read_write:
  "cause_read_value (cause_write_value v x) x = (if x = 32 then zext32 v else v)"
proof (cases "x = 32")
  case True
  have "cause_read_value (cause_write_value v 32) 32 = zext32 v"
    by (rule bit_word_eqI, rename_tac n, case_tac "n = 31")
      (auto simp: bit_cause_read_value bit_cause_write_value bit_simps)
  with True show ?thesis by simp
qed (simp add: cause_read_value_def cause_write_value_def)

text \<open>
  Trap causes keep an interrupt marker in bit 63 and are converted on RV32 accesses. Reading back
  a written cause gives the written (32-bit) value; writing back a cause that was read restores the
  internal value, marker included, up to the bits a 32-bit register cannot hold.
\<close>

theorem cause_width_roundtrip:
  "cause_read_value (cause_write_value v x) x = (if x = 32 then zext32 v else v) \<and>
   cause_write_value (cause_read_value c x) x =
     (if x = 32 then (zext32 c AND NOT (push_bit 31 1)) OR
        (if bit c 63 \<or> bit c 31 then push_bit 63 1 else 0) else c)"
proof (cases "x = 32")
  case True
  have "cause_write_value (cause_read_value c 32) 32 =
      (zext32 c AND NOT (push_bit 31 1)) OR (if bit c 63 \<or> bit c 31 then push_bit 63 1 else 0)"
    by (rule bit_word_eqI, cases "bit c 63"; cases "bit c 31")
      (auto simp: bit_cause_read_value bit_cause_write_value bit_simps)
  then show ?thesis
    using True cause_read_write [of v 32] by simp
qed (simp add: cause_read_value_def cause_write_value_def)

end
