(* ===== verification/Translation_Cache.thy ===== *)
theory Translation_Cache
  imports Arch_State
begin

text \<open>
  The contract shared by the lookup structures that accelerate the simulator: the three tables of
  the TLB, the software TLB of the fast path and the decode cache. A client looks a key up, and on
  a miss computes the value and inserts it; the structure may forget entries at any time and may
  identify keys (\<open>same\<close>: addresses in one page). \<open>store k v\<close> is what the structure keeps of a value
  inserted under \<open>k\<close> and \<open>touch\<close> is the replacement bookkeeping of a hit.

  The client lemmas say that the structure is transparent: started from a sound state, a sequence
  of cached accesses returns exactly what the uncached computation returns, provided the
  computation does not distinguish keys the structure identifies, and a flushed structure is sound
  for every computation.
\<close>

definition cached_access ::
    "('s \<Rightarrow> 'k \<Rightarrow> 'v option) \<Rightarrow> ('s \<Rightarrow> 'k \<Rightarrow> 's) \<Rightarrow> ('s \<Rightarrow> 'k \<Rightarrow> 'v \<Rightarrow> 's) \<Rightarrow>
     ('k \<Rightarrow> 'v \<Rightarrow> 'v) \<Rightarrow> ('k \<Rightarrow> 'v option) \<Rightarrow> 's \<Rightarrow> 'k \<Rightarrow> 'v option \<times> 's" where
  "cached_access lookup touch ins store f s k =
     (case lookup s k of
        Some v \<Rightarrow> (Some v, touch s k)
      | None \<Rightarrow>
          (case f k of
             Some v \<Rightarrow> (Some (store k v), ins s k v)
           | None \<Rightarrow> (None, s)))"

fun cached_accesses ::
    "('s \<Rightarrow> 'k \<Rightarrow> 'v option) \<Rightarrow> ('s \<Rightarrow> 'k \<Rightarrow> 's) \<Rightarrow> ('s \<Rightarrow> 'k \<Rightarrow> 'v \<Rightarrow> 's) \<Rightarrow>
     ('k \<Rightarrow> 'v \<Rightarrow> 'v) \<Rightarrow> ('k \<Rightarrow> 'v option) \<Rightarrow> 's \<Rightarrow> 'k list \<Rightarrow> 'v option list \<times> 's" where
  "cached_accesses lookup touch ins store f s [] = ([], s)"
| "cached_accesses lookup touch ins store f s (k # ks) =
     (let (r, s') = cached_access lookup touch ins store f s k;
          (rs, s'') = cached_accesses lookup touch ins store f s' ks
      in (r # rs, s''))"

definition uniform_on :: "('k \<Rightarrow> 'k \<Rightarrow> bool) \<Rightarrow> ('k \<Rightarrow> 'v \<Rightarrow> 'v) \<Rightarrow> ('k \<Rightarrow> 'v option) \<Rightarrow> bool" where
  "uniform_on same store f \<longleftrightarrow>
     (\<forall>k k'. same k k' \<longrightarrow> map_option (store k) (f k) = map_option (store k') (f k'))"

definition entries_agree ::
    "('s \<Rightarrow> 'k \<Rightarrow> 'v option) \<Rightarrow> ('k \<Rightarrow> 'v \<Rightarrow> 'v) \<Rightarrow> ('k \<Rightarrow> 'v option) \<Rightarrow> 's \<Rightarrow> bool" where
  "entries_agree lookup store f s \<longleftrightarrow>
     (\<forall>k v. lookup s k = Some v \<longrightarrow> map_option (store k) (f k) = Some v)"

locale translation_cache =
  fixes lookup :: "'s \<Rightarrow> 'k \<Rightarrow> 'v option"
    and touch :: "'s \<Rightarrow> 'k \<Rightarrow> 's"
    and ins :: "'s \<Rightarrow> 'k \<Rightarrow> 'v \<Rightarrow> 's"
    and flush :: "'s \<Rightarrow> 's"
    and store :: "'k \<Rightarrow> 'v \<Rightarrow> 'v"
    and same :: "'k \<Rightarrow> 'k \<Rightarrow> bool"
    and inv :: "'s \<Rightarrow> bool"
  assumes inv_touch: "inv s \<Longrightarrow> inv (touch s k)"
    and inv_insert: "inv s \<Longrightarrow> lookup s k = None \<Longrightarrow> inv (ins s k v)"
    and inv_flush: "inv s \<Longrightarrow> inv (flush s)"
    and same_refl: "same k k"
    and lookup_touch: "inv s \<Longrightarrow> lookup (touch s k) k' = lookup s k'"
    and lookup_flush: "inv s \<Longrightarrow> lookup (flush s) k = None"
    and lookup_same: "inv s \<Longrightarrow> same k k' \<Longrightarrow> lookup s k = lookup s k'"
    and lookup_insert_same:
      "inv s \<Longrightarrow> lookup s k = None \<Longrightarrow> lookup (ins s k v) k = Some (store k v)"
    and lookup_insert_other:
      "inv s \<Longrightarrow> lookup s k = None \<Longrightarrow> \<not> same k k' \<Longrightarrow>
        lookup (ins s k v) k' = Some v' \<Longrightarrow> lookup s k' = Some v'"
begin

abbreviation access where "access \<equiv> cached_access lookup touch ins store"
abbreviation accesses where "accesses \<equiv> cached_accesses lookup touch ins store"
abbreviation uniform where "uniform \<equiv> uniform_on same store"

abbreviation sound where
  "sound f s \<equiv> inv s \<and> entries_agree lookup store f s"

lemmas sound_def = entries_agree_def

lemma sound_flush: "inv s \<Longrightarrow> sound f (flush s)"
  by (simp add: sound_def inv_flush lookup_flush)

lemma sound_touch: "sound f s \<Longrightarrow> sound f (touch s k)"
  by (simp add: sound_def inv_touch lookup_touch)

lemma sound_insert:
  assumes "sound f s" "uniform f" "lookup s k = None" "f k = Some v"
  shows "sound f (ins s k v)"
  unfolding sound_def
proof (intro conjI allI impI)
  show "inv (ins s k v)"
    using assms(1,3) by (simp add: inv_insert)
  fix k' v'
  assume hit: "lookup (ins s k v) k' = Some v'"
  show "map_option (store k') (f k') = Some v'"
  proof (cases "same k k'")
    case True
    then have "lookup (ins s k v) k' = Some (store k v)"
      using assms lookup_same [of "ins s k v" k k'] lookup_insert_same [of s k v]
      by (simp add: sound_def inv_insert)
    then show ?thesis
      using hit True assms(2,4) unfolding uniform_on_def by (metis option.simps(9))
  next
    case False
    then show ?thesis
      using hit assms(1,3) lookup_insert_other [of s k k' v v'] by (simp add: sound_def)
  qed
qed

lemma access_transparent:
  assumes "sound f s" "uniform f"
  shows "fst (access f s k) = map_option (store k) (f k)" "sound f (snd (access f s k))"
proof -
  have agree: "lookup s k = Some v \<Longrightarrow> map_option (store k) (f k) = Some v" for v
    using assms(1) by (simp add: entries_agree_def)
  show "fst (access f s k) = map_option (store k) (f k)"
    using agree by (cases "lookup s k"; cases "f k") (auto simp: cached_access_def)
  show "sound f (snd (access f s k))"
  proof (cases "lookup s k")
    case None
    then show ?thesis
      using assms sound_insert [OF assms None] by (cases "f k") (auto simp: cached_access_def)
  next
    case (Some v)
    then show ?thesis
      using sound_touch [OF assms(1)] by (simp add: cached_access_def)
  qed
qed

lemma accesses_transparent:
  assumes "sound f s" "uniform f"
  shows "fst (accesses f s ks) = map (\<lambda>k. map_option (store k) (f k)) ks \<and>
         sound f (snd (accesses f s ks))"
  using assms(1)
proof (induction ks arbitrary: s)
  case (Cons k ks)
  then show ?case
    using access_transparent [OF Cons.prems assms(2), of k]
    by (auto simp: split_beta Let_def)
qed simp

lemma accesses_after_flush:
  assumes "inv s" "uniform f"
  shows "fst (accesses f (flush s) ks) = map (\<lambda>k. map_option (store k) (f k)) ks"
  using accesses_transparent [OF sound_flush [OF assms(1)] assms(2)] by simp

end

end
