(* ===== verification/Tlb_Table.thy ===== *)
theory Tlb_Table
  imports Translation_Cache
begin

text \<open>
  \<^verbatim>\<open>class Tlb\<close> (\<^verbatim>\<open>include/simrv/core/Tlb.hpp\<close>, \<^verbatim>\<open>src/core/Tlb.cpp\<close>): three two-way
  set-associative tables of 1024 sets with one replacement bit per set. An array is a function of
  its index; every index the code computes is below the array size. A lookup returns the matching
  entry and the replacement bits it leaves behind.
\<close>

record TLBEntry =
  v_addr :: Address
  p_addr :: Address
  te_asid :: Word
  te_priv :: PrivilegeLevel
  te_valid :: bool

definition empty_TLBEntry :: TLBEntry where
  "empty_TLBEntry = \<lparr>v_addr = 0, p_addr = 0, te_asid = 0, te_priv = User, te_valid = False\<rparr>"

type_synonym TLBSets = "nat \<Rightarrow> nat \<Rightarrow> TLBEntry"
type_synonym LruBits = "nat \<Rightarrow> nat"

record Tlb =
  inst_r :: TLBSets
  data_r :: TLBSets
  data_w :: TLBSets
  inst_r_lru :: LruBits
  data_r_lru :: LruBits
  data_w_lru :: LruBits

definition kTlbSize :: nat where
  "kTlbSize = 2048"

definition kNumSets :: nat where
  "kNumSets = kTlbSize div 2"

definition kPageMask :: Word where
  "kPageMask = push_bit 12 1 - 1"

definition calc_set :: "Address \<Rightarrow> nat" where
  "calc_set vaddr = unat (drop_bit 12 vaddr AND of_nat (kNumSets - 1))"

definition calc_vpage :: "Address \<Rightarrow> Address" where
  "calc_vpage vaddr = vaddr AND NOT kPageMask"

subsection \<open>One table\<close>

text \<open>
  The three lookup functions of the source are textually one function on three pairs of arrays, and
  so are the three insert functions; the shared body takes the pair.
\<close>

definition entry_matches :: "TLBEntry \<Rightarrow> Address \<Rightarrow> Word \<Rightarrow> PrivilegeLevel \<Rightarrow> bool" where
  "entry_matches entry vpage asid p \<longleftrightarrow>
     te_valid entry \<and> te_asid entry = asid \<and> v_addr entry = vpage \<and> te_priv entry = p"

definition lookup_table ::
    "TLBSets \<Rightarrow> LruBits \<Rightarrow> Address \<Rightarrow> Word \<Rightarrow> PrivilegeLevel \<Rightarrow> TLBEntry option \<times> LruBits" where
  "lookup_table table lru vaddr asid p =
     (let set' = calc_set vaddr; vpage = calc_vpage vaddr in
      if entry_matches (table set' 0) vpage asid p then (Some (table set' 0), lru(set' := 1))
      else if entry_matches (table set' 1) vpage asid p then (Some (table set' 1), lru(set' := 0))
      else (None, lru))"

definition insert_table ::
    "TLBSets \<Rightarrow> LruBits \<Rightarrow> Address \<Rightarrow> Address \<Rightarrow> Word \<Rightarrow> PrivilegeLevel \<Rightarrow> TLBSets \<times> LruBits" where
  "insert_table table lru vaddr paddr asid p =
     (let set' = calc_set vaddr;
          way = lru set';
          entry = \<lparr>v_addr = calc_vpage vaddr, p_addr = calc_vpage paddr, te_asid = asid,
                   te_priv = p, te_valid = True\<rparr>
      in (table(set' := (table set')(way := entry)), lru(set' := 1 - way)))"

subsection \<open>The operations\<close>

definition lookup_inst_r ::
    "Tlb \<Rightarrow> Address \<Rightarrow> Word \<Rightarrow> PrivilegeLevel \<Rightarrow> TLBEntry option \<times> Tlb" where
  "lookup_inst_r t vaddr asid p =
     (let (r, lru) = lookup_table (inst_r t) (inst_r_lru t) vaddr asid p
      in (r, t\<lparr>inst_r_lru := lru\<rparr>))"

definition insert_inst_r ::
    "Tlb \<Rightarrow> Address \<Rightarrow> Address \<Rightarrow> Word \<Rightarrow> PrivilegeLevel \<Rightarrow> Tlb" where
  "insert_inst_r t vaddr paddr asid p =
     (let (table, lru) = insert_table (inst_r t) (inst_r_lru t) vaddr paddr asid p
      in t\<lparr>inst_r := table, inst_r_lru := lru\<rparr>)"

definition lookup_data_r ::
    "Tlb \<Rightarrow> Address \<Rightarrow> Word \<Rightarrow> PrivilegeLevel \<Rightarrow> TLBEntry option \<times> Tlb" where
  "lookup_data_r t vaddr asid p =
     (let (r, lru) = lookup_table (data_r t) (data_r_lru t) vaddr asid p
      in (r, t\<lparr>data_r_lru := lru\<rparr>))"

definition insert_data_r ::
    "Tlb \<Rightarrow> Address \<Rightarrow> Address \<Rightarrow> Word \<Rightarrow> PrivilegeLevel \<Rightarrow> Tlb" where
  "insert_data_r t vaddr paddr asid p =
     (let (table, lru) = insert_table (data_r t) (data_r_lru t) vaddr paddr asid p
      in t\<lparr>data_r := table, data_r_lru := lru\<rparr>)"

definition lookup_data_w ::
    "Tlb \<Rightarrow> Address \<Rightarrow> Word \<Rightarrow> PrivilegeLevel \<Rightarrow> TLBEntry option \<times> Tlb" where
  "lookup_data_w t vaddr asid p =
     (let (r, lru) = lookup_table (data_w t) (data_w_lru t) vaddr asid p
      in (r, t\<lparr>data_w_lru := lru\<rparr>))"

definition insert_data_w ::
    "Tlb \<Rightarrow> Address \<Rightarrow> Address \<Rightarrow> Word \<Rightarrow> PrivilegeLevel \<Rightarrow> Tlb" where
  "insert_data_w t vaddr paddr asid p =
     (let (table, lru) = insert_table (data_w t) (data_w_lru t) vaddr paddr asid p
      in t\<lparr>data_w := table, data_w_lru := lru\<rparr>)"

definition tlb_flush :: "Tlb \<Rightarrow> Tlb" where
  "tlb_flush t =
     t\<lparr>inst_r := (\<lambda>_ _. empty_TLBEntry), data_r := (\<lambda>_ _. empty_TLBEntry),
       data_w := (\<lambda>_ _. empty_TLBEntry),
       inst_r_lru := (\<lambda>_. 0), data_r_lru := (\<lambda>_. 0), data_w_lru := (\<lambda>_. 0)\<rparr>"

definition flush_page :: "TLBSets \<Rightarrow> Address \<Rightarrow> bool \<Rightarrow> Word \<Rightarrow> TLBSets" where
  "flush_page table vaddr match_all_asid asid =
     (let set' = calc_set vaddr; vpage = calc_vpage vaddr in
      table(set' := (\<lambda>i.
        if i < 2 \<and> (match_all_asid \<or> te_asid (table set' i) = asid) \<and> v_addr (table set' i) = vpage
        then empty_TLBEntry else table set' i)))"

definition flush_asid :: "TLBSets \<Rightarrow> Word \<Rightarrow> TLBSets" where
  "flush_asid table asid =
     (\<lambda>s i. if s < kNumSets \<and> i < 2 \<and> te_asid (table s i) = asid then empty_TLBEntry
            else table s i)"

definition flush_selective :: "Tlb \<Rightarrow> bool \<Rightarrow> Address \<Rightarrow> bool \<Rightarrow> Word \<Rightarrow> Tlb" where
  "flush_selective t match_all_vaddr vaddr match_all_asid asid =
     (if match_all_vaddr \<and> match_all_asid then tlb_flush t
      else if \<not> match_all_vaddr then
        t\<lparr>inst_r := flush_page (inst_r t) vaddr match_all_asid asid,
          data_r := flush_page (data_r t) vaddr match_all_asid asid,
          data_w := flush_page (data_w t) vaddr match_all_asid asid\<rparr>
      else if \<not> match_all_asid then
        t\<lparr>inst_r := flush_asid (inst_r t) asid,
          data_r := flush_asid (data_r t) asid,
          data_w := flush_asid (data_w t) asid\<rparr>
      else tlb_flush t)"

subsection \<open>The table keeps the contract\<close>

text \<open>
  A key is a virtual address with an address-space identifier and a privilege; two keys are the
  same when they differ in the page offset only.
\<close>

type_synonym TlbKey = "Address \<times> Word \<times> PrivilegeLevel"

definition same_page :: "TlbKey \<Rightarrow> TlbKey \<Rightarrow> bool" where
  "same_page k k' \<longleftrightarrow> calc_vpage (fst k) = calc_vpage (fst k') \<and> snd k = snd k'"

definition table_lookup :: "TLBSets \<times> LruBits \<Rightarrow> TlbKey \<Rightarrow> Address option" where
  "table_lookup t k =
     (case k of (vaddr, asid, p) \<Rightarrow>
        map_option p_addr (fst (lookup_table (fst t) (snd t) vaddr asid p)))"

definition table_touch :: "TLBSets \<times> LruBits \<Rightarrow> TlbKey \<Rightarrow> TLBSets \<times> LruBits" where
  "table_touch t k =
     (case k of (vaddr, asid, p) \<Rightarrow> (fst t, snd (lookup_table (fst t) (snd t) vaddr asid p)))"

definition table_insert :: "TLBSets \<times> LruBits \<Rightarrow> TlbKey \<Rightarrow> Address \<Rightarrow> TLBSets \<times> LruBits" where
  "table_insert t k paddr =
     (case k of (vaddr, asid, p) \<Rightarrow> insert_table (fst t) (snd t) vaddr paddr asid p)"

definition table_flush :: "TLBSets \<times> LruBits \<Rightarrow> TLBSets \<times> LruBits" where
  "table_flush t = (\<lambda>_ _. empty_TLBEntry, \<lambda>_. 0)"

definition store_page :: "TlbKey \<Rightarrow> Address \<Rightarrow> Address" where
  "store_page k paddr = calc_vpage paddr"

definition table_ok :: "TLBSets \<times> LruBits \<Rightarrow> bool" where
  "table_ok t \<longleftrightarrow>
     (\<forall>s. snd t s \<le> 1 \<and>
          \<not> (te_valid (fst t s 0) \<and> te_valid (fst t s 1) \<and>
             v_addr (fst t s 0) = v_addr (fst t s 1) \<and> te_asid (fst t s 0) = te_asid (fst t s 1) \<and>
             te_priv (fst t s 0) = te_priv (fst t s 1)))"

lemma bit_kPageMask [bit_simps]: "bit kPageMask n \<longleftrightarrow> n < 12"
  using bit_mask_literals(9) [of n] by (auto simp: kPageMask_def bit_simps)

lemma bit_calc_vpage [bit_simps]: "bit (calc_vpage v) n \<longleftrightarrow> 12 \<le> n \<and> bit v n"
  by (auto simp: calc_vpage_def bit_simps dest: bit_imp_le_length)

lemma calc_vpage_idem [simp]: "calc_vpage (calc_vpage v) = calc_vpage v"
  by (rule bit_word_eqI) (auto simp: bit_simps)

lemma calc_set_vpage: "calc_set (calc_vpage v) = calc_set v"
proof -
  have "drop_bit 12 (calc_vpage v) = drop_bit 12 v"
    by (rule bit_word_eqI) (auto simp: bit_simps)
  then show ?thesis by (simp add: calc_set_def)
qed

lemma calc_set_cong: "calc_vpage v = calc_vpage w \<Longrightarrow> calc_set v = calc_set w"
  using calc_set_vpage [of v] calc_set_vpage [of w] by simp

lemma calc_set_less: "calc_set v < kNumSets"
proof -
  have "drop_bit 12 v AND 1023 \<le> 1023"
    by (rule word_and_le1)
  then have "unat (drop_bit 12 v AND 1023) \<le> 1023"
    by (simp add: word_le_nat_alt)
  then show ?thesis by (simp add: calc_set_def kNumSets_def kTlbSize_def)
qed

lemma entry_matches_empty [simp]: "\<not> entry_matches empty_TLBEntry vpage asid p"
  by (simp add: entry_matches_def empty_TLBEntry_def)

lemma lookup_table_same_page:
  "calc_vpage v = calc_vpage w \<Longrightarrow> lookup_table t l v asid p = lookup_table t l w asid p"
  using calc_set_cong [of v w] by (simp add: lookup_table_def)

lemma fst_lookup_table:
  "fst (lookup_table t l v asid p) =
     (if entry_matches (t (calc_set v) 0) (calc_vpage v) asid p then Some (t (calc_set v) 0)
      else if entry_matches (t (calc_set v) 1) (calc_vpage v) asid p then Some (t (calc_set v) 1)
      else None)"
  by (simp add: lookup_table_def Let_def)

lemma table_way: "table_ok t \<Longrightarrow> snd t s = 0 \<or> snd t s = 1"
  by (metis One_nat_def table_ok_def le_Suc_eq le_zero_eq)

lemma table_lookup_alt:
  "table_lookup t (va, asid, p) =
     (if entry_matches (fst t (calc_set va) 0) (calc_vpage va) asid p
      then Some (p_addr (fst t (calc_set va) 0))
      else if entry_matches (fst t (calc_set va) 1) (calc_vpage va) asid p
      then Some (p_addr (fst t (calc_set va) 1)) else None)"
  by (simp add: table_lookup_def fst_lookup_table)

lemma table_insert_alt:
  "table_insert t (va, asid, p) paddr =
     ((fst t)(calc_set va := (fst t (calc_set va))(snd t (calc_set va) :=
        \<lparr>v_addr = calc_vpage va, p_addr = calc_vpage paddr, te_asid = asid, te_priv = p,
         te_valid = True\<rparr>)),
      (snd t)(calc_set va := 1 - snd t (calc_set va)))"
  by (simp add: table_insert_def insert_table_def Let_def)

lemma table_ok_insert:
  assumes "table_ok t" "table_lookup t k = None"
  shows "table_ok (table_insert t k v)"
proof -
  obtain va asid p where k: "k = (va, asid, p)" by (cases k)
  show ?thesis
    using assms table_way [OF assms(1), of "calc_set va"]
    by (auto simp: k table_ok_def table_insert_alt table_lookup_alt entry_matches_def split: if_splits)
qed

lemma table_lookup_insert_same:
  assumes "table_ok t" "table_lookup t k = None"
  shows "table_lookup (table_insert t k v) k = Some (store_page k v)"
proof -
  obtain va asid p where k: "k = (va, asid, p)" by (cases k)
  show ?thesis
    using assms table_way [OF assms(1), of "calc_set va"]
    by (auto simp: k table_insert_alt table_lookup_alt entry_matches_def store_page_def split: if_splits)
qed

lemma table_lookup_insert_other:
  assumes "table_ok t" "\<not> same_page k k'" "table_lookup (table_insert t k v) k' = Some v'"
  shows "table_lookup t k' = Some v'"
proof -
  obtain va as p vb bs q where k: "k = (va, as, p)" "k' = (vb, bs, q)"
    by (cases k, cases k')
  have uniq: "\<not> (entry_matches (fst t (calc_set vb) 0) (calc_vpage vb) bs q \<and>
      entry_matches (fst t (calc_set vb) 1) (calc_vpage vb) bs q)"
    using assms(1) by (auto simp: table_ok_def entry_matches_def)
  have new: "\<not> entry_matches \<lparr>v_addr = calc_vpage va, p_addr = x, te_asid = as, te_priv = p,
      te_valid = True\<rparr> (calc_vpage vb) bs q" for x
    using assms(2) by (auto simp: k same_page_def entry_matches_def)
  show ?thesis
    using assms(3) table_way [OF assms(1), of "calc_set va"] uniq new
    by (cases "calc_set va = calc_set vb") (auto simp: k table_insert_alt table_lookup_alt split: if_splits)
qed

interpretation tlb_table: translation_cache table_lookup table_touch table_insert table_flush
  store_page same_page table_ok
proof (unfold_locales, goal_cases)
  case (1 s k)
  then show ?case by (auto simp: table_touch_def table_ok_def lookup_table_def Let_def split: prod.splits)
next
  case (2 s k v)
  then show ?case by (rule table_ok_insert)
next
  case (3 s)
  then show ?case by (simp add: table_flush_def table_ok_def empty_TLBEntry_def)
next
  case (4 k)
  then show ?case by (simp add: same_page_def)
next
  case (5 s k k')
  then show ?case by (simp add: table_lookup_def table_touch_def fst_lookup_table split: prod.splits)
next
  case (6 s k)
  then show ?case by (simp add: table_lookup_def table_flush_def fst_lookup_table split: prod.splits)
next
  case (7 s k k')
  then show ?case
    using lookup_table_same_page [of "fst k" "fst k'" "fst s" "snd s" "fst (snd k)" "snd (snd k)"]
    by (simp add: table_lookup_def same_page_def split_beta)
next
  case (8 s k v)
  then show ?case by (rule table_lookup_insert_same)
next
  case (9 s k k' v v')
  then show ?case by (blast intro: table_lookup_insert_other)
qed

subsection \<open>Properties\<close>

text \<open>(C7)
  TLB transparency. Take any table whose entries agree with a translation function \<open>f\<close> (for
  example a flushed one), where \<open>f\<close> maps addresses of one page to one frame. Then any sequence of
  accesses, each a lookup followed on a miss by the translation and an insertion, returns for every
  access the frame \<open>f\<close> computes, and faults exactly where \<open>f\<close> faults, however entries are evicted;
  the final table again agrees with \<open>f\<close>.
\<close>

theorem tlb_transparent:
  assumes "table_ok t" and "entries_agree table_lookup store_page f t"
    and "uniform_on same_page store_page f"
  shows "fst (cached_accesses table_lookup table_touch table_insert store_page f t ks) =
           map (\<lambda>k. map_option calc_vpage (f k)) ks \<and>
         entries_agree table_lookup store_page f
           (snd (cached_accesses table_lookup table_touch table_insert store_page f t ks))"
  using tlb_table.accesses_transparent [of t f ks] assms
  by (simp add: store_page_def [abs_def])

theorem tlb_transparent_witness:
  "fst (cached_accesses table_lookup table_touch table_insert store_page (\<lambda>k. Some (fst k))
     (\<lambda>_ _. empty_TLBEntry, \<lambda>_. 0) [(0x1234, 7, 1), (0x401FF0, 7, 1), (0x1238, 7, 1)]) =
   [Some 0x1000, Some 0x401000, Some 0x1000]"
proof -
  have "calc_vpage 0x1234 = 0x1000" "calc_vpage 0x401FF0 = 0x401000" "calc_vpage 0x1238 = 0x1000"
    by (simp_all add: calc_vpage_def kPageMask_def)
  then show ?thesis
    using tlb_transparent [of "(\<lambda>_ _. empty_TLBEntry, \<lambda>_. 0)" "\<lambda>k. Some (fst k)"
        "[(0x1234, 7, 1), (0x401FF0, 7, 1), (0x1238, 7, 1)]"]
    by (simp add: table_ok_def empty_TLBEntry_def entries_agree_def table_lookup_def
        fst_lookup_table entry_matches_def uniform_on_def same_page_def store_page_def
        split: prod.splits)
qed

lemma entry_matches_if:
  "entry_matches (if c then empty_TLBEntry else e) v a p \<longleftrightarrow> \<not> c \<and> entry_matches e v a p"
  by simp

lemma lookup_flush_page:
  "fst (lookup_table (flush_page table vaddr match_all asid) lru w a p) =
     (if calc_vpage w = calc_vpage vaddr \<and> (match_all \<or> a = asid) then None
      else fst (lookup_table table lru w a p))"
proof (cases "calc_set w = calc_set vaddr")
  case True
  then show ?thesis
    by (simp add: fst_lookup_table flush_page_def Let_def entry_matches_if)
      (simp add: entry_matches_def, blast)
next
  case False
  then show ?thesis
    using calc_set_cong [of w vaddr]
    by (auto simp: fst_lookup_table flush_page_def Let_def)
qed

lemma lookup_flush_asid:
  "fst (lookup_table (flush_asid table asid) lru w a p) =
     (if a = asid then None else fst (lookup_table table lru w a p))"
  using calc_set_less [of w]
  by (auto simp: fst_lookup_table flush_asid_def entry_matches_def empty_TLBEntry_def)

lemma lookup_empty_table: "fst (lookup_table (\<lambda>_ _. empty_TLBEntry) lru w a p) = None"
  by (simp add: fst_lookup_table)

text \<open>SFENCE.VMA on the TLB. After a selective flush, in each of the three tables, a lookup misses when
  its page and its address space are among the fenced ones and is unchanged otherwise. In
  particular a fence for one address keeps the entries of every other 4 KiB page, including those
  that were filled from the same superpage entry.
\<close>

theorem tlb_fence_exact:
  "let fenced = (\<lambda>w a. (all_v \<or> calc_vpage w = calc_vpage vaddr) \<and> (all_a \<or> a = asid));
       t' = flush_selective t all_v vaddr all_a asid
   in fst (lookup_inst_r t' w a p) = (if fenced w a then None else fst (lookup_inst_r t w a p)) \<and>
      fst (lookup_data_r t' w a p) = (if fenced w a then None else fst (lookup_data_r t w a p)) \<and>
      fst (lookup_data_w t' w a p) = (if fenced w a then None else fst (lookup_data_w t w a p))"
  by (cases all_v; cases all_a)
    (simp_all add: lookup_inst_r_def lookup_data_r_def lookup_data_w_def flush_selective_def
      tlb_flush_def split_beta lookup_flush_page lookup_flush_asid lookup_empty_table)

end
