(* ===== verification/Soft_Tlb.thy ===== *)
theory Soft_Tlb
  imports Tlb_Table
begin

text \<open>
  The software TLB of the fast path (\<^verbatim>\<open>struct SoftTlbEntry\<close> and \<^verbatim>\<open>CPU::soft_tlb_flush\<close>): two
  direct-mapped tables of 2048 entries with packed tags, emptied in constant time by advancing a
  32-bit epoch. A host pointer is an optional offset into host memory (\<open>None\<close> for
  \<^verbatim>\<open>nullptr\<close>).
\<close>

record SoftTlbEntry =
  tag :: u64
  paddr_base :: Address
  host_ptr_base :: "u64 option"
  epoch :: u32

definition kInvalidTag :: u64 where
  "kInvalidTag = NOT 0"

definition empty_SoftTlbEntry :: SoftTlbEntry where
  "empty_SoftTlbEntry = \<lparr>tag = kInvalidTag, paddr_base = 0, host_ptr_base = None, epoch = 0\<rparr>"

definition make_tag :: "u64 \<Rightarrow> u64 \<Rightarrow> PrivilegeLevel \<Rightarrow> u64" where
  "make_tag vpn asid p =
     push_bit 18 (vpn AND 0xFFFFFFFFFF) OR push_bit 2 (asid AND 0xFFFF) OR ucast (p AND 0x3)"

definition soft_matches :: "SoftTlbEntry \<Rightarrow> u64 \<Rightarrow> u64 \<Rightarrow> PrivilegeLevel \<Rightarrow> u32 \<Rightarrow> bool" where
  "soft_matches e vpn asid p current_epoch \<longleftrightarrow>
     epoch e = current_epoch \<and> tag e = make_tag vpn asid p"

definition soft_set ::
    "SoftTlbEntry \<Rightarrow> u64 \<Rightarrow> u64 \<Rightarrow> PrivilegeLevel \<Rightarrow> u32 \<Rightarrow> Address \<Rightarrow> u64 option \<Rightarrow> SoftTlbEntry" where
  "soft_set e vpn asid p current_epoch paddr_base_in host_ptr_base_in =
     e\<lparr>tag := make_tag vpn asid p, epoch := current_epoch, paddr_base := paddr_base_in,
       host_ptr_base := host_ptr_base_in\<rparr>"

definition soft_invalidate :: "SoftTlbEntry \<Rightarrow> SoftTlbEntry" where
  "soft_invalidate e = e\<lparr>tag := kInvalidTag, paddr_base := 0, host_ptr_base := None\<rparr>"

definition soft_valid :: "SoftTlbEntry \<Rightarrow> u32 \<Rightarrow> bool" where
  "soft_valid e current_epoch \<longleftrightarrow> epoch e = current_epoch \<and> tag e \<noteq> kInvalidTag"

record SoftTlbs =
  soft_tlb_read :: "nat \<Rightarrow> SoftTlbEntry"
  soft_tlb_write :: "nat \<Rightarrow> SoftTlbEntry"
  soft_tlb_epoch :: u32

definition initial_SoftTlbs :: SoftTlbs where
  "initial_SoftTlbs =
     \<lparr>soft_tlb_read = (\<lambda>_. empty_SoftTlbEntry), soft_tlb_write = (\<lambda>_. empty_SoftTlbEntry),
      soft_tlb_epoch = 1\<rparr>"

definition soft_tlb_flush :: "SoftTlbs \<Rightarrow> SoftTlbs" where
  "soft_tlb_flush st =
     (let st1 = st\<lparr>soft_tlb_epoch := soft_tlb_epoch st + 1\<rparr> in
      if soft_tlb_epoch st1 = 0 then
        st1\<lparr>soft_tlb_epoch := 1,
            soft_tlb_read := (\<lambda>i. soft_invalidate (soft_tlb_read st1 i)),
            soft_tlb_write := (\<lambda>i. soft_invalidate (soft_tlb_write st1 i))\<rparr>
      else st1)"

text \<open>The slot a virtual page number selects: \<^verbatim>\<open>vpn & 2047\<close>.\<close>

definition soft_index :: "u64 \<Rightarrow> nat" where
  "soft_index vpn = unat (vpn AND 2047)"

definition soft_fill_read ::
    "SoftTlbs \<Rightarrow> u64 \<Rightarrow> u64 \<Rightarrow> PrivilegeLevel \<Rightarrow> Address \<Rightarrow> u64 option \<Rightarrow> SoftTlbs" where
  "soft_fill_read st vpn asid p paddr host =
     (let i = soft_index vpn;
          st1 = st\<lparr>soft_tlb_read := (soft_tlb_read st)(i :=
                  soft_set (soft_tlb_read st i) vpn asid p (soft_tlb_epoch st) paddr host)\<rparr>
      in if paddr_base (soft_tlb_write st1 i) \<noteq> paddr
         then st1\<lparr>soft_tlb_write := (soft_tlb_write st1)(i := soft_invalidate (soft_tlb_write st1 i))\<rparr>
         else st1)"

definition soft_fill_write ::
    "SoftTlbs \<Rightarrow> u64 \<Rightarrow> u64 \<Rightarrow> PrivilegeLevel \<Rightarrow> Address \<Rightarrow> u64 option \<Rightarrow> SoftTlbs" where
  "soft_fill_write st vpn asid p paddr host =
     (let i = soft_index vpn;
          st1 = st\<lparr>soft_tlb_write := (soft_tlb_write st)(i :=
                  soft_set (soft_tlb_write st i) vpn asid p (soft_tlb_epoch st) paddr host)\<rparr>
      in if paddr_base (soft_tlb_read st1 i) \<noteq> paddr
         then st1\<lparr>soft_tlb_read := (soft_tlb_read st1)(i := soft_invalidate (soft_tlb_read st1 i))\<rparr>
         else st1)"

subsection \<open>The tables keep the contract\<close>

type_synonym SoftKey = "u64 \<times> u64 \<times> PrivilegeLevel"
type_synonym SoftHit = "Address \<times> u64 option"

definition same_tag :: "SoftKey \<Rightarrow> SoftKey \<Rightarrow> bool" where
  "same_tag k k' \<longleftrightarrow>
     (case (k, k') of ((v, a, p), (w, b, q)) \<Rightarrow> make_tag v a p = make_tag w b q)"

definition soft_probe :: "(nat \<Rightarrow> SoftTlbEntry) \<Rightarrow> u32 \<Rightarrow> SoftKey \<Rightarrow> SoftHit option" where
  "soft_probe table ep k =
     (case k of (vpn, asid, p) \<Rightarrow>
        let e = table (soft_index vpn) in
        if soft_matches e vpn asid p ep then Some (paddr_base e, host_ptr_base e) else None)"

definition soft_lookup_read :: "SoftTlbs \<Rightarrow> SoftKey \<Rightarrow> SoftHit option" where
  "soft_lookup_read st = soft_probe (soft_tlb_read st) (soft_tlb_epoch st)"

definition soft_lookup_write :: "SoftTlbs \<Rightarrow> SoftKey \<Rightarrow> SoftHit option" where
  "soft_lookup_write st = soft_probe (soft_tlb_write st) (soft_tlb_epoch st)"

definition soft_insert_read :: "SoftTlbs \<Rightarrow> SoftKey \<Rightarrow> SoftHit \<Rightarrow> SoftTlbs" where
  "soft_insert_read st k v =
     (case (k, v) of ((vpn, asid, p), (paddr, host)) \<Rightarrow> soft_fill_read st vpn asid p paddr host)"

definition soft_insert_write :: "SoftTlbs \<Rightarrow> SoftKey \<Rightarrow> SoftHit \<Rightarrow> SoftTlbs" where
  "soft_insert_write st k v =
     (case (k, v) of ((vpn, asid, p), (paddr, host)) \<Rightarrow> soft_fill_write st vpn asid p paddr host)"

text \<open>
  No entry carries a future epoch: this is what lets an epoch step empty the tables, and what the
  reset on wrap-around re-establishes.
\<close>

definition entry_epoch_ok :: "u32 \<Rightarrow> SoftTlbEntry \<Rightarrow> bool" where
  "entry_epoch_ok ep e \<longleftrightarrow> tag e = kInvalidTag \<or> epoch e \<le> ep"

definition soft_ok :: "SoftTlbs \<Rightarrow> bool" where
  "soft_ok st \<longleftrightarrow>
     (\<forall>i. entry_epoch_ok (soft_tlb_epoch st) (soft_tlb_read st i) \<and>
          entry_epoch_ok (soft_tlb_epoch st) (soft_tlb_write st i))"

lemma bit_soft_masks [bit_simps]:
  "bit (1099511627775 :: int) n \<longleftrightarrow> n < 40"
  "bit (2047 :: int) n \<longleftrightarrow> n < 11"
  "bit (262140 :: int) n \<longleftrightarrow> 2 \<le> n \<and> n < 18"
  "bit (288230376151449600 :: int) n \<longleftrightarrow> 18 \<le> n \<and> n < 58"
  using bit_shifted_mask [of 1099511627775 0 40 n] bit_shifted_mask [of 2047 0 11 n]
    bit_shifted_mask [of 262140 2 16 n] bit_shifted_mask [of 288230376151449600 18 40 n]
  by (simp_all add: mask_eq_exp_minus_1 push_bit_eq_mult)

lemma bit_make_tag [bit_simps]:
  "bit (make_tag vpn asid p) n \<longleftrightarrow>
     (if n < 2 then bit p n else if n < 18 then bit asid (n - 2) else n < 58 \<and> bit vpn (n - 18))"
  by (auto simp: make_tag_def bit_simps dest: bit_imp_le_length)

lemma make_tag_valid: "make_tag vpn asid p \<noteq> kInvalidTag"
proof
  assume "make_tag vpn asid p = kInvalidTag"
  then have "bit (make_tag vpn asid p) 63 = bit kInvalidTag 63" by simp
  then show False by (simp add: bit_make_tag) (simp add: kInvalidTag_def bit_simps)
qed

lemma soft_index_tag: "soft_index vpn = unat (drop_bit 18 (make_tag vpn asid p) AND 2047)"
proof -
  have "vpn AND 2047 = drop_bit 18 (make_tag vpn asid p) AND 2047"
    by (rule bit_word_eqI) (auto simp: bit_simps)
  then show ?thesis by (simp add: soft_index_def)
qed

lemma same_tag_index: "same_tag (v, a, p) (w, b, q) \<Longrightarrow> soft_index v = soft_index w"
  using soft_index_tag [of v a p] soft_index_tag [of w b q] by (simp add: same_tag_def)

lemma soft_matches_invalid [simp]:
  "tag e = kInvalidTag \<Longrightarrow> \<not> soft_matches e vpn asid p ep"
  using make_tag_valid [of vpn asid p] by (simp add: soft_matches_def)

lemma soft_probe_same:
  "same_tag k k' \<Longrightarrow> soft_probe table ep k = soft_probe table ep k'"
proof -
  assume same: "same_tag k k'"
  obtain v a p w b q where k: "k = (v, a, p)" "k' = (w, b, q)"
    by (cases k, cases k')
  have "soft_index v = soft_index w" "make_tag v a p = make_tag w b q"
    using same same_tag_index [of v a p w b q] by (simp_all add: k same_tag_def)
  then show ?thesis
    by (simp add: k soft_probe_def soft_matches_def)
qed

lemma soft_set_sel [simp]:
  "tag (soft_set e vpn asid p ep pa h) = make_tag vpn asid p"
  "epoch (soft_set e vpn asid p ep pa h) = ep"
  "paddr_base (soft_set e vpn asid p ep pa h) = pa"
  "host_ptr_base (soft_set e vpn asid p ep pa h) = h"
  by (simp_all add: soft_set_def)

lemma soft_invalidate_tag [simp]: "tag (soft_invalidate e) = kInvalidTag"
  by (simp add: soft_invalidate_def)

lemma fill_read_sel:
  "soft_tlb_epoch (soft_fill_read st vpn asid p pa h) = soft_tlb_epoch st"
  "soft_tlb_read (soft_fill_read st vpn asid p pa h) =
     (soft_tlb_read st)(soft_index vpn :=
        soft_set (soft_tlb_read st (soft_index vpn)) vpn asid p (soft_tlb_epoch st) pa h)"
  "soft_tlb_write (soft_fill_read st vpn asid p pa h) i = soft_tlb_write st i \<or>
   soft_tlb_write (soft_fill_read st vpn asid p pa h) i = soft_invalidate (soft_tlb_write st i)"
  by (auto simp: soft_fill_read_def Let_def)

lemma fill_write_sel:
  "soft_tlb_epoch (soft_fill_write st vpn asid p pa h) = soft_tlb_epoch st"
  "soft_tlb_write (soft_fill_write st vpn asid p pa h) =
     (soft_tlb_write st)(soft_index vpn :=
        soft_set (soft_tlb_write st (soft_index vpn)) vpn asid p (soft_tlb_epoch st) pa h)"
  "soft_tlb_read (soft_fill_write st vpn asid p pa h) i = soft_tlb_read st i \<or>
   soft_tlb_read (soft_fill_write st vpn asid p pa h) i = soft_invalidate (soft_tlb_read st i)"
  by (auto simp: soft_fill_write_def Let_def)

lemma entry_epoch_ok_simps [simp]:
  "entry_epoch_ok ep (soft_invalidate e)" "entry_epoch_ok ep (soft_set e vpn asid p ep pa h)"
  by (simp_all add: entry_epoch_ok_def)

lemma soft_ok_fill_read:
  assumes "soft_ok st"
  shows "soft_ok (soft_fill_read st vpn asid p pa h)"
  unfolding soft_ok_def fill_read_sel(1)
proof (intro allI conjI)
  fix i
  show "entry_epoch_ok (soft_tlb_epoch st) (soft_tlb_read (soft_fill_read st vpn asid p pa h) i)"
    using assms by (simp add: fill_read_sel(2) soft_ok_def)
  show "entry_epoch_ok (soft_tlb_epoch st) (soft_tlb_write (soft_fill_read st vpn asid p pa h) i)"
    using assms fill_read_sel(3) [of st vpn asid p pa h i] by (auto simp: soft_ok_def)
qed

lemma soft_ok_fill_write:
  assumes "soft_ok st"
  shows "soft_ok (soft_fill_write st vpn asid p pa h)"
  unfolding soft_ok_def fill_write_sel(1)
proof (intro allI conjI)
  fix i
  show "entry_epoch_ok (soft_tlb_epoch st) (soft_tlb_write (soft_fill_write st vpn asid p pa h) i)"
    using assms by (simp add: fill_write_sel(2) soft_ok_def)
  show "entry_epoch_ok (soft_tlb_epoch st) (soft_tlb_read (soft_fill_write st vpn asid p pa h) i)"
    using assms fill_write_sel(3) [of st vpn asid p pa h i] by (auto simp: soft_ok_def)
qed

lemma epoch_step: "ep + 1 \<noteq> 0 \<Longrightarrow> e \<le> ep \<Longrightarrow> e < ep + 1" for e ep :: u32
  using unatSuc [of ep] by (simp add: word_less_nat_alt word_le_nat_alt add.commute)

lemma flushed_entry:
  assumes "entry_epoch_ok ep e" "ep + 1 \<noteq> 0"
  shows "entry_epoch_ok (ep + 1) e" "\<not> soft_matches e vpn asid p (ep + 1)"
proof -
  have "tag e = kInvalidTag \<or> epoch e < ep + 1"
    using assms epoch_step [of ep "epoch e"] by (auto simp: entry_epoch_ok_def)
  then show "entry_epoch_ok (ep + 1) e" "\<not> soft_matches e vpn asid p (ep + 1)"
    by (auto simp: entry_epoch_ok_def soft_matches_def make_tag_valid [symmetric])
qed

lemma soft_ok_flush: "soft_ok st \<Longrightarrow> soft_ok (soft_tlb_flush st)"
  by (auto simp: soft_tlb_flush_def Let_def soft_ok_def intro: flushed_entry)

lemma soft_lookup_flush:
  assumes "soft_ok st"
  shows "soft_lookup_read (soft_tlb_flush st) k = None"
    "soft_lookup_write (soft_tlb_flush st) k = None"
proof -
  have "\<not> soft_matches (soft_tlb_read (soft_tlb_flush st) i) v a p (soft_tlb_epoch (soft_tlb_flush st))"
    "\<not> soft_matches (soft_tlb_write (soft_tlb_flush st) i) v a p (soft_tlb_epoch (soft_tlb_flush st))"
    for i v a p
    using assms by (auto simp: soft_tlb_flush_def Let_def soft_ok_def dest: flushed_entry(2))
  then show "soft_lookup_read (soft_tlb_flush st) k = None"
    "soft_lookup_write (soft_tlb_flush st) k = None"
    by (cases k; simp add: soft_lookup_read_def soft_lookup_write_def soft_probe_def)+
qed

lemma soft_probe_set:
  assumes "soft_probe (table(soft_index v := soft_set e v a p ep pa h)) ep k = r"
  shows "r = (if same_tag (v, a, p) k then Some (pa, h)
              else if soft_index (fst k) = soft_index v then None else soft_probe table ep k)"
proof -
  obtain w b q where k: "k = (w, b, q)" by (cases k)
  show ?thesis
    using assms same_tag_index [of v a p w b q]
    by (auto simp: k soft_probe_def same_tag_def soft_matches_def Let_def)
qed

interpretation soft_read: translation_cache soft_lookup_read "\<lambda>st k. st" soft_insert_read
  soft_tlb_flush "\<lambda>k v. v" same_tag soft_ok
proof (unfold_locales, goal_cases)
  case (2 s k v)
  then show ?case by (simp add: soft_insert_read_def soft_ok_fill_read split: prod.splits)
next
  case (7 s k k')
  then show ?case by (simp add: soft_lookup_read_def soft_probe_same)
next
  case (8 s k v)
  then show ?case
    by (cases k; cases v)
      (simp add: soft_lookup_read_def soft_insert_read_def fill_read_sel soft_probe_set [OF refl] same_tag_def)
next
  case (9 s k k' v v')
  then show ?case
    by (cases k; cases v)
      (auto simp: soft_lookup_read_def soft_insert_read_def fill_read_sel soft_probe_set [OF refl]
        split: if_splits)
qed (simp_all add: soft_ok_flush soft_lookup_flush same_tag_def split: prod.splits)

interpretation soft_write: translation_cache soft_lookup_write "\<lambda>st k. st" soft_insert_write
  soft_tlb_flush "\<lambda>k v. v" same_tag soft_ok
proof (unfold_locales, goal_cases)
  case (2 s k v)
  then show ?case by (simp add: soft_insert_write_def soft_ok_fill_write split: prod.splits)
next
  case (7 s k k')
  then show ?case by (simp add: soft_lookup_write_def soft_probe_same)
next
  case (8 s k v)
  then show ?case
    by (cases k; cases v)
      (simp add: soft_lookup_write_def soft_insert_write_def fill_write_sel soft_probe_set [OF refl] same_tag_def)
next
  case (9 s k k' v v')
  then show ?case
    by (cases k; cases v)
      (auto simp: soft_lookup_write_def soft_insert_write_def fill_write_sel soft_probe_set [OF refl]
        split: if_splits)
qed (simp_all add: soft_ok_flush soft_lookup_flush same_tag_def split: prod.splits)

subsection \<open>Properties\<close>

text \<open>The operations the memory access paths perform on the tables, in any order.\<close>

datatype SoftOp =
    FillRead SoftKey SoftHit
  | FillWrite SoftKey SoftHit
  | FlushSoft

fun soft_step :: "SoftTlbs \<Rightarrow> SoftOp \<Rightarrow> SoftTlbs" where
  "soft_step st (FillRead k v) = soft_insert_read st k v"
| "soft_step st (FillWrite k v) = soft_insert_write st k v"
| "soft_step st FlushSoft = soft_tlb_flush st"

lemma soft_ok_step: "soft_ok st \<Longrightarrow> soft_ok (soft_step st op)"
  by (cases op)
    (auto simp: soft_insert_read_def soft_insert_write_def soft_ok_fill_read soft_ok_fill_write
      soft_ok_flush split: prod.splits)

lemma soft_ok_run: "soft_ok st \<Longrightarrow> soft_ok (foldl soft_step st ops)"
  by (induction ops arbitrary: st) (auto intro: soft_ok_step)

lemma soft_ok_initial: "soft_ok initial_SoftTlbs"
  by (simp add: soft_ok_def initial_SoftTlbs_def entry_epoch_ok_def empty_SoftTlbEntry_def)

text \<open>Constant-time flush. After any history of fills and flushes of any length, including histories
  in which the 32-bit epoch wraps around, a flush leaves no entry of either table matching any key.
\<close>

theorem soft_tlb_flush_complete:
  "soft_lookup_read (soft_tlb_flush (foldl soft_step initial_SoftTlbs ops)) k = None \<and>
   soft_lookup_write (soft_tlb_flush (foldl soft_step initial_SoftTlbs ops)) k = None"
  using soft_lookup_flush [OF soft_ok_run [OF soft_ok_initial]] by simp

text \<open>
  Packed tags. On addresses that are canonical for a 48-bit virtual address space, with 16-bit
  address-space identifiers and 2-bit privileges, two accesses have the same tag only if they
  agree on the page, the address space and the privilege. Addresses that differ in the top bit
  only, of which at least one is not canonical, share a tag.
\<close>

theorem soft_tag_injective:
  assumes "sign_extend va 48 = va" and "sign_extend vb 48 = vb"
    and "a < 0x10000" and "b < 0x10000" and "p < 4" and "q < 4"
  shows "(make_tag (drop_bit 12 va) a p = make_tag (drop_bit 12 vb) b q \<longleftrightarrow>
            calc_vpage va = calc_vpage vb \<and> a = b \<and> p = q) \<and>
         make_tag (drop_bit 12 (va XOR push_bit 63 1)) a p = make_tag (drop_bit 12 va) a p"
proof
  have bits: "bit x n \<Longrightarrow> n < k" if "unat x < 2 ^ k" for x :: "'w::len word" and n k
  proof -
    assume "bit x n"
    then have "bit (unat x) n" by (simp add: bit_unsigned_iff)
    then have "bit (take_bit k (unat x)) n" using that by (simp add: take_bit_nat_eq_self)
    then show "n < k" by (simp add: bit_take_bit_iff)
  qed
  have a: "bit a n \<Longrightarrow> n < 16" "bit b n \<Longrightarrow> n < 16" for n
    using bits [of a 16] bits [of b 16] assms(3,4) by (simp_all add: word_less_nat_alt)
  have p: "bit p n \<Longrightarrow> n < 2" "bit q n \<Longrightarrow> n < 2" for n
    using bits [of p 2] bits [of q 2] assms(5,6) by (simp_all add: word_less_nat_alt)
  have va: "bit va n = bit va 47" "bit vb n = bit vb 47" if "48 \<le> n" "n < 64" for n
    using that assms(1,2) bit_sign_extend [of 48 va n] bit_sign_extend [of 48 vb n] by simp_all
  show "make_tag (drop_bit 12 va) a p = make_tag (drop_bit 12 vb) b q \<longleftrightarrow>
          calc_vpage va = calc_vpage vb \<and> a = b \<and> p = q"
  proof
    assume tags: "make_tag (drop_bit 12 va) a p = make_tag (drop_bit 12 vb) b q"
    have tb: "bit (make_tag (drop_bit 12 va) a p) n = bit (make_tag (drop_bit 12 vb) b q) n" for n
      using tags by simp
    have "p = q"
      using tb p by (intro bit_word_eqI) (metis bit_make_tag)
    moreover have "a = b"
    proof (rule bit_word_eqI)
      fix n
      show "bit a n = bit b n"
        using tb [of "n + 2"] a [of n] by (auto simp: bit_make_tag split: if_splits)
    qed
    moreover have "bit va n = bit vb n" if "12 \<le> n" "n < 48" for n
      using that tb [of "n + 6"] by (auto simp: bit_make_tag bit_drop_bit_eq)
    then have "calc_vpage va = calc_vpage vb"
      using va by (intro bit_word_eqI, rename_tac n, case_tac "n < 48") (auto simp: bit_calc_vpage)
    ultimately show "calc_vpage va = calc_vpage vb \<and> a = b \<and> p = q" by simp
  next
    assume eq: "calc_vpage va = calc_vpage vb \<and> a = b \<and> p = q"
    then have "bit va n = bit vb n" if "12 \<le> n" for n
      using that bit_calc_vpage [of va n] bit_calc_vpage [of vb n] by simp
    then have "drop_bit 12 va = drop_bit 12 vb"
      by (intro bit_word_eqI) (simp add: bit_drop_bit_eq)
    then show "make_tag (drop_bit 12 va) a p = make_tag (drop_bit 12 vb) b q"
      using eq by simp
  qed
  show "make_tag (drop_bit 12 (va XOR push_bit 63 1)) a p = make_tag (drop_bit 12 va) a p"
    by (rule bit_word_eqI) (auto simp: bit_simps)
qed

theorem soft_tag_injective_witness:
  "make_tag (drop_bit 12 0x80001234) 5 1 \<noteq> make_tag (drop_bit 12 0x80002234) 5 1"
  using soft_tag_injective [of "0x80001234" "0x80002234" 5 5 1 1]
  by (simp add: sign_extend_def calc_vpage_def kPageMask_def)

end
