(* ===== verification/Decode_Cache.thy ===== *)
theory Decode_Cache
  imports Soft_Tlb
begin

text \<open>
  Decoded instructions (\<^verbatim>\<open>struct DecodedInstruction\<close>), the per-cycle pipeline context that extends
  them (\<^verbatim>\<open>struct PipelineContext\<close>) and the direct-mapped decode cache
  (\<^verbatim>\<open>include/simrv/core/DecodeCache.hpp\<close>) that replays them.
\<close>

record DecodedInstruction =
  cpc :: Register
  imm :: ImmValue
  pending_tval :: CSRValue
  pending_exception :: "ExceptionCode option"
  ir :: Instruction
  ir_org :: Instruction
  cinsn :: Instruction
  op_id :: OperationId
  funct7 :: Word
  funct12 :: Word
  opcode :: u8
  rd :: RegId
  rs1 :: RegId
  rs2 :: RegId
  funct3 :: u8
  funct5 :: u8

definition initial_DecodedInstruction :: DecodedInstruction where
  "initial_DecodedInstruction =
     \<lparr>cpc = 0, imm = 0, pending_tval = 0, pending_exception = None, ir = 0, ir_org = 0, cinsn = 0,
      op_id = UNKNOWN, funct7 = 0, funct12 = 0, opcode = 0, rd = 0, rs1 = 0, rs2 = 0, funct3 = 0,
      funct5 = 0\<rparr>"

record PipelineContext = DecodedInstruction +
  padr1 :: Address
  padr2 :: Address
  rrs1 :: Register
  rrs2 :: Register
  rcsr :: CSRValue
  rcsr_write :: CSRValue
  tkn :: bool
  jmp_pc :: Register
  mem_addr :: Address
  wb_data :: Register
  wb_data_csr :: CSRValue
  mem_rdata :: Register
  mem_wdata :: Register
  fp_mem_rdata :: FloatingRegister
  fp_mem_wdata :: FloatingRegister
  fp_wb_data :: FloatingRegister
  fp_wb_enable :: bool
  int_wb_from_fp :: bool
  tlb_miss :: bool

definition initial_PipelineContext :: PipelineContext where
  "initial_PipelineContext =
     DecodedInstruction.extend initial_DecodedInstruction
       \<lparr>padr1 = 0, padr2 = 0, rrs1 = 0, rrs2 = 0, rcsr = 0, rcsr_write = 0, tkn = False,
        jmp_pc = 0, mem_addr = 0, wb_data = 0, wb_data_csr = 0, mem_rdata = 0, mem_wdata = 0,
        fp_mem_rdata = 0, fp_mem_wdata = 0, fp_wb_data = 0, fp_wb_enable = False,
        int_wb_from_fp = False, tlb_miss = False\<rparr>"

record CachedOp = DecodedInstruction +
  co_valid :: bool
  co_len :: u8

text \<open>\<^verbatim>\<open>copy_from\<close> assigns the decoded part and keeps the rest.\<close>

definition copy_from :: "PipelineContext \<Rightarrow> ('a) DecodedInstruction_scheme \<Rightarrow> PipelineContext" where
  "copy_from ctx op =
     DecodedInstruction.extend (DecodedInstruction.truncate op) (DecodedInstruction.more ctx)"

definition cached_op_of :: "('a) DecodedInstruction_scheme \<Rightarrow> CachedOp" where
  "cached_op_of ctx =
     DecodedInstruction.extend (DecodedInstruction.truncate ctx) \<lparr>co_valid = False, co_len = 4\<rparr>"

type_synonym DecodeCache = "nat \<Rightarrow> CachedOp"

definition kCacheSize :: nat where
  "kCacheSize = 4096"

definition kCacheMask :: nat where
  "kCacheMask = kCacheSize - 1"

definition initial_DecodeCache :: DecodeCache where
  "initial_DecodeCache = (\<lambda>_. cached_op_of initial_DecodedInstruction)"

definition decode_flush :: "DecodeCache \<Rightarrow> DecodeCache" where
  "decode_flush c = (\<lambda>i. (c i)\<lparr>co_valid := False, cpc := NOT 0\<rparr>)"

definition calc_index :: "Register \<Rightarrow> nat" where
  "calc_index p = unat (drop_bit 1 p AND of_nat kCacheMask)"

definition decode_lookup :: "DecodeCache \<Rightarrow> Register \<Rightarrow> CachedOp option" where
  "decode_lookup c p =
     (let entry = c (calc_index p) in
      if co_valid entry \<and> cpc entry = p then Some entry else None)"

definition decode_insert :: "DecodeCache \<Rightarrow> Register \<Rightarrow> CachedOp \<Rightarrow> DecodeCache" where
  "decode_insert c p op =
     c(calc_index p :=
         op\<lparr>cpc := p, co_len := (if cinsn op \<noteq> 0 then 2 else 4), co_valid := True\<rparr>)"

definition stored_op :: "Register \<Rightarrow> CachedOp \<Rightarrow> CachedOp" where
  "stored_op p op = op\<lparr>cpc := p, co_len := (if cinsn op \<noteq> 0 then 2 else 4), co_valid := True\<rparr>"

interpretation decode_cache: translation_cache decode_lookup "\<lambda>c p. c" decode_insert decode_flush
  stored_op "(=)" "\<lambda>_. True"
  by unfold_locales
    (auto simp: decode_lookup_def decode_insert_def decode_flush_def stored_op_def Let_def
      split: if_splits)

text \<open>(C20)
  Decode-cache transparency. Take a cache whose entries agree with a decoding function \<open>f\<close> of the
  program counter, for instance a flushed one. Then any sequence of cached fetches returns, for
  every program counter, what decoding it returns, with its own address and length recorded in the
  operation: replaying an operation can never use the program counter, the length or the operands
  of another one that shares its slot.
\<close>

theorem decode_cache_transparent:
  assumes "entries_agree decode_lookup stored_op f c"
  shows "fst (cached_accesses decode_lookup (\<lambda>c p. c) decode_insert stored_op f c ps) =
           map (\<lambda>p. map_option (stored_op p) (f p)) ps \<and>
         (\<forall>p op. decode_lookup
             (snd (cached_accesses decode_lookup (\<lambda>c p. c) decode_insert stored_op f c ps)) p =
               Some op \<longrightarrow> cpc op = p \<and> (\<exists>op0. f p = Some op0 \<and> op = stored_op p op0))"
proof -
  let ?r = "cached_accesses decode_lookup (\<lambda>c p. c) decode_insert stored_op f c ps"
  have r: "fst ?r = map (\<lambda>p. map_option (stored_op p) (f p)) ps"
    "entries_agree decode_lookup stored_op f (snd ?r)"
    using decode_cache.accesses_transparent [of f c ps] assms by (simp_all add: uniform_on_def)
  have "cpc op = p \<and> (\<exists>op0. f p = Some op0 \<and> op = stored_op p op0)"
    if "decode_lookup (snd ?r) p = Some op" for p op
  proof -
    have "map_option (stored_op p) (f p) = Some op"
      using that r(2) unfolding entries_agree_def by blast
    then obtain op0 where "f p = Some op0" "op = stored_op p op0" by auto
    then show ?thesis by (simp add: stored_op_def)
  qed
  with r(1) show ?thesis by blast
qed

theorem decode_cache_transparent_witness:
  "fst (cached_accesses decode_lookup (\<lambda>c p. c) decode_insert stored_op
     (\<lambda>p. Some (cached_op_of (initial_DecodedInstruction\<lparr>imm := p\<rparr>)))
     (decode_flush initial_DecodeCache) [0x80000000, 0x80002000, 0x80000000]) =
   map (\<lambda>p. Some (stored_op p (cached_op_of (initial_DecodedInstruction\<lparr>imm := p\<rparr>))))
     [0x80000000, 0x80002000, 0x80000000]"
proof -
  have "entries_agree decode_lookup stored_op
      (\<lambda>p. Some (cached_op_of (initial_DecodedInstruction\<lparr>imm := p\<rparr>))) (decode_flush initial_DecodeCache)"
    using decode_cache.sound_flush by blast
  from decode_cache_transparent [OF this, of "[0x80000000, 0x80002000, 0x80000000]"]
  show ?thesis by simp
qed

end
