(* ===== verification/L1_Cache.thy ===== *)
theory L1_Cache
  imports Decode_Cache
begin

text \<open>
  The level-1 caches (\<^verbatim>\<open>include/simrv/cache/BaseCache.hpp\<close>, \<^verbatim>\<open>src/cache/ICache.cpp\<close>,
  \<^verbatim>\<open>src/cache/DCache.cpp\<close>) at their only instantiation: 64 lines of 32 bytes, four ways, 16 sets,
  least-recently-used replacement, writes that update a present line and invalidate the lines of a
  straddling access. The statistics and the fields shown by the user interface are part of the
  state, as in the source.
\<close>

record CacheLine =
  cl_tag :: Address
  last_used :: u64
  cl_valid :: bool
  cl_data :: "nat \<Rightarrow> u8"

definition empty_CacheLine :: CacheLine where
  "empty_CacheLine = \<lparr>cl_tag = NOT 0, last_used = 0, cl_valid = False, cl_data = (\<lambda>_. 0)\<rparr>"

record BaseCache =
  cache_sets :: "nat \<Rightarrow> nat \<Rightarrow> CacheLine"
  access_tick :: u64
  cache_hits :: u64
  cache_misses :: u64
  replacements :: u64
  last_replaced_set :: u32
  last_replaced_way :: u32
  last_evicted_tag :: Address
  last_inserted_tag :: Address
  last_accessed_set :: u32
  last_access_was_hit :: bool
  last_hit_way :: u32

definition kLineBytes :: nat where "kLineBytes = 32"
definition kLineShift :: nat where "kLineShift = 5"
definition kWays :: nat where "kWays = 4"
definition kCacheSets :: nat where "kCacheSets = 16"

definition initial_BaseCache :: BaseCache where
  "initial_BaseCache =
     \<lparr>cache_sets = (\<lambda>_ _. empty_CacheLine), access_tick = 0, cache_hits = 0, cache_misses = 0,
      replacements = 0, last_replaced_set = 0xFFFFFFFF, last_replaced_way = 0xFFFFFFFF,
      last_evicted_tag = NOT 0, last_inserted_tag = NOT 0, last_accessed_set = 0xFFFFFFFF,
      last_access_was_hit = False, last_hit_way = 0xFFFFFFFF\<rparr>"

definition get_set_index :: "Address \<Rightarrow> nat" where
  "get_set_index addr = unat (drop_bit kLineShift addr AND of_nat (kCacheSets - 1))"

definition get_tag :: "Address \<Rightarrow> Address" where
  "get_tag addr = addr AND NOT (push_bit kLineShift 1 - 1)"

definition line_offset :: "Address \<Rightarrow> nat" where
  "line_offset addr = unat (addr AND of_nat (kLineBytes - 1))"

text \<open>The loops over the ways: first hit, and the victim of an insertion.\<close>

fun find_way :: "(nat \<Rightarrow> CacheLine) \<Rightarrow> Address \<Rightarrow> nat list \<Rightarrow> nat option" where
  "find_way set' t [] = None"
| "find_way set' t (w # ws) =
     (if cl_valid (set' w) \<and> cl_tag (set' w) = t then Some w else find_way set' t ws)"

fun select_victim :: "(nat \<Rightarrow> CacheLine) \<Rightarrow> nat \<Rightarrow> nat list \<Rightarrow> nat" where
  "select_victim set' victim [] = victim"
| "select_victim set' victim (w # ws) =
     (if \<not> cl_valid (set' w) then w
      else if last_used (set' w) < last_used (set' victim) then select_victim set' w ws
      else select_victim set' victim ws)"

definition upd_line :: "BaseCache \<Rightarrow> nat \<Rightarrow> nat \<Rightarrow> CacheLine \<Rightarrow> BaseCache" where
  "upd_line c s w l = c\<lparr>cache_sets := (cache_sets c)(s := (cache_sets c s)(w := l))\<rparr>"

definition cache_insert :: "BaseCache \<Rightarrow> Address \<Rightarrow> (nat \<Rightarrow> u8) \<Rightarrow> BaseCache" where
  "cache_insert c base_addr line_data =
     (let tick = access_tick c + 1;
          set_idx = get_set_index base_addr;
          t = get_tag base_addr;
          way = select_victim (cache_sets c set_idx) 0 [0..<kWays];
          victim = cache_sets c set_idx way;
          c1 = c\<lparr>access_tick := tick,
                 replacements := (if cl_valid victim then replacements c + 1 else replacements c),
                 last_evicted_tag := (if cl_valid victim then cl_tag victim else NOT 0),
                 last_replaced_set := of_nat set_idx, last_replaced_way := of_nat way,
                 last_inserted_tag := t, last_accessed_set := of_nat set_idx,
                 last_access_was_hit := False, last_hit_way := 0xFFFFFFFF\<rparr>
      in upd_line c1 set_idx way
           \<lparr>cl_tag = t, last_used = tick, cl_valid = True, cl_data = line_data\<rparr>)"

definition reset_stats :: "BaseCache \<Rightarrow> BaseCache" where
  "reset_stats c = c\<lparr>cache_hits := 0, cache_misses := 0, access_tick := 0, replacements := 0\<rparr>"

definition cache_flush :: "BaseCache \<Rightarrow> bool \<Rightarrow> BaseCache" where
  "cache_flush c clear_stats =
     (let c1 = c\<lparr>cache_sets := (\<lambda>_ _. empty_CacheLine), last_replaced_set := 0xFFFFFFFF,
                 last_replaced_way := 0xFFFFFFFF, last_evicted_tag := NOT 0,
                 last_inserted_tag := NOT 0\<rparr>
      in if clear_stats then reset_stats c1 else c1)"

text \<open>
  The body the three read functions share: the tick, the search, and the bookkeeping of a hit or a
  miss. A line that would be overrun counts as a miss.
\<close>

definition cache_read :: "BaseCache \<Rightarrow> Address \<Rightarrow> nat \<Rightarrow> u8 list option \<times> BaseCache" where
  "cache_read c addr size_bytes =
     (let tick = access_tick c + 1;
          set_idx = get_set_index addr;
          t = get_tag addr;
          c1 = c\<lparr>access_tick := tick, last_accessed_set := of_nat set_idx\<rparr>;
          miss = c1\<lparr>cache_misses := cache_misses c + 1, last_access_was_hit := False,
                    last_hit_way := 0xFFFFFFFF\<rparr>
      in case find_way (cache_sets c set_idx) t [0..<kWays] of
           Some w \<Rightarrow>
             let line = cache_sets c set_idx w; byte_offset = line_offset addr in
             if byte_offset + size_bytes > kLineBytes then (None, miss)
             else (Some (map (\<lambda>i. cl_data line (byte_offset + i)) [0..<size_bytes]),
                   upd_line (c1\<lparr>cache_hits := cache_hits c + 1, last_access_was_hit := True,
                                last_hit_way := of_nat w\<rparr>)
                     set_idx w (line\<lparr>last_used := tick\<rparr>))
         | None \<Rightarrow> (None, miss))"

definition icache_read :: "BaseCache \<Rightarrow> Address \<Rightarrow> u32 option \<times> BaseCache" where
  "icache_read c addr = (let (r, c') = cache_read c addr 4 in (map_option le_word r, c'))"

definition icache_read16 :: "BaseCache \<Rightarrow> Address \<Rightarrow> u16 option \<times> BaseCache" where
  "icache_read16 c addr = (let (r, c') = cache_read c addr 2 in (map_option le_word r, c'))"

definition size_of_funct3 :: "Instruction \<Rightarrow> nat" where
  "size_of_funct3 f3 = 2 ^ unat (f3 AND 0x3)"

definition extend_load :: "Instruction \<Rightarrow> Word \<Rightarrow> Word" where
  "extend_load f3 raw =
     (if f3 AND 0x4 = 0 then sign_extend raw (8 * size_of_funct3 f3) else raw)"

definition dcache_read :: "BaseCache \<Rightarrow> Address \<Rightarrow> Instruction \<Rightarrow> Word option \<times> BaseCache" where
  "dcache_read c addr f3 =
     (let (r, c') = cache_read c addr (size_of_funct3 f3)
      in (map_option (\<lambda>bs. extend_load f3 (le_word bs)) r, c'))"

definition store_in_line :: "CacheLine \<Rightarrow> nat \<Rightarrow> Word \<Rightarrow> nat \<Rightarrow> CacheLine" where
  "store_in_line line off d n =
     line\<lparr>cl_data := (\<lambda>i. if off \<le> i \<and> i < off + n then byte_at (i - off) d else cl_data line i)\<rparr>"

definition invalidate_tag :: "BaseCache \<Rightarrow> nat \<Rightarrow> Address \<Rightarrow> BaseCache" where
  "invalidate_tag c s t =
     (case find_way (cache_sets c s) t [0..<kWays] of
        Some w \<Rightarrow> upd_line c s w ((cache_sets c s w)\<lparr>cl_valid := False\<rparr>)
      | None \<Rightarrow> c)"

definition dcache_write :: "BaseCache \<Rightarrow> Address \<Rightarrow> Word \<Rightarrow> Instruction \<Rightarrow> BaseCache" where
  "dcache_write c addr d f3 =
     (let size_bytes = size_of_funct3 f3;
          byte_offset = line_offset addr;
          set_idx = get_set_index addr;
          t = get_tag addr
      in if byte_offset + size_bytes \<le> kLineBytes then
           let c1 = c\<lparr>last_accessed_set := of_nat set_idx\<rparr> in
           (case find_way (cache_sets c set_idx) t [0..<kWays] of
              Some w \<Rightarrow>
                upd_line (c1\<lparr>last_access_was_hit := True, last_hit_way := of_nat w\<rparr>) set_idx w
                  (store_in_line (cache_sets c set_idx w) byte_offset d size_bytes)
            | None \<Rightarrow> c1\<lparr>last_access_was_hit := False, last_hit_way := 0xFFFFFFFF\<rparr>)
         else
           let c1 = invalidate_tag
                      (c\<lparr>last_accessed_set := of_nat set_idx, last_access_was_hit := False\<rparr>) set_idx t;
               addr2 = addr + of_nat (kLineBytes - byte_offset)
           in invalidate_tag c1 (get_set_index addr2) (get_tag addr2))"

subsection \<open>Coherence with memory\<close>

text \<open>
  A cache is coherent with a byte memory when every valid line sits in the set of its tag, its tag
  is line-aligned, its bytes are the bytes of memory, and no set holds a tag twice.
\<close>

definition line_coherent :: "(Address \<Rightarrow> u8) \<Rightarrow> nat \<Rightarrow> CacheLine \<Rightarrow> bool" where
  "line_coherent m s l \<longleftrightarrow>
     (cl_valid l \<longrightarrow>
        get_set_index (cl_tag l) = s \<and> get_tag (cl_tag l) = cl_tag l \<and>
        (\<forall>i < kLineBytes. cl_data l i = m (cl_tag l + of_nat i)))"

definition cache_coherent :: "(Address \<Rightarrow> u8) \<Rightarrow> BaseCache \<Rightarrow> bool" where
  "cache_coherent m c \<longleftrightarrow>
     (\<forall>s w. line_coherent m s (cache_sets c s w)) \<and>
     (\<forall>s w w'. w < kWays \<longrightarrow> w' < kWays \<longrightarrow> cl_valid (cache_sets c s w) \<longrightarrow>
        cl_valid (cache_sets c s w') \<longrightarrow> cl_tag (cache_sets c s w) = cl_tag (cache_sets c s w') \<longrightarrow>
        w = w')"

definition mem_store :: "(Address \<Rightarrow> u8) \<Rightarrow> Address \<Rightarrow> Word \<Rightarrow> nat \<Rightarrow> Address \<Rightarrow> u8" where
  "mem_store m addr d n = (\<lambda>a. if unat (a - addr) < n then byte_at (unat (a - addr)) d else m a)"

text \<open>Lines beyond the four ways stay empty; this is part of what an initial cache provides.\<close>

definition ways_ok :: "BaseCache \<Rightarrow> bool" where
  "ways_ok c \<longleftrightarrow> (\<forall>s w. kWays \<le> w \<longrightarrow> \<not> cl_valid (cache_sets c s w))"

subsection \<open>The cached data path\<close>

text \<open>
  The DRAM part of \<^verbatim>\<open>issue_read\<close> and \<^verbatim>\<open>issue_write\<close> of
  \<^verbatim>\<open>src/memory/MemoryAccess.cpp\<close> outside the high-performance mode: a load that crosses a line
  goes to memory, any other load goes to the cache and on a miss fetches the whole line, and a store
  writes the cache and the memory. \<open>m\<close> is the byte memory the bus serves. The line fill of the source also has a
  branch for an error response of the bus; the bus answers a read inside guest memory without an error, so
  the branch is never taken here.
\<close>

definition mem_load :: "(Address \<Rightarrow> u8) \<Rightarrow> Address \<Rightarrow> Instruction \<Rightarrow> Word" where
  "mem_load m addr f3 =
     extend_load f3 (le_word (map (\<lambda>i. m (addr + of_nat i)) [0..<size_of_funct3 f3]))"

definition cached_load ::
    "BaseCache \<Rightarrow> (Address \<Rightarrow> u8) \<Rightarrow> Address \<Rightarrow> Instruction \<Rightarrow> Word \<times> BaseCache" where
  "cached_load c m addr f3 =
     (let size_bytes = size_of_funct3 f3 in
      if line_offset addr + size_bytes > kLineBytes then (mem_load m addr f3, c)
      else
        case dcache_read c addr f3 of
          (Some v, c') \<Rightarrow> (v, c')
        | (None, c') \<Rightarrow>
            let line_base = get_tag addr;
                line_data = (\<lambda>i. m (line_base + of_nat i));
                byte_offset = line_offset addr
            in (extend_load f3 (le_word (map (\<lambda>i. line_data (byte_offset + i)) [0..<size_bytes])),
                cache_insert c' line_base line_data))"

definition cached_store ::
    "BaseCache \<Rightarrow> (Address \<Rightarrow> u8) \<Rightarrow> Address \<Rightarrow> Word \<Rightarrow> Instruction \<Rightarrow>
     BaseCache \<times> (Address \<Rightarrow> u8)" where
  "cached_store c m addr d f3 =
     (dcache_write c addr d f3, mem_store m addr d (size_of_funct3 f3))"

datatype L1Op = L1Load Address Instruction | L1Store Address Word Instruction | L1Flush

fun run_cached :: "BaseCache \<Rightarrow> (Address \<Rightarrow> u8) \<Rightarrow> L1Op list \<Rightarrow> Word list" where
  "run_cached c m [] = []"
| "run_cached c m (L1Load a f # ops) = (let (v, c') = cached_load c m a f in v # run_cached c' m ops)"
| "run_cached c m (L1Store a d f # ops) =
     (let (c', m') = cached_store c m a d f in run_cached c' m' ops)"
| "run_cached c m (L1Flush # ops) = run_cached (cache_flush c False) m ops"

fun run_direct :: "(Address \<Rightarrow> u8) \<Rightarrow> L1Op list \<Rightarrow> Word list" where
  "run_direct m [] = []"
| "run_direct m (L1Load a f # ops) = mem_load m a f # run_direct m ops"
| "run_direct m (L1Store a d f # ops) = run_direct (mem_store m a d (size_of_funct3 f)) ops"
| "run_direct m (L1Flush # ops) = run_direct m ops"

subsection \<open>Line addresses\<close>

lemma get_tag_alt: "get_tag a = a AND NOT 31"
  by (simp add: get_tag_def kLineShift_def)

lemma line_offset_alt: "line_offset a = unat (a AND 31)"
  by (simp add: line_offset_def kLineBytes_def)

lemma bit_get_tag [bit_simps]: "bit (get_tag a) n \<longleftrightarrow> 5 \<le> n \<and> bit a n"
  by (auto simp: get_tag_alt bit_simps dest: bit_imp_le_length)

lemma line_offset_less: "line_offset a < 32"
proof -
  have "a AND 31 \<le> 31" by (rule word_and_le1)
  then show ?thesis by (simp add: line_offset_alt word_le_nat_alt)
qed

lemma tag_plus_offset: "get_tag a + of_nat (line_offset a) = a"
proof -
  have "get_tag a AND (a AND 31) = 0"
    by (rule bit_word_eqI) (auto simp: bit_simps)
  then have "get_tag a + (a AND 31) = get_tag a OR (a AND 31)"
    by (simp add: disjunctive_add_eq_or)
  also have "\<dots> = a"
    by (rule bit_word_eqI) (auto simp: bit_simps)
  finally show ?thesis by (simp add: line_offset_alt)
qed

lemma get_tag_add:
  assumes "get_tag t = t" "i < 32"
  shows "get_tag (t + of_nat i) = t" "line_offset (t + of_nat i) = i"
proof -
  define v :: u64 where "v = of_nat i"
  have vb: "n < 5" if "bit v n" for n
  proof -
    have "bit (unat v) n" using that by (simp add: bit_unsigned_iff)
    moreover have "unat v = i" using assms(2) by (simp add: v_def unat_of_nat)
    ultimately have "bit (take_bit 5 i) n" using assms(2) by (simp add: take_bit_nat_eq_self)
    then show ?thesis by (simp add: bit_take_bit_iff)
  qed
  have tb: "5 \<le> n" if "bit t n" for n
    using that bit_get_tag [of t n] assms(1) by simp
  have "t AND v = 0"
    using tb vb by (intro bit_word_eqI) (force simp: bit_simps)
  then have sum: "t + v = t OR v"
    by (simp add: disjunctive_add_eq_or)
  have "get_tag (t + v) = t"
    unfolding sum by (rule bit_word_eqI) (use tb vb in \<open>force simp: bit_simps\<close>)
  moreover have "(t + v) AND 31 = v"
    unfolding sum by (rule bit_word_eqI) (use tb vb in \<open>force simp: bit_simps\<close>)
  ultimately show "get_tag (t + of_nat i) = t" "line_offset (t + of_nat i) = i"
    using assms(2) by (simp_all add: v_def line_offset_alt unat_of_nat)
qed

lemma get_tag_idem [simp]: "get_tag (get_tag a) = get_tag a"
  by (rule bit_word_eqI) (auto simp: bit_simps)

lemma get_set_index_tag [simp]: "get_set_index (get_tag a) = get_set_index a"
proof -
  have "drop_bit 5 (get_tag a) = drop_bit 5 a"
    by (rule bit_word_eqI) (auto simp: bit_simps)
  then show ?thesis by (simp add: get_set_index_def kLineShift_def)
qed

lemma find_way_Some: "find_way l t ws = Some w \<Longrightarrow> w \<in> set ws \<and> cl_valid (l w) \<and> cl_tag (l w) = t"
  by (induction ws) (auto split: if_splits)

lemma find_way_None: "find_way l t ws = None \<Longrightarrow> w \<in> set ws \<Longrightarrow> cl_valid (l w) \<Longrightarrow> cl_tag (l w) \<noteq> t"
  by (induction ws) (auto split: if_splits)

lemma select_victim_in: "select_victim l v ws \<in> insert v (set ws)"
  by (induction ws arbitrary: v) auto

lemma select_victim_less: "select_victim l 0 [0..<kWays] < kWays"
  using select_victim_in [of l 0 "[0..<kWays]"] by (auto simp: kWays_def)

lemma upd_line_sets [simp]:
  "cache_sets (upd_line c s w l) s' w' = (if s' = s \<and> w' = w then l else cache_sets c s' w')"
  by (auto simp: upd_line_def)

subsection \<open>Coherence of the operations\<close>

text \<open>Replacing one line of a coherent cache by a coherent one with a fresh tag.\<close>

lemma coherent_upd_line:
  assumes "cache_coherent m c" "line_coherent m s l"
    and "\<And>w'. w' < kWays \<Longrightarrow> w' \<noteq> w \<Longrightarrow> cl_valid l \<Longrightarrow> cl_valid (cache_sets c s w') \<Longrightarrow> cl_tag (cache_sets c s w') \<noteq> cl_tag l"
  shows "cache_coherent m (upd_line c s w l)"
proof -
  have lines: "line_coherent m s' (cache_sets (upd_line c s w l) s' w')" for s' w'
    using assms(1,2) by (auto simp: cache_coherent_def)
  moreover have "w1 = w2"
    if "w1 < kWays" "w2 < kWays" "cl_valid (cache_sets (upd_line c s w l) s' w1)"
      "cl_valid (cache_sets (upd_line c s w l) s' w2)"
      "cl_tag (cache_sets (upd_line c s w l) s' w1) = cl_tag (cache_sets (upd_line c s w l) s' w2)"
    for s' w1 w2
    using that assms(1,3) unfolding cache_coherent_def upd_line_sets
    by (auto split: if_splits)
  ultimately show ?thesis
    unfolding cache_coherent_def by blast
qed

lemma coherent_cong: "cache_sets c = cache_sets c' \<Longrightarrow> cache_coherent m c = cache_coherent m c'"
  by (simp add: cache_coherent_def)

lemma hit_byte:
  assumes "line_coherent m s l" "cl_valid l" "cl_tag l = get_tag a" "line_offset a + i < 32"
  shows "cl_data l (line_offset a + i) = m (a + of_nat i)"
proof -
  have "cl_data l (line_offset a + i) = m (get_tag a + of_nat (line_offset a + i))"
    using assms unfolding line_coherent_def kLineBytes_def by simp
  also have "get_tag a + of_nat (line_offset a + i) = a + of_nat i"
    using tag_plus_offset [of a] by (simp add: add.assoc [symmetric])
  finally show ?thesis .
qed

lemma coherent_line: "cache_coherent m c \<Longrightarrow> line_coherent m s (cache_sets c s w)"
  by (simp add: cache_coherent_def)

lemma coherent_unique:
  "cache_coherent m c \<Longrightarrow> w < kWays \<Longrightarrow> w' < kWays \<Longrightarrow> cl_valid (cache_sets c s w) \<Longrightarrow>
   cl_valid (cache_sets c s w') \<Longrightarrow> cl_tag (cache_sets c s w) = cl_tag (cache_sets c s w') \<Longrightarrow> w = w'"
  unfolding cache_coherent_def by blast

lemma coherent_touch_line:
  assumes "cache_coherent m c" "cache_sets c' = cache_sets c" "w < kWays"
  shows "cache_coherent m (upd_line c' s w ((cache_sets c s w)\<lparr>last_used := tick\<rparr>))"
proof (rule coherent_upd_line)
  show "cache_coherent m c'"
    using assms coherent_cong [of c' c m] by simp
  show "line_coherent m s ((cache_sets c s w)\<lparr>last_used := tick\<rparr>)"
    using coherent_line [OF assms(1), of s w] by (simp add: line_coherent_def)
qed (use assms coherent_unique [OF assms(1)] in force)

lemma cache_read_coherent:
  assumes "cache_coherent m c"
  shows "cache_coherent m (snd (cache_read c a n))"
    and "fst (cache_read c a n) = Some bs \<Longrightarrow> bs = map (\<lambda>i. m (a + of_nat i)) [0..<n]"
proof -
  let ?f = "find_way (cache_sets c (get_set_index a)) (get_tag a) [0..<kWays]"
  have "cache_coherent m (snd (cache_read c a n)) \<and>
    (fst (cache_read c a n) = Some bs \<longrightarrow> bs = map (\<lambda>i. m (a + of_nat i)) [0..<n])"
  proof (cases ?f)
    case None
    then show ?thesis
      using assms by (simp add: cache_read_def Let_def cache_coherent_def)
  next
    case (Some w)
    have w: "w < kWays" "cl_valid (cache_sets c (get_set_index a) w)"
      "cl_tag (cache_sets c (get_set_index a) w) = get_tag a"
      using find_way_Some [OF Some] by auto
    show ?thesis
    proof (cases "line_offset a + n > kLineBytes")
      case True
      then show ?thesis
        using assms Some by (simp add: cache_read_def Let_def cache_coherent_def)
    next
      case False
      have "map (\<lambda>i. cl_data (cache_sets c (get_set_index a) w) (line_offset a + i)) [0..<n] =
          map (\<lambda>i. m (a + of_nat i)) [0..<n]"
        using False hit_byte [OF coherent_line [OF assms] w(2,3)] by (simp add: kLineBytes_def)
      then show ?thesis
        using False Some coherent_touch_line [OF assms _ w(1)]
        by (auto simp: cache_read_def Let_def)
    qed
  qed
  then show "cache_coherent m (snd (cache_read c a n))"
    and "fst (cache_read c a n) = Some bs \<Longrightarrow> bs = map (\<lambda>i. m (a + of_nat i)) [0..<n]"
    by blast+
qed

lemma cache_insert_coherent:
  assumes "cache_coherent m c"
    and miss: "find_way (cache_sets c (get_set_index a)) (get_tag a) [0..<kWays] = None"
    and data: "\<And>i. i < kLineBytes \<Longrightarrow> d i = m (get_tag a + of_nat i)"
  shows "cache_coherent m (cache_insert c a d)"
  unfolding cache_insert_def Let_def
proof (rule coherent_upd_line)
  show "cache_coherent m (c\<lparr>access_tick := x1, replacements := x2, last_evicted_tag := x3,
     last_replaced_set := x4, last_replaced_way := x5, last_inserted_tag := x6,
     last_accessed_set := x7, last_access_was_hit := x8, last_hit_way := x9\<rparr>)" for x1 x2 x3 x4 x5 x6 x7 x8 x9
    using assms(1) by (simp add: cache_coherent_def)
  show "line_coherent m (get_set_index a) \<lparr>cl_tag = get_tag a, last_used = access_tick c + 1, cl_valid = True, cl_data = d\<rparr>"
    using data by (simp add: line_coherent_def)
qed (use find_way_None [OF miss] in auto)

lemma mem_store_other:
  assumes "line_coherent m s l"
    and "\<And>j. j < n \<Longrightarrow> cl_valid l \<Longrightarrow> get_tag (a + of_nat j) \<noteq> cl_tag l"
  shows "line_coherent (mem_store m a d n) s l"
proof -
  have "\<not> unat (cl_tag l + of_nat i - a) < n" if v: "cl_valid l" and "i < kLineBytes" for i
  proof
    assume u: "unat (cl_tag l + of_nat i - a) < n"
    have "get_tag (a + of_nat (unat (cl_tag l + of_nat i - a))) = get_tag (cl_tag l + of_nat i)"
      by simp
    also have "\<dots> = cl_tag l"
      using assms(1) that get_tag_add(1) [of "cl_tag l" i]
      by (simp add: line_coherent_def kLineBytes_def)
    finally show False
      using assms(2) [OF u v] by simp
  qed
  then show ?thesis
    using assms(1) by (auto simp: line_coherent_def mem_store_def)
qed

lemma size_of_funct3_le: "0 < size_of_funct3 f" "size_of_funct3 f \<le> 8"
proof -
  have "f AND 3 \<le> 3" by (rule word_and_le1)
  then have "unat (f AND 3) \<le> 3" by (simp add: word_le_nat_alt)
  then have "(2::nat) ^ unat (f AND 3) \<le> 2 ^ 3" by (intro power_increasing) auto
  then show "0 < size_of_funct3 f" "size_of_funct3 f \<le> 8" by (simp_all add: size_of_funct3_def)
qed

lemma within_line_tag:
  assumes "line_offset a + j < 32"
  shows "get_tag (a + of_nat j) = get_tag a"
proof -
  have "get_tag (get_tag a + of_nat (line_offset a + j)) = get_tag a"
    using assms by (intro get_tag_add(1)) simp_all
  then show ?thesis
    using tag_plus_offset [of a] by (simp only: of_nat_add add.assoc [symmetric])
qed

lemma next_line:
  assumes "32 \<le> line_offset a + j" "line_offset a + j < 64"
  shows "get_tag (a + of_nat j) = get_tag (a + of_nat (32 - line_offset a))"
proof -
  let ?b = "a + of_nat (32 - line_offset a) :: u64"
  have "?b = get_tag a + of_nat (line_offset a + (32 - line_offset a))"
    using tag_plus_offset [of a] by (simp only: of_nat_add add.assoc [symmetric])
  then have b: "?b = get_tag a + 32"
    using line_offset_less [of a] by simp
  have "j = (32 - line_offset a) + (j - (32 - line_offset a))"
    using assms by simp
  then have "(of_nat j :: u64) = of_nat (32 - line_offset a) + of_nat (j - (32 - line_offset a))"
    by (metis of_nat_add)
  then have "a + of_nat j = ?b + of_nat (j - (32 - line_offset a))"
    by (simp only: add.assoc)
  moreover have "line_offset ?b = 0"
  proof -
    have "get_tag a = push_bit 5 (drop_bit 5 a)"
      by (rule bit_word_eqI) (auto simp: bit_simps)
    then have "?b = push_bit 5 (drop_bit 5 a + 1)"
      by (simp add: b push_bit_eq_mult algebra_simps)
    then have "?b AND 31 = push_bit 5 (drop_bit 5 a + 1) AND 31" by (simp only:)
    also have "\<dots> = 0"
      by (rule bit_word_eqI) (auto simp: bit_simps)
    finally show ?thesis by (simp add: line_offset_alt)
  qed
  ultimately show ?thesis
    using within_line_tag [of ?b "j - (32 - line_offset a)"] assms line_offset_less [of a] by simp
qed

lemma coherent_invalidate:
  assumes "cache_coherent m c"
  shows "cache_coherent m (invalidate_tag c s t)"
proof (cases "find_way (cache_sets c s) t [0..<kWays]")
  case (Some w)
  then show ?thesis
    using coherent_upd_line [OF assms, of s "(cache_sets c s w)\<lparr>cl_valid := False\<rparr>" w]
    by (simp add: invalidate_tag_def line_coherent_def)
qed (use assms in \<open>simp add: invalidate_tag_def\<close>)

lemma invalidate_tag_valid:
  "cl_valid (cache_sets (invalidate_tag c s t) s' w) \<Longrightarrow>
   cache_sets (invalidate_tag c s t) s' w = cache_sets c s' w"
  by (auto simp: invalidate_tag_def split: option.splits if_splits)

lemma invalidate_tag_gone:
  assumes "cache_coherent m c" "w < kWays" "cl_valid (cache_sets (invalidate_tag c (get_set_index t) (get_tag t)) s w)"
  shows "cl_tag (cache_sets (invalidate_tag c (get_set_index t) (get_tag t)) s w) \<noteq> get_tag t"
proof
  let ?s = "get_set_index t"
  let ?c = "invalidate_tag c ?s (get_tag t)"
  assume eq: "cl_tag (cache_sets ?c s w) = get_tag t"
  have "line_coherent m s (cache_sets ?c s w)"
    by (rule coherent_line [OF coherent_invalidate [OF assms(1)]])
  then have s: "s = ?s"
    using assms(3) eq by (simp add: line_coherent_def)
  show False
  proof (cases "find_way (cache_sets c ?s) (get_tag t) [0..<kWays]")
    case None
    then show False
      using find_way_None [OF None, of w] assms(2,3) eq s by (simp add: invalidate_tag_def)
  next
    case (Some v)
    note v = find_way_Some [OF Some]
    show False
    proof (cases "w = v")
      case True
      then show False
        using assms(3) Some s by (simp add: invalidate_tag_def)
    next
      case False
      then have "cl_valid (cache_sets c ?s w)" "cl_tag (cache_sets c ?s w) = get_tag t"
        using assms(3) eq Some s by (simp_all add: invalidate_tag_def)
      then show False
        using v False coherent_unique [OF assms(1), of w v ?s] assms(2) by simp
    qed
  qed
qed

lemma coherent_mem_store:
  assumes "cache_coherent m c"
    and "\<And>s w j. j < n \<Longrightarrow> cl_valid (cache_sets c s w) \<Longrightarrow> get_tag (a + of_nat j) \<noteq> cl_tag (cache_sets c s w)"
  shows "cache_coherent (mem_store m a d n) c"
proof -
  have "line_coherent (mem_store m a d n) s (cache_sets c s w)" for s w
    using assms(2) by (intro mem_store_other coherent_line [OF assms(1)]) auto
  then show ?thesis
    using assms(1) unfolding cache_coherent_def by blast
qed

lemma ways_ok_ops:
  assumes "ways_ok c"
  shows "ways_ok (cache_insert c a l)" "ways_ok (snd (cache_read c a n))"
    "ways_ok (dcache_write c a d f)"
proof -
  have upd: "ways_ok (upd_line c' s w l)" if "ways_ok c'" "w < kWays" for c' s w l
    using that by (auto simp: ways_ok_def)
  have way: "w < kWays" if "find_way x t [0..<kWays] = Some w" for x t w
    using find_way_Some [OF that] by simp
  have inv: "ways_ok (invalidate_tag c' s t)" if "ways_ok c'" for c' s t
    using that by (auto simp: invalidate_tag_def upd way split: option.splits)
  show "ways_ok (cache_insert c a l)"
    using assms select_victim_less unfolding cache_insert_def Let_def by (intro upd) (simp_all add: ways_ok_def)
  show "ways_ok (snd (cache_read c a n))"
    using assms by (auto simp: cache_read_def Let_def ways_ok_def dest: way split: option.splits)
  have c1: "ways_ok (c\<lparr>last_accessed_set := x, last_access_was_hit := y\<rparr>)" for x y
    using assms by (simp add: ways_ok_def)
  show "ways_ok (dcache_write c a d f)"
    using assms inv [OF inv [OF c1]]
    by (auto simp: dcache_write_def Let_def ways_ok_def dest: way split: option.splits)
qed

lemma dcache_write_coherent:
  assumes coh: "cache_coherent m c" and ways: "ways_ok c"
  shows "cache_coherent (mem_store m a d (size_of_funct3 f)) (dcache_write c a d f)"
proof (cases "line_offset a + size_of_funct3 f \<le> kLineBytes")
  case True
  let ?n = "size_of_funct3 f" and ?s = "get_set_index a"
  let ?m = "mem_store m a d ?n"
  have tags: "get_tag (a + of_nat j) = get_tag a" if "j < ?n" for j
    using that True by (intro within_line_tag) (simp add: kLineBytes_def)
  have other: "line_coherent ?m s (cache_sets c s w)"
    if "\<not> (cl_valid (cache_sets c s w) \<and> cl_tag (cache_sets c s w) = get_tag a)" for s w
    using mem_store_other [OF coherent_line [OF coh]] that tags by metis
  show ?thesis
  proof (cases "find_way (cache_sets c ?s) (get_tag a) [0..<kWays]")
    case None
    have "\<not> (cl_valid (cache_sets c s w) \<and> cl_tag (cache_sets c s w) = get_tag a)" for s w
    proof
      assume l: "cl_valid (cache_sets c s w) \<and> cl_tag (cache_sets c s w) = get_tag a"
      then have "s = ?s" "w < kWays"
        using coherent_line [OF coh, of s w] ways by (auto simp: line_coherent_def ways_ok_def not_le [symmetric])
      then show False
        using find_way_None [OF None, of w] l by simp
    qed
    then have "cache_coherent ?m c"
      using coh other unfolding cache_coherent_def by blast
    then show ?thesis
      using None True by (simp add: dcache_write_def Let_def cache_coherent_def)
  next
    case (Some v)
    note v = find_way_Some [OF Some]
    let ?l = "store_in_line (cache_sets c ?s v) (line_offset a) d ?n"
    have base: "line_coherent m ?s (cache_sets c ?s v)" by (rule coherent_line [OF coh])
    have "cl_data ?l i = ?m (get_tag a + of_nat i)" if i: "i < 32" for i
    proof -
      have diff: "get_tag a + of_nat i - a = of_nat i - of_nat (line_offset a)"
        using tag_plus_offset [of a] by (metis add_diff_cancel_left)
      have u: "unat (get_tag a + of_nat i - a) = i - line_offset a" if "line_offset a \<le> i"
        using that i unfolding diff by (simp add: unat_of_nat flip: of_nat_diff)
      have u': "unat (get_tag a + of_nat i - a) \<ge> ?n" if lt: "i < line_offset a"
      proof (rule ccontr)
        define k where "k = unat (get_tag a + of_nat i - a)"
        assume "\<not> ?n \<le> unat (get_tag a + of_nat i - a)"
        then have k: "k < 8" using size_of_funct3_le(2) [of f] by (simp add: k_def)
        have "(of_nat k :: u64) = of_nat i - of_nat (line_offset a)"
          unfolding k_def diff by simp
        then have "(of_nat i :: u64) = of_nat (line_offset a + k)" by simp
        then have "unat (of_nat i :: u64) = unat (of_nat (line_offset a + k) :: u64)" by simp
        then have "i = line_offset a + k"
          using i k line_offset_less [of a] by (simp only: unat_of_nat) simp
        then show False using lt by simp
      qed
      show ?thesis
        using base v u u' i
        by (cases "line_offset a \<le> i")
          (auto simp: store_in_line_def mem_store_def line_coherent_def kLineBytes_def)
    qed
    then have new: "line_coherent ?m ?s ?l"
      using base v by (simp add: line_coherent_def store_in_line_def kLineBytes_def)
    let ?c = "c\<lparr>last_accessed_set := of_nat ?s, last_access_was_hit := True, last_hit_way := of_nat v\<rparr>"
    have "line_coherent ?m s (cache_sets (upd_line ?c ?s v ?l) s w)" for s w
    proof (cases "s = ?s \<and> w = v")
      case False
      have "\<not> (cl_valid (cache_sets c s w) \<and> cl_tag (cache_sets c s w) = get_tag a)"
      proof
        assume l: "cl_valid (cache_sets c s w) \<and> cl_tag (cache_sets c s w) = get_tag a"
        then have "s = ?s" "w < kWays"
          using coherent_line [OF coh, of s w] ways by (auto simp: line_coherent_def ways_ok_def not_le [symmetric])
        then show False
          using coherent_unique [OF coh, of w v ?s] v l False by simp
      qed
      from other [OF this] show ?thesis using False by auto
    qed (use new in simp)
    moreover have "cl_valid ?l = cl_valid (cache_sets c ?s v)" "cl_tag ?l = cl_tag (cache_sets c ?s v)"
      by (simp_all add: store_in_line_def)
    ultimately have "cache_coherent ?m (upd_line ?c ?s v ?l)"
      using coh unfolding cache_coherent_def by (simp del: upd_line_sets) (auto split: if_splits)
    then show ?thesis
      using Some True by (simp add: dcache_write_def Let_def)
  qed
next
  case False
  let ?n = "size_of_funct3 f"
  define b :: u64 where "b = a + of_nat (kLineBytes - line_offset a)"
  define c1 where "c1 = c\<lparr>last_accessed_set := of_nat (get_set_index a), last_access_was_hit := False\<rparr>"
  define c2 where "c2 = invalidate_tag c1 (get_set_index a) (get_tag a)"
  define c3 where "c3 = invalidate_tag c2 (get_set_index b) (get_tag b)"
  have c1: "cache_coherent m c1" using coh by (simp add: c1_def cache_coherent_def)
  have c2: "cache_coherent m c2" unfolding c2_def by (rule coherent_invalidate [OF c1])
  have c3: "cache_coherent m c3" unfolding c3_def by (rule coherent_invalidate [OF c2])
  have wr: "dcache_write c a d f = c3"
    using False by (simp add: dcache_write_def Let_def c1_def c2_def c3_def b_def)
  have ways3: "w < kWays" if "cl_valid (cache_sets c3 s w)" for s w
    using that ways_ok_ops(3) [OF ways, of a d f] unfolding wr by (auto simp: ways_ok_def not_le [symmetric])
  have gone: "cl_tag (cache_sets c3 s w) \<noteq> get_tag b" "cl_tag (cache_sets c3 s w) \<noteq> get_tag a"
    if val: "cl_valid (cache_sets c3 s w)" for s w
  proof -
    show "cl_tag (cache_sets c3 s w) \<noteq> get_tag b"
      using invalidate_tag_gone [OF c2 ways3 [OF val]] val unfolding c3_def by blast
    have "cache_sets c3 s w = cache_sets c2 s w"
      using val unfolding c3_def by (rule invalidate_tag_valid)
    then show "cl_tag (cache_sets c3 s w) \<noteq> get_tag a"
      using invalidate_tag_gone [OF c1 ways3 [OF val], of a s] val unfolding c2_def by simp
  qed
  have "get_tag (a + of_nat j) \<in> {get_tag a, get_tag b}" if "j < ?n" for j
  proof (cases "line_offset a + j < 32")
    case False
    then show ?thesis
      using that next_line [of a j] line_offset_less [of a] size_of_funct3_le(2) [of f]
      by (simp add: b_def kLineBytes_def)
  qed (use within_line_tag in simp)
  then show ?thesis
    unfolding wr using gone by (intro coherent_mem_store [OF c3]) force
qed

lemma flush_coherent: "cache_coherent m (cache_flush c b)" "ways_ok (cache_flush c b)"
  by (simp_all add: cache_flush_def Let_def reset_stats_def cache_coherent_def line_coherent_def
      ways_ok_def empty_CacheLine_def)

lemma cache_read_find:
  "fst (cache_read c a n) = None \<Longrightarrow> line_offset a + n \<le> kLineBytes \<Longrightarrow>
   find_way (cache_sets (snd (cache_read c a n)) (get_set_index a)) (get_tag a) [0..<kWays] = None"
  by (auto simp: cache_read_def Let_def split: option.splits if_splits)

lemma cached_load_correct:
  assumes "cache_coherent m c" "ways_ok c"
  shows "fst (cached_load c m a f) = mem_load m a f"
    and "cache_coherent m (snd (cached_load c m a f))" and "ways_ok (snd (cached_load c m a f))"
proof -
  let ?n = "size_of_funct3 f"
  obtain r c' where rd: "cache_read c a ?n = (r, c')" by (cases "cache_read c a ?n")
  have c': "cache_coherent m c'" "ways_ok c'"
    using cache_read_coherent(1) [OF assms(1), of a ?n] ways_ok_ops(2) [OF assms(2), of a ?n]
    by (simp_all add: rd)
  have line: "get_tag a + (of_nat (line_offset a) + of_nat i) = a + of_nat i" for i
    using tag_plus_offset [of a] by (simp only: add.assoc [symmetric])
  have "fst (cached_load c m a f) = mem_load m a f \<and> cache_coherent m (snd (cached_load c m a f)) \<and>
      ways_ok (snd (cached_load c m a f))"
  proof (cases "line_offset a + ?n > kLineBytes")
    case True
    then show ?thesis using assms by (simp add: cached_load_def)
  next
    case False
    show ?thesis
    proof (cases r)
      case None
      have "find_way (cache_sets c' (get_set_index (get_tag a))) (get_tag (get_tag a)) [0..<kWays] = None"
        using cache_read_find [of c a ?n] False None by (simp add: rd)
      then have "cache_coherent m (cache_insert c' (get_tag a) (\<lambda>i. m (get_tag a + of_nat i)))"
        by (rule cache_insert_coherent [OF c'(1)]) simp
      then show ?thesis
        using False None ways_ok_ops(1) [OF c'(2)]
        by (simp add: cached_load_def dcache_read_def rd mem_load_def Let_def line)
    next
      case (Some bs)
      then have "bs = map (\<lambda>i. m (a + of_nat i)) [0..<?n]"
        using cache_read_coherent(2) [OF assms(1), of a ?n bs] by (simp add: rd)
      then show ?thesis
        using False Some c' by (simp add: cached_load_def dcache_read_def rd mem_load_def)
    qed
  qed
  then show "fst (cached_load c m a f) = mem_load m a f"
    and "cache_coherent m (snd (cached_load c m a f))" and "ways_ok (snd (cached_load c m a f))"
    by blast+
qed

lemma run_cached_direct:
  assumes "cache_coherent m c" "ways_ok c"
  shows "run_cached c m ops = run_direct m ops"
  using assms
proof (induction ops arbitrary: c m)
  case (Cons x ops)
  then show ?case
    by (cases x)
      (simp_all add: split_beta cached_load_correct cached_store_def dcache_write_coherent
        ways_ok_ops flush_coherent)
qed simp

text \<open>(C6)
  Data-cache transparency. For every sequence of loads and stores of any width and alignment,
  interleaved with flushes, the results of the loads through a flushed cache are those of the
  memory alone: hits, misses, evictions, partial writes into a line and writes that straddle two
  lines are all invisible.
\<close>

theorem l1_cache_transparent: "run_cached (cache_flush c b) m ops = run_direct m ops"
  by (rule run_cached_direct [OF flush_coherent])

text \<open>
  Coherence is kept by the instruction-side operations too: on a coherent cache an instruction read
  that hits returns the memory bytes, and a line filled from memory after a miss keeps the cache
  coherent.
\<close>

theorem icache_reads_memory:
  assumes "cache_coherent m c"
  shows "(\<forall>v c'. icache_read c a = (Some v, c') \<longrightarrow>
            v = le_word (map (\<lambda>i. m (a + of_nat i)) [0..<4]) \<and> cache_coherent m c') \<and>
         (\<forall>v c'. icache_read16 c a = (Some v, c') \<longrightarrow>
            v = le_word (map (\<lambda>i. m (a + of_nat i)) [0..<2]) \<and> cache_coherent m c') \<and>
         (\<forall>c'. icache_read16 c a = (None, c') \<and> \<not> bit a 0 \<longrightarrow>
            cache_coherent m (cache_insert c' (get_tag a) (\<lambda>i. m (get_tag a + of_nat i))))"
proof (intro conjI allI impI)
  fix v c' assume "icache_read c a = (Some v, c')"
  then show "v = le_word (map (\<lambda>i. m (a + of_nat i)) [0..<4])" "cache_coherent m c'"
    using cache_read_coherent [OF assms, of a 4] by (auto simp: icache_read_def split: prod.splits)
next
  fix v c' assume "icache_read16 c a = (Some v, c')"
  then show "v = le_word (map (\<lambda>i. m (a + of_nat i)) [0..<2])" "cache_coherent m c'"
    using cache_read_coherent [OF assms, of a 2] by (auto simp: icache_read16_def split: prod.splits)
next
  fix c' assume miss: "icache_read16 c a = (None, c') \<and> \<not> bit a 0"
  then have "\<not> bit (unat (a AND 31)) 0" by (simp add: bit_simps)
  then have "even (line_offset a)" by (simp add: line_offset_alt bit_0)
  then have "line_offset a + 2 \<le> kLineBytes"
    using line_offset_less [of a] by (simp add: kLineBytes_def) presburger
  moreover have "fst (cache_read c a 2) = None" "snd (cache_read c a 2) = c'"
    using miss by (auto simp: icache_read16_def split: prod.splits)
  ultimately show "cache_coherent m (cache_insert c' (get_tag a) (\<lambda>i. m (get_tag a + of_nat i)))"
    using cache_read_find [of c a 2] cache_read_coherent(1) [OF assms, of a 2]
    by (intro cache_insert_coherent) simp_all
qed

theorem icache_reads_memory_witness:
  "fst (icache_read (cache_insert (cache_flush initial_BaseCache False) 0x80000000 (\<lambda>i. of_nat i))
     0x80000004) = Some 0x07060504"
proof -
  let ?c = "cache_insert (cache_flush initial_BaseCache False) 0x80000000 (\<lambda>i. of_nat i)"
  let ?m = "\<lambda>a :: Address. ucast (a - 0x80000000) :: u8"
  have coh: "cache_coherent ?m ?c"
  proof (rule cache_insert_coherent [OF flush_coherent(1)])
    show "find_way (cache_sets (cache_flush initial_BaseCache False) (get_set_index 0x80000000))
        (get_tag 0x80000000) [0..<kWays] = None"
      by (simp add: cache_flush_def empty_CacheLine_def kWays_def upt_rec)
    show "(of_nat i :: u8) = ucast (get_tag 0x80000000 + of_nat i - 0x80000000 :: Address)"
      if "i < kLineBytes" for i
      using that by (simp add: get_tag_alt kLineBytes_def unsigned_of_nat take_bit_nat_eq_self)
  qed
  have "fst (cache_read ?c 0x80000004 4) \<noteq> None"
    by (simp add: cache_read_def cache_insert_def cache_flush_def upd_line_def get_tag_alt
        get_set_index_def line_offset_alt kLineShift_def kCacheSets_def kWays_def kLineBytes_def
        empty_CacheLine_def upt_rec Let_def)
  then obtain v c' where hit: "icache_read ?c 0x80000004 = (Some v, c')"
    by (cases "cache_read ?c 0x80000004 4") (auto simp: icache_read_def)
  then have "v = le_word (map (\<lambda>i. ?m (0x80000004 + of_nat i)) [0..<4])"
    using icache_reads_memory [OF coh, of "0x80000004"] by blast
  then have "v = 0x07060504"
    by (simp add: upt_rec)
  with hit show ?thesis by simp
qed

end
