(* ===== verification/Dram.thy ===== *)
theory Dram
  imports L1_Cache
begin

text \<open>
  Guest memory (\<^verbatim>\<open>include/simrv/memory/MemoryUtil.hpp\<close>): the DRAM region test and the typed
  accesses to the host buffer that backs it. The host buffer is a function from byte offsets to
  bytes; \<^verbatim>\<open>host_ptr\<close> arguments are offsets into it. \<^verbatim>\<open>g_dram_base\<close> has its only value, the
  constant \<^verbatim>\<open>kDramBaseAddress\<close>, and the size is the default of the build.
\<close>

type_synonym HostMem = "nat \<Rightarrow> u8"

definition kDramBaseAddress :: Address where
  "kDramBaseAddress = 0x80000000"

definition kDramSize :: Address where
  "kDramSize = 256 * 1024 * 1024"

definition kDramMask :: Address where
  "kDramMask = kDramSize - 1"

definition address_range_contains :: "Address \<Rightarrow> Address \<Rightarrow> Address \<Rightarrow> u64 \<Rightarrow> bool" where
  "address_range_contains base extent address size' \<longleftrightarrow>
     size' \<noteq> 0 \<and> size' \<le> extent \<and> address \<ge> base \<and> address - base \<le> extent - size'"

definition is_dram_access :: "Address \<Rightarrow> u64 \<Rightarrow> bool" where
  "is_dram_access paddr size' = address_range_contains kDramBaseAddress kDramSize paddr size'"

definition is_dram_addr :: "Address \<Rightarrow> bool" where
  "is_dram_addr paddr = is_dram_access paddr 1"

definition is_legacy_reserved_region :: "Address \<Rightarrow> bool" where
  "is_legacy_reserved_region paddr \<longleftrightarrow>
     paddr AND 0xF0000000 \<in> {0x10000000, 0x20000000, 0x30000000, 0x70000000}"

definition store_width_bytes :: "Instruction \<Rightarrow> nat" where
  "store_width_bytes f3 =
     (let base_width = 2 ^ unat (f3 AND 0x3) in if f3 AND 0x3 = 3 then 8 else base_width)"

definition host_bytes :: "HostMem \<Rightarrow> nat \<Rightarrow> nat \<Rightarrow> u8 list" where
  "host_bytes m p n = map (\<lambda>i. m (p + i)) [0..<n]"

definition host_read_fast :: "HostMem \<Rightarrow> nat \<Rightarrow> Instruction \<Rightarrow> Word" where
  "host_read_fast m p f3 =
     (let k = ucast (f3 AND 0x7) :: u8 in
      if k = Funct3_Lb then scast (le_word (host_bytes m p 1) :: u8)
      else if k = Funct3_Lbu then ucast (le_word (host_bytes m p 1) :: u8)
      else if k = Funct3_Lh then scast (le_word (host_bytes m p 2) :: u16)
      else if k = Funct3_Lhu then ucast (le_word (host_bytes m p 2) :: u16)
      else if k = Funct3_Lw then scast (le_word (host_bytes m p 4) :: u32)
      else if k = Funct3_Lwu then ucast (le_word (host_bytes m p 4) :: u32)
      else if k = Funct3_Ld then le_word (host_bytes m p 8)
      else 0)"

definition write_bytes :: "HostMem \<Rightarrow> nat \<Rightarrow> u8 list \<Rightarrow> HostMem" where
  "write_bytes m p bs = (\<lambda>i. if p \<le> i \<and> i < p + length bs then bs ! (i - p) else m i)"

definition host_write_fast :: "HostMem \<Rightarrow> nat \<Rightarrow> Register \<Rightarrow> Instruction \<Rightarrow> HostMem" where
  "host_write_fast m p val f3 =
     (let k = ucast (f3 AND 0x7) :: u8 in
      if k = Funct3_Sb then write_bytes m p (le_bytes 1 (ucast val :: u8))
      else if k = Funct3_Sh then write_bytes m p (le_bytes 2 (ucast val :: u16))
      else if k = Funct3_Sw then write_bytes m p (le_bytes 4 (ucast val :: u32))
      else if k = Funct3_Sd then write_bytes m p (le_bytes 8 val)
      else m)"

definition ram_read_fast :: "Address \<Rightarrow> Instruction \<Rightarrow> HostMem \<Rightarrow> Word" where
  "ram_read_fast addr f3 ram = host_read_fast ram (unat (addr AND kDramMask)) f3"

definition ram_write_fast :: "Address \<Rightarrow> Word \<Rightarrow> Instruction \<Rightarrow> HostMem \<Rightarrow> HostMem" where
  "ram_write_fast addr wdata f3 ram = host_write_fast ram (unat (addr AND kDramMask)) wdata f3"

subsection \<open>Typed accesses as byte sequences\<close>

lemma funct3_cases: "f AND 7 = 0 \<or> f AND 7 = 1 \<or> f AND 7 = 2 \<or> f AND 7 = 3 \<or> f AND 7 = 4 \<or> f AND 7 = 5 \<or> f AND 7 = 6 \<or> f AND 7 = 7"
  for f :: u32
proof -
  have "f AND 7 \<le> 7" by (rule word_and_le1)
  then have "unat (f AND 7) \<le> 7" by (simp add: word_le_nat_alt)
  then have "unat (f AND 7) \<in> {0,1,2,3,4,5,6,7}" by auto
  then show ?thesis by (simp add: word_unat_eq_iff)
qed

lemma funct3_parts: "f AND 3 = (f AND 7) AND 3" "f AND 4 = (f AND 7) AND 4" for f :: u32
  by (simp_all add: and.assoc)

lemma le_bytes_ucast8: "le_bytes 1 (ucast (v :: u64) :: u8) = le_bytes 1 v"
  and le_bytes_ucast16: "le_bytes 2 (ucast v :: u16) = le_bytes 2 v"
  and le_bytes_ucast32: "le_bytes 4 (ucast v :: u32) = le_bytes 4 v"
  by (auto simp: le_bytes_def intro!: bit_word_eqI) (auto simp: bit_simps)

lemma host_write_fast_alt:
  "host_write_fast m p v f =
     (if f AND 4 = 0 then write_bytes m p (le_bytes (size_of_funct3 f) v) else m)"
  using funct3_cases [of f]
  by (auto simp: host_write_fast_def funct3_parts [of f] size_of_funct3_def le_bytes_ucast8 [unfolded One_nat_def]
      le_bytes_ucast16 le_bytes_ucast32)

lemma scast_le_word:
  "scast (le_word bs :: u8) = sign_extend (le_word bs) 8" if "length bs = 1"
  using that by (intro bit_word_eqI, rename_tac n, case_tac "n = 7") (auto simp: bit_simps min_def)
lemma scast_le_word16:
  "scast (le_word bs :: u16) = sign_extend (le_word bs) 16" if "length bs = 2"
  using that by (intro bit_word_eqI, rename_tac n, case_tac "n = 15") (auto simp: bit_simps min_def)
lemma scast_le_word32:
  "scast (le_word bs :: u32) = sign_extend (le_word bs) 32" if "length bs = 4"
  using that by (intro bit_word_eqI, rename_tac n, case_tac "n = 31") (auto simp: bit_simps min_def)
lemma ucast_le_word:
  "8 * length bs \<le> LENGTH('a) \<Longrightarrow> ucast (le_word bs :: 'a::len word) = (le_word bs :: u64)"
  by (intro bit_word_eqI) (auto simp: bit_simps)

lemma length_host_bytes [simp]: "length (host_bytes m p n) = n"
  by (simp add: host_bytes_def)

lemma host_read_fast_alt:
  "host_read_fast m p f =
     (if f AND 7 = 7 then 0 else extend_load f (le_word (host_bytes m p (size_of_funct3 f))))"
proof -
  have s64: "sign_extend w 64 = w" for w by (simp add: sign_extend_def)
  show ?thesis
    using funct3_cases [of f]
    by (elim disjE)
      (simp_all add: host_read_fast_def extend_load_def funct3_parts [of f] size_of_funct3_def
        scast_le_word scast_le_word16 scast_le_word32 ucast_le_word s64)
qed

lemma unat_kDram [simp]: "unat kDramBaseAddress = 0x80000000" "unat kDramSize = 0x10000000"
  by (simp_all add: kDramBaseAddress_def kDramSize_def)

lemma is_dram_access_iff:
  "is_dram_access a n \<longleftrightarrow> 0 < unat n \<and> 0x80000000 \<le> unat a \<and> unat a + unat n \<le> 0x90000000"
proof (cases "kDramBaseAddress \<le> a \<and> n \<le> kDramSize")
  case True
  then have "unat (a - kDramBaseAddress) = unat a - 0x80000000"
    "unat (kDramSize - n) = 0x10000000 - unat n"
    using unat_sub [of kDramBaseAddress a] unat_sub [of n kDramSize] by simp_all
  then show ?thesis
    using True
    by (auto simp: is_dram_access_def address_range_contains_def word_le_nat_alt unat_gt_0 [symmetric])
next
  case False
  then show ?thesis
    by (auto simp: is_dram_access_def address_range_contains_def word_le_nat_alt)
qed

lemma dram_offset:
  assumes "is_dram_access a n"
  shows "unat (a AND kDramMask) = unat a - 0x80000000"
proof -
  have a: "0x80000000 \<le> unat a" "unat a < 0x90000000"
    using assms by (auto simp: is_dram_access_iff)
  have "a AND kDramMask = take_bit 28 a"
    by (simp add: kDramMask_def kDramSize_def take_bit_eq_mask mask_eq_exp_minus_1)
  then have "unat (a AND kDramMask) = unat a mod 2 ^ 28"
    by (simp only: unsigned_take_bit_eq) (simp add: take_bit_eq_mod)
  also have "\<dots> = (unat a - 0x80000000) mod 2 ^ 28"
  proof -
    obtain k where "unat a = k + 0x80000000"
      using a(1) by (metis add.commute le_iff_add)
    moreover have "(k + 8 * 268435456) mod 268435456 = k mod 268435456"
      by (rule mod_mult_self1)
    ultimately show ?thesis by simp
  qed
  finally show ?thesis using a by simp
qed

text \<open>
  DRAM bounds. The region test accepts an access exactly when all its bytes lie in the region,
  computed without wrap-around even for addresses near the end of the address space; for an accepted
  access the masked address is the offset into the host buffer and the access stays inside the
  buffer.
\<close>

theorem dram_range_exact:
  "(is_dram_access a n \<longleftrightarrow> 0 < unat n \<and> 0x80000000 \<le> unat a \<and> unat a + unat n \<le> 0x90000000) \<and>
   (is_dram_access a n \<longrightarrow>
      unat (a AND kDramMask) = unat a - 0x80000000 \<and>
      unat (a AND kDramMask) + unat n \<le> unat kDramSize)"
  using dram_offset [of a n] by (auto simp: is_dram_access_iff)

theorem dram_range_exact_witness:
  "is_dram_access 0x8FFFFFF8 8 \<and> \<not> is_dram_access 0x8FFFFFF9 8 \<and>
   \<not> is_dram_access 0xFFFFFFFFFFFFFFFC 8 \<and> unat (0x8FFFFFF8 AND kDramMask) + unat (8 :: u64) = unat kDramSize"
  using dram_range_exact [of "0x8FFFFFF8" 8] dram_range_exact [of "0x8FFFFFF9" 8]
    dram_range_exact [of "0xFFFFFFFFFFFFFFFC" 8]
  by simp

lemma host_bytes_write_same: "host_bytes (write_bytes m p bs) p (length bs) = bs"
  by (rule nth_equalityI) (auto simp: host_bytes_def write_bytes_def)

lemma host_bytes_write_disjoint:
  "q + k \<le> p \<or> p + length bs \<le> q \<Longrightarrow> host_bytes (write_bytes m p bs) q k = host_bytes m q k"
  by (auto simp: host_bytes_def write_bytes_def)

lemma write_back: "length bs = n \<Longrightarrow> write_bytes (write_bytes m p bs) p (host_bytes m p n) = m"
  by (rule ext) (auto simp: host_bytes_def write_bytes_def)

lemma le_bytes_sign_extend:
  "0 < k \<Longrightarrow> n \<le> k \<Longrightarrow> le_bytes n (sign_extend v (8 * k)) = le_bytes n v"
  by (auto simp: le_bytes_def intro!: bit_word_eqI) (auto simp: bit_simps dest: bit_imp_le_length)

lemma size_of_funct3_values: "size_of_funct3 f \<in> {1, 2, 4, 8}"
  using funct3_cases [of f] by (auto simp: size_of_funct3_def funct3_parts [of f])

text \<open>Writing back what was read restores the memory, for every access code.\<close>

lemma host_write_undo:
  "host_write_fast (host_write_fast m p v f) p (host_read_fast m p f) f = m"
proof (cases "f AND 4 = 0")
  case True
  let ?n = "size_of_funct3 f"
  have "f AND 7 \<noteq> 7"
    using True funct3_parts(2) [of f] by auto
  then have rd: "host_read_fast m p f = sign_extend (le_word (host_bytes m p ?n)) (8 * ?n)"
    using True by (simp add: host_read_fast_alt extend_load_def)
  have "le_bytes ?n (host_read_fast m p f) = host_bytes m p ?n"
    using le_bytes_le_word [of "host_bytes m p ?n", where 'a = 64] size_of_funct3_le [of f]
    by (simp add: rd le_bytes_sign_extend)
  then show ?thesis
    using True by (simp add: host_write_fast_alt write_back)
qed (simp add: host_write_fast_alt)

text \<open>Memory accesses. A store followed by the load of the same width returns the stored value,
  truncated and sign-extended; any load of DRAM that does not overlap the store is unaffected.
\<close>

theorem dram_read_write:
  assumes "is_dram_access a (of_nat (size_of_funct3 f))" "is_dram_access b (of_nat (size_of_funct3 g))"
    and "f AND 4 = 0"
  shows "ram_read_fast a f (ram_write_fast a v f m) = sign_extend v (8 * size_of_funct3 f) \<and>
         (unat a + size_of_funct3 f \<le> unat b \<or> unat b + size_of_funct3 g \<le> unat a \<longrightarrow>
            ram_read_fast b g (ram_write_fast a v f m) = ram_read_fast b g m)"
proof
  let ?n = "size_of_funct3 f"
  have f7: "f AND 7 \<noteq> 7"
    using assms(3) funct3_parts(2) [of f] by auto
  have "sign_extend (le_word (le_bytes ?n v)) (8 * ?n) = sign_extend v (8 * ?n)"
    unfolding le_word_le_bytes using size_of_funct3_le [of f]
    by (intro bit_word_eqI) (auto simp: bit_simps)
  then show "ram_read_fast a f (ram_write_fast a v f m) = sign_extend v (8 * ?n)"
    using assms(3) f7 host_bytes_write_same [of m _ "le_bytes ?n v"]
    by (simp add: ram_read_fast_def ram_write_fast_def host_read_fast_alt host_write_fast_alt extend_load_def)
  show "unat a + ?n \<le> unat b \<or> unat b + size_of_funct3 g \<le> unat a \<longrightarrow>
            ram_read_fast b g (ram_write_fast a v f m) = ram_read_fast b g m"
  proof
    assume dis: "unat a + ?n \<le> unat b \<or> unat b + size_of_funct3 g \<le> unat a"
    have off: "unat (a AND kDramMask) = unat a - 0x80000000" "unat (b AND kDramMask) = unat b - 0x80000000"
      "0x80000000 \<le> unat a" "0x80000000 \<le> unat b"
      using dram_offset [OF assms(1)] dram_offset [OF assms(2)] assms(1,2) by (auto simp: is_dram_access_iff)
    have "host_bytes (write_bytes m (unat (a AND kDramMask)) (le_bytes ?n v)) (unat (b AND kDramMask)) (size_of_funct3 g) =
        host_bytes m (unat (b AND kDramMask)) (size_of_funct3 g)"
      using dis off by (intro host_bytes_write_disjoint) auto
    then show "ram_read_fast b g (ram_write_fast a v f m) = ram_read_fast b g m"
      using assms(3) by (simp add: ram_read_fast_def ram_write_fast_def host_read_fast_alt host_write_fast_alt)
  qed
qed

theorem dram_read_write_witness:
  "ram_read_fast 0x80001000 2 (ram_write_fast 0x80001000 0xDEADBEEF 2 (\<lambda>_. 0)) = 0xFFFFFFFFDEADBEEF \<and>
   ram_read_fast 0x80001004 3 (ram_write_fast 0x80001000 0xDEADBEEF 2 (\<lambda>_. 0)) = ram_read_fast 0x80001004 3 (\<lambda>_. 0)"
  using dram_read_write [of "0x80001000" 2 "0x80001004" 3 "0xDEADBEEF" "\<lambda>_. 0"]
  by (simp add: is_dram_access_iff size_of_funct3_def sign_extend_def)

end
