(* ===== verification/Mmu_Walk.thy ===== *)
theory Mmu_Walk
  imports Dram
begin

text \<open>
  \<^verbatim>\<open>class Mmu\<close> (\<^verbatim>\<open>include/simrv/memory/Mmu.hpp\<close>, \<^verbatim>\<open>src/memory/Mmu.cpp\<close>): Sv32, Sv39 and Sv48
  translation with its cached \<^verbatim>\<open>satp\<close> configuration, the permission checks, the superpage
  alignment check and the hardware update of the accessed and dirty bits. A fault is the left
  injection of its trap cause. The \<^verbatim>\<open>for\<close> loop over the levels is a structural recursion on the
  number of levels that remain.
\<close>

subsection \<open>Data\<close>

abbreviation (input) Pte_V :: Word where "Pte_V \<equiv> 0x1"
abbreviation (input) Pte_R :: Word where "Pte_R \<equiv> 0x2"
abbreviation (input) Pte_W :: Word where "Pte_W \<equiv> 0x4"
abbreviation (input) Pte_X :: Word where "Pte_X \<equiv> 0x8"
abbreviation (input) Pte_U :: Word where "Pte_U \<equiv> 0x10"
abbreviation (input) Pte_A :: Word where "Pte_A \<equiv> 0x40"
abbreviation (input) Pte_D :: Word where "Pte_D \<equiv> 0x80"

datatype PteAccess = PteRead | PteWrite | PteCode

primrec access_code :: "PteAccess \<Rightarrow> nat" where
  "access_code PteRead = 0"
| "access_code PteWrite = 1"
| "access_code PteCode = 2"

record Mmu =
  mmem_null :: bool
  mmem :: HostMem
  dram_base :: Address
  dram_size :: Address
  cached_satp :: Word
  cached_xlen :: nat
  cached_levels :: nat
  cached_pte_size :: nat
  cached_vpn_bits_per_level :: nat
  cached_root_ppn :: Word
  cached_root_pt_addr :: Address
  cached_satp_mode :: Word
  cached_valid :: bool

definition make_Mmu :: "HostMem \<Rightarrow> Address \<Rightarrow> Address \<Rightarrow> Mmu" where
  "make_Mmu mem base size' =
     \<lparr>mmem_null = False, mmem = mem, dram_base = base, dram_size = size', cached_satp = NOT 0,
      cached_xlen = 0, cached_levels = 2, cached_pte_size = 4, cached_vpn_bits_per_level = 10,
      cached_root_ppn = 0, cached_root_pt_addr = 0, cached_satp_mode = 0, cached_valid = False\<rparr>"

definition kPteShift :: nat where
  "kPteShift = 10"

definition enum_cause :: "ExceptionCode \<Rightarrow> TrapCause" where
  "enum_cause c = ucast c"

primrec page_fault :: "PteAccess \<Rightarrow> TrapCause" where
  "page_fault PteCode = enum_cause FetchPageFault"
| "page_fault PteWrite = enum_cause StorePageFault"
| "page_fault PteRead = enum_cause LoadPageFault"

primrec access_fault :: "PteAccess \<Rightarrow> TrapCause" where
  "access_fault PteCode = enum_cause FaultFetch"
| "access_fault PteWrite = enum_cause FaultStore"
| "access_fault PteRead = enum_cause FaultLoad"

subsection \<open>Operations\<close>

definition pte_access_valid :: "Mmu \<Rightarrow> Address \<Rightarrow> u64 \<Rightarrow> bool" where
  "pte_access_valid mmu address size' =
     (if mmem_null mmu \<or> size' = 0 \<or> dram_size mmu < size' \<or> address < dram_base mmu then False
      else address - dram_base mmu \<le> dram_size mmu - size')"

definition is_canonical :: "Address \<Rightarrow> Word \<Rightarrow> nat \<Rightarrow> bool" where
  "is_canonical vaddr satp' xl =
     (if xl = 32 then True
      else
        let md = satp_mode satp' 64 in
        if md = 8 then signed_drop_bit 25 (push_bit 25 vaddr) = vaddr
        else if md = 9 then signed_drop_bit 16 (push_bit 16 vaddr) = vaddr
        else True)"

definition validate_pte_permissions ::
    "Word \<Rightarrow> Word \<Rightarrow> PteAccess \<Rightarrow> PrivilegeLevel \<Rightarrow> CSRValue \<Rightarrow> bool" where
  "validate_pte_permissions pte permission_bits access p ms =
     (let original_rwx = drop_bit 1 pte AND 0x7 in
      if original_rwx = 2 \<or> original_rwx = 6 then False
      else if p = Supervisor \<and> pte AND Pte_U \<noteq> 0 \<and> access = PteCode then False
      else if p = Supervisor \<and> pte AND Pte_U \<noteq> 0 \<and> ms AND Mstatus_Sum = 0 then False
      else if p = User \<and> pte AND Pte_U = 0 then False
      else if drop_bit (access_code access) permission_bits AND 1 = 0 then False
      else True)"

definition update_pte_access_bits :: "Mmu \<Rightarrow> Address \<Rightarrow> Word \<Rightarrow> PteAccess \<Rightarrow> nat \<Rightarrow> Mmu" where
  "update_pte_access_bits mmu pte_addr pte_value access pte_size =
     (let u1 = pte_value OR Pte_A;
          updated_pte = (if access = PteWrite then u1 OR Pte_D else u1)
      in if updated_pte \<noteq> pte_value then
           let store_op = (if pte_size = 4 then ucast Funct3_Sw else ucast Funct3_Sd)
           in mmu\<lparr>mmem := host_write_fast (mmem mmu) (unat (pte_addr - dram_base mmu))
                             updated_pte store_op\<rparr>
         else mmu)"

text \<open>
  The configuration block at the start of \<^verbatim>\<open>page_walk\<close>; \<open>False\<close> means that the mode is not
  supported.
\<close>

definition configure :: "Mmu \<Rightarrow> Word \<Rightarrow> nat \<Rightarrow> bool \<times> Mmu" where
  "configure mmu satp' xl =
     (if \<not> cached_valid mmu \<or> cached_satp mmu \<noteq> satp' \<or> cached_xlen mmu \<noteq> xl then
        let md = satp_mode satp' xl;
            m1 = mmu\<lparr>cached_satp := satp', cached_xlen := xl, cached_satp_mode := md\<rparr>;
            finish = (\<lambda>m. let root_ppn = satp_root_ppn satp' xl in
                      (True, m\<lparr>cached_root_ppn := root_ppn,
                               cached_root_pt_addr := push_bit 12 root_ppn, cached_valid := True\<rparr>))
        in if xl = 64 then
             if md = 8 then
               finish (m1\<lparr>cached_levels := 3, cached_pte_size := 8, cached_vpn_bits_per_level := 9\<rparr>)
             else if md = 9 then
               finish (m1\<lparr>cached_levels := 4, cached_pte_size := 8, cached_vpn_bits_per_level := 9\<rparr>)
             else (False, m1\<lparr>cached_valid := False\<rparr>)
           else
             if md \<noteq> 1 then (False, m1\<lparr>cached_valid := False\<rparr>)
             else
               finish (m1\<lparr>cached_levels := 2, cached_pte_size := 4, cached_vpn_bits_per_level := 10\<rparr>)
      else (True, mmu))"

datatype WalkResult = WalkFault TrapCause | WalkLeaf nat Word Address | WalkNoLeaf

definition read_pte :: "Mmu \<Rightarrow> Address \<Rightarrow> nat \<Rightarrow> Word" where
  "read_pte mmu pte_addr pte_size =
     (let load_op = (if pte_size = 4 then ucast Funct3_Lw else ucast Funct3_Ld);
          pte = host_read_fast (mmem mmu) (unat (pte_addr - dram_base mmu)) load_op
      in if pte_size = 4 then pte AND 0xFFFFFFFF else pte)"

primrec walk_levels ::
    "Mmu \<Rightarrow> Address \<Rightarrow> PteAccess \<Rightarrow> nat \<Rightarrow> nat \<Rightarrow> nat \<Rightarrow> Address \<Rightarrow> WalkResult" where
  "walk_levels mmu vaddr access pte_size vpn_bits 0 root_pt_addr = WalkNoLeaf"
| "walk_levels mmu vaddr access pte_size vpn_bits (Suc i) root_pt_addr =
     (let vpn_mask = push_bit vpn_bits 1 - 1;
          vpn_i = drop_bit (12 + i * vpn_bits) vaddr AND vpn_mask;
          pte_addr = root_pt_addr + vpn_i * of_nat pte_size
      in if \<not> pte_access_valid mmu pte_addr (of_nat pte_size) then WalkFault (access_fault access)
         else
           let pte = read_pte mmu pte_addr pte_size in
           if pte AND Pte_V = 0 then WalkFault (page_fault access)
           else if pte_size = 8 \<and> drop_bit 54 pte \<noteq> 0 then WalkFault (page_fault access)
           else if drop_bit 1 pte AND 0x7 = 0 then
             if pte AND (Pte_U OR Pte_A OR Pte_D) \<noteq> 0 then WalkFault (page_fault access)
             else walk_levels mmu vaddr access pte_size vpn_bits i
                    (push_bit 12 (drop_bit kPteShift pte))
           else WalkLeaf i pte pte_addr)"

definition page_walk ::
    "Mmu \<Rightarrow> Address \<Rightarrow> PteAccess \<Rightarrow> PrivilegeLevel \<Rightarrow> CSRValue \<Rightarrow> Word \<Rightarrow> nat \<Rightarrow> bool \<Rightarrow>
     (TrapCause + Address) \<times> Mmu" where
  "page_walk mmu0 vaddr access p ms satp' xl update_access_bits =
     (let (ok, mmu) = configure mmu0 satp' xl in
      if \<not> ok then (Inl (page_fault access), mmu)
      else
        case walk_levels mmu vaddr access (cached_pte_size mmu) (cached_vpn_bits_per_level mmu)
               (cached_levels mmu) (cached_root_pt_addr mmu) of
          WalkFault cause \<Rightarrow> (Inl cause, mmu)
        | WalkNoLeaf \<Rightarrow> (Inl (page_fault access), mmu)
        | WalkLeaf i pte pte_addr \<Rightarrow>
            let mxr = (ms AND Mstatus_Mxr \<noteq> 0);
                pte_r = (pte AND Pte_R \<noteq> 0);
                pte_w = (pte AND Pte_W \<noteq> 0);
                pte_x = (pte AND Pte_X \<noteq> 0);
                permission_bits = push_bit 2 (of_bool64 pte_x) OR push_bit 1 (of_bool64 pte_w) OR
                                  of_bool64 (pte_r \<or> mxr \<and> pte_x);
                vpn_bits = cached_vpn_bits_per_level mmu;
                ppn_mask_for_level = (if i = 0 then 0 else push_bit (i * vpn_bits) 1 - 1);
                ppn = drop_bit kPteShift pte;
                offset_bits = 12 + i * vpn_bits;
                offset_mask = push_bit offset_bits 1 - 1;
                phys_addr = (vaddr AND offset_mask) OR (push_bit 12 ppn AND NOT offset_mask)
            in if \<not> validate_pte_permissions pte permission_bits access p ms
               then (Inl (page_fault access), mmu)
               else if ppn AND ppn_mask_for_level \<noteq> 0 then (Inl (page_fault access), mmu)
               else (Inr phys_addr,
                     if update_access_bits
                     then update_pte_access_bits mmu pte_addr pte access (cached_pte_size mmu)
                     else mmu))"

definition translate ::
    "Mmu \<Rightarrow> Address \<Rightarrow> PteAccess \<Rightarrow> PrivilegeLevel \<Rightarrow> CSRValue \<Rightarrow> Word \<Rightarrow> nat \<Rightarrow> bool \<Rightarrow>
     (TrapCause + Address) \<times> Mmu" where
  "translate mmu vaddr access p ms satp' xl update_access_bits =
     (if p = Machine \<or> \<not> satp_translation_enabled satp' xl then (Inr vaddr, mmu)
      else if xl = 64 \<and> satp_mode satp' 64 = 8 \<and> signed_drop_bit 25 (push_bit 25 vaddr) \<noteq> vaddr
      then (Inl (page_fault access), mmu)
      else if xl = 64 \<and> satp_mode satp' 64 = 9 \<and> signed_drop_bit 16 (push_bit 16 vaddr) \<noteq> vaddr
      then (Inl (page_fault access), mmu)
      else page_walk mmu vaddr access p ms satp' xl update_access_bits)"

subsection \<open>Specification of a translation\<close>

definition sv_supported :: "Word \<Rightarrow> nat \<Rightarrow> bool" where
  "sv_supported s xl \<longleftrightarrow>
     (if xl = 64 then satp_mode s xl = 8 \<or> satp_mode s xl = 9 else satp_mode s xl = 1)"

definition sv_levels :: "Word \<Rightarrow> nat \<Rightarrow> nat" where
  "sv_levels s xl = (if xl = 64 then if satp_mode s xl = 8 then 3 else 4 else 2)"

definition sv_pte_size :: "nat \<Rightarrow> nat" where
  "sv_pte_size xl = (if xl = 64 then 8 else 4)"

definition sv_vpn_bits :: "nat \<Rightarrow> nat" where
  "sv_vpn_bits xl = (if xl = 64 then 9 else 10)"

definition sv_root :: "Word \<Rightarrow> nat \<Rightarrow> Address" where
  "sv_root s xl = push_bit 12 (satp_root_ppn s xl)"

definition pte_slot :: "Address \<Rightarrow> Address \<Rightarrow> nat \<Rightarrow> nat \<Rightarrow> Address" where
  "pte_slot root va xl i =
     root + take_bit (sv_vpn_bits xl) (drop_bit (12 + i * sv_vpn_bits xl) va) * of_nat (sv_pte_size xl)"

definition pte_usable :: "Mmu \<Rightarrow> Address \<Rightarrow> nat \<Rightarrow> bool" where
  "pte_usable mmu addr xl \<longleftrightarrow>
     pte_access_valid mmu addr (of_nat (sv_pte_size xl)) \<and>
     bit (read_pte mmu addr (sv_pte_size xl)) 0 \<and>
     (xl = 64 \<longrightarrow> (\<forall>n \<ge> 54. \<not> bit (read_pte mmu addr (sv_pte_size xl)) n))"

text \<open>
  \<open>leaf_of mmu va xl k root i pte addr\<close>: from a table at \<open>root\<close> with \<open>k\<close> levels left, following
  pointer entries leads to the leaf entry \<open>pte\<close> at level \<open>i\<close>, stored at \<open>addr\<close>.
\<close>

inductive leaf_of :: "Mmu \<Rightarrow> Address \<Rightarrow> nat \<Rightarrow> nat \<Rightarrow> Address \<Rightarrow> nat \<Rightarrow> Word \<Rightarrow> Address \<Rightarrow> bool"
  for mmu va xl where
  leaf: "addr = pte_slot root va xl i \<Longrightarrow> pte_usable mmu addr xl \<Longrightarrow>
      pte = read_pte mmu addr (sv_pte_size xl) \<Longrightarrow> bit pte 1 \<or> bit pte 2 \<or> bit pte 3 \<Longrightarrow>
      leaf_of mmu va xl (Suc i) root i pte addr"
| pointer: "slot = pte_slot root va xl i \<Longrightarrow> pte_usable mmu slot xl \<Longrightarrow>
      ptr = read_pte mmu slot (sv_pte_size xl) \<Longrightarrow>
      \<not> bit ptr 1 \<Longrightarrow> \<not> bit ptr 2 \<Longrightarrow> \<not> bit ptr 3 \<Longrightarrow>
      \<not> bit ptr 4 \<Longrightarrow> \<not> bit ptr 6 \<Longrightarrow> \<not> bit ptr 7 \<Longrightarrow>
      leaf_of mmu va xl i (push_bit 12 (drop_bit 10 ptr)) j pte addr \<Longrightarrow>
      leaf_of mmu va xl (Suc i) root j pte addr"

inductive_cases leaf_of_0E: "leaf_of mmu va xl 0 root i pte addr"
inductive_cases leaf_of_SucE: "leaf_of mmu va xl (Suc k) root i pte addr"

primrec access_granted :: "PteAccess \<Rightarrow> Word \<Rightarrow> CSRValue \<Rightarrow> bool" where
  "access_granted PteRead pte ms = (bit pte 1 \<or> bit ms 19 \<and> bit pte 3)"
| "access_granted PteWrite pte ms = bit pte 2"
| "access_granted PteCode pte ms = bit pte 3"

definition pte_permits :: "Word \<Rightarrow> PteAccess \<Rightarrow> PrivilegeLevel \<Rightarrow> CSRValue \<Rightarrow> bool" where
  "pte_permits pte access p ms \<longleftrightarrow>
     access_granted access pte ms \<and> (bit pte 2 \<longrightarrow> bit pte 1) \<and>
     (p = User \<longrightarrow> bit pte 4) \<and>
     (p = Supervisor \<and> bit pte 4 \<longrightarrow> bit ms 18 \<and> access \<noteq> PteCode)"

definition page_address :: "Word \<Rightarrow> Address \<Rightarrow> nat \<Rightarrow> nat \<Rightarrow> Address \<Rightarrow> bool" where
  "page_address pte va xl i pa \<longleftrightarrow>
     (\<forall>n < 64. bit pa n = (if n < 12 + i * sv_vpn_bits xl then bit va n else bit pte (n - 2)))"

definition superpage_aligned :: "Word \<Rightarrow> nat \<Rightarrow> nat \<Rightarrow> bool" where
  "superpage_aligned pte xl i \<longleftrightarrow> (\<forall>n < i * sv_vpn_bits xl. \<not> bit pte (10 + n))"

definition translation_spec ::
    "Mmu \<Rightarrow> Address \<Rightarrow> PteAccess \<Rightarrow> PrivilegeLevel \<Rightarrow> CSRValue \<Rightarrow> Word \<Rightarrow> nat \<Rightarrow> Address \<Rightarrow> bool" where
  "translation_spec mmu va access p ms s xl pa \<longleftrightarrow>
     (if p = Machine \<or> satp_mode s xl = 0 then pa = va
      else sv_supported s xl \<and> is_canonical va s xl \<and>
        (\<exists>i pte addr. leaf_of mmu va xl (sv_levels s xl) (sv_root s xl) i pte addr \<and>
           pte_permits pte access p ms \<and> superpage_aligned pte xl i \<and> page_address pte va xl i pa))"

text \<open>The walk leaves the memory that holds page tables: following pointer entries leads to a table whose slot
  for the address cannot be read.\<close>

inductive table_outside :: "Mmu \<Rightarrow> Address \<Rightarrow> nat \<Rightarrow> nat \<Rightarrow> Address
    \<Rightarrow> bool" for mmu va xl where
  here: "\<not> pte_access_valid mmu (pte_slot root va xl i) (of_nat (sv_pte_size xl)) \<Longrightarrow>
      table_outside mmu va xl (Suc i) root"
| below: "slot = pte_slot root va xl i \<Longrightarrow> pte_usable mmu slot xl \<Longrightarrow>
      ptr = read_pte mmu slot (sv_pte_size xl) \<Longrightarrow>
      \<not> bit ptr 1 \<Longrightarrow> \<not> bit ptr 2 \<Longrightarrow> \<not> bit ptr 3 \<Longrightarrow>
      \<not> bit ptr 4 \<Longrightarrow> \<not> bit ptr 6 \<Longrightarrow> \<not> bit ptr 7 \<Longrightarrow>
      table_outside mmu va xl i (push_bit 12 (drop_bit 10 ptr)) \<Longrightarrow>
      table_outside mmu va xl (Suc i) root"

inductive_simps table_outside_0 [simp]: "table_outside mmu va xl 0 root"
inductive_simps table_outside_Suc: "table_outside mmu va xl (Suc k) root"

text \<open>The exception codes of the privileged architecture: access faults when the walk leaves the memory, page
  faults otherwise.\<close>

primrec spec_fault :: "bool \<Rightarrow> PteAccess \<Rightarrow> TrapCause" where
  "spec_fault outside PteCode = (if outside then 1 else 12)"
| "spec_fault outside PteRead = (if outside then 5 else 13)"
| "spec_fault outside PteWrite = (if outside then 7 else 15)"

definition translation_fault ::
    "Mmu \<Rightarrow> Address \<Rightarrow> PteAccess \<Rightarrow> PrivilegeLevel \<Rightarrow> CSRValue \<Rightarrow>
        Word \<Rightarrow> nat \<Rightarrow> TrapCause \<Rightarrow> bool" where
  "translation_fault mmu va access p ms s xl cause \<longleftrightarrow>
     (\<nexists>pa. translation_spec mmu va access p ms s xl pa) \<and>
     cause = spec_fault (sv_supported s xl \<and> is_canonical va s xl \<and>
               table_outside mmu va xl (sv_levels s xl) (sv_root s xl)) access"

text \<open>The cached configuration, when valid, is the one its \<^verbatim>\<open>satp\<close> and width determine.\<close>

definition mmu_ok :: "Mmu \<Rightarrow> bool" where
  "mmu_ok mmu \<longleftrightarrow>
     (cached_valid mmu \<longrightarrow>
        sv_supported (cached_satp mmu) (cached_xlen mmu) \<and>
        cached_levels mmu = sv_levels (cached_satp mmu) (cached_xlen mmu) \<and>
        cached_pte_size mmu = sv_pte_size (cached_xlen mmu) \<and>
        cached_vpn_bits_per_level mmu = sv_vpn_bits (cached_xlen mmu) \<and>
        cached_root_pt_addr mmu = sv_root (cached_satp mmu) (cached_xlen mmu))"

lemma configure_spec:
  assumes "mmu_ok mmu"
  shows "fst (configure mmu s xl) = sv_supported s xl"
    and "mmu_ok (snd (configure mmu s xl))"
    and "sv_supported s xl \<Longrightarrow> cached_levels (snd (configure mmu s xl)) = sv_levels s xl"
    and "sv_supported s xl \<Longrightarrow> cached_pte_size (snd (configure mmu s xl)) = sv_pte_size xl"
    and "sv_supported s xl \<Longrightarrow> cached_vpn_bits_per_level (snd (configure mmu s xl)) = sv_vpn_bits xl"
    and "sv_supported s xl \<Longrightarrow> cached_root_pt_addr (snd (configure mmu s xl)) = sv_root s xl"
    and "mmem (snd (configure mmu s xl)) = mmem mmu"
    and "mmem_null (snd (configure mmu s xl)) = mmem_null mmu"
    and "dram_base (snd (configure mmu s xl)) = dram_base mmu"
    and "dram_size (snd (configure mmu s xl)) = dram_size mmu"
  using assms
  by (auto simp: configure_def Let_def mmu_ok_def sv_supported_def sv_levels_def sv_pte_size_def
      sv_vpn_bits_def sv_root_def)

subsection \<open>The walk follows the specification\<close>

lemma pte_tests:
  "drop_bit 1 pte AND 7 = 0 \<longleftrightarrow> \<not> bit pte 1 \<and> \<not> bit pte 2 \<and> \<not> bit pte 3"
  "pte AND (16 OR 64 OR 128) = 0 \<longleftrightarrow> \<not> bit pte 4 \<and> \<not> bit pte 6 \<and> \<not> bit pte 7"
  "drop_bit 54 pte = 0 \<longleftrightarrow> (\<forall>n \<ge> 54. \<not> bit pte n)"
  "drop_bit 1 pte AND 7 = 2 \<longleftrightarrow> \<not> bit pte 1 \<and> bit pte 2 \<and> \<not> bit pte 3"
  "drop_bit 1 pte AND 7 = 6 \<longleftrightarrow> \<not> bit pte 1 \<and> bit pte 2 \<and> bit pte 3" for pte :: u64
proof -
  have three: "drop_bit 1 pte AND 7 = (if bit pte 1 then 1 else 0) OR (if bit pte 2 then 2 else 0) OR
      (if bit pte 3 then 4 else (0 :: u64))"
  proof (rule bit_word_eqI)
    fix n assume "n < LENGTH(64)"
    consider "n = 0" | "n = 1" | "n = 2" | "3 \<le> n" by linarith
    then show "bit (drop_bit 1 pte AND 7) n = bit ((if bit pte 1 then 1 else 0) OR
      (if bit pte 2 then 2 else 0) OR (if bit pte 3 then 4 else (0 :: u64))) n"
      by cases (auto simp: bit_simps numeral_2_eq_2 numeral_3_eq_3)
  qed
  show "drop_bit 1 pte AND 7 = 0 \<longleftrightarrow> \<not> bit pte 1 \<and> \<not> bit pte 2 \<and> \<not> bit pte 3"
    "drop_bit 1 pte AND 7 = 2 \<longleftrightarrow> \<not> bit pte 1 \<and> bit pte 2 \<and> \<not> bit pte 3"
    "drop_bit 1 pte AND 7 = 6 \<longleftrightarrow> \<not> bit pte 1 \<and> bit pte 2 \<and> bit pte 3"
    subgoal unfolding three by (cases "bit pte 1"; cases "bit pte 2"; cases "bit pte 3") simp_all
    subgoal unfolding three by (cases "bit pte 1"; cases "bit pte 2"; cases "bit pte 3") simp_all
    subgoal unfolding three by (cases "bit pte 1"; cases "bit pte 2"; cases "bit pte 3") simp_all
    done
  have "pte AND (16 OR 64 OR 128) = 0 \<longleftrightarrow> pte AND 16 = 0 \<and> pte AND 64 = 0 \<and> pte AND 128 = 0"
    by (simp only: bit.conj_disj_distrib or_eq_0_iff)
  then show "pte AND (16 OR 64 OR 128) = 0 \<longleftrightarrow> \<not> bit pte 4 \<and> \<not> bit pte 6 \<and> \<not> bit pte 7"
    by (simp only: single_bit_tests)
  show "drop_bit 54 pte = 0 \<longleftrightarrow> (\<forall>n \<ge> 54. \<not> bit pte n)"
  proof
    assume zero: "drop_bit 54 pte = 0"
    show "\<forall>n \<ge> 54. \<not> bit pte n"
    proof (intro allI impI)
      fix n :: nat assume "54 \<le> n"
      then have "bit pte n = bit (drop_bit 54 pte) (n - 54)" by (simp add: bit_drop_bit_eq)
      then show "\<not> bit pte n" by (simp add: zero)
    qed
  next
    assume "\<forall>n \<ge> 54. \<not> bit pte n"
    then show "drop_bit 54 pte = 0"
      by (intro bit_word_eqI) (simp add: bit_drop_bit_eq)
  qed
qed

lemma and_low_mask: "w AND (push_bit b 1 - 1) = take_bit b w" for w :: u64
  by (simp add: take_bit_eq_mask mask_eq_exp_minus_1 push_bit_of_1)

lemma walk_slot:
  "root + (drop_bit (12 + i * sv_vpn_bits xl) va AND (push_bit (sv_vpn_bits xl) 1 - 1)) *
     of_nat (sv_pte_size xl) = pte_slot root va xl i"
  by (simp only: and_low_mask pte_slot_def)

lemma walk_levels_Suc:
  fixes root va :: Address and xl k :: nat
  defines "a \<equiv> pte_slot root va xl k"
  shows "walk_levels mmu va access (sv_pte_size xl) (sv_vpn_bits xl) (Suc k) root =
     (let e = read_pte mmu a (sv_pte_size xl) in
      if \<not> pte_access_valid mmu a (of_nat (sv_pte_size xl)) then WalkFault (access_fault access)
      else if \<not> pte_usable mmu a xl then WalkFault (page_fault access)
      else if \<not> bit e 1 \<and> \<not> bit e 2 \<and> \<not> bit e 3 then
        if bit e 4 \<or> bit e 6 \<or> bit e 7 then WalkFault (page_fault access)
        else walk_levels mmu va access (sv_pte_size xl) (sv_vpn_bits xl) k (push_bit 12 (drop_bit 10 e))
      else WalkLeaf k e a)"
proof -
  have size8: "sv_pte_size xl = 8 \<longleftrightarrow> xl = 64" by (simp add: sv_pte_size_def)
  show ?thesis unfolding a_def
    by (simp only: walk_levels.simps Let_def walk_slot pte_usable_def single_bit_tests pte_tests size8 kPteShift_def) auto
qed

lemma walk_levels_leaf:
  "walk_levels mmu va access (sv_pte_size xl) (sv_vpn_bits xl) k root = WalkLeaf i pte addr \<longleftrightarrow>
   leaf_of mmu va xl k root i pte addr"
proof (induction k arbitrary: root)
  case 0
  then show ?case by (auto elim: leaf_of_0E)
next
  case (Suc k)
  let ?a = "pte_slot root va xl k"
  let ?e = "read_pte mmu ?a (sv_pte_size xl)"
  note w = walk_levels_Suc [of mmu va access xl k root, unfolded Let_def]
  show ?case
  proof (cases "pte_usable mmu ?a xl")
    case False
    then show ?thesis
      unfolding w by (auto elim!: leaf_of_SucE)
  next
    case usable: True
    then have valid: "pte_access_valid mmu ?a (of_nat (sv_pte_size xl))"
      by (simp add: pte_usable_def)
    show ?thesis
    proof (cases "bit ?e 1 \<or> bit ?e 2 \<or> bit ?e 3")
      case True
      have "leaf_of mmu va xl (Suc k) root k ?e ?a"
        using True usable by (intro leaf_of.leaf) auto
      moreover have "i = k \<and> pte = ?e \<and> addr = ?a" if "leaf_of mmu va xl (Suc k) root i pte addr"
        using that True by (auto elim!: leaf_of_SucE)
      ultimately show ?thesis
        unfolding w using usable valid True by (simp only: if_False if_True not_True_eq_False) auto
    next
      case False
      have "leaf_of mmu va xl (Suc k) root i pte addr \<longleftrightarrow>
          \<not> (bit ?e 4 \<or> bit ?e 6 \<or> bit ?e 7) \<and>
          leaf_of mmu va xl k (push_bit 12 (drop_bit 10 ?e)) i pte addr"
      proof
        assume "leaf_of mmu va xl (Suc k) root i pte addr"
        then show "\<not> (bit ?e 4 \<or> bit ?e 6 \<or> bit ?e 7) \<and>
          leaf_of mmu va xl k (push_bit 12 (drop_bit 10 ?e)) i pte addr"
          using False by (auto elim!: leaf_of_SucE)
      next
        assume "\<not> (bit ?e 4 \<or> bit ?e 6 \<or> bit ?e 7) \<and>
          leaf_of mmu va xl k (push_bit 12 (drop_bit 10 ?e)) i pte addr"
        then show "leaf_of mmu va xl (Suc k) root i pte addr"
          using False usable by (intro leaf_of.pointer [of ?a root va xl k mmu ?e]) auto
      qed
      then show ?thesis
        unfolding w using usable valid False Suc.IH by simp
    qed
  qed
qed

lemma leaf_of_cong:
  assumes "mmem mmu' = mmem mmu" "mmem_null mmu' = mmem_null mmu" "dram_base mmu' = dram_base mmu"
    "dram_size mmu' = dram_size mmu"
  shows "leaf_of mmu' = leaf_of mmu"
proof -
  have r: "read_pte mmu' a n = read_pte mmu a n" and v: "pte_access_valid mmu' a k = pte_access_valid mmu a k"
    for a n k using assms by (simp_all add: read_pte_def pte_access_valid_def)
  then have eq: "pte_usable mmu' a x = pte_usable mmu a x" "read_pte mmu' a n = read_pte mmu a n" for a x n
    by (simp_all add: pte_usable_def)
  have "leaf_of mmu va xl k root i pte addr" if "leaf_of mmu' va xl k root i pte addr" for va xl k root i pte addr
    using that by induction (use eq in \<open>auto intro: leaf_of.intros\<close>)
  moreover have "leaf_of mmu' va xl k root i pte addr" if "leaf_of mmu va xl k root i pte addr" for va xl k root i pte addr
    using that by induction (use eq in \<open>auto intro: leaf_of.intros\<close>)
  ultimately show ?thesis by (auto simp: fun_eq_iff)
qed

definition permission_bits_of :: "Word \<Rightarrow> CSRValue \<Rightarrow> Word" where
  "permission_bits_of pte ms =
     push_bit 2 (of_bool64 (pte AND Pte_X \<noteq> 0)) OR push_bit 1 (of_bool64 (pte AND Pte_W \<noteq> 0)) OR
     of_bool64 (pte AND Pte_R \<noteq> 0 \<or> ms AND Mstatus_Mxr \<noteq> 0 \<and> pte AND Pte_X \<noteq> 0)"

lemma permission_bit:
  "drop_bit (access_code access) (permission_bits_of pte ms) AND 1 \<noteq> 0 \<longleftrightarrow>
   access_granted access pte ms"
  unfolding test_bit_and_1
  by (cases access)
    (auto simp: permission_bits_of_def of_bool64_def single_bit_tests bit_simps)

lemma validate_permits:
  "validate_pte_permissions pte (permission_bits_of pte ms) access p ms \<longleftrightarrow> pte_permits pte access p ms"
proof -
  have rwx: "(drop_bit 1 pte AND 0x7 = 2 \<or> drop_bit 1 pte AND 0x7 = 6) \<longleftrightarrow> bit pte 2 \<and> \<not> bit pte 1"
    by (auto simp only: pte_tests)
  show ?thesis
    using permission_bit [of access pte ms]
    unfolding validate_pte_permissions_def Let_def rwx pte_permits_def
    by (auto simp: single_bit_tests)
qed

lemma superpage_check:
  "drop_bit kPteShift pte AND (if i = 0 then 0 else push_bit (i * sv_vpn_bits xl) 1 - 1) = 0 \<longleftrightarrow>
   superpage_aligned pte xl i"
proof (cases "i = 0")
  case False
  let ?k = "i * sv_vpn_bits xl"
  have "take_bit ?k (drop_bit 10 pte) = 0 \<longleftrightarrow> (\<forall>n < ?k. \<not> bit pte (10 + n))"
  proof
    assume zero: "take_bit ?k (drop_bit 10 pte) = 0"
    show "\<forall>n < ?k. \<not> bit pte (10 + n)"
    proof (intro allI impI)
      fix n assume "n < ?k"
      then have "bit pte (10 + n) = bit (take_bit ?k (drop_bit 10 pte)) n"
        by (simp add: bit_take_bit_iff bit_drop_bit_eq)
      then show "\<not> bit pte (10 + n)" by (simp add: zero)
    qed
  next
    assume "\<forall>n < ?k. \<not> bit pte (10 + n)"
    then show "take_bit ?k (drop_bit 10 pte) = 0"
      by (intro bit_word_eqI) (simp add: bit_take_bit_iff bit_drop_bit_eq)
  qed
  then show ?thesis
    using False by (simp only: superpage_aligned_def kPteShift_def and_low_mask if_False)
qed (simp add: superpage_aligned_def)

lemma phys_addr_page:
  "pa = (va AND (push_bit (12 + i * sv_vpn_bits xl) 1 - 1)) OR
        (push_bit 12 (drop_bit kPteShift pte) AND NOT (push_bit (12 + i * sv_vpn_bits xl) 1 - 1)) \<longleftrightarrow>
   page_address pte va xl i pa"
proof -
  let ?b = "12 + i * sv_vpn_bits xl"
  have m: "push_bit ?b 1 - 1 = (mask ?b :: u64)"
    by (simp add: mask_eq_exp_minus_1 push_bit_of_1)
  have "bit ((va AND mask ?b) OR (push_bit 12 (drop_bit 10 pte) AND NOT (mask ?b))) n =
      (if n < ?b then bit va n else bit pte (n - 2))" if "n < 64" for n
    using that by (auto simp: bit_simps)
  then show ?thesis
    unfolding m kPteShift_def page_address_def by (auto simp: bit_eq_iff)
qed

lemma page_walk_correct:
  assumes "mmu_ok mmu"
  shows "fst (page_walk mmu va access p ms s xl upd) = Inr pa \<longleftrightarrow>
     sv_supported s xl \<and>
     (\<exists>i pte addr. leaf_of mmu va xl (sv_levels s xl) (sv_root s xl) i pte addr \<and>
        pte_permits pte access p ms \<and> superpage_aligned pte xl i \<and> page_address pte va xl i pa)"
proof (cases "sv_supported s xl")
  case False
  then show ?thesis
    using configure_spec(1) [OF assms, of s xl] by (auto simp: page_walk_def split: prod.splits)
next
  case True
  obtain m where conf: "configure mmu s xl = (True, m)"
    using configure_spec(1) [OF assms, of s xl] True by (cases "configure mmu s xl") auto
  note cfg = configure_spec [OF assms, of s xl, unfolded conf snd_conv]
  have leaf: "leaf_of m = leaf_of mmu" by (rule leaf_of_cong) (use cfg in simp_all)
  let ?w = "walk_levels m va access (sv_pte_size xl) (sv_vpn_bits xl) (sv_levels s xl) (sv_root s xl)"
  have pw: "fst (page_walk mmu va access p ms s xl upd) =
     (case ?w of WalkFault cause \<Rightarrow> Inl cause | WalkNoLeaf \<Rightarrow> Inl (page_fault access)
      | WalkLeaf i pte addr \<Rightarrow>
          if \<not> pte_permits pte access p ms then Inl (page_fault access)
          else if \<not> superpage_aligned pte xl i then Inl (page_fault access)
          else Inr ((va AND (push_bit (12 + i * sv_vpn_bits xl) 1 - 1)) OR
        (push_bit 12 (drop_bit kPteShift pte) AND NOT (push_bit (12 + i * sv_vpn_bits xl) 1 - 1))))"
    unfolding page_walk_def conf
    by (simp only: prod.case Let_def not_True_eq_False if_False cfg(3-6) [OF True]
        permission_bits_of_def [symmetric] validate_permits superpage_check split: WalkResult.splits)
      auto
  show ?thesis
  proof (cases ?w)
    case (WalkLeaf i pte addr)
    then have l: "leaf_of mmu va xl (sv_levels s xl) (sv_root s xl) i pte addr"
      using walk_levels_leaf [of m va access xl "sv_levels s xl" "sv_root s xl" i pte addr] leaf by simp
    have unique: "j = i \<and> e = pte \<and> a = addr"
      if "leaf_of mmu va xl (sv_levels s xl) (sv_root s xl) j e a" for j e a
      using that WalkLeaf walk_levels_leaf [of m va access xl "sv_levels s xl" "sv_root s xl" j e a] leaf by simp
    have "(\<exists>i pte addr. leaf_of mmu va xl (sv_levels s xl) (sv_root s xl) i pte addr \<and>
        pte_permits pte access p ms \<and> superpage_aligned pte xl i \<and> page_address pte va xl i pa) \<longleftrightarrow>
        pte_permits pte access p ms \<and> superpage_aligned pte xl i \<and> page_address pte va xl i pa"
      using l unique by blast
    moreover define q where "q = (va AND (push_bit (12 + i * sv_vpn_bits xl) 1 - 1)) OR
        (push_bit 12 (drop_bit kPteShift pte) AND NOT (push_bit (12 + i * sv_vpn_bits xl) 1 - 1))"
    moreover have "q = pa \<longleftrightarrow> page_address pte va xl i pa"
      unfolding q_def phys_addr_page [symmetric] by (rule eq_commute)
    moreover have "fst (page_walk mmu va access p ms s xl upd) =
        (if \<not> pte_permits pte access p ms then Inl (page_fault access)
         else if \<not> superpage_aligned pte xl i then Inl (page_fault access) else Inr q)"
      unfolding pw WalkLeaf q_def by (simp only: WalkResult.case)
    ultimately show ?thesis
      using True by (cases "pte_permits pte access p ms"; cases "superpage_aligned pte xl i") simp_all
  next
    case (WalkFault c)
    then have "\<not> leaf_of mmu va xl (sv_levels s xl) (sv_root s xl) i pte addr" for i pte addr
      using walk_levels_leaf [of m va access xl "sv_levels s xl" "sv_root s xl" i pte addr] leaf by simp
    then show ?thesis unfolding pw WalkFault by auto
  next
    case WalkNoLeaf
    then have "\<not> leaf_of mmu va xl (sv_levels s xl) (sv_root s xl) i pte addr" for i pte addr
      using walk_levels_leaf [of m va access xl "sv_levels s xl" "sv_root s xl" i pte addr] leaf by simp
    then show ?thesis unfolding pw WalkNoLeaf by auto
  qed
qed

lemma spec_fault_simps: "spec_fault True access = access_fault access" "spec_fault False access = page_fault access"
  by (cases access; simp add: enum_cause_def)+

lemma walk_levels_cause:
  "case walk_levels mmu va access (sv_pte_size xl) (sv_vpn_bits xl) k root of
     WalkFault c \<Rightarrow> c = spec_fault (table_outside mmu va xl k root) access
   | _ \<Rightarrow> \<not> table_outside mmu va xl k root"
proof (induction k arbitrary: root)
  case (Suc k)
  let ?a = "pte_slot root va xl k" let ?e = "read_pte mmu ?a (sv_pte_size xl)"
  let ?next = "push_bit 12 (drop_bit 10 ?e)"
  have out: "table_outside mmu va xl (Suc k) root \<longleftrightarrow>
      \<not> pte_access_valid mmu ?a (of_nat (sv_pte_size xl)) \<or>
      pte_usable mmu ?a xl \<and> \<not> bit ?e 1 \<and> \<not> bit ?e 2 \<and> \<not> bit ?e 3 \<and> \<not> bit ?e 4
          \<and> \<not> bit ?e 6 \<and> \<not> bit ?e 7 \<and>
      table_outside mmu va xl k ?next"
    unfolding table_outside_Suc by auto
  have v: "pte_usable mmu ?a xl \<Longrightarrow> pte_access_valid mmu ?a (of_nat (sv_pte_size xl))" by
      (simp add: pte_usable_def)
  show ?case
    unfolding walk_levels_Suc Let_def out using Suc.IH [of ?next] v by (auto simp: spec_fault_simps split: WalkResult.splits)
qed simp

lemma table_outside_cong:
  assumes "mmem mmu' = mmem mmu" "mmem_null mmu' = mmem_null mmu" "dram_base mmu' = dram_base mmu"
    "dram_size mmu' = dram_size mmu"
  shows "table_outside mmu' va xl k root = table_outside mmu va xl k root"
proof (induction k arbitrary: root)
  case (Suc k)
  have r: "read_pte mmu' a n = read_pte mmu a n" and v: "pte_access_valid mmu' a k = pte_access_valid mmu a k"
    for a n k using assms by (simp_all add: read_pte_def pte_access_valid_def)
  then have "pte_usable mmu' a x = pte_usable mmu a x" for a x by (simp add: pte_usable_def)
  then show ?case unfolding table_outside_Suc using Suc.IH r v by simp
qed simp

lemma page_walk_cause:
  assumes "mmu_ok mmu" "fst (page_walk mmu va access p ms s xl upd) = Inl c"
  shows "c = spec_fault (sv_supported s xl \<and> table_outside mmu va xl (sv_levels s xl) (sv_root s xl)) access"
proof (cases "sv_supported s xl")
  case False
  then show ?thesis using assms configure_spec(1) [OF assms(1), of s xl]
    by (auto simp: page_walk_def spec_fault_simps split: prod.splits)
next
  case True
  obtain m where conf: "configure mmu s xl = (True, m)"
    using configure_spec(1) [OF assms(1), of s xl] True by (cases "configure mmu s xl") auto
  note cfg = configure_spec [OF assms(1), of s xl, unfolded conf snd_conv]
  have out: "table_outside m va xl k r = table_outside mmu va xl k r" for k r
    by (rule table_outside_cong) (use cfg in simp_all)
  show ?thesis
    using assms(2) walk_levels_cause [of m va xl "sv_levels s xl" "sv_root s xl" access] True
    unfolding page_walk_def conf out
    by (auto simp: cfg(3-6) [OF True] Let_def spec_fault_simps split: WalkResult.splits if_splits)
qed

lemma translate_cause:
  assumes "mmu_ok mmu" "xl = 32 \<or> xl = 64" "fst (translate mmu va access p ms s xl upd) = Inl c"
  shows "c = spec_fault (sv_supported s xl \<and> is_canonical va s xl \<and>
    table_outside mmu va xl (sv_levels s xl) (sv_root s xl)) access"
proof (cases "is_canonical va s xl")
  case True
  have "fst (page_walk mmu va access p ms s xl upd) = Inl c"
    using assms(2,3) True by (auto simp: translate_def is_canonical_def Let_def split: if_splits)
  then show ?thesis using page_walk_cause [OF assms(1)] True by simp
next
  case False
  then show ?thesis using assms(2,3)
    by (auto simp: translate_def is_canonical_def satp_translation_enabled_def Let_def spec_fault_simps split: if_splits)
qed

lemma translate_success:
  assumes "mmu_ok mmu" and "xl = 32 \<or> xl = 64"
  shows "fst (translate mmu va access p ms s xl upd) = Inr pa \<longleftrightarrow>
         translation_spec mmu va access p ms s xl pa"
proof (cases "p = Machine \<or> satp_mode s xl = 0")
  case True
  then show ?thesis
    by (auto simp: translate_def translation_spec_def satp_translation_enabled_def)
next
  case False
  then have f: "p \<noteq> Machine" "satp_mode s xl \<noteq> 0" by simp_all
  show ?thesis
  proof (cases "is_canonical va s xl")
    case True
    then have "translate mmu va access p ms s xl upd = page_walk mmu va access p ms s xl upd"
      using f by (auto simp: translate_def is_canonical_def satp_translation_enabled_def Let_def)
    then show ?thesis
      using page_walk_correct [OF assms(1)] f True by (simp add: translation_spec_def)
  next
    case no: False
    then have "xl = 64" using assms(2) by (auto simp: is_canonical_def)
    then have "fst (translate mmu va access p ms s xl upd) = Inl (page_fault access)"
      using f no by (auto simp: translate_def is_canonical_def satp_translation_enabled_def Let_def split: if_splits)
    then show ?thesis
      using f no by (simp add: translation_spec_def)
  qed
qed

text \<open>(C2)
  Address translation. With a consistent configuration cache, a translation succeeds with physical
  address \<open>pa\<close> exactly when the page tables say so: translation is off or the hart is in M-mode and
  \<open>pa\<close> is the address itself, or the mode is supported, the address is canonical, the walk from the
  root reaches a leaf entry whose permissions (R, W, X with MXR, U with SUM) allow the access, the
  leaf is aligned for its level, and \<open>pa\<close> joins its frame number with the page offset. Otherwise it
  returns an exception code of the kind of access: the access fault (1, 5 or 7 for a fetch, load or
  store) exactly when the walk reaches a table outside the memory, and the page fault (12, 13 or 15)
  in every other case.
\<close>

theorem translate_correct:
  assumes "mmu_ok mmu" and "xl = 32 \<or> xl = 64"
  shows "(fst (translate mmu va access p ms s xl upd) = Inr pa \<longleftrightarrow>
           translation_spec mmu va access p ms s xl pa) \<and>
         (fst (translate mmu va access p ms s xl upd) = Inl cause \<longleftrightarrow>
           translation_fault mmu va access p ms s xl cause)"
proof -
  note ok = translate_success [OF assms, of va access p ms s upd]
  have "fst (translate mmu va access p ms s xl upd) = Inl cause \<longleftrightarrow> translation_fault mmu va access p ms s xl cause"
    using translate_cause [OF assms, of va access p ms s upd] ok
    by (cases "fst (translate mmu va access p ms s xl upd)") (auto simp: translation_fault_def)
  with ok show ?thesis by blast
qed

theorem translate_correct_witness:
  "let mmu = make_Mmu (write_bytes (\<lambda>_. 0) 0 [0xCF, 0, 0, 0x20]) 0x80000000 0x10000000 in
   translation_spec mmu 0x1234 PteRead Supervisor 0 0x8000000000080000 64 0x80001234 \<and>
   translation_fault mmu 0x40001234 PteWrite Supervisor 0 0x8000000000080000 64 15 \<and>
   translation_fault mmu 0x1234 PteWrite Supervisor 0 0x8000000000000000 64 7"
proof -
  let ?mmu = "make_Mmu (write_bytes (\<lambda>_. 0) 0 [0xCF, 0, 0, 0x20]) 0x80000000 0x10000000"
  have "fst (translate ?mmu 0x1234 PteRead Supervisor 0 0x8000000000080000 64 False) = Inr 0x80001234"
    "fst (translate ?mmu 0x40001234 PteWrite Supervisor 0 0x8000000000080000 64 False) = Inl 15"
    "fst (translate ?mmu 0x1234 PteWrite Supervisor 0 0x8000000000000000 64 False) = Inl 7"
    by code_simp+
  moreover have "mmu_ok ?mmu" by (simp add: mmu_ok_def make_Mmu_def)
  ultimately show ?thesis
    unfolding Let_def using translate_correct [where mmu = ?mmu and xl = 64 and upd = False] by blast
qed

definition updated_pte :: "PteAccess \<Rightarrow> Word \<Rightarrow> Word" where
  "updated_pte access pte = (if access = PteWrite then pte OR Pte_A OR Pte_D else pte OR Pte_A)"

lemma update_pte_sel:
  "mmem (update_pte_access_bits m addr pte access sz) =
     (if updated_pte access pte \<noteq> pte
      then host_write_fast (mmem m) (unat (addr - dram_base m)) (updated_pte access pte)
             (if sz = 4 then 2 else 3)
      else mmem m)"
  "mmu_ok (update_pte_access_bits m addr pte access sz) = mmu_ok m"
  "mmem_null (update_pte_access_bits m addr pte access sz) = mmem_null m"
  "dram_base (update_pte_access_bits m addr pte access sz) = dram_base m"
  "dram_size (update_pte_access_bits m addr pte access sz) = dram_size m"
  by (simp_all add: update_pte_access_bits_def updated_pte_def Let_def mmu_ok_def or.assoc)

text \<open>What a walk does to the state: the outcome, and the only write it can perform.\<close>

lemma page_walk_state:
  assumes "mmu_ok mmu"
  obtains m where "snd (configure mmu s xl) = m"
    "(\<exists>c. page_walk mmu va access p ms s xl upd = (Inl c, m)) \<or>
     (\<exists>pa i pte addr. leaf_of mmu va xl (sv_levels s xl) (sv_root s xl) i pte addr \<and>
        pte_permits pte access p ms \<and>
        page_walk mmu va access p ms s xl upd =
          (Inr pa, if upd then update_pte_access_bits m addr pte access (sv_pte_size xl) else m))"
proof (cases "sv_supported s xl")
  case False
  then obtain m where "configure mmu s xl = (False, m)"
    using configure_spec(1) [OF assms, of s xl] by (cases "configure mmu s xl") auto
  then show ?thesis
    by (intro that [of m]) (auto simp: page_walk_def)
next
  case True
  obtain m where conf: "configure mmu s xl = (True, m)"
    using configure_spec(1) [OF assms, of s xl] True by (cases "configure mmu s xl") auto
  note cfg = configure_spec [OF assms, of s xl, unfolded conf snd_conv]
  have leaf: "leaf_of m = leaf_of mmu" by (rule leaf_of_cong) (use cfg in simp_all)
  let ?w = "walk_levels m va access (sv_pte_size xl) (sv_vpn_bits xl) (sv_levels s xl) (sv_root s xl)"
  have pw: "page_walk mmu va access p ms s xl upd =
     (case ?w of WalkFault cause \<Rightarrow> (Inl cause, m) | WalkNoLeaf \<Rightarrow> (Inl (page_fault access), m)
      | WalkLeaf i pte addr \<Rightarrow>
          if \<not> pte_permits pte access p ms then (Inl (page_fault access), m)
          else if \<not> superpage_aligned pte xl i then (Inl (page_fault access), m)
          else (Inr ((va AND (push_bit (12 + i * sv_vpn_bits xl) 1 - 1)) OR
        (push_bit 12 (drop_bit kPteShift pte) AND NOT (push_bit (12 + i * sv_vpn_bits xl) 1 - 1))),
          if upd then update_pte_access_bits m addr pte access (sv_pte_size xl) else m))"
    unfolding page_walk_def conf
    by (simp only: prod.case Let_def not_True_eq_False if_False cfg(3-6) [OF True]
        permission_bits_of_def [symmetric] validate_permits superpage_check split: WalkResult.splits)
  have "snd (configure mmu s xl) = m" by (simp add: conf)
  moreover have "(\<exists>c. page_walk mmu va access p ms s xl upd = (Inl c, m)) \<or>
     (\<exists>pa i pte addr. leaf_of mmu va xl (sv_levels s xl) (sv_root s xl) i pte addr \<and>
        pte_permits pte access p ms \<and>
        page_walk mmu va access p ms s xl upd =
          (Inr pa, if upd then update_pte_access_bits m addr pte access (sv_pte_size xl) else m))"
  proof (cases ?w)
    case (WalkLeaf i pte addr)
    then have "leaf_of mmu va xl (sv_levels s xl) (sv_root s xl) i pte addr"
      using walk_levels_leaf [of m va access xl "sv_levels s xl" "sv_root s xl" i pte addr] leaf by simp
    then show ?thesis
      unfolding pw WalkLeaf WalkResult.case
      by (cases "pte_permits pte access p ms"; cases "superpage_aligned pte xl i") auto
  qed (simp_all add: pw)
  ultimately show ?thesis by (rule that)
qed

text \<open>Alignment: every slot of a walk is a multiple of the entry size.\<close>

lemma unat_mult_dvd:
  assumes "d = 4 \<or> d = 8"
  shows "d dvd unat (of_nat d * w :: u64)"
proof -
  have "unat (of_nat d * w :: u64) = (d * unat w) mod 2 ^ 64"
    using assms by (auto simp: unat_word_ariths)
  moreover have "d dvd 2 ^ 64" using assms by (auto simp: dvd_def)
  ultimately show ?thesis by (simp add: dvd_mod_iff)
qed

lemma slot_multiple:
  assumes "root = push_bit 12 x"
  shows "\<exists>w. pte_slot root va xl i = of_nat (sv_pte_size xl) * w"
proof (cases "xl = 64")
  case True
  then have "pte_slot root va xl i = of_nat (sv_pte_size xl) *
      (push_bit 9 x + take_bit 9 (drop_bit (12 + i * 9) va))"
    using assms by (simp add: pte_slot_def sv_pte_size_def sv_vpn_bits_def push_bit_eq_mult algebra_simps)
  then show ?thesis by blast
next
  case False
  then have "pte_slot root va xl i = of_nat (sv_pte_size xl) *
      (push_bit 10 x + take_bit 10 (drop_bit (12 + i * 10) va))"
    using assms by (simp add: pte_slot_def sv_pte_size_def sv_vpn_bits_def push_bit_eq_mult algebra_simps)
  then show ?thesis by blast
qed

lemma slot_offset_dvd:
  assumes "root = push_bit 12 x" "dram_base mmu = push_bit 12 b"
  shows "sv_pte_size xl dvd unat (pte_slot root va xl i - dram_base mmu)"
proof -
  obtain w where w: "pte_slot root va xl i = of_nat (sv_pte_size xl) * w"
    using slot_multiple [OF assms(1)] by blast
  have "dram_base mmu = of_nat (sv_pte_size xl) * push_bit (if xl = 64 then 9 else 10) b"
    using assms(2) by (simp add: sv_pte_size_def push_bit_eq_mult algebra_simps)
  then have "pte_slot root va xl i - dram_base mmu =
      of_nat (sv_pte_size xl) * (w - push_bit (if xl = 64 then 9 else 10) b)"
    by (simp add: w algebra_simps)
  then show ?thesis
    using unat_mult_dvd [of "sv_pte_size xl"] by (simp add: sv_pte_size_def)
qed

text \<open>The state after the update of the leaf at \<open>addr\<close>.\<close>

definition set_leaf :: "Mmu \<Rightarrow> nat \<Rightarrow> Address \<Rightarrow> Word \<Rightarrow> Mmu" where
  "set_leaf mmu xl addr v =
     mmu\<lparr>mmem := host_write_fast (mmem mmu) (unat (addr - dram_base mmu)) v
                    (if sv_pte_size xl = 4 then 2 else 3)\<rparr>"

lemma read_pte_alt:
  "read_pte mmu a (sv_pte_size xl) = le_word (host_bytes (mmem mmu) (unat (a - dram_base mmu)) (sv_pte_size xl))"
proof (cases "xl = 64")
  case True
  then show ?thesis
    by (simp add: read_pte_def sv_pte_size_def host_read_fast_alt extend_load_def size_of_funct3_def sign_extend_def)
next
  case False
  then show ?thesis
    by (simp add: read_pte_def sv_pte_size_def host_read_fast_alt extend_load_def size_of_funct3_def sign_extend_32)
      (rule bit_word_eqI, auto simp: bit_simps)
qed

lemma set_leaf_mem:
  "mmem (set_leaf mmu xl addr v) =
     write_bytes (mmem mmu) (unat (addr - dram_base mmu)) (le_bytes (sv_pte_size xl) v)"
  by (simp add: set_leaf_def host_write_fast_alt size_of_funct3_def sv_pte_size_def)

lemma set_leaf_sel [simp]:
  "dram_base (set_leaf mmu xl addr v) = dram_base mmu" "dram_size (set_leaf mmu xl addr v) = dram_size mmu"
  "mmem_null (set_leaf mmu xl addr v) = mmem_null mmu"
  "pte_access_valid (set_leaf mmu xl addr v) = pte_access_valid mmu"
  by (simp_all add: set_leaf_def pte_access_valid_def fun_eq_iff)

lemma read_set_leaf_same:
  "read_pte (set_leaf mmu xl addr v) addr (sv_pte_size xl) = take_bit (8 * sv_pte_size xl) v"
  using host_bytes_write_same [of "mmem mmu" _ "le_bytes (sv_pte_size xl) v"]
  by (simp add: read_pte_alt set_leaf_mem le_word_le_bytes)

lemma read_set_leaf_other:
  assumes "sv_pte_size xl dvd unat (a - dram_base mmu)" "sv_pte_size xl dvd unat (addr - dram_base mmu)"
    "a \<noteq> addr"
  shows "read_pte (set_leaf mmu xl addr v) a (sv_pte_size xl) = read_pte mmu a (sv_pte_size xl)"
proof -
  obtain j k where jk: "unat (a - dram_base mmu) = sv_pte_size xl * j"
    "unat (addr - dram_base mmu) = sv_pte_size xl * k"
    using assms(1,2) by (elim dvdE)
  have "unat (a - dram_base mmu) \<noteq> unat (addr - dram_base mmu)"
    using assms(3) by (simp add: word_unat_eq_iff [symmetric])
  then have "j < k \<or> k < j" using jk by (metis linorder_neqE_nat)
  then have "Suc j \<le> k \<or> Suc k \<le> j" by auto
  then have "sv_pte_size xl * Suc j \<le> sv_pte_size xl * k \<or> sv_pte_size xl * Suc k \<le> sv_pte_size xl * j"
    by (meson mult_le_mono2)
  then have "unat (a - dram_base mmu) + sv_pte_size xl \<le> unat (addr - dram_base mmu) \<or>
      unat (addr - dram_base mmu) + sv_pte_size xl \<le> unat (a - dram_base mmu)"
    unfolding jk by (simp add: algebra_simps)
  then show ?thesis
    using host_bytes_write_disjoint [of "unat (a - dram_base mmu)" "sv_pte_size xl" "unat (addr - dram_base mmu)" "le_bytes (sv_pte_size xl) v"]
    by (simp add: read_pte_alt set_leaf_mem)
qed

lemma leaf_slot:
  "leaf_of mmu va xl k root i pte addr \<Longrightarrow> root = push_bit 12 x \<Longrightarrow>
   \<exists>r y. addr = pte_slot r va xl i \<and> r = push_bit 12 y"
  by (induction arbitrary: x rule: leaf_of.induct) blast+

lemma leaf_reads:
  "leaf_of mmu va xl k root i pte addr \<Longrightarrow>
   pte_usable mmu addr xl \<and> pte = read_pte mmu addr (sv_pte_size xl) \<and> (bit pte 1 \<or> bit pte 2 \<or> bit pte 3)"
  by (induction rule: leaf_of.induct) auto

text \<open>
  Rewriting the accessed and dirty bits of an entry that is a leaf keeps every path through the
  tables, of every address, in place.
\<close>

lemma leaf_of_set_leaf:
  assumes "leaf_of mmu va xl k root i e a" "root = push_bit 12 x" "dram_base mmu = push_bit 12 b"
    and dvd: "sv_pte_size xl dvd unat (addr - dram_base mmu)"
    and pte: "pte = read_pte mmu addr (sv_pte_size xl)" "bit pte 1 \<or> bit pte 2 \<or> bit pte 3"
    and v: "\<And>n. n \<noteq> 6 \<Longrightarrow> n \<noteq> 7 \<Longrightarrow> bit v n = bit pte n"
  shows "leaf_of (set_leaf mmu xl addr v) va xl k root i (if a = addr then v else e) a"
proof -
  let ?m = "set_leaf mmu xl addr v"
  have "take_bit (8 * sv_pte_size xl) v = v"
  proof (rule bit_word_eqI)
    fix n
    have "\<not> bit pte n" if "8 * sv_pte_size xl \<le> n"
      using that pte(1) by (simp add: read_pte_alt bit_le_word)
    then have "\<not> bit v n" if "8 * sv_pte_size xl \<le> n"
      using that v [of n] by (auto simp: sv_pte_size_def split: if_splits)
    then show "bit (take_bit (8 * sv_pte_size xl) v) n = bit v n"
      by (auto simp: bit_take_bit_iff not_less [symmetric])
  qed
  then have same: "read_pte ?m addr (sv_pte_size xl) = v"
    by (simp add: read_set_leaf_same)
  have other: "read_pte ?m slot (sv_pte_size xl) = read_pte mmu slot (sv_pte_size xl)"
    if "slot = pte_slot r va xl n" "r = push_bit 12 y" "slot \<noteq> addr" for slot r n y
    using read_set_leaf_other [OF _ dvd that(3), of v] slot_offset_dvd [OF that(2) assms(3)] that(1) by simp
  have usable: "pte_usable ?m slot xl"
    if "slot = pte_slot r va xl n" "r = push_bit 12 y" "pte_usable mmu slot xl" for slot r n y
  proof (cases "slot = addr")
    case True
    then show ?thesis
      using that(3) v pte(1) unfolding pte_usable_def True same by auto
  next
    case False
    show ?thesis
      using that(3) unfolding pte_usable_def other [OF that(1,2) False] by simp
  qed
  show ?thesis
    using assms(1,2)
  proof (induction arbitrary: x rule: leaf_of.induct)
    case (leaf a root i e)
    show ?case
      using leaf.hyps same other [OF leaf.hyps(1) leaf.prems] usable [OF leaf.hyps(1) leaf.prems leaf.hyps(2)]
        v pte(1)
      by (intro leaf_of.leaf) auto
  next
    case (pointer slot root i ptr j e a)
    have ne: "slot \<noteq> addr"
      using pte pointer.hyps(3-6) by auto
    show ?case
      using pointer.hyps other [OF pointer.hyps(1) pointer.prems ne]
        usable [OF pointer.hyps(1) pointer.prems pointer.hyps(2)] pointer.IH [OF refl]
      by (intro leaf_of.pointer [of slot root va xl i ?m ptr]) auto
  qed
qed

lemma updated_pte_bits:
  "n \<noteq> 6 \<Longrightarrow> n \<noteq> 7 \<Longrightarrow> bit (updated_pte access pte) n = bit pte n"
  "updated_pte access (updated_pte access pte) = updated_pte access pte"
  using bit_shifted_mask [of 192 6 2 n]
  by (auto simp: updated_pte_def bit_simps push_bit_eq_mult mask_eq_exp_minus_1 intro!: bit_word_eqI)

lemma leaf_unique:
  assumes "leaf_of mmu va xl k root i pte addr" "leaf_of mmu va xl k root j e a"
  shows "j = i \<and> e = pte \<and> a = addr"
  using assms walk_levels_leaf [of mmu va PteRead xl k root] by (metis WalkResult.inject(2))

lemma same_but_AD:
  assumes "\<And>n. n \<noteq> 6 \<Longrightarrow> n \<noteq> 7 \<Longrightarrow> bit v n = bit e n"
  shows "pte_permits v access p ms = pte_permits e access p ms"
    "superpage_aligned v xl i = superpage_aligned e xl i"
    "page_address v va xl i pa = page_address e va xl i pa"
  using assms
  by (cases access; auto simp: pte_permits_def superpage_aligned_def page_address_def)+

lemma root_aligned: "\<exists>x. sv_root s xl = push_bit 12 x"
  by (auto simp: sv_root_def)

lemma spec_after_set_leaf:
  assumes base: "dram_base mmu = push_bit 12 b"
    and dvd: "sv_pte_size xl dvd unat (addr - dram_base mmu)"
    and pte: "pte = read_pte mmu addr (sv_pte_size xl)" "bit pte 1 \<or> bit pte 2 \<or> bit pte 3"
    and v: "\<And>n. n \<noteq> 6 \<Longrightarrow> n \<noteq> 7 \<Longrightarrow> bit v n = bit pte n"
    and spec: "translation_spec mmu va access p ms s xl pa"
  shows "translation_spec (set_leaf mmu xl addr v) va access p ms s xl pa"
proof -
  have "leaf_of (set_leaf mmu xl addr v) va xl (sv_levels s xl) (sv_root s xl) i (if a = addr then v else e) a \<and>
      pte_permits (if a = addr then v else e) access p ms \<and> superpage_aligned (if a = addr then v else e) xl i \<and>
      page_address (if a = addr then v else e) va xl i pa"
    if "leaf_of mmu va xl (sv_levels s xl) (sv_root s xl) i e a" "pte_permits e access p ms"
      "superpage_aligned e xl i" "page_address e va xl i pa" for i e a
  proof -
    obtain x where x: "sv_root s xl = push_bit 12 x" using root_aligned by blast
    have "a = addr \<Longrightarrow> e = pte"
      using leaf_reads [OF that(1)] pte(1) by simp
    then show ?thesis
      using leaf_of_set_leaf [OF that(1) x base dvd pte v] that(2-4) same_but_AD [OF v] by auto
  qed
  then have "(\<exists>i e a. leaf_of mmu va xl (sv_levels s xl) (sv_root s xl) i e a \<and>
        pte_permits e access p ms \<and> superpage_aligned e xl i \<and> page_address e va xl i pa) \<longrightarrow>
      (\<exists>i e a. leaf_of (set_leaf mmu xl addr v) va xl (sv_levels s xl) (sv_root s xl) i e a \<and>
        pte_permits e access p ms \<and> superpage_aligned e xl i \<and> page_address e va xl i pa)"
    by meson
  then show ?thesis
    using spec unfolding translation_spec_def by presburger
qed

lemma translation_spec_mem_cong:
  assumes "mmem mmu' = mmem mmu" "mmem_null mmu' = mmem_null mmu" "dram_base mmu' = dram_base mmu"
    "dram_size mmu' = dram_size mmu"
  shows "translation_spec mmu' = translation_spec mmu"
  using leaf_of_cong [OF assms] by (simp add: translation_spec_def fun_eq_iff)

lemma set_leaf_back:
  assumes "pte = read_pte mmu addr (sv_pte_size xl)"
  shows "mmem (set_leaf (set_leaf mmu xl addr v) xl addr pte) = mmem mmu"
proof -
  have "le_bytes (sv_pte_size xl) pte = host_bytes (mmem mmu) (unat (addr - dram_base mmu)) (sv_pte_size xl)"
    using le_bytes_le_word [of "host_bytes (mmem mmu) (unat (addr - dram_base mmu)) (sv_pte_size xl)", where 'a = 64]
    unfolding assms read_pte_alt by (simp add: sv_pte_size_def split: if_splits)
  then show ?thesis
    by (simp add: set_leaf_mem write_back)
qed

lemma spec_set_leaf_iff:
  assumes base: "dram_base mmu = push_bit 12 b"
    and dvd: "sv_pte_size xl dvd unat (addr - dram_base mmu)"
    and pte: "pte = read_pte mmu addr (sv_pte_size xl)" "bit pte 1 \<or> bit pte 2 \<or> bit pte 3"
    and v: "\<And>n. n \<noteq> 6 \<Longrightarrow> n \<noteq> 7 \<Longrightarrow> bit v n = bit pte n" and v': "take_bit (8 * sv_pte_size xl) v = v"
  shows "translation_spec (set_leaf mmu xl addr v) va access p ms s xl pa =
         translation_spec mmu va access p ms s xl pa"
proof
  let ?m = "set_leaf mmu xl addr v"
  assume spec: "translation_spec ?m va access p ms s xl pa"
  have "translation_spec (set_leaf ?m xl addr pte) va access p ms s xl pa"
  proof (rule spec_after_set_leaf [OF _ _ _ _ _ spec])
    show "dram_base ?m = push_bit 12 b" "sv_pte_size xl dvd unat (addr - dram_base ?m)"
      using base dvd by simp_all
    show "v = read_pte ?m addr (sv_pte_size xl)" using v' by (simp add: read_set_leaf_same)
    show "bit v 1 \<or> bit v 2 \<or> bit v 3" using pte(2) v by auto
    show "bit pte n = bit v n" if "n \<noteq> 6" "n \<noteq> 7" for n using v [OF that] by simp
  qed
  moreover have "translation_spec (set_leaf ?m xl addr pte) = translation_spec mmu"
    by (rule translation_spec_mem_cong) (simp_all add: set_leaf_back [OF pte(1)])
  ultimately show "translation_spec mmu va access p ms s xl pa" by simp
qed (rule spec_after_set_leaf [OF base dvd pte v])

lemma translate_state:
  assumes "mmu_ok mmu"
  obtains "mmu_ok (snd (translate mmu va access p ms s xl upd))"
    "mmem_null (snd (translate mmu va access p ms s xl upd)) = mmem_null mmu"
    "dram_base (snd (translate mmu va access p ms s xl upd)) = dram_base mmu"
    "dram_size (snd (translate mmu va access p ms s xl upd)) = dram_size mmu"
    "mmem (snd (translate mmu va access p ms s xl upd)) = mmem mmu \<or>
     upd \<and> (\<exists>pa i pte addr. fst (translate mmu va access p ms s xl upd) = Inr pa \<and>
        leaf_of mmu va xl (sv_levels s xl) (sv_root s xl) i pte addr \<and>
        updated_pte access pte \<noteq> pte \<and>
        mmem (snd (translate mmu va access p ms s xl upd)) = mmem (set_leaf mmu xl addr (updated_pte access pte)))"
proof -
  let ?t = "translate mmu va access p ms s xl upd"
  have "(\<exists>r. ?t = (r, mmu)) \<or> ?t = page_walk mmu va access p ms s xl upd"
    by (simp add: translate_def)
  then consider "\<exists>r. ?t = (r, mmu)" | "?t = page_walk mmu va access p ms s xl upd"
    by blast
  then show ?thesis
  proof cases
    case 1
    then show ?thesis using assms by (intro that) auto
  next
    case 2
    obtain m where m: "snd (configure mmu s xl) = m" and
      out: "(\<exists>c. page_walk mmu va access p ms s xl upd = (Inl c, m)) \<or>
     (\<exists>pa i pte addr. leaf_of mmu va xl (sv_levels s xl) (sv_root s xl) i pte addr \<and>
        pte_permits pte access p ms \<and>
        page_walk mmu va access p ms s xl upd =
          (Inr pa, if upd then update_pte_access_bits m addr pte access (sv_pte_size xl) else m))"
      by (rule page_walk_state [OF assms])
    note cfg = configure_spec(2,7-10) [OF assms, of s xl, unfolded m]
    from out show ?thesis
    proof (elim disjE exE conjE)
      fix c assume "page_walk mmu va access p ms s xl upd = (Inl c, m)"
      then show ?thesis using cfg by (intro that) (simp_all add: 2)
    next
      fix pa i pte addr
      assume l: "leaf_of mmu va xl (sv_levels s xl) (sv_root s xl) i pte addr" and
        pw: "page_walk mmu va access p ms s xl upd =
          (Inr pa, if upd then update_pte_access_bits m addr pte access (sv_pte_size xl) else m)"
      have mem: "mmem (update_pte_access_bits m addr pte access (sv_pte_size xl)) =
          (if updated_pte access pte \<noteq> pte then mmem (set_leaf mmu xl addr (updated_pte access pte)) else mmem mmu)"
        using cfg by (simp add: update_pte_sel set_leaf_def)
      show ?thesis
      proof (cases "upd \<and> updated_pte access pte \<noteq> pte")
        case True
        then have tr: "?t = (Inr pa, update_pte_access_bits m addr pte access (sv_pte_size xl))"
          using 2 pw by simp
        show ?thesis
          by (rule that, unfold tr fst_conv snd_conv)
            (use l mem cfg True in \<open>auto simp: update_pte_sel(2-5)\<close>)
      next
        case False
        have tr: "?t = (Inr pa, if upd then update_pte_access_bits m addr pte access (sv_pte_size xl) else m)"
          using 2 pw by simp
        show ?thesis
          by (rule that, unfold tr fst_conv snd_conv)
            (use mem cfg False in \<open>auto simp: update_pte_sel(2-5)\<close>)
      qed
    qed
  qed
qed

lemma pte_access_valid_bound:
  assumes "pte_access_valid mmu a n"
  shows "unat (a - dram_base mmu) + unat n \<le> unat (dram_size mmu)"
proof -
  have n: "n \<le> dram_size mmu" "a - dram_base mmu \<le> dram_size mmu - n"
    using assms by (auto simp: pte_access_valid_def split: if_splits)
  then have "unat (a - dram_base mmu) \<le> unat (dram_size mmu) - unat n"
    using unat_sub [of n "dram_size mmu"] by (simp add: word_le_nat_alt)
  then show ?thesis
    using n(1) by (simp add: word_le_nat_alt)
qed

text \<open>(C32)
  A translation writes at most one page-table entry: faults and probing translations leave memory
  alone, and any change is the leaf entry of this very walk with its accessed bit (and its dirty bit
  for a write) set, inside the backing memory. The configuration cache stays consistent.
\<close>

theorem translate_writes_only_AD:
  assumes "mmu_ok mmu"
  shows "let (r, mmu') = translate mmu va access p ms s xl upd in
     mmu_ok mmu' \<and>
     ((\<exists>c. r = Inl c) \<or> \<not> upd \<longrightarrow> mmem mmu' = mmem mmu) \<and>
     (mmem mmu' \<noteq> mmem mmu \<longrightarrow>
        (\<exists>i pte addr. leaf_of mmu va xl (sv_levels s xl) (sv_root s xl) i pte addr \<and>
           mmem mmu' = write_bytes (mmem mmu) (unat (addr - dram_base mmu))
                         (le_bytes (sv_pte_size xl) (updated_pte access pte)) \<and>
           unat (addr - dram_base mmu) + sv_pte_size xl \<le> unat (dram_size mmu)))"
proof -
  obtain r mmu' where t: "translate mmu va access p ms s xl upd = (r, mmu')" by fastforce
  have ok: "mmu_ok mmu'" by (rule translate_state [OF assms, of va access p ms s xl upd]) (simp add: t)
  have mem: "mmem mmu' = mmem mmu \<or>
     upd \<and> (\<exists>pa i pte addr. r = Inr pa \<and>
        leaf_of mmu va xl (sv_levels s xl) (sv_root s xl) i pte addr \<and> updated_pte access pte \<noteq> pte \<and>
        mmem mmu' = mmem (set_leaf mmu xl addr (updated_pte access pte)))"
    by (rule translate_state [OF assms, of va access p ms s xl upd]) (simp add: t)
  have bound: "unat (addr - dram_base mmu) + sv_pte_size xl \<le> unat (dram_size mmu)"
    if "leaf_of mmu va xl (sv_levels s xl) (sv_root s xl) i pte addr" for i pte addr
    using leaf_reads [OF that] pte_access_valid_bound [of mmu addr "of_nat (sv_pte_size xl)"]
    by (simp add: pte_usable_def sv_pte_size_def split: if_splits)
  show ?thesis
    unfolding t Let_def prod.case using ok mem bound by (auto simp: set_leaf_mem)
qed

theorem translate_writes_only_AD_witness:
  "mmem (snd (translate (make_Mmu (write_bytes (\<lambda>_. 0) 0 [0x0F, 0, 0, 0x20]) 0x80000000 0x10000000)
     0x1234 PteWrite Supervisor 0 0x8000000000080000 64 False)) =
   mmem (make_Mmu (write_bytes (\<lambda>_. 0) 0 [0x0F, 0, 0, 0x20]) 0x80000000 0x10000000)"
proof -
  let ?mmu = "make_Mmu (write_bytes (\<lambda>_. 0) 0 [0x0F, 0, 0, 0x20]) 0x80000000 0x10000000"
  have "mmu_ok ?mmu" by (simp add: mmu_ok_def make_Mmu_def)
  from translate_writes_only_AD [OF this, of "0x1234" PteWrite Supervisor 0 "0x8000000000080000" 64 False]
  show ?thesis by (simp add: split_beta Let_def)
qed

text \<open>Translations do not interfere. The accessed and dirty updates of a translation never change the
  result of any other translation, whatever its address, access, privilege, status and root; in
  particular repeating a translation gives the same frame, which is what caching it relies on.
\<close>

theorem translations_independent:
  assumes "mmu_ok mmu" and "xl = 32 \<or> xl = 64" and "dram_base mmu = push_bit 12 b"
  shows "fst (translate (snd (translate mmu va access p ms s xl upd)) va2 access2 p2 ms2 s2 xl upd2) = Inr pa
     \<longleftrightarrow> fst (translate mmu va2 access2 p2 ms2 s2 xl upd2) = Inr pa"
proof -
  let ?m = "snd (translate mmu va access p ms s xl upd)"
  have ok: "mmu_ok ?m" "mmem_null ?m = mmem_null mmu" "dram_base ?m = dram_base mmu" "dram_size ?m = dram_size mmu"
    by (rule translate_state [OF assms(1), of va access p ms s xl upd], assumption)+
  have mem: "mmem ?m = mmem mmu \<or> (\<exists>i pte addr.
        leaf_of mmu va xl (sv_levels s xl) (sv_root s xl) i pte addr \<and>
        mmem ?m = mmem (set_leaf mmu xl addr (updated_pte access pte)))"
    by (rule translate_state [OF assms(1), of va access p ms s xl upd]) blast
  have "translation_spec ?m va2 access2 p2 ms2 s2 xl pa = translation_spec mmu va2 access2 p2 ms2 s2 xl pa"
  proof (cases "mmem ?m = mmem mmu")
    case True
    then show ?thesis
      using translation_spec_mem_cong [OF True ok(2-4)] by simp
  next
    case False
    then obtain i pte addr where l: "leaf_of mmu va xl (sv_levels s xl) (sv_root s xl) i pte addr"
      and m: "mmem ?m = mmem (set_leaf mmu xl addr (updated_pte access pte))"
      using mem by blast
    obtain x where x: "sv_root s xl = push_bit 12 x" using root_aligned by blast
    obtain r y where r: "addr = pte_slot r va xl i" "r = push_bit 12 y"
      using leaf_slot [OF l x] by blast
    note pte = leaf_reads [OF l]
    have small: "\<not> bit pte n" if "8 * sv_pte_size xl \<le> n" for n
      using that pte by (simp add: read_pte_alt bit_le_word)
    have "take_bit (8 * sv_pte_size xl) (updated_pte access pte) = updated_pte access pte"
    proof (rule bit_word_eqI)
      fix n
      show "bit (take_bit (8 * sv_pte_size xl) (updated_pte access pte)) n = bit (updated_pte access pte) n"
        using small [of n] updated_pte_bits(1) [of n access pte]
        by (cases "n < 8 * sv_pte_size xl") (auto simp: bit_take_bit_iff sv_pte_size_def split: if_splits)
    qed
    then have "translation_spec (set_leaf mmu xl addr (updated_pte access pte)) va2 access2 p2 ms2 s2 xl pa =
        translation_spec mmu va2 access2 p2 ms2 s2 xl pa"
      using pte slot_offset_dvd [OF r(2) assms(3)] r(1)
      by (intro spec_set_leaf_iff [OF assms(3), of xl addr pte]) (auto simp: updated_pte_bits)
    moreover have "translation_spec ?m = translation_spec (set_leaf mmu xl addr (updated_pte access pte))"
      by (rule translation_spec_mem_cong) (use ok m in simp_all)
    ultimately show ?thesis by simp
  qed
  then show ?thesis
    using translate_success [OF ok(1) assms(2)] translate_success [OF assms(1,2)] by simp
qed

theorem translations_independent_witness:
  "fst (translate (snd (translate
       (make_Mmu (write_bytes (\<lambda>_. 0) 0 [0x0F, 0, 0, 0x20]) 0x80000000 0x10000000)
       0x1234 PteWrite Supervisor 0 0x8000000000080000 64 True))
     0x5678 PteRead Supervisor 0 0x8000000000080000 64 True) = Inr 0x80005678"
proof -
  let ?mmu = "make_Mmu (write_bytes (\<lambda>_. 0) 0 [0x0F, 0, 0, 0x20]) 0x80000000 0x10000000"
  have "mmu_ok ?mmu" by (simp add: mmu_ok_def make_Mmu_def)
  moreover have "dram_base ?mmu = push_bit 12 0x80000" by (simp add: make_Mmu_def)
  moreover have "fst (translate ?mmu 0x5678 PteRead Supervisor 0 0x8000000000080000 64 True) = Inr 0x80005678"
    by code_simp
  ultimately show ?thesis
    using translations_independent [of ?mmu 64 "0x80000" "0x1234" PteWrite Supervisor 0
        "0x8000000000080000" True "0x5678" PteRead Supervisor 0 "0x8000000000080000" True "0x80005678"]
    by blast
qed

end
