(* ===== verification/Cpu_State.thy ===== *)
theory Cpu_State
  imports Mmu_Walk
begin

text \<open>
  \<^verbatim>\<open>class CPU\<close> (\<^verbatim>\<open>include/simrv/core/Cpu.hpp\<close>): the hart as one record (architectural state, the
  interrupt controllers, the caches and translation buffers, counters, trace ring and undo stack)
  and the operations that only move state between these parts: reset, the flushes, the effective
  privilege, the trace ring, checkpointing and backstepping.

  Left out of the record: the pipeline timing model (\<^verbatim>\<open>pipeline_sim\<close>, statistics only), the
  coroutine handle (the coroutine is suspended between instructions and holds no state of its own),
  and the log stream. The owner of the hart, \<^verbatim>\<open>class Machine\<close>, is the record \<open>MachineState\<close> in
  the field \<open>machine\<close>: its run-state flags, the configuration flags the modelled code reads, the
  host-communication register and the bytes written to the host console.
\<close>

record PlicMmio =
  plic_pending :: "nat \<Rightarrow> Word"
  plic_priorities :: "nat \<Rightarrow> Word"
  plic_enables :: "nat \<Rightarrow> nat \<Rightarrow> Word"
  plic_threshold :: "nat \<Rightarrow> Word"
  plic_claim :: "nat \<Rightarrow> Word"

definition plic_reset :: "PlicMmio \<Rightarrow> PlicMmio" where
  "plic_reset pl =
     pl\<lparr>plic_pending := (\<lambda>_. 0), plic_priorities := (\<lambda>_. 0), plic_enables := (\<lambda>_ _. 0),
        plic_threshold := (\<lambda>_. 0), plic_claim := (\<lambda>_. 0)\<rparr>"

record ClintMmio =
  mtime :: u64
  mtimecmp :: u64
  supervisor_timer :: bool
  mcycle :: u64
  rtc_divider :: int

definition clint_reset :: "ClintMmio \<Rightarrow> ClintMmio" where
  "clint_reset cl =
     cl\<lparr>mtime := 1, mtimecmp := NOT 0, supervisor_timer := False, mcycle := 1, rtc_divider := 0\<rparr>"

record MemWriteRecord =
  mw_addr :: Address
  mw_old_data :: Word
  mw_funct3 :: Instruction

record ClintState =
  cs_mtime :: u64
  cs_mtimecmp :: u64
  cs_mcycle :: u64
  cs_rtc_divider :: int

record UndoStep =
  us_state :: ArchState
  mem_writes :: "MemWriteRecord list"
  us_pipeline_context :: PipelineContext
  us_clint_state :: ClintState
  us_e_icount :: u64
  us_e_ccount :: u64
  us_e_instmix :: "OperationId \<Rightarrow> u64"

record TraceHistoryEntry =
  th_pc :: Address
  th_inst :: Instruction
  th_symbol :: string

definition kTraceHistoryCapacity :: nat where
  "kTraceHistoryCapacity = 50"

datatype ExecutionState = Running | Paused | Stepping | Stopped

record MachineState =
  tohost :: u64
  reboot_requested :: bool
  exit_code :: u32
  is_shutdown :: bool
  is_running :: bool
  execution_state :: ExecutionState
  s_appmode :: bool
  s_tuimode :: bool
  s_gui_mode :: bool
  s_use_mix :: bool
  s_bp_trace :: bool
  s_cycle_accurate :: bool
  s_high_performance :: bool
  s_mmu_ever_used :: bool
  s_rollback_enabled :: bool
  s_gdb_mode :: bool
  s_lockstep_mode :: bool
  s_strace :: u64
  s_isatest_tohost :: Address
  s_misa_profile :: CSRValue
  console_out :: "u8 list"

record CPU =
  st :: ArchState
  prev_st :: ArchState
  tlb :: Tlb
  plic_mmio :: PlicMmio
  clint_mmio :: ClintMmio
  pipeline_context :: PipelineContext
  icache :: BaseCache
  dcache :: BaseCache
  decode_cache :: DecodeCache
  soft_tlbs :: SoftTlbs
  e_icount :: u64
  e_ccount :: u64
  e_instmix :: "OperationId \<Rightarrow> u64"
  undo_stack :: "UndoStep list"
  trace_history_buf :: "nat \<Rightarrow> TraceHistoryEntry"
  trace_history_head :: nat
  trace_history_size :: nat
  use_opensbi :: bool
  machine :: MachineState

subsection \<open>Flushes\<close>

definition TLB_flush :: "CPU \<Rightarrow> CPU" where
  "TLB_flush c =
     c\<lparr>tlb := tlb_flush (tlb c), decode_cache := decode_flush (decode_cache c),
       icache := cache_flush (icache c) False, dcache := cache_flush (dcache c) False,
       soft_tlbs := soft_tlb_flush (soft_tlbs c)\<rparr>"

definition soft_tlb_flush_selective ::
    "SoftTlbs \<Rightarrow> bool \<Rightarrow> Address \<Rightarrow> bool \<Rightarrow> Word \<Rightarrow> SoftTlbs" where
  "soft_tlb_flush_selective st' match_all_vaddr vaddr match_all_asid asid = soft_tlb_flush st'"

definition TLB_flush_selective :: "CPU \<Rightarrow> bool \<Rightarrow> Address \<Rightarrow> bool \<Rightarrow> Word \<Rightarrow> CPU" where
  "TLB_flush_selective c match_all_vaddr vaddr match_all_asid asid =
     c\<lparr>tlb := flush_selective (tlb c) match_all_vaddr vaddr match_all_asid asid,
       decode_cache := decode_flush (decode_cache c),
       soft_tlbs := soft_tlb_flush_selective (soft_tlbs c) match_all_vaddr vaddr match_all_asid asid\<rparr>"

subsection \<open>Reset and effective privilege\<close>

definition cpu_reset :: "CPU \<Rightarrow> CPU" where
  "cpu_reset c =
     (let s0 = initial_ArchState;
          r1 = fill_vector (fill_fp (fill_reg (regs s0) 0) 0) (\<lambda>_. 0);
          s1 = s0\<lparr>regs := r1, mstatus := push_bit 9 2 OR (push_bit 34 2 OR push_bit 32 2)\<rparr>;
          c1 = c\<lparr>st := initialize_lower_xlen_fields s1, prev_st := initial_ArchState,
                 pipeline_context := initial_PipelineContext,
                 plic_mmio := plic_reset (plic_mmio c), clint_mmio := clint_reset (clint_mmio c)\<rparr>;
          c2 = TLB_flush c1
      in c2\<lparr>e_icount := 0, e_ccount := 0, e_instmix := (\<lambda>_. 0), undo_stack := [],
            trace_history_head := 0, trace_history_size := 0\<rparr>)"

text \<open>The member initialisers, and the constructor, which resets.\<close>

definition initial_MachineState :: MachineState where
  "initial_MachineState =
     \<lparr>tohost = 0, reboot_requested = False, exit_code = 0, is_shutdown = False, is_running = True,
      execution_state = Running, s_appmode = True, s_tuimode = False, s_gui_mode = False,
      s_use_mix = False, s_bp_trace = False, s_cycle_accurate = False,
      s_high_performance = True, s_mmu_ever_used = False, s_rollback_enabled = False,
      s_gdb_mode = False, s_lockstep_mode = False, s_strace = 0,
      s_isatest_tohost = 0x80001000, s_misa_profile = kMisaDefault,
      console_out = []\<rparr>"

definition default_CPU :: CPU where
  "default_CPU =
     \<lparr>st = initial_ArchState, prev_st = initial_ArchState,
      tlb = \<lparr>inst_r = (\<lambda>_ _. empty_TLBEntry), data_r = (\<lambda>_ _. empty_TLBEntry),
             data_w = (\<lambda>_ _. empty_TLBEntry), inst_r_lru = (\<lambda>_. 0), data_r_lru = (\<lambda>_. 0),
             data_w_lru = (\<lambda>_. 0)\<rparr>,
      plic_mmio = \<lparr>plic_pending = (\<lambda>_. 0), plic_priorities = (\<lambda>_. 0), plic_enables = (\<lambda>_ _. 0),
                   plic_threshold = (\<lambda>_. 0), plic_claim = (\<lambda>_. 0)\<rparr>,
      clint_mmio = \<lparr>mtime = 1, mtimecmp = 0, supervisor_timer = False, mcycle = 1, rtc_divider = 0\<rparr>,
      pipeline_context = initial_PipelineContext, icache = initial_BaseCache,
      dcache = initial_BaseCache, decode_cache = initial_DecodeCache, soft_tlbs = initial_SoftTlbs,
      e_icount = 0, e_ccount = 0, e_instmix = (\<lambda>_. 0), undo_stack = [],
      trace_history_buf = (\<lambda>_. \<lparr>th_pc = 0, th_inst = 0, th_symbol = []\<rparr>), trace_history_head = 0,
      trace_history_size = 0, use_opensbi = False, machine = initial_MachineState\<rparr>"

definition make_CPU :: CPU where
  "make_CPU = cpu_reset default_CPU"

definition effective_data_privilege :: "CPU \<Rightarrow> PrivilegeLevel" where
  "effective_data_privilege c =
     (if mstatus (st c) AND Mstatus_Mprv \<noteq> 0
      then ucast (drop_bit 11 (mstatus (st c) AND Mstatus_Mpp))
      else priv (st c))"

definition effective_data_xlen :: "CPU \<Rightarrow> nat" where
  "effective_data_xlen c = xlen_for_privilege (st c) (effective_data_privilege c)"

subsection \<open>Trace ring\<close>

definition push_trace_history :: "CPU \<Rightarrow> Address \<Rightarrow> Instruction \<Rightarrow> string \<Rightarrow> CPU" where
  "push_trace_history c p inst symbol =
     (let c1 = c\<lparr>trace_history_buf := (trace_history_buf c)(trace_history_head c :=
                  \<lparr>th_pc = p, th_inst = inst, th_symbol = symbol\<rparr>),
                 trace_history_head := (trace_history_head c + 1) mod kTraceHistoryCapacity\<rparr>
      in if trace_history_size c1 < kTraceHistoryCapacity
         then c1\<lparr>trace_history_size := trace_history_size c1 + 1\<rparr> else c1)"

definition trace_history_view :: "CPU \<Rightarrow> TraceHistoryEntry list" where
  "trace_history_view c =
     (let start = (trace_history_head c + kTraceHistoryCapacity - trace_history_size c)
                  mod kTraceHistoryCapacity
      in map (\<lambda>i. trace_history_buf c ((start + i) mod kTraceHistoryCapacity))
           [0..<trace_history_size c])"

subsection \<open>Checkpoints and backstepping\<close>

definition checkpoint :: "CPU \<Rightarrow> UndoStep" where
  "checkpoint c =
     \<lparr>us_state = st c, mem_writes = [], us_pipeline_context = pipeline_context c,
      us_clint_state = \<lparr>cs_mtime = mtime (clint_mmio c), cs_mtimecmp = mtimecmp (clint_mmio c),
                        cs_mcycle = mcycle (clint_mmio c), cs_rtc_divider = rtc_divider (clint_mmio c)\<rparr>,
      us_e_icount = e_icount c, us_e_ccount = e_ccount c, us_e_instmix = e_instmix c\<rparr>"

definition push_undo_state :: "CPU \<Rightarrow> CPU" where
  "push_undo_state c =
     (let stack = checkpoint c # undo_stack c
      in c\<lparr>undo_stack := (if length stack > 1024 then butlast stack else stack)\<rparr>)"

definition record_mem_write :: "CPU \<Rightarrow> Address \<Rightarrow> Word \<Rightarrow> Instruction \<Rightarrow> CPU" where
  "record_mem_write c paddr old_data f3 =
     (case undo_stack c of
        [] \<Rightarrow> c
      | step # rest \<Rightarrow>
          c\<lparr>undo_stack :=
              step\<lparr>mem_writes := mem_writes step @
                     [\<lparr>mw_addr = paddr, mw_old_data = old_data, mw_funct3 = f3\<rparr>]\<rparr> # rest\<rparr>)"

definition undo_writes :: "MemWriteRecord list \<Rightarrow> HostMem \<Rightarrow> HostMem" where
  "undo_writes ws mem =
     foldl (\<lambda>m w. ram_write_fast (mw_addr w) (mw_old_data w) (mw_funct3 w) m) mem (rev ws)"

definition perform_backstep :: "CPU \<Rightarrow> HostMem \<Rightarrow> bool \<times> CPU \<times> HostMem" where
  "perform_backstep c mem =
     (case undo_stack c of
        [] \<Rightarrow> (False, c, mem)
      | step # rest \<Rightarrow>
          let mem' = undo_writes (mem_writes step) mem;
              cs = us_clint_state step
          in (True,
              c\<lparr>undo_stack := rest,
                machine := (machine c)\<lparr>is_shutdown := False, is_running := True\<rparr>, st := us_state step,
                pipeline_context := us_pipeline_context step,
                clint_mmio := (clint_mmio c)\<lparr>mtime := cs_mtime cs, mtimecmp := cs_mtimecmp cs,
                                             mcycle := cs_mcycle cs, rtc_divider := cs_rtc_divider cs\<rparr>,
                e_icount := us_e_icount step, e_ccount := us_e_ccount step,
                e_instmix := us_e_instmix step, soft_tlbs := soft_tlb_flush (soft_tlbs c)\<rparr>,
              mem'))"

subsection \<open>Backstepping restores, the ring keeps the last entries\<close>

text \<open>
  What happens between a checkpoint and its backstep: stores recorded the way the store paths record
  them (the old value read with the store's own access code, then the write), and changes of the
  architectural state.
\<close>

datatype UndoOp = RecordedStore Address Word Instruction | StateChange "ArchState \<Rightarrow> ArchState"

fun undo_op :: "CPU \<times> HostMem \<Rightarrow> UndoOp \<Rightarrow> CPU \<times> HostMem" where
  "undo_op (c, m) (RecordedStore a v f) =
     (record_mem_write c a (ram_read_fast a f m) f, ram_write_fast a v f m)"
| "undo_op (c, m) (StateChange g) = (c\<lparr>st := g (st c)\<rparr>, m)"

lemma ram_write_undo: "ram_write_fast a (ram_read_fast a f m) f (ram_write_fast a v f m) = m"
  by (simp add: ram_write_fast_def ram_read_fast_def host_write_undo)

lemma undo_writes_snoc:
  "undo_writes (ws @ [w]) m = undo_writes ws (ram_write_fast (mw_addr w) (mw_old_data w) (mw_funct3 w) m)"
  by (simp add: undo_writes_def)

lemma undo_ops_inv:
  assumes "undo_stack c = step # rest" "foldl undo_op (c, m) ops = (c', m')"
  shows "\<exists>step'. undo_stack c' = step' # rest \<and> us_state step' = us_state step \<and>
     us_pipeline_context step' = us_pipeline_context step \<and> us_clint_state step' = us_clint_state step \<and>
     us_e_icount step' = us_e_icount step \<and> us_e_ccount step' = us_e_ccount step \<and>
     us_e_instmix step' = us_e_instmix step \<and>
     undo_writes (mem_writes step') m' = undo_writes (mem_writes step) m"
  using assms
proof (induction ops arbitrary: c m step)
  case (Cons x ops)
  show ?case
  proof (cases x)
    case (RecordedStore a v f)
    let ?w = "\<lparr>mw_addr = a, mw_old_data = ram_read_fast a f m, mw_funct3 = f\<rparr>"
    have "undo_stack (record_mem_write c a (ram_read_fast a f m) f) = step\<lparr>mem_writes := mem_writes step @ [?w]\<rparr> # rest"
      using Cons.prems(1) by (simp add: record_mem_write_def)
    from Cons.IH [OF this, of "ram_write_fast a v f m"] show ?thesis
      using Cons.prems(2) RecordedStore by (simp add: undo_writes_snoc ram_write_undo)
  next
    case (StateChange g)
    then show ?thesis
      using Cons.IH [of "c\<lparr>st := g (st c)\<rparr>" step m] Cons.prems by simp
  qed
qed simp

text \<open>(C21)
  Time travel. After a checkpoint, any number of recorded stores of any width, overlapping or not,
  interleaved with any changes of the architectural state, a backstep succeeds and restores the
  memory, the architectural state, the pipeline context, the counters and the four saved timer
  registers.
\<close>

theorem backstep_restores:
  assumes "foldl undo_op (push_undo_state c, m) ops = (c1, m1)"
    and "perform_backstep c1 m1 = (ok, c2, m2)"
  shows "ok \<and> m2 = m \<and> st c2 = st c \<and> pipeline_context c2 = pipeline_context c \<and>
     e_icount c2 = e_icount c \<and> e_ccount c2 = e_ccount c \<and> e_instmix c2 = e_instmix c \<and>
     mtime (clint_mmio c2) = mtime (clint_mmio c) \<and>
     mtimecmp (clint_mmio c2) = mtimecmp (clint_mmio c) \<and>
     mcycle (clint_mmio c2) = mcycle (clint_mmio c) \<and>
     rtc_divider (clint_mmio c2) = rtc_divider (clint_mmio c)"
proof -
  have "\<exists>rest. undo_stack (push_undo_state c) = checkpoint c # rest"
    by (cases "undo_stack c") (simp_all add: push_undo_state_def Let_def)
  then obtain rest where s: "undo_stack (push_undo_state c) = checkpoint c # rest" by blast
  from undo_ops_inv [OF s(1) assms(1)] obtain step' where s': "undo_stack c1 = step' # rest"
    "us_state step' = st c" "us_pipeline_context step' = pipeline_context c"
    "us_clint_state step' = us_clint_state (checkpoint c)"
    "us_e_icount step' = e_icount c" "us_e_ccount step' = e_ccount c" "us_e_instmix step' = e_instmix c"
    "undo_writes (mem_writes step') m1 = undo_writes [] m"
    by (auto simp: checkpoint_def)
  show ?thesis
    using assms(2) s' by (auto simp: perform_backstep_def Let_def undo_writes_def checkpoint_def)
qed

theorem backstep_restores_witness:
  "snd (snd (perform_backstep
     (fst (undo_op (push_undo_state make_CPU, \<lambda>_. 0) (RecordedStore 0x80000010 0x55 0)))
     (snd (undo_op (push_undo_state make_CPU, \<lambda>_. 0) (RecordedStore 0x80000010 0x55 0))))) = (\<lambda>_. 0)"
proof -
  let ?r = "undo_op (push_undo_state make_CPU, \<lambda>_. 0) (RecordedStore 0x80000010 0x55 0)"
  have "foldl undo_op (push_undo_state make_CPU, \<lambda>_. 0) [RecordedStore 0x80000010 0x55 0] = (fst ?r, snd ?r)"
    by simp
  from backstep_restores [OF this, of "fst (perform_backstep (fst ?r) (snd ?r))"
      "fst (snd (perform_backstep (fst ?r) (snd ?r)))" "snd (snd (perform_backstep (fst ?r) (snd ?r)))"]
  show ?thesis by simp
qed

definition push_traces :: "CPU \<Rightarrow> TraceHistoryEntry list \<Rightarrow> CPU" where
  "push_traces c es = foldl (\<lambda>c e. push_trace_history c (th_pc e) (th_inst e) (th_symbol e)) c es"

lemma push_traces_inv:
  assumes "trace_history_head c = 0" "trace_history_size c = 0"
  defines "n \<equiv> \<lambda>es. min 50 (length es)"
  shows "trace_history_head (push_traces c es) = length es mod 50 \<and>
     trace_history_size (push_traces c es) = n es \<and>
     (\<forall>j < length es. length es \<le> j + 50 \<longrightarrow> trace_history_buf (push_traces c es) (j mod 50) = es ! j)"
proof (induction es rule: rev_induct)
  case Nil
  then show ?case using assms by (simp add: push_traces_def)
next
  case (snoc e es)
  let ?c = "push_traces c es"
  have c': "push_traces c (es @ [e]) = push_trace_history ?c (th_pc e) (th_inst e) (th_symbol e)"
    by (simp add: push_traces_def)
  have other: "j mod 50 \<noteq> length es mod 50" if "j < length es" "Suc (length es) \<le> j + 50" for j
  proof
    assume "j mod 50 = length es mod 50"
    then have "50 dvd length es - j" using that(1) mod_eq_dvd_iff_nat [of j "length es" 50] by simp
    then show False using that by (auto dest: dvd_imp_le)
  qed
  show ?case
    using snoc.IH other
    by (auto simp: c' push_trace_history_def Let_def kTraceHistoryCapacity_def n_def nth_append mod_Suc less_Suc_eq)
qed

text \<open>
  The trace ring. After any number of pushes the chronological view is the list of the last fifty
  entries pushed, in order.
\<close>

theorem trace_ring_keeps_last:
  assumes "trace_history_head c = 0" and "trace_history_size c = 0"
  shows "trace_history_view (push_traces c es) = drop (length es - 50) es"
proof -
  let ?n = "min 50 (length es)"
  note inv = push_traces_inv [OF assms, of es]
  have start: "(length es mod 50 + 50 + i - ?n) mod 50 = (length es + i - ?n) mod 50" for i
  proof (cases "length es < 50")
    case False
    then obtain k where k: "length es = k + 50"
      by (metis add.commute le_iff_add not_less)
    then show ?thesis by (simp add: mod_add_left_eq)
  qed (simp add: min_def)
  show ?thesis
  proof (rule nth_equalityI)
    show "length (trace_history_view (push_traces c es)) = length (drop (length es - 50) es)"
      using inv by (simp add: trace_history_view_def Let_def)
  next
    fix i assume "i < length (trace_history_view (push_traces c es))"
    then have i: "i < ?n" using inv by (simp add: trace_history_view_def Let_def)
    then have "trace_history_view (push_traces c es) ! i = trace_history_buf (push_traces c es) ((length es - ?n + i) mod 50)"
      using inv by (simp add: trace_history_view_def Let_def kTraceHistoryCapacity_def mod_add_left_eq start)
    also have "\<dots> = es ! (length es - ?n + i)"
    proof -
      have "length es - ?n + i < length es" "length es \<le> length es - ?n + i + 50"
        using i by (auto simp: min_def)
      then show ?thesis using inv by blast
    qed
    finally show "trace_history_view (push_traces c es) ! i = drop (length es - 50) es ! i"
      using i by (auto simp: min_def split: if_splits)
  qed
qed

theorem trace_ring_keeps_last_witness:
  "length (trace_history_view (push_traces make_CPU (replicate 60 \<lparr>th_pc = 4, th_inst = 0x13, th_symbol = ''f''\<rparr>))) = 50"
proof -
  have "trace_history_head make_CPU = 0" "trace_history_size make_CPU = 0"
    by (simp_all add: make_CPU_def cpu_reset_def Let_def)
  from trace_ring_keeps_last [OF this] show ?thesis by simp
qed

end
