(* ===== verification/Csr_File.thy ===== *)
theory Csr_File
  imports Cpu_State
begin

text \<open>
  \<^verbatim>\<open>class CsrFile\<close> (\<^verbatim>\<open>src/core/CsrFile.cpp\<close>): reads and writes of the control and status
  registers. A read returns a value or the illegal-instruction exception, a write returns the new
  hart or the exception. The two guards the source repeats in every floating-point and vector case
  are named \<open>fp_disabled\<close> and \<open>vec_disabled\<close>.
\<close>

definition kCounterEnableMask :: CSRValue where
  "kCounterEnableMask = 0x7"

definition getMstatus :: "CPU \<Rightarrow> CSRValue \<Rightarrow> CSRValue" where
  "getMstatus c m =
     (let mi = misa (st c);
          implemented = mstatus_writable_mask (misa_has_extension mi Ext_S)
            (misa_has_extension mi Ext_U) (misa_has_extension mi Ext_F) (misa_has_extension mi Ext_V)
      in mstatus_read_value (mstatus (st c)) (m AND (implemented OR kMstatusSd))
           (xlen (regs (st c))))"

text \<open>One round of the loop over the SXL and UXL fields.\<close>

definition legalize_xl :: "CSRValue \<Rightarrow> CSRValue \<Rightarrow> nat \<Rightarrow> CSRValue \<Rightarrow> CSRValue" where
  "legalize_xl mxl old shift wdata =
     (let field_mask = push_bit shift 0x3;
          requested = drop_bit shift wdata AND 0x3
      in if mxl = 1 then (wdata AND NOT field_mask) OR push_bit shift 1
         else if requested \<noteq> 1 \<and> requested \<noteq> 2
         then (wdata AND NOT field_mask) OR (old AND field_mask)
         else wdata)"

text \<open>UXL is lowered to SXL when it is above it.\<close>

definition cap_uxl :: "CSRValue \<Rightarrow> CSRValue" where
  "cap_uxl wdata =
     (let sxl = drop_bit 34 wdata AND 0x3;
          uxl = drop_bit 32 wdata AND 0x3
      in if uxl > sxl then (wdata AND NOT (push_bit 32 0x3)) OR push_bit 32 sxl else wdata)"

definition legalize_mstatus :: "CSRValue \<Rightarrow> CSRValue \<Rightarrow> CSRValue \<Rightarrow> CSRValue" where
  "legalize_mstatus mi old wdata0 =
     (let has_s = misa_has_extension mi Ext_S;
          has_u = misa_has_extension mi Ext_U;
          w1 = mstatus_legalize_mpp wdata0 has_s has_u;
          mxl = drop_bit 62 mi AND 0x3;
          w2 = legalize_xl mxl old 32 w1;
          w3 = legalize_xl mxl old 34 w2
      in cap_uxl w3)"

definition setMstatus :: "CPU \<Rightarrow> CSRValue \<Rightarrow> CPU" where
  "setMstatus c wdata0 =
     (let mi = misa (st c);
          has_s = misa_has_extension mi Ext_S;
          has_u = misa_has_extension mi Ext_U;
          has_f = misa_has_extension mi Ext_F;
          has_v = misa_has_extension mi Ext_V;
          old = mstatus (st c);
          wdata = legalize_mstatus mi old wdata0;
          modified = old XOR wdata;
          tlb_sensitive = Mstatus_Mprv OR Mstatus_Sum OR Mstatus_Mxr;
          c1 = (if modified AND tlb_sensitive \<noteq> 0 \<or>
                   old AND Mstatus_Mprv \<noteq> 0 \<and> modified AND Mstatus_Mpp \<noteq> 0
                then TLB_flush c else c);
          m = mstatus_writable_mask has_s has_u has_f has_v;
          new = ((old AND NOT m) OR (wdata AND m)) AND m
      in c1\<lparr>st := update_xlen ((st c1)\<lparr>mstatus := new\<rparr>)\<rparr>)"

definition fp_disabled :: "ArchState \<Rightarrow> bool" where
  "fp_disabled s \<longleftrightarrow> \<not> misa_has_extension (misa s) Ext_F \<or> mstatus s AND Mstatus_Fs = 0"

definition vec_disabled :: "ArchState \<Rightarrow> bool" where
  "vec_disabled s \<longleftrightarrow> \<not> misa_has_extension (misa s) Ext_V \<or> mstatus s AND Mstatus_Vs = 0"

definition csr_read :: "CPU \<Rightarrow> CSRAddress \<Rightarrow> ExceptionCode + CSRValue" where
  "csr_read c addr =
     (let s = st c;
          illegal = Inl IllegalInstruction;
          has_s = misa_has_extension (misa s) Ext_S
      in
      if addr = Csr_Pmpcfg0 \<or> addr = Csr_Pmpaddr0 then Inr 0
      else if addr = Csr_Fflags then
        (if fp_disabled s then illegal else Inr (fcsr s AND kFflagsMask))
      else if addr = Csr_Frm then
        (if fp_disabled s then illegal else Inr (drop_bit kFrmShift (fcsr s) AND kFrmMask))
      else if addr = Csr_Fcsr then
        (if fp_disabled s then illegal else Inr (fcsr s AND kFcsrMask))
      else if addr = Csr_Vstart then (if vec_disabled s then illegal else Inr (vstart s))
      else if addr = Csr_Vxsat then (if vec_disabled s then illegal else Inr (vxsat s))
      else if addr = Csr_Vxrm then (if vec_disabled s then illegal else Inr (vxrm s))
      else if addr = Csr_Vcsr then
        (if vec_disabled s then illegal else Inr (push_bit 1 (vxrm s) OR vxsat s))
      else if addr = Csr_Vl then (if vec_disabled s then illegal else Inr (vl s))
      else if addr = Csr_Vtype then (if vec_disabled s then illegal else Inr (vtype s))
      else if addr = Csr_Vlenb then
        (if vec_disabled s then illegal else Inr (of_nat (vlen_bytes (regs s))))
      else if addr = Csr_Sie then Inr (mie s AND mideleg s AND interrupt_implemented_mask True)
      else if addr = Csr_Stvec then Inr (stvec s)
      else if addr = Csr_Scounteren then Inr (scounteren s)
      else if addr = Csr_Sscratch then Inr (sscratch s)
      else if addr = Csr_Sepc then Inr (epc_read_value (sepc s) (misa s))
      else if addr = Csr_Scause then Inr (cause_read_value (scause s) (xlen (regs s)))
      else if addr = Csr_Stval then Inr (stval s)
      else if addr = Csr_Sip then Inr (mip s AND mideleg s AND interrupt_implemented_mask True)
      else if addr = Csr_Satp then Inr (satp s)
      else if addr = Csr_Medeleg then Inr (medeleg s)
      else if addr = Csr_Mideleg then Inr (mideleg s AND mideleg_writable_mask True)
      else if addr = Csr_Mie then Inr (mie s AND interrupt_implemented_mask has_s)
      else if addr = Csr_Mtvec then Inr (mtvec s)
      else if addr = Csr_Mcounteren then Inr (mcounteren s)
      else if addr = Csr_Mscratch then Inr (mscratch s)
      else if addr = Csr_Mepc then Inr (epc_read_value (mepc s) (misa s))
      else if addr = Csr_Mcause then Inr (cause_read_value (mcause s) (xlen (regs s)))
      else if addr = Csr_Mtval then Inr (mtval s)
      else if addr = Csr_Mip then Inr (mip s AND interrupt_implemented_mask has_s)
      else if addr = Csr_Misa then Inr (misa_with_mxl (misa s))
      else if addr = Csr_Mcycle \<or> addr = Csr_Cycle then Inr (mcycle (clint_mmio c))
      else if addr = Csr_Minstret \<or> addr = Csr_Instret then Inr (e_icount c)
      else if addr = Csr_Time then Inr (mtime (clint_mmio c))
      else if addr = Csr_Mcycleh \<or> addr = Csr_Cycleh then
        (if xlen (regs s) = 64 then illegal else Inr (drop_bit 32 (mcycle (clint_mmio c))))
      else if addr = Csr_Minstreth \<or> addr = Csr_Instreth then
        (if xlen (regs s) = 64 then illegal else Inr (drop_bit 32 (e_icount c)))
      else if addr = Csr_Timeh then
        (if xlen (regs s) = 64 then illegal else Inr (drop_bit 32 (mtime (clint_mmio c))))
      else if addr = Csr_Sstatus then Inr (getMstatus c kMstatusSstatusReadMask)
      else if addr = Csr_Mstatus then Inr (getMstatus c kMstatusReadMask)
      else if addr = Csr_Mvendorid \<or> addr = Csr_Marchid \<or> addr = Csr_Mimpid \<or> addr = Csr_Mconfigptr
      then Inr 0
      else if addr = Csr_Mhartid then Inr (mhartid s)
      else if pmp_csr_exists addr (xlen (regs s)) then Inr 0
      else if is_zero_hpm_csr addr (xlen (regs s)) \<or> addr = 0x320 then Inr 0
      else illegal)"

definition with_st :: "CPU \<Rightarrow> (ArchState \<Rightarrow> ArchState) \<Rightarrow> ExceptionCode + CPU" where
  "with_st c g = Inr (c\<lparr>st := g (st c)\<rparr>)"

definition write_satp :: "CPU \<Rightarrow> CSRValue \<Rightarrow> CPU" where
  "write_satp c wdata =
     (let xl = xlen (regs (st c));
          md = satp_mode wdata xl
      in if satp_mode_supported md xl then
           let c1 = (if satp (st c) \<noteq> wdata then
                       let c0 = TLB_flush (c\<lparr>st := (st c)\<lparr>satp := wdata\<rparr>\<rparr>)
                       in c0\<lparr>decode_cache := decode_flush (decode_cache c0)\<rparr>
                     else c)
           in if md \<noteq> 0 then c1\<lparr>machine := (machine c1)\<lparr>s_mmu_ever_used := True\<rparr>\<rparr> else c1
         else c)"

definition write_mip :: "ArchState \<Rightarrow> CSRValue \<Rightarrow> ArchState" where
  "write_mip s wdata =
     (let writable = mip_writable_mask (misa_has_extension (misa s) Ext_S);
          sourced = Mip_Seip OR Mip_Stip;
          ordinary = writable AND NOT sourced
      in refresh_supervisor_pending
           (s\<lparr>mip := (mip s AND NOT ordinary) OR (wdata AND ordinary),
              seip_software := (wdata AND writable AND Mip_Seip \<noteq> 0),
              stip_software := (wdata AND writable AND Mip_Stip \<noteq> 0)\<rparr>))"

definition csr_write :: "CPU \<Rightarrow> CSRAddress \<Rightarrow> CSRValue \<Rightarrow> ExceptionCode + CPU" where
  "csr_write c addr wdata =
     (let s = st c;
          illegal = Inl IllegalInstruction;
          has_s = misa_has_extension (misa s) Ext_S;
          interrupt_mask = interrupt_implemented_mask has_s;
          x32 = (xlen (regs s) = 32);
          x64 = (xlen (regs s) = 64);
          cl = clint_mmio c
      in
      if addr = Csr_Mvendorid \<or> addr = Csr_Marchid \<or> addr = Csr_Mimpid \<or> addr = Csr_Mconfigptr \<or>
         addr = Csr_Mhartid \<or> addr = Csr_Pmpcfg0 \<or> addr = Csr_Pmpaddr0 \<or> addr = Csr_Time \<or>
         addr = Csr_Timeh \<or> addr = Csr_Misa then Inr c
      else if addr = Csr_Mcycle then
        Inr (c\<lparr>clint_mmio := cl\<lparr>mcycle :=
              (if x32 then (mcycle cl AND 0xFFFFFFFF00000000) OR zext32 wdata else wdata)\<rparr>\<rparr>)
      else if addr = Csr_Mcycleh then
        (if x64 then illegal
         else Inr (c\<lparr>clint_mmio := cl\<lparr>mcycle :=
                (mcycle cl AND 0x00000000FFFFFFFF) OR push_bit 32 wdata\<rparr>\<rparr>))
      else if addr = Csr_Minstret then
        Inr (c\<lparr>e_icount :=
              (if x32 then (e_icount c AND 0xFFFFFFFF00000000) OR zext32 wdata else wdata)\<rparr>)
      else if addr = Csr_Minstreth then
        (if x64 then illegal
         else Inr (c\<lparr>e_icount := (e_icount c AND 0x00000000FFFFFFFF) OR push_bit 32 wdata\<rparr>))
      else if addr = Csr_Fflags then
        (if fp_disabled s then illegal
         else with_st c (\<lambda>s. s\<lparr>fcsr := (fcsr s AND NOT kFflagsMask) OR (wdata AND kFflagsMask),
                                mstatus := mstatus s OR Mstatus_Fs\<rparr>))
      else if addr = Csr_Frm then
        (if fp_disabled s then illegal
         else with_st c (\<lambda>s. s\<lparr>fcsr := (fcsr s AND NOT (push_bit kFrmShift kFrmMask)) OR
                                         push_bit kFrmShift (wdata AND kFrmMask),
                                mstatus := mstatus s OR Mstatus_Fs\<rparr>))
      else if addr = Csr_Fcsr then
        (if fp_disabled s then illegal
         else with_st c (\<lambda>s. s\<lparr>fcsr := wdata AND kFcsrMask, mstatus := mstatus s OR Mstatus_Fs\<rparr>))
      else if addr = Csr_Vstart then
        (if vec_disabled s then illegal
         else with_st c (\<lambda>s. s\<lparr>vstart := wdata AND vstart_mask (regs s),
                                mstatus := mstatus s OR Mstatus_Vs\<rparr>))
      else if addr = Csr_Vxsat then
        (if vec_disabled s then illegal
         else with_st c (\<lambda>s. s\<lparr>vxsat := wdata AND 1, mstatus := mstatus s OR Mstatus_Vs\<rparr>))
      else if addr = Csr_Vxrm then
        (if vec_disabled s then illegal
         else with_st c (\<lambda>s. s\<lparr>vxrm := wdata AND 3, mstatus := mstatus s OR Mstatus_Vs\<rparr>))
      else if addr = Csr_Vcsr then
        (if vec_disabled s then illegal
         else with_st c (\<lambda>s. s\<lparr>vxrm := drop_bit 1 wdata AND 3, vxsat := wdata AND 1,
                                mstatus := mstatus s OR Mstatus_Vs\<rparr>))
      else if addr = Csr_Vl then
        (if vec_disabled s then illegal
         else with_st c (\<lambda>s. s\<lparr>vl := wdata, mstatus := mstatus s OR Mstatus_Vs\<rparr>))
      else if addr = Csr_Vtype then
        (if vec_disabled s then illegal
         else with_st c (\<lambda>s. s\<lparr>vtype := wdata, mstatus := mstatus s OR Mstatus_Vs\<rparr>))
      else if addr = Csr_Stvec then with_st c (\<lambda>s. s\<lparr>stvec := wdata AND NOT 2\<rparr>)
      else if addr = Csr_Scounteren then with_st c (\<lambda>s. s\<lparr>scounteren := wdata AND kCounterEnableMask\<rparr>)
      else if addr = Csr_Sscratch then with_st c (\<lambda>s. s\<lparr>sscratch := wdata\<rparr>)
      else if addr = Csr_Sepc then with_st c (\<lambda>s. s\<lparr>sepc := wdata AND NOT 1\<rparr>)
      else if addr = Csr_Scause then
        with_st c (\<lambda>s. s\<lparr>scause := cause_write_value wdata (xlen (regs s))\<rparr>)
      else if addr = Csr_Stval then with_st c (\<lambda>s. s\<lparr>stval := wdata\<rparr>)
      else if addr = Csr_Mtvec then with_st c (\<lambda>s. s\<lparr>mtvec := wdata AND NOT 2\<rparr>)
      else if addr = Csr_Mcounteren then with_st c (\<lambda>s. s\<lparr>mcounteren := wdata AND kCounterEnableMask\<rparr>)
      else if addr = Csr_Mscratch then with_st c (\<lambda>s. s\<lparr>mscratch := wdata\<rparr>)
      else if addr = Csr_Mepc then with_st c (\<lambda>s. s\<lparr>mepc := wdata AND NOT 1\<rparr>)
      else if addr = Csr_Mcause then
        with_st c (\<lambda>s. s\<lparr>mcause := cause_write_value wdata (xlen (regs s))\<rparr>)
      else if addr = Csr_Mtval then with_st c (\<lambda>s. s\<lparr>mtval := wdata\<rparr>)
      else if addr = Csr_Sie then
        with_st c (\<lambda>s. s\<lparr>mie := (mie s AND NOT (mideleg s)) OR (wdata AND mideleg s)\<rparr>)
      else if addr = Csr_Sip then
        with_st c (\<lambda>s. let m = Mip_Ssip AND mideleg s in
                       s\<lparr>mip := (mip s AND NOT m) OR (wdata AND m)\<rparr>)
      else if addr = Csr_Medeleg then with_st c (\<lambda>s. s\<lparr>medeleg := wdata AND kMedelegWritableMask\<rparr>)
      else if addr = Csr_Mideleg then
        with_st c (\<lambda>s. s\<lparr>mideleg := wdata AND mideleg_writable_mask has_s\<rparr>)
      else if addr = Csr_Mie then with_st c (\<lambda>s. s\<lparr>mie := wdata AND interrupt_mask\<rparr>)
      else if addr = Csr_Mip then with_st c (\<lambda>s. write_mip s wdata)
      else if addr = Csr_Satp then Inr (write_satp c wdata)
      else if addr = Csr_Mstatus then Inr (setMstatus c wdata)
      else if addr = Csr_Sstatus then
        Inr (setMstatus c ((mstatus s AND NOT kSstatusMask) OR (wdata AND kSstatusMask)))
      else if pmp_csr_exists addr (xlen (regs s)) then Inr c
      else if is_zero_hpm_csr addr (xlen (regs s)) \<or> addr = 0x320 then Inr c
      else illegal)"

subsection \<open>The status register keeps its legal values\<close>

lemma mpp_implemented_bits:
  "priv_implemented m (ucast (mpp_of ms)) \<longleftrightarrow>
     bit ms 11 \<and> (bit ms 12 \<or> misa_has_extension m Ext_S) \<or>
     \<not> bit ms 11 \<and> \<not> bit ms 12 \<and> misa_has_extension m Ext_U"
  by (cases "bit ms 11"; cases "bit ms 12") (simp_all add: priv_implemented_def mpp_of_def two_bit_field)

lemma xl_bits:
  "sxl_of ms = 1 \<longleftrightarrow> bit ms 34 \<and> \<not> bit ms 35" "sxl_of ms = 2 \<longleftrightarrow> \<not> bit ms 34 \<and> bit ms 35"
  "uxl_of ms = 1 \<longleftrightarrow> bit ms 32 \<and> \<not> bit ms 33" "uxl_of ms = 2 \<longleftrightarrow> \<not> bit ms 32 \<and> bit ms 33"
  by (simp_all add: sxl_of_def uxl_of_def two_bit_field)

lemmas mstatus_bits = mpp_implemented_bits xl_bits

lemma mstatus_wf_same_fields:
  assumes "mstatus_wf m ms" "bits_within ms' (mstatus_mask_of m)"
    and "\<And>n. n \<in> {11, 12, 32, 33, 34, 35} \<Longrightarrow> bit ms' n = bit ms n"
  shows "mstatus_wf m ms'"
  using assms by (simp add: mstatus_wf_def mstatus_bits)

lemma current_xlen_same_fields:
  assumes "\<And>n. n \<in> {32, 33, 34, 35} \<Longrightarrow> bit ms' n = bit (mstatus s) n"
  shows "current_xlen (s\<lparr>mstatus := ms'\<rparr>) = current_xlen s"
  using assms by (simp add: current_xlen_def xlen_for_privilege_def two_bit_field)

lemma xlen_for_privilege_upd [simp]:
  "xlen_for_privilege (s\<lparr>regs := r\<rparr>) p = xlen_for_privilege s p"
  by (simp add: xlen_for_privilege_def)

lemma arch_wf_update_mstatus:
  assumes "arch_wf s" "mstatus_wf (misa s) ms'"
  shows "arch_wf (update_xlen (s\<lparr>mstatus := ms'\<rparr>))"
  using assms by (simp add: arch_wf_def update_xlen_def current_xlen_def read_reg_def vstart_mask_def)

lemma legalize_xl_other:
  assumes "n \<noteq> sh" "n \<noteq> Suc sh"
  shows "bit (legalize_xl mxl old sh w) n = bit w n"
proof -
  have "n < 64" if "bit old n \<or> bit w n" using that by (auto dest: bit_imp_le_length)
  then show ?thesis using assms 
   by (auto simp: legalize_xl_def Let_def bit_simps bit_Suc)
qed

lemma legalize_xl_field:
  assumes "Suc sh < 64"
  shows "bit (legalize_xl mxl old sh w) sh =
           (if mxl = 1 then True else if bit w sh \<noteq> bit w (Suc sh) then bit w sh else bit old sh)"
    and "bit (legalize_xl mxl old sh w) (Suc sh) =
           (if mxl = 1 then False else if bit w sh \<noteq> bit w (Suc sh) then bit w (Suc sh) else bit old (Suc sh))"
  using assms by (auto simp: legalize_xl_def Let_def two_bit_field bit_simps)

lemma legalize_mpp_bits:
  "bit (mstatus_legalize_mpp w has_s has_u) n =
     (if n = 11 \<or> n = 12 then
        (if bit w 11 \<and> bit w 12 \<or> bit w 11 \<and> \<not> bit w 12 \<and> has_s \<or> \<not> bit w 11 \<and> \<not> bit w 12 \<and> has_u
         then bit w n else True)
      else bit w n)"
proof -
  have *: "drop_bit 11 (w AND 6144) = drop_bit 11 w AND 3"
    by (rule bit_word_eqI) (auto simp: bit_simps)
  show ?thesis
    by (cases "n < 64") (auto simp: mstatus_legalize_mpp_def Let_def * two_bit_field bit_simps dest: bit_imp_le_length)
qed

lemma bit_xl_masks [bit_simps]:
  "bit (12884901888 :: int) n \<longleftrightarrow> 32 \<le> n \<and> n < 34"
  "bit (51539607552 :: int) n \<longleftrightarrow> 34 \<le> n \<and> n < 36"
  "bit (224 :: int) n \<longleftrightarrow> 5 \<le> n \<and> n < 8"
  using bit_shifted_mask [of 224 5 3 n] bit_shifted_mask [of 12884901888 32 2 n] bit_shifted_mask [of 51539607552 34 2 n]
  by (simp_all add: mask_eq_exp_minus_1 push_bit_eq_mult numeral_2_eq_2)

lemma uxl_above_sxl:
  "drop_bit 34 x AND 3 < drop_bit 32 x AND 3 \<longleftrightarrow>
     bit x 33 \<and> \<not> bit x 35 \<or> bit x 33 = bit x 35 \<and> bit x 32 \<and> \<not> bit x 34" for x :: u64
  by (cases "bit x 32"; cases "bit x 33"; cases "bit x 34"; cases "bit x 35") (simp_all add: two_bit_field)

lemma bit_cap_uxl:
  "bit (cap_uxl x) n =
     (if (n = 32 \<or> n = 33) \<and> (bit x 33 \<and> \<not> bit x 35 \<or> bit x 33 = bit x 35 \<and> bit x 32 \<and> \<not> bit x 34)
      then bit x (n + 2) else bit x n)"
proof -
  have f: "bit (push_bit 32 (drop_bit 34 x AND 3)) n \<longleftrightarrow> (n = 32 \<or> n = 33) \<and> bit x (n + 2)"
    by (auto simp: bit_simps)
  show ?thesis
    by (cases "n < 64") (auto simp: cap_uxl_def Let_def uxl_above_sxl bit_or_iff bit_and_iff bit_not_iff f bit_simps dest: bit_imp_le_length)
qed

lemma legalize_mstatus_cap:
  "legalize_mstatus mi old w =
     (let mxl = drop_bit 62 mi AND 3 in
      cap_uxl (legalize_xl mxl old 34 (legalize_xl mxl old 32
        (mstatus_legalize_mpp w (misa_has_extension mi Ext_S) (misa_has_extension mi Ext_U)))))"
  by (simp only: legalize_mstatus_def Let_def)

lemma bit_legalize_mstatus_other:
  assumes "n \<notin> {32, 33, 34, 35}"
  shows "bit (legalize_mstatus mi old w) n =
    bit (mstatus_legalize_mpp w (misa_has_extension mi Ext_S) (misa_has_extension mi Ext_U)) n"
  using assms by (simp add: legalize_mstatus_cap Let_def bit_cap_uxl legalize_xl_other)

text \<open>The SXL and UXL fields of a legalised value: each is the request when it is 1 or 2, the old field otherwise, 1 on an RV32 machine, and UXL never above SXL.\<close>

lemma bit_legalize_mstatus_xl:
  fixes mi old w :: CSRValue
  defines "fix1 \<equiv> drop_bit 62 mi AND 3 = 1"
  defines "s0 \<equiv> fix1 \<or> (if bit w 34 \<noteq> bit w 35 then bit w 34 else bit old 34)"
    and "s1 \<equiv> \<not> fix1 \<and> (if bit w 34 \<noteq> bit w 35 then bit w 35 else bit old 35)"
    and "u0 \<equiv> fix1 \<or> (if bit w 32 \<noteq> bit w 33 then bit w 32 else bit old 32)"
    and "u1 \<equiv> \<not> fix1 \<and> (if bit w 32 \<noteq> bit w 33 then bit w 33 else bit old 33)"
  shows "bit (legalize_mstatus mi old w) 34 = s0" "bit (legalize_mstatus mi old w) 35 = s1"
    "bit (legalize_mstatus mi old w) 32 = (if u1 \<and> \<not> s1 \<or> u1 = s1 \<and> u0 \<and> \<not> s0 then s0 else u0)"
    "bit (legalize_mstatus mi old w) 33 = (if u1 \<and> \<not> s1 \<or> u1 = s1 \<and> u0 \<and> \<not> s0 then s1 else u1)"
proof -
  let ?w1 = "mstatus_legalize_mpp w (misa_has_extension mi Ext_S) (misa_has_extension mi Ext_U)"
  let ?w3 = "legalize_xl (drop_bit 62 mi AND 3) old 34 (legalize_xl (drop_bit 62 mi AND 3) old 32 ?w1)"
  have w3: "bit ?w3 34 = s0" "bit ?w3 35 = s1" "bit ?w3 32 = u0" "bit ?w3 33 = u1"
    using legalize_xl_field [of 34 "drop_bit 62 mi AND 3" old] legalize_xl_field [of 32 "drop_bit 62 mi AND 3" old ?w1]
    by (simp_all add: legalize_xl_other legalize_mpp_bits fix1_def s0_def s1_def u0_def u1_def)
  then show "bit (legalize_mstatus mi old w) 34 = s0" "bit (legalize_mstatus mi old w) 35 = s1"
    "bit (legalize_mstatus mi old w) 32 = (if u1 \<and> \<not> s1 \<or> u1 = s1 \<and> u0 \<and> \<not> s0 then s0 else u0)"
    "bit (legalize_mstatus mi old w) 33 = (if u1 \<and> \<not> s1 \<or> u1 = s1 \<and> u0 \<and> \<not> s0 then s1 else u1)"
    unfolding legalize_mstatus_cap Let_def by (simp_all only: bit_cap_uxl) simp_all
qed

lemma legalize_mstatus_wf:
  assumes "mstatus_wf mi old" "misa_has_extension mi Ext_S \<Longrightarrow> misa_has_extension mi Ext_U"
  shows "mstatus_wf mi (legalize_mstatus mi old w AND mstatus_mask_of mi)"
proof -
  have "bits_within (legalize_mstatus mi old w AND mstatus_mask_of mi) (mstatus_mask_of mi)"
    by (simp add: bits_within_iff bit_simps)
  moreover have "priv_implemented mi (ucast (mpp_of (legalize_mstatus mi old w AND mstatus_mask_of mi)))"
    by (auto simp: mpp_implemented_bits bit_legalize_mstatus_other legalize_mpp_bits bit_simps mstatus_mask_of_def)
  moreover have "misa_has_extension mi Ext_S \<longrightarrow>
     (let ms = legalize_mstatus mi old w AND mstatus_mask_of mi in
        (sxl_of ms = 1 \<or> sxl_of ms = 2 \<and> drop_bit 62 mi AND 3 \<noteq> 1) \<and>
        (uxl_of ms = 1 \<or> uxl_of ms = 2 \<and> sxl_of ms = 2))"
  proof
    assume S: "misa_has_extension mi Ext_S"
    then have old: "bit old 34 \<noteq> bit old 35" "bit old 32 \<noteq> bit old 33" "bit old 33 \<longrightarrow> bit old 35"
      using assms(1) by (auto simp: mstatus_wf_def xl_bits)
    show "let ms = legalize_mstatus mi old w AND mstatus_mask_of mi in
        (sxl_of ms = 1 \<or> sxl_of ms = 2 \<and> drop_bit 62 mi AND 3 \<noteq> 1) \<and>
        (uxl_of ms = 1 \<or> uxl_of ms = 2 \<and> sxl_of ms = 2)"
      unfolding Let_def xl_bits bit_and_iff mstatus_mask_of_def bit_mstatus_writable_mask bit_legalize_mstatus_xl
      using S assms(2) old
      by (cases "drop_bit 62 mi AND 3 = 1"; cases "bit w 34 = bit w 35"; cases "bit w 32 = bit w 33"; simp)
  qed
  ultimately show ?thesis by (simp add: mstatus_wf_def Let_def)
qed

lemma st_TLB_flush [simp]: "st (TLB_flush c) = st c"
  by (simp add: TLB_flush_def)

lemma setMstatus_st:
  "st (setMstatus c w) = update_xlen ((st c)\<lparr>mstatus :=
     legalize_mstatus (misa (st c)) (mstatus (st c)) w AND mstatus_mask_of (misa (st c))\<rparr>)"
proof -
  have "((old AND NOT m) OR (w AND m)) AND m = w AND m" for old m w :: CSRValue
    by (rule bit_word_eqI) (auto simp: bit_simps)
  then show ?thesis
    by (simp add: setMstatus_def Let_def mstatus_mask_of_def)
qed

lemma arch_wf_setMstatus: "arch_wf (st c) \<Longrightarrow> arch_wf (st (setMstatus c w))"
  unfolding setMstatus_st
  by (rule arch_wf_update_mstatus) (auto simp: arch_wf_def intro!: legalize_mstatus_wf)

text \<open>
  The dirty bits set by floating-point and vector CSR writes stay within the implemented fields,
  since these writes are refused when the extension is absent.
\<close>

lemma arch_wf_or_mstatus:
  assumes "arch_wf s" "bits_within m (mstatus_mask_of (misa s))"
    and "\<And>n. n \<in> {11, 12, 32, 33, 34, 35} \<Longrightarrow> \<not> bit m n"
  shows "arch_wf (s\<lparr>mstatus := mstatus s OR m\<rparr>)"
proof -
  have "mstatus_wf (misa s) (mstatus s OR m)"
    using assms(1) by (rule_tac mstatus_wf_same_fields [of _ "mstatus s"])
      (use assms in \<open>auto simp: arch_wf_def mstatus_wf_def bits_within_iff bit_simps\<close>)
  moreover have "current_xlen (s\<lparr>mstatus := mstatus s OR m\<rparr>) = current_xlen s"
    by (rule current_xlen_same_fields) (use assms(3) in \<open>auto simp: bit_simps\<close>)
  ultimately show ?thesis using assms(1) by (simp add: arch_wf_def)
qed

lemma arch_wf_fs: "arch_wf s \<Longrightarrow> \<not> fp_disabled s \<Longrightarrow> arch_wf (s\<lparr>mstatus := mstatus s OR Mstatus_Fs\<rparr>)"
  by (rule arch_wf_or_mstatus) (auto simp: fp_disabled_def mstatus_mask_of_def bits_within_iff bit_simps)

lemma arch_wf_vs: "arch_wf s \<Longrightarrow> \<not> vec_disabled s \<Longrightarrow> arch_wf (s\<lparr>mstatus := mstatus s OR Mstatus_Vs\<rparr>)"
  by (rule arch_wf_or_mstatus) (auto simp: vec_disabled_def mstatus_mask_of_def bits_within_iff bit_simps)

lemma bits_within_and [simp]: "bits_within (v AND m) m"
  by (simp add: bits_within_iff bit_simps)

lemma arch_wf_mip:
  assumes "arch_wf s" "bits_within m (interrupt_implemented_mask True)"
    and "bit m 9 = bit (mip s) 9" "bit m 5 = bit (mip s) 5"
  shows "arch_wf (s\<lparr>mip := m\<rparr>)"
  using assms by (simp add: arch_wf_def current_xlen_def xlen_for_privilege_def)

lemma arch_wf_refresh:
  assumes "arch_wf s" "bits_within m (interrupt_implemented_mask True)"
  shows "arch_wf (refresh_supervisor_pending
           (s\<lparr>mip := m, seip_software := a, seip_external := b, stip_software := d, stip_timer := e\<rparr>))"
proof -
  let ?s = "s\<lparr>mip := m, seip_software := a, seip_external := b, stip_software := d, stip_timer := e\<rparr>"
  have "bits_within (mip (refresh_supervisor_pending ?s)) (interrupt_implemented_mask True)"
    using assms(2) by (auto simp: bits_within_iff bit_refresh_supervisor_pending bit_simps)
  moreover obtain m' where m': "refresh_supervisor_pending ?s = ?s\<lparr>mip := m'\<rparr>"
    by (auto simp: refresh_supervisor_pending_def Let_def)
  moreover have "bit m' 9 = (a \<or> b)" "bit m' 5 = (d \<or> e)"
    using bit_refresh_supervisor_pending [of ?s] m' by simp_all
  ultimately show ?thesis
    using assms(1) by (simp add: arch_wf_def current_xlen_def xlen_for_privilege_def)
qed

lemma arch_wf_write_mip:
  assumes "arch_wf s" shows "arch_wf (write_mip s w)"
proof -
  let ?o = "mip_writable_mask (misa_has_extension (misa s) Ext_S) AND NOT (Mip_Seip OR Mip_Stip)"
  have "bits_within ((mip s AND NOT ?o) OR (w AND ?o)) (interrupt_implemented_mask True)"
    using assms by (auto simp: arch_wf_def bits_within_iff bit_simps)
  from arch_wf_refresh [OF assms this, where b = "seip_external s" and e = "stip_timer s"]
  show ?thesis by (simp add: write_mip_def Let_def)
qed

lemma arch_wf_simple_csrs:
  assumes "arch_wf s"
  shows "arch_wf (s\<lparr>mscratch := v\<rparr>)" "arch_wf (s\<lparr>sscratch := v\<rparr>)"
    "arch_wf (s\<lparr>mcause := v\<rparr>)" "arch_wf (s\<lparr>scause := v\<rparr>)" "arch_wf (s\<lparr>mtval := v\<rparr>)"
    "arch_wf (s\<lparr>stval := v\<rparr>)" "arch_wf (s\<lparr>satp := v\<rparr>)" "arch_wf (s\<lparr>vl := v\<rparr>)"
    "arch_wf (s\<lparr>vtype := v\<rparr>)" "arch_wf (s\<lparr>reserved := v\<rparr>)" "arch_wf (s\<lparr>load_res := v\<rparr>)"
  using assms by (simp_all add: arch_wf_def current_xlen_def xlen_for_privilege_def)

lemma arch_wf_masked_csrs:
  assumes "arch_wf s"
  shows "\<not> bit v 1 \<Longrightarrow> arch_wf (s\<lparr>mtvec := v\<rparr>)" "\<not> bit v 1 \<Longrightarrow> arch_wf (s\<lparr>stvec := v\<rparr>)"
    "\<not> bit v 0 \<Longrightarrow> arch_wf (s\<lparr>mepc := v\<rparr>)" "\<not> bit v 0 \<Longrightarrow> arch_wf (s\<lparr>sepc := v\<rparr>)"
    "\<not> bit v 0 \<Longrightarrow> arch_wf (s\<lparr>pc := v\<rparr>)"
    "bits_within v 7 \<Longrightarrow> arch_wf (s\<lparr>mcounteren := v\<rparr>)" "bits_within v 7 \<Longrightarrow> arch_wf (s\<lparr>scounteren := v\<rparr>)"
    "bits_within v kFcsrMask \<Longrightarrow> arch_wf (s\<lparr>fcsr := v\<rparr>)"
    "bits_within v 1 \<Longrightarrow> arch_wf (s\<lparr>vxsat := v\<rparr>)" "bits_within v 3 \<Longrightarrow> arch_wf (s\<lparr>vxrm := v\<rparr>)"
    "bits_within v (vstart_mask (regs s)) \<Longrightarrow> arch_wf (s\<lparr>vstart := v\<rparr>)"
    "bits_within v kMedelegWritableMask \<Longrightarrow> arch_wf (s\<lparr>medeleg := v\<rparr>)"
    "bits_within v (mideleg_writable_mask (misa_has_extension (misa s) Ext_S)) \<Longrightarrow> arch_wf (s\<lparr>mideleg := v\<rparr>)"
    "bits_within v (interrupt_implemented_mask (misa_has_extension (misa s) Ext_S)) \<Longrightarrow> arch_wf (s\<lparr>mie := v\<rparr>)"
  using assms by (simp_all add: arch_wf_def current_xlen_def xlen_for_privilege_def)

lemmas arch_wf_updates = arch_wf_simple_csrs arch_wf_masked_csrs arch_wf_mip arch_wf_write_mip

lemma arch_wf_fp_csr:
  assumes "arch_wf s" "\<not> fp_disabled s" "bits_within v kFcsrMask"
  shows "arch_wf (s\<lparr>fcsr := v, mstatus := mstatus s OR Mstatus_Fs\<rparr>)"
  using arch_wf_fs [of "s\<lparr>fcsr := v\<rparr>"] arch_wf_masked_csrs(8) [OF assms(1,3)] assms(2)
  by (simp add: fp_disabled_def)

lemma arch_wf_vec_csrs:
  assumes "arch_wf s" "\<not> vec_disabled s"
  shows "arch_wf (s\<lparr>vstart := w AND vstart_mask (regs s), mstatus := mstatus s OR Mstatus_Vs\<rparr>)"
    "arch_wf (s\<lparr>vxsat := w AND 1, mstatus := mstatus s OR Mstatus_Vs\<rparr>)"
    "arch_wf (s\<lparr>vxrm := w AND 3, mstatus := mstatus s OR Mstatus_Vs\<rparr>)"
    "arch_wf (s\<lparr>vxrm := v AND 3, vxsat := w AND 1, mstatus := mstatus s OR Mstatus_Vs\<rparr>)"
    "arch_wf (s\<lparr>vl := w, mstatus := mstatus s OR Mstatus_Vs\<rparr>)"
    "arch_wf (s\<lparr>vtype := w, mstatus := mstatus s OR Mstatus_Vs\<rparr>)"
  using arch_wf_vs [of "s\<lparr>vstart := w AND vstart_mask (regs s)\<rparr>"] arch_wf_vs [of "s\<lparr>vxsat := w AND 1\<rparr>"]
    arch_wf_vs [of "s\<lparr>vxrm := w AND 3\<rparr>"] arch_wf_vs [of "s\<lparr>vxrm := v AND 3, vxsat := w AND 1\<rparr>"]
    arch_wf_vs [of "s\<lparr>vl := w\<rparr>"] arch_wf_vs [of "s\<lparr>vtype := w\<rparr>"] assms
  by (simp_all add: vec_disabled_def arch_wf_masked_csrs arch_wf_simple_csrs bits_within_and)

definition write_keeps_wf :: "ExceptionCode + CPU \<Rightarrow> bool" where
  "write_keeps_wf r \<longleftrightarrow> (case r of Inl e \<Rightarrow> True | Inr c \<Rightarrow> arch_wf (st c))"

lemma write_keeps_wf_simps [simp]:
  "write_keeps_wf (Inl e)" "write_keeps_wf (Inr c) \<longleftrightarrow> arch_wf (st c)"
  "write_keeps_wf (with_st c g) \<longleftrightarrow> arch_wf (g (st c))"
  by (simp_all add: write_keeps_wf_def with_st_def)

lemma write_keeps_wf_if:
  "(b \<Longrightarrow> write_keeps_wf x) \<Longrightarrow> (\<not> b \<Longrightarrow> write_keeps_wf y) \<Longrightarrow> write_keeps_wf (if b then x else y)"
  by simp

lemma arch_wf_write_satp: "arch_wf (st c) \<Longrightarrow> arch_wf (st (write_satp c w))"
  by (simp add: write_satp_def Let_def arch_wf_simple_csrs)

lemma arch_wf_fp_csrs:
  assumes "arch_wf s" "\<not> fp_disabled s"
  shows "arch_wf (s\<lparr>fcsr := (fcsr s AND NOT kFflagsMask) OR (w AND kFflagsMask), mstatus := mstatus s OR Mstatus_Fs\<rparr>)"
    "arch_wf (s\<lparr>fcsr := (fcsr s AND NOT (push_bit kFrmShift kFrmMask)) OR push_bit kFrmShift (w AND kFrmMask), mstatus := mstatus s OR Mstatus_Fs\<rparr>)"
    "arch_wf (s\<lparr>fcsr := w AND kFcsrMask, mstatus := mstatus s OR Mstatus_Fs\<rparr>)"
proof -
  have "bits_within (fcsr s) kFcsrMask" using assms(1) by (simp add: arch_wf_def)
  then have "bits_within ((fcsr s AND NOT kFflagsMask) OR (w AND kFflagsMask)) kFcsrMask"
     "bits_within ((fcsr s AND NOT (push_bit kFrmShift kFrmMask)) OR push_bit kFrmShift (w AND kFrmMask)) kFcsrMask"
    by (auto simp: bits_within_iff bit_simps kFcsrMask_def kFflagsMask_def kFrmMask_def kFrmShift_def)
  then show "arch_wf (s\<lparr>fcsr := (fcsr s AND NOT kFflagsMask) OR (w AND kFflagsMask), mstatus := mstatus s OR Mstatus_Fs\<rparr>)"
    "arch_wf (s\<lparr>fcsr := (fcsr s AND NOT (push_bit kFrmShift kFrmMask)) OR push_bit kFrmShift (w AND kFrmMask), mstatus := mstatus s OR Mstatus_Fs\<rparr>)"
    "arch_wf (s\<lparr>fcsr := w AND kFcsrMask, mstatus := mstatus s OR Mstatus_Fs\<rparr>)"
    by (simp_all only: arch_wf_fp_csr [OF assms] bits_within_and)
qed

lemma arch_wf_trap_csrs:
  assumes "arch_wf s"
  shows "arch_wf (s\<lparr>mtvec := w AND NOT 2\<rparr>)" "arch_wf (s\<lparr>stvec := w AND NOT 2\<rparr>)"
    "arch_wf (s\<lparr>mepc := w AND NOT 1\<rparr>)" "arch_wf (s\<lparr>sepc := w AND NOT 1\<rparr>)"
    "arch_wf (s\<lparr>mcounteren := w AND kCounterEnableMask\<rparr>)" "arch_wf (s\<lparr>scounteren := w AND kCounterEnableMask\<rparr>)"
  using assms by (auto intro!: arch_wf_masked_csrs simp: bit_simps kCounterEnableMask_def)

lemma arch_wf_interrupt_csrs:
  assumes "arch_wf s"
  shows "arch_wf (s\<lparr>mie := (mie s AND NOT (mideleg s)) OR (w AND mideleg s)\<rparr>)"
    "arch_wf (s\<lparr>mip := (mip s AND NOT (Mip_Ssip AND mideleg s)) OR (w AND (Mip_Ssip AND mideleg s))\<rparr>)"
    "arch_wf (s\<lparr>mie := w AND interrupt_implemented_mask (misa_has_extension (misa s) Ext_S)\<rparr>)"
    "arch_wf (s\<lparr>mideleg := w AND mideleg_writable_mask (misa_has_extension (misa s) Ext_S)\<rparr>)"
    "arch_wf (s\<lparr>medeleg := w AND kMedelegWritableMask\<rparr>)"
proof -
  have "bits_within (mie s) (interrupt_implemented_mask (misa_has_extension (misa s) Ext_S))"
    "bits_within (mideleg s) (mideleg_writable_mask (misa_has_extension (misa s) Ext_S))"
    "bits_within (mip s) (interrupt_implemented_mask True)"
    using assms by (simp_all add: arch_wf_def)
  then have "bits_within ((mie s AND NOT (mideleg s)) OR (w AND mideleg s)) (interrupt_implemented_mask (misa_has_extension (misa s) Ext_S))"
    "bits_within ((mip s AND NOT (Mip_Ssip AND mideleg s)) OR (w AND (Mip_Ssip AND mideleg s))) (interrupt_implemented_mask True)"
    by (auto simp: bits_within_iff bit_simps)
  then show "arch_wf (s\<lparr>mie := (mie s AND NOT (mideleg s)) OR (w AND mideleg s)\<rparr>)"
    "arch_wf (s\<lparr>mip := (mip s AND NOT (Mip_Ssip AND mideleg s)) OR (w AND (Mip_Ssip AND mideleg s))\<rparr>)"
    using assms by (auto intro!: arch_wf_masked_csrs arch_wf_mip simp: bit_simps)
qed (use assms in \<open>simp_all add: arch_wf_masked_csrs\<close>)

lemmas csr_write_wf = arch_wf_fp_csrs arch_wf_vec_csrs arch_wf_trap_csrs arch_wf_interrupt_csrs
  arch_wf_simple_csrs arch_wf_write_mip arch_wf_setMstatus arch_wf_write_satp

lemma csr_write_keeps_wf:
  assumes "arch_wf (st c)"
  shows "write_keeps_wf (csr_write c addr w)"
  unfolding csr_write_def Let_def
  by (intro write_keeps_wf_if; (simp only: write_keeps_wf_simps csr_write_wf assms not_False_eq_True)?)
    (simp_all add: assms)
subsection \<open>Errors\<close>

lemma eq_if_cases: "(b \<Longrightarrow> P x) \<Longrightarrow> (\<not> b \<Longrightarrow> P y) \<Longrightarrow> P (if b then x else y)"
  by simp

lemma isl_with_st [simp]: "\<not> isl (with_st c g)"
  by (simp add: with_st_def)

text \<open>Errors of CSR accesses. For every address that is not in the read-only quarter of the address space,
  a write is refused with an illegal-instruction exception exactly when a read is: no register can be
  written but not read, or read but not written.
\<close>

theorem csr_access_symmetric:
  assumes "drop_bit 10 addr AND 3 \<noteq> 3"
  shows "isl (csr_read c addr) \<longleftrightarrow> isl (csr_write c addr w)"
  using assms unfolding csr_read_def Let_def
  by (intro eq_if_cases [where P = "\<lambda>x. isl x = isl (csr_write c addr w)"];
      (elim disjE)?; simp add: csr_write_def Let_def)

theorem csr_access_symmetric_witness:
  "isl (csr_read make_CPU 0x7FF) \<longleftrightarrow> isl (csr_write make_CPU 0x7FF 5)"
  by (rule csr_access_symmetric) simp

subsection \<open>Read-back\<close>


lemma st_write_satp [simp]:
  "st (write_satp c w) =
     (if satp_mode_supported (satp_mode w (xlen (regs (st c)))) (xlen (regs (st c)))
      then (st c)\<lparr>satp := w\<rparr> else st c)"
  by (auto simp: write_satp_def Let_def)

lemma fs_dirty [simp]: "(m OR 24576) AND 24576 = (24576 :: u64)" "(m OR 1536) AND 1536 = (1536 :: u64)"
  by (simp_all add: word_bw_assocs word_ao_absorbs)

definition reads_back :: "CSRAddress \<Rightarrow> CSRValue option \<Rightarrow> ExceptionCode + CPU \<Rightarrow> bool" where
  "reads_back addr r wr \<longleftrightarrow> (case (r, wr) of (Some v, Inr c') \<Rightarrow> csr_read c' addr = Inr v | _ \<Rightarrow> True)"

lemma reads_back_simps [simp]:
  "reads_back addr None wr" "reads_back addr r (Inl e)"
  "reads_back addr (Some v) (Inr c') \<longleftrightarrow> csr_read c' addr = Inr v"
  by (simp_all add: reads_back_def split: option.splits sum.splits)









subsection \<open>Isolation of machine mode\<close>

definition machine_state_kept :: "ArchState \<Rightarrow> ArchState \<Rightarrow> bool" where
  "machine_state_kept s s' \<longleftrightarrow>
     priv s' = priv s \<and> misa s' = misa s \<and> mtvec s' = mtvec s \<and> mscratch s' = mscratch s \<and>
     mepc s' = mepc s \<and> mcause s' = mcause s \<and> mtval s' = mtval s \<and> mhartid s' = mhartid s \<and>
     medeleg s' = medeleg s \<and> mideleg s' = mideleg s \<and> mcounteren s' = mcounteren s \<and>
     pc s' = pc s \<and> reg (regs s') = reg (regs s) \<and>
     mstatus s' AND NOT kSstatusMask = mstatus s AND NOT kSstatusMask \<and>
     mie s' AND NOT (mideleg s) = mie s AND NOT (mideleg s) \<and>
     mip s' AND NOT (mideleg s) = mip s AND NOT (mideleg s)"

definition keeps_machine :: "CPU \<Rightarrow> ExceptionCode + CPU \<Rightarrow> bool" where
  "keeps_machine c r \<longleftrightarrow> (case r of Inl e \<Rightarrow> True | Inr c' \<Rightarrow> machine_state_kept (st c) (st c'))"

lemma keeps_machine_simps [simp]:
  "keeps_machine c (Inl e)" "keeps_machine c (Inr c') \<longleftrightarrow> machine_state_kept (st c) (st c')"
  "keeps_machine c (with_st c g) \<longleftrightarrow> machine_state_kept (st c) (g (st c))"
  by (simp_all add: keeps_machine_def with_st_def)

lemma sstatus_masks:
  "(m OR Mstatus_Fs) AND NOT kSstatusMask = m AND NOT kSstatusMask"
  "(m OR Mstatus_Vs) AND NOT kSstatusMask = m AND NOT kSstatusMask"
  "(x AND NOT d OR w AND d) AND NOT d = x AND NOT d"
  "(x AND NOT (2 AND d) OR w AND (2 AND d)) AND NOT d = x AND NOT d"
  "(x AND (- 3 OR NOT d) OR w AND 2 AND d) AND NOT d = x AND NOT d" for x d w :: CSRValue
  by (rule bit_word_eqI; auto simp: bit_simps)+

lemma sstatus_write_confined:
  assumes "arch_wf (st c)"
  shows "machine_state_kept (st c)
    (st (setMstatus c ((mstatus (st c) AND NOT kSstatusMask) OR (w AND kSstatusMask))))"
proof -
  let ?ms = "mstatus (st c)" and ?mi = "misa (st c)"
  define w' where "w' = (?ms AND NOT kSstatusMask) OR (w AND kSstatusMask)"
  have w': "bit w' n = bit ?ms n" if "\<not> bit kSstatusMask n" for n
    using that by (auto simp: w'_def bit_or_iff bit_and_iff bit_not_iff dest: bit_imp_le_length)
  have wf: "mstatus_wf ?mi ?ms" "bits_within ?ms (mstatus_mask_of ?mi)"
    using assms by (auto simp: arch_wf_def mstatus_wf_def)
  have mpp: "bit w' 11 = bit ?ms 11" "bit w' 12 = bit ?ms 12" "bit w' 34 = bit ?ms 34" "bit w' 35 = bit ?ms 35"
    using w' by (simp_all add: bit_kSstatusMask)
  have kept: "bit (legalize_mstatus ?mi ?ms w') n = bit ?ms n"
    if "\<not> bit kSstatusMask n" "bit (mstatus_mask_of ?mi) n" for n
  proof (cases "n \<in> {32, 33, 34, 35}")
    case False
    have "bit (mstatus_legalize_mpp w' (misa_has_extension ?mi Ext_S) (misa_has_extension ?mi Ext_U)) n = bit w' n"
      using wf(1) unfolding legalize_mpp_bits mstatus_wf_def mpp_implemented_bits mpp by auto
    with False w' [OF that(1)] show ?thesis by (simp add: bit_legalize_mstatus_other)
  next
    case True
    then have n: "n = 34 \<or> n = 35" using that(1) by (auto simp: bit_kSstatusMask)
    then have "misa_has_extension ?mi Ext_S"
      using that(2) by (auto simp: mstatus_mask_of_def bit_mstatus_writable_mask)
    then show ?thesis
      using wf(1) n unfolding mstatus_wf_def xl_bits by (auto simp: bit_legalize_mstatus_xl mpp)
  qed
  have "(legalize_mstatus ?mi ?ms w' AND mstatus_mask_of ?mi) AND NOT kSstatusMask = ?ms AND NOT kSstatusMask"
    by (rule bit_word_eqI) (use kept wf(2) in \<open>auto simp: bit_and_iff bit_not_iff bits_within_iff\<close>)
  then show ?thesis
    by (simp add: setMstatus_st machine_state_kept_def update_xlen_def w'_def)
qed

lemma csr_write_keeps_machine:
  assumes "arch_wf (st c)" "drop_bit 8 addr AND 3 \<noteq> 3"
  shows "keeps_machine c (csr_write c addr w)"
proof -
  have kept: "machine_state_kept (st c) (st c)" by (simp add: machine_state_kept_def)
  show ?thesis
    using assms(2) unfolding csr_write_def Let_def
    by (intro eq_if_cases [where P = "keeps_machine c"]; (elim disjE)?;
        (simp only: keeps_machine_simps sstatus_write_confined [OF assms(1)] kept)?)
      (simp_all add: kept sstatus_masks machine_state_kept_def)
qed

text \<open>(C35)
  Machine mode is isolated from supervisor and user software. On a well-formed hart a write of any
  register that is accessible below machine mode leaves the privilege, the machine trap, delegation
  and counter-enable registers, the integer registers and the program counter unchanged, changes only
  the sstatus fields of mstatus, and only the delegated bits of mie and mip.
\<close>

theorem supervisor_csr_isolated:
  assumes "arch_wf (st c)" "drop_bit 8 addr AND 3 \<noteq> 3" "csr_write c addr w = Inr c'"
  shows "machine_state_kept (st c) (st c')"
  using csr_write_keeps_machine [OF assms(1,2), of w] assms(3) by simp

subsection \<open>Witnesses\<close>

lemma arch_wf_make_CPU: "arch_wf (st make_CPU)"
  by code_simp


theorem supervisor_csr_isolated_witness:
  "\<exists>c'. csr_write make_CPU Csr_Sstatus 0xFFFFFFFF = Inr c' \<and> machine_state_kept (st make_CPU) (st c')"
proof -
  obtain c' where c': "csr_write make_CPU Csr_Sstatus 0xFFFFFFFF = Inr c'"
    by (simp add: csr_write_def Let_def)
  from supervisor_csr_isolated [OF arch_wf_make_CPU _ c'] c' show ?thesis by simp
qed

end
