(* ===== verification/Tile_Link.thy ===== *)
theory Tile_Link
  imports Csr_File
begin

text \<open>
  The system bus: \<^verbatim>\<open>MmioRouter\<close> (\<^verbatim>\<open>src/memory/MmioRouter.cpp\<close>), which owns the list of device nodes,
  and \<^verbatim>\<open>TileLinkBus\<close> (\<^verbatim>\<open>src/memory/TileLinkBus.cpp\<close>), a queue of requests and a list of responses in
  front of it. A device is a node descriptor with an identity (the pointer) and its virtual methods
  as fields; its request handler is the argument \<open>handle\<close>, a function of the identity, the request,
  the response under construction and the system state (hart, host memory, device state).
\<close>

subsection \<open>Messages\<close>

datatype TlOpcodeA = PutFullData | PutPartialData | ArithmeticData | LogicalData | Get | Intent

datatype TlOpcodeD = AccessAck | AccessAckData | HintAck

record TlChannelA =
  a_opcode :: TlOpcodeA
  a_param :: u8
  a_size :: u8
  a_source :: u8
  a_address :: Address
  a_mask :: Word
  a_data :: Word

definition initial_TlChannelA :: TlChannelA where
  "initial_TlChannelA =
     \<lparr>a_opcode = Get, a_param = 0, a_size = 0, a_source = 0, a_address = 0, a_mask = 0, a_data = 0\<rparr>"

definition compute_mask :: "u8 \<Rightarrow> Address \<Rightarrow> Word" where
  "compute_mask sz addr =
     (let size_bytes = (2 :: nat) ^ unat (sz AND 3)
      in if size_bytes \<ge> 8 then NOT 0 else push_bit (size_bytes * 8) 1 - 1)"

record TlChannelD =
  d_opcode :: TlOpcodeD
  d_param :: u8
  d_size :: u8
  d_source :: u8
  d_sink :: u8
  d_data :: Word
  d_error :: bool

definition initial_TlChannelD :: TlChannelD where
  "initial_TlChannelD =
     \<lparr>d_opcode = AccessAckData, d_param = 0, d_size = 0, d_source = 0, d_sink = 0, d_data = 0,
      d_error = False\<rparr>"

subsection \<open>Nodes and the router\<close>

record TlNode =
  node_id :: nat
  node_name :: string
  base_address :: Address
  node_size :: Address
  node_contains :: "Address \<Rightarrow> bool"
  alignment :: Address
  is_read_only :: bool

text \<open>The default \<^verbatim>\<open>contains\<close> of the base class.\<close>

definition default_contains :: "Address \<Rightarrow> Address \<Rightarrow> Address \<Rightarrow> bool" where
  "default_contains base sz addr \<longleftrightarrow> addr \<ge> base \<and> addr - base < sz"

record MmioRouter =
  nodes :: "TlNode list"
  mmio_read_count :: u64
  mmio_write_count :: u64
  bus_error_count :: u64

definition initial_MmioRouter :: MmioRouter where
  "initial_MmioRouter =
     \<lparr>nodes = [], mmio_read_count = 0, mmio_write_count = 0, bus_error_count = 0\<rparr>"

text \<open>
  The collision scan of \<^verbatim>\<open>register_device\<close>: \<open>Some b\<close> is a return of \<open>b\<close> from inside the loop,
  \<open>None\<close> says that the loop ran to its end.
\<close>

definition owns_same_byte :: "TlNode \<Rightarrow> TlNode \<Rightarrow> bool" where
  "owns_same_byte node existing =
     (let overlap_begin = max (base_address node) (base_address existing);
          overlap_end = min (base_address node + node_size node)
                            (base_address existing + node_size existing)
      in list_ex (\<lambda>a. node_contains node (of_nat a) \<and> node_contains existing (of_nat a))
           [unat overlap_begin ..< unat overlap_end])"

fun scan_nodes :: "TlNode \<Rightarrow> TlNode list \<Rightarrow> bool option" where
  "scan_nodes node [] = None"
| "scan_nodes node (existing # rest) =
     (if node_id existing = node_id node then Some True
      else if node_size existing > NOT 0 - base_address existing then Some False
      else if owns_same_byte node existing then Some False
      else scan_nodes node rest)"

definition register_device :: "TlNode option \<Rightarrow> MmioRouter \<Rightarrow> bool \<times> MmioRouter" where
  "register_device nd r =
     (case nd of
        None \<Rightarrow> (False, r)
      | Some node \<Rightarrow>
          if node_size node = 0 \<or> node_size node > NOT 0 - base_address node then (False, r)
          else case scan_nodes node (nodes r) of
                 Some b \<Rightarrow> (b, r)
               | None \<Rightarrow> (True, r\<lparr>nodes := sort_key base_address (nodes r @ [node])\<rparr>))"

definition unregister_device :: "TlNode option \<Rightarrow> MmioRouter \<Rightarrow> bool \<times> MmioRouter" where
  "unregister_device nd r =
     (case nd of
        None \<Rightarrow> (False, r)
      | Some node \<Rightarrow>
          if \<exists>n \<in> set (nodes r). node_id n = node_id node
          then (True, r\<lparr>nodes := takeWhile (\<lambda>n. node_id n \<noteq> node_id node) (nodes r) @
                                tl (dropWhile (\<lambda>n. node_id n \<noteq> node_id node) (nodes r))\<rparr>)
          else (False, r))"

definition router_clear :: "MmioRouter \<Rightarrow> MmioRouter" where
  "router_clear r = r\<lparr>nodes := []\<rparr>"

text \<open>
  \<^verbatim>\<open>std::ranges::upper_bound\<close> on the sorted list is the end of the longest prefix of bases not above
  the address; the element before it is the candidate.
\<close>

definition resolve_device :: "MmioRouter \<Rightarrow> Address \<Rightarrow> TlNode option" where
  "resolve_device r addr =
     (if nodes r = [] then None
      else
        let prefix = takeWhile (\<lambda>n. base_address n \<le> addr) (nodes r)
        in if prefix \<noteq> [] \<and> node_contains (last prefix) addr then Some (last prefix)
           else find (\<lambda>n. node_contains n addr) (nodes r))"

definition find_by_name :: "MmioRouter \<Rightarrow> string \<Rightarrow> TlNode option" where
  "find_by_name r name = find (\<lambda>n. node_name n = name) (nodes r)"

type_synonym 'd Sys = "CPU \<times> HostMem \<times> 'd"
type_synonym 'd Handler =
  "nat \<Rightarrow> TlChannelA \<Rightarrow> TlChannelD \<Rightarrow> 'd Sys \<Rightarrow> bool \<times> TlChannelD \<times> 'd Sys"

definition bus_error :: "MmioRouter \<Rightarrow> MmioRouter" where
  "bus_error r = r\<lparr>bus_error_count := bus_error_count r + 1\<rparr>"

definition route_request ::
    "'d Handler \<Rightarrow> TlChannelA \<Rightarrow> TlChannelD \<Rightarrow> MmioRouter \<Rightarrow> 'd Sys \<Rightarrow>
     bool \<times> TlChannelD \<times> MmioRouter \<times> 'd Sys" where
  "route_request handle req resp r s =
     (case resolve_device r (a_address req) of
        None \<Rightarrow> (False, resp\<lparr>d_error := True\<rparr>, bus_error r, s)
      | Some device \<Rightarrow>
          let is_read = (a_opcode req = Get);
              is_write = (a_opcode req = PutFullData \<or> a_opcode req = PutPartialData);
              request_bytes = (2 :: u64) ^ unat (a_size req AND 3);
              refused = (True, resp\<lparr>d_error := True\<rparr>, bus_error r, s)
          in if \<not> is_read \<and> \<not> is_write then refused
             else if request_bytes - 1 > NOT 0 - a_address req \<or>
                     \<not> node_contains device (a_address req + request_bytes - 1) then refused
             else if is_write \<and> is_read_only device then refused
             else if alignment device > 1 \<and> a_address req mod alignment device \<noteq> 0 then refused
             else
               let (handled, resp', s') = handle (node_id device) req resp s
               in if handled then
                    let r1 = (if is_read then r\<lparr>mmio_read_count := mmio_read_count r + 1\<rparr>
                              else if is_write then r\<lparr>mmio_write_count := mmio_write_count r + 1\<rparr>
                              else r);
                        r2 = (if d_error resp' then bus_error r1 else r1)
                    in (True, resp', r2, s')
                  else (True, resp'\<lparr>d_error := True\<rparr>, bus_error r, s'))"

subsection \<open>The bus\<close>

record TileLinkBus =
  read_count :: u64
  write_count :: u64
  router :: MmioRouter
  req_queue :: "TlChannelA list"
  resp_queue :: "TlChannelD list"

definition initial_TileLinkBus :: TileLinkBus where
  "initial_TileLinkBus =
     \<lparr>read_count = 0, write_count = 0, router = initial_MmioRouter, req_queue = [], resp_queue = []\<rparr>"

definition add_node :: "TlNode option \<Rightarrow> TileLinkBus \<Rightarrow> TileLinkBus" where
  "add_node node b = b\<lparr>router := snd (register_device node (router b))\<rparr>"

definition send_request :: "TlChannelA \<Rightarrow> TileLinkBus \<Rightarrow> TileLinkBus" where
  "send_request req b = b\<lparr>req_queue := req_queue b @ [req]\<rparr>"

definition is_tohost_address :: "MachineState \<Rightarrow> Address \<Rightarrow> bool" where
  "is_tohost_address ms addr \<longleftrightarrow>
     addr = s_isatest_tohost ms \<or> addr = 0x80001000 \<or> addr = 0x40008000"

text \<open>
  One request: \<^verbatim>\<open>tick\<close> with the request already taken from the queue. The result is the response,
  the bus with its counters updated and the system state.
\<close>

definition process_request ::
    "'d Handler \<Rightarrow> TlChannelA \<Rightarrow> TileLinkBus \<Rightarrow> 'd Sys \<Rightarrow> TlChannelD \<times> TileLinkBus \<times> 'd Sys" where
  "process_request handle req0 b s =
     (let req = (if a_mask req0 = 0
                 then req0\<lparr>a_mask := compute_mask (a_size req0) (a_address req0)\<rparr> else req0);
          resp = initial_TlChannelD\<lparr>d_source := a_source req, d_size := a_size req\<rparr>;
          funct3 = ucast (a_size req);
          valid_size = (a_size req \<le> 3);
          transfer_bytes = (if valid_size then 2 ^ unat (a_size req) else 0);
          (c, m, d) = s;
          route = (\<lambda>resp s.
            let (handled, resp', r', s') = route_request handle req resp (router b) s
            in ((if handled then resp' else resp'\<lparr>d_error := True\<rparr>), b\<lparr>router := r'\<rparr>, s'))
      in
      if \<not> valid_size then (resp\<lparr>d_error := True\<rparr>, b, s)
      else if a_opcode req = Get then
        if is_dram_access (a_address req) transfer_bytes
        then (resp\<lparr>d_opcode := AccessAckData, d_data := ram_read_fast (a_address req) funct3 m\<rparr>,
              b\<lparr>read_count := read_count b + 1\<rparr>, s)
        else route (resp\<lparr>d_opcode := AccessAckData\<rparr>) s
      else if a_opcode req = PutFullData \<or> a_opcode req = PutPartialData then
        let c' = (if (funct3 = 2 \<or> funct3 = 3) \<and> is_tohost_address (machine c) (a_address req)
                  then c\<lparr>machine := (machine c)\<lparr>tohost := a_data req\<rparr>\<rparr> else c)
        in if is_dram_access (a_address req) transfer_bytes
           then (resp\<lparr>d_opcode := AccessAck\<rparr>, b\<lparr>write_count := write_count b + 1\<rparr>,
                 (c', ram_write_fast (a_address req) (a_data req) funct3 m, d))
           else route (resp\<lparr>d_opcode := AccessAck\<rparr>) (c', m, d)
      else (resp\<lparr>d_error := True\<rparr>, b, s))"

definition tick :: "'d Handler \<Rightarrow> TileLinkBus \<Rightarrow> 'd Sys \<Rightarrow> TileLinkBus \<times> 'd Sys" where
  "tick handle b s =
     (case req_queue b of
        [] \<Rightarrow> (b, s)
      | req # rest \<Rightarrow>
          let (resp, b', s') = process_request handle req (b\<lparr>req_queue := rest\<rparr>) s
          in (b'\<lparr>resp_queue := resp_queue b' @ [resp]\<rparr>, s'))"

lemma req_queue_tick: "req_queue b = req # rest \<Longrightarrow> req_queue (fst (tick handle b s)) = rest"
  by (auto simp: tick_def process_request_def Let_def split: prod.splits if_splits)

function get_response ::
    "'d Handler \<Rightarrow> u8 \<Rightarrow> TileLinkBus \<Rightarrow> 'd Sys \<Rightarrow> TlChannelD option \<times> TileLinkBus \<times> 'd Sys" where
  "get_response handle source_id b s =
     (case find (\<lambda>r. d_source r = source_id) (resp_queue b) of
        Some r \<Rightarrow> (Some r, b\<lparr>resp_queue := remove1 r (resp_queue b)\<rparr>, s)
      | None \<Rightarrow>
          if req_queue b = [] then (None, b, s)
          else get_response handle source_id (fst (tick handle b s)) (snd (tick handle b s)))"
  by pat_completeness auto

termination get_response
proof (relation "measure (\<lambda>(handle, src, b, s). length (req_queue b))")
  fix handle :: "'d Handler" and source_id and b :: TileLinkBus and s :: "'d Sys"
  assume "req_queue b \<noteq> []"
  then obtain req rest where q: "req_queue b = req # rest" by (cases "req_queue b") auto
  then show "((handle, source_id, fst (tick handle b s), snd (tick handle b s)), (handle, source_id, b, s))
      \<in> measure (\<lambda>(handle, src, b, s). length (req_queue b))"
    using req_queue_tick [OF q, of handle s] by (simp add: case_prod_beta)
qed simp

declare get_response.simps [simp del]

subsection \<open>The router owns every byte at most once\<close>

definition node_wf :: "TlNode \<Rightarrow> bool" where
  "node_wf n \<longleftrightarrow> node_size n \<noteq> 0 \<and> node_size n \<le> NOT 0 - base_address n \<and>
     (\<forall>a. node_contains n a \<longrightarrow> default_contains (base_address n) (node_size n) a)"

definition disjoint_nodes :: "TlNode \<Rightarrow> TlNode \<Rightarrow> bool" where
  "disjoint_nodes n n' \<longleftrightarrow> (\<forall>a. \<not> (node_contains n a \<and> node_contains n' a))"

definition router_ok :: "MmioRouter \<Rightarrow> bool" where
  "router_ok r \<longleftrightarrow>
     sorted (map base_address (nodes r)) \<and> distinct (map node_id (nodes r)) \<and>
     (\<forall>n \<in> set (nodes r). node_wf n) \<and>
     (\<forall>n \<in> set (nodes r). \<forall>n' \<in> set (nodes r). n \<noteq> n' \<longrightarrow> disjoint_nodes n n')"

lemma node_range:
  assumes "node_wf n" "node_contains n a"
  shows "unat (base_address n) \<le> unat a" "unat a < unat (base_address n + node_size n)"
proof -
  have c: "base_address n \<le> a" "a - base_address n < node_size n" and sz: "node_size n \<le> NOT 0 - base_address n"
    using assms by (auto simp: node_wf_def default_contains_def)
  have "unat (NOT 0 - base_address n) = 2 ^ 64 - 1 - unat (base_address n)"
    by (subst unat_sub) (simp_all add: word_order.extremum unsigned_minus_1_eq_mask mask_eq_exp_minus_1)
  with sz have "unat (base_address n) + unat (node_size n) < 2 ^ 64"
    using unsigned_less [of "base_address n", where ?'a = nat] by (simp add: word_le_nat_alt)
  then have "unat (base_address n + node_size n) = unat (base_address n) + unat (node_size n)"
    by (simp add: unat_add_lem [symmetric])
  with c show "unat (base_address n) \<le> unat a" "unat a < unat (base_address n + node_size n)"
    by (auto simp: word_le_nat_alt word_less_nat_alt unat_sub)
qed

lemma owns_same_byte_iff:
  assumes "node_wf n" "node_wf n'"
  shows "owns_same_byte n n' \<longleftrightarrow> \<not> disjoint_nodes n n'"
proof
  assume "owns_same_byte n n'"
  then show "\<not> disjoint_nodes n n'"
    by (auto simp: owns_same_byte_def disjoint_nodes_def Let_def list_ex_iff)
next
  assume "\<not> disjoint_nodes n n'"
  then obtain a where a: "node_contains n a" "node_contains n' a" by (auto simp: disjoint_nodes_def)
  then have "unat a \<in> set [unat (max (base_address n) (base_address n')) ..<
      unat (min (base_address n + node_size n) (base_address n' + node_size n'))]"
    using node_range [OF assms(1) a(1)] node_range [OF assms(2) a(2)] by (auto simp: max_def min_def)
  then show "owns_same_byte n n'"
    using a unfolding owns_same_byte_def Let_def list_ex_iff by (intro bexI [of _ "unat a"]) auto
qed

lemma scan_nodes_NoneD:
  "scan_nodes node ns = None \<Longrightarrow> n \<in> set ns \<Longrightarrow> node_id n \<noteq> node_id node \<and> \<not> owns_same_byte node n"
  by (induction ns) (auto split: if_splits)

lemma scan_nodes_SomeD:
  "scan_nodes node ns = Some True \<Longrightarrow> \<exists>n \<in> set ns. node_id n = node_id node"
  by (induction ns) (auto split: if_splits)

lemma register_device_ok:
  assumes "router_ok r" "node_wf node" "register_device (Some node) r = (b, r')"
  shows "router_ok r' \<and> (b \<longrightarrow> node_id node \<in> node_id ` set (nodes r')) \<and> (\<not> b \<longrightarrow> r' = r)"
proof (cases "scan_nodes node (nodes r)")
  case None
  with assms(2,3) have b: "b" and r': "r' = r\<lparr>nodes := sort_key base_address (nodes r @ [node])\<rparr>"
    by (auto simp: register_device_def node_wf_def split: if_splits)
  have new: "node_id n \<noteq> node_id node" "disjoint_nodes node n" if "n \<in> set (nodes r)" for n
    using scan_nodes_NoneD [OF None that] owns_same_byte_iff [OF assms(2)] assms(1) that
    by (auto simp: router_ok_def)
  have sym: "disjoint_nodes a c = disjoint_nodes c a" for a c by (auto simp: disjoint_nodes_def)
  have "distinct (map node_id (sort_key base_address (nodes r @ [node])))"
  proof -
    have "node_id node \<notin> node_id ` set (nodes r)" by (metis imageE new(1))
    moreover from this have "node \<notin> set (nodes r)" by blast
    ultimately show ?thesis
      using assms(1) by (auto simp: router_ok_def distinct_map simp del: sort_key_simps)
  qed
  then have "router_ok r'"
    using assms(1,2) new sym unfolding r' router_ok_def by (auto simp del: sort_key_simps)
  then show ?thesis using b r' by simp
next
  case (Some a)
  with assms have r': "r' = r" "b \<longrightarrow> scan_nodes node (nodes r) = Some True"
    by (auto simp: register_device_def split: if_splits)
  with assms(1) show ?thesis by (auto dest!: scan_nodes_SomeD intro: rev_image_eqI)
qed

lemma resolve_device_iff:
  assumes "router_ok r"
  shows "resolve_device r a = Some n \<longleftrightarrow> n \<in> set (nodes r) \<and> node_contains n a"
proof -
  let ?p = "takeWhile (\<lambda>n. base_address n \<le> a) (nodes r)"
  have sub: "last ?p \<in> set (nodes r)" if "?p \<noteq> []"
    using last_in_set [OF that] by (metis set_takeWhileD)
  have uniq: "n = n'" if "n \<in> set (nodes r)" "n' \<in> set (nodes r)" "node_contains n a" "node_contains n' a" for n n'
    using assms that by (auto simp: router_ok_def disjoint_nodes_def)
  have found: "find (\<lambda>n. node_contains n a) (nodes r) = Some n \<longleftrightarrow> n \<in> set (nodes r) \<and> node_contains n a" for n
  proof
    assume "find (\<lambda>n. node_contains n a) (nodes r) = Some n"
    then show "n \<in> set (nodes r) \<and> node_contains n a" by (auto simp: find_Some_iff)
  next
    assume n: "n \<in> set (nodes r) \<and> node_contains n a"
    then have "find (\<lambda>n. node_contains n a) (nodes r) \<noteq> None" by (auto simp: find_None_iff)
    then obtain n' where n': "find (\<lambda>n. node_contains n a) (nodes r) = Some n'" by auto
    then have "n' \<in> set (nodes r)" "node_contains n' a" by (auto simp: find_Some_iff)
    with n n' uniq [of n n'] show "find (\<lambda>n. node_contains n a) (nodes r) = Some n" by simp
  qed
  show ?thesis
    using found sub uniq by (auto simp: resolve_device_def Let_def)
qed

subsection \<open>Transactions\<close>

lemma route_request_nodes:
  "nodes (fst (snd (snd (route_request handle req resp r s)))) = nodes r"
  by (simp add: route_request_def bus_error_def Let_def case_prod_beta split: option.split)

lemma process_request_keeps:
  "req_queue (fst (snd (process_request handle req b s))) = req_queue b"
  "resp_queue (fst (snd (process_request handle req b s))) = resp_queue b"
  "nodes (router (fst (snd (process_request handle req b s)))) = nodes (router b)"
  by (simp_all add: process_request_def Let_def case_prod_beta route_request_nodes)

text \<open>
  What the bus relies on: a device that is given a response with the source tag of the request
  returns it with that tag.
\<close>

locale bus_devices =
  fixes handle :: "'d Handler"
  assumes handle_source:
    "d_source resp = a_source req \<Longrightarrow> d_source (fst (snd (handle i req resp s))) = a_source req"
begin

lemma route_source:
  "d_source resp = a_source req \<Longrightarrow>
     d_source (fst (snd (route_request handle req resp r s))) = a_source req"
  by (simp add: route_request_def Let_def case_prod_beta handle_source split: option.split)

lemma process_source: "d_source (fst (process_request handle req b s)) = a_source req"
  by (simp add: process_request_def Let_def case_prod_beta route_source)

lemma transaction:
  assumes "req_queue b = []" "resp_queue b = []"
  shows "get_response handle (a_source req) (send_request req b) s =
    (case process_request handle req b s of (resp, b', s') \<Rightarrow> (Some resp, b', s'))"
proof -
  obtain resp b' s' where p: "process_request handle req b s = (resp, b', s')"
    by (cases "process_request handle req b s")
  have b: "b\<lparr>req_queue := []\<rparr> = b"
    using assms(1) by (cases b) simp
  have keep: "resp_queue b' = []" "req_queue b' = []" and src: "d_source resp = a_source req"
    using process_request_keeps [of handle req b s] process_source [of req b s] p assms by auto
  have tick: "tick handle (b\<lparr>req_queue := [req]\<rparr>) s = (b'\<lparr>resp_queue := [resp]\<rparr>, s')"
    using assms keep by (simp add: tick_def b p)
  have "get_response handle (a_source req) (b\<lparr>req_queue := [req]\<rparr>) s =
      get_response handle (a_source req) (b'\<lparr>resp_queue := [resp]\<rparr>) s'"
    using assms by (subst get_response.simps) (simp add: tick)
  also have "\<dots> = (Some resp, b', s')"
  proof -
    have r: "b'\<lparr>resp_queue := []\<rparr> = b'" using keep by (cases b') simp
    show ?thesis using src by (subst get_response.simps) (simp add: r)
  qed
  finally show ?thesis using assms p by (simp add: send_request_def)
qed

end

end
