(* ===== verification/Interrupts.thy ===== *)
theory Interrupts
  imports Tile_Link
begin

text \<open>
  The interrupt controllers (\<^verbatim>\<open>src/core/StateControl.cpp\<close>): the platform-level interrupt controller
  with its two contexts (machine and supervisor), the core-local timer and software interrupts, and
  \<^verbatim>\<open>CPU::evaluate_timer_interrupt\<close>. Both are bus nodes that act on the pending bits of the hart they
  belong to, so their handlers are functions of the whole hart. The levels of the interrupt lines of
  the devices, which the completion of a claim samples, are the record \<open>IrqLines\<close>.
\<close>

subsection \<open>Platform-level interrupt controller\<close>

definition irq_active :: "PlicMmio \<Rightarrow> nat \<Rightarrow> nat \<Rightarrow> bool" where
  "irq_active pl ctx i \<longleftrightarrow>
     plic_pending pl 0 AND push_bit i 1 \<noteq> 0 \<and> plic_enables pl ctx 0 AND push_bit i 1 \<noteq> 0"

definition max_priority :: "PlicMmio \<Rightarrow> nat \<Rightarrow> Word" where
  "max_priority pl ctx =
     foldl (\<lambda>max_prio i.
              if irq_active pl ctx i then
                if plic_priorities pl i > max_prio then plic_priorities pl i else max_prio
              else max_prio)
       0 [1..<32]"

definition updateMip :: "PlicMmio \<Rightarrow> ArchState \<Rightarrow> ArchState" where
  "updateMip pl s =
     (let m_ext = (max_priority pl 0 > plic_threshold pl 0);
          s_ext = (max_priority pl 1 > plic_threshold pl 1);
          s1 = (if m_ext then s\<lparr>mip := mip s OR Mip_Meip\<rparr> else s\<lparr>mip := mip s AND NOT Mip_Meip\<rparr>);
          s2 = s1\<lparr>seip_external := s_ext\<rparr>
      in refresh_supervisor_pending s2)"

definition plic_update_mip :: "CPU \<Rightarrow> CPU" where
  "plic_update_mip c = c\<lparr>st := updateMip (plic_mmio c) (st c)\<rparr>"

definition setIrq :: "CPU \<Rightarrow> int \<Rightarrow> int \<Rightarrow> CPU" where
  "setIrq c irq_num state_val =
     (if irq_num \<le> 0 \<or> irq_num \<ge> 32 then c
      else
        let msk = push_bit (nat irq_num) 1;
            pl = plic_mmio c;
            pending' = (if state_val \<noteq> 0 then plic_pending pl 0 OR msk
                        else plic_pending pl 0 AND NOT msk)
        in plic_update_mip (c\<lparr>plic_mmio := pl\<lparr>plic_pending := (plic_pending pl)(0 := pending')\<rparr>\<rparr>))"

definition get_context_for_offset :: "Address \<Rightarrow> int" where
  "get_context_for_offset off =
     (if off \<ge> 0x200000 \<and> off < 0x201000 then 0
      else if off \<ge> 0x201000 \<and> off < 0x202000 then 1
      else - 1)"

definition best_claim :: "PlicMmio \<Rightarrow> nat \<Rightarrow> Word \<times> nat" where
  "best_claim pl ctx =
     foldl (\<lambda>(max_prio, claim_id) i.
              if irq_active pl ctx i then
                if plic_priorities pl i > max_prio then (plic_priorities pl i, i)
                else (max_prio, claim_id)
              else (max_prio, claim_id))
       (0, 0) [1..<32]"

text \<open>
  The claim read of a context. The complement of the claimed bit is taken at 32 bits and widened
  with zeros.
\<close>

definition plic_claim_read :: "CPU \<Rightarrow> nat \<Rightarrow> Word \<times> CPU" where
  "plic_claim_read c ctx =
     (let pl = plic_mmio c;
          (max_prio, best_id) = best_claim pl ctx;
          claim_id = (if max_prio \<le> plic_threshold pl ctx then 0 else best_id)
      in if claim_id > 0 then
           let keep = ucast (NOT (push_bit claim_id 1 :: u32));
               pl' = pl\<lparr>plic_pending := (plic_pending pl)(0 := plic_pending pl 0 AND keep),
                        plic_claim := (plic_claim pl)(ctx := of_nat claim_id)\<rparr>
           in (of_nat claim_id, plic_update_mip (c\<lparr>plic_mmio := pl'\<rparr>))
         else (of_nat claim_id, c))"

definition plic_mmio_read :: "CPU \<Rightarrow> Address \<Rightarrow> Word \<times> CPU" where
  "plic_mmio_read c off =
     (let pl = plic_mmio c;
          enable_word = (\<lambda>ctx word. let v = plic_enables pl ctx word
                                    in if word = 0 then v AND NOT 1 else v)
      in if off < 0x1000 then
           if off = 0 then (0, c) else (plic_priorities pl (unat (off div 4)), c)
         else if off \<ge> 0x1000 \<and> off < 0x1080 then (plic_pending pl (unat ((off - 0x1000) div 4)), c)
         else if off \<ge> 0x2000 \<and> off < 0x2080 then (enable_word 0 (unat ((off - 0x2000) div 4)), c)
         else if off \<ge> 0x2080 \<and> off < 0x2100 then (enable_word 1 (unat ((off - 0x2080) div 4)), c)
         else
           let context = get_context_for_offset off in
           if context \<ge> 0 then
             let ctx_idx = nat context;
                 ctx_base = 0x200000 + of_int context * 0x1000
             in if off = ctx_base then (plic_threshold pl ctx_idx, c)
                else if off = ctx_base + 4 then plic_claim_read c ctx_idx
                else (0, c)
           else (0, c))"

record IrqLines =
  console_line :: bool
  disk_line :: bool
  uart_line :: bool

abbreviation (input) kConsoleIrq :: Word where "kConsoleIrq \<equiv> 1"
abbreviation (input) kDiskIrq :: Word where "kDiskIrq \<equiv> 2"

definition plic_complete :: "IrqLines \<Rightarrow> CPU \<Rightarrow> nat \<Rightarrow> Word \<Rightarrow> CPU" where
  "plic_complete lines c ctx wdata =
     (if plic_claim (plic_mmio c) ctx = wdata \<and> wdata \<noteq> 0 then
        let pl = plic_mmio c;
            c1 = c\<lparr>plic_mmio := pl\<lparr>plic_claim := (plic_claim pl)(ctx := 0)\<rparr>\<rparr>
        in if wdata = kDiskIrq \<and> disk_line lines then setIrq c1 (sint (ucast wdata :: 32 word)) 1
           else if wdata = kConsoleIrq \<and> console_line lines
           then setIrq c1 (sint (ucast wdata :: 32 word)) 1
           else if wdata = 3 \<and> uart_line lines then setIrq c1 (sint (ucast wdata :: 32 word)) 1
           else c1
      else c)"

definition plic_mmio_write :: "IrqLines \<Rightarrow> CPU \<Rightarrow> Address \<Rightarrow> Word \<Rightarrow> CPU" where
  "plic_mmio_write lines c off wdata =
     (let pl = plic_mmio c;
          set_enable = (\<lambda>ctx word.
            c\<lparr>plic_mmio := pl\<lparr>plic_enables := (plic_enables pl)(ctx :=
                (plic_enables pl ctx)(word := (if word = 0 then wdata AND NOT 1 else wdata)))\<rparr>\<rparr>);
          c1 =
            (if off < 0x1000 then
               if off \<noteq> 0
               then c\<lparr>plic_mmio := pl\<lparr>plic_priorities := (plic_priorities pl)(unat (off div 4) := wdata)\<rparr>\<rparr>
               else c
             else if off \<ge> 0x2000 \<and> off < 0x2080 then set_enable 0 (unat ((off - 0x2000) div 4))
             else if off \<ge> 0x2080 \<and> off < 0x2100 then set_enable 1 (unat ((off - 0x2080) div 4))
             else
               let context = get_context_for_offset off in
               if context \<ge> 0 then
                 let ctx_idx = nat context;
                     ctx_base = 0x200000 + of_int context * 0x1000
                 in if off = ctx_base
                    then c\<lparr>plic_mmio := pl\<lparr>plic_threshold := (plic_threshold pl)(ctx_idx := wdata)\<rparr>\<rparr>
                    else if off = ctx_base + 4 then plic_complete lines c ctx_idx wdata
                    else c
               else c)
      in plic_update_mip c1)"

abbreviation (input) kPlicBaseAddress :: Address where "kPlicBaseAddress \<equiv> 0x50000000"
abbreviation (input) kPlicSize :: Address where "kPlicSize \<equiv> 0x04000000"
abbreviation (input) kClintBaseAddress :: Address where "kClintBaseAddress \<equiv> 0x60000000"
abbreviation (input) kClintSize :: Address where "kClintSize \<equiv> 0x000c0000"

definition plic_handle_request ::
    "IrqLines \<Rightarrow> TlChannelA \<Rightarrow> TlChannelD \<Rightarrow> CPU \<Rightarrow> bool \<times> TlChannelD \<times> CPU" where
  "plic_handle_request lines req resp c =
     (let off = a_address req - kPlicBaseAddress in
      if a_opcode req = Get then
        let (data, c') = plic_mmio_read c off in (True, resp\<lparr>d_data := data\<rparr>, c')
      else (True, resp, plic_mmio_write lines c off (a_data req)))"

definition plic_node :: TlNode where
  "plic_node =
     \<lparr>node_id = 0, node_name = ''plic'', base_address = kPlicBaseAddress, node_size = kPlicSize,
      node_contains = (\<lambda>addr. addr \<ge> kPlicBaseAddress \<and> addr < kPlicBaseAddress + kPlicSize),
      alignment = 1, is_read_only = False\<rparr>"

subsection \<open>Timer and software interrupts\<close>

abbreviation (input) kClintMtimecmpOffset :: Address where "kClintMtimecmpOffset \<equiv> 0x4000"
abbreviation (input) kClintMtimeOffset :: Address where "kClintMtimeOffset \<equiv> 0xbff8"
abbreviation (input) kWord32Mask :: u64 where "kWord32Mask \<equiv> 0xFFFFFFFF"

definition evaluate_timer_interrupt :: "CPU \<Rightarrow> CPU" where
  "evaluate_timer_interrupt c =
     (let cl = clint_mmio c; s = st c;
          timer_pending = (mtime cl \<ge> mtimecmp cl);
          s1 = (if supervisor_timer cl
                then s\<lparr>mip := mip s AND NOT Mip_Mtip, stip_timer := timer_pending\<rparr>
                else s\<lparr>stip_timer := False,
                       mip := (if timer_pending then mip s OR Mip_Mtip else mip s AND NOT Mip_Mtip)\<rparr>)
      in c\<lparr>st := refresh_supervisor_pending s1\<rparr>)"

definition clint_mmio_read :: "CPU \<Rightarrow> Address \<Rightarrow> Word" where
  "clint_mmio_read c off =
     (let cl = clint_mmio c in
      if off = 0 then (if mip (st c) AND Mip_Msip \<noteq> 0 then 1 else 0)
      else if off = kClintMtimeOffset then mtime cl AND kWord32Mask
      else if off = kClintMtimeOffset + 4 then drop_bit 32 (mtime cl) AND kWord32Mask
      else if off = kClintMtimecmpOffset then mtimecmp cl AND kWord32Mask
      else if off = kClintMtimecmpOffset + 4 then drop_bit 32 (mtimecmp cl) AND kWord32Mask
      else 0)"

text \<open>Stores to the compare register and to the time counter end the supervisor's use of the timer.\<close>

definition store_mtimecmp :: "CPU \<Rightarrow> u64 \<Rightarrow> CPU" where
  "store_mtimecmp c v =
     evaluate_timer_interrupt
       (c\<lparr>clint_mmio := (clint_mmio c)\<lparr>supervisor_timer := False, mtimecmp := v\<rparr>\<rparr>)"

definition store_mtime :: "CPU \<Rightarrow> u64 \<Rightarrow> CPU" where
  "store_mtime c v =
     evaluate_timer_interrupt
       (c\<lparr>clint_mmio := (clint_mmio c)\<lparr>supervisor_timer := False, mtime := v\<rparr>\<rparr>)"

definition clint_mmio_write :: "CPU \<Rightarrow> Address \<Rightarrow> Word \<Rightarrow> CPU" where
  "clint_mmio_write c off wdata =
     (let wdata_64 = wdata AND kWord32Mask; s = st c; cl = clint_mmio c in
      if off = 0 then
        if wdata AND 1 \<noteq> 0 then c\<lparr>st := s\<lparr>mip := mip s OR Mip_Msip\<rparr>\<rparr>
        else c\<lparr>st := s\<lparr>mip := mip s AND NOT Mip_Msip\<rparr>\<rparr>
      else if off = kClintMtimecmpOffset
      then store_mtimecmp c ((mtimecmp cl AND NOT kWord32Mask) OR wdata_64)
      else if off = kClintMtimecmpOffset + 4
      then store_mtimecmp c ((mtimecmp cl AND kWord32Mask) OR push_bit 32 wdata_64)
      else if off = kClintMtimeOffset
      then store_mtime c ((mtime cl AND NOT kWord32Mask) OR wdata_64)
      else if off = kClintMtimeOffset + 4
      then store_mtime c ((mtime cl AND kWord32Mask) OR push_bit 32 wdata_64)
      else c)"

definition clint_handle_request ::
    "TlChannelA \<Rightarrow> TlChannelD \<Rightarrow> CPU \<Rightarrow> bool \<times> TlChannelD \<times> CPU" where
  "clint_handle_request req resp c =
     (let off = a_address req - kClintBaseAddress;
          req_bytes = (2 :: nat) ^ unat (a_size req AND 3)
      in if a_opcode req = Get then
           let data = (if req_bytes = 8 then
                         if off = kClintMtimeOffset then mtime (clint_mmio c)
                         else if off = kClintMtimecmpOffset then mtimecmp (clint_mmio c)
                         else clint_mmio_read c off
                       else clint_mmio_read c off)
           in (True, resp\<lparr>d_data := data\<rparr>, c)
         else
           let c' = (if req_bytes = 8 then
                       if off = kClintMtimecmpOffset then store_mtimecmp c (a_data req)
                       else if off = kClintMtimeOffset then store_mtime c (a_data req)
                       else clint_mmio_write c off (a_data req)
                     else clint_mmio_write c off (a_data req))
           in (True, resp, c'))"

definition clint_node :: TlNode where
  "clint_node =
     \<lparr>node_id = 1, node_name = ''clint'', base_address = kClintBaseAddress, node_size = kClintSize,
      node_contains = (\<lambda>addr. addr \<ge> kClintBaseAddress \<and> addr < kClintBaseAddress + kClintSize),
      alignment = 1, is_read_only = False\<rparr>"

subsection \<open>The claimed source\<close>

definition plic_signals :: "PlicMmio \<Rightarrow> nat \<Rightarrow> bool" where
  "plic_signals pl ctx \<longleftrightarrow>
     (\<exists>i \<in> {1..<32}. irq_active pl ctx i \<and> plic_priorities pl i > plic_threshold pl ctx)"

definition best_step :: "PlicMmio \<Rightarrow> nat \<Rightarrow> Word \<times> nat \<Rightarrow> nat \<Rightarrow> Word \<times> nat" where
  "best_step pl ctx r i =
     (if irq_active pl ctx i \<and> plic_priorities pl i > fst r then (plic_priorities pl i, i) else r)"

lemma best_claim_steps: "best_claim pl ctx = foldl (best_step pl ctx) (0, 0) [1..<32]"
  unfolding best_claim_def by (rule arg_cong [where f = "\<lambda>f. foldl f (0, 0) [1..<32]"])
    (auto simp: best_step_def fun_eq_iff)

lemma best_steps_inv:
  assumes "1 \<le> n" "foldl (best_step pl ctx) (0, 0) [1..<n] = (m, i)"
  shows "i < n \<and> (if i = 0 then m = 0 else irq_active pl ctx i \<and> m = plic_priorities pl i \<and> m > 0) \<and>
     (\<forall>j. 1 \<le> j \<longrightarrow> j < n \<longrightarrow> irq_active pl ctx j \<longrightarrow>
        plic_priorities pl j \<le> m \<and> (j < i \<longrightarrow> plic_priorities pl j < m))"
  using assms
proof (induction n arbitrary: m i rule: nat_induct_at_least [of 1])
  case (Suc n)
  obtain m0 i0 where r: "foldl (best_step pl ctx) (0, 0) [1..<n] = (m0, i0)" by fastforce
  have IH: "i0 < n" "if i0 = 0 then m0 = 0 else irq_active pl ctx i0 \<and> m0 = plic_priorities pl i0 \<and> m0 > 0"
    "\<And>j. 1 \<le> j \<Longrightarrow> j < n \<Longrightarrow> irq_active pl ctx j \<Longrightarrow> plic_priorities pl j \<le> m0 \<and> (j < i0 \<longrightarrow> plic_priorities pl j < m0)"
    using Suc.IH [OF r] by auto
  have step: "best_step pl ctx (m0, i0) n = (m, i)"
    using Suc.prems Suc.hyps r by simp
  show ?case
  proof (cases "irq_active pl ctx n \<and> plic_priorities pl n > m0")
    case True
    then have mi: "m = plic_priorities pl n" "i = n" using step by (auto simp: best_step_def)
    have "plic_priorities pl j < m" if "1 \<le> j" "j < n" "irq_active pl ctx j" for j
      using IH(3) [OF that] True mi by (meson le_less_trans)
    moreover have "m > 0" using True mi word_neq_0_conv by fastforce
    ultimately show ?thesis using True mi Suc.hyps by (auto simp: less_Suc_eq intro: less_imp_le)
  next
    case False
    then have "m = m0" "i = i0" using step by (auto simp: best_step_def)
    then show ?thesis using IH False by (auto simp: less_Suc_eq not_less)
  qed
qed simp

lemma best_claim_inv:
  assumes "best_claim pl ctx = (m, i)"
  shows "i < 32" "if i = 0 then m = 0 else irq_active pl ctx i \<and> m = plic_priorities pl i \<and> m > 0"
    "\<And>j. 1 \<le> j \<Longrightarrow> j < 32 \<Longrightarrow> irq_active pl ctx j \<Longrightarrow>
       plic_priorities pl j \<le> m \<and> (j < i \<longrightarrow> plic_priorities pl j < m)"
  using best_steps_inv [of 32 pl ctx m i] assms unfolding best_claim_steps by auto

lemma max_priority_fst: "max_priority pl ctx = fst (best_claim pl ctx)"
proof -
  have "foldl (\<lambda>m i. if irq_active pl ctx i then if plic_priorities pl i > m then plic_priorities pl i else m else m)
      (fst r) xs = fst (foldl (best_step pl ctx) r xs)" for r xs
  proof (induction xs arbitrary: r)
    case (Cons x xs)
    have "(if irq_active pl ctx x then if plic_priorities pl x > fst r then plic_priorities pl x else fst r else fst r)
        = fst (best_step pl ctx r x)" by (simp add: best_step_def)
    then show ?case using Cons [of "best_step pl ctx r x"] by (simp only: foldl_Cons)
  qed simp
  from this [of "(0, 0)" "[1..<32]"] show ?thesis
    by (simp only: max_priority_def best_claim_steps fst_conv)
qed

lemma max_priority_above: "max_priority pl ctx > plic_threshold pl ctx \<longleftrightarrow> plic_signals pl ctx"
proof -
  obtain m i where mi: "best_claim pl ctx = (m, i)" by fastforce
  note inv = best_claim_inv [OF mi]
  have "plic_signals pl ctx" if "plic_threshold pl ctx < m"
  proof -
    have "i \<noteq> 0" using inv(2) that by (auto split: if_splits)
    then show ?thesis using inv(1,2) that by (auto simp: plic_signals_def intro!: bexI [of _ i])
  qed
  moreover have "plic_threshold pl ctx < m" if "plic_signals pl ctx"
    using that inv(3) by (auto simp: plic_signals_def intro: less_le_trans)
  ultimately show ?thesis by (auto simp: max_priority_fst mi)
qed

subsection \<open>Pending lines\<close>

definition plic_lines_ok :: "CPU \<Rightarrow> bool" where
  "plic_lines_ok c \<longleftrightarrow>
     bit (mip (st c)) 11 = plic_signals (plic_mmio c) 0 \<and>
     seip_external (st c) = plic_signals (plic_mmio c) 1 \<and>
     bits_within (plic_pending (plic_mmio c) 0) 0xFFFFFFFF"

lemma arch_wf_updateMip:
  assumes "arch_wf s" shows "arch_wf (updateMip pl s)"
proof -
  have b: "bits_within (if d then mip s OR Mip_Meip else mip s AND NOT Mip_Meip) (interrupt_implemented_mask True)" for d
    using assms by (auto simp: arch_wf_def bits_within_iff bit_simps)
  note r = arch_wf_refresh [OF assms b [of "max_priority pl 0 > plic_threshold pl 0"],
      where a = "seip_software s" and b = "max_priority pl 1 > plic_threshold pl 1"
        and d = "stip_software s" and e = "stip_timer s"]
  show ?thesis using r by (simp add: updateMip_def Let_def split: if_splits)
qed

lemma updateMip_lines:
  "bit (mip (updateMip pl s)) 11 = plic_signals pl 0" "seip_external (updateMip pl s) = plic_signals pl 1"
  by (simp_all add: updateMip_def Let_def bit_refresh_supervisor_pending bit_simps max_priority_above)
    (simp_all add: refresh_supervisor_pending_def Let_def)

lemma plic_update_mip_ok:
  assumes "bits_within (plic_pending (plic_mmio c) 0) 0xFFFFFFFF"
  shows "plic_lines_ok (plic_update_mip c)"
  using assms by (simp add: plic_lines_ok_def plic_update_mip_def updateMip_lines)

lemma plic_update_mip_sel [simp]:
  "plic_mmio (plic_update_mip c) = plic_mmio c" "clint_mmio (plic_update_mip c) = clint_mmio c"
  "arch_wf (st c) \<Longrightarrow> arch_wf (st (plic_update_mip c))"
  by (simp_all add: plic_update_mip_def arch_wf_updateMip)

lemma setIrq_keeps:
  assumes "arch_wf (st c)" "plic_lines_ok c"
  shows "arch_wf (st (setIrq c i v)) \<and> plic_lines_ok (setIrq c i v)"
  using assms
  by (auto simp: setIrq_def Let_def plic_lines_ok_def [of c] bits_within_iff bit_simps intro!: plic_update_mip_ok)

lemma plic_claim_cases:
  assumes "plic_claim_read c ctx = (v, c')" "bits_within (plic_pending (plic_mmio c) 0) 0xFFFFFFFF"
  defines "pl \<equiv> plic_mmio c"
  shows "\<not> plic_signals pl ctx \<Longrightarrow> v = 0 \<and> c' = c"
    "plic_signals pl ctx \<Longrightarrow>
       \<exists>i \<in> {1..<32}. v = of_nat i \<and> irq_active pl ctx i \<and> plic_priorities pl i > plic_threshold pl ctx \<and>
         (\<forall>j \<in> {1..<32}. irq_active pl ctx j \<longrightarrow>
            plic_priorities pl j \<le> plic_priorities pl i \<and> (plic_priorities pl j = plic_priorities pl i \<longrightarrow> i \<le> j)) \<and>
         c' = plic_update_mip (c\<lparr>plic_mmio := pl\<lparr>
                plic_pending := (plic_pending pl)(0 := plic_pending pl 0 AND NOT (push_bit i 1)),
                plic_claim := (plic_claim pl)(ctx := of_nat i)\<rparr>\<rparr>)"
proof -
  obtain m i where mi: "best_claim pl ctx = (m, i)" by fastforce
  note inv = best_claim_inv [OF mi]
  have above: "m > plic_threshold pl ctx \<longleftrightarrow> plic_signals pl ctx"
    using max_priority_above [of pl ctx] by (simp add: max_priority_fst mi)
  show "v = 0 \<and> c' = c" if "\<not> plic_signals pl ctx"
    using assms(1) that above by (simp add: plic_claim_read_def Let_def mi pl_def [symmetric] not_less)
  have "plic_pending pl 0 AND ucast (NOT (push_bit i 1 :: u32)) = plic_pending pl 0 AND NOT (push_bit i 1)"
    if "i < 32"
    using assms(2) that by (auto simp: bits_within_iff pl_def bit_simps intro!: bit_word_eqI)
  then show "\<exists>i \<in> {1..<32}. v = of_nat i \<and> irq_active pl ctx i \<and> plic_priorities pl i > plic_threshold pl ctx \<and>
         (\<forall>j \<in> {1..<32}. irq_active pl ctx j \<longrightarrow>
            plic_priorities pl j \<le> plic_priorities pl i \<and> (plic_priorities pl j = plic_priorities pl i \<longrightarrow> i \<le> j)) \<and>
         c' = plic_update_mip (c\<lparr>plic_mmio := pl\<lparr>
                plic_pending := (plic_pending pl)(0 := plic_pending pl 0 AND NOT (push_bit i 1)),
                plic_claim := (plic_claim pl)(ctx := of_nat i)\<rparr>\<rparr>)" if sig: "plic_signals pl ctx"
  proof -
    have "i \<noteq> 0" using inv(2) above sig by (auto split: if_splits)
    then have i: "irq_active pl ctx i" "m = plic_priorities pl i" using inv(2) by simp_all
    have "plic_priorities pl j \<le> plic_priorities pl i \<and> (plic_priorities pl j = plic_priorities pl i \<longrightarrow> i \<le> j)"
      if "j \<in> {1..<32}" "irq_active pl ctx j" for j
      using inv(3) [of j] that i(2) by (cases "j < i") auto
    moreover have "v = of_nat i \<and> c' = plic_update_mip (c\<lparr>plic_mmio := pl\<lparr>
        plic_pending := (plic_pending pl)(0 := plic_pending pl 0 AND NOT (push_bit i 1)),
        plic_claim := (plic_claim pl)(ctx := of_nat i)\<rparr>\<rparr>)"
      using assms(1) above sig \<open>i \<noteq> 0\<close> \<open>i < 32 \<Longrightarrow> _\<close> [OF inv(1)]
      by (auto simp: plic_claim_read_def Let_def mi pl_def [symmetric] not_less [symmetric])
    ultimately show ?thesis
      using i inv(1) above sig \<open>i \<noteq> 0\<close> by (intro bexI [of _ i]) auto
  qed
qed

lemma plic_reads_keep:
  assumes "arch_wf (st c)" "plic_lines_ok c"
  shows "arch_wf (st (snd (plic_mmio_read c off))) \<and> plic_lines_ok (snd (plic_mmio_read c off))"
proof -
  have "arch_wf (st (snd (plic_claim_read c ctx))) \<and> plic_lines_ok (snd (plic_claim_read c ctx))" for ctx
  proof -
    obtain v c' where r: "plic_claim_read c ctx = (v, c')" by fastforce
    have p: "bits_within (plic_pending (plic_mmio c) 0) 0xFFFFFFFF" using assms(2) by (simp add: plic_lines_ok_def)
    then have "bits_within (plic_pending (plic_mmio c) 0 AND m) 0xFFFFFFFF" for m
      by (auto simp: bits_within_iff bit_simps)
    with plic_claim_cases [OF r p] assms show ?thesis
      by (cases "plic_signals (plic_mmio c) ctx") (auto simp: r intro!: plic_update_mip_ok)
  qed
  then show ?thesis using assms by (simp add: plic_mmio_read_def Let_def)
qed

lemma plic_complete_keeps:
  assumes "arch_wf (st c)" "plic_lines_ok c"
  shows "arch_wf (st (plic_complete lines c ctx w)) \<and> plic_lines_ok (plic_complete lines c ctx w)"
proof -
  let ?c = "c\<lparr>plic_mmio := (plic_mmio c)\<lparr>plic_claim := (plic_claim (plic_mmio c))(ctx := 0)\<rparr>\<rparr>"
  have "arch_wf (st ?c)" "plic_lines_ok ?c"
    using assms by (simp_all add: plic_lines_ok_def plic_signals_def irq_active_def)
  with setIrq_keeps [OF this] assms show ?thesis by (simp add: plic_complete_def Let_def)
qed

lemma plic_writes_keep:
  assumes "arch_wf (st c)" "plic_lines_ok c"
  shows "arch_wf (st (plic_mmio_write lines c off w)) \<and> plic_lines_ok (plic_mmio_write lines c off w)"
proof -
  note k = plic_complete_keeps [OF assms]
  have p: "bits_within (plic_pending (plic_mmio c) 0) 0xFFFFFFFF"
    "\<And>ctx. bits_within (plic_pending (plic_mmio (plic_complete lines c ctx w)) 0) 0xFFFFFFFF"
    using assms(2) k by (simp_all add: plic_lines_ok_def)
  show ?thesis
    unfolding plic_mmio_write_def Let_def
    by (intro conjI plic_update_mip_ok plic_update_mip_sel; simp add: p k assms(1))
qed

subsection \<open>Timer\<close>

lemma evaluate_timer_sel [simp]:
  "clint_mmio (evaluate_timer_interrupt c) = clint_mmio c"
  "plic_mmio (evaluate_timer_interrupt c) = plic_mmio c"
  by (simp_all add: evaluate_timer_interrupt_def Let_def)

lemma evaluate_timer_pending:
  "bit (mip (st (evaluate_timer_interrupt c))) 7 \<longleftrightarrow>
     \<not> supervisor_timer (clint_mmio c) \<and> mtime (clint_mmio c) \<ge> mtimecmp (clint_mmio c)"
  "n \<noteq> 5 \<Longrightarrow> n \<noteq> 7 \<Longrightarrow> n \<noteq> 9 \<Longrightarrow>
     bit (mip (st (evaluate_timer_interrupt c))) n = bit (mip (st c)) n"
  "stip_timer (st (evaluate_timer_interrupt c)) \<longleftrightarrow>
     supervisor_timer (clint_mmio c) \<and> mtime (clint_mmio c) \<ge> mtimecmp (clint_mmio c)"
  "seip_external (st (evaluate_timer_interrupt c)) = seip_external (st c)"
  by (auto simp: evaluate_timer_interrupt_def Let_def bit_refresh_supervisor_pending bit_simps
      dest: bit_imp_le_length) (simp_all add: refresh_supervisor_pending_def Let_def)

lemma arch_wf_timer:
  assumes "arch_wf s" "bits_within m (interrupt_implemented_mask True)"
  shows "arch_wf (refresh_supervisor_pending (s\<lparr>mip := m, stip_timer := e\<rparr>))"
    "arch_wf (refresh_supervisor_pending (s\<lparr>stip_timer := e, mip := m\<rparr>))"
proof -
  have swap: "s\<lparr>stip_timer := e, mip := m\<rparr> = s\<lparr>mip := m, stip_timer := e\<rparr>" by (cases s) simp
  show "arch_wf (refresh_supervisor_pending (s\<lparr>mip := m, stip_timer := e\<rparr>))"
    "arch_wf (refresh_supervisor_pending (s\<lparr>stip_timer := e, mip := m\<rparr>))"
    using arch_wf_refresh [OF assms, where a = "seip_software s" and b = "seip_external s"
      and d = "stip_software s" and e = e] by (simp_all add: swap)
qed

lemma evaluate_timer_keeps:
  assumes "arch_wf (st c)" "plic_lines_ok c"
  shows "arch_wf (st (evaluate_timer_interrupt c)) \<and> plic_lines_ok (evaluate_timer_interrupt c)"
proof -
  have "bits_within (mip (st c) AND NOT Mip_Mtip) (interrupt_implemented_mask True)"
    "bits_within (mip (st c) OR Mip_Mtip) (interrupt_implemented_mask True)"
    using assms(1) by (auto simp: arch_wf_def bits_within_iff bit_simps)
  with assms(1) have "arch_wf (st (evaluate_timer_interrupt c))"
    by (simp add: evaluate_timer_interrupt_def Let_def arch_wf_timer)
  then show ?thesis using assms(2) by (simp add: plic_lines_ok_def evaluate_timer_pending)
qed

lemma plic_lines_ok_clint [simp]: "plic_lines_ok (c\<lparr>clint_mmio := cl\<rparr>) = plic_lines_ok c"
  by (simp add: plic_lines_ok_def)

lemma clint_writes_keep:
  assumes "arch_wf (st c)" "plic_lines_ok c"
  shows "arch_wf (st (clint_mmio_write c off w)) \<and> plic_lines_ok (clint_mmio_write c off w)"
    "arch_wf (st (store_mtimecmp c v)) \<and> plic_lines_ok (store_mtimecmp c v)"
    "arch_wf (st (store_mtime c v)) \<and> plic_lines_ok (store_mtime c v)"
proof -
  have ok: "arch_wf (st (c\<lparr>clint_mmio := cl\<rparr>))" "plic_lines_ok (c\<lparr>clint_mmio := cl\<rparr>)" for cl
    using assms by simp_all
  show a: "arch_wf (st (store_mtimecmp c v)) \<and> plic_lines_ok (store_mtimecmp c v)"
    "arch_wf (st (store_mtime c v)) \<and> plic_lines_ok (store_mtime c v)" for v
    using evaluate_timer_keeps [OF ok] unfolding store_mtimecmp_def store_mtime_def by blast+
  have "arch_wf (s\<lparr>mip := mip s OR Mip_Msip\<rparr>)" "arch_wf (s\<lparr>mip := mip s AND NOT Mip_Msip\<rparr>)" if "arch_wf s" for s
    by (rule arch_wf_mip [OF that]; use that in \<open>auto simp: arch_wf_def bits_within_iff bit_simps\<close>)+
  then show "arch_wf (st (clint_mmio_write c off w)) \<and> plic_lines_ok (clint_mmio_write c off w)"
    using a assms by (auto simp: clint_mmio_write_def Let_def plic_lines_ok_def bit_simps)
qed


subsection \<open>Properties\<close>

text \<open>(C37)
  The claim protocol. Reading the claim register of a context returns the pending and enabled source
  of the highest priority above the threshold, the lowest number among equals, clears its pending
  bit and no other, and records the claim; when no source qualifies the read returns 0 and changes
  nothing. Afterwards the external interrupt lines of both contexts again say whether some source
  qualifies.
\<close>

theorem plic_claim_highest:
  assumes "ctx \<in> {0, 1}" "plic_lines_ok c"
    and "plic_mmio_read c (0x200004 + of_nat ctx * 0x1000) = (v, c')"
  defines "pl \<equiv> plic_mmio c"
  shows "plic_lines_ok c' \<and>
    (if plic_signals pl ctx then
       \<exists>i \<in> {1..<32}. v = of_nat i \<and> irq_active pl ctx i \<and>
         plic_priorities pl i > plic_threshold pl ctx \<and>
         (\<forall>j \<in> {1..<32}. irq_active pl ctx j \<longrightarrow>
            plic_priorities pl j \<le> plic_priorities pl i \<and>
            (plic_priorities pl j = plic_priorities pl i \<longrightarrow> i \<le> j)) \<and>
         plic_pending (plic_mmio c') =
           (plic_pending pl)(0 := plic_pending pl 0 AND NOT (push_bit i 1)) \<and>
         plic_claim (plic_mmio c') = (plic_claim pl)(ctx := v)
     else v = 0 \<and> c' = c)"
proof -
  have p: "bits_within (plic_pending (plic_mmio c) 0) 0xFFFFFFFF"
    using assms(2) by (simp add: plic_lines_ok_def)
  then have p': "bits_within (plic_pending (plic_mmio c) 0 AND m) 0xFFFFFFFF" for m
    by (auto simp: bits_within_iff bit_simps)
  have r: "plic_claim_read c ctx = (v, c')"
    using assms(1,3) by (auto simp: plic_mmio_read_def Let_def get_context_for_offset_def)
  show ?thesis
  proof (cases "plic_signals pl ctx")
    case False
    then show ?thesis using plic_claim_cases(1) [OF r p] assms(2) by (simp add: pl_def)
  next
    case True
    then obtain i where i: "i \<in> {1..<32}" "v = of_nat i" "irq_active pl ctx i"
        "plic_priorities pl i > plic_threshold pl ctx"
        "\<forall>j \<in> {1..<32}. irq_active pl ctx j \<longrightarrow> plic_priorities pl j \<le> plic_priorities pl i \<and>
           (plic_priorities pl j = plic_priorities pl i \<longrightarrow> i \<le> j)"
      and c': "c' = plic_update_mip (c\<lparr>plic_mmio := pl\<lparr>
                plic_pending := (plic_pending pl)(0 := plic_pending pl 0 AND NOT (push_bit i 1)),
                plic_claim := (plic_claim pl)(ctx := of_nat i)\<rparr>\<rparr>)"
      using plic_claim_cases(2) [OF r p] unfolding pl_def by blast
    have "plic_lines_ok c'" unfolding c' using p' by (intro plic_update_mip_ok) (simp add: pl_def)
    then show ?thesis using True i c' by (intro conjI) (auto intro!: bexI [of _ i])
  qed
qed

definition example_plic :: CPU where
  "example_plic =
     plic_update_mip (make_CPU\<lparr>plic_mmio := \<lparr>plic_pending = (\<lambda>_. 0)(0 := 4), plic_priorities = (\<lambda>_. 5),
       plic_enables = (\<lambda>_ _. 6), plic_threshold = (\<lambda>_. 1), plic_claim = (\<lambda>_. 0)\<rparr>\<rparr>)"

lemma plic_lines_ok_make_CPU: "plic_lines_ok make_CPU"
proof -
  have "plic_pending (plic_mmio make_CPU) = (\<lambda>_. 0)" "mip (st make_CPU) = 0" "seip_external (st make_CPU) = False"
    by (simp_all add: make_CPU_def cpu_reset_def TLB_flush_def plic_reset_def Let_def
        initialize_lower_xlen_fields_def update_xlen_def initial_ArchState_def)
  then show ?thesis by (simp add: plic_lines_ok_def plic_signals_def irq_active_def bits_within_iff)
qed

theorem plic_claim_highest_witness:
  "\<exists>c'. plic_mmio_read example_plic 0x201004 = (2, c') \<and> plic_lines_ok c'"
proof -
  have ok: "plic_lines_ok example_plic"
    unfolding example_plic_def by (rule plic_update_mip_ok) (auto simp: bits_within_iff bit_simps)
  have four: "(4 :: u64) AND push_bit i 1 \<noteq> 0 \<longleftrightarrow> i = 2" "(6 :: u64) AND push_bit 2 1 \<noteq> 0" for i
    by (auto simp: and_exp_eq_0_iff_not_bit bit_simps)
  have act: "irq_active (plic_mmio example_plic) (Suc 0) i \<longleftrightarrow> i = 2" for i
    using four by (auto simp: example_plic_def irq_active_def)
  then have sig: "plic_signals (plic_mmio example_plic) (Suc 0)"
    by (auto simp: plic_signals_def example_plic_def intro!: bexI [of _ 2])
  obtain v c' where r: "plic_mmio_read example_plic 0x201004 = (v, c')" by fastforce
  then have "plic_lines_ok c' \<and> v = 2"
    using plic_claim_highest [OF _ ok, of 1 v c'] act sig by auto
  with r show ?thesis by simp
qed

definition clint_put :: "u8 \<Rightarrow> Address \<Rightarrow> Word \<Rightarrow> CPU \<Rightarrow> CPU" where
  "clint_put sz off v c =
     snd (snd (clint_handle_request (initial_TlChannelA\<lparr>a_opcode := PutFullData, a_size := sz,
       a_address := kClintBaseAddress + off, a_data := v\<rparr>) initial_TlChannelD c))"

definition clint_get :: "u8 \<Rightarrow> Address \<Rightarrow> CPU \<Rightarrow> Word" where
  "clint_get sz off c =
     d_data (fst (snd (clint_handle_request (initial_TlChannelA\<lparr>a_opcode := Get, a_size := sz,
       a_address := kClintBaseAddress + off\<rparr>) initial_TlChannelD c)))"

lemma bit_high_mask: "bit (- 4294967296 :: u64) n \<longleftrightarrow> 32 \<le> n \<and> n < 64"
proof -
  have "(- 4294967296 :: u64) = NOT (mask 32)" by (simp add: mask_eq_exp_minus_1)
  then show ?thesis by (simp only: bit_simps) auto
qed

lemma join_halves:
  "((v AND - 4294967296) OR (w AND 0xFFFFFFFF)) AND 0xFFFFFFFF OR push_bit 32 (drop_bit 32 w) = w"
  "((v AND 0xFFFFFFFF) OR push_bit 32 (drop_bit 32 w)) AND - 4294967296 OR (w AND 0xFFFFFFFF) = w"
  "drop_bit 32 w AND 0xFFFFFFFF = drop_bit 32 w" for v w :: u64
proof -
  show "((v AND - 4294967296) OR (w AND 0xFFFFFFFF)) AND 0xFFFFFFFF OR push_bit 32 (drop_bit 32 w) = w"
    by (rule bit_word_eqI, rename_tac n, case_tac "n < 32") (auto simp: bit_high_mask bit_simps)
  show "((v AND 0xFFFFFFFF) OR push_bit 32 (drop_bit 32 w)) AND - 4294967296 OR (w AND 0xFFFFFFFF) = w"
    by (rule bit_word_eqI) (auto simp: bit_high_mask bit_simps)
  show "drop_bit 32 w AND 0xFFFFFFFF = drop_bit 32 w"
    by (rule bit_word_eqI) (auto simp: bit_simps dest: bit_imp_le_length)
qed

lemma clint_stores:
  "clint_put 3 0x4000 v c = store_mtimecmp c v" "clint_put 3 0xbff8 v c = store_mtime c v"
  "clint_put 2 0x4000 v c = store_mtimecmp c ((mtimecmp (clint_mmio c) AND NOT 0xFFFFFFFF) OR (v AND 0xFFFFFFFF))"
  "clint_put 2 0x4004 v c = store_mtimecmp c ((mtimecmp (clint_mmio c) AND 0xFFFFFFFF) OR push_bit 32 (v AND 0xFFFFFFFF))"
  "clint_put 2 0xbff8 v c = store_mtime c ((mtime (clint_mmio c) AND NOT 0xFFFFFFFF) OR (v AND 0xFFFFFFFF))"
  "clint_put 2 0xbffc v c = store_mtime c ((mtime (clint_mmio c) AND 0xFFFFFFFF) OR push_bit 32 (v AND 0xFFFFFFFF))"
  by (simp_all add: clint_put_def clint_handle_request_def clint_mmio_write_def initial_TlChannelA_def Let_def)

lemma clint_loads:
  "clint_get 3 0x4000 c = mtimecmp (clint_mmio c)" "clint_get 3 0xbff8 c = mtime (clint_mmio c)"
  "clint_get 2 0x4000 c = mtimecmp (clint_mmio c) AND 0xFFFFFFFF"
  "clint_get 2 0x4004 c = drop_bit 32 (mtimecmp (clint_mmio c)) AND 0xFFFFFFFF"
  "clint_get 2 0xbff8 c = mtime (clint_mmio c) AND 0xFFFFFFFF"
  "clint_get 2 0xbffc c = drop_bit 32 (mtime (clint_mmio c)) AND 0xFFFFFFFF"
  by (simp_all add: clint_get_def clint_handle_request_def clint_mmio_read_def initial_TlChannelA_def Let_def)

lemma clint_store_sel [simp]:
  "clint_mmio (store_mtimecmp c v) = (clint_mmio c)\<lparr>supervisor_timer := False, mtimecmp := v\<rparr>"
  "clint_mmio (store_mtime c v) = (clint_mmio c)\<lparr>supervisor_timer := False, mtime := v\<rparr>"
  by (simp_all add: store_mtimecmp_def store_mtime_def)

lemma clint_store_mtip [simp]:
  "bit (mip (st (store_mtimecmp c v))) 7 \<longleftrightarrow> mtime (clint_mmio c) \<ge> v"
  "bit (mip (st (store_mtime c v))) 7 \<longleftrightarrow> v \<ge> mtimecmp (clint_mmio c)"
  by (simp_all add: store_mtimecmp_def store_mtime_def evaluate_timer_pending)

text \<open>The timer registers. A store to the time or the compare register, as one double word or as two
  words in either order, makes the register read back the stored value, whole and by halves; it
  hands the timer back to machine mode, and afterwards MTIP is pending exactly when the time has
  reached the compare value.
\<close>

theorem clint_store_load:
  assumes "off \<in> {0x4000, 0xbff8}"
    and "c' \<in> {clint_put 3 off v c,
                clint_put 2 (off + 4) (drop_bit 32 v) (clint_put 2 off v c),
                clint_put 2 off v (clint_put 2 (off + 4) (drop_bit 32 v) c)}"
  shows "clint_get 3 off c' = v \<and> clint_get 2 off c' = v AND 0xFFFFFFFF \<and>
    clint_get 2 (off + 4) c' = drop_bit 32 v \<and> \<not> supervisor_timer (clint_mmio c') \<and>
    bit (mip (st c')) 7 = (mtime (clint_mmio c') \<ge> mtimecmp (clint_mmio c'))"
  using assms by (auto simp: clint_stores clint_loads join_halves)

theorem clint_store_load_witness:
  "clint_get 3 0x4000 (clint_put 2 0x4004 0x1 (clint_put 2 0x4000 0x100000002 make_CPU)) = 0x100000002"
  using clint_store_load [where off = "0x4000" and v = "0x100000002" and c = make_CPU and
      c' = "clint_put 2 0x4004 0x1 (clint_put 2 0x4000 0x100000002 make_CPU)"] by simp

end
