(* ===== verification/Sbi.thy ===== *)
theory Sbi
  imports Interrupts
begin

text \<open>
  The run-state operations of \<^verbatim>\<open>class Machine\<close> (\<^verbatim>\<open>src/core/Machine.cpp\<close>) and the direct supervisor
  binary interface (\<^verbatim>\<open>src/core/Sbi.cpp\<close>), the execution environment that answers supervisor calls when
  no machine-mode firmware is loaded. The terminal interface only redraws when it is paused and is
  not part of the state; a character printed by the guest is appended to \<open>console_out\<close> whether it
  goes to the terminal interface or to the standard output.
\<close>

subsection \<open>Run state of the machine\<close>

definition machine_pause :: "MachineState \<Rightarrow> MachineState" where
  "machine_pause ms = ms\<lparr>execution_state := Paused\<rparr>"

definition machine_resume :: "MachineState \<Rightarrow> MachineState" where
  "machine_resume ms = (if is_shutdown ms then ms else ms\<lparr>execution_state := Running\<rparr>)"

definition machine_step :: "MachineState \<Rightarrow> MachineState" where
  "machine_step ms = (if is_shutdown ms then ms else ms\<lparr>execution_state := Stepping\<rparr>)"

definition machine_stop :: "MachineState \<Rightarrow> MachineState" where
  "machine_stop ms =
     (let ms1 = ms\<lparr>is_shutdown := True, execution_state := Stopped\<rparr>
      in if \<not> s_tuimode ms \<and> \<not> s_gui_mode ms then ms1\<lparr>is_running := False\<rparr> else ms1)"

definition request_reboot :: "MachineState \<Rightarrow> MachineState" where
  "request_reboot ms =
     ms\<lparr>reboot_requested := True, is_running := False, execution_state := Stopped\<rparr>"

definition request_exit :: "u32 \<Rightarrow> MachineState \<Rightarrow> MachineState" where
  "request_exit status ms =
     ms\<lparr>exit_code := status, is_shutdown := True, is_running := False, execution_state := Stopped\<rparr>"

subsection \<open>Extension, function and error numbers\<close>

abbreviation (input) ExtId_LegacySetTimer :: u32 where "ExtId_LegacySetTimer \<equiv> 0x00"
abbreviation (input) ExtId_LegacyConsolePutchar :: u32 where "ExtId_LegacyConsolePutchar \<equiv> 0x01"
abbreviation (input) ExtId_LegacyConsoleGetchar :: u32 where "ExtId_LegacyConsoleGetchar \<equiv> 0x02"
abbreviation (input) ExtId_LegacyShutdown :: u32 where "ExtId_LegacyShutdown \<equiv> 0x08"
abbreviation (input) ExtId_Base :: u32 where "ExtId_Base \<equiv> 0x10"
abbreviation (input) ExtId_Time :: u32 where "ExtId_Time \<equiv> 0x54494D45"
abbreviation (input) ExtId_Rfence :: u32 where "ExtId_Rfence \<equiv> 0x52464E43"
abbreviation (input) ExtId_Ipi :: u32 where "ExtId_Ipi \<equiv> 0x735049"
abbreviation (input) ExtId_SystemReset :: u32 where "ExtId_SystemReset \<equiv> 0x53525354"

abbreviation (input) BaseFid_GetSpecVersion :: u8 where "BaseFid_GetSpecVersion \<equiv> 0x0"
abbreviation (input) BaseFid_GetImplId :: u8 where "BaseFid_GetImplId \<equiv> 0x1"
abbreviation (input) BaseFid_GetImplVersion :: u8 where "BaseFid_GetImplVersion \<equiv> 0x2"
abbreviation (input) BaseFid_ProbeExtension :: u8 where "BaseFid_ProbeExtension \<equiv> 0x3"
abbreviation (input) BaseFid_GetMvendorId :: u8 where "BaseFid_GetMvendorId \<equiv> 0x4"
abbreviation (input) BaseFid_GetMarchId :: u8 where "BaseFid_GetMarchId \<equiv> 0x5"
abbreviation (input) BaseFid_GetMimpId :: u8 where "BaseFid_GetMimpId \<equiv> 0x6"

abbreviation (input) TimeFid_SetTimer :: u8 where "TimeFid_SetTimer \<equiv> 0x0"

abbreviation (input) RfenceFid_RemoteFenceI :: u8 where "RfenceFid_RemoteFenceI \<equiv> 0x0"
abbreviation (input) RfenceFid_RemoteSfenceVma :: u8 where "RfenceFid_RemoteSfenceVma \<equiv> 0x1"
abbreviation (input) RfenceFid_RemoteSfenceVmaAsid :: u8 where "RfenceFid_RemoteSfenceVmaAsid \<equiv> 0x2"

abbreviation (input) SbiError_Success :: Word where "SbiError_Success \<equiv> 0"
abbreviation (input) SbiError_NotSupported :: Word where "SbiError_NotSupported \<equiv> - 2"
abbreviation (input) SbiError_InvalidParam :: Word where "SbiError_InvalidParam \<equiv> - 3"

abbreviation (input) kSpecVersion_0_3 :: Word where "kSpecVersion_0_3 \<equiv> 3"
abbreviation (input) kImplId_SimRV :: Word where "kImplId_SimRV \<equiv> 0x53494D"
abbreviation (input) kImplVersion :: Word where "kImplVersion \<equiv> 1"

abbreviation (input) Reg_A0 :: RegId where "Reg_A0 \<equiv> 10"
abbreviation (input) Reg_A1 :: RegId where "Reg_A1 \<equiv> 11"
abbreviation (input) Reg_A6 :: RegId where "Reg_A6 \<equiv> 16"
abbreviation (input) Reg_A7 :: RegId where "Reg_A7 \<equiv> 17"

subsection \<open>Hart masks\<close>

datatype HartMaskSelection = Empty | Local | Invalid

definition is_direct_sbi_ecall :: "TrapCause \<Rightarrow> bool" where
  "is_direct_sbi_ecall cause \<longleftrightarrow> cause = enum_cause SupervisorEcall"

definition select_local_hart :: "Word \<Rightarrow> Word \<Rightarrow> Word \<Rightarrow> HartMaskSelection" where
  "select_local_hart hart_mask hart_mask_base hart_id =
     (if hart_mask_base = - 1 then Local
      else if hart_mask = 0 then Empty
      else if hart_id < hart_mask_base \<or> hart_id - hart_mask_base \<ge> 64 then Invalid
      else let local_bit = push_bit (unat (hart_id - hart_mask_base)) 1
           in if hart_mask = local_bit then Local else Invalid)"

subsection \<open>Handlers\<close>

definition timer_value :: "CPU \<Rightarrow> u64" where
  "timer_value c = read_reg (regs (st c)) Reg_A0"

definition sbi_return :: "Word \<Rightarrow> Word \<Rightarrow> CPU \<Rightarrow> CPU" where
  "sbi_return error value c =
     (let r1 = write_reg (regs (st c)) Reg_A0 error;
          r2 = write_reg r1 Reg_A1 value
      in c\<lparr>st := (st c)\<lparr>regs := r2, pc := pc (st c) + 4\<rparr>\<rparr>)"

definition handle_base :: "Word \<Rightarrow> CPU \<Rightarrow> CPU" where
  "handle_base func_id c =
     (let fid = (ucast func_id :: u8) in
      if fid = BaseFid_GetSpecVersion then sbi_return SbiError_Success kSpecVersion_0_3 c
      else if fid = BaseFid_GetImplId then sbi_return SbiError_Success kImplId_SimRV c
      else if fid = BaseFid_GetImplVersion then sbi_return SbiError_Success kImplVersion c
      else if fid = BaseFid_ProbeExtension then
        let probed = read_reg (regs (st c)) Reg_A0;
            supported = (probed = ucast ExtId_Base \<or> probed = ucast ExtId_Time \<or>
                         probed = ucast ExtId_Rfence \<or> probed = ucast ExtId_Ipi \<or>
                         probed = ucast ExtId_SystemReset)
        in sbi_return SbiError_Success (if supported then 1 else 0) c
      else if fid = BaseFid_GetMvendorId \<or> fid = BaseFid_GetMarchId \<or> fid = BaseFid_GetMimpId
      then sbi_return SbiError_Success 0 c
      else sbi_return SbiError_NotSupported 0 c)"

definition handle_time :: "Word \<Rightarrow> CPU \<Rightarrow> CPU" where
  "handle_time func_id c =
     (if (ucast func_id :: u8) = TimeFid_SetTimer then
        let c1 = c\<lparr>clint_mmio := (clint_mmio c)\<lparr>supervisor_timer := True, mtimecmp := timer_value c\<rparr>\<rparr>;
            s1 = refresh_supervisor_pending
                   ((st c1)\<lparr>mip := mip (st c1) AND NOT Mip_Mtip, stip_timer := False\<rparr>);
            c2 = evaluate_timer_interrupt (c1\<lparr>st := s1\<rparr>)
        in sbi_return SbiError_Success 0 c2
      else sbi_return SbiError_NotSupported 0 c)"

definition handle_rfence :: "Word \<Rightarrow> CPU \<Rightarrow> CPU" where
  "handle_rfence func_id c =
     (let rf = regs (st c);
          selection = select_local_hart (read_reg rf Reg_A0) (read_reg rf Reg_A1) (mhartid (st c));
          fid = (ucast func_id :: u8)
      in if selection = Invalid then sbi_return SbiError_InvalidParam 0 c
         else if fid = RfenceFid_RemoteFenceI then
           let c1 = (if selection = Local
                     then c\<lparr>icache := cache_flush (icache c) False, dcache := cache_flush (dcache c) False,
                            decode_cache := decode_flush (decode_cache c)\<rparr>
                     else c)
           in sbi_return SbiError_Success 0 c1
         else if fid = RfenceFid_RemoteSfenceVma \<or> fid = RfenceFid_RemoteSfenceVmaAsid then
           let c1 = (if selection = Local
                     then let c' = TLB_flush c in c'\<lparr>dcache := cache_flush (dcache c') False\<rparr>
                     else c)
           in sbi_return SbiError_Success 0 c1
         else sbi_return SbiError_NotSupported 0 c)"

definition handle_ipi :: "Word \<Rightarrow> CPU \<Rightarrow> CPU" where
  "handle_ipi func_id c =
     (if func_id = 0 then
        let rf = regs (st c);
            selection = select_local_hart (read_reg rf Reg_A0) (read_reg rf Reg_A1) (mhartid (st c))
        in if selection = Invalid then sbi_return SbiError_InvalidParam 0 c
           else
             let c1 = (if selection = Local
                       then c\<lparr>st := (st c)\<lparr>mip := mip (st c) OR Mip_Ssip\<rparr>\<rparr> else c)
             in sbi_return SbiError_Success 0 c1
      else sbi_return SbiError_NotSupported 0 c)"

definition handle_system_reset :: "Word \<Rightarrow> CPU \<Rightarrow> CPU" where
  "handle_system_reset func_id c =
     (if func_id = 0 then
        let reset_type = read_reg (regs (st c)) Reg_A0;
            reset_reason = read_reg (regs (st c)) Reg_A1
        in if reset_type = 0 then
             sbi_return SbiError_Success 0
               (c\<lparr>machine := machine_stop ((machine c)\<lparr>exit_code := ucast reset_reason\<rparr>)\<rparr>)
           else if reset_type = 1 \<or> reset_type = 2 then
             sbi_return SbiError_Success 0 (c\<lparr>machine := request_reboot (machine c)\<rparr>)
           else sbi_return SbiError_InvalidParam 0 c
      else sbi_return SbiError_NotSupported 0 c)"

text \<open>\<^verbatim>\<open>Sbi::handle_ecall\<close>: \<open>None\<close> says that the call is not handled here.\<close>

definition handle_ecall :: "TrapCause \<Rightarrow> CPU \<Rightarrow> CPU option" where
  "handle_ecall cause c =
     (if use_opensbi c then None
      else if \<not> is_direct_sbi_ecall cause then None
      else
        let ext_id = (ucast (read_reg (regs (st c)) Reg_A7) :: u32);
            func_id = read_reg (regs (st c)) Reg_A6
        in Some
          (if ext_id = ExtId_LegacySetTimer then handle_time 0 c
           else if ext_id = ExtId_LegacyConsolePutchar then
             let ch = ucast (read_reg (regs (st c)) Reg_A0);
                 ms = machine c
             in sbi_return 0 0 (c\<lparr>machine := ms\<lparr>console_out := console_out ms @ [ch]\<rparr>\<rparr>)
           else if ext_id = ExtId_LegacyConsoleGetchar then sbi_return (- 1) 0 c
           else if ext_id = ExtId_LegacyShutdown then
             sbi_return SbiError_Success 0
               (c\<lparr>machine := machine_stop ((machine c)\<lparr>exit_code := 0\<rparr>)\<rparr>)
           else if ext_id = ExtId_Base then handle_base func_id c
           else if ext_id = ExtId_Time then handle_time func_id c
           else if ext_id = ExtId_Rfence then handle_rfence func_id c
           else if ext_id = ExtId_Ipi then handle_ipi func_id c
           else if ext_id = ExtId_SystemReset then handle_system_reset func_id c
           else sbi_return SbiError_NotSupported 0 c))"

subsection \<open>What a call may change\<close>

text \<open>
  Before it returns, a handler may touch the caches, the timer, the machine and, of the architectural
  state, only the pending bits of the software and timer interrupts.
\<close>

definition sbi_effect :: "CPU \<Rightarrow> CPU \<Rightarrow> bool" where
  "sbi_effect c c1 \<longleftrightarrow>
     (\<exists>m t. st c1 = (st c)\<lparr>mip := m, stip_timer := t\<rparr>) \<and>
     (\<forall>n. n \<notin> {1, 5, 7, 9} \<longrightarrow> bit (mip (st c1)) n = bit (mip (st c)) n) \<and>
     plic_mmio c1 = plic_mmio c \<and>
     (arch_wf (st c) \<longrightarrow> arch_wf (st c1))"

definition sbi_contract :: "CPU \<Rightarrow> CPU \<Rightarrow> bool" where
  "sbi_contract c c' \<longleftrightarrow>
     (\<exists>m t rf. st c' = (st c)\<lparr>regs := rf, mip := m, stip_timer := t, pc := pc (st c) + 4\<rparr> \<and>
        xlen rf = xlen (regs (st c)) \<and> vlen rf = vlen (regs (st c)) \<and> freg rf = freg (regs (st c)) \<and>
        vreg rf = vreg (regs (st c)) \<and>
        (\<forall>r. r \<noteq> Reg_A0 \<longrightarrow> r \<noteq> Reg_A1 \<longrightarrow> read_reg rf r = read_reg (regs (st c)) r) \<and>
        read_reg rf Reg_A0 \<in> {0, - 1, - 2, - 3}) \<and>
     (\<forall>n. n \<notin> {1, 5, 7, 9} \<longrightarrow> bit (mip (st c')) n = bit (mip (st c)) n) \<and>
     plic_mmio c' = plic_mmio c"

lemma arch_wf_return:
  assumes "arch_wf s" shows "arch_wf (s\<lparr>regs := write_reg (regs s) r v\<rparr>)" "arch_wf (s\<lparr>pc := pc s + 4\<rparr>)"
proof -
  show "arch_wf (s\<lparr>regs := write_reg (regs s) r v\<rparr>)"
    using assms by (simp add: arch_wf_def current_xlen_def xlen_for_privilege_def vstart_mask_def)
  have "bit (p + 4) 0 = bit p 0" for p :: u64
    by (simp add: bit_0)
  then show "arch_wf (s\<lparr>pc := pc s + 4\<rparr>)"
    using assms by (intro arch_wf_masked_csrs) (auto simp: arch_wf_def)
qed

lemma sbi_codes:
  "sext32 0 = 0" "sext32 (- 1) = - 1" "sext32 (- 2) = - 2" "sext32 (- 3) = - 3"
  by code_simp+

lemma sbi_returns:
  assumes "sbi_effect c c1" "e \<in> {0, - 1, - 2, - 3}"
  shows "sbi_contract c (sbi_return e v c1)"
    "arch_wf (st c) \<Longrightarrow> arch_wf (st (sbi_return e v c1))"
proof -
  obtain m t where s: "st c1 = (st c)\<lparr>mip := m, stip_timer := t\<rparr>"
    using assms(1) by (auto simp: sbi_effect_def)
  have e: "(if xlen (regs (st c)) = 32 then sext32 e else e) \<in> {0, - 1, - 2, - 3}"
    using assms(2) by (auto simp: sbi_codes)
  show "sbi_contract c (sbi_return e v c1)"
    unfolding sbi_contract_def
  proof (intro conjI)
    let ?rf = "write_reg (write_reg (regs (st c)) Reg_A0 e) Reg_A1 v"
    have "st (sbi_return e v c1) =
        (st c)\<lparr>regs := ?rf, mip := m, stip_timer := t, pc := pc (st c) + 4\<rparr>"
      by (cases "st c") (simp add: sbi_return_def s Let_def)
    moreover have "read_reg ?rf Reg_A0 \<in> {0, - 1, - 2, - 3}" using e by simp
    ultimately show "\<exists>m t rf. st (sbi_return e v c1) =
        (st c)\<lparr>regs := rf, mip := m, stip_timer := t, pc := pc (st c) + 4\<rparr> \<and>
        xlen rf = xlen (regs (st c)) \<and> vlen rf = vlen (regs (st c)) \<and> freg rf = freg (regs (st c)) \<and>
        vreg rf = vreg (regs (st c)) \<and>
        (\<forall>r. r \<noteq> Reg_A0 \<longrightarrow> r \<noteq> Reg_A1 \<longrightarrow> read_reg rf r = read_reg (regs (st c)) r) \<and>
        read_reg rf Reg_A0 \<in> {0, - 1, - 2, - 3}"
      by (intro exI [of _ m] exI [of _ t] exI [of _ ?rf]) simp
  qed (use assms(1) in \<open>simp_all add: sbi_effect_def sbi_return_def Let_def\<close>)
  assume "arch_wf (st c)"
  then have "arch_wf (st c1)" using assms(1) by (simp add: sbi_effect_def)
  from arch_wf_return(2) [OF arch_wf_return(1) [OF arch_wf_return(1) [OF this]]]
  show "arch_wf (st (sbi_return e v c1))"
    by (simp add: sbi_return_def Let_def)
qed

lemma sbi_effect_same [simp]:
  "st c1 = st c \<Longrightarrow> plic_mmio c1 = plic_mmio c \<Longrightarrow> sbi_effect c c1"
  by (auto simp: sbi_effect_def intro!: exI [of _ "mip (st c)"] exI [of _ "stip_timer (st c)"])

lemma sbi_effect_ipi [simp]: "sbi_effect c (c\<lparr>st := (st c)\<lparr>mip := mip (st c) OR Mip_Ssip\<rparr>\<rparr>)"
proof -
  have "arch_wf (s\<lparr>mip := mip s OR Mip_Ssip\<rparr>)" if "arch_wf s" for s
    by (rule arch_wf_mip [OF that]; use that in \<open>auto simp: arch_wf_def bits_within_iff bit_simps\<close>)
  then show ?thesis
    by (auto simp: sbi_effect_def bit_simps intro!: exI [of _ "mip (st c) OR Mip_Ssip"] exI [of _ "stip_timer (st c)"])
qed

definition set_supervisor_timer :: "CPU \<Rightarrow> CPU" where
  "set_supervisor_timer c =
     (let c1 = c\<lparr>clint_mmio := (clint_mmio c)\<lparr>supervisor_timer := True, mtimecmp := timer_value c\<rparr>\<rparr>;
          s1 = refresh_supervisor_pending
                 ((st c1)\<lparr>mip := mip (st c1) AND NOT Mip_Mtip, stip_timer := False\<rparr>)
      in evaluate_timer_interrupt (c1\<lparr>st := s1\<rparr>))"

lemma sbi_effect_timer [simp]: "sbi_effect c (set_supervisor_timer c)"
proof -
  let ?s1 = "refresh_supervisor_pending ((st c)\<lparr>mip := mip (st c) AND NOT Mip_Mtip, stip_timer := False\<rparr>)"
  have s: "st (set_supervisor_timer c) =
      refresh_supervisor_pending (?s1\<lparr>mip := mip ?s1 AND NOT Mip_Mtip, stip_timer := mtime (clint_mmio c) \<ge> timer_value c\<rparr>)"
    by (simp add: set_supervisor_timer_def evaluate_timer_interrupt_def Let_def)
  have r: "\<exists>m. refresh_supervisor_pending x = x\<lparr>mip := m\<rparr>" for x
    by (auto simp: refresh_supervisor_pending_def Let_def)
  have "\<exists>m t. st (set_supervisor_timer c) = (st c)\<lparr>mip := m, stip_timer := t\<rparr>"
  proof -
    obtain m where m: "?s1 = (st c)\<lparr>stip_timer := False, mip := m\<rparr>"
      using r [of "(st c)\<lparr>mip := mip (st c) AND NOT Mip_Mtip, stip_timer := False\<rparr>"] by auto
    let ?s2 = "?s1\<lparr>mip := mip ?s1 AND NOT Mip_Mtip, stip_timer := mtime (clint_mmio c) \<ge> timer_value c\<rparr>"
    obtain m' where m': "refresh_supervisor_pending ?s2 = ?s2\<lparr>mip := m'\<rparr>" using r by blast
    have swap: "x\<lparr>stip_timer := t, mip := v\<rparr> = x\<lparr>mip := v, stip_timer := t\<rparr>" for x :: ArchState and t v
      by (cases x) simp
    show ?thesis unfolding s m' unfolding m by (auto simp: swap)
  qed
  moreover have "bit (mip (st (set_supervisor_timer c))) n = bit (mip (st c)) n" if "n \<notin> {1, 5, 7, 9}" for n
    using that unfolding s by (auto simp: bit_refresh_supervisor_pending bit_simps dest: bit_imp_le_length)
  moreover have "arch_wf (st (set_supervisor_timer c))" if "arch_wf (st c)"
  proof -
    have b: "bits_within (mip x AND NOT Mip_Mtip) (interrupt_implemented_mask True)" if "arch_wf x" for x
      using that by (auto simp: arch_wf_def bits_within_iff bit_simps)
    show ?thesis unfolding s by (intro arch_wf_timer b that)
  qed
  ultimately show ?thesis
    by (auto simp: sbi_effect_def) (simp_all add: set_supervisor_timer_def Let_def)
qed

lemma handle_time_effect:
  "handle_time fid c =
     (if (ucast fid :: u8) = 0 then sbi_return 0 0 (set_supervisor_timer c) else sbi_return (- 2) 0 c)"
  by (simp add: handle_time_def set_supervisor_timer_def Let_def)

definition sbi_ok :: "CPU \<Rightarrow> CPU \<Rightarrow> bool" where
  "sbi_ok c c' \<longleftrightarrow> sbi_contract c c' \<and> (arch_wf (st c) \<longrightarrow> arch_wf (st c'))"

lemma sbi_okI: "sbi_effect c c1 \<Longrightarrow> e \<in> {0, - 1, - 2, - 3} \<Longrightarrow> sbi_ok c (sbi_return e v c1)"
  using sbi_returns by (auto simp: sbi_ok_def)

lemma sbi_handlers_ok:
  "sbi_ok c (handle_base fid c)" "sbi_ok c (handle_time fid c)" "sbi_ok c (handle_rfence fid c)"
  "sbi_ok c (handle_ipi fid c)" "sbi_ok c (handle_system_reset fid c)"
proof -
  note P = eq_if_cases [where P = "sbi_ok c"]
  show "sbi_ok c (handle_base fid c)"
    unfolding handle_base_def Let_def by (intro P sbi_okI; simp)
  show "sbi_ok c (handle_time fid c)"
    unfolding handle_time_effect by (intro P sbi_okI; simp)
  show "sbi_ok c (handle_rfence fid c)"
    unfolding handle_rfence_def Let_def by (intro P sbi_okI; simp add: TLB_flush_def)
  show "sbi_ok c (handle_ipi fid c)"
    unfolding handle_ipi_def Let_def by (intro P sbi_okI; simp)
  show "sbi_ok c (handle_system_reset fid c)"
    unfolding handle_system_reset_def Let_def by (intro P sbi_okI; simp)
qed

lemma handle_ecall_ok:
  assumes "handle_ecall cause c = Some c'"
  shows "sbi_ok c c'"
proof -
  note P = eq_if_cases [where P = "sbi_ok c"]
  show ?thesis
    using assms unfolding handle_ecall_def Let_def
    by (simp split: if_splits) (auto intro!: sbi_handlers_ok sbi_okI)
qed

subsection \<open>What each call does\<close>

text \<open>What the arguments of a call ask for: the extension is in a7, the function in a6, a0 and a1 are the
  arguments.\<close>

definition sbi_ext :: "CPU \<Rightarrow> u32" where "sbi_ext c = ucast (read_reg (regs (st c)) Reg_A7)"
definition sbi_fid :: "CPU \<Rightarrow> Word" where "sbi_fid c = read_reg (regs (st c)) Reg_A6"
definition sbi_arg0 :: "CPU \<Rightarrow> Word" where "sbi_arg0 c = read_reg (regs (st c)) Reg_A0"
definition sbi_arg1 :: "CPU \<Rightarrow> Word" where "sbi_arg1 c = read_reg (regs (st c)) Reg_A1"

definition sbi_harts :: "CPU \<Rightarrow> HartMaskSelection" where
  "sbi_harts c = select_local_hart (sbi_arg0 c) (sbi_arg1 c) (mhartid (st c))"

definition sets_timer :: "CPU \<Rightarrow> bool" where
  "sets_timer c \<longleftrightarrow> sbi_ext c = 0x00 \<or> sbi_ext c = 0x54494D45 \<and> (ucast (sbi_fid c) :: u8) = 0"

definition sends_ipi :: "CPU \<Rightarrow> bool" where
  "sends_ipi c \<longleftrightarrow> sbi_ext c = 0x735049 \<and> sbi_fid c = 0 \<and> sbi_harts c = Local"

definition fences_code :: "CPU \<Rightarrow> bool" where
  "fences_code c \<longleftrightarrow> sbi_ext c = 0x52464E43 \<and> (ucast (sbi_fid c) :: u8) = 0 \<and> sbi_harts c = Local"

definition fences_translation :: "CPU \<Rightarrow> bool" where
  "fences_translation c \<longleftrightarrow>
     sbi_ext c = 0x52464E43 \<and> ((ucast (sbi_fid c) :: u8) = 1 \<or> (ucast (sbi_fid c) :: u8) = 2) \<and> sbi_harts c = Local"

definition sbi_machine :: "CPU \<Rightarrow> MachineState" where
  "sbi_machine c =
     (let ms = machine c in
      if sbi_ext c = 0x01 then ms\<lparr>console_out := console_out ms @ [ucast (sbi_arg0 c)]\<rparr>
      else if sbi_ext c = 0x08 then machine_stop (ms\<lparr>exit_code := 0\<rparr>)
      else if sbi_ext c = 0x53525354 \<and> sbi_fid c = 0 then
        if sbi_arg0 c = 0 then machine_stop (ms\<lparr>exit_code := ucast (sbi_arg1 c)\<rparr>)
        else if sbi_arg0 c = 1 \<or> sbi_arg0 c = 2 then request_reboot ms
        else ms
      else ms)"

definition sbi_error :: "CPU \<Rightarrow> Word" where
  "sbi_error c =
     (let f8 = ucast (sbi_fid c) :: u8 in
      if sbi_ext c \<in> {0x00, 0x01, 0x08} then 0
      else if sbi_ext c = 0x02 then - 1
      else if sbi_ext c = 0x10 then (if f8 \<in> {0, 1, 2, 3, 4, 5, 6} then 0 else - 2)
      else if sbi_ext c = 0x54494D45 then (if f8 = 0 then 0 else - 2)
      else if sbi_ext c = 0x52464E43 then
        (if sbi_harts c = Invalid then - 3 else if f8 \<in> {0, 1, 2} then 0 else - 2)
      else if sbi_ext c = 0x735049 then (if sbi_fid c \<noteq> 0 then - 2 else if sbi_harts c = Invalid then - 3 else 0)
      else if sbi_ext c = 0x53525354 then
        (if sbi_fid c \<noteq> 0 then - 2 else if sbi_arg0 c \<in> {0, 1, 2} then 0 else - 3)
      else - 2)"

definition sbi_value :: "CPU \<Rightarrow> Word" where
  "sbi_value c =
     (let f8 = ucast (sbi_fid c) :: u8 in
      if sbi_ext c \<noteq> 0x10 then 0
      else if f8 = 0 then 3
      else if f8 = 1 then 0x53494D
      else if f8 = 2 then 1
      else if f8 = 3 then of_bool (sbi_arg0 c \<in> {0x10, 0x54494D45, 0x52464E43, 0x735049, 0x53525354})
      else 0)"

text \<open>The effect of a call, field by field: the results, the timer, the pending bits, the flushed caches, the
  run state, and nothing else.\<close>

definition sbi_does :: "CPU \<Rightarrow> CPU \<Rightarrow> bool" where
  "sbi_does c c' \<longleftrightarrow>
     regs (st c') = write_reg (write_reg (regs (st c)) Reg_A0 (sbi_error c)) Reg_A1 (sbi_value c) \<and>
     clint_mmio c' = (if sets_timer c then (clint_mmio c)\<lparr>supervisor_timer := True, mtimecmp := sbi_arg0 c\<rparr>
                      else clint_mmio c) \<and>
     stip_timer (st c') = (if sets_timer c then sbi_arg0 c \<le> mtime (clint_mmio c) else stip_timer (st c)) \<and>
     (\<forall>n. bit (mip (st c')) n =
        (if sets_timer c \<and> n = 7 then False
         else if sets_timer c \<and> n = 5 then stip_software (st c) \<or> sbi_arg0 c \<le> mtime (clint_mmio c)
         else if sets_timer c \<and> n = 9 then seip_software (st c) \<or> seip_external (st c)
         else bit (mip (st c)) n \<or> sends_ipi c \<and> n = 1)) \<and>
     icache c' = (if fences_code c \<or> fences_translation c then cache_flush (icache c) False else icache c) \<and>
     dcache c' = (if fences_code c then cache_flush (dcache c) False
                  else if fences_translation c then cache_flush (cache_flush (dcache c) False) False else dcache c) \<and>
     decode_cache c' = (if fences_code c \<or> fences_translation c then decode_flush (decode_cache c) else decode_cache c) \<and>
     tlb c' = (if fences_translation c then tlb_flush (tlb c) else tlb c) \<and>
     soft_tlbs c' = (if fences_translation c then soft_tlb_flush (soft_tlbs c) else soft_tlbs c) \<and>
     machine c' = sbi_machine c \<and> plic_mmio c' = plic_mmio c \<and> prev_st c' = prev_st c \<and>
     pipeline_context c' = pipeline_context c \<and> e_icount c' = e_icount c \<and> e_ccount c' = e_ccount c \<and>
     e_instmix c' = e_instmix c \<and> undo_stack c' = undo_stack c \<and> trace_history_buf c' = trace_history_buf c \<and>
     trace_history_head c' = trace_history_head c \<and> trace_history_size c' = trace_history_size c \<and>
     use_opensbi c' = use_opensbi c"

lemmas sbi_asks = sets_timer_def sends_ipi_def fences_code_def fences_translation_def sbi_machine_def sbi_error_def
  sbi_value_def

lemma return_fields [simp]:
  "regs (st (sbi_return e v c)) = write_reg (write_reg (regs (st c)) Reg_A0 e) Reg_A1 v"
  "mip (st (sbi_return e v c)) = mip (st c)" "stip_timer (st (sbi_return e v c)) = stip_timer (st c)"
  "clint_mmio (sbi_return e v c) = clint_mmio c" "icache (sbi_return e v c) = icache c"
  "dcache (sbi_return e v c) = dcache c" "decode_cache (sbi_return e v c) = decode_cache c"
  "tlb (sbi_return e v c) = tlb c" "soft_tlbs (sbi_return e v c) = soft_tlbs c" "machine (sbi_return e v c) = machine c"
  "plic_mmio (sbi_return e v c) = plic_mmio c" "prev_st (sbi_return e v c) = prev_st c"
  "pipeline_context (sbi_return e v c) = pipeline_context c" "e_icount (sbi_return e v c) = e_icount c"
  "e_ccount (sbi_return e v c) = e_ccount c" "e_instmix (sbi_return e v c) = e_instmix c"
  "undo_stack (sbi_return e v c) = undo_stack c" "trace_history_buf (sbi_return e v c) = trace_history_buf c"
  "trace_history_head (sbi_return e v c) = trace_history_head c"
  "trace_history_size (sbi_return e v c) = trace_history_size c" "use_opensbi (sbi_return e v c) = use_opensbi c"
  by (simp_all add: sbi_return_def Let_def)

lemma timer_fields:
  "regs (st (set_supervisor_timer c)) = regs (st c)"
  "stip_timer (st (set_supervisor_timer c)) \<longleftrightarrow> sbi_arg0 c \<le> mtime (clint_mmio c)"
  "clint_mmio (set_supervisor_timer c) = (clint_mmio c)\<lparr>supervisor_timer := True, mtimecmp := sbi_arg0 c\<rparr>"
  "bit (mip (st (set_supervisor_timer c))) n =
     (if n = 7 then False
      else if n = 5 then stip_software (st c) \<or> sbi_arg0 c \<le> mtime (clint_mmio c)
      else if n = 9 then seip_software (st c) \<or> seip_external (st c) else bit (mip (st c)) n)"
proof -
  let ?s1 = "refresh_supervisor_pending ((st c)\<lparr>mip := mip (st c) AND NOT Mip_Mtip, stip_timer := False\<rparr>)"
  have s: "st (set_supervisor_timer c) = refresh_supervisor_pending
      (?s1\<lparr>mip := mip ?s1 AND NOT Mip_Mtip, stip_timer := mtime (clint_mmio c) \<ge> sbi_arg0 c\<rparr>)"
    by (simp add: set_supervisor_timer_def evaluate_timer_interrupt_def timer_value_def sbi_arg0_def Let_def)
  have r: "regs (refresh_supervisor_pending x) = regs x" "stip_timer (refresh_supervisor_pending x) = stip_timer x"
    "seip_software (refresh_supervisor_pending x) = seip_software x" "seip_external (refresh_supervisor_pending x) = seip_external x"
    "stip_software (refresh_supervisor_pending x) = stip_software x" for x
    by (simp_all add: refresh_supervisor_pending_def Let_def)
  show "regs (st (set_supervisor_timer c)) = regs (st c)"
    "stip_timer (st (set_supervisor_timer c)) \<longleftrightarrow> sbi_arg0 c \<le> mtime (clint_mmio c)" by (simp_all add: s r)
  show "clint_mmio (set_supervisor_timer c) = (clint_mmio c)\<lparr>supervisor_timer := True, mtimecmp := sbi_arg0 c\<rparr>"
    by (simp add: set_supervisor_timer_def evaluate_timer_interrupt_def timer_value_def sbi_arg0_def Let_def)
  show "bit (mip (st (set_supervisor_timer c))) n =
     (if n = 7 then False
      else if n = 5 then stip_software (st c) \<or> sbi_arg0 c \<le> mtime (clint_mmio c)
      else if n = 9 then seip_software (st c) \<or> seip_external (st c) else bit (mip (st c)) n)"
    unfolding s bit_refresh_supervisor_pending by (auto simp: r bit_refresh_supervisor_pending bit_simps dest: bit_imp_le_length)
qed

lemma timer_frame [simp]:
  "icache (set_supervisor_timer c) = icache c" "dcache (set_supervisor_timer c) = dcache c"
  "decode_cache (set_supervisor_timer c) = decode_cache c" "tlb (set_supervisor_timer c) = tlb c"
  "soft_tlbs (set_supervisor_timer c) = soft_tlbs c" "machine (set_supervisor_timer c) = machine c"
  "plic_mmio (set_supervisor_timer c) = plic_mmio c" "prev_st (set_supervisor_timer c) = prev_st c"
  "pipeline_context (set_supervisor_timer c) = pipeline_context c" "e_icount (set_supervisor_timer c) = e_icount c"
  "e_ccount (set_supervisor_timer c) = e_ccount c" "e_instmix (set_supervisor_timer c) = e_instmix c"
  "undo_stack (set_supervisor_timer c) = undo_stack c" "trace_history_buf (set_supervisor_timer c) = trace_history_buf c"
  "trace_history_head (set_supervisor_timer c) = trace_history_head c"
  "trace_history_size (set_supervisor_timer c) = trace_history_size c"
  "use_opensbi (set_supervisor_timer c) = use_opensbi c"
  by (simp_all add: set_supervisor_timer_def evaluate_timer_interrupt_def Let_def)

lemma does_timer:
  assumes "sets_timer c" "e = sbi_error c"
  shows "sbi_does c (sbi_return e 0 (set_supervisor_timer c))"
proof -
  have "sbi_ext c = 0 \<or> sbi_ext c = 0x54494D45" using assms(1) by (auto simp: sets_timer_def)
  then have "\<not> sends_ipi c" "\<not> fences_code c" "\<not> fences_translation c" "sbi_machine c = machine c" "sbi_value c = 0"
    by (elim disjE; simp add: sends_ipi_def fences_code_def fences_translation_def sbi_machine_def sbi_value_def Let_def)+
  then show ?thesis using assms by (simp add: sbi_does_def timer_fields)
qed

lemma does_other:
  assumes "\<not> sets_timer c" "\<not> sends_ipi c" "\<not> fences_code c" "\<not> fences_translation c"
    "e = sbi_error c" "v = sbi_value c" "ms = sbi_machine c"
  shows "sbi_does c (sbi_return e v (c\<lparr>machine := ms\<rparr>))"
  using assms by (simp add: sbi_does_def)

lemma does_nothing:
  assumes "\<not> sets_timer c" "\<not> sends_ipi c" "\<not> fences_code c" "\<not> fences_translation c"
    "e = sbi_error c" "v = sbi_value c" "machine c = sbi_machine c"
  shows "sbi_does c (sbi_return e v c)"
  using assms by (simp add: sbi_does_def)

lemma sbi_handlers_do:
  "sbi_ext c = 0x10 \<Longrightarrow> sbi_does c (handle_base (sbi_fid c) c)"
  "sbi_ext c = 0x54494D45 \<Longrightarrow> sbi_does c (handle_time (sbi_fid c) c)"
  "sbi_ext c = 0x52464E43 \<Longrightarrow> sbi_does c (handle_rfence (sbi_fid c) c)"
  "sbi_ext c = 0x735049 \<Longrightarrow> sbi_does c (handle_ipi (sbi_fid c) c)"
  "sbi_ext c = 0x53525354 \<Longrightarrow> sbi_does c (handle_system_reset (sbi_fid c) c)"
proof -
  note P = eq_if_cases [where P = "sbi_does c"]
  show "sbi_does c (handle_base (sbi_fid c) c)" if e: "sbi_ext c = 0x10"
    unfolding handle_base_def Let_def sbi_arg0_def [symmetric]
    by (intro P does_nothing; simp add: sbi_asks e Let_def)
  show "sbi_does c (handle_time (sbi_fid c) c)" if e: "sbi_ext c = 0x54494D45"
    unfolding handle_time_effect by (intro P does_timer does_nothing; simp add: sbi_asks e Let_def)
  show "sbi_does c (handle_rfence (sbi_fid c) c)" if e: "sbi_ext c = 0x52464E43"
    unfolding handle_rfence_def Let_def sbi_arg0_def [symmetric] sbi_arg1_def [symmetric] sbi_harts_def [symmetric]
    by (cases "sbi_harts c") (auto simp: sbi_does_def sbi_asks e Let_def TLB_flush_def)
  show "sbi_does c (handle_ipi (sbi_fid c) c)" if e: "sbi_ext c = 0x735049"
    unfolding handle_ipi_def Let_def sbi_arg0_def [symmetric] sbi_arg1_def [symmetric] sbi_harts_def [symmetric]
    by (cases "sbi_harts c") (auto simp: sbi_does_def sbi_asks e Let_def bit_simps)
  show "sbi_does c (handle_system_reset (sbi_fid c) c)" if e: "sbi_ext c = 0x53525354"
    unfolding handle_system_reset_def Let_def sbi_arg0_def [symmetric] sbi_arg1_def [symmetric]
    by (intro P does_nothing does_other; simp add: sbi_asks e Let_def)
qed

lemma handle_ecall_does:
  assumes "handle_ecall cause c = Some c'"
  shows "sbi_does c c'"
proof -
  note P = eq_if_cases [where P = "sbi_does c"]
  have c': "c' =
      (if sbi_ext c = 0x00 then handle_time 0 c
       else if sbi_ext c = 0x01 then
         sbi_return 0 0 (c\<lparr>machine := (machine c)\<lparr>console_out := console_out (machine c) @ [ucast (sbi_arg0 c)]\<rparr>\<rparr>)
       else if sbi_ext c = 0x02 then sbi_return (- 1) 0 c
       else if sbi_ext c = 0x08 then sbi_return 0 0 (c\<lparr>machine := machine_stop ((machine c)\<lparr>exit_code := 0\<rparr>)\<rparr>)
       else if sbi_ext c = 0x10 then handle_base (sbi_fid c) c
       else if sbi_ext c = 0x54494D45 then handle_time (sbi_fid c) c
       else if sbi_ext c = 0x52464E43 then handle_rfence (sbi_fid c) c
       else if sbi_ext c = 0x735049 then handle_ipi (sbi_fid c) c
       else if sbi_ext c = 0x53525354 then handle_system_reset (sbi_fid c) c
       else sbi_return (- 2) 0 c)"
    using assms by (simp add: handle_ecall_def Let_def sbi_ext_def sbi_fid_def sbi_arg0_def split: if_split_asm)
  have t: "sbi_does c (handle_time 0 c)" if "sbi_ext c = 0x00"
    unfolding handle_time_effect using that by (simp add: does_timer sbi_asks)
  show ?thesis
    unfolding c' by (intro P t sbi_handlers_do does_nothing does_other; simp add: sbi_asks Let_def)
qed

text \<open>(C36)
  The direct supervisor interface is total, confined, and does what the call asks for. A trap is handled
  here exactly when no firmware is loaded and the cause is a supervisor call. A handled call continues
  after the instruction; it changes no integer register but a0 and a1, no floating-point or vector
  register, no control register but the pending bits, not the privilege, and nothing of the interrupt
  controller (\<open>sbi_contract\<close>). Which of the rest it changes is fixed by the extension in a7 and the function
  in a6 (\<open>sbi_does\<close>): a0 and a1 get the error code and the value of that call; only the two timer calls store
  \<^verbatim>\<open>mtimecmp\<close>, hand the timer to the supervisor and recompute its pending bit; only an inter-processor
  interrupt to this hart sets the software-pending bit; only a remote fence of this hart flushes caches, and
  only one of a translation the translation caches; only the console call writes a character, only the
  shutdown and reset calls stop or restart the machine. A well-formed hart stays well-formed.
\<close>

theorem sbi_call_confined:
  "(handle_ecall cause c = None \<longleftrightarrow> use_opensbi c \<or> cause \<noteq> 9) \<and>
   (\<forall>c'. handle_ecall cause c = Some c' \<longrightarrow>
      sbi_contract c c' \<and> sbi_does c c' \<and> (arch_wf (st c) \<longrightarrow> arch_wf (st c')))"
proof -
  have "handle_ecall cause c = None \<longleftrightarrow> use_opensbi c \<or> cause \<noteq> 9"
    by (simp add: handle_ecall_def Let_def is_direct_sbi_ecall_def enum_cause_def)
  then show ?thesis using handle_ecall_ok [of cause c] handle_ecall_does [of cause c] by (auto simp: sbi_ok_def)
qed

theorem sbi_call_confined_witness:
  "\<exists>c'. handle_ecall 9 make_CPU = Some c' \<and> sbi_contract make_CPU c' \<and> sbi_does make_CPU c' \<and>
     arch_wf (st c')"
proof -
  have "\<not> use_opensbi make_CPU"
    by (simp add: make_CPU_def cpu_reset_def TLB_flush_def default_CPU_def Let_def)
  then show ?thesis
    using sbi_call_confined [of 9 make_CPU] arch_wf_make_CPU by auto
qed

end
