(* ===== verification/Trap_Control.thy ===== *)
theory Trap_Control
  imports Sbi
begin

text \<open>
  Trap entry and return, interrupt selection and the privilege checks
  (\<^verbatim>\<open>class TrapController\<close> in \<^verbatim>\<open>src/core/StateControl.cpp\<close>, the trap helpers of
  \<^verbatim>\<open>include/simrv/Define.hpp\<close>, \<^verbatim>\<open>CPU::dispatch_pending_interrupts\<close>). Logging and the redrawing of
  the terminal interface are left out.
\<close>

subsection \<open>Causes and priorities\<close>

abbreviation (input) kInterruptCauseBit :: TrapCause where "kInterruptCauseBit \<equiv> 0x8000000000000000"

definition trap_exception_code :: "TrapCause \<Rightarrow> TrapCause" where
  "trap_exception_code cause = cause AND (kInterruptCauseBit - 1)"

definition trap_is_interrupt :: "TrapCause \<Rightarrow> bool" where
  "trap_is_interrupt cause \<longleftrightarrow> cause AND kInterruptCauseBit \<noteq> 0"

text \<open>\<^verbatim>\<open>std::bit_width\<close>: the position of the highest set bit plus one, 0 for 0.\<close>

definition bit_width :: "u64 \<Rightarrow> nat" where
  "bit_width m = foldl (\<lambda>w i. if bit m i then i + 1 else w) 0 [0..<64]"

definition select_highest_priority_interrupt :: "Word \<Rightarrow> Word" where
  "select_highest_priority_interrupt msk =
     (case find (\<lambda>irq. msk AND push_bit irq 1 \<noteq> 0) [11, 3, 7, 9, 1, 5] of
        Some irq \<Rightarrow> of_nat irq
      | None \<Rightarrow> ucast (of_nat (bit_width msk) - 1 :: u32))"

subsection \<open>Trap return\<close>

definition mret :: "ArchState \<Rightarrow> ArchState" where
  "mret s =
     (let mpp = drop_bit 11 (mstatus s AND Mstatus_Mpp);
          mpie = drop_bit 7 (mstatus s AND Mstatus_Mpie);
          m1 = (if mpie \<noteq> 0 then mstatus s OR Mstatus_Mie else mstatus s AND NOT Mstatus_Mie);
          m2 = m1 OR Mstatus_Mpie;
          has_s = misa_has_extension (misa s) Ext_S;
          has_u = misa_has_extension (misa s) Ext_U;
          m3 = (m2 AND NOT Mstatus_Mpp) OR push_bit 11 (least_supported_mpp has_s has_u);
          m4 = (if (ucast mpp :: PrivilegeLevel) < Machine then m3 AND NOT Mstatus_Mprv else m3);
          s1 = update_xlen (s\<lparr>mstatus := m4, priv := ucast mpp\<rparr>);
          p1 = epc_read_value (mepc s1) (misa s1);
          p2 = (if xlen (regs s1) = 32 then sext32 p1 else p1)
      in s1\<lparr>pc := p2, reserved := 0\<rparr>)"

definition sret :: "ArchState \<Rightarrow> ArchState" where
  "sret s =
     (let spp = drop_bit 8 (mstatus s AND Mstatus_Spp);
          spie = drop_bit 5 (mstatus s AND Mstatus_Spie);
          m1 = (if spie \<noteq> 0 then mstatus s OR Mstatus_Sie else mstatus s AND NOT Mstatus_Sie);
          m2 = m1 OR Mstatus_Spie;
          m3 = m2 AND NOT Mstatus_Spp;
          m4 = m3 AND NOT Mstatus_Mprv;
          s1 = update_xlen (s\<lparr>mstatus := m4, priv := ucast spp\<rparr>);
          p1 = epc_read_value (sepc s1) (misa s1);
          p2 = (if xlen (regs s1) = 32 then sext32 p1 else p1)
      in s1\<lparr>pc := p2, reserved := 0\<rparr>)"

subsection \<open>Trap entry\<close>

definition trap_delegation :: "ArchState \<Rightarrow> TrapCause \<Rightarrow> CSRValue" where
  "trap_delegation s cause =
     (if priv s \<le> Supervisor \<and> misa_has_extension (misa s) Ext_S then
        let cause_code = trap_exception_code cause in
        if cause_code < 64 then
          if trap_is_interrupt cause then drop_bit (unat cause_code) (mideleg s) AND 1
          else drop_bit (unat cause_code) (medeleg s) AND 1
        else 0
      else 0)"

definition trap_vector :: "CSRValue \<Rightarrow> TrapCause \<Rightarrow> Address" where
  "trap_vector tvec cause =
     (let tvec_base = tvec AND NOT 3; tvec_mode = tvec AND 3 in
      if tvec_mode = 1 \<and> trap_is_interrupt cause then tvec_base + 4 * trap_exception_code cause
      else tvec_base)"

definition enter_supervisor :: "ArchState \<Rightarrow> TrapCause \<Rightarrow> CSRValue \<Rightarrow> ArchState" where
  "enter_supervisor s cause tval =
     (let trap_pc = pc s;
          m1 = (mstatus s AND NOT Mstatus_Spie) OR push_bit 5 (drop_bit 1 (mstatus s AND Mstatus_Sie));
          m2 = (m1 AND NOT Mstatus_Spp) OR push_bit 8 (ucast (priv s));
          m3 = m2 AND NOT Mstatus_Sie;
          s1 = update_xlen (s\<lparr>scause := cause, sepc := trap_pc, stval := tval, mstatus := m3,
                              priv := Supervisor\<rparr>)
      in s1\<lparr>pc := trap_vector (stvec s1) cause\<rparr>)"

definition enter_machine :: "ArchState \<Rightarrow> TrapCause \<Rightarrow> CSRValue \<Rightarrow> ArchState" where
  "enter_machine s cause tval =
     (let trap_pc = pc s;
          m1 = (mstatus s AND NOT Mstatus_Mpie) OR push_bit 7 (drop_bit 3 (mstatus s AND Mstatus_Mie));
          m2 = (m1 AND NOT Mstatus_Mpp) OR push_bit 11 (ucast (priv s));
          m3 = m2 AND NOT Mstatus_Mie;
          s1 = update_xlen (s\<lparr>mcause := cause, mepc := trap_pc, mtval := tval, mstatus := m3,
                              priv := Machine\<rparr>)
      in s1\<lparr>pc := trap_vector (mtvec s1) cause\<rparr>)"

definition clear_pending_trap :: "CPU \<Rightarrow> CPU" where
  "clear_pending_trap c =
     c\<lparr>st := (st c)\<lparr>reserved := 0\<rparr>,
       pipeline_context := (pipeline_context c)\<lparr>pending_exception := None, pending_tval := 0\<rparr>\<rparr>"

definition raise_exception :: "CPU \<Rightarrow> TrapCause \<Rightarrow> CSRValue \<Rightarrow> CPU" where
  "raise_exception c cause tval =
     (case handle_ecall cause c of
        Some c' \<Rightarrow> clear_pending_trap c'
      | None \<Rightarrow>
          let s1 = (if trap_delegation (st c) cause \<noteq> 0 then enter_supervisor (st c) cause tval
                    else enter_machine (st c) cause tval);
              s2 = (if xlen (regs s1) = 32 then s1\<lparr>pc := sext32 (pc s1)\<rparr> else s1);
              c1 = c\<lparr>st := s2\<rparr>;
              c2 = (if pc s2 = 0 then c1\<lparr>machine := machine_stop (machine c1)\<rparr> else c1)
          in clear_pending_trap c2)"

subsection \<open>Privilege checks\<close>

abbreviation (input) Funct7Priv_SfenceVma :: Word where "Funct7Priv_SfenceVma \<equiv> 0x09"

definition canExecutePrivilegedInstruction ::
    "PrivilegeLevel \<Rightarrow> CSRValue \<Rightarrow> CSRValue \<Rightarrow> Instruction \<Rightarrow> Word \<Rightarrow> bool" where
  "canExecutePrivilegedInstruction current_priv m ms f12 f7 =
     (if f12 = ucast Funct12Priv_Mret then current_priv \<ge> Machine
      else if f12 = ucast Funct12Priv_Sret then
        misa_has_extension m Ext_S \<and> current_priv \<ge> Supervisor \<and>
        \<not> (current_priv = Supervisor \<and> ms AND Mstatus_Tsr \<noteq> 0)
      else if f12 = ucast Funct12Priv_Uret then False
      else if f12 = ucast Funct12Priv_Wfi then
        current_priv \<ge> Supervisor \<and> \<not> (current_priv = Supervisor \<and> ms AND Mstatus_Tw \<noteq> 0)
      else if f7 = Funct7Priv_SfenceVma then
        misa_has_extension m Ext_S \<and> current_priv \<ge> Supervisor \<and>
        \<not> (current_priv = Supervisor \<and> ms AND Mstatus_Tvm \<noteq> 0)
      else True)"

definition canAccessCsr :: "PrivilegeLevel \<Rightarrow> CSRValue \<Rightarrow> CSRAddress \<Rightarrow> bool \<Rightarrow> bool" where
  "canAccessCsr current_priv m csr_addr is_write =
     csr_access_permitted current_priv (misa_has_extension m Ext_S) (misa_has_extension m Ext_U)
       csr_addr is_write"

subsection \<open>Interrupt dispatch\<close>

definition enabled_interrupts :: "ArchState \<Rightarrow> Word" where
  "enabled_interrupts s =
     (if priv s = Machine then (if mstatus s AND Mstatus_Mie \<noteq> 0 then NOT (mideleg s) else 0)
      else if priv s = Supervisor then
        (if mstatus s AND Mstatus_Sie \<noteq> 0 then NOT (mideleg s) OR mideleg s else NOT (mideleg s))
      else if priv s = User then NOT 0
      else 0)"

definition dispatch_pending_interrupts :: "CPU \<Rightarrow> CPU" where
  "dispatch_pending_interrupts c =
     (let pending_interrupts = mip (st c) AND mie (st c) in
      if pending_interrupts \<noteq> 0 then
        let msk = pending_interrupts AND enabled_interrupts (st c) in
        if msk \<noteq> 0 then
          let irq_num = select_highest_priority_interrupt msk
          in raise_exception c (kInterruptCauseBit OR irq_num) 0
        else c
      else c)"

definition handle_cached_interrupts :: "CPU \<Rightarrow> CPU" where
  "handle_cached_interrupts c =
     (if mip (st c) AND mie (st c) \<noteq> 0 then dispatch_pending_interrupts c else c)"

subsection \<open>Status register after traps and returns\<close>

lemma field_mpp: "drop_bit 11 (ms AND 0x1800) = mpp_of ms" "ucast (mpp_of ms) < (3 :: u8) \<longleftrightarrow> \<not> (bit ms 11 \<and> bit ms 12)"
  for ms :: CSRValue
proof -
  show "drop_bit 11 (ms AND 0x1800) = mpp_of ms"
    unfolding mpp_of_def by (rule bit_word_eqI) (auto simp: bit_simps)
  show "ucast (mpp_of ms) < (3 :: u8) \<longleftrightarrow> \<not> (bit ms 11 \<and> bit ms 12)"
    unfolding mpp_of_def two_bit_field by auto
qed

lemma bit_mret_mstatus:
  assumes "n < 64"
  shows "bit (mstatus (mret s)) n \<longleftrightarrow>
     (if n = 3 then bit (mstatus s) 7 else if n = 7 then True
      else if n = 11 then \<not> misa_has_extension (misa s) Ext_U
      else if n = 12 then \<not> misa_has_extension (misa s) Ext_U \<and> \<not> misa_has_extension (misa s) Ext_S
      else if n = 17 then bit (mstatus s) 17 \<and> bit (mstatus s) 11 \<and> bit (mstatus s) 12
      else bit (mstatus s) n)"
  using assms unfolding mret_def Let_def field_mpp update_xlen_def
  by (simp add: least_supported_mpp_def single_bit_tests) (auto simp: bit_simps)

lemma field_spp: "ucast (drop_bit 8 (ms AND 0x100)) = (if bit ms 8 then 1 else 0 :: u8)" for ms :: CSRValue
proof -
  have "drop_bit 8 (ms AND 0x100) = (if bit ms 8 then 1 else 0)"
    by (rule bit_word_eqI, rename_tac n, case_tac "n = 0") (auto simp: bit_simps bit_1_iff)
  then show ?thesis by simp
qed

lemma bit_sret_mstatus:
  assumes "n < 64"
  shows "bit (mstatus (sret s)) n \<longleftrightarrow>
     (if n = 1 then bit (mstatus s) 5 else if n = 5 then True
      else if n = 8 \<or> n = 17 then False else bit (mstatus s) n)"
  using assms unfolding sret_def Let_def update_xlen_def
  by (simp add: single_bit_tests) (auto simp: bit_simps)

lemma bit_enter_machine_mstatus:
  assumes "n < 64" "priv s \<in> {0, 1, 3}"
  shows "bit (mstatus (enter_machine s cause tval)) n \<longleftrightarrow>
     (if n = 3 then False else if n = 7 then bit (mstatus s) 3
      else if n = 11 then bit (priv s) 0 else if n = 12 then bit (priv s) 1
      else bit (mstatus s) n)"
proof -
  have p: "\<not> bit (priv s) k" if "k \<ge> 2" for k
    using assms(2) that by (auto simp: bit_simps bit_1_iff)
  show ?thesis
  using assms unfolding enter_machine_def Let_def update_xlen_def
  by (auto simp: bit_simps p)
qed

lemma bit_enter_supervisor_mstatus:
  assumes "n < 64" "priv s \<in> {0, 1}"
  shows "bit (mstatus (enter_supervisor s cause tval)) n \<longleftrightarrow>
     (if n = 1 then False else if n = 5 then bit (mstatus s) 1
      else if n = 8 then bit (priv s) 0 else bit (mstatus s) n)"
proof -
  have p: "\<not> bit (priv s) k" if "k \<ge> 1" for k
    using assms(2) that by (auto simp: bit_1_iff)
  show ?thesis
  using assms unfolding enter_supervisor_def Let_def update_xlen_def
  by (auto simp: bit_simps p)
qed

lemma arch_wf_priv_mstatus:
  assumes "arch_wf s" "mstatus_wf (misa s) ms'" "priv_implemented (misa s) p"
  shows "arch_wf (update_xlen (s\<lparr>mstatus := ms', priv := p\<rparr>))"
  using assms by (simp add: arch_wf_def update_xlen_def current_xlen_def read_reg_def vstart_mask_def)

lemma pc_low_bits [simp]:
  "\<not> bit (epc_read_value e m) 0" "bit (sext32 p) 0 = bit p 0"
  "\<not> bit (trap_vector t cause) 0"
proof -
  show "\<not> bit (epc_read_value e m) 0" by (auto simp: epc_read_value_def Let_def bit_simps)
  show "bit (sext32 p) 0 = bit p 0" by (simp add: bit_simps)
  have "\<not> bit (t AND NOT 3) 0" by (simp add: bit_simps)
  then have "even (t AND NOT 3)" by (simp only: bit_0 not_not)
  then show "\<not> bit (trap_vector t cause) 0" by (simp add: trap_vector_def Let_def bit_0)
qed

lemma mstatus_wf_change:
  assumes "mstatus_wf m ms"
    and "\<And>n. n < 64 \<Longrightarrow> bit ms' n \<Longrightarrow> bit ms n \<or> bit (mstatus_mask_of m) n"
    and "bit ms' 11 \<and> (bit ms' 12 \<or> misa_has_extension m Ext_S) \<or>
         \<not> bit ms' 11 \<and> \<not> bit ms' 12 \<and> misa_has_extension m Ext_U"
    and "bit ms' 32 = bit ms 32" "bit ms' 33 = bit ms 33" "bit ms' 34 = bit ms 34" "bit ms' 35 = bit ms 35"
  shows "mstatus_wf m ms'"
proof -
  have "bits_within ms' (mstatus_mask_of m)"
    using assms(1,2) bit_imp_le_length [of ms'] unfolding bits_within_iff mstatus_wf_def by fastforce
  then show ?thesis using assms(1,3-) by (simp add: mstatus_wf_def mstatus_bits)
qed

lemma arch_wf_mret:
  assumes "arch_wf s" shows "arch_wf (mret s)"
proof -
  have wf: "mstatus_wf (misa s) (mstatus s)" using assms by (simp add: arch_wf_def)
  have m: "bit (mstatus_mask_of (misa s)) n" if "n \<in> {3, 7, 11, 12}" for n
    using that by (auto simp: mstatus_mask_of_def bit_simps)
  have "mstatus_wf (misa s) (mstatus (mret s))"
    by (rule mstatus_wf_change [OF wf]) (use m in \<open>auto simp: bit_mret_mstatus split: if_splits\<close>)
  moreover have "priv_implemented (misa s) (ucast (mpp_of (mstatus s)))"
    using wf by (simp add: mstatus_wf_def)
  ultimately have w: "arch_wf (update_xlen (s\<lparr>mstatus := mstatus (mret s), priv := ucast (mpp_of (mstatus s))\<rparr>))"
    by (rule arch_wf_priv_mstatus [OF assms])
  have "mret s = (update_xlen (s\<lparr>mstatus := mstatus (mret s), priv := ucast (mpp_of (mstatus s))\<rparr>))\<lparr>pc := pc (mret s), reserved := 0\<rparr>"
    "\<not> bit (pc (mret s)) 0"
    unfolding mret_def Let_def field_mpp update_xlen_def by simp_all
  then show ?thesis using arch_wf_simple_csrs(10) [OF arch_wf_masked_csrs(5) [OF w]] by metis
qed

lemma arch_wf_sret:
  assumes "arch_wf s" "misa_has_extension (misa s) Ext_S" shows "arch_wf (sret s)"
proof -
  have wf: "mstatus_wf (misa s) (mstatus s)" and u: "misa_has_extension (misa s) Ext_U"
    using assms by (simp_all add: arch_wf_def)
  have m: "bit (mstatus_mask_of (misa s)) n" if "n \<in> {1, 5}" for n
    using that assms(2) by (auto simp: mstatus_mask_of_def bit_simps)
  have "mstatus_wf (misa s) (mstatus (sret s))"
    by (rule mstatus_wf_change [OF wf])
      (use m wf in \<open>auto simp: bit_sret_mstatus mstatus_wf_def mpp_implemented_bits split: if_splits\<close>)
  moreover have "priv_implemented (misa s) (if bit (mstatus s) 8 then 1 else 0)"
    using u assms(2) by (simp add: priv_implemented_def)
  ultimately have w: "arch_wf (update_xlen (s\<lparr>mstatus := mstatus (sret s), priv := if bit (mstatus s) 8 then 1 else 0\<rparr>))"
    by (rule arch_wf_priv_mstatus [OF assms(1)])
  have "sret s = (update_xlen (s\<lparr>mstatus := mstatus (sret s), priv := if bit (mstatus s) 8 then 1 else 0\<rparr>))\<lparr>pc := pc (sret s), reserved := 0\<rparr>"
    "\<not> bit (pc (sret s)) 0"
    unfolding sret_def Let_def field_spp update_xlen_def by simp_all
  then show ?thesis using arch_wf_simple_csrs(10) [OF arch_wf_masked_csrs(5) [OF w]] by metis
qed

lemma arch_wf_privD: "arch_wf s \<Longrightarrow> priv s \<in> {0, 1, 3}"
  by (auto simp: arch_wf_def priv_implemented_def)

lemma arch_wf_enter_machine:
  assumes "arch_wf s" shows "arch_wf (enter_machine s cause tval)"
proof -
  have wf: "mstatus_wf (misa s) (mstatus s)" "priv_implemented (misa s) (priv s)" "\<not> bit (pc s) 0"
    using assms by (simp_all add: arch_wf_def)
  note p = arch_wf_privD [OF assms]
  have m: "bit (mstatus_mask_of (misa s)) n" if "n \<in> {3, 7, 11, 12}" for n
    using that by (auto simp: mstatus_mask_of_def bit_simps)
  have pr: "bit (priv s) 0 \<and> (bit (priv s) 1 \<or> misa_has_extension (misa s) Ext_S) \<or>
      \<not> bit (priv s) 0 \<and> \<not> bit (priv s) 1 \<and> misa_has_extension (misa s) Ext_U"
    using wf(2) by (auto simp: priv_implemented_def)
  let ?m = "mstatus (enter_machine s cause tval)"
  have "mstatus_wf (misa s) ?m"
    by (rule mstatus_wf_change [OF wf(1)])
      (use m p pr in \<open>auto simp: bit_enter_machine_mstatus split: if_splits\<close>)
  moreover have "arch_wf (s\<lparr>mcause := cause, mepc := pc s, mtval := tval\<rparr>)"
    using assms wf(3) by (intro arch_wf_simple_csrs arch_wf_masked_csrs)
  ultimately have w: "arch_wf (update_xlen (s\<lparr>mcause := cause, mepc := pc s, mtval := tval, mstatus := ?m, priv := Machine\<rparr>))"
    using arch_wf_priv_mstatus [of "s\<lparr>mcause := cause, mepc := pc s, mtval := tval\<rparr>" ?m Machine]
    by (simp add: priv_implemented_def)
  have "enter_machine s cause tval = (update_xlen (s\<lparr>mcause := cause, mepc := pc s, mtval := tval, mstatus := ?m, priv := Machine\<rparr>))
      \<lparr>pc := trap_vector (mtvec s) cause\<rparr>"
    unfolding enter_machine_def Let_def update_xlen_def by simp
  then show ?thesis using arch_wf_masked_csrs(5) [OF w pc_low_bits(3)] by metis
qed

lemma arch_wf_enter_supervisor:
  assumes "arch_wf s" "priv s \<le> 1" "misa_has_extension (misa s) Ext_S"
  shows "arch_wf (enter_supervisor s cause tval)"
proof -
  have wf: "mstatus_wf (misa s) (mstatus s)" "\<not> bit (pc s) 0"
    using assms by (simp_all add: arch_wf_def)
  have p: "priv s \<in> {0, 1}" using arch_wf_privD [OF assms(1)] assms(2) by (auto simp: word_le_nat_alt)
  have m: "bit (mstatus_mask_of (misa s)) n" if "n \<in> {1, 5, 8}" for n
    using that assms(3) by (auto simp: mstatus_mask_of_def bit_simps)
  let ?m = "mstatus (enter_supervisor s cause tval)"
  have "mstatus_wf (misa s) ?m"
    by (rule mstatus_wf_change [OF wf(1)])
      (use m p wf(1) in \<open>auto simp: bit_enter_supervisor_mstatus mstatus_wf_def mpp_implemented_bits split: if_splits\<close>)
  moreover have "arch_wf (s\<lparr>scause := cause, sepc := pc s, stval := tval\<rparr>)"
    using assms(1) wf(2) by (intro arch_wf_simple_csrs arch_wf_masked_csrs)
  ultimately have w: "arch_wf (update_xlen (s\<lparr>scause := cause, sepc := pc s, stval := tval, mstatus := ?m, priv := Supervisor\<rparr>))"
    using arch_wf_priv_mstatus [of "s\<lparr>scause := cause, sepc := pc s, stval := tval\<rparr>" ?m Supervisor] assms(3)
    by (simp add: priv_implemented_def)
  have "enter_supervisor s cause tval = (update_xlen (s\<lparr>scause := cause, sepc := pc s, stval := tval, mstatus := ?m, priv := Supervisor\<rparr>))
      \<lparr>pc := trap_vector (stvec s) cause\<rparr>"
    unfolding enter_supervisor_def Let_def update_xlen_def by simp
  then show ?thesis using arch_wf_masked_csrs(5) [OF w pc_low_bits(3)] by metis
qed


subsection \<open>Effect of a trap\<close>

lemma trap_delegation_iff:
  assumes "unat (trap_exception_code cause) < 64"
  shows "trap_delegation s cause \<noteq> 0 \<longleftrightarrow>
     priv s \<le> Supervisor \<and> misa_has_extension (misa s) Ext_S \<and>
     bit (if trap_is_interrupt cause then mideleg s else medeleg s) (unat (trap_exception_code cause))"
  using assms by (auto simp: trap_delegation_def Let_def test_bit_and_1 word_less_nat_alt)

lemma trap_delegationD:
  "trap_delegation s cause \<noteq> 0 \<Longrightarrow> priv s \<le> Supervisor \<and> misa_has_extension (misa s) Ext_S"
  by (auto simp: trap_delegation_def split: if_splits)

lemma arch_wf_pcD: "arch_wf s \<Longrightarrow> \<not> bit (pc s) 0"
  by (simp add: arch_wf_def)

lemma arch_wf_sext_pc: "arch_wf s \<Longrightarrow> arch_wf (if b then s\<lparr>pc := sext32 (pc s)\<rparr> else s)"
  by (simp add: arch_wf_masked_csrs(5) arch_wf_pcD)

lemma clear_pending_trap_sel [simp]:
  "st (clear_pending_trap c) = (st c)\<lparr>reserved := 0\<rparr>" "plic_mmio (clear_pending_trap c) = plic_mmio c"
  "clint_mmio (clear_pending_trap c) = clint_mmio c" "machine (clear_pending_trap c) = machine c"
  by (simp_all add: clear_pending_trap_def)

lemma raise_exception_st:
  assumes "handle_ecall cause c = None"
  shows "st (raise_exception c cause tval) =
    (let s1 = (if trap_delegation (st c) cause \<noteq> 0 then enter_supervisor (st c) cause tval
               else enter_machine (st c) cause tval)
     in (if xlen (regs s1) = 32 then s1\<lparr>pc := sext32 (pc s1)\<rparr> else s1)\<lparr>reserved := 0\<rparr>)"
  using assms by (simp add: raise_exception_def Let_def)

lemma raise_exception_sel:
  "plic_mmio (raise_exception c cause tval) = plic_mmio c"
  "pending_exception (pipeline_context (raise_exception c cause tval)) = None"
proof -
  show "plic_mmio (raise_exception c cause tval) = plic_mmio c"
    using handle_ecall_ok [of cause c]
    by (auto simp: raise_exception_def Let_def sbi_ok_def sbi_contract_def split: option.split)
  show "pending_exception (pipeline_context (raise_exception c cause tval)) = None"
    by (simp add: raise_exception_def clear_pending_trap_def Let_def split: option.split)
qed

lemma raise_exception_keeps:
  assumes "arch_wf (st c)" "plic_lines_ok c"
  shows "arch_wf (st (raise_exception c cause tval)) \<and> plic_lines_ok (raise_exception c cause tval)"
proof (cases "handle_ecall cause c")
  case (Some c')
  have ok: "sbi_contract c c'" "arch_wf (st c')"
    using handle_ecall_ok [OF Some] assms(1) by (simp_all add: sbi_ok_def)
  then have "plic_mmio c' = plic_mmio c" "bit (mip (st c')) 11 = bit (mip (st c)) 11"
    "seip_external (st c') = seip_external (st c)"
    by (auto simp: sbi_contract_def)
  with assms(2) ok(2) Some show ?thesis
    by (simp add: raise_exception_def plic_lines_ok_def arch_wf_simple_csrs)
next
  case None
  have "arch_wf (if trap_delegation (st c) cause \<noteq> 0 then enter_supervisor (st c) cause tval
               else enter_machine (st c) cause tval)"
    using assms(1) trap_delegationD [of "st c" cause] by (auto intro: arch_wf_enter_machine arch_wf_enter_supervisor)
  from arch_wf_simple_csrs(10) [OF arch_wf_sext_pc [OF this]]
  have wf: "arch_wf (st (raise_exception c cause tval))"
    by (simp only: raise_exception_st [OF None] Let_def)
  have "mip (st (raise_exception c cause tval)) = mip (st c)"
    "seip_external (st (raise_exception c cause tval)) = seip_external (st c)"
    by (simp_all add: raise_exception_st [OF None] Let_def enter_supervisor_def enter_machine_def update_xlen_def)
  then show ?thesis using wf assms(2) by (simp add: plic_lines_ok_def raise_exception_sel)
qed

subsection \<open>Trap entry and return\<close>

text \<open>What entering a trap records, and what it leaves alone.\<close>

definition entered_machine :: "ArchState \<Rightarrow> TrapCause \<Rightarrow> CSRValue \<Rightarrow> ArchState \<Rightarrow> bool" where
  "entered_machine s cause tval s' \<longleftrightarrow>
     priv s' = Machine \<and> mcause s' = cause \<and> mepc s' = pc s \<and> mtval s' = tval \<and>
     bit (mstatus s') 7 = bit (mstatus s) 3 \<and> \<not> bit (mstatus s') 3 \<and>
     mpp_of (mstatus s') = ucast (priv s) \<and>
     scause s' = scause s \<and> sepc s' = sepc s \<and> stval s' = stval s \<and>
     pc s' = (if xlen (regs s') = 32 then sext32 (trap_vector (mtvec s) cause) else trap_vector (mtvec s) cause)"

definition entered_supervisor :: "ArchState \<Rightarrow> TrapCause \<Rightarrow> CSRValue \<Rightarrow> ArchState \<Rightarrow> bool" where
  "entered_supervisor s cause tval s' \<longleftrightarrow>
     priv s' = Supervisor \<and> scause s' = cause \<and> sepc s' = pc s \<and> stval s' = tval \<and>
     bit (mstatus s') 5 = bit (mstatus s) 1 \<and> \<not> bit (mstatus s') 1 \<and>
     bit (mstatus s') 8 = (priv s = Supervisor) \<and>
     mcause s' = mcause s \<and> mepc s' = mepc s \<and> mtval s' = mtval s \<and>
     bit (mstatus s') 3 = bit (mstatus s) 3 \<and> mpp_of (mstatus s') = mpp_of (mstatus s) \<and>
     pc s' = (if xlen (regs s') = 32 then sext32 (trap_vector (stvec s) cause) else trap_vector (stvec s) cause)"

lemma mpp_of_bits: "mpp_of ms = (if bit ms 11 then if bit ms 12 then 3 else 1 else if bit ms 12 then 2 else 0)"
  using two_bit_field [of 11 ms] by (simp add: mpp_of_def)

lemma enter_machine_sel:
  "priv (enter_machine s cause tval) = Machine" "mcause (enter_machine s cause tval) = cause"
  "mepc (enter_machine s cause tval) = pc s" "mtval (enter_machine s cause tval) = tval"
  "scause (enter_machine s cause tval) = scause s" "sepc (enter_machine s cause tval) = sepc s"
  "stval (enter_machine s cause tval) = stval s" "misa (enter_machine s cause tval) = misa s"
  "reg (regs (enter_machine s cause tval)) = reg (regs s)"
  "pc (enter_machine s cause tval) = trap_vector (mtvec s) cause"
  by (simp_all add: enter_machine_def update_xlen_def Let_def)

lemma enter_supervisor_sel:
  "priv (enter_supervisor s cause tval) = Supervisor" "scause (enter_supervisor s cause tval) = cause"
  "sepc (enter_supervisor s cause tval) = pc s" "stval (enter_supervisor s cause tval) = tval"
  "mcause (enter_supervisor s cause tval) = mcause s" "mepc (enter_supervisor s cause tval) = mepc s"
  "mtval (enter_supervisor s cause tval) = mtval s" "misa (enter_supervisor s cause tval) = misa s"
  "reg (regs (enter_supervisor s cause tval)) = reg (regs s)"
  "pc (enter_supervisor s cause tval) = trap_vector (stvec s) cause"
  by (simp_all add: enter_supervisor_def update_xlen_def Let_def)

lemma entered_cases:
  assumes "arch_wf (st c)" "handle_ecall cause c = None"
  shows "trap_delegation (st c) cause = 0 \<Longrightarrow> entered_machine (st c) cause tval (st (raise_exception c cause tval))"
    "trap_delegation (st c) cause \<noteq> 0 \<Longrightarrow> entered_supervisor (st c) cause tval (st (raise_exception c cause tval))"
proof -
  let ?s = "st c"
  note p = arch_wf_privD [OF assms(1)]
  have m: "mpp_of (mstatus (enter_machine ?s cause tval)) = ucast (priv ?s)"
    using p unfolding mpp_of_bits by (auto simp: bit_enter_machine_mstatus)
  show "entered_machine ?s cause tval (st (raise_exception c cause tval))" if "trap_delegation ?s cause = 0"
    using that m p
    by (simp add: raise_exception_st [OF assms(2)] Let_def entered_machine_def enter_machine_sel bit_enter_machine_mstatus)
  show "entered_supervisor ?s cause tval (st (raise_exception c cause tval))" if "trap_delegation ?s cause \<noteq> 0"
  proof -
    have q: "priv ?s \<in> {0, 1}" using p trap_delegationD [OF that] by (auto simp: word_le_nat_alt)
    then have "mpp_of (mstatus (enter_supervisor ?s cause tval)) = mpp_of (mstatus ?s)"
      "bit (priv ?s) 0 = (priv ?s = 1)"
      unfolding mpp_of_bits by (auto simp: bit_enter_supervisor_mstatus)
    then show ?thesis using that q
      by (simp add: raise_exception_st [OF assms(2)] Let_def entered_supervisor_def enter_supervisor_sel bit_enter_supervisor_mstatus)
  qed
qed

text \<open>(C3)
  Trap entry. On a well-formed hart a trap that the supervisor interface does not answer enters
  supervisor mode exactly when it comes from supervisor or user mode and its bit of the delegation
  register is set, and machine mode otherwise; privilege never drops. The target mode's cause, return
  address and value registers receive the trap, its interrupt enable is saved and cleared, the
  previous privilege is recorded, execution continues at the (vectored) handler address, the other
  mode's trap registers and the integer registers are unchanged and the hart stays well-formed.
\<close>

theorem trap_entry_correct:
  fixes c :: CPU and cause :: TrapCause and tval :: CSRValue
  assumes "arch_wf (st c)" "handle_ecall cause c = None" "unat (trap_exception_code cause) < 64"
  defines "s \<equiv> st c" and "s' \<equiv> st (raise_exception c cause tval)"
  shows "arch_wf s' \<and> priv s \<le> priv s' \<and> reg (regs s') = reg (regs s) \<and>
    (if priv s \<le> Supervisor \<and> misa_has_extension (misa s) Ext_S \<and>
        bit (if trap_is_interrupt cause then mideleg s else medeleg s) (unat (trap_exception_code cause))
     then entered_supervisor s cause tval s' else entered_machine s cause tval s')"
proof -
  have "arch_wf (if trap_delegation (st c) cause \<noteq> 0 then enter_supervisor (st c) cause tval
               else enter_machine (st c) cause tval)"
    using assms(1) trap_delegationD [of "st c" cause] by (auto intro: arch_wf_enter_machine arch_wf_enter_supervisor)
  from arch_wf_simple_csrs(10) [OF arch_wf_sext_pc [OF this]]
  have "arch_wf s'" by (simp only: s'_def raise_exception_st [OF assms(2)] Let_def)
  moreover have "reg (regs s') = reg (regs s)"
    by (simp add: s'_def s_def raise_exception_st [OF assms(2)] Let_def enter_machine_sel enter_supervisor_sel)
  moreover have "if trap_delegation s cause \<noteq> 0 then entered_supervisor s cause tval s' else entered_machine s cause tval s'"
    using entered_cases [OF assms(1,2)] by (simp add: s_def s'_def)
  moreover have "priv s \<le> priv s'"
    using calculation(3) trap_delegationD [of s cause] arch_wf_privD [OF assms(1)]
    by (auto simp: entered_machine_def entered_supervisor_def s_def word_le_nat_alt split: if_splits)
  ultimately show ?thesis using trap_delegation_iff [OF assms(3), of s] by simp
qed

lemma no_sbi_for [simp]: "cause \<noteq> 9 \<Longrightarrow> handle_ecall cause c = None"
  by (simp add: handle_ecall_def is_direct_sbi_ecall_def enum_cause_def)

theorem trap_entry_correct_witness:
  "entered_machine (st make_CPU) 2 0 (st (raise_exception make_CPU 2 0))"
proof -
  have "unat (trap_exception_code 2) < 64" "\<not> priv (st make_CPU) \<le> Supervisor"
    by (simp add: trap_exception_code_def) (simp add: make_CPU_def cpu_reset_def TLB_flush_def Let_def
      initialize_lower_xlen_fields_def update_xlen_def initial_ArchState_def word_le_nat_alt)
  then show ?thesis using trap_entry_correct [OF arch_wf_make_CPU, of 2 0] by simp
qed

lemma xlen_for_privilege_cong:
  assumes "misa s' = misa s" "\<And>n. n \<in> {32, 33, 34, 35} \<Longrightarrow> bit (mstatus s') n = bit (mstatus s) n"
  shows "xlen_for_privilege s' p = xlen_for_privilege s p"
  using assms by (simp add: xlen_for_privilege_def two_bit_field)

lemma regs_after_entry:
  "regs (enter_machine s cause tval) = (regs s)\<lparr>xlen := xlen (regs (enter_machine s cause tval))\<rparr>"
  "regs (enter_supervisor s cause tval) = (regs s)\<lparr>xlen := xlen (regs (enter_supervisor s cause tval))\<rparr>"
  by (simp_all add: enter_machine_def enter_supervisor_def update_xlen_def Let_def)

lemma xlen_for_privilege_upd_pc [simp]:
  "xlen_for_privilege (s\<lparr>pc := v\<rparr>) p = xlen_for_privilege s p"
  "xlen_for_privilege (s\<lparr>reserved := v\<rparr>) p = xlen_for_privilege s p"
  by (simp_all add: xlen_for_privilege_def)

lemma misa_return [simp]: "misa (mret s) = misa s" "misa (sret s) = misa s"
  by (simp_all add: mret_def sret_def Let_def update_xlen_def)

lemma regs_after_return:
  assumes "misa s' = misa s" "\<And>n. n \<in> {32, 33, 34, 35} \<Longrightarrow> bit (mstatus s') n = bit (mstatus s) n"
    and "regs s' = (regs s)\<lparr>xlen := x\<rparr>" "xlen (regs s) = current_xlen s"
  shows "priv (mret s') = priv s \<Longrightarrow> regs (mret s') = regs s"
    "priv (sret s') = priv s \<Longrightarrow> regs (sret s') = regs s"
proof -
  have r: "regs (mret s') = (regs s')\<lparr>xlen := xlen_for_privilege (mret s') (priv (mret s'))\<rparr>"
    "regs (sret s') = (regs s')\<lparr>xlen := xlen_for_privilege (sret s') (priv (sret s'))\<rparr>"
    by (simp_all add: mret_def sret_def Let_def update_xlen_def current_xlen_def)
  have x: "xlen_for_privilege (mret s') p = xlen_for_privilege s p"
    "xlen_for_privilege (sret s') p = xlen_for_privilege s p" for p
    by (rule xlen_for_privilege_cong; use assms(1,2) in \<open>force simp: bit_mret_mstatus bit_sret_mstatus\<close>)+
  have "(regs s)\<lparr>xlen := current_xlen s\<rparr> = regs s" using assms(4) by (cases "regs s") simp
  then show "priv (mret s') = priv s \<Longrightarrow> regs (mret s') = regs s"
    "priv (sret s') = priv s \<Longrightarrow> regs (sret s') = regs s"
    using r x assms(3) by (simp_all add: current_xlen_def)
qed

text \<open>(C22)
  Returning undoes the entry. After a trap taken in machine mode MRET, and after a delegated one
  SRET, resumes at the interrupted instruction (its address rounded to the instruction alignment),
  in the interrupted privilege mode, with the register file, its width included, and the interrupt
  enable of the handling mode as they were.
\<close>

theorem trap_return_inverse:
  fixes c :: CPU and cause :: TrapCause and tval :: CSRValue
  assumes "arch_wf (st c)" "handle_ecall cause c = None"
  defines "s \<equiv> st c" and "s' \<equiv> st (raise_exception c cause tval)"
  defines "s'' \<equiv> (if trap_delegation (st c) cause \<noteq> 0 then sret s' else mret s')"
  shows "priv s'' = priv s \<and> regs s'' = regs s \<and>
    pc s'' = (if xlen (regs s) = 32 then sext32 (epc_read_value (pc s) (misa s))
              else epc_read_value (pc s) (misa s)) \<and>
    bit (mstatus s'') (if trap_delegation s cause \<noteq> 0 then 1 else 3) =
      bit (mstatus s) (if trap_delegation s cause \<noteq> 0 then 1 else 3)"
proof -
  note wf = arch_wf_privD [OF assms(1)]
  have x: "xlen (regs s) = current_xlen s" using assms(1) by (simp add: s_def arch_wf_def)
  show ?thesis
  proof (cases "trap_delegation (st c) cause = 0")
    case True
    have s': "misa s' = misa s" "mepc s' = pc s" "regs s' = regs (enter_machine s cause tval)"
      "mstatus s' = mstatus (enter_machine s cause tval)"
      using True by (simp_all add: s'_def s_def raise_exception_st [OF assms(2)] Let_def enter_machine_sel)
    have "mpp_of (mstatus s') = ucast (priv s)"
      using entered_cases(1) [OF assms(1,2) True] by (simp add: s'_def s_def entered_machine_def)
    then have pr: "priv (mret s') = priv s"
      using wf unfolding mret_def Let_def field_mpp by (auto simp: update_xlen_def s_def)
    have r: "regs (mret s') = regs s"
      by (rule regs_after_return(1) [OF s'(1) _ trans [OF s'(3) regs_after_entry(1)] x pr]) (use wf in \<open>auto simp: s' bit_enter_machine_mstatus s_def\<close>)
    have "pc (mret s') = (if xlen (regs (mret s')) = 32 then sext32 (epc_read_value (mepc s') (misa s'))
        else epc_read_value (mepc s') (misa s'))"
      by (simp add: mret_def Let_def update_xlen_def)
    then show ?thesis
      using True pr r s' wf by (simp add: s''_def s_def bit_mret_mstatus bit_enter_machine_mstatus)
  next
    case False
    have q: "priv s \<in> {0, 1}" using wf trap_delegationD [OF False] by (auto simp: s_def word_le_nat_alt)
    have s': "misa s' = misa s" "sepc s' = pc s" "regs s' = regs (enter_supervisor s cause tval)"
      "mstatus s' = mstatus (enter_supervisor s cause tval)"
      using False by (simp_all add: s'_def s_def raise_exception_st [OF assms(2)] Let_def enter_supervisor_sel)
    have "bit (mstatus s') 8 = (priv s = 1)"
      using entered_cases(2) [OF assms(1,2) False] by (simp add: s'_def s_def entered_supervisor_def)
    then have pr: "priv (sret s') = priv s"
      using q unfolding sret_def Let_def field_spp by (auto simp: update_xlen_def)
    have r: "regs (sret s') = regs s"
      by (rule regs_after_return(2) [OF s'(1) _ trans [OF s'(3) regs_after_entry(2)] x pr]) (use q in \<open>auto simp: s' bit_enter_supervisor_mstatus\<close>)
    have "pc (sret s') = (if xlen (regs (sret s')) = 32 then sext32 (epc_read_value (sepc s') (misa s'))
        else epc_read_value (sepc s') (misa s'))"
      by (simp add: sret_def Let_def update_xlen_def)
    then show ?thesis
      using False pr r s' q by (simp add: s''_def s_def bit_sret_mstatus bit_enter_supervisor_mstatus)
  qed
qed

theorem trap_return_inverse_witness:
  "priv (mret (st (raise_exception make_CPU 2 0))) = priv (st make_CPU)"
proof -
  have "trap_delegation (st make_CPU) 2 = 0" by code_simp
  then show ?thesis using trap_return_inverse [OF arch_wf_make_CPU, of 2 0] by simp
qed


subsection \<open>Interrupts\<close>

definition irq_order :: "nat list" where
  "irq_order = [11, 3, 7, 9, 1, 5]"

definition irq_rank :: "nat \<Rightarrow> nat" where
  "irq_rank i = length (takeWhile (\<lambda>j. j \<noteq> i) irq_order)"

definition interrupt_allowed :: "ArchState \<Rightarrow> nat \<Rightarrow> bool" where
  "interrupt_allowed s i \<longleftrightarrow>
     bit (mip s) i \<and> bit (mie s) i \<and>
     (if bit (mideleg s) i then priv s = User \<or> priv s = Supervisor \<and> bit (mstatus s) 1
      else priv s \<noteq> Machine \<or> bit (mstatus s) 3)"

lemma bit_enabled_interrupts:
  assumes "arch_wf s" "i < 64"
  shows "bit (enabled_interrupts s) i \<longleftrightarrow>
    (if bit (mideleg s) i then priv s = User \<or> priv s = Supervisor \<and> bit (mstatus s) 1
     else priv s \<noteq> Machine \<or> bit (mstatus s) 3)"
  using assms(2) arch_wf_privD [OF assms(1)]
  by (auto simp: enabled_interrupts_def single_bit_tests bit_simps)

lemma select_highest:
  assumes "bits_within m (interrupt_implemented_mask True)" "m \<noteq> 0"
  shows "\<exists>i \<in> set irq_order. select_highest_priority_interrupt m = of_nat i \<and> bit m i \<and>
     (\<forall>j. bit m j \<longrightarrow> j \<in> set irq_order \<and> irq_rank i \<le> irq_rank j)"
proof -
  have b: "j \<in> set irq_order" if "bit m j" for j
    using assms(1) that by (auto simp: bits_within_iff bit_interrupt_implemented_mask irq_order_def)
  obtain k where "bit m k" using assms(2) bit_eqI [of m 0] by auto
  with b have "find (\<lambda>irq. m AND push_bit irq 1 \<noteq> 0) irq_order \<noteq> None"
    by (auto simp: find_None_iff and_exp_eq_0_iff_not_bit)
  then obtain i where i: "find (\<lambda>irq. m AND push_bit irq 1 \<noteq> 0) irq_order = Some i" by auto
  then obtain n where n: "n < length irq_order" "bit m (irq_order ! n)" "irq_order ! n = i"
    "\<And>l. l < n \<Longrightarrow> \<not> bit m (irq_order ! l)"
    by (auto simp: find_Some_iff and_exp_eq_0_iff_not_bit)
  have rank: "irq_rank (irq_order ! l) = l" if "l < length irq_order" for l
    using that by (auto simp: irq_rank_def irq_order_def less_Suc_eq)
  have "irq_rank i \<le> irq_rank j" if "bit m j" for j
  proof -
    from b [OF that] obtain l where l: "l < length irq_order" "j = irq_order ! l" by (metis in_set_conv_nth)
    then have "\<not> l < n" using n(4) that by blast
    then show ?thesis using rank l n by auto
  qed
  moreover have "select_highest_priority_interrupt m = of_nat i"
    using i by (simp add: select_highest_priority_interrupt_def irq_order_def)
  ultimately show ?thesis using b n by (auto intro!: bexI [of _ i])
qed

lemma interrupt_cause:
  assumes "i \<in> set irq_order"
  shows "trap_is_interrupt (kInterruptCauseBit OR of_nat i)" "unat (trap_exception_code (kInterruptCauseBit OR of_nat i)) = i"
    "kInterruptCauseBit OR of_nat i \<noteq> 9"
  using assms by (auto simp: irq_order_def trap_is_interrupt_def trap_exception_code_def)

lemma dispatch_cases:
  assumes "arch_wf (st c)"
  shows "(\<forall>i. \<not> interrupt_allowed (st c) i) \<and> dispatch_pending_interrupts c = c \<or>
    (\<exists>i \<in> set irq_order. interrupt_allowed (st c) i \<and>
       (\<forall>j. interrupt_allowed (st c) j \<longrightarrow> j \<in> set irq_order \<and> irq_rank i \<le> irq_rank j) \<and>
       dispatch_pending_interrupts c = raise_exception c (kInterruptCauseBit OR of_nat i) 0)"
proof -
  let ?s = "st c" and ?m = "(mip (st c) AND mie (st c)) AND enabled_interrupts (st c)"
  have m: "bit ?m i \<longleftrightarrow> interrupt_allowed ?s i" for i
  proof (cases "i < 64")
    case True
    then show ?thesis by (auto simp: bit_and_iff bit_enabled_interrupts [OF assms] interrupt_allowed_def)
  qed (auto simp: interrupt_allowed_def dest: bit_imp_le_length)
  show ?thesis
  proof (cases "?m = 0")
    case True
    then have "\<not> interrupt_allowed ?s i" for i using m [of i] by simp
    moreover have "dispatch_pending_interrupts c = c"
      using True by (simp add: dispatch_pending_interrupts_def Let_def)
    ultimately show ?thesis by blast
  next
    case False
    have "bits_within ?m (interrupt_implemented_mask True)"
      using assms by (auto simp: arch_wf_def bits_within_iff bit_and_iff)
    from select_highest [OF this False] obtain i where i: "i \<in> set irq_order"
      "select_highest_priority_interrupt ?m = of_nat i" "bit ?m i"
      "\<forall>j. bit ?m j \<longrightarrow> j \<in> set irq_order \<and> irq_rank i \<le> irq_rank j" by blast
    have "dispatch_pending_interrupts c = raise_exception c (kInterruptCauseBit OR of_nat i) 0"
      using False i(2) by (auto simp: dispatch_pending_interrupts_def Let_def)
    then show ?thesis using i m by blast
  qed
qed

text \<open>(C33)
  Interrupt delivery. On a well-formed hart an interrupt may be taken when it is pending, enabled and
  not masked by the current mode: for one delegated to the supervisor, in user mode, or in supervisor
  mode with SIE; for any other, below machine mode, or in machine mode with MIE. Dispatching does
  nothing when no interrupt may be taken, and otherwise takes the one of the highest fixed priority
  (MEI, MSI, MTI, SEI, SSI, STI), into supervisor mode when it is delegated and machine mode when not,
  with the interrupted address saved.
\<close>

theorem interrupt_delivery:
  assumes "arch_wf (st c)"
  shows "(\<forall>i. \<not> interrupt_allowed (st c) i) \<and> dispatch_pending_interrupts c = c \<or>
    (\<exists>i \<in> set irq_order. interrupt_allowed (st c) i \<and>
       (\<forall>j. interrupt_allowed (st c) j \<longrightarrow> j \<in> set irq_order \<and> irq_rank i \<le> irq_rank j) \<and>
       (if bit (mideleg (st c)) i
        then entered_supervisor (st c) (kInterruptCauseBit OR of_nat i) 0 (st (dispatch_pending_interrupts c))
        else entered_machine (st c) (kInterruptCauseBit OR of_nat i) 0 (st (dispatch_pending_interrupts c))))"
  using dispatch_cases [OF assms]
proof (elim disjE bexE)
  fix i assume i: "i \<in> set irq_order"
    and d: "interrupt_allowed (st c) i \<and>
       (\<forall>j. interrupt_allowed (st c) j \<longrightarrow> j \<in> set irq_order \<and> irq_rank i \<le> irq_rank j) \<and>
       dispatch_pending_interrupts c = raise_exception c (kInterruptCauseBit OR of_nat i) 0"
  let ?cause = "kInterruptCauseBit OR of_nat i"
  have n: "handle_ecall ?cause c = None" using interrupt_cause(3) [OF i] by simp
  have "priv (st c) \<le> Supervisor \<and> misa_has_extension (misa (st c)) Ext_S" if "bit (mideleg (st c)) i"
  proof -
    have "misa_has_extension (misa (st c)) Ext_S"
      using assms that by (auto simp: arch_wf_def bits_within_iff bit_mideleg_writable_mask)
    moreover have "priv (st c) = User \<or> priv (st c) = Supervisor"
      using d that by (auto simp: interrupt_allowed_def)
    ultimately show ?thesis by auto
  qed
  moreover have "i < 64" using i by (auto simp: irq_order_def)
  ultimately have "trap_delegation (st c) ?cause \<noteq> 0 \<longleftrightarrow> bit (mideleg (st c)) i"
    using trap_delegation_iff [of ?cause "st c"] by (simp add: interrupt_cause [OF i]) blast
  then show ?thesis
    using d i entered_cases [OF assms n, of 0] by (intro disjI2 bexI [of _ i]) auto
qed blast

lemma dispatch_keeps:
  assumes "arch_wf (st c)" "plic_lines_ok c"
  shows "arch_wf (st (dispatch_pending_interrupts c)) \<and> plic_lines_ok (dispatch_pending_interrupts c)"
  using assms raise_exception_keeps [OF assms] by (simp add: dispatch_pending_interrupts_def Let_def)

definition example_timer_irq :: CPU where
  "example_timer_irq = make_CPU\<lparr>st := (st make_CPU)\<lparr>mstatus := mstatus (st make_CPU) OR 8, mie := 0x80, mip := 0x80\<rparr>\<rparr>"

theorem interrupt_delivery_witness:
  "entered_machine (st example_timer_irq) (kInterruptCauseBit OR 7) 0 (st (dispatch_pending_interrupts example_timer_irq))"
proof -
  have mk: "mideleg (st make_CPU) = 0" "mip (st make_CPU) = 0"
    by (simp_all add: make_CPU_def cpu_reset_def TLB_flush_def Let_def
      initialize_lower_xlen_fields_def update_xlen_def initial_ArchState_def)
  have "arch_wf ((st make_CPU)\<lparr>mstatus := mstatus (st make_CPU) OR 8\<rparr>)"
    by (rule arch_wf_or_mstatus [OF arch_wf_make_CPU])
      (auto simp: mstatus_mask_of_def bits_within_iff bit_simps)
  then have wf: "arch_wf (st example_timer_irq)"
    unfolding example_timer_irq_def
    by (simp add: arch_wf_mip arch_wf_masked_csrs bits_within_iff bit_simps mk)
  have d: "mideleg (st example_timer_irq) = 0" "bit (mstatus (st example_timer_irq)) 3"
    by (simp_all add: example_timer_irq_def mk bit_simps)
  have "interrupt_allowed (st example_timer_irq) i \<longleftrightarrow> i = 7" for i
    unfolding interrupt_allowed_def d using d(2) by (auto simp: example_timer_irq_def bit_simps)
  then show ?thesis using interrupt_delivery [OF wf] d(1) by auto
qed


end
