(* ===== verification/Hart_Invariant.thy ===== *)
theory Hart_Invariant
  imports Trap_Control
begin

text \<open>
  The hart as a state machine: every operation of the modelled components that changes the
  architectural state or the interrupt controllers is a step, in any order and with any arguments.
  The invariant is the WARL invariant of the CSR file (\<open>arch_wf\<close>) together with the agreement between
  the interrupt controller and the pending bits it drives (\<open>plic_lines_ok\<close>).
\<close>

subsection \<open>Steps\<close>

inductive hart_step :: "CPU \<Rightarrow> CPU \<Rightarrow> bool" where
  step_reset: "hart_step c (cpu_reset c)"
| step_csr: "csr_write c addr w = Inr c' \<Longrightarrow> hart_step c c'"
| step_reg: "hart_step c (c\<lparr>st := (st c)\<lparr>regs := write_reg (regs (st c)) r v\<rparr>\<rparr>)"
| step_pc: "hart_step c (c\<lparr>st := (st c)\<lparr>pc := v AND NOT 1\<rparr>\<rparr>)"
| step_reserve: "hart_step c (c\<lparr>st := (st c)\<lparr>load_res := a, reserved := r\<rparr>\<rparr>)"
| step_trap: "hart_step c (raise_exception c cause tval)"
| step_mret: "hart_step c (c\<lparr>st := mret (st c)\<rparr>)"
| step_sret: "canExecutePrivilegedInstruction (priv (st c)) (misa (st c)) (mstatus (st c)) (ucast Funct12Priv_Sret) f7 \<Longrightarrow>
    hart_step c (c\<lparr>st := sret (st c)\<rparr>)"
| step_interrupt: "hart_step c (dispatch_pending_interrupts c)"
| step_timer: "hart_step c (evaluate_timer_interrupt (c\<lparr>clint_mmio := cl\<rparr>))"
| step_irq: "hart_step c (setIrq c i v)"
| step_plic: "plic_handle_request lines req resp c = (h, resp', c') \<Longrightarrow> hart_step c c'"
| step_clint: "clint_handle_request req resp c = (h, resp', c') \<Longrightarrow> hart_step c c'"
| step_fence: "hart_step c (TLB_flush_selective c all_vaddr vaddr all_asid asid)"
| step_fence_all: "hart_step c (TLB_flush c)"

inductive hart_reachable :: "CPU \<Rightarrow> bool" where
  reachable_init: "hart_reachable make_CPU"
| reachable_step: "hart_reachable c \<Longrightarrow> hart_step c c' \<Longrightarrow> hart_reachable c'"

inductive_cases hart_stepE: "hart_step c c'"

definition hart_ok :: "CPU \<Rightarrow> bool" where
  "hart_ok c \<longleftrightarrow> arch_wf (st c) \<and> plic_lines_ok c"

subsection \<open>Each component keeps the invariant\<close>

lemma plic_lines_ok_cong:
  assumes "plic_mmio c' = plic_mmio c" "bit (mip (st c')) 11 = bit (mip (st c)) 11"
    and "seip_external (st c') = seip_external (st c)"
  shows "plic_lines_ok c' = plic_lines_ok c"
  using assms by (simp add: plic_lines_ok_def)

definition keeps_lines :: "CPU \<Rightarrow> ExceptionCode + CPU \<Rightarrow> bool" where
  "keeps_lines c r \<longleftrightarrow>
     (\<forall>c'. r = Inr c' \<longrightarrow> plic_mmio c' = plic_mmio c \<and> bit (mip (st c')) 11 = bit (mip (st c)) 11 \<and>
        seip_external (st c') = seip_external (st c))"

lemma keeps_lines_simps [simp]:
  "keeps_lines c (Inl e)" "keeps_lines c (Inr c)"
  "keeps_lines c (with_st c g) \<longleftrightarrow>
     bit (mip (g (st c))) 11 = bit (mip (st c)) 11 \<and> seip_external (g (st c)) = seip_external (st c)"
  by (auto simp: keeps_lines_def with_st_def)

lemma setMstatus_lines:
  "plic_mmio (setMstatus c w) = plic_mmio c" "mip (st (setMstatus c w)) = mip (st c)"
  "seip_external (st (setMstatus c w)) = seip_external (st c)"
  by (simp_all add: setMstatus_def Let_def update_xlen_def TLB_flush_def)

lemma write_satp_lines:
  "plic_mmio (write_satp c w) = plic_mmio c" "mip (st (write_satp c w)) = mip (st c)"
  "seip_external (st (write_satp c w)) = seip_external (st c)"
  by (simp_all add: write_satp_def Let_def TLB_flush_def)

lemma write_mip_lines:
  "bit (mip (write_mip s w)) 11 = bit (mip s) 11" "seip_external (write_mip s w) = seip_external s"
  by (simp_all add: write_mip_def Let_def bit_refresh_supervisor_pending bit_simps)
    (simp add: refresh_supervisor_pending_def Let_def)

lemma csr_write_lines: "keeps_lines c (csr_write c addr w)"
  unfolding csr_write_def Let_def
  by (intro eq_if_cases [where P = "keeps_lines c"]; (simp only: keeps_lines_simps)?)
    (simp_all add: keeps_lines_def setMstatus_lines write_satp_lines write_mip_lines bit_simps)

lemma hart_okI: "arch_wf (st c) \<and> plic_lines_ok c \<Longrightarrow> hart_ok c"
  by (simp add: hart_ok_def)

lemma reset_ok: "hart_ok (cpu_reset c)"
proof -
  have "st (cpu_reset c) = st make_CPU" "plic_mmio (cpu_reset c) = plic_mmio make_CPU"
    by (simp_all add: make_CPU_def cpu_reset_def TLB_flush_def plic_reset_def Let_def)
  with arch_wf_make_CPU plic_lines_ok_make_CPU show ?thesis
    by (simp add: hart_ok_def plic_lines_ok_def)
qed

lemma hart_ok_st:
  assumes "hart_ok c" "arch_wf s" "bit (mip s) 11 = bit (mip (st c)) 11" "seip_external s = seip_external (st c)"
  shows "hart_ok (c\<lparr>st := s\<rparr>)"
  using assms plic_lines_ok_cong [of "c\<lparr>st := s\<rparr>" c] by (simp add: hart_ok_def)

lemma return_lines [simp]:
  "mip (mret s) = mip s" "seip_external (mret s) = seip_external s"
  "mip (sret s) = mip s" "seip_external (sret s) = seip_external s"
  by (simp_all add: mret_def sret_def Let_def update_xlen_def)

lemma requests_ok:
  assumes "hart_ok c"
  shows "plic_handle_request lines req resp c = (h, resp', c') \<Longrightarrow> hart_ok c'"
    "clint_handle_request req resp c = (h, resp', c') \<Longrightarrow> hart_ok c'"
  using assms plic_reads_keep [of c] plic_writes_keep [of c] clint_writes_keep [of c]
  by (auto simp: hart_ok_def plic_handle_request_def clint_handle_request_def Let_def case_prod_beta split: if_splits)

lemma fences_ok [simp]:
  "hart_ok (TLB_flush c) = hart_ok c" "hart_ok (TLB_flush_selective c av v aa a) = hart_ok c"
  by (simp_all add: hart_ok_def plic_lines_ok_def TLB_flush_def TLB_flush_selective_def)

lemma operations_ok:
  assumes "hart_ok c"
  shows "hart_ok (raise_exception c cause tval)" "hart_ok (dispatch_pending_interrupts c)"
    "hart_ok (setIrq c i v)" "hart_ok (evaluate_timer_interrupt (c\<lparr>clint_mmio := cl\<rparr>))"
    "hart_ok (c\<lparr>st := mret (st c)\<rparr>)"
    "hart_ok (c\<lparr>st := (st c)\<lparr>regs := write_reg (regs (st c)) r w\<rparr>\<rparr>)"
    "hart_ok (c\<lparr>st := (st c)\<lparr>pc := p AND NOT 1\<rparr>\<rparr>)"
    "hart_ok (c\<lparr>st := (st c)\<lparr>load_res := a, reserved := b\<rparr>\<rparr>)"
proof -
  have wf: "arch_wf (st c)" "plic_lines_ok c" using assms by (simp_all add: hart_ok_def)
  show "hart_ok (raise_exception c cause tval)" "hart_ok (dispatch_pending_interrupts c)" "hart_ok (setIrq c i v)"
    "hart_ok (evaluate_timer_interrupt (c\<lparr>clint_mmio := cl\<rparr>))"
    using raise_exception_keeps [OF wf] dispatch_keeps [OF wf] setIrq_keeps [OF wf] evaluate_timer_keeps [of "c\<lparr>clint_mmio := cl\<rparr>"] wf
    by (simp_all add: hart_ok_def)
  have "\<not> bit (p AND NOT 1) 0" by (simp add: bit_simps)
  then show "hart_ok (c\<lparr>st := (st c)\<lparr>pc := p AND NOT 1\<rparr>\<rparr>)"
    by (intro hart_ok_st [OF assms] arch_wf_masked_csrs wf) simp_all
qed (intro hart_ok_st [OF assms] arch_wf_mret arch_wf_return arch_wf_simple_csrs;
     use assms in \<open>simp add: hart_ok_def\<close>)+

lemma hart_step_keeps:
  assumes "hart_step c c'" "hart_ok c"
  shows "hart_ok c'"
  using assms
proof (induction rule: hart_step.induct)
  case (step_csr c addr w c')
  then show ?case
    using csr_write_keeps_wf [of c addr w] csr_write_lines [of c addr w] plic_lines_ok_cong [of c' c]
    by (simp add: keeps_lines_def hart_ok_def)
next
  case (step_sret c f7)
  then have "misa_has_extension (misa (st c)) Ext_S"
    by (simp add: canExecutePrivilegedInstruction_def)
  with step_sret.prems show ?case by (intro hart_ok_st arch_wf_sret) (auto simp: hart_ok_def)
qed (simp only: fences_ok | blast intro: reset_ok operations_ok requests_ok)+

text \<open>(C5)
  The hart invariant. In every state reachable from reset by CSR writes, register and program counter
  updates, traps, trap returns, interrupt dispatch, timer updates, interrupt line changes, accesses to
  the interrupt controllers and fences, in any order, the control registers hold only legal values
  (implemented bits, implemented privilege modes, legal widths, aligned vectors and return addresses),
  the register width follows the current mode, x0 is zero, every pending bit with two sources is their
  disjunction, and the external interrupt lines are exactly those the interrupt controller signals.
\<close>

theorem hart_invariant:
  assumes "hart_reachable c"
  shows "arch_wf (st c) \<and> plic_lines_ok c"
  using assms
proof (induction rule: hart_reachable.induct)
  case reachable_init
  show ?case using arch_wf_make_CPU plic_lines_ok_make_CPU by blast
next
  case (reachable_step c c')
  then show ?case using hart_step_keeps [of c c'] by (simp add: hart_ok_def)
qed

theorem hart_invariant_witness:
  "\<exists>c. hart_reachable c \<and> pc (st c) = 4 \<and> arch_wf (st c) \<and> plic_lines_ok c"
proof -
  let ?c = "make_CPU\<lparr>st := (st make_CPU)\<lparr>pc := 5 AND NOT 1\<rparr>\<rparr>"
  have r: "hart_reachable ?c" by (rule reachable_step [OF reachable_init step_pc])
  then show ?thesis using hart_invariant [OF r] by (intro exI [of _ ?c]) simp
qed


end
