(* ===== verification/Memory_Access.thy ===== *)
theory Memory_Access
  imports Hart_Invariant
begin

text \<open>
  The data path of loads and stores (\<^verbatim>\<open>src/memory/MemoryAccess.cpp\<close>): alignment of atomics, accesses
  that cross a page byte by byte, translation through the software TLB, the TLB and the page walk,
  and the physical access to the frame buffer, to DRAM directly or through the data cache, or to a
  device over the bus. \<open>System\<close> collects the objects the functions reach through their arguments: the
  hart, the MMU (which holds the guest memory), the bus, the frame buffer, if there is one, and the
  state of the devices; \<open>handle\<close> is the request handler of the devices.
\<close>

subsection \<open>The system\<close>

record Framebuffer =
  recreate_display_resources :: bool
  fb_width :: "32 word"
  fb_height :: "32 word"
  fb_format :: "32 word"
  fb_mem :: "nat \<Rightarrow> u8"
  fb_dirty :: bool
  fb_tui_dirty :: bool

definition set_dirty :: "bool \<Rightarrow> Framebuffer \<Rightarrow> Framebuffer" where
  "set_dirty d fb =
     (let fb1 = (if fb_dirty fb \<noteq> d then fb\<lparr>fb_dirty := d\<rparr> else fb)
      in if d then fb1\<lparr>fb_tui_dirty := True\<rparr> else fb1)"

record 'd System =
  cpu :: CPU
  mmu :: Mmu
  system_bus :: TileLinkBus
  framebuffer :: "Framebuffer option"
  devices :: 'd

text \<open>A device reaches the hart, the guest memory, the frame buffer and its own state.\<close>

type_synonym 'd DeviceHandler = "(Framebuffer option \<times> 'd) Handler"

abbreviation (input) kFramebufferBaseAddress :: Address where "kFramebufferBaseAddress \<equiv> 0x30000000"
abbreviation (input) kFramebufferSize :: Address where "kFramebufferSize \<equiv> 0x00200000"
abbreviation (input) kFramebufferDataBase :: Address where "kFramebufferDataBase \<equiv> 0x30001000"
abbreviation (input) kFramebufferEnd :: Address where "kFramebufferEnd \<equiv> 0x30200000"

definition ctx :: "'d System \<Rightarrow> PipelineContext" where
  "ctx y = pipeline_context (cpu y)"

definition upd_ctx :: "(PipelineContext \<Rightarrow> PipelineContext) \<Rightarrow> 'd System \<Rightarrow> 'd System" where
  "upd_ctx f y = y\<lparr>cpu := (cpu y)\<lparr>pipeline_context := f (pipeline_context (cpu y))\<rparr>\<rparr>"

definition set_fault :: "ExceptionCode \<Rightarrow> CSRValue \<Rightarrow> 'd System \<Rightarrow> 'd System" where
  "set_fault code tval = upd_ctx (\<lambda>x. x\<lparr>pending_exception := Some code, pending_tval := tval\<rparr>)"

definition has_fault :: "'d System \<Rightarrow> bool" where
  "has_fault y \<longleftrightarrow> pending_exception (ctx y) \<noteq> None"

text \<open>One request on the system bus and the wait for its response.\<close>

definition bus_request :: "'d DeviceHandler \<Rightarrow> TlChannelA \<Rightarrow> 'd System \<Rightarrow> TlChannelD option \<times> 'd System" where
  "bus_request handle req y =
     (let b1 = send_request req (system_bus y);
          (resp, b2, c', m', fb', d') =
            get_response handle (a_source req) b1 (cpu y, mmem (mmu y), framebuffer y, devices y)
      in (resp, y\<lparr>cpu := c', mmu := (mmu y)\<lparr>mmem := m'\<rparr>, system_bus := b2, framebuffer := fb',
                 devices := d'\<rparr>))"

subsection \<open>Widths\<close>

definition access_bytes :: "Instruction \<Rightarrow> u64" where
  "access_bytes f3 = 2 ^ unat (f3 AND 0x3)"

text \<open>The narrowing and extension of a raw read, written three times in the source.\<close>

definition extend_read :: "Instruction \<Rightarrow> Word \<Rightarrow> Word" where
  "extend_read f3 rdata =
     (let bits = 8 * 2 ^ unat (f3 AND 0x3) :: nat in
      if bits < 64 then
        let msk = push_bit bits 1 - 1;
            r = rdata AND msk
        in if f3 AND 0x4 = 0 \<and> r AND push_bit (bits - 1) 1 \<noteq> 0 then r OR NOT msk else r
      else rdata)"

definition is_amo_op :: "PipelineContext \<Rightarrow> bool" where
  "is_amo_op x \<longleftrightarrow> opcode x = Opcode_Amo"

definition crosses_page :: "Address \<Rightarrow> Instruction \<Rightarrow> bool" where
  "crosses_page vaddr f3 \<longleftrightarrow> (vaddr AND kPageMask) + access_bytes f3 > 4096"

definition misaligned :: "Address \<Rightarrow> Instruction \<Rightarrow> bool" where
  "misaligned vaddr f3 \<longleftrightarrow> vaddr AND (access_bytes f3 - 1) \<noteq> 0"

definition data_translation :: "CPU \<Rightarrow> bool" where
  "data_translation c \<longleftrightarrow>
     effective_data_privilege c \<noteq> Machine \<and>
     satp_translation_enabled (satp (st c)) (effective_data_xlen c)"

subsection \<open>Physical reads\<close>

text \<open>
  The line fill of the data cache: one double word after the other over the bus; a failing transfer
  is an error only where it overlaps the access.
\<close>

primrec fill_line ::
    "'d DeviceHandler \<Rightarrow> Address \<Rightarrow> u64 \<Rightarrow> Address \<Rightarrow> nat list \<Rightarrow> (nat \<Rightarrow> u8) \<Rightarrow> 'd System \<Rightarrow>
     (nat \<Rightarrow> u8) option \<times> 'd System" where
  "fill_line handle addr size_bytes line_base [] line_data y = (Some line_data, y)"
| "fill_line handle addr size_bytes line_base (i # is) line_data y =
     (let req = initial_TlChannelA\<lparr>a_opcode := Get, a_size := 3, a_source := 0,
                                   a_address := line_base + of_nat i\<rparr>;
          (resp, y1) = bus_request handle req y;
          overlaps = (addr < a_address req + 8 \<and> a_address req < addr + size_bytes);
          failed = (case resp of None \<Rightarrow> True | Some r \<Rightarrow> d_error r)
      in if failed \<and> overlaps then (None, y1)
         else
           let line_data' = (case resp of
                               Some r \<Rightarrow> (if d_error r then line_data
                                          else (\<lambda>j. if i \<le> j \<and> j < i + 8 then byte_at (j - i) (d_data r)
                                                    else line_data j))
                             | None \<Rightarrow> line_data)
           in fill_line handle addr size_bytes line_base is line_data' y1)"

definition dcache_fill_read ::
    "'d DeviceHandler \<Rightarrow> Address \<Rightarrow> Address \<Rightarrow> Instruction \<Rightarrow> 'd System \<Rightarrow> Word \<times> 'd System" where
  "dcache_fill_read handle vaddr addr f3 y =
     (let size_bytes = access_bytes f3;
          line_base = addr AND NOT (of_nat kLineBytes - 1)
      in case fill_line handle addr size_bytes line_base [0, 8, 16, 24] (\<lambda>_. 0) y of
           (None, y1) \<Rightarrow> (0, set_fault FaultLoad vaddr y1)
         | (Some line_data, y1) \<Rightarrow>
             let c1 = cpu y1;
                 y2 = y1\<lparr>cpu := c1\<lparr>dcache := cache_insert (dcache c1) line_base line_data\<rparr>\<rparr>;
                 byte_offset = line_offset addr;
                 raw = le_word (map (\<lambda>i. line_data (byte_offset + i)) [0..<unat size_bytes])
             in (if f3 AND 0x4 = 0 then sign_extend raw (8 * unat size_bytes) else raw, y2))"

definition bus_read ::
    "'d DeviceHandler \<Rightarrow> Address \<Rightarrow> Address \<Rightarrow> Instruction \<Rightarrow> 'd System \<Rightarrow> Word \<times> 'd System" where
  "bus_read handle vaddr addr f3 y =
     (let req = initial_TlChannelA\<lparr>a_opcode := Get, a_size := ucast (f3 AND 0x3), a_source := 0,
                                   a_address := addr\<rparr>
      in case bus_request handle req y of
           (Some resp, y1) \<Rightarrow>
             (extend_read f3 (d_data resp),
              if d_error resp then set_fault FaultLoad vaddr y1 else y1)
         | (None, y1) \<Rightarrow> (0, set_fault FaultLoad vaddr y1))"

definition issue_read ::
    "'d DeviceHandler \<Rightarrow> Address \<Rightarrow> Instruction \<Rightarrow> Address \<Rightarrow> 'd System \<Rightarrow> Word \<times> 'd System" where
  "issue_read handle vaddr f3 addr y =
     (let size_bytes = access_bytes f3;
          hp = s_high_performance (machine (cpu y))
      in if addr \<ge> kFramebufferDataBase \<and> addr < kFramebufferEnd \<and> framebuffer y \<noteq> None then
           if size_bytes > kFramebufferEnd - addr then (0, set_fault FaultLoad vaddr y)
           else
             let fb_offset = unat (addr - kFramebufferDataBase);
                 raw_val = le_word (map (\<lambda>i. fb_mem (the (framebuffer y)) (fb_offset + i))
                                      [0..<unat size_bytes])
             in (extend_read f3 raw_val, y)
         else if hp \<and> is_dram_access addr size_bytes then (ram_read_fast addr f3 (mmem (mmu y)), y)
         else if \<not> is_dram_access addr size_bytes then bus_read handle vaddr addr f3 y
         else if line_offset addr + unat size_bytes > kLineBytes
         then (ram_read_fast addr f3 (mmem (mmu y)), y)
         else
           let (hit, dc) = dcache_read (dcache (cpu y)) addr f3;
               y1 = y\<lparr>cpu := (cpu y)\<lparr>dcache := dc\<rparr>\<rparr>
           in case hit of
                Some cached_data \<Rightarrow> (cached_data, y1)
              | None \<Rightarrow> dcache_fill_read handle vaddr addr f3 y1)"

subsection \<open>Loads\<close>

text \<open>
  \<^verbatim>\<open>target_read\<close> calls itself for the bytes of an access that crosses a page; a byte never crosses
  one, so the recursion is one level deep: \<open>read_page\<close> is the part after the split and
  \<open>target_read_byte\<close> the whole function for a byte, without the split.
\<close>

definition load_address :: "CPU \<Rightarrow> Address \<Rightarrow> Address" where
  "load_address c vaddr = (if effective_data_xlen c = 32 then vaddr AND 0xFFFFFFFF else vaddr)"

definition amo_misaligned_read :: "Address \<Rightarrow> Instruction \<Rightarrow> 'd System \<Rightarrow> 'd System option" where
  "amo_misaligned_read vaddr f3 y =
     (let is_amo = is_amo_op (ctx y);
          is_lr = (is_amo \<and> funct5 (ctx y) = Funct5Amo_Lr)
      in if misaligned vaddr f3 \<and> is_amo
         then Some (set_fault (if \<not> is_lr then MisalignedStore else MisalignedLoad) vaddr y)
         else None)"

definition translate_read :: "Address \<Rightarrow> 'd System \<Rightarrow> Address \<times> 'd System" where
  "translate_read vaddr y =
     (let c = cpu y; xl = effective_data_xlen c; eff_priv = effective_data_privilege c;
          asid = satp_asid (satp (st c)) xl;
          (entry, t1) = lookup_data_r (tlb c) vaddr asid eff_priv;
          y1 = y\<lparr>cpu := c\<lparr>tlb := t1\<rparr>\<rparr>
      in if eff_priv = Machine \<or> \<not> satp_translation_enabled (satp (st c)) xl
         then (load_address c vaddr, y1)
         else case entry of
                Some e \<Rightarrow> (TLBEntry.p_addr e + (vaddr AND kPageMask), y1)
              | None \<Rightarrow>
                  let y2 = upd_ctx (\<lambda>x. x\<lparr>tlb_miss := True\<rparr>) y1;
                      (res, mmu') = translate (mmu y2) vaddr PteRead eff_priv (mstatus (st c))
                                      (satp (st c)) xl True;
                      y3 = y2\<lparr>mmu := mmu'\<rparr>
                  in case res of
                       Inr phys \<Rightarrow>
                         (phys, y3\<lparr>cpu := (cpu y3)\<lparr>tlb :=
                            insert_data_r (tlb (cpu y3)) vaddr phys asid eff_priv\<rparr>\<rparr>)
                     | Inl error \<Rightarrow> (0, set_fault (ucast error) vaddr y3))"

definition note_soft_read :: "Address \<Rightarrow> Address \<Rightarrow> 'd System \<Rightarrow> 'd System" where
  "note_soft_read vaddr paddr y =
     (let c = cpu y;
          asid = (if data_translation c
                  then satp_asid (satp (st c)) (effective_data_xlen c) else NOT 0)
      in if s_high_performance (machine c) \<and> is_dram_addr paddr
         then y\<lparr>cpu := c\<lparr>soft_tlbs :=
                soft_fill_read (soft_tlbs c) (drop_bit 12 vaddr) asid (effective_data_privilege c)
                  (paddr AND NOT 0xFFF) (Some ((paddr AND NOT 0xFFF) AND kDramMask))\<rparr>\<rparr>
         else y)"

definition read_page :: "'d DeviceHandler \<Rightarrow> Address \<Rightarrow> Instruction \<Rightarrow> 'd System \<Rightarrow> Word \<times> 'd System" where
  "read_page handle vaddr f3 y =
     (let c = cpu y; xl = effective_data_xlen c; eff_priv = effective_data_privilege c;
          asid = satp_asid (satp (st c)) xl;
          size_bytes = access_bytes f3;
          translation_enabled = data_translation c;
          hp = s_high_performance (machine c);
          eff_vaddr = load_address c vaddr;
          vpn = drop_bit 12 vaddr;
          entry = soft_tlb_read (soft_tlbs c) (soft_index vpn);
          slow = (if \<not> translation_enabled \<and> is_dram_access eff_vaddr size_bytes
                  then issue_read handle vaddr f3 eff_vaddr y
                  else
                    let (paddr, y1) = translate_read vaddr y in
                    if \<not> has_fault y1
                    then issue_read handle vaddr f3 paddr (note_soft_read vaddr paddr y1)
                    else (0, y1))
      in if translation_enabled \<and> \<not> is_canonical vaddr (satp (st c)) xl
         then (0, set_fault (if is_amo_op (ctx y) then StorePageFault else LoadPageFault) vaddr y)
         else if hp \<and> \<not> translation_enabled \<and> is_dram_access eff_vaddr size_bytes
         then (ram_read_fast eff_vaddr f3 (mmem (mmu y)), y)
         else if hp \<and> translation_enabled \<and>
                 soft_matches entry vpn asid eff_priv (soft_tlb_epoch (soft_tlbs c))
         then (case host_ptr_base entry of
                 Some base \<Rightarrow> (host_read_fast (mmem (mmu y)) (unat (base + (vaddr AND 0xFFF))) f3, y)
               | None \<Rightarrow>
                   (ram_read_fast (paddr_base entry + (vaddr AND 0xFFF)) f3 (mmem (mmu y)), y))
         else slow)"

definition target_read_byte :: "'d DeviceHandler \<Rightarrow> Address \<Rightarrow> Instruction \<Rightarrow> 'd System \<Rightarrow> Word \<times> 'd System" where
  "target_read_byte handle vaddr0 f3 y =
     (let vaddr = load_address (cpu y) vaddr0 in
      if has_fault y then (0, y)
      else case amo_misaligned_read vaddr f3 y of
             Some y' \<Rightarrow> (0, y')
           | None \<Rightarrow> read_page handle vaddr f3 y)"

primrec read_bytes_loop ::
    "'d DeviceHandler \<Rightarrow> Address \<Rightarrow> nat list \<Rightarrow> Word \<Rightarrow> 'd System \<Rightarrow> Word option \<times> 'd System" where
  "read_bytes_loop handle vaddr [] result y = (Some result, y)"
| "read_bytes_loop handle vaddr (b # bs) result y =
     (let (byte_val, y1) = target_read_byte handle (vaddr + of_nat b) (ucast Funct3_Lbu) y in
      if has_fault y1 then (None, upd_ctx (\<lambda>x. x\<lparr>pending_tval := vaddr\<rparr>) y1)
      else read_bytes_loop handle vaddr bs (result OR push_bit (8 * b) (byte_val AND 0xFF)) y1)"

definition target_read :: "'d DeviceHandler \<Rightarrow> Address \<Rightarrow> Instruction \<Rightarrow> 'd System \<Rightarrow> Word \<times> 'd System" where
  "target_read handle vaddr0 f3 y =
     (let vaddr = load_address (cpu y) vaddr0 in
      if has_fault y then (0, y)
      else case amo_misaligned_read vaddr f3 y of
             Some y' \<Rightarrow> (0, y')
           | None \<Rightarrow>
               if crosses_page vaddr f3 then
                 case read_bytes_loop handle vaddr [0..<unat (access_bytes f3)] 0 y of
                   (Some result, y1) \<Rightarrow> (extend_read f3 result, y1)
                 | (None, y1) \<Rightarrow> (0, y1)
               else read_page handle vaddr f3 y)"

subsection \<open>Physical writes\<close>

definition record_write :: "Address \<Rightarrow> Instruction \<Rightarrow> 'd System \<Rightarrow> 'd System" where
  "record_write addr f3 y =
     (if s_rollback_enabled (machine (cpu y)) \<and> is_dram_access addr (access_bytes f3)
      then let old_val = ram_read_fast addr f3 (mmem (mmu y))
           in y\<lparr>cpu := record_mem_write (cpu y) addr old_val f3\<rparr>
      else y)"

definition bus_write ::
    "'d DeviceHandler \<Rightarrow> Address \<Rightarrow> Address \<Rightarrow> Word \<Rightarrow> Instruction \<Rightarrow> 'd System \<Rightarrow> 'd System" where
  "bus_write handle vaddr addr data f3 y =
     (let bits = 8 * 2 ^ unat (f3 AND 0x3) :: nat;
          req = initial_TlChannelA\<lparr>a_opcode := PutFullData, a_size := ucast (f3 AND 0x3), a_source := 0,
                  a_address := addr,
                  a_data := (if bits < 64 then data AND (push_bit bits 1 - 1) else data)\<rparr>
      in case bus_request handle req y of
           (Some resp, y1) \<Rightarrow> (if d_error resp then set_fault FaultStore vaddr y1 else y1)
         | (None, y1) \<Rightarrow> set_fault FaultStore vaddr y1)"

definition write_ram :: "Address \<Rightarrow> Word \<Rightarrow> Instruction \<Rightarrow> 'd System \<Rightarrow> 'd System" where
  "write_ram addr data f3 y =
     y\<lparr>mmu := (mmu y)\<lparr>mmem := ram_write_fast addr data f3 (mmem (mmu y))\<rparr>\<rparr>"

definition note_tohost :: "Address \<Rightarrow> Word \<Rightarrow> Instruction \<Rightarrow> CPU \<Rightarrow> CPU" where
  "note_tohost addr data f3 c =
     (let is_tohost_write = (f3 = ucast Funct3_Sw \<or> f3 = ucast Funct3_Sd) in
      if is_tohost_write \<and>
         (addr = s_isatest_tohost (machine c) \<or> addr = 0x80001000 \<or> addr = 0x40008000)
      then c\<lparr>machine := (machine c)\<lparr>tohost := data\<rparr>\<rparr> else c)"

definition issue_write ::
    "'d DeviceHandler \<Rightarrow> Address \<Rightarrow> Instruction \<Rightarrow> Address \<Rightarrow> Word \<Rightarrow> 'd System \<Rightarrow> 'd System" where
  "issue_write handle vaddr f3 addr data y0 =
     (let y = record_write addr f3 y0;
          size_bytes = access_bytes f3
      in if addr \<ge> kFramebufferDataBase \<and> addr < kFramebufferEnd \<and> framebuffer y \<noteq> None then
           if size_bytes > kFramebufferEnd - addr then set_fault FaultStore vaddr y
           else
             let fb = the (framebuffer y);
                 fb_offset = unat (addr - kFramebufferDataBase)
             in y\<lparr>framebuffer := Some (set_dirty True
                    (fb\<lparr>fb_mem := write_bytes (fb_mem fb) fb_offset (le_bytes (unat size_bytes) data)\<rparr>))\<rparr>
         else if s_high_performance (machine (cpu y)) \<and> is_dram_access addr size_bytes
         then write_ram addr data f3 (y\<lparr>cpu := note_tohost addr data f3 (cpu y)\<rparr>)
         else if is_dram_access addr size_bytes
         then write_ram addr data f3
                (y\<lparr>cpu := (cpu y)\<lparr>dcache := dcache_write (dcache (cpu y)) addr data f3\<rparr>\<rparr>)
         else bus_write handle vaddr addr data f3 y)"

subsection \<open>Stores\<close>

definition amo_misaligned_write :: "Address \<Rightarrow> Instruction \<Rightarrow> 'd System \<Rightarrow> 'd System option" where
  "amo_misaligned_write vaddr f3 y =
     (if misaligned vaddr f3 \<and> is_amo_op (ctx y) then Some (set_fault MisalignedStore vaddr y)
      else None)"

definition translate_write :: "Address \<Rightarrow> 'd System \<Rightarrow> Address \<times> 'd System" where
  "translate_write vaddr y =
     (let c = cpu y; xl = effective_data_xlen c; eff_priv = effective_data_privilege c;
          asid = satp_asid (satp (st c)) xl;
          (entry, t1) = lookup_data_w (tlb c) vaddr asid eff_priv;
          y1 = y\<lparr>cpu := c\<lparr>tlb := t1\<rparr>\<rparr>
      in if eff_priv = Machine \<or> \<not> satp_translation_enabled (satp (st c)) xl
         then (load_address c vaddr, y1)
         else case entry of
                Some e \<Rightarrow> (TLBEntry.p_addr e + (vaddr AND kPageMask), y1)
              | None \<Rightarrow>
                  let y2 = upd_ctx (\<lambda>x. x\<lparr>tlb_miss := True\<rparr>) y1;
                      (res, mmu') = translate (mmu y2) vaddr PteWrite eff_priv (mstatus (st c))
                                      (satp (st c)) xl True;
                      y3 = y2\<lparr>mmu := mmu'\<rparr>
                  in case res of
                       Inr phys \<Rightarrow>
                         (phys, y3\<lparr>cpu := (cpu y3)\<lparr>tlb :=
                            insert_data_w (tlb (cpu y3)) vaddr phys asid eff_priv\<rparr>\<rparr>)
                     | Inl error \<Rightarrow> (0, set_fault (ucast error) vaddr y3))"

definition note_soft_write :: "Address \<Rightarrow> Address \<Rightarrow> 'd System \<Rightarrow> 'd System" where
  "note_soft_write vaddr paddr y =
     (let c = cpu y;
          asid = (if data_translation c
                  then satp_asid (satp (st c)) (effective_data_xlen c) else NOT 0)
      in if s_high_performance (machine c) \<and> is_dram_addr paddr
         then y\<lparr>cpu := c\<lparr>soft_tlbs :=
                soft_fill_write (soft_tlbs c) (drop_bit 12 vaddr) asid (effective_data_privilege c)
                  (paddr AND NOT 0xFFF) (Some ((paddr AND NOT 0xFFF) AND kDramMask))\<rparr>\<rparr>
         else y)"

definition soft_write_hit ::
    "'d DeviceHandler \<Rightarrow> SoftTlbEntry \<Rightarrow> Address \<Rightarrow> Word \<Rightarrow> Instruction \<Rightarrow> 'd System \<Rightarrow> 'd System" where
  "soft_write_hit handle entry vaddr wdata f3 y =
     (case host_ptr_base entry of
        Some base \<Rightarrow>
          let paddr = paddr_base entry + (vaddr AND 0xFFF);
              off = unat (base + (vaddr AND 0xFFF));
              y1 = (if s_rollback_enabled (machine (cpu y))
                    then y\<lparr>cpu := record_mem_write (cpu y) paddr (host_read_fast (mmem (mmu y)) off f3) f3\<rparr>
                    else y)
          in y1\<lparr>mmu := (mmu y1)\<lparr>mmem := host_write_fast (mmem (mmu y1)) off wdata f3\<rparr>\<rparr>
      | None \<Rightarrow> issue_write handle vaddr f3 (paddr_base entry + (vaddr AND 0xFFF)) wdata y)"

definition write_page :: "'d DeviceHandler \<Rightarrow> Address \<Rightarrow> Word \<Rightarrow> Instruction \<Rightarrow> 'd System \<Rightarrow> 'd System" where
  "write_page handle vaddr wdata f3 y =
     (let c = cpu y; xl = effective_data_xlen c; eff_priv = effective_data_privilege c;
          asid = satp_asid (satp (st c)) xl;
          size_bytes = access_bytes f3;
          translation_enabled = data_translation c;
          hp = s_high_performance (machine c);
          eff_vaddr = load_address c vaddr;
          vpn = drop_bit 12 vaddr;
          entry = soft_tlb_write (soft_tlbs c) (soft_index vpn)
      in if translation_enabled \<and> \<not> is_canonical vaddr (satp (st c)) xl
         then set_fault StorePageFault vaddr y
         else if hp \<and> \<not> translation_enabled \<and> is_dram_access eff_vaddr size_bytes
         then issue_write handle vaddr f3 eff_vaddr wdata y
         else if hp \<and> translation_enabled \<and>
                 soft_matches entry vpn asid eff_priv (soft_tlb_epoch (soft_tlbs c))
         then soft_write_hit handle entry vaddr wdata f3 y
         else if \<not> translation_enabled \<and> is_dram_access eff_vaddr size_bytes
         then issue_write handle vaddr f3 eff_vaddr wdata y
         else
           let (paddr, y1) = translate_write vaddr y in
           if \<not> has_fault y1
           then issue_write handle vaddr f3 paddr wdata (note_soft_write vaddr paddr y1)
           else y1)"

definition target_write_byte :: "'d DeviceHandler \<Rightarrow> Address \<Rightarrow> Word \<Rightarrow> Instruction \<Rightarrow> 'd System \<Rightarrow> 'd System" where
  "target_write_byte handle vaddr0 wdata f3 y =
     (let vaddr = load_address (cpu y) vaddr0 in
      if has_fault y then y
      else case amo_misaligned_write vaddr f3 y of
             Some y' \<Rightarrow> y'
           | None \<Rightarrow> write_page handle vaddr wdata f3 y)"

primrec write_bytes_loop ::
    "'d DeviceHandler \<Rightarrow> Address \<Rightarrow> Word \<Rightarrow> nat list \<Rightarrow> 'd System \<Rightarrow> 'd System" where
  "write_bytes_loop handle vaddr wdata [] y = y"
| "write_bytes_loop handle vaddr wdata (b # bs) y =
     (let byte_val = drop_bit (8 * b) wdata AND 0xFF;
          y1 = target_write_byte handle (vaddr + of_nat b) byte_val (ucast Funct3_Sb) y
      in if has_fault y1 then upd_ctx (\<lambda>x. x\<lparr>pending_tval := vaddr\<rparr>) y1
         else write_bytes_loop handle vaddr wdata bs y1)"

definition target_write :: "'d DeviceHandler \<Rightarrow> Address \<Rightarrow> Word \<Rightarrow> Instruction \<Rightarrow> 'd System \<Rightarrow> 'd System" where
  "target_write handle vaddr0 wdata f3 y =
     (let vaddr = load_address (cpu y) vaddr0 in
      if has_fault y then y
      else case amo_misaligned_write vaddr f3 y of
             Some y' \<Rightarrow> y'
           | None \<Rightarrow>
               if crosses_page vaddr f3
               then write_bytes_loop handle vaddr wdata [0..<unat (access_bytes f3)] y
               else write_page handle vaddr wdata f3 y)"

subsection \<open>Typed accesses\<close>

definition loadInt :: "'d DeviceHandler \<Rightarrow> Address \<Rightarrow> u8 \<Rightarrow> 'd System \<Rightarrow> Word \<times> 'd System" where
  "loadInt handle addr f3 y = target_read handle addr (ucast f3) y"

definition loadFp :: "'d DeviceHandler \<Rightarrow> Address \<Rightarrow> u8 \<Rightarrow> 'd System \<Rightarrow> FloatingRegister \<times> 'd System" where
  "loadFp handle addr f3 y =
     (if f3 = Funct3_Flw then
        let (lo, y1) = target_read handle addr (ucast Funct3_Lw) y
        in (0xFFFFFFFF00000000 OR (lo AND 0xFFFFFFFF), y1)
      else if f3 = Funct3_Fld then target_read handle addr (ucast Funct3_Ld) y
      else (0, y))"

definition storeInt :: "'d DeviceHandler \<Rightarrow> Address \<Rightarrow> Word \<Rightarrow> u8 \<Rightarrow> 'd System \<Rightarrow> 'd System" where
  "storeInt handle addr data f3 y = target_write handle addr data (ucast f3) y"

definition storeFp :: "'d DeviceHandler \<Rightarrow> Address \<Rightarrow> FloatingRegister \<Rightarrow> u8 \<Rightarrow> 'd System \<Rightarrow> 'd System" where
  "storeFp handle addr data f3 y =
     (if f3 = Funct3_Fsw then target_write handle addr (data AND 0xFFFFFFFF) (ucast Funct3_Sw) y
      else if f3 = Funct3_Fsd then target_write handle addr data (ucast Funct3_Sd) y
      else y)"

end
