(* ===== verification/Pipeline_Stages.thy ===== *)
theory Pipeline_Stages
  imports Memory_Access
begin

text \<open>
  The six pipeline stages (\<^verbatim>\<open>src/pipeline/PipelineStages.cpp\<close>) as functions on the system: fetch with
  translation and the instruction cache, decoding and legality checks, operand fetch with the CSR
  access checks, execution, memory access, write-back, and commit with traps and interrupts.

  The units outside the integer pipeline are fields of \<open>Units\<close>, arguments of the stages: the request
  handler of the devices, the two floating-point entry points, the vector unit, the semihosting
  console service and the cycle model of the cycle-accurate mode. The pipeline passes them what the source passes and uses their results as the
  source does. Lockstep with an external simulator, which may veto a store-conditional, is off.
\<close>

subsection \<open>Units and access to the state\<close>

record FpExecResult =
  fr_fp_wb_data :: FloatingRegister
  fr_fp_wb_enable :: bool
  fr_int_wb_data :: Register
  fr_int_wb_enable :: bool

record 'd Units =
  handler :: "'d DeviceHandler"
  fusedFp :: "Opcode \<Rightarrow> Word \<Rightarrow> Word \<Rightarrow> Word \<Rightarrow> Word \<Rightarrow> Word \<Rightarrow> (RegId \<Rightarrow> FloatingRegister) \<Rightarrow> CSRValue \<Rightarrow>
     FpExecResult \<times> CSRValue"
  opFp :: "Word \<Rightarrow> Funct3 \<Rightarrow> Word \<Rightarrow> Word \<Rightarrow> Register \<Rightarrow> (RegId \<Rightarrow> FloatingRegister) \<Rightarrow> CSRValue \<Rightarrow>
     FpExecResult \<times> CSRValue"
  execute_vector :: "OperationId \<Rightarrow> Instruction \<Rightarrow> 'd System \<Rightarrow> 'd System"
  semihost :: "Word \<Rightarrow> Address \<Rightarrow> 'd System \<Rightarrow> 'd System"
  step_instruction :: "PipelineContext \<Rightarrow> bool \<Rightarrow> bool \<Rightarrow> 'd System \<Rightarrow> u32 \<times> 'd System"

definition state :: "'d System \<Rightarrow> ArchState" where
  "state y = st (cpu y)"

definition upd_state :: "(ArchState \<Rightarrow> ArchState) \<Rightarrow> 'd System \<Rightarrow> 'd System" where
  "upd_state f y = y\<lparr>cpu := (cpu y)\<lparr>st := f (st (cpu y))\<rparr>\<rparr>"

definition upd_cpu :: "(CPU \<Rightarrow> CPU) \<Rightarrow> 'd System \<Rightarrow> 'd System" where
  "upd_cpu f y = y\<lparr>cpu := f (cpu y)\<rparr>"

definition set_reg :: "RegId \<Rightarrow> Register \<Rightarrow> ArchState \<Rightarrow> ArchState" where
  "set_reg r v s = s\<lparr>regs := write_reg (regs s) r v\<rparr>"

definition set_freg :: "RegId \<Rightarrow> FloatingRegister \<Rightarrow> ArchState \<Rightarrow> ArchState" where
  "set_freg r v s = s\<lparr>regs := write_fp (regs s) r v\<rparr>"

definition is_vector_op :: "OperationId \<Rightarrow> bool" where
  "is_vector_op op \<longleftrightarrow> op \<ge> VSETVLI \<and> op \<le> VWSLL_VI"

abbreviation (input) RV32_NOP :: Instruction where "RV32_NOP \<equiv> 0x00000013"
abbreviation (input) kWordAllOnes :: Word where "kWordAllOnes \<equiv> 0xFFFFFFFFFFFFFFFF"

definition alignment_mask :: "ArchState \<Rightarrow> Word" where
  "alignment_mask s = (if misa_has_extension (misa s) Ext_C then 1 else 3)"

definition sign_extend_pc :: "ArchState \<Rightarrow> ArchState" where
  "sign_extend_pc s = (if xlen (regs s) = 32 then s\<lparr>pc := sext32 (pc s)\<rparr> else s)"

subsection \<open>Fetch\<close>

definition fetch_translation :: "ArchState \<Rightarrow> bool" where
  "fetch_translation s \<longleftrightarrow> priv s \<noteq> Machine \<and> satp_translation_enabled (satp s) (xlen (regs s))"

definition split_page :: "Address \<Rightarrow> bool" where
  "split_page p \<longleftrightarrow> p AND NOT kPageMask \<noteq> (p + 2) AND NOT kPageMask"

definition fetch_address_translate :: "'d System \<Rightarrow> 'd System" where
  "fetch_address_translate y =
     (let s = state y; c = cpu y;
          vadr1 = pc s; vadr2 = pc s + 2;
          y0 = upd_ctx (\<lambda>x. x\<lparr>cpc := pc s\<rparr>) y
      in if priv s = Machine \<or> \<not> satp_translation_enabled (satp s) (xlen (regs s)) then
           let low = (\<lambda>v. if xlen (regs s) = 32 then v AND 0xFFFFFFFF else v)
           in upd_ctx (\<lambda>x. x\<lparr>padr1 := low vadr1, padr2 := low vadr2\<rparr>) y0
         else
           let asid = satp_asid (satp s) (xlen (regs s));
               (e1, t1) = lookup_inst_r (tlb c) vadr1 asid (priv s);
               p1 = (case e1 of Some e \<Rightarrow> TLBEntry.p_addr e + (vadr1 AND kPageMask) | None \<Rightarrow> kWordAllOnes);
               (p2, t2) =
                 (if \<not> split_page (pc s)
                  then (if p1 \<noteq> kWordAllOnes then p1 + 2 else kWordAllOnes, t1)
                  else
                    let (e2, t2) = lookup_inst_r t1 vadr2 asid (priv s)
                    in (case e2 of Some e \<Rightarrow> TLBEntry.p_addr e + (vadr2 AND kPageMask)
                        | None \<Rightarrow> kWordAllOnes, t2))
           in upd_ctx (\<lambda>x. x\<lparr>padr1 := p1, padr2 := p2\<rparr>) (upd_cpu (\<lambda>c. c\<lparr>tlb := t2\<rparr>) y0))"

definition set_padr :: "nat \<Rightarrow> Address \<Rightarrow> 'd System \<Rightarrow> 'd System" where
  "set_padr which p = upd_ctx (\<lambda>x. if which = 1 then x\<lparr>padr1 := p\<rparr> else x\<lparr>padr2 := p\<rparr>)"

definition fetch_resolve_page_walk :: "nat \<Rightarrow> 'd System \<Rightarrow> 'd System" where
  "fetch_resolve_page_walk which y =
     (if has_fault y then y
      else
        let s = state y;
            w_padr = (if which = 1 then padr1 (ctx y) else padr2 (ctx y));
            w_vadr = (if which = 1 then pc s else pc s + 2)
        in if w_padr = kWordAllOnes then
             let y1 = upd_ctx (\<lambda>x. x\<lparr>tlb_miss := True\<rparr>) y in
             if \<not> is_canonical w_vadr (satp s) (xlen (regs s)) then set_fault FetchPageFault w_vadr y1
             else
               let (res, mmu') = translate (mmu y1) w_vadr PteCode (priv s) (mstatus s) (satp s)
                                   (xlen (regs s)) True;
                   y2 = y1\<lparr>mmu := mmu'\<rparr>
               in case res of
                    Inr phys \<Rightarrow>
                      set_padr which phys
                        (upd_cpu (\<lambda>c. c\<lparr>tlb := insert_inst_r (tlb c) w_vadr phys
                                           (satp_asid (satp s) (xlen (regs s))) (priv s)\<rparr>) y2)
                  | Inl error \<Rightarrow> set_padr which w_padr (set_fault (ucast error) w_vadr y2)
           else set_padr which w_padr y)"

definition ram_half :: "'d System \<Rightarrow> Address \<Rightarrow> u16" where
  "ram_half y p = ucast (ram_read_fast p (ucast Funct3_Lhu) (mmem (mmu y)))"

definition set_ir_org :: "Instruction \<Rightarrow> 'd System \<Rightarrow> 'd System" where
  "set_ir_org i = upd_ctx (\<lambda>x. x\<lparr>ir_org := i\<rparr>)"

definition join_halves16 :: "u16 \<Rightarrow> u16 \<Rightarrow> Instruction" where
  "join_halves16 h2 h1 = push_bit 16 (ucast h2) OR ucast h1"

text \<open>The two reads of a DRAM fetch that bypasses the caches.\<close>

definition fetch_ram_halves :: "'d System \<Rightarrow> 'd System" where
  "fetch_ram_halves y =
     (let h1 = ram_half y (padr1 (ctx y)) in
      if h1 AND 0x3 \<noteq> 0x3 then set_ir_org (ucast h1) y
      else if \<not> is_dram_access (padr2 (ctx y)) 2 then set_fault FaultFetch (pc (state y) + 2) y
      else set_ir_org (join_halves16 (ram_half y (padr2 (ctx y))) h1) y)"

primrec fill_icache_line ::
    "'d DeviceHandler \<Rightarrow> Address \<Rightarrow> Address \<Rightarrow> nat list \<Rightarrow> (nat \<Rightarrow> u8) \<Rightarrow> 'd System \<Rightarrow>
     (nat \<Rightarrow> u8) option \<times> 'd System" where
  "fill_icache_line handle paddr line_base [] line_data y = (Some line_data, y)"
| "fill_icache_line handle paddr line_base (i # is) line_data y =
     (let req = initial_TlChannelA\<lparr>a_opcode := Get, a_size := 3, a_source := 1,
                                   a_address := line_base + of_nat i\<rparr>;
          (resp, y1) = bus_request handle req y;
          contains_requested = (paddr \<ge> a_address req \<and> paddr - a_address req \<le> 8 - 2);
          failed = (case resp of None \<Rightarrow> True | Some r \<Rightarrow> d_error r)
      in if failed \<and> contains_requested then (None, y1)
         else
           let line_data' = (case resp of
                               Some r \<Rightarrow> (if d_error r then line_data
                                          else (\<lambda>j. if i \<le> j \<and> j < i + 8 then byte_at (j - i) (d_data r)
                                                    else line_data j))
                             | None \<Rightarrow> line_data)
           in fill_icache_line handle paddr line_base is line_data' y1)"

definition fetch_halfword ::
    "'d DeviceHandler \<Rightarrow> Address \<Rightarrow> Address \<Rightarrow> 'd System \<Rightarrow> u16 option \<times> 'd System" where
  "fetch_halfword handle paddr vaddr y =
     (let (hit, ic) = icache_read16 (icache (cpu y)) paddr;
          y1 = upd_cpu (\<lambda>c. c\<lparr>icache := ic\<rparr>) y
      in case hit of
           Some h \<Rightarrow> (Some h, y1)
         | None \<Rightarrow>
             let line_base = paddr AND NOT (of_nat kLineBytes - 1) in
             (case fill_icache_line handle paddr line_base [0, 8, 16, 24] (\<lambda>_. 0) y1 of
                (None, y2) \<Rightarrow> (None, set_fault FaultFetch vaddr y2)
              | (Some line_data, y2) \<Rightarrow>
                  let off = line_offset paddr
                  in (Some (le_word [line_data off, line_data (off + 1)]),
                      upd_cpu (\<lambda>c. c\<lparr>icache := cache_insert (icache c) line_base line_data\<rparr>) y2)))"

definition fetch_cached :: "'d DeviceHandler \<Rightarrow> 'd System \<Rightarrow> 'd System" where
  "fetch_cached handle y =
     (case fetch_halfword handle (padr1 (ctx y)) (pc (state y)) y of
        (None, y1) \<Rightarrow> y1
      | (Some h1, y1) \<Rightarrow>
          if h1 AND 0x3 \<noteq> 0x3 then set_ir_org (ucast h1) y1
          else case fetch_halfword handle (padr2 (ctx y1)) (pc (state y1) + 2) y1 of
                 (None, y2) \<Rightarrow> y2
               | (Some h2, y2) \<Rightarrow> set_ir_org (join_halves16 h2 h1) y2)"

definition bus_fetch :: "'d DeviceHandler \<Rightarrow> Address \<Rightarrow> 'd System \<Rightarrow> Word option \<times> 'd System" where
  "bus_fetch handle p y =
     (let req = initial_TlChannelA\<lparr>a_opcode := Get, a_size := ucast (Funct3_Lhu AND 0x3),
                                   a_source := 1, a_address := p\<rparr>;
          (resp, y1) = bus_request handle req y
      in case resp of
           Some r \<Rightarrow> (if d_error r then None else Some (d_data r), y1)
         | None \<Rightarrow> (None, y1))"

definition fetch_uncached :: "'d DeviceHandler \<Rightarrow> 'd System \<Rightarrow> 'd System" where
  "fetch_uncached handle y =
     (case bus_fetch handle (padr1 (ctx y)) y of
        (None, y1) \<Rightarrow> set_fault FaultFetch (pc (state y1)) y1
      | (Some ir_l, y1) \<Rightarrow>
          let finish = (\<lambda>ir_h y. set_ir_org (ucast (push_bit 16 ir_h OR (ir_l AND 0xFFFF))) y) in
          if is_compressed (ucast ir_l) then finish 0 y1
          else
            let y2 = (if fetch_translation (state y1) \<and> padr2 (ctx y1) = kWordAllOnes
                      then fetch_resolve_page_walk 2 y1 else y1)
            in if has_fault y2 then finish 0 y2
               else case bus_fetch handle (padr2 (ctx y2)) y2 of
                      (None, y3) \<Rightarrow> set_fault FaultFetch (pc (state y3) + 2) y3
                    | (Some ir_h, y3) \<Rightarrow> finish ir_h y3)"

definition fetch_read_instruction_word :: "'d DeviceHandler \<Rightarrow> 'd System \<Rightarrow> 'd System" where
  "fetch_read_instruction_word handle y =
     (if has_fault y then y
      else
        let x = ctx y;
            dram_pair = (padr2 x = padr1 x + 2 \<and> is_dram_access (padr1 x) 2);
            masked = padr1 x AND kDramMask
        in if s_high_performance (machine (cpu y)) \<and> dram_pair then
             if masked \<le> kDramMask - 3 then
               let val = (le_word (host_bytes (mmem (mmu y)) (unat masked) 4) :: u32)
               in set_ir_org (if val AND 0x3 \<noteq> 0x3 then val AND 0xFFFF else val) y
             else fetch_ram_halves y
           else if dram_pair then fetch_cached handle y
           else fetch_uncached handle y)"

subsection \<open>Decoding and legality\<close>

definition is_vector_encoding :: "Instruction \<Rightarrow> bool" where
  "is_vector_encoding i \<longleftrightarrow>
     opcode_of i = Opcode_OpV \<or>
     (opcode_of i = Opcode_LoadFp \<or> opcode_of i = Opcode_StoreFp) \<and>
     funct3_of i \<noteq> Funct3_Fld \<and> funct3_of i \<noteq> Funct3_Fsd \<and> funct3_of i \<noteq> 2"

definition is_fp_encoding :: "Instruction \<Rightarrow> bool" where
  "is_fp_encoding i \<longleftrightarrow>
     \<not> is_vector_encoding i \<and>
     opcode_of i \<in> {Opcode_LoadFp, Opcode_StoreFp, Opcode_OpFp, Opcode_MAdd, Opcode_MSub,
                    Opcode_NMAdd, Opcode_NMSub}"

definition instruction_legal :: "MachineState \<Rightarrow> ArchState \<Rightarrow> Instruction \<Rightarrow> bool \<Rightarrow> OperationId \<Rightarrow> bool" where
  "instruction_legal ms s i compressed op \<longleftrightarrow>
     (s_misa_profile ms \<noteq> kMisaDefault \<longrightarrow> instruction_enabled_by_misa (misa s) i compressed) \<and>
     op \<noteq> UNKNOWN \<and>
     \<not> (xlen (regs s) = 32 \<and> requires_rv64 op) \<and>
     \<not> (xlen (regs s) = 32 \<and> (op = SLLI \<or> op = SRLI \<or> op = SRAI) \<and> funct7_of i AND 0x01 \<noteq> 0) \<and>
     (opcode_of i = Opcode_Amo \<longrightarrow>
        (if xlen (regs s) = 32 then funct3_of i = 2 else funct3_of i = 2 \<or> funct3_of i = 3)) \<and>
     (is_vector_encoding i \<longrightarrow> mstatus s AND Mstatus_Vs \<noteq> 0) \<and>
     (is_fp_encoding i \<longrightarrow> mstatus s AND Mstatus_Fs \<noteq> 0)"

definition decode_and_normalize_instruction :: "'d System \<Rightarrow> 'd System" where
  "decode_and_normalize_instruction y =
     (if has_fault y then upd_ctx (\<lambda>x. x\<lparr>ir := RV32_NOP\<rparr>) y
      else
        let s = state y;
            org = ir_org (ctx y);
            w_compressed = is_compressed org;
            w_ir = (if w_compressed then decompressInstruction org (current_xlen s = 64) else org);
            op = decoder w_ir;
            y1 = (if instruction_legal (machine (cpu y)) s w_ir w_compressed op
                  then upd_ctx (\<lambda>x. x\<lparr>ir := w_ir, op_id := op\<rparr>) y
                  else upd_ctx (\<lambda>x. x\<lparr>pending_exception := Some IllegalInstruction,
                                      pending_tval := ucast org, ir := RV32_NOP, op_id := UNKNOWN\<rparr>) y);
            y2 = upd_ctx (\<lambda>x. x\<lparr>cinsn := (if w_compressed then 1 else 0)\<rparr>) y1;
            k = op_id (ctx y2)
        in upd_cpu (\<lambda>c. c\<lparr>e_instmix := (e_instmix c)(k := e_instmix c k + 1)\<rparr>) y2)"

definition misaligned_fetch :: "'d System \<Rightarrow> 'd System" where
  "misaligned_fetch y =
     upd_ctx (\<lambda>x. x\<lparr>pending_exception := Some MisalignedFetch, pending_tval := pc (state y),
                     ir := RV32_NOP, op_id := UNKNOWN\<rparr>) y"

definition translate_and_read :: "'d DeviceHandler \<Rightarrow> 'd System \<Rightarrow> 'd System" where
  "translate_and_read handle y =
     (let split = split_page (pc (state y));
          translation_enabled = fetch_translation (state y);
          y1 = fetch_address_translate y;
          y2 = (if translation_enabled then
                  let y' = fetch_resolve_page_walk 1 y1
                  in if \<not> split \<and> \<not> has_fault y' \<and> padr1 (ctx y') \<noteq> kWordAllOnes
                     then upd_ctx (\<lambda>x. x\<lparr>padr2 := padr1 x + 2\<rparr>) y' else y'
                else y1)
      in fetch_read_instruction_word handle y2)"

definition run_fetch_stage :: "'d DeviceHandler \<Rightarrow> 'd System \<Rightarrow> 'd System" where
  "run_fetch_stage handle y0 =
     (let y = upd_ctx (\<lambda>x. x\<lparr>tlb_miss := False\<rparr>) (upd_state sign_extend_pc y0) in
      if pc (state y) AND alignment_mask (state y) \<noteq> 0 then misaligned_fetch y
      else decode_and_normalize_instruction (translate_and_read handle y))"

definition run_fetch_stage_baremetal :: "'d DeviceHandler \<Rightarrow> 'd System \<Rightarrow> 'd System" where
  "run_fetch_stage_baremetal handle y0 =
     (let y = upd_ctx (\<lambda>x. x\<lparr>tlb_miss := False, cpc := pc (sign_extend_pc (state y0))\<rparr>)
                (upd_state sign_extend_pc y0);
          s = state y;
          low = (\<lambda>v. if xlen (regs s) = 32 then v AND 0xFFFFFFFF else v)
      in if pc s AND alignment_mask s \<noteq> 0 then misaligned_fetch y
         else
           let y1 = upd_ctx (\<lambda>x. x\<lparr>padr1 := low (pc s), padr2 := low (pc s + 2)\<rparr>) y in
           if is_dram_access (padr1 (ctx y1)) 2 \<and> \<not> s_mmu_ever_used (machine (cpu y1)) then
             let h1 = ram_half y1 (padr1 (ctx y1)) in
             if h1 AND 0x3 \<noteq> 0x3
             then decode_and_normalize_instruction (set_ir_org (ucast h1) y1)
             else if \<not> is_dram_access (padr2 (ctx y1)) 2
             then upd_ctx (\<lambda>x. x\<lparr>ir := RV32_NOP, op_id := UNKNOWN\<rparr>) (set_fault FaultFetch (pc s + 2) y1)
             else decode_and_normalize_instruction
                    (set_ir_org (join_halves16 (ram_half y1 (padr2 (ctx y1))) h1) y1)
           else decode_and_normalize_instruction (translate_and_read handle y1))"

subsection \<open>Decode and operands\<close>

definition immediate_of :: "Instruction \<Rightarrow> ImmValue" where
  "immediate_of i =
     scast (let op = opcode_of i in
       if op = Opcode_Lui \<or> op = Opcode_Auipc then imm_u i
       else if op = Opcode_Jal then imm_j i
       else if op = Opcode_Branch then imm_b i
       else if op = Opcode_Store \<or> op = Opcode_StoreFp then imm_s i
       else imm_i i)"

definition decode_fields :: "'d System \<Rightarrow> 'd System" where
  "decode_fields y =
     (if has_fault y then y
      else
        let i = ir (ctx y)
        in upd_ctx (\<lambda>x. x\<lparr>opcode := opcode_of i, rd := rd_of i, rs1 := rs1_of i, rs2 := rs2_of i,
                          funct3 := funct3_of i, funct5 := ucast (drop_bit 27 i AND 0x1F),
                          funct7 := ucast (funct7_of i), funct12 := ucast (drop_bit 20 i),
                          imm := immediate_of i\<rparr>) y)"

definition operand_csr :: "PipelineContext \<Rightarrow> CSRAddress" where
  "operand_csr x =
     (if funct3 x \<noteq> Funct3_Priv then funct12 x
      else if funct12 x = ucast Funct12Priv_Ecall then Csr_Mtvec
      else if funct12 x = ucast Funct12Priv_Uret then Csr_Uepc
      else if funct12 x = ucast Funct12Priv_Sret then Csr_Sepc
      else if funct12 x = ucast Funct12Priv_Mret then Csr_Mepc
      else 0)"

definition counter_denied :: "ArchState \<Rightarrow> CSRAddress \<Rightarrow> bool" where
  "counter_denied s a \<longleftrightarrow>
     priv s < Machine \<and> (a \<ge> 0xC00 \<and> a \<le> 0xC1F \<or> a \<ge> 0xC80 \<and> a \<le> 0xC9F) \<and>
     (let counter_bit = push_bit (unat (a AND 0x1F)) 1 in
      mcounteren s AND counter_bit = 0 \<or>
      priv s = User \<and> scounteren s AND counter_bit = 0)"

definition csr_instruction_writes :: "PipelineContext \<Rightarrow> bool" where
  "csr_instruction_writes x \<longleftrightarrow> funct3 x AND 0x3 = 0x1 \<or> rs1 x \<noteq> 0"

text \<open>The access checks of a system instruction, in the order of the source.\<close>

definition system_access_denied :: "ArchState \<Rightarrow> PipelineContext \<Rightarrow> bool" where
  "system_access_denied s x \<longleftrightarrow>
     (let a = operand_csr x in
      (if funct3 x = Funct3_Priv
       then \<not> canExecutePrivilegedInstruction (priv s) (misa s) (mstatus s) (ucast (funct12 x)) (funct7 x)
       else \<not> canAccessCsr (priv s) (misa s) a (csr_instruction_writes x) \<or>
            a = Csr_Satp \<and> priv s = Supervisor \<and> mstatus s AND Mstatus_Tvm \<noteq> 0 \<or>
            counter_denied s a) \<or>
      (a = Csr_Fflags \<or> a = Csr_Frm \<or> a = Csr_Fcsr) \<and> mstatus s AND Mstatus_Fs = 0)"

definition fetch_operands :: "'d System \<Rightarrow> 'd System" where
  "fetch_operands y =
     (if has_fault y then y
      else
        let s = state y;
            y1 = upd_ctx (\<lambda>x. x\<lparr>rrs1 := read_reg (regs s) (rs1 x), rrs2 := read_reg (regs s) (rs2 x)\<rparr>) y;
            x = ctx y1;
            a = operand_csr x
        in if opcode x \<noteq> Opcode_System then upd_ctx (\<lambda>x. x\<lparr>rcsr := 0\<rparr>) y1
           else if system_access_denied s x then set_fault IllegalInstruction (ucast (ir_org x)) y1
           else if funct3 x \<noteq> Funct3_Priv then
             (case csr_read (cpu y1) a of
                Inl e \<Rightarrow> set_fault e (ucast (ir_org x)) y1
              | Inr v \<Rightarrow>
                  upd_ctx (\<lambda>x. x\<lparr>rcsr := v,
                                  rcsr_write := (if a = Csr_Mip then mip_rmw_base v (seip_software s) else v)\<rparr>) y1)
           else if a \<noteq> 0 then
             (case csr_read (cpu y1) a of
                Inl e \<Rightarrow> y1
              | Inr v \<Rightarrow> upd_ctx (\<lambda>x. x\<lparr>rcsr := v\<rparr>) y1)
           else y1)"

definition run_decode_stage :: "'d System \<Rightarrow> 'd System" where
  "run_decode_stage y = fetch_operands (decode_fields y)"

subsection \<open>Execute\<close>

definition is_semihosting_call :: "'d System \<Rightarrow> bool" where
  "is_semihosting_call y \<longleftrightarrow>
     (let p = pc (state y); m = mmem (mmu y) in
      is_dram_addr (p - 4) \<and> is_dram_addr (p + 4) \<and>
      ram_read_fast (p - 4) (ucast Funct3_Lw) m = 0x01f01013 \<and>
      ram_read_fast (p + 4) (ucast Funct3_Lw) m = 0x40705013)"

definition execute_system :: "'d Units \<Rightarrow> 'd System \<Rightarrow> 'd System" where
  "execute_system u y =
     (let x = ctx y; s = state y in
      if funct3 x = Funct3_Priv then
        if funct12 x = ucast Funct12Priv_Ecall then
          upd_cpu (\<lambda>c. c\<lparr>e_icount := e_icount c + 1\<rparr>)
            (upd_ctx (\<lambda>x. x\<lparr>wb_data_csr := ucast (UserEcall) + ucast (priv s),
                            pending_exception := Some (UserEcall + priv s)\<rparr>) y)
        else if funct12 x = ucast Funct12Priv_Ebreak then
          if is_semihosting_call y then
            upd_ctx (\<lambda>x. x\<lparr>tkn := True, jmp_pc := pc s + 8\<rparr>)
              (semihost u (read_reg (regs s) Reg_A0) (read_reg (regs s) Reg_A1) y)
          else
            upd_cpu (\<lambda>c. c\<lparr>e_icount := e_icount c + 1\<rparr>)
              (upd_ctx (\<lambda>x. x\<lparr>wb_data_csr := ucast Breakpoint,
                              pending_exception := Some Breakpoint, tkn := False\<rparr>) y)
        else if funct12 x = ucast Funct12Priv_Uret \<or> funct12 x = ucast Funct12Priv_Sret \<or>
                funct12 x = ucast Funct12Priv_Mret
        then upd_ctx (\<lambda>x. x\<lparr>tkn := True, jmp_pc := rcsr x\<rparr>) y
        else if funct12 x = ucast Funct12Priv_Wfi then upd_ctx (\<lambda>x. x\<lparr>tkn := False\<rparr>) y
        else if funct7 x = Funct7Priv_SfenceVma then upd_ctx (\<lambda>x. x\<lparr>tkn := False\<rparr>) y
        else y
      else
        let csr_val_imm = (if funct3 x AND 4 \<noteq> 0 then ucast (rs1 x) else imm x) in
        case csrWriteValue (rcsr_write x) (rrs1 x) csr_val_imm (funct3 x) of
          Inr v \<Rightarrow> upd_ctx (\<lambda>x. x\<lparr>tkn := False, wb_data_csr := v\<rparr>) y
        | Inl e \<Rightarrow> set_fault (ucast e) (ucast (ir x)) y)"

definition rounding_mode :: "ArchState \<Rightarrow> PipelineContext \<Rightarrow> Word" where
  "rounding_mode s x = (if funct3 x = 7 then drop_bit 5 (fcsr s) AND 0x7 else ucast (funct3 x))"

definition note_fcsr :: "CSRValue \<Rightarrow> ArchState \<Rightarrow> ArchState" where
  "note_fcsr fcsr' s =
     (let s1 = s\<lparr>fcsr := fcsr'\<rparr>
      in if fcsr' \<noteq> fcsr s then s1\<lparr>mstatus := mstatus s1 OR Mstatus_Fs\<rparr> else s1)"

definition execute_fp :: "'d Units \<Rightarrow> 'd System \<Rightarrow> 'd System" where
  "execute_fp u y0 =
     (let y = upd_ctx (\<lambda>x. x\<lparr>tkn := False\<rparr>) y0; x = ctx y; s = state y in
      if rounding_mode s x \<ge> 5 then set_fault IllegalInstruction (ucast (ir x)) y
      else if opcode x = Opcode_OpFp then
        let (fp, fcsr') = opFp u (funct7 x) (funct3 x) (ucast (rs1 x)) (ucast (rs2 x)) (rrs1 x)
                            (freg (regs s)) (fcsr s)
        in upd_ctx (\<lambda>x. x\<lparr>wb_data := fr_int_wb_data fp, int_wb_from_fp := fr_int_wb_enable fp,
                          fp_wb_data := fr_fp_wb_data fp, fp_wb_enable := fr_fp_wb_enable fp\<rparr>)
             (upd_state (note_fcsr fcsr') y)
      else
        let (fp, fcsr') = fusedFp u (opcode x) (funct7 x AND 0x3) (ucast (rs1 x)) (ucast (rs2 x))
                            (ucast (drop_bit 27 (ir x) AND 0x1F)) (ucast (funct3 x))
                            (freg (regs s)) (fcsr s)
        in upd_ctx (\<lambda>x. x\<lparr>fp_wb_data := fr_fp_wb_data fp, fp_wb_enable := fr_fp_wb_enable fp\<rparr>)
             (upd_state (note_fcsr fcsr') y))"

definition execute_amo :: "'d System \<Rightarrow> 'd System" where
  "execute_amo y0 =
     (let y = upd_ctx (\<lambda>x. x\<lparr>tkn := False, mem_addr := rrs1 x\<rparr>) y0; x = ctx y; s = state y in
      if funct5 x = Funct5Amo_Sc then
        if \<not> amo_address_aligned (mem_addr x) (funct3 x) then set_fault MisalignedStore (mem_addr x) y
        else
          let native_success = (rrs1 x = load_res s \<and> reserved s \<noteq> 0)
          in upd_ctx (\<lambda>x. x\<lparr>wb_data := (if native_success then 0 else 1)\<rparr>) y
      else y)"

definition fence_i :: "CPU \<Rightarrow> CPU" where
  "fence_i c =
     c\<lparr>icache := cache_flush (icache c) False, dcache := cache_flush (dcache c) False,
       decode_cache := decode_flush (decode_cache c)\<rparr>"

definition link_address :: "ArchState \<Rightarrow> PipelineContext \<Rightarrow> Register" where
  "link_address s x = pc s + (if cinsn x \<noteq> 0 then 2 else 4)"

definition low_target :: "ArchState \<Rightarrow> Register \<Rightarrow> Register" where
  "low_target s t = (if xlen (regs s) = 32 then sext32 t else t)"

definition execute_integer :: "'d System \<Rightarrow> 'd System" where
  "execute_integer y =
     (let x = ctx y; s = state y; op = opcode x; xl = xlen (regs s);
          wb = (\<lambda>v. upd_ctx (\<lambda>x. x\<lparr>tkn := False, wb_data := v\<rparr>) y)
      in if op = Opcode_Lui then wb (imm x)
         else if op = Opcode_Auipc then wb (pc s + imm x)
         else if op = Opcode_Jal then
           upd_ctx (\<lambda>x. x\<lparr>tkn := True, wb_data := link_address s x, jmp_pc := pc s + imm x\<rparr>) y
         else if op = Opcode_Jalr then
           upd_ctx (\<lambda>x. x\<lparr>tkn := True, wb_data := link_address s x,
                          jmp_pc := low_target s ((rrs1 x + imm x) AND NOT 1)\<rparr>) y
         else if op = Opcode_Op then wb (aluInt (rrs1 x) (rrs2 x) (op_id x) xl)
         else if op = Opcode_OpImm then wb (aluInt (rrs1 x) (imm x) (op_id x) xl)
         else if op = Opcode_OpImm32 then wb (aluIntW (rrs1 x) (imm x) (op_id x))
         else if op = Opcode_Op32 then wb (aluIntW (rrs1 x) (rrs2 x) (op_id x))
         else if op = Opcode_Load \<or> op = Opcode_LoadFp \<or> op = Opcode_Store then
           upd_ctx (\<lambda>x. x\<lparr>tkn := False, mem_addr := rrs1 x + imm x\<rparr>) y
         else if op = Opcode_StoreFp then
           upd_ctx (\<lambda>x. x\<lparr>tkn := False, mem_addr := rrs1 x + imm x,
                          fp_mem_wdata := read_fp (regs s) (rs2 x)\<rparr>) y
         else if op = Opcode_Branch then
           upd_ctx (\<lambda>x. x\<lparr>tkn := branchTaken (rrs1 x) (rrs2 x) (funct3 x) xl,
                          jmp_pc := low_target s (pc s + imm x)\<rparr>) y
         else upd_ctx (\<lambda>x. x\<lparr>tkn := False\<rparr>) y)"

definition execute_core :: "'d Units \<Rightarrow> 'd System \<Rightarrow> 'd System" where
  "execute_core u y =
     (if has_fault y then y
      else if is_vector_op (op_id (ctx y)) then
        let y1 = execute_vector u (op_id (ctx y)) (ir (ctx y)) (upd_ctx (\<lambda>x. x\<lparr>tkn := False\<rparr>) y)
        in upd_state (\<lambda>s. s\<lparr>mstatus := mstatus s OR Mstatus_Vs\<rparr>) y1
      else
        let y1 = upd_ctx (\<lambda>x. x\<lparr>fp_wb_enable := False, int_wb_from_fp := False\<rparr>) y;
            op = opcode (ctx y1)
        in if op = Opcode_MiscMem then
             let y2 = upd_ctx (\<lambda>x. x\<lparr>tkn := False\<rparr>) y1
             in if funct3 (ctx y2) = Funct3_FenceI then upd_cpu fence_i y2 else y2
           else if op = Opcode_Amo then execute_amo y1
           else if op = Opcode_System then execute_system u y1
           else if op = Opcode_MAdd \<or> op = Opcode_MSub \<or> op = Opcode_NMAdd \<or> op = Opcode_NMSub \<or>
                   op = Opcode_OpFp
           then execute_fp u y1
           else if op \<in> {Opcode_Lui, Opcode_Auipc, Opcode_Jal, Opcode_Jalr, Opcode_Op, Opcode_OpImm,
                          Opcode_OpImm32, Opcode_Op32, Opcode_Load, Opcode_LoadFp, Opcode_Store,
                          Opcode_StoreFp, Opcode_Branch, Opcode_Custom0}
           then execute_integer y1
           else set_fault IllegalInstruction (ucast (ir (ctx y1)))
                  (upd_ctx (\<lambda>x. x\<lparr>tkn := False\<rparr>) y1))"

subsection \<open>Memory\<close>

definition is_atomic_load :: "PipelineContext \<Rightarrow> bool" where
  "is_atomic_load x \<longleftrightarrow> opcode x = Opcode_Amo \<and> funct5 x \<noteq> Funct5Amo_Sc"

definition stores_integer :: "ArchState \<Rightarrow> PipelineContext \<Rightarrow> bool" where
  "stores_integer s x \<longleftrightarrow>
     opcode x = Opcode_Store \<or>
     opcode x = Opcode_Amo \<and> funct5 x = Funct5Amo_Sc \<and> wb_data x = 0 \<and> reserved s \<noteq> 0 \<or>
     opcode x = Opcode_Amo \<and> funct5 x \<noteq> Funct5Amo_Lr \<and> funct5 x \<noteq> Funct5Amo_Sc"

definition ends_reservation :: "PipelineContext \<Rightarrow> bool" where
  "ends_reservation x \<longleftrightarrow>
     opcode x = Opcode_Store \<or> opcode x = Opcode_StoreFp \<or>
     opcode x = Opcode_Amo \<and> funct5 x \<noteq> Funct5Amo_Lr"

definition memory_load_phase :: "'d DeviceHandler \<Rightarrow> 'd System \<Rightarrow> 'd System" where
  "memory_load_phase handle y =
     (if has_fault y then y
      else
        let x = ctx y;
            y1 = (if opcode x = Opcode_Load \<or> is_atomic_load x then
                    let (v, y') = loadInt handle (mem_addr x) (funct3 x) y
                    in upd_ctx (\<lambda>x. x\<lparr>mem_rdata := v\<rparr>) y'
                  else y);
            y2 = (if opcode x = Opcode_LoadFp then
                    let (v, y') = loadFp handle (mem_addr x) (funct3 x) y1
                    in upd_ctx (\<lambda>x. x\<lparr>fp_mem_rdata := v\<rparr>) y'
                  else y1)
        in if opcode x = Opcode_Amo \<and> funct5 x = Funct5Amo_Lr
           then upd_state (\<lambda>s. s\<lparr>load_res := mem_addr x, reserved := 1\<rparr>) y2
           else y2)"

definition memory_prepare_store_data :: "'d System \<Rightarrow> 'd System" where
  "memory_prepare_store_data y =
     upd_ctx (\<lambda>x.
       let w = (if opcode x \<noteq> Opcode_Amo \<or> funct5 x = Funct5Amo_Sc then rrs2 x
                else aluAmo (rrs2 x) (mem_rdata x) (funct5 x) (funct3 x))
       in x\<lparr>mem_wdata := (if opcode x = Opcode_StoreFp then fp_mem_wdata x AND 0xFFFFFFFF else w)\<rparr>) y"

definition memory_store_phase :: "'d DeviceHandler \<Rightarrow> 'd System \<Rightarrow> 'd System" where
  "memory_store_phase handle y =
     (if has_fault y then y
      else
        let x = ctx y;
            y1 = (if stores_integer (state y) x
                  then storeInt handle (mem_addr x) (mem_wdata x) (funct3 x) y else y);
            y2 = (if opcode x = Opcode_StoreFp
                  then storeFp handle (mem_addr x) (fp_mem_wdata x) (funct3 x) y1 else y1)
        in if ends_reservation x \<and> \<not> has_fault y2
           then upd_state (\<lambda>s. s\<lparr>reserved := 0\<rparr>) y2 else y2)"

definition run_memory_stage :: "'d DeviceHandler \<Rightarrow> 'd System \<Rightarrow> 'd System" where
  "run_memory_stage handle y =
     (if is_vector_op (op_id (ctx y)) then y
      else memory_store_phase handle (memory_prepare_store_data (memory_load_phase handle y)))"

subsection \<open>Write-back and commit\<close>

definition integer_result :: "PipelineContext \<Rightarrow> Register option" where
  "integer_result x =
     (if opcode x = Opcode_Load \<or> is_atomic_load x then Some (mem_rdata x)
      else if opcode x = Opcode_System \<and> funct3 x \<noteq> Funct3_Priv then Some (rcsr x)
      else if opcode x = Opcode_Amo \<and> funct5 x = Funct5Amo_Sc \<or>
              opcode x \<in> {Opcode_Lui, Opcode_Auipc, Opcode_Jal, Opcode_Jalr, Opcode_Op, Opcode_OpImm,
                           Opcode_Op32, Opcode_OpImm32} \<or>
              opcode x = Opcode_OpFp \<and> int_wb_from_fp x
      then Some (wb_data x)
      else None)"

definition dirty_fs :: "ArchState \<Rightarrow> ArchState" where
  "dirty_fs s = s\<lparr>mstatus := mstatus s OR Mstatus_Fs\<rparr>"

definition writeback_registers :: "'d System \<Rightarrow> 'd System" where
  "writeback_registers y0 =
     (if has_fault y0 then y0
      else
        let y = upd_cpu (\<lambda>c. c\<lparr>e_icount := e_icount c + 1\<rparr>) y0; x = ctx y in
        if is_vector_op (op_id x) then y
        else
          let y1 = (if opcode x = Opcode_LoadFp
                    then upd_state (\<lambda>s. dirty_fs (set_freg (rd x) (fp_mem_rdata x) s)) y else y);
              y2 = (if opcode x \<in> {Opcode_OpFp, Opcode_MAdd, Opcode_MSub, Opcode_NMAdd, Opcode_NMSub} \<and>
                       fp_wb_enable x
                    then upd_state (\<lambda>s. dirty_fs (set_freg (rd x) (fp_wb_data x) s)) y1 else y1)
          in case integer_result x of
               Some v \<Rightarrow> upd_state (set_reg (rd x) v) y2
             | None \<Rightarrow> y2)"

definition commit_system :: "'d System \<Rightarrow> 'd System" where
  "commit_system y =
     (let x = ctx y in
      if funct3 x = Funct3_Priv then
        if funct12 x = ucast Funct12Priv_Uret then y
        else if funct12 x = ucast Funct12Priv_Sret then upd_state sret y
        else if funct12 x = ucast Funct12Priv_Mret then upd_state mret y
        else if funct7 x = Funct7Priv_SfenceVma
        then upd_cpu (\<lambda>c. TLB_flush_selective c (rs1 x = 0) (rrs1 x) (rs2 x = 0) (rrs2 x)) y
        else y
      else
        let is_write = (funct3 x = Funct3_Csrrw \<or> funct3 x = Funct3_Csrrwi \<or> rs1 x \<noteq> 0) in
        if is_write then
          (case csr_write (cpu y) (funct12 x) (wb_data_csr x) of
             Inr c' \<Rightarrow> y\<lparr>cpu := c'\<rparr>
           | Inl e \<Rightarrow> upd_ctx (\<lambda>x. x\<lparr>pending_exception := Some e\<rparr>) y)
        else y)"

definition commit_control_flow_and_traps :: "'d System \<Rightarrow> 'd System" where
  "commit_control_flow_and_traps y =
     (let y1 = (if cinsn (ctx y) \<noteq> 0 \<and> \<not> has_fault y
                then upd_cpu (\<lambda>c. c\<lparr>e_ccount := e_ccount c + 1\<rparr>) y else y);
          y2 = (if \<not> has_fault y1 \<and> opcode (ctx y1) = Opcode_System then commit_system y1 else y1);
          s = state y2;
          msk = (mip s AND mie s) AND enabled_interrupts s;
          x = ctx y2
      in case pending_exception x of
           Some e \<Rightarrow> upd_cpu (\<lambda>c. raise_exception c (ucast e) (pending_tval x)) y2
         | None \<Rightarrow>
             if tkn x \<and> jmp_pc x AND alignment_mask s \<noteq> 0
             then upd_cpu (\<lambda>c. raise_exception c (ucast MisalignedFetch) (jmp_pc x))
                    (set_fault MisalignedFetch (jmp_pc x) y2)
             else
               let next_pc = (if tkn x then jmp_pc x else pc s + (if cinsn x \<noteq> 0 then 2 else 4));
                   y3 = upd_state (\<lambda>s. sign_extend_pc (s\<lparr>pc := next_pc\<rparr>)) y2
               in if msk \<noteq> 0
                  then upd_cpu (\<lambda>c. raise_exception c
                         (kInterruptCauseBit OR select_highest_priority_interrupt msk) 0) y3
                  else y3)"

text \<open>The bare-metal commit stage is the same code.\<close>

definition run_commit_stage_baremetal :: "'d System \<Rightarrow> 'd System" where
  "run_commit_stage_baremetal y = commit_control_flow_and_traps y"

end
