(* ===== verification/Fast_Path.thy ===== *)
theory Fast_Path
  imports Pipeline_Stages
begin

text \<open>
  The execution engine of the hart (\<^verbatim>\<open>src/core/Cpu.cpp\<close>): the stage wrappers and the pipeline
  coroutine, the cached fast path that replays decoded instructions, the bare-metal memory stage, one
  cycle in each of the three modes and the bare-metal batch. Breakpoints and the terminal user
  interface, which only pause the run or record what happened, are not part of the state.
\<close>

subsection \<open>Stage wrappers\<close>

text \<open>Each wrapper runs its stage and tells whether no exception is pending.\<close>

definition succeeded :: "'d System \<Rightarrow> bool \<times> 'd System" where
  "succeeded y = (\<not> has_fault y, y)"

definition fetch_stage :: "'d Units \<Rightarrow> Address \<Rightarrow> 'd System \<Rightarrow> bool \<times> 'd System" where
  "fetch_stage u p y =
     succeeded (run_fetch_stage (handler u)
       (upd_ctx (\<lambda>x. x\<lparr>pending_exception := None, pending_tval := 0\<rparr>)
         (upd_state (\<lambda>s. s\<lparr>pc := p\<rparr>) y)))"

definition decode_stage :: "'d System \<Rightarrow> bool \<times> 'd System" where
  "decode_stage y = succeeded (run_decode_stage y)"

definition execute_stage :: "'d Units \<Rightarrow> 'd System \<Rightarrow> bool \<times> 'd System" where
  "execute_stage u y = succeeded (execute_core u y)"

definition memory_stage :: "'d Units \<Rightarrow> 'd System \<Rightarrow> bool \<times> 'd System" where
  "memory_stage u y = succeeded (run_memory_stage (handler u) y)"

definition writeback_stage :: "'d System \<Rightarrow> bool \<times> 'd System" where
  "writeback_stage y = succeeded (writeback_registers y)"

definition commit_stage :: "'d System \<Rightarrow> bool \<times> 'd System" where
  "commit_stage y = succeeded (commit_control_flow_and_traps y)"

text \<open>Stages in a short-circuit conjunction.\<close>

definition and_then :: "bool \<times> 'd System \<Rightarrow> ('d System \<Rightarrow> bool \<times> 'd System) \<Rightarrow> bool \<times> 'd System" where
  "and_then r k = (if fst r then k (snd r) else r)"

definition raise_pending :: "'d System \<Rightarrow> 'd System" where
  "raise_pending y =
     (let cause = (case pending_exception (ctx y) of Some e \<Rightarrow> e | None \<Rightarrow> MisalignedFetch)
      in upd_cpu (\<lambda>c. raise_exception c (ucast cause) (pending_tval (ctx y))) y)"

definition back_stages :: "'d Units \<Rightarrow> 'd System \<Rightarrow> bool \<times> 'd System" where
  "back_stages u y =
     and_then (and_then (and_then (execute_stage u y) (memory_stage u)) writeback_stage) commit_stage"

text \<open>
  One resumption of the coroutine is one turn of its loop: the first failing stage ends the turn and
  its exception is raised by the caller.
\<close>

definition pipeline_turn :: "'d Units \<Rightarrow> 'd System \<Rightarrow> 'd System" where
  "pipeline_turn u y =
     (let (ok, y1) = and_then (and_then (fetch_stage u (pc (state y)) y) decode_stage) (back_stages u)
      in if ok then y1 else raise_pending y1)"

subsection \<open>Loads and stores of the fast path\<close>

definition is_tohost_addr :: "MachineState \<Rightarrow> Address \<Rightarrow> bool" where
  "is_tohost_addr ms addr \<longleftrightarrow>
     addr - s_isatest_tohost ms < 8 \<or> addr - 0x80001000 < 8 \<or> addr - 0x40008000 < 8"

definition access_size_for_funct3 :: "u8 \<Rightarrow> u64" where
  "access_size_for_funct3 f3 = 2 ^ unat (f3 AND 0x3)"

definition is_aligned_for_funct3 :: "Address \<Rightarrow> u8 \<Rightarrow> bool" where
  "is_aligned_for_funct3 addr f3 \<longleftrightarrow> addr AND (access_size_for_funct3 f3 - 1) = 0"

definition plain_machine_mode :: "CPU \<Rightarrow> bool" where
  "plain_machine_mode c \<longleftrightarrow> priv (st c) = Machine \<and> mstatus (st c) AND Mstatus_Mprv = 0"

definition try_fast_load :: "Address \<Rightarrow> u8 \<Rightarrow> 'd System \<Rightarrow> Register option" where
  "try_fast_load addr0 f3 y =
     (let c = cpu y; m = mmem (mmu y); size_bytes = access_size_for_funct3 f3 in
      if \<not> is_aligned_for_funct3 addr0 f3 then None
      else if plain_machine_mode c then
        if is_dram_access addr0 size_bytes then Some (ram_read_fast addr0 (ucast f3) m) else None
      else
        let xl = effective_data_xlen c;
            addr = (if xl = 32 then addr0 AND 0xFFFFFFFF else addr0);
            eff_priv = effective_data_privilege c
        in if \<not> data_translation c then
             if is_dram_access addr size_bytes then Some (ram_read_fast addr (ucast f3) m) else None
           else
             let vpn = drop_bit 12 addr;
                 entry = soft_tlb_read (soft_tlbs c) (soft_index vpn)
             in if soft_matches entry vpn (satp_asid (satp (st c)) xl) eff_priv
                     (soft_tlb_epoch (soft_tlbs c))
                then (case host_ptr_base entry of
                        Some base \<Rightarrow> Some (host_read_fast m (unat (base + (addr AND 0xFFF))) (ucast f3))
                      | None \<Rightarrow> Some (ram_read_fast (paddr_base entry + (addr AND 0xFFF)) (ucast f3) m))
                else None)"

definition record_old :: "Address \<Rightarrow> Instruction \<Rightarrow> 'd System \<Rightarrow> 'd System" where
  "record_old addr f3 y =
     (if s_rollback_enabled (machine (cpu y))
      then upd_cpu (\<lambda>c. record_mem_write c addr (ram_read_fast addr f3 (mmem (mmu y))) f3) y
      else y)"

definition try_fast_store :: "Address \<Rightarrow> u8 \<Rightarrow> Register \<Rightarrow> 'd System \<Rightarrow> bool \<times> 'd System" where
  "try_fast_store addr0 f3 w y =
     (let c = cpu y; size_bytes = access_size_for_funct3 f3;
          direct = (\<lambda>addr.
            if is_dram_access addr size_bytes \<and> \<not> is_tohost_addr (machine c) addr
            then (True, write_ram addr w (ucast f3) (record_old addr (ucast f3) y))
            else (False, y))
      in if \<not> is_aligned_for_funct3 addr0 f3 then (False, y)
         else if plain_machine_mode c then direct addr0
         else
           let xl = effective_data_xlen c;
               addr = (if xl = 32 then addr0 AND 0xFFFFFFFF else addr0);
               eff_priv = effective_data_privilege c
           in if \<not> data_translation c then direct addr
              else
                let vpn = drop_bit 12 addr;
                    entry = soft_tlb_write (soft_tlbs c) (soft_index vpn)
                in if soft_matches entry vpn (satp_asid (satp (st c)) xl) eff_priv
                        (soft_tlb_epoch (soft_tlbs c))
                   then
                     let paddr = paddr_base entry + (addr AND 0xFFF);
                         y1 = (if is_dram_access paddr size_bytes
                               then record_old paddr (ucast f3) y else y)
                     in (case host_ptr_base entry of
                           Some base \<Rightarrow>
                             (True, y1\<lparr>mmu := (mmu y1)\<lparr>mmem :=
                                host_write_fast (mmem (mmu y1)) (unat (base + (addr AND 0xFFF))) w
                                  (ucast f3)\<rparr>\<rparr>)
                         | None \<Rightarrow>
                             if is_dram_access paddr size_bytes \<and> \<not> is_tohost_addr (machine c) paddr
                             then (True, write_ram paddr w (ucast f3) y1)
                             else (False, y1))
                   else (False, y))"

subsection \<open>Cached instructions\<close>

definition commit_cached_branch_target :: "CachedOp \<Rightarrow> Register \<Rightarrow> 'd System \<Rightarrow> 'd System" where
  "commit_cached_branch_target op target_pc =
     upd_cpu (\<lambda>c. handle_cached_interrupts
       (c\<lparr>st := sign_extend_pc ((st c)\<lparr>pc := target_pc\<rparr>), e_icount := e_icount c + 1,
          e_ccount := (if cinsn op \<noteq> 0 then e_ccount c + 1 else e_ccount c)\<rparr>))"

definition advance_cached_pc :: "CachedOp \<Rightarrow> 'd System \<Rightarrow> 'd System" where
  "advance_cached_pc op y = commit_cached_branch_target op (pc (state y) + ucast (co_len op)) y"

definition cached_jump :: "CachedOp \<Rightarrow> Register \<Rightarrow> 'd System \<Rightarrow> 'd System" where
  "cached_jump op target y =
     (let next_pc = pc (state y) + ucast (co_len op);
          y1 = upd_ctx (\<lambda>x. x\<lparr>tkn := True, jmp_pc := target\<rparr>) y;
          y2 = (if rd op \<noteq> 0 then upd_state (set_reg (rd op) next_pc) y1 else y1)
      in if target AND alignment_mask (state y2) \<noteq> 0
         then upd_cpu (\<lambda>c. raise_exception c (ucast MisalignedFetch) target) y2
         else commit_cached_branch_target op target y2)"

definition execute_cached_jal :: "CachedOp \<Rightarrow> 'd System \<Rightarrow> 'd System" where
  "execute_cached_jal op y = cached_jump op (pc (state y) + imm op) y"

definition execute_cached_jalr :: "CachedOp \<Rightarrow> Register \<Rightarrow> 'd System \<Rightarrow> 'd System" where
  "execute_cached_jalr op r1 y = cached_jump op (low_target (state y) ((r1 + imm op) AND NOT 1)) y"

definition execute_cached_branch :: "CachedOp \<Rightarrow> Register \<Rightarrow> Register \<Rightarrow> 'd System \<Rightarrow> 'd System" where
  "execute_cached_branch op r1 r2 y =
     (let f3 = funct3 op;
          taken = (if f3 = Funct3_Beq then r1 = r2
                   else if f3 = Funct3_Bne then r1 \<noteq> r2
                   else if f3 = Funct3_Blt then r1 <s r2
                   else if f3 = Funct3_Bge then r2 \<le>s r1
                   else if f3 = Funct3_Bltu then r1 < r2
                   else if f3 = Funct3_Bgeu then r2 \<le> r1
                   else branchTaken r1 r2 f3 (xlen (regs (state y))));
          y1 = upd_ctx (\<lambda>x. x\<lparr>tkn := taken\<rparr>) y;
          target_pc = (if taken then pc (state y) + imm op else pc (state y) + ucast (co_len op))
      in commit_cached_branch_target op target_pc y1)"

definition note_mem_addr :: "Address \<Rightarrow> 'd System \<Rightarrow> 'd System" where
  "note_mem_addr addr y =
     (if s_tuimode (machine (cpu y)) \<or> s_bp_trace (machine (cpu y))
      then upd_ctx (\<lambda>x. x\<lparr>mem_addr := addr\<rparr>) y else y)"

definition execute_cached_load :: "'d Units \<Rightarrow> CachedOp \<Rightarrow> Register \<Rightarrow> 'd System \<Rightarrow> 'd System" where
  "execute_cached_load u op r1 y0 =
     (let addr = r1 + imm op;
          y = note_mem_addr addr y0;
          finish = (\<lambda>v y. advance_cached_pc op
                       (upd_state (\<lambda>s. s\<lparr>regs := write_branchless (regs s) (rd op) v\<rparr>) y))
      in case try_fast_load addr (funct3 op) y of
           Some v \<Rightarrow> finish v y
         | None \<Rightarrow>
             let (v, y1) = loadInt (handler u) addr (funct3 op) y
             in if has_fault y1 then raise_pending y1 else finish v y1)"

definition execute_cached_store :: "'d Units \<Rightarrow> CachedOp \<Rightarrow> Register \<Rightarrow> Register \<Rightarrow> 'd System \<Rightarrow> 'd System" where
  "execute_cached_store u op r1 r2 y0 =
     (let addr = r1 + imm op;
          y = note_mem_addr addr y0;
          (done, y1) = try_fast_store addr (funct3 op) r2 y;
          y2 = (if done then y1 else storeInt (handler u) addr r2 (funct3 op) y1)
      in if \<not> done \<and> has_fault y2 then raise_pending y2
         else advance_cached_pc op (upd_state (\<lambda>s. s\<lparr>reserved := 0\<rparr>) y2))"

definition execute_cached_fallback :: "'d Units \<Rightarrow> 'd System \<Rightarrow> 'd System" where
  "execute_cached_fallback u y =
     (let (ok, y1) = back_stages u (fetch_operands y) in if ok then y1 else raise_pending y1)"

text \<open>The arms of the dispatch that only compute a register value.\<close>

definition cached_alu :: "ArchState \<Rightarrow> CachedOp \<Rightarrow> Register option" where
  "cached_alu s op =
     (let o' = op_id op; r1 = read_reg (regs s) (rs1 op); r2 = read_reg (regs s) (rs2 op);
          i = imm op;
          sh = (\<lambda>v. unat (v AND xlen_shift_mask)); sh32 = (\<lambda>v :: Register. unat (v AND 0x1f))
      in if o' = ADD then Some (r1 + r2)
         else if o' = SUB then Some (r1 - r2)
         else if o' = AND_op then Some (r1 AND r2)
         else if o' = OR_op then Some (r1 OR r2)
         else if o' = XOR_op then Some (r1 XOR r2)
         else if o' = SLL then Some (push_bit (sh r2) r1)
         else if o' = SRL then Some (drop_bit (sh r2) r1)
         else if o' = SRA then Some (signed_drop_bit (sh r2) r1)
         else if o' = SLT then Some (of_bool64 (r1 <s r2))
         else if o' = SLTU then Some (of_bool64 (r1 < r2))
         else if o' = ADDW then Some (sext32 (r1 + r2))
         else if o' = SUBW then Some (sext32 (r1 - r2))
         else if o' = SLLW then Some (scast (push_bit (sh32 r2) (ucast r1 :: u32)))
         else if o' = SRLW then Some (scast (drop_bit (sh32 r2) (ucast r1 :: u32)))
         else if o' = SRAW then Some (scast (signed_drop_bit (sh32 r2) (ucast r1 :: u32)))
         else if o' = ADDI then Some (r1 + i)
         else if o' = ANDI then Some (r1 AND i)
         else if o' = ORI then Some (r1 OR i)
         else if o' = XORI then Some (r1 XOR i)
         else if o' = SLLI then Some (push_bit (sh i) r1)
         else if o' = SRLI then Some (drop_bit (sh i) r1)
         else if o' = SRAI then Some (signed_drop_bit (sh i) r1)
         else if o' = SLTI then Some (of_bool64 (r1 <s i))
         else if o' = SLTIU then Some (of_bool64 (r1 < i))
         else if o' = ADDIW then Some (sext32 (r1 + i))
         else if o' = SLLIW then Some (scast (push_bit (sh32 i) (ucast r1 :: u32)))
         else if o' = SRLIW then Some (scast (drop_bit (sh32 i) (ucast r1 :: u32)))
         else if o' = SRAIW then Some (scast (signed_drop_bit (sh32 i) (ucast r1 :: u32)))
         else if o' = LUI then Some i
         else if o' = AUIPC then Some (pc s + i)
         else None)"

definition load_decoded :: "CachedOp \<Rightarrow> 'd System \<Rightarrow> 'd System" where
  "load_decoded op = upd_ctx (\<lambda>x. (copy_from x op)\<lparr>tlb_miss := False, pending_tval := 0\<rparr>)"

definition enter_cached :: "bool \<Rightarrow> bool \<Rightarrow> CachedOp \<Rightarrow> 'd System \<Rightarrow> 'd System" where
  "enter_cached copy_ctx inst_mix op y =
     (let y1 = (if copy_ctx then load_decoded op y
                else upd_ctx (\<lambda>x. x\<lparr>pending_exception := None\<rparr>) y)
      in if inst_mix
         then upd_cpu (\<lambda>c. c\<lparr>e_instmix := (e_instmix c)(op_id op := e_instmix c (op_id op) + 1)\<rparr>) y1
         else y1)"

definition execute_cached_op_fast :: "'d Units \<Rightarrow> bool \<Rightarrow> bool \<Rightarrow> CachedOp \<Rightarrow> 'd System \<Rightarrow> 'd System" where
  "execute_cached_op_fast u copy_ctx inst_mix op y0 =
     (let y = enter_cached copy_ctx inst_mix op y0;
          s = state y; o' = op_id op;
          r1 = read_reg (regs s) (rs1 op); r2 = read_reg (regs s) (rs2 op)
      in case cached_alu s op of
           Some v \<Rightarrow>
             advance_cached_pc op
               (upd_state (\<lambda>s. s\<lparr>regs := write_branchless (regs s) (rd op) v\<rparr>) y)
         | None \<Rightarrow>
             if o' \<in> {BEQ, BNE, BLT, BGE, BLTU, BGEU} then execute_cached_branch op r1 r2 y
             else if o' = JAL then execute_cached_jal op y
             else if o' = JALR then execute_cached_jalr op r1 y
             else if o' \<in> {LB, LH, LW, LD, LBU, LHU, LWU} then execute_cached_load u op r1 y
             else if o' \<in> {SB, SH, SW, SD} then execute_cached_store u op r1 r2 y
             else execute_cached_fallback u (if copy_ctx then y else load_decoded op y))"

subsection \<open>The bare-metal memory stage\<close>

definition baremetal_load :: "'d Units \<Rightarrow> 'd System \<Rightarrow> 'd System" where
  "baremetal_load u y =
     (let x = ctx y; addr = mem_addr x; m = mmem (mmu y);
          in_dram = is_dram_access addr (access_size_for_funct3 (funct3 x));
          y1 = (if opcode x = Opcode_Load \<or> is_atomic_load x then
                  if in_dram
                  then upd_ctx (\<lambda>x. x\<lparr>mem_rdata := ram_read_fast addr (ucast (funct3 x)) m\<rparr>) y
                  else let (v, y') = loadInt (handler u) addr (funct3 x) y
                       in upd_ctx (\<lambda>x. x\<lparr>mem_rdata := v\<rparr>) y'
                else y);
          y2 = (if opcode x = Opcode_LoadFp then
                  if in_dram then
                    upd_ctx (\<lambda>x. if funct3 x = Funct3_Flw
                      then x\<lparr>fp_mem_rdata := 0xFFFFFFFF00000000 OR
                               (ram_read_fast addr (ucast Funct3_Lw) m AND 0xFFFFFFFF)\<rparr>
                      else if funct3 x = Funct3_Fld
                      then x\<lparr>fp_mem_rdata := ram_read_fast addr (ucast Funct3_Ld) m\<rparr>
                      else x) y1
                  else let (v, y') = loadFp (handler u) addr (funct3 x) y1
                       in upd_ctx (\<lambda>x. x\<lparr>fp_mem_rdata := v\<rparr>) y'
                else y1)
      in if opcode x = Opcode_Amo \<and> funct5 x = Funct5Amo_Lr
         then upd_state (\<lambda>s. s\<lparr>load_res := addr, reserved := 1\<rparr>) y2 else y2)"

definition baremetal_tohost :: "Address \<Rightarrow> u8 \<Rightarrow> Word \<Rightarrow> CPU \<Rightarrow> CPU" where
  "baremetal_tohost addr f3 w c =
     (if addr AND 0xC0000000 \<noteq> 0 \<and> is_tohost_address (machine c) addr \<and>
         (f3 = Funct3_Sw \<or> f3 = Funct3_Sd)
      then c\<lparr>machine := (machine c)\<lparr>tohost := w\<rparr>\<rparr> else c)"

definition baremetal_store_fp :: "'d System \<Rightarrow> 'd System" where
  "baremetal_store_fp y =
     (let x = ctx y; addr = mem_addr x in
      if funct3 x = Funct3_Fsw
      then write_ram addr (fp_mem_wdata x AND 0xFFFFFFFF) (ucast Funct3_Sw)
             (record_old addr (ucast Funct3_Sw) y)
      else if funct3 x = Funct3_Fsd
      then write_ram addr (fp_mem_wdata x) (ucast Funct3_Sd) (record_old addr (ucast Funct3_Sd) y)
      else y)"

definition baremetal_store :: "'d Units \<Rightarrow> 'd System \<Rightarrow> 'd System" where
  "baremetal_store u y =
     (let x = ctx y; addr = mem_addr x; f3 = funct3 x;
          in_dram = is_dram_access addr (access_size_for_funct3 f3);
          y1 = (if stores_integer (state y) x then
                  if in_dram
                  then write_ram addr (mem_wdata x) (ucast f3)
                         (record_old addr (ucast f3) (upd_cpu (baremetal_tohost addr f3 (mem_wdata x)) y))
                  else storeInt (handler u) addr (mem_wdata x) f3 y
                else y);
          y2 = (if opcode x = Opcode_StoreFp then
                  if in_dram then baremetal_store_fp y1
                  else storeFp (handler u) addr (fp_mem_wdata x) f3 y1
                else y1)
      in if ends_reservation x \<and> \<not> has_fault y2
         then upd_state (\<lambda>s. s\<lparr>reserved := 0\<rparr>) y2 else y2)"

definition run_memory_stage_baremetal :: "'d Units \<Rightarrow> 'd System \<Rightarrow> 'd System" where
  "run_memory_stage_baremetal u y =
     (if has_fault y \<or> is_vector_op (op_id (ctx y)) then y
      else baremetal_store u (memory_prepare_store_data (baremetal_load u y)))"

subsection \<open>The clock\<close>

definition tick_clock :: "CPU \<Rightarrow> CPU" where
  "tick_clock c =
     (let cl = clint_mmio c; d = rtc_divider cl + 1 in
      if d = 10
      then evaluate_timer_interrupt
             (c\<lparr>clint_mmio := cl\<lparr>mcycle := mcycle cl + 1, mtime := mtime cl + 1, rtc_divider := 0\<rparr>\<rparr>)
      else c\<lparr>clint_mmio := cl\<lparr>mcycle := mcycle cl + 1, rtc_divider := d\<rparr>\<rparr>)"

definition advance_clock :: "u32 \<Rightarrow> CPU \<Rightarrow> CPU" where
  "advance_clock step_cycles c =
     (let cl = clint_mmio c; d = rtc_divider cl + sint step_cycles;
          cl1 = cl\<lparr>mcycle := mcycle cl + ucast step_cycles, rtc_divider := d\<rparr>
      in if d \<ge> 10 then
           evaluate_timer_interrupt
             (c\<lparr>clint_mmio :=
                (if d < 20 then cl1\<lparr>mtime := mtime cl + 1, rtc_divider := d - 10\<rparr>
                 else cl1\<lparr>mtime := mtime cl + of_int (d div 10), rtc_divider := d mod 10\<rparr>)\<rparr>)
         else c\<lparr>clint_mmio := cl1\<rparr>)"

definition batch_clock :: "u32 \<Rightarrow> CPU \<Rightarrow> CPU" where
  "batch_clock cached_ops c =
     (if cached_ops > 0 then
        let cl = clint_mmio c; d = rtc_divider cl + sint cached_ops;
            cl1 = cl\<lparr>mcycle := mcycle cl + ucast cached_ops, rtc_divider := d\<rparr>
        in if d \<ge> 10 then
             evaluate_timer_interrupt
               (c\<lparr>clint_mmio := cl1\<lparr>mtime := mtime cl + of_int (d div 10), rtc_divider := d mod 10\<rparr>\<rparr>)
           else c\<lparr>clint_mmio := cl1\<rparr>
      else c)"

subsection \<open>Cycles\<close>

definition begin_cycle :: "'d System \<Rightarrow> 'd System" where
  "begin_cycle y =
     (if s_rollback_enabled (machine (cpu y))
      then upd_cpu (\<lambda>c. push_undo_state (c\<lparr>prev_st := st c\<rparr>)) y else y)"

definition copies_context :: "MachineState \<Rightarrow> bool" where
  "copies_context ms \<longleftrightarrow>
     s_tuimode ms \<or> s_lockstep_mode ms \<or> s_gdb_mode ms \<or> s_bp_trace ms \<or> s_strace ms \<noteq> 0"

definition counts_mix :: "MachineState \<Rightarrow> bool" where
  "counts_mix ms \<longleftrightarrow> s_use_mix ms \<or> s_tuimode ms"

definition run_cached :: "'d Units \<Rightarrow> CachedOp \<Rightarrow> 'd System \<Rightarrow> 'd System" where
  "run_cached u op y =
     (let ms = machine (cpu y) in execute_cached_op_fast u (copies_context ms) (counts_mix ms) op y)"

definition cache_decoded :: "'d System \<Rightarrow> 'd System" where
  "cache_decoded y =
     upd_cpu (\<lambda>c. c\<lparr>decode_cache :=
       decode_insert (decode_cache c) (pc (st c)) (cached_op_of (pipeline_context c))\<rparr>) y"

definition functional_step :: "'d Units \<Rightarrow> 'd System \<Rightarrow> 'd System" where
  "functional_step u y =
     (case decode_lookup (decode_cache (cpu y)) (pc (state y)) of
        Some op \<Rightarrow> run_cached u op y
      | None \<Rightarrow>
          let (ok, y1) = and_then (fetch_stage u (pc (state y)) y) decode_stage;
              (ok', y2) = (if ok then back_stages u (cache_decoded y1) else (False, y1))
          in if ok' then y2 else raise_pending y2)"

definition cycle_accurate_step :: "'d Units \<Rightarrow> 'd System \<Rightarrow> u32 \<times> 'd System" where
  "cycle_accurate_step u y =
     (let y1 = pipeline_turn u y;
          icache_miss = (cache_misses (icache (cpu y1)) > cache_misses (icache (cpu y)));
          dcache_miss = (cache_misses (dcache (cpu y1)) > cache_misses (dcache (cpu y)))
      in step_instruction u (ctx y1) icache_miss dcache_miss y1)"

definition run_cycle :: "'d Units \<Rightarrow> 'd System \<Rightarrow> 'd System" where
  "run_cycle u y0 =
     (let y = begin_cycle y0; ms = machine (cpu y) in
      if s_cycle_accurate ms then
        let (step_cycles, y1) = cycle_accurate_step u y
        in upd_cpu (advance_clock step_cycles) y1
      else if s_high_performance ms then upd_cpu tick_clock (functional_step u y)
      else upd_cpu tick_clock (pipeline_turn u y))"

definition run_cycle_baremetal :: "'d Units \<Rightarrow> 'd System \<Rightarrow> 'd System" where
  "run_cycle_baremetal u y0 =
     (let y = upd_ctx (\<lambda>x. x\<lparr>pending_exception := None, pending_tval := 0\<rparr>) (begin_cycle y0);
          hit = (if s_high_performance (machine (cpu y))
                 then decode_lookup (decode_cache (cpu y)) (pc (state y)) else None)
      in case hit of
           Some op \<Rightarrow> upd_cpu tick_clock (run_cached u op y)
         | None \<Rightarrow>
             let (ok, y1) = and_then (succeeded (run_fetch_stage_baremetal (handler u) y)) decode_stage;
                 (ok', y2) =
                   (if ok
                    then and_then (and_then (and_then (execute_stage u (cache_decoded y1))
                           (\<lambda>y. succeeded (run_memory_stage_baremetal u y))) writeback_stage)
                           (\<lambda>y. succeeded (run_commit_stage_baremetal y))
                    else (False, y1))
             in upd_cpu tick_clock (if ok' then y2 else raise_pending y2))"

text \<open>The batch: up to \<open>n\<close> instructions, fewer when the guest reports to the host or the run ends.\<close>

fun batch_loop :: "'d Units \<Rightarrow> bool \<Rightarrow> bool \<Rightarrow> nat \<Rightarrow> u32 \<Rightarrow> 'd System \<Rightarrow> u32 \<times> 'd System" where
  "batch_loop u copy_ctx inst_mix 0 cached_ops y = (cached_ops, y)"
| "batch_loop u copy_ctx inst_mix (Suc n) cached_ops y =
     (let (k, y1) =
        (case decode_lookup (decode_cache (cpu y)) (pc (state y)) of
           Some op \<Rightarrow> (cached_ops + 1, execute_cached_op_fast u copy_ctx inst_mix op y)
         | None \<Rightarrow> (cached_ops, run_cycle_baremetal u y))
      in if tohost (machine (cpu y1)) \<noteq> 0 \<or> \<not> is_running (machine (cpu y1)) then (k, y1)
         else batch_loop u copy_ctx inst_mix n k y1)"

definition run_fast_baremetal_batch :: "'d Units \<Rightarrow> u32 \<Rightarrow> 'd System \<Rightarrow> 'd System" where
  "run_fast_baremetal_batch u batch_size y =
     (let ms = machine (cpu y);
          (cached_ops, y1) = batch_loop u (copies_context ms) (counts_mix ms) (unat batch_size) 0 y
      in upd_cpu (batch_clock cached_ops) y1)"

end
