(* ===== verification/Fast_Path_Correct.thy ===== *)
theory Fast_Path_Correct
  imports Fast_Path
begin

text \<open>
  The cached fast path computes what the general path computes: an instruction replayed from the
  decode cache leaves the same system, up to the pipeline context, as operand fetch, execution,
  memory access, write-back and commit of the same decoded instruction.
\<close>

subsection \<open>Operation identifiers and opcodes\<close>

definition base_opcode :: "OperationId \<Rightarrow> Opcode option" where
  "base_opcode o' =
     (if o' > SRAW then None
      else if o' = LUI then Some Opcode_Lui else if o' = AUIPC then Some Opcode_Auipc
      else if o' = JAL then Some Opcode_Jal else if o' = JALR then Some Opcode_Jalr
      else if o' \<le> BGEU then Some Opcode_Branch else if o' \<le> LWU then Some Opcode_Load
      else if o' \<le> SD then Some Opcode_Store else if o' \<le> SRAI then Some Opcode_OpImm
      else if o' \<le> SRAIW then Some Opcode_OpImm32 else if o' \<le> AND_op then Some Opcode_Op
      else Some Opcode_Op32)"

lemma base_opcode_if: "base_opcode (if b then x else y) = (if b then base_opcode x else base_opcode y)"
  by simp

lemma base_opcode_other:
  "base_opcode (decode_system f3 f7 i) = None" "base_opcode (decode_ext_m op f3) = None"
  "base_opcode (decode_ext_a f7 f3 r2) = None" "base_opcode (decode_op_fp f3 f7 r2) = None"
  "base_opcode (decode_fma op f7) = None"
  unfolding decode_system_def decode_system_priv_def decode_system_csr_def decode_ext_m_def decode_ext_m_op_def
    decode_ext_m_op32_def decode_ext_a_def decode_fma_def decode_op_fp_def decode_op_fp_single_def
    decode_op_fp_double_def decode_op_fp_single_arith_def decode_op_fp_single_fcvt_def
    decode_op_fp_single_cmp_def decode_op_fp_double_arith_def decode_op_fp_double_fcvt_def
    decode_op_fp_double_cmp_def Let_def base_opcode_if
  by (simp_all add: base_opcode_def)

lemma base_opcode_large: "48 < o' \<Longrightarrow> base_opcode o' = None"
  by (simp add: base_opcode_def)

lemma base_opcode_v0: "base_opcode (decode_ext_v_range0 f6 f3) = None"
  unfolding decode_ext_v_range0_def base_opcode_if by (simp add: base_opcode_large)

lemma base_opcode_v1: "base_opcode (decode_ext_v_range1 f6 f3 vm i) = None"
  unfolding decode_ext_v_range1_def Let_def base_opcode_if by (simp add: base_opcode_large)

lemma base_opcode_v2: "base_opcode (decode_ext_v_range2 f6 f3 i) = None"
  unfolding decode_ext_v_range2_def Let_def base_opcode_if by (simp add: base_opcode_large)

lemma base_opcode_v: "base_opcode (decode_ext_v f3 f7 i) = None"
  unfolding decode_ext_v_def Let_def base_opcode_if base_opcode_v0 base_opcode_v1 base_opcode_v2
  by (simp add: base_opcode_large)

lemma base_opcode_f_d: "base_opcode (decode_ext_f_d op f3 f7 r2 i) = None"
  unfolding decode_ext_f_d_def Let_def base_opcode_if base_opcode_other
  by (simp add: base_opcode_def)

lemma base_opcode_i:
  "base_opcode (decode_ext_i op f3 f7 i) = Some b \<Longrightarrow> b = op"
  unfolding decode_ext_i_def decode_branch_def decode_load_def decode_store_def decode_op_imm_def
    decode_op_standard_def decode_op_imm32_def decode_op32_standard_def Let_def base_opcode_if base_opcode_other
  by (simp add: base_opcode_def split: if_splits)

lemma decoder_opcode:
  assumes "base_opcode (decoder i) = Some b"
  shows "opcode_of i = b"
proof -
  have "base_opcode VCHECK = None" by (simp add: base_opcode_large)
  then have "base_opcode (decode_ext_i (opcode_of i) (ucast (funct3_of i)) (funct7_of i) i) = Some b"
    using assms
    unfolding decoder_def Let_def base_opcode_if base_opcode_other base_opcode_v base_opcode_f_d
    by (simp only: option.distinct split: if_splits)
  from base_opcode_i [OF this] show ?thesis by simp
qed

subsection \<open>Contexts, interrupts and commit\<close>

definition with_ctx :: "PipelineContext \<Rightarrow> 'd System \<Rightarrow> 'd System" where
  "with_ctx x y = y\<lparr>cpu := (cpu y)\<lparr>pipeline_context := x\<rparr>\<rparr>"

definition same_but_context :: "'d System \<Rightarrow> 'd System \<Rightarrow> bool" where
  "same_but_context y y' \<longleftrightarrow> with_ctx initial_PipelineContext y = with_ctx initial_PipelineContext y'"

definition decoded_op :: "CachedOp \<Rightarrow> bool" where
  "decoded_op op \<longleftrightarrow>
     op_id op = decoder (ir op) \<and> opcode op = opcode_of (ir op) \<and> pending_exception op = None \<and>
     co_len op = (if cinsn op \<noteq> 0 then 2 else 4)"

lemma copy_from_sel [simp]:
  "opcode (copy_from x op) = opcode op" "op_id (copy_from x op) = op_id op"
  "rd (copy_from x op) = rd op" "rs1 (copy_from x op) = rs1 op" "rs2 (copy_from x op) = rs2 op"
  "imm (copy_from x op) = imm op" "cinsn (copy_from x op) = cinsn op"
  "funct3 (copy_from x op) = funct3 op" "funct5 (copy_from x op) = funct5 op"
  "pending_exception (copy_from x op) = pending_exception op" "ir (copy_from x op) = ir op"
  by (cases x; cases op; simp add: copy_from_def DecodedInstruction.defs)+

lemma raise_interrupt_ctx:
  assumes "cause \<noteq> 9"
  shows "(raise_exception (c\<lparr>pipeline_context := x\<rparr>) cause tval)\<lparr>pipeline_context := z\<rparr> =
    (raise_exception c cause tval)\<lparr>pipeline_context := z\<rparr>"
  using assms by (cases c) (simp add: raise_exception_def clear_pending_trap_def Let_def)

lemma interrupt_cause_not_ecall: "kInterruptCauseBit OR n \<noteq> 9"
proof
  assume "kInterruptCauseBit OR n = 9"
  then have "bit (kInterruptCauseBit OR n) 63 = bit (9 :: u64) 63" by simp
  then show False by (simp add: bit_simps)
qed

lemma handle_interrupts_ctx:
  "(handle_cached_interrupts (c\<lparr>pipeline_context := x\<rparr>))\<lparr>pipeline_context := z\<rparr> =
    (handle_cached_interrupts c)\<lparr>pipeline_context := z\<rparr>"
  by (simp add: handle_cached_interrupts_def dispatch_pending_interrupts_def Let_def
      raise_interrupt_ctx interrupt_cause_not_ecall)

lemma commit_normal:
  assumes "opcode x \<noteq> Opcode_System" "pending_exception x = None"
    "tkn x \<longrightarrow> jmp_pc x AND alignment_mask (st c) = 0"
  shows "commit_control_flow_and_traps (y\<lparr>cpu := c\<lparr>pipeline_context := x\<rparr>\<rparr>) =
    y\<lparr>cpu := handle_cached_interrupts (c\<lparr>pipeline_context := x,
       e_ccount := (if cinsn x \<noteq> 0 then e_ccount c + 1 else e_ccount c),
       st := sign_extend_pc ((st c)\<lparr>pc := (if tkn x then jmp_pc x
                                          else pc (st c) + (if cinsn x \<noteq> 0 then 2 else 4))\<rparr>)\<rparr>)\<rparr>"
proof -
  have [simp]: "enabled_interrupts (sign_extend_pc (s\<lparr>pc := p\<rparr>)) = enabled_interrupts s"
    "mip (sign_extend_pc (s\<lparr>pc := p\<rparr>)) = mip s" "mie (sign_extend_pc (s\<lparr>pc := p\<rparr>)) = mie s" for s p
    by (simp_all add: enabled_interrupts_def sign_extend_pc_def)
  show ?thesis
    using assms
    apply (cases "cinsn x = 0"; cases "tkn x")
    apply (simp_all add: commit_control_flow_and_traps_def has_fault_def ctx_def state_def upd_cpu_def
        upd_state_def handle_cached_interrupts_def dispatch_pending_interrupts_def Let_def)
    done
qed

lemma icount_ctx_swap:
  "c\<lparr>e_icount := n, pipeline_context := x\<rparr> = c\<lparr>pipeline_context := x, e_icount := n\<rparr>"
  "c\<lparr>e_icount := n, st := s, pipeline_context := x\<rparr> = c\<lparr>pipeline_context := x, e_icount := n, st := s\<rparr>"
  for c :: CPU
  by (cases c; simp)+


lemma set_reg_sel [simp]: "pc (set_reg r v s) = pc s" "misa (set_reg r v s) = misa s"
  by (simp_all add: set_reg_def)


lemma handle_interrupts_no_fault:
  "pending_exception (pipeline_context c) = None \<Longrightarrow>
     pending_exception (pipeline_context (handle_cached_interrupts c)) = None"
  by (simp add: handle_cached_interrupts_def dispatch_pending_interrupts_def Let_def
      raise_exception_def interrupt_cause_not_ecall clear_pending_trap_def)

lemma writeback_and_commit:
  assumes "pending_exception x = None" "\<not> is_vector_op (op_id x)"
    "opcode x \<notin> {Opcode_System, Opcode_LoadFp, Opcode_OpFp, Opcode_MAdd, Opcode_MSub, Opcode_NMAdd, Opcode_NMSub}"
    "integer_result x = r" "tkn x \<longrightarrow> jmp_pc x AND alignment_mask (st c) = 0"
  shows "and_then (writeback_stage (y\<lparr>cpu := c\<lparr>pipeline_context := x\<rparr>\<rparr>)) commit_stage =
    (True, y\<lparr>cpu := handle_cached_interrupts (c\<lparr>pipeline_context := x, e_icount := e_icount c + 1,
       e_ccount := (if cinsn x \<noteq> 0 then e_ccount c + 1 else e_ccount c),
       st := sign_extend_pc
         ((case r of None \<Rightarrow> st c | Some v \<Rightarrow> set_reg (rd x) v (st c))
           \<lparr>pc := (if tkn x then jmp_pc x else pc (st c) + (if cinsn x \<noteq> 0 then 2 else 4))\<rparr>)\<rparr>)\<rparr>)"
proof -
  define c1 where "c1 = c\<lparr>e_icount := e_icount c + 1,
    st := (case r of None \<Rightarrow> st c | Some v \<Rightarrow> set_reg (rd x) v (st c))\<rparr>"
  have wb: "writeback_stage (y\<lparr>cpu := c\<lparr>pipeline_context := x\<rparr>\<rparr>) = (True, y\<lparr>cpu := c1\<lparr>pipeline_context := x\<rparr>\<rparr>)"
    using assms(1-4) unfolding c1_def
    by (cases r) (simp_all add: writeback_stage_def writeback_registers_def succeeded_def has_fault_def ctx_def
        upd_cpu_def upd_state_def icount_ctx_swap Let_def)
  have c1: "alignment_mask (st c1) = alignment_mask (st c)" "pc (st c1) = pc (st c)" "e_ccount c1 = e_ccount c"
    by (cases r; simp add: alignment_mask_def c1_def)+
  have cm: "commit_control_flow_and_traps (y\<lparr>cpu := c1\<lparr>pipeline_context := x\<rparr>\<rparr>) = y\<lparr>cpu := handle_cached_interrupts
      (c1\<lparr>pipeline_context := x, e_ccount := (if cinsn x \<noteq> 0 then e_ccount c + 1 else e_ccount c),
       st := sign_extend_pc ((st c1)\<lparr>pc := (if tkn x then jmp_pc x else pc (st c) + (if cinsn x \<noteq> 0 then 2 else 4))\<rparr>)\<rparr>)\<rparr>"
    using commit_normal [of x c1 y] assms(1,3,5) unfolding c1 by blast
  show ?thesis
    unfolding wb and_then_def fst_conv snd_conv if_True commit_stage_def cm
    by (cases r) (simp_all add: succeeded_def has_fault_def ctx_def handle_interrupts_no_fault assms(1) c1_def icount_ctx_swap)
qed


subsection \<open>The stages on register instructions\<close>

definition alu_ctx :: "ArchState \<Rightarrow> PipelineContext \<Rightarrow> PipelineContext" where
  "alu_ctx s x =
     (let op = opcode x; xl = xlen (regs s); wb = (\<lambda>v. x\<lparr>tkn := False, wb_data := v\<rparr>) in
      if op = Opcode_Lui then wb (imm x)
      else if op = Opcode_Auipc then wb (pc s + imm x)
      else if op = Opcode_Jal then
        x\<lparr>tkn := True, wb_data := link_address s x, jmp_pc := pc s + imm x\<rparr>
      else if op = Opcode_Jalr then
        x\<lparr>tkn := True, wb_data := link_address s x, jmp_pc := low_target s ((rrs1 x + imm x) AND NOT 1)\<rparr>
      else if op = Opcode_Op then wb (aluInt (rrs1 x) (rrs2 x) (op_id x) xl)
      else if op = Opcode_OpImm then wb (aluInt (rrs1 x) (imm x) (op_id x) xl)
      else if op = Opcode_OpImm32 then wb (aluIntW (rrs1 x) (imm x) (op_id x))
      else if op = Opcode_Op32 then wb (aluIntW (rrs1 x) (rrs2 x) (op_id x))
      else x\<lparr>tkn := branchTaken (rrs1 x) (rrs2 x) (funct3 x) xl,
             jmp_pc := low_target s (pc s + imm x)\<rparr>)"

definition alu_opcodes :: "Opcode set" where
  "alu_opcodes = {Opcode_Lui, Opcode_Auipc, Opcode_Jal, Opcode_Jalr, Opcode_Op, Opcode_OpImm, Opcode_OpImm32,
     Opcode_Op32, Opcode_Branch}"

lemma alu_ctx_sel [simp]:
  "opcode (alu_ctx s x) = opcode x" "op_id (alu_ctx s x) = op_id x" "rd (alu_ctx s x) = rd x"
  "cinsn (alu_ctx s x) = cinsn x" "pending_exception (alu_ctx s x) = pending_exception x"
  "funct5 (alu_ctx s x) = funct5 x"
  by (simp_all add: alu_ctx_def Let_def)

lemma execute_integer_alu:
  "opcode (ctx y) \<in> alu_opcodes \<Longrightarrow> execute_integer y = upd_ctx (alu_ctx (state y)) y"
  unfolding alu_opcodes_def
  by (elim insertE emptyE) (simp_all add: execute_integer_def alu_ctx_def upd_ctx_def ctx_def state_def Let_def)

lemma memory_alu:
  assumes "opcode x \<in> alu_opcodes" "pending_exception x = None" "\<not> is_vector_op (op_id x)"
  shows "run_memory_stage handle (y\<lparr>cpu := c\<lparr>pipeline_context := x\<rparr>\<rparr>) =
    y\<lparr>cpu := c\<lparr>pipeline_context := x\<lparr>mem_wdata := rrs2 x\<rparr>\<rparr>\<rparr>"
proof -
  have n: "opcode x \<noteq> Opcode_Load" "opcode x \<noteq> Opcode_Amo" "opcode x \<noteq> Opcode_LoadFp"
    "opcode x \<noteq> Opcode_Store" "opcode x \<noteq> Opcode_StoreFp"
    using assms(1) by (auto simp: alu_opcodes_def)
  have l: "memory_load_phase handle (y\<lparr>cpu := c\<lparr>pipeline_context := x\<rparr>\<rparr>) = y\<lparr>cpu := c\<lparr>pipeline_context := x\<rparr>\<rparr>"
    using n assms(2) by (simp add: memory_load_phase_def is_atomic_load_def has_fault_def ctx_def)
  have s: "memory_store_phase handle (y\<lparr>cpu := c\<lparr>pipeline_context := x'\<rparr>\<rparr>) = y\<lparr>cpu := c\<lparr>pipeline_context := x'\<rparr>\<rparr>"
    if "opcode x' = opcode x" "pending_exception x' = None" for x'
    using n that
    by (simp add: memory_store_phase_def stores_integer_def ends_reservation_def has_fault_def ctx_def)
  show ?thesis
    using n assms(2,3)
    by (simp add: run_memory_stage_def l memory_prepare_store_data_def upd_ctx_def s ctx_def)
qed

lemma back_stages_alu:
  fixes c :: CPU
  assumes "opcode x \<in> alu_opcodes" "pending_exception x = None" "\<not> is_vector_op (op_id x)"
  defines "x1 \<equiv> alu_ctx (st c) (x\<lparr>fp_wb_enable := False, int_wb_from_fp := False\<rparr>)"
  assumes "tkn x1 \<longrightarrow> jmp_pc x1 AND alignment_mask (st c) = 0"
  shows "\<exists>x2. back_stages u (y\<lparr>cpu := c\<lparr>pipeline_context := x\<rparr>\<rparr>) =
    (True, y\<lparr>cpu := handle_cached_interrupts (c\<lparr>pipeline_context := x2, e_icount := e_icount c + 1,
       e_ccount := (if cinsn x \<noteq> 0 then e_ccount c + 1 else e_ccount c),
       st := sign_extend_pc
         ((if opcode x = Opcode_Branch then st c else set_reg (rd x) (wb_data x1) (st c))
           \<lparr>pc := (if tkn x1 then jmp_pc x1 else pc (st c) + (if cinsn x \<noteq> 0 then 2 else 4))\<rparr>)\<rparr>)\<rparr>)"
proof -
  let ?y = "\<lambda>c x. y\<lparr>cpu := c\<lparr>pipeline_context := x\<rparr>\<rparr>"
  let ?x2 = "x1\<lparr>mem_wdata := rrs2 x1\<rparr>"
  have ex: "execute_stage u (?y c x) = (True, ?y c x1)"
    using assms(1-3) execute_integer_alu [of "?y c (x\<lparr>fp_wb_enable := False, int_wb_from_fp := False\<rparr>)"]
    by (auto simp: execute_stage_def execute_core_def succeeded_def has_fault_def ctx_def upd_ctx_def
        x1_def alu_opcodes_def state_def)
  have x1: "opcode x1 \<in> alu_opcodes" "pending_exception x1 = None" "\<not> is_vector_op (op_id x1)"
    "rd x1 = rd x" "cinsn x1 = cinsn x" "opcode x1 = opcode x"
    using assms(1-3) by (simp_all add: x1_def)
  have mem: "memory_stage u (?y c x1) = (True, ?y c ?x2)"
    using memory_alu [where x = x1 and y = y and c = c and handle = "handler u"] x1
    by (simp add: memory_stage_def succeeded_def has_fault_def ctx_def)
  have r: "integer_result ?x2 = (if opcode x = Opcode_Branch then None else Some (wb_data x1))"
    using x1(1) x1(6) [symmetric] unfolding alu_opcodes_def
    by (elim insertE emptyE) (simp_all add: integer_result_def is_atomic_load_def)
  have p: "pending_exception ?x2 = None" "\<not> is_vector_op (op_id ?x2)"
    "opcode ?x2 \<notin> {Opcode_System, Opcode_LoadFp, Opcode_OpFp, Opcode_MAdd, Opcode_MSub, Opcode_NMAdd, Opcode_NMSub}"
    "tkn ?x2 \<longrightarrow> jmp_pc ?x2 AND alignment_mask (st c) = 0"
    using x1 assms(5) by (auto simp: alu_opcodes_def)
  note wc = writeback_and_commit [OF p(1-3) r p(4), of y]
  show ?thesis
    unfolding back_stages_def ex and_then_def fst_conv snd_conv mem if_True
    using wc x1(4,5) unfolding and_then_def
    by (intro exI [of _ ?x2]) (cases "opcode x = Opcode_Branch"; simp)
qed

lemma cached_alu_agrees:
  assumes "cached_alu s op = Some v" "base_opcode (op_id op) = Some (opcode op)" "xlen (regs s) = 64"
    "opcode x = opcode op" "op_id x = op_id op" "imm x = imm op"
    "rrs1 x = read_reg (regs s) (rs1 op)" "rrs2 x = read_reg (regs s) (rs2 op)"
  shows "opcode op \<in> alu_opcodes - {Opcode_Branch, Opcode_Jal, Opcode_Jalr} \<and> wb_data (alu_ctx s x) = v \<and> \<not> tkn (alu_ctx s x)"
proof -
  have sh: "unat ((ucast w :: u32) AND 31) = unat (w AND 31)" for w :: u64
  proof -
    have "ucast w AND (31 :: u32) = ucast (w AND 31)"
      by (rule bit_word_eqI) (auto simp: bit_simps)
    moreover have "unat (w AND 31) < 2 ^ 32"
      using word_and_le1 [of w 31] by (simp add: word_le_nat_alt)
    ultimately show ?thesis by (simp add: unsigned_ucast_eq take_bit_nat_eq_self)
  qed
  have m: "op_id op \<in> {ADD, SUB, AND_op, OR_op, XOR_op, SLL, SRL, SRA, SLT, SLTU, ADDW, SUBW, SLLW, SRLW,
      SRAW, ADDI, ANDI, ORI, XORI, SLLI, SRLI, SRAI, SLTI, SLTIU, ADDIW, SLLIW, SRLIW, SRAIW, LUI, AUIPC}"
    using assms(1) by (rule contrapos_pp) (simp add: cached_alu_def Let_def)
  show ?thesis
    using assms(1,2) m
    apply (elim insertE emptyE)
    apply (simp_all add: cached_alu_def base_opcode_def alu_ctx_def assms(3-) alu_opcodes_def aluInt_def aluIntW_def sh sext32_def cast_simps Let_def)
    done
qed

subsection \<open>The general path of a decoded instruction\<close>

definition operand_ctx :: "CachedOp \<Rightarrow> 'd System \<Rightarrow> PipelineContext" where
  "operand_ctx op y = (copy_from (ctx y) op)\<lparr>tlb_miss := False, pending_tval := 0,
     rrs1 := read_reg (regs (state y)) (rs1 op), rrs2 := read_reg (regs (state y)) (rs2 op), rcsr := 0\<rparr>"

lemma operand_ctx_sel [simp]:
  "opcode (operand_ctx op y) = opcode op" "op_id (operand_ctx op y) = op_id op"
  "rd (operand_ctx op y) = rd op" "imm (operand_ctx op y) = imm op" "cinsn (operand_ctx op y) = cinsn op"
  "funct3 (operand_ctx op y) = funct3 op" "pending_exception (operand_ctx op y) = pending_exception op"
  "rrs1 (operand_ctx op y) = read_reg (regs (state y)) (rs1 op)"
  "rrs2 (operand_ctx op y) = read_reg (regs (state y)) (rs2 op)"
  by (simp_all add: operand_ctx_def)

lemma fetch_operands_decoded:
  assumes "opcode op \<noteq> Opcode_System" "pending_exception op = None"
  shows "fetch_operands (load_decoded op y) = with_ctx (operand_ctx op y) y"
proof -
  let ?x = "(copy_from (pipeline_context (cpu y)) op)\<lparr>tlb_miss := False, pending_tval := 0\<rparr>"
  have d: "load_decoded op y = with_ctx ?x y" by (simp add: load_decoded_def upd_ctx_def with_ctx_def)
  have "pending_exception ?x = None" "opcode ?x \<noteq> Opcode_System" using assms by simp_all
  then have "fetch_operands (with_ctx ?x y) = with_ctx (?x\<lparr>rrs1 := read_reg (regs (st (cpu y))) (rs1 ?x),
      rrs2 := read_reg (regs (st (cpu y))) (rs2 ?x), rcsr := 0\<rparr>) y"
    by (simp add: fetch_operands_def with_ctx_def has_fault_def ctx_def state_def upd_ctx_def Let_def)
  then show ?thesis by (simp add: d operand_ctx_def ctx_def state_def)
qed

lemma with_ctx_with_ctx [simp]: "with_ctx x (with_ctx x' y) = with_ctx x y"
  by (simp add: with_ctx_def)

lemma commit_cached_ctx:
  "with_ctx z (commit_cached_branch_target op target y) = with_ctx z (y\<lparr>cpu := handle_cached_interrupts
     ((cpu y)\<lparr>pipeline_context := x, e_icount := e_icount (cpu y) + 1,
        e_ccount := (if cinsn op \<noteq> 0 then e_ccount (cpu y) + 1 else e_ccount (cpu y)),
        st := sign_extend_pc ((st (cpu y))\<lparr>pc := target\<rparr>)\<rparr>)\<rparr>)"
proof -
  let ?c = "(cpu y)\<lparr>st := sign_extend_pc ((st (cpu y))\<lparr>pc := target\<rparr>), e_icount := e_icount (cpu y) + 1,
    e_ccount := (if cinsn op \<noteq> 0 then e_ccount (cpu y) + 1 else e_ccount (cpu y))\<rparr>"
  have c: "(cpu y)\<lparr>pipeline_context := x, e_icount := e_icount (cpu y) + 1,
        e_ccount := (if cinsn op \<noteq> 0 then e_ccount (cpu y) + 1 else e_ccount (cpu y)),
        st := sign_extend_pc ((st (cpu y))\<lparr>pc := target\<rparr>)\<rparr> = ?c\<lparr>pipeline_context := x\<rparr>"
    by (cases "cpu y") simp
  show ?thesis
    unfolding c commit_cached_branch_target_def with_ctx_def upd_cpu_def by (simp add: handle_interrupts_ctx)
qed

lemma alu_ctx_fp [simp]:
  "wb_data (alu_ctx s (x\<lparr>fp_wb_enable := a, int_wb_from_fp := b\<rparr>)) = wb_data (alu_ctx s x)"
  "tkn (alu_ctx s (x\<lparr>fp_wb_enable := a, int_wb_from_fp := b\<rparr>)) = tkn (alu_ctx s x)"
  "jmp_pc (alu_ctx s (x\<lparr>fp_wb_enable := a, int_wb_from_fp := b\<rparr>)) = jmp_pc (alu_ctx s x)"
  by (simp_all add: alu_ctx_def Let_def link_address_def)

text \<open>The cached arm has put its result in the state; the general path ends in the same state.\<close>

lemma cached_equiv_alu:
  assumes op: "decoded_op op" "opcode op \<in> alu_opcodes" "\<not> is_vector_op (op_id op)"
    and wb: "st c = (if opcode op = Opcode_Branch then state y
                     else set_reg (rd op) (wb_data (alu_ctx (state y) (operand_ctx op y))) (state y))"
    and tg: "target = (let x1 = alu_ctx (state y) (operand_ctx op y) in
               if tkn x1 then jmp_pc x1 else pc (state y) + ucast (co_len op))"
    and al: "tkn (alu_ctx (state y) (operand_ctx op y)) \<longrightarrow>
               jmp_pc (alu_ctx (state y) (operand_ctx op y)) AND alignment_mask (state y) = 0"
    and c: "c\<lparr>pipeline_context := z, st := s\<rparr> = (cpu y)\<lparr>pipeline_context := z, st := s\<rparr>"
  shows "same_but_context (commit_cached_branch_target op target (y\<lparr>cpu := c\<rparr>))
    (execute_cached_fallback u (load_decoded op y))"
proof -
  let ?x = "operand_ctx op y"
  have n: "opcode op \<noteq> Opcode_System" using op(2) by (auto simp: alu_opcodes_def)
  have p: "pending_exception op = None" "co_len op = (if cinsn op \<noteq> 0 then 2 else 4)"
    using op(1) by (simp_all add: decoded_op_def)
  have o: "opcode ?x \<in> alu_opcodes" "pending_exception ?x = None" "\<not> is_vector_op (op_id ?x)"
    using op(2,3) p(1) by simp_all
  have "tkn (alu_ctx (st (cpu y)) (?x\<lparr>fp_wb_enable := False, int_wb_from_fp := False\<rparr>)) \<longrightarrow>
      jmp_pc (alu_ctx (st (cpu y)) (?x\<lparr>fp_wb_enable := False, int_wb_from_fp := False\<rparr>)) AND
      alignment_mask (st (cpu y)) = 0"
    using al by (simp add: state_def)
  note bsa = back_stages_alu [OF o this, of u y]
  let ?X = "alu_ctx (st (cpu y)) (?x\<lparr>fp_wb_enable := False, int_wb_from_fp := False\<rparr>)"
  have t: "(if tkn ?X then jmp_pc ?X else pc (st (cpu y)) + (if cinsn op \<noteq> 0 then 2 else 4)) = target"
    by (simp add: tg state_def Let_def p(2))
  have s: "(if opcode op = Opcode_Branch then st (cpu y) else set_reg (rd op) (wb_data ?X) (st (cpu y))) = st c"
    by (simp add: wb state_def)
  from bsa [unfolded operand_ctx_sel, unfolded t s]
  obtain x2 where bs: "back_stages u (y\<lparr>cpu := (cpu y)\<lparr>pipeline_context := ?x\<rparr>\<rparr>) =
    (True, y\<lparr>cpu := handle_cached_interrupts ((cpu y)\<lparr>pipeline_context := x2, e_icount := e_icount (cpu y) + 1,
       e_ccount := (if cinsn op \<noteq> 0 then e_ccount (cpu y) + 1 else e_ccount (cpu y)),
       st := sign_extend_pc ((st c)\<lparr>pc := target\<rparr>)\<rparr>)\<rparr>)"
    by blast
  have ec: "e_icount c = e_icount (cpu y)" "e_ccount c = e_ccount (cpu y)"
    using arg_cong [OF c, of e_icount] arg_cong [OF c, of e_ccount] by simp_all
  have cc: "c\<lparr>pipeline_context := x2, e_icount := a, e_ccount := b, st := s'\<rparr> =
     (cpu y)\<lparr>pipeline_context := x2, e_icount := a, e_ccount := b, st := s'\<rparr>" for a b s'
    using arg_cong [OF c, of "\<lambda>c. c\<lparr>pipeline_context := x2, e_icount := a, e_ccount := b, st := s'\<rparr>"] by simp
  show ?thesis
    unfolding same_but_context_def
    by (subst commit_cached_ctx [of _ _ _ _ x2])
      (simp add: execute_cached_fallback_def fetch_operands_decoded [OF n p(1)] with_ctx_def bs ec cc)
qed

subsection \<open>The register arms\<close>

lemma write_branchless_eq: "read_reg rf 0 = 0 \<Longrightarrow> write_branchless rf idx v = write_reg rf idx v"
  by (auto simp: write_branchless_def write_reg_def read_reg_def Let_def fun_upd_def fun_eq_iff
      intro!: RegisterFile.equality)

lemma cpu_st_ctx: "c\<lparr>st := s', pipeline_context := z, st := s\<rparr> = c\<lparr>pipeline_context := z, st := s\<rparr>" for c :: CPU
  by (cases c) simp

lemma base_not_vector: "base_opcode o' = Some b \<Longrightarrow> \<not> is_vector_op o'"
  using base_opcode_large [of o'] by (auto simp: is_vector_op_def word_le_nat_alt word_less_nat_alt)

lemma base_opcode_None: "base_opcode o' = None \<longleftrightarrow> 48 < o'"
  by (simp add: base_opcode_def)

lemma decoded_opcode: "decoded_op op \<Longrightarrow> base_opcode (op_id op) = Some b \<Longrightarrow> opcode op = b"
  using decoder_opcode by (auto simp: decoded_op_def)

lemma cached_alu_equiv:
  assumes "decoded_op op" "xlen (regs (state y)) = 64" "read_reg (regs (state y)) 0 = 0"
    "cached_alu (state y) op = Some v"
  shows "same_but_context
    (advance_cached_pc op (upd_state (\<lambda>s. s\<lparr>regs := write_branchless (regs s) (rd op) v\<rparr>) y))
    (execute_cached_fallback u (load_decoded op y))"
proof -
  have "op_id op \<le> SRAW"
    using assms(4) by (rule contrapos_pp) (auto simp: cached_alu_def Let_def)
  then obtain b where b: "base_opcode (op_id op) = Some b"
    using base_opcode_None [of "op_id op"] by (cases "base_opcode (op_id op)") auto
  then have bo: "base_opcode (op_id op) = Some (opcode op)" using decoded_opcode [OF assms(1) b] by simp
  have a: "opcode op \<in> alu_opcodes - {Opcode_Branch, Opcode_Jal, Opcode_Jalr}"
    "wb_data (alu_ctx (state y) (operand_ctx op y)) = v" "\<not> tkn (alu_ctx (state y) (operand_ctx op y))"
    using cached_alu_agrees [OF assms(4) bo assms(2), of "operand_ctx op y"] by simp_all
  have w: "(state y)\<lparr>regs := write_branchless (regs (state y)) (rd op) v\<rparr> = set_reg (rd op) v (state y)"
    by (simp add: set_reg_def write_branchless_eq assms(3))
  have e: "advance_cached_pc op (upd_state (\<lambda>s. s\<lparr>regs := write_branchless (regs s) (rd op) v\<rparr>) y) =
      commit_cached_branch_target op (pc (state y) + ucast (co_len op)) (y\<lparr>cpu := (cpu y)\<lparr>st := set_reg (rd op) v (state y)\<rparr>\<rparr>)"
    using w by (simp add: advance_cached_pc_def upd_state_def state_def)
  show ?thesis
    unfolding e
    by (rule cached_equiv_alu [where z = initial_PipelineContext and s = "state y"])
      (use a assms(1) b base_not_vector in \<open>simp_all add: Let_def cpu_st_ctx\<close>)
qed

lemma cached_jump_equiv:
  assumes "decoded_op op" "xlen (regs (state y)) = 64" "read_reg (regs (state y)) 0 = 0"
    "op_id op = JAL \<and> t = pc (state y) + imm op \<or>
     op_id op = JALR \<and> t = low_target (state y) ((read_reg (regs (state y)) (rs1 op) + imm op) AND NOT 1)"
    "t AND alignment_mask (state y) = 0"
  shows "same_but_context (cached_jump op t y) (execute_cached_fallback u (load_decoded op y))"
proof -
  have b: "base_opcode (op_id op) = Some (if op_id op = JAL then Opcode_Jal else Opcode_Jalr)"
    using assms(4) by (auto simp: base_opcode_def)
  have o: "opcode op = (if op_id op = JAL then Opcode_Jal else Opcode_Jalr)"
    by (rule decoded_opcode [OF assms(1) b])
  have len: "ucast (co_len op) = (if cinsn op \<noteq> 0 then 2 else 4 :: u64)"
    using assms(1) by (simp add: decoded_op_def)
  let ?X = "alu_ctx (state y) (operand_ctx op y)"
  let ?n = "pc (state y) + ucast (co_len op)"
  have x: "tkn ?X" "jmp_pc ?X = t" "wb_data ?X = ?n"
    using assms(4) o len by (auto simp: alu_ctx_def link_address_def Let_def)
  have w: "(if rd op \<noteq> 0 then set_reg (rd op) ?n (state y) else state y) = set_reg (rd op) ?n (state y)"
    using assms(3) by (auto simp: set_reg_def write_reg_def read_reg_def)
  let ?c = "(cpu y)\<lparr>pipeline_context := (pipeline_context (cpu y))\<lparr>tkn := True, jmp_pc := t\<rparr>,
    st := set_reg (rd op) ?n (state y)\<rparr>"
  have e: "cached_jump op t y = commit_cached_branch_target op t (y\<lparr>cpu := ?c\<rparr>)"
    using assms(5) w
    by (cases "rd op = 0") (simp_all add: cached_jump_def upd_ctx_def upd_state_def state_def alignment_mask_def
        set_reg_def Let_def)
  show ?thesis
    unfolding e
    by (rule cached_equiv_alu [where z = initial_PipelineContext and s = "state y"])
      (use x o assms(1,5) base_not_vector [OF b] in \<open>simp_all add: alu_opcodes_def Let_def\<close>)
qed

lemma cached_branch_equiv:
  assumes "decoded_op op" "xlen (regs (state y)) = 64" "op_id op \<in> {BEQ, BNE, BLT, BGE, BLTU, BGEU}"
    "(pc (state y) + imm op) AND alignment_mask (state y) = 0"
  shows "same_but_context
    (execute_cached_branch op (read_reg (regs (state y)) (rs1 op)) (read_reg (regs (state y)) (rs2 op)) y)
    (execute_cached_fallback u (load_decoded op y))"
proof -
  let ?r1 = "read_reg (regs (state y)) (rs1 op)" and ?r2 = "read_reg (regs (state y)) (rs2 op)"
  have b: "base_opcode (op_id op) = Some Opcode_Branch"
    using assms(3) by (auto simp: base_opcode_def)
  have o: "opcode op = Opcode_Branch" by (rule decoded_opcode [OF assms(1) b])
  let ?X = "alu_ctx (state y) (operand_ctx op y)"
  have x: "tkn ?X = branchTaken ?r1 ?r2 (funct3 op) 64" "jmp_pc ?X = pc (state y) + imm op"
    using o assms(2) by (simp_all add: alu_ctx_def low_target_def)
  let ?t = "branchTaken ?r1 ?r2 (funct3 op) 64"
  have e: "execute_cached_branch op ?r1 ?r2 y = commit_cached_branch_target op
      (if ?t then pc (state y) + imm op else pc (state y) + ucast (co_len op))
      (y\<lparr>cpu := (cpu y)\<lparr>pipeline_context := (pipeline_context (cpu y))\<lparr>tkn := ?t\<rparr>\<rparr>\<rparr>)"
    using assms(2) by (simp add: execute_cached_branch_def branchTaken_def upd_ctx_def Let_def)
  show ?thesis
    unfolding e
    by (rule cached_equiv_alu [where z = initial_PipelineContext and s = "state y"])
      (use x o assms(1,4) base_not_vector [OF b] in \<open>simp_all add: alu_opcodes_def state_def Let_def\<close>)
qed

subsection \<open>The memory arms\<close>

text \<open>Loads and stores that reach DRAM without translation.\<close>

definition direct_access :: "'d System \<Rightarrow> Address \<Rightarrow> u8 \<Rightarrow> bool" where
  "direct_access y addr f3 \<longleftrightarrow>
     s_high_performance (machine (cpu y)) \<and> \<not> data_translation (cpu y) \<and>
     effective_data_xlen (cpu y) = 64 \<and> is_aligned_for_funct3 addr f3 \<and>
     is_dram_access addr (access_size_for_funct3 f3)"

lemma access_bytes_ucast [simp]: "access_bytes (ucast f3) = access_size_for_funct3 f3"
proof -
  have "(ucast f3 :: u32) AND 3 = ucast (f3 AND 3)" by (rule bit_word_eqI) (auto simp: bit_simps)
  moreover have "unat (ucast (f3 AND 3) :: u32) = unat (f3 AND 3)"
    using word_and_le1 [of f3 3] by (simp add: unsigned_ucast_eq take_bit_nat_eq_self word_le_nat_alt)
  ultimately show ?thesis by (simp add: access_bytes_def access_size_for_funct3_def)
qed

lemma access_size_cases: "access_size_for_funct3 f3 \<in> {1, 2, 4, 8}"
proof -
  have "unat (f3 AND 3) \<le> 3" using word_and_le1 [of f3 3] by (simp add: word_le_nat_alt)
  then have "unat (f3 AND 3) \<in> {0, 1, 2, 3}" by auto
  then show ?thesis by (auto simp: access_size_for_funct3_def)
qed

lemma unat_and_mask: "unat (a AND mask n) = unat a mod 2 ^ n" for a :: u64
  unfolding take_bit_eq_mask [symmetric] unsigned_take_bit_eq by (rule take_bit_eq_mod)

lemma aligned_within_page:
  assumes "is_aligned_for_funct3 addr f3"
  shows "\<not> crosses_page addr (ucast f3)"
proof -
  define k where "k = unat (f3 AND 3)"
  have k: "k \<in> {0, 1, 2, 3}"
    using word_and_le1 [of f3 3] by (auto simp: k_def word_le_nat_alt)
  have sz: "access_size_for_funct3 f3 = 2 ^ k" by (simp add: access_size_for_funct3_def k_def)
  have m: "kPageMask = mask 12" by (simp add: kPageMask_def mask_eq_exp_minus_1)
  have "addr AND mask k = 0"
    using assms by (simp add: is_aligned_for_funct3_def sz mask_eq_exp_minus_1)
  then have al: "unat addr mod 2 ^ k = 0" using unat_and_mask [of addr k] by simp
  have o: "unat (addr AND kPageMask) = unat addr mod 4096" by (simp add: m unat_and_mask)
  have le: "unat (addr AND kPageMask) + 2 ^ k \<le> 4096"
  proof -
    have "(2 :: nat) ^ k dvd 4096" using k by auto
    then have "unat addr mod 4096 mod 2 ^ k = 0" using al by (simp add: mod_mod_cancel)
    then obtain j where j: "unat addr mod 4096 = 2 ^ k * j" by auto
    have "2 ^ k * j < 4096" unfolding j [symmetric] by simp
    then show ?thesis using k unfolding o j by auto
  qed
  have "unat ((addr AND kPageMask) + 2 ^ k) = unat (addr AND kPageMask) + 2 ^ k"
    using le k by (subst unat_add_lem [THEN iffD1]) (auto elim!: insertE)
  then show ?thesis using le by (simp add: crosses_page_def sz word_le_nat_alt not_less)
qed

lemma dram_not_framebuffer: "is_dram_access addr n \<Longrightarrow> \<not> addr < kFramebufferEnd"
  by (simp add: is_dram_access_iff word_less_nat_alt)

lemma direct_access_ctx [simp]:
  "direct_access (y\<lparr>cpu := (cpu y)\<lparr>pipeline_context := x\<rparr>\<rparr>) addr f3 = direct_access y addr f3"
  by (simp add: direct_access_def data_translation_def effective_data_privilege_def effective_data_xlen_def)

lemma loadInt_direct:
  assumes "direct_access y addr f3" "\<not> has_fault y" "\<not> is_amo_op (ctx y)"
  shows "loadInt handle addr f3 y = (ram_read_fast addr (ucast f3) (mmem (mmu y)), y)"
proof -
  have a: "load_address (cpu y) addr = addr" using assms(1) by (simp add: direct_access_def load_address_def)
  have al: "\<not> crosses_page addr (ucast f3)"
    using assms(1) aligned_within_page by (simp add: direct_access_def)
  have "read_page handle addr (ucast f3) y = (ram_read_fast addr (ucast f3) (mmem (mmu y)), y)"
    using assms(1) by (simp add: read_page_def direct_access_def a Let_def)
  then show ?thesis
    using assms(2,3) al by (simp add: loadInt_def target_read_def a amo_misaligned_read_def Let_def)
qed

lemma is_tohost_addrD: "\<not> is_tohost_addr ms addr \<Longrightarrow> \<not> is_tohost_address ms addr"
  by (auto simp: is_tohost_addr_def is_tohost_address_def)

lemma storeInt_direct:
  assumes "direct_access y addr f3" "\<not> has_fault y" "\<not> is_amo_op (ctx y)"
    "\<not> is_tohost_addr (machine (cpu y)) addr"
  shows "storeInt handle addr w f3 y = write_ram addr w (ucast f3) (record_old addr (ucast f3) y)"
proof -
  have a: "load_address (cpu y) addr = addr" using assms(1) by (simp add: direct_access_def load_address_def)
  have al: "\<not> crosses_page addr (ucast f3)"
    using assms(1) aligned_within_page by (simp add: direct_access_def)
  have d: "is_dram_access addr (access_size_for_funct3 f3)" using assms(1) by (simp add: direct_access_def)
  have r: "record_write addr (ucast f3) y = record_old addr (ucast f3) y"
    using d by (simp add: record_write_def record_old_def upd_cpu_def)
  have hp: "s_high_performance (machine (cpu (record_old addr (ucast f3) y)))"
    "machine (cpu (record_old addr (ucast f3) y)) = machine (cpu y)"
    using assms(1) by (simp_all add: direct_access_def record_old_def upd_cpu_def record_mem_write_def split: list.split)
  have t: "note_tohost addr w (ucast f3) (cpu (record_old addr (ucast f3) y)) = cpu (record_old addr (ucast f3) y)"
    using is_tohost_addrD [OF assms(4)] hp by (auto simp: note_tohost_def is_tohost_address_def Let_def)
  have "write_page handle addr w (ucast f3) y = write_ram addr w (ucast f3) (record_old addr (ucast f3) y)"
    using assms(1) dram_not_framebuffer [OF d] hp
    by (simp add: write_page_def direct_access_def issue_write_def a r t Let_def)
  then show ?thesis
    using assms(2,3) al by (simp add: storeInt_def target_write_def a amo_misaligned_write_def Let_def)
qed

lemma execute_memory_op:
  assumes "opcode x = Opcode_Load \<or> opcode x = Opcode_Store" "pending_exception x = None" "\<not> is_vector_op (op_id x)"
  shows "execute_core u (y\<lparr>cpu := c\<lparr>pipeline_context := x\<rparr>\<rparr>) =
    y\<lparr>cpu := c\<lparr>pipeline_context := x\<lparr>fp_wb_enable := False, int_wb_from_fp := False, tkn := False, mem_addr := rrs1 x + imm x\<rparr>\<rparr>\<rparr>"
  using assms
  by (elim disjE) (simp_all add: execute_core_def execute_integer_def has_fault_def ctx_def upd_ctx_def)

lemma back_stages_load:
  assumes "opcode x = Opcode_Load" "pending_exception x = None" "\<not> is_vector_op (op_id x)"
    "direct_access (y\<lparr>cpu := c\<rparr>) (rrs1 x + imm x) (funct3 x)"
  shows "\<exists>x2. back_stages u (y\<lparr>cpu := c\<lparr>pipeline_context := x\<rparr>\<rparr>) =
    (True, y\<lparr>cpu := handle_cached_interrupts (c\<lparr>pipeline_context := x2, e_icount := e_icount c + 1,
       e_ccount := (if cinsn x \<noteq> 0 then e_ccount c + 1 else e_ccount c),
       st := sign_extend_pc
         ((set_reg (rd x) (ram_read_fast (rrs1 x + imm x) (ucast (funct3 x)) (mmem (mmu y))) (st c))
           \<lparr>pc := pc (st c) + (if cinsn x \<noteq> 0 then 2 else 4)\<rparr>)\<rparr>)\<rparr>)"
proof -
  let ?a = "rrs1 x + imm x"
  let ?v = "ram_read_fast ?a (ucast (funct3 x)) (mmem (mmu y))"
  let ?x1 = "x\<lparr>fp_wb_enable := False, int_wb_from_fp := False, tkn := False, mem_addr := ?a\<rparr>"
  let ?x2 = "?x1\<lparr>mem_rdata := ?v, mem_wdata := rrs2 x\<rparr>"
  have ex: "execute_stage u (y\<lparr>cpu := c\<lparr>pipeline_context := x\<rparr>\<rparr>) = (True, y\<lparr>cpu := c\<lparr>pipeline_context := ?x1\<rparr>\<rparr>)"
    using assms(1-3) by (simp add: execute_stage_def execute_memory_op succeeded_def has_fault_def ctx_def)
  have ld: "loadInt h ?a (funct3 x) (y\<lparr>cpu := c\<lparr>pipeline_context := ?x1\<rparr>\<rparr>) = (?v, y\<lparr>cpu := c\<lparr>pipeline_context := ?x1\<rparr>\<rparr>)" for h
    using loadInt_direct [of "y\<lparr>cpu := c\<lparr>pipeline_context := ?x1\<rparr>\<rparr>" ?a "funct3 x" h]
      direct_access_ctx [where y = "y\<lparr>cpu := c\<rparr>" and x = ?x1 and addr = ?a and ?f3.0 = "funct3 x"] assms
    by (simp add: has_fault_def ctx_def is_amo_op_def)
  have mem: "memory_stage u (y\<lparr>cpu := c\<lparr>pipeline_context := ?x1\<rparr>\<rparr>) = (True, y\<lparr>cpu := c\<lparr>pipeline_context := ?x2\<rparr>\<rparr>)"
    using assms(1-3)
    by (simp add: memory_stage_def run_memory_stage_def memory_load_phase_def ld is_atomic_load_def
        memory_prepare_store_data_def memory_store_phase_def stores_integer_def ends_reservation_def
        succeeded_def has_fault_def ctx_def upd_ctx_def)
  have r: "integer_result ?x2 = Some ?v" using assms(1) by (simp add: integer_result_def)
  have p: "pending_exception ?x2 = None" "\<not> is_vector_op (op_id ?x2)"
    "opcode ?x2 \<notin> {Opcode_System, Opcode_LoadFp, Opcode_OpFp, Opcode_MAdd, Opcode_MSub, Opcode_NMAdd, Opcode_NMSub}"
    "tkn ?x2 \<longrightarrow> jmp_pc ?x2 AND alignment_mask (st c) = 0"
    using assms(1-3) by simp_all
  note wc = writeback_and_commit [OF p(1-3) r p(4), of y, simplified]
  show ?thesis
    unfolding back_stages_def ex and_then_def fst_conv snd_conv if_True mem
    using wc unfolding and_then_def by (intro exI [of _ ?x2]) simp
qed

lemma record_old_ctx: "record_old a f (y\<lparr>cpu := (cpu y)\<lparr>pipeline_context := x\<rparr>\<rparr>) =
   (record_old a f y)\<lparr>cpu := (cpu (record_old a f y))\<lparr>pipeline_context := x\<rparr>\<rparr>"
  by (simp add: record_old_def upd_cpu_def record_mem_write_def split: list.split)

lemma write_ram_ctx: "write_ram a w f (y\<lparr>cpu := (cpu y)\<lparr>pipeline_context := x\<rparr>\<rparr>) =
   (write_ram a w f y)\<lparr>cpu := (cpu (write_ram a w f y))\<lparr>pipeline_context := x\<rparr>\<rparr>"
  by (simp add: write_ram_def)

lemma store_keeps:
  "st (cpu (write_ram a w f (record_old a f y))) = st (cpu y)"
  "e_icount (cpu (write_ram a w f (record_old a f y))) = e_icount (cpu y)"
  "e_ccount (cpu (write_ram a w f (record_old a f y))) = e_ccount (cpu y)"
  by (simp_all add: write_ram_def record_old_def upd_cpu_def record_mem_write_def split: list.split)

lemma back_stages_store:
  assumes "opcode x = Opcode_Store" "pending_exception x = None" "\<not> is_vector_op (op_id x)"
    "direct_access y (rrs1 x + imm x) (funct3 x)" "\<not> is_tohost_addr (machine (cpu y)) (rrs1 x + imm x)"
  defines "y1 \<equiv> write_ram (rrs1 x + imm x) (rrs2 x) (ucast (funct3 x))
                 (record_old (rrs1 x + imm x) (ucast (funct3 x)) y)"
  shows "\<exists>x2. back_stages u (y\<lparr>cpu := (cpu y)\<lparr>pipeline_context := x\<rparr>\<rparr>) =
    (True, y1\<lparr>cpu := handle_cached_interrupts ((cpu y1)\<lparr>pipeline_context := x2, e_icount := e_icount (cpu y) + 1,
       e_ccount := (if cinsn x \<noteq> 0 then e_ccount (cpu y) + 1 else e_ccount (cpu y)),
       st := sign_extend_pc
         ((st (cpu y))\<lparr>reserved := 0, pc := pc (st (cpu y)) + (if cinsn x \<noteq> 0 then 2 else 4)\<rparr>)\<rparr>)\<rparr>)"
proof -
  let ?a = "rrs1 x + imm x"
  let ?x1 = "x\<lparr>fp_wb_enable := False, int_wb_from_fp := False, tkn := False, mem_addr := ?a\<rparr>"
  let ?x2 = "?x1\<lparr>mem_wdata := rrs2 x\<rparr>"
  let ?y = "\<lambda>x. y\<lparr>cpu := (cpu y)\<lparr>pipeline_context := x\<rparr>\<rparr>"
  have ex: "execute_stage u (?y x) = (True, ?y ?x1)"
    using assms(1-3) by (simp add: execute_stage_def execute_memory_op succeeded_def has_fault_def ctx_def)
  have st: "storeInt h ?a (rrs2 x) (funct3 x) (?y ?x2) = y1\<lparr>cpu := (cpu y1)\<lparr>pipeline_context := ?x2\<rparr>\<rparr>" for h
    using storeInt_direct [of "?y ?x2" ?a "funct3 x" h "rrs2 x"] assms(1-5)
    by (simp add: has_fault_def ctx_def is_amo_op_def record_old_ctx write_ram_ctx y1_def)
  define c2 where "c2 = (cpu y1)\<lparr>st := (st (cpu y))\<lparr>reserved := 0\<rparr>\<rparr>"
  have mem: "memory_stage u (?y ?x1) = (True, y1\<lparr>cpu := c2\<lparr>pipeline_context := ?x2\<rparr>\<rparr>)"
    using assms(1-3) st [of "handler u"]
    by (simp add: memory_stage_def run_memory_stage_def memory_load_phase_def is_atomic_load_def
        memory_prepare_store_data_def memory_store_phase_def stores_integer_def ends_reservation_def
        succeeded_def has_fault_def ctx_def upd_ctx_def upd_state_def c2_def y1_def store_keeps)
  have r: "integer_result ?x2 = None" using assms(1) by (simp add: integer_result_def is_atomic_load_def)
  have p: "pending_exception ?x2 = None" "\<not> is_vector_op (op_id ?x2)"
    "opcode ?x2 \<notin> {Opcode_System, Opcode_LoadFp, Opcode_OpFp, Opcode_MAdd, Opcode_MSub, Opcode_NMAdd, Opcode_NMSub}"
    "tkn ?x2 \<longrightarrow> jmp_pc ?x2 AND alignment_mask (st c2) = 0"
    using assms(1-3) by simp_all
  have ord: "c2\<lparr>pipeline_context := ?x2, e_icount := a, e_ccount := b, st := s'\<rparr> =
      (cpu y1)\<lparr>pipeline_context := ?x2, e_icount := a, e_ccount := b, st := s'\<rparr>" for a b s'
    by (cases "cpu y1") (simp add: c2_def)
  have c2: "e_icount c2 = e_icount (cpu y)" "e_ccount c2 = e_ccount (cpu y)" "st c2 = (st (cpu y))\<lparr>reserved := 0\<rparr>"
    by (simp_all add: c2_def y1_def store_keeps)
  note wc = writeback_and_commit [OF p(1-3) r p(4), of y1]
  show ?thesis
    unfolding back_stages_def ex and_then_def fst_conv snd_conv if_True mem
    using wc unfolding and_then_def by (intro exI [of _ ?x2]) (simp add: ord c2)
qed

lemma fast_load_direct:
  assumes "direct_access y addr f3"
  shows "try_fast_load addr f3 y = Some (ram_read_fast addr (ucast f3) (mmem (mmu y)))"
  using assms by (simp add: try_fast_load_def direct_access_def Let_def)

lemma fast_store_direct:
  assumes "direct_access y addr f3" "\<not> is_tohost_addr (machine (cpu y)) addr"
  shows "try_fast_store addr f3 w y = (True, write_ram addr w (ucast f3) (record_old addr (ucast f3) y))"
  using assms by (simp add: try_fast_store_def direct_access_def Let_def)

lemma note_mem_addr_ctx: "\<exists>x. note_mem_addr a y = y\<lparr>cpu := (cpu y)\<lparr>pipeline_context := x\<rparr>\<rparr>"
proof (cases "s_tuimode (machine (cpu y)) \<or> s_bp_trace (machine (cpu y))")
  case False
  then show ?thesis
    by (intro exI [of _ "pipeline_context (cpu y)"]) (simp add: note_mem_addr_def)
qed (auto simp: note_mem_addr_def upd_ctx_def)

lemma cached_load_equiv:
  assumes "decoded_op op" "read_reg (regs (state y)) 0 = 0" "op_id op \<in> {LB, LH, LW, LD, LBU, LHU, LWU}"
    "direct_access y (read_reg (regs (state y)) (rs1 op) + imm op) (funct3 op)"
  shows "same_but_context (execute_cached_load u op (read_reg (regs (state y)) (rs1 op)) y)
    (execute_cached_fallback u (load_decoded op y))"
proof -
  let ?a = "read_reg (regs (state y)) (rs1 op) + imm op"
  let ?v = "ram_read_fast ?a (ucast (funct3 op)) (mmem (mmu y))"
  let ?x = "operand_ctx op y"
  have b: "base_opcode (op_id op) = Some Opcode_Load" using assms(3) by (auto simp: base_opcode_def)
  have o: "opcode op = Opcode_Load" by (rule decoded_opcode [OF assms(1) b])
  have p: "pending_exception op = None" "ucast (co_len op) = (if cinsn op \<noteq> 0 then 2 else 4 :: u64)"
    using assms(1) by (simp_all add: decoded_op_def)
  obtain x' where x': "note_mem_addr ?a y = y\<lparr>cpu := (cpu y)\<lparr>pipeline_context := x'\<rparr>\<rparr>"
    using note_mem_addr_ctx by blast
  have fast: "execute_cached_load u op (read_reg (regs (state y)) (rs1 op)) y =
      commit_cached_branch_target op (pc (state y) + (if cinsn op \<noteq> 0 then 2 else 4))
        (y\<lparr>cpu := (cpu y)\<lparr>pipeline_context := x', st := set_reg (rd op) ?v (state y)\<rparr>\<rparr>)"
    using assms(2,4) x'
    unfolding state_def
    by (simp add: execute_cached_load_def fast_load_direct advance_cached_pc_def upd_state_def state_def
        set_reg_def write_branchless_eq p Let_def)
  have n: "opcode op \<noteq> Opcode_System" using o by simp
  have h: "opcode ?x = Opcode_Load" "pending_exception ?x = None" "\<not> is_vector_op (op_id ?x)"
    "direct_access (y\<lparr>cpu := cpu y\<rparr>) (rrs1 ?x + imm ?x) (funct3 ?x)"
    using o p assms(4) base_not_vector [OF b] by simp_all
  obtain x2 where bs: "back_stages u (y\<lparr>cpu := (cpu y)\<lparr>pipeline_context := ?x\<rparr>\<rparr>) =
    (True, y\<lparr>cpu := handle_cached_interrupts ((cpu y)\<lparr>pipeline_context := x2, e_icount := e_icount (cpu y) + 1,
       e_ccount := (if cinsn op \<noteq> 0 then e_ccount (cpu y) + 1 else e_ccount (cpu y)),
       st := sign_extend_pc ((set_reg (rd op) ?v (state y))\<lparr>pc := pc (state y) + (if cinsn op \<noteq> 0 then 2 else 4)\<rparr>)\<rparr>)\<rparr>)"
    using back_stages_load [OF h, of u] by (auto simp: state_def)
  show ?thesis
    unfolding same_but_context_def fast
    by (subst commit_cached_ctx [of _ _ _ _ x2])
      (simp add: execute_cached_fallback_def fetch_operands_decoded [OF n p(1)] with_ctx_def bs cpu_st_ctx)
qed

lemma cached_store_equiv:
  assumes "decoded_op op" "op_id op \<in> {SB, SH, SW, SD}"
    "direct_access y (read_reg (regs (state y)) (rs1 op) + imm op) (funct3 op)"
    "\<not> is_tohost_addr (machine (cpu y)) (read_reg (regs (state y)) (rs1 op) + imm op)"
  shows "same_but_context (execute_cached_store u op (read_reg (regs (state y)) (rs1 op)) (read_reg (regs (state y)) (rs2 op)) y)
    (execute_cached_fallback u (load_decoded op y))"
proof -
  let ?a = "read_reg (regs (state y)) (rs1 op) + imm op"
  let ?w = "read_reg (regs (state y)) (rs2 op)"
  let ?x = "operand_ctx op y"
  define y1 where "y1 = write_ram ?a ?w (ucast (funct3 op)) (record_old ?a (ucast (funct3 op)) y)"
  have b: "base_opcode (op_id op) = Some Opcode_Store" using assms(2) by (auto simp: base_opcode_def)
  have o: "opcode op = Opcode_Store" by (rule decoded_opcode [OF assms(1) b])
  have p: "pending_exception op = None" "ucast (co_len op) = (if cinsn op \<noteq> 0 then 2 else 4 :: u64)"
    using assms(1) by (simp_all add: decoded_op_def)
  obtain x' where x': "note_mem_addr ?a y = y\<lparr>cpu := (cpu y)\<lparr>pipeline_context := x'\<rparr>\<rparr>"
    using note_mem_addr_ctx by blast
  have y1: "st (cpu y1) = state y" "e_icount (cpu y1) = e_icount (cpu y)" "e_ccount (cpu y1) = e_ccount (cpu y)"
    by (simp_all add: y1_def store_keeps state_def)
  have fs: "try_fast_store ?a (funct3 op) ?w (y\<lparr>cpu := (cpu y)\<lparr>pipeline_context := x'\<rparr>\<rparr>) =
      (True, y1\<lparr>cpu := (cpu y1)\<lparr>pipeline_context := x'\<rparr>\<rparr>)"
    using fast_store_direct [of "y\<lparr>cpu := (cpu y)\<lparr>pipeline_context := x'\<rparr>\<rparr>" ?a "funct3 op" ?w] assms(3,4)
    by (simp add: record_old_ctx write_ram_ctx y1_def)
  have fast: "execute_cached_store u op (read_reg (regs (state y)) (rs1 op)) ?w y =
      commit_cached_branch_target op (pc (state y) + (if cinsn op \<noteq> 0 then 2 else 4))
        (y1\<lparr>cpu := (cpu y1)\<lparr>pipeline_context := x', st := (state y)\<lparr>reserved := 0\<rparr>\<rparr>\<rparr>)"
    using y1(1) x' fs unfolding state_def
    by (simp add: execute_cached_store_def advance_cached_pc_def upd_state_def p state_def Let_def)
  have n: "opcode op \<noteq> Opcode_System" using o by simp
  have h: "opcode ?x = Opcode_Store" "pending_exception ?x = None" "\<not> is_vector_op (op_id ?x)"
    "direct_access y (rrs1 ?x + imm ?x) (funct3 ?x)" "\<not> is_tohost_addr (machine (cpu y)) (rrs1 ?x + imm ?x)"
    using o p assms(3,4) base_not_vector [OF b] by simp_all
  obtain x2 where bs: "back_stages u (y\<lparr>cpu := (cpu y)\<lparr>pipeline_context := ?x\<rparr>\<rparr>) =
    (True, y1\<lparr>cpu := handle_cached_interrupts ((cpu y1)\<lparr>pipeline_context := x2, e_icount := e_icount (cpu y) + 1,
       e_ccount := (if cinsn op \<noteq> 0 then e_ccount (cpu y) + 1 else e_ccount (cpu y)),
       st := sign_extend_pc ((state y)\<lparr>reserved := 0, pc := pc (state y) + (if cinsn op \<noteq> 0 then 2 else 4)\<rparr>)\<rparr>)\<rparr>)"
    using back_stages_store [OF h, of u] by (auto simp: state_def y1_def)
  show ?thesis
    unfolding same_but_context_def fast
    by (subst commit_cached_ctx [of _ _ _ _ x2])
      (simp add: execute_cached_fallback_def fetch_operands_decoded [OF n p(1)] with_ctx_def bs cpu_st_ctx y1)
qed

lemma load_decoded_twice:
  "load_decoded op (load_decoded op y) = load_decoded op y"
  "load_decoded op (upd_cpu (\<lambda>c. c\<lparr>e_instmix := f c\<rparr>) (load_decoded op y)) =
     upd_cpu (\<lambda>c. c\<lparr>e_instmix := f c\<rparr>) (load_decoded op y)"
proof -
  have c: "(copy_from ((copy_from x op)\<lparr>tlb_miss := False, pending_tval := 0\<rparr>) op)\<lparr>tlb_miss := False, pending_tval := 0\<rparr> =
      (copy_from x op)\<lparr>tlb_miss := False, pending_tval := 0\<rparr>" for x
    by (cases x; cases op) (simp add: copy_from_def DecodedInstruction.defs)
  show "load_decoded op (load_decoded op y) = load_decoded op y"
    by (simp add: load_decoded_def upd_ctx_def c)
  show "load_decoded op (upd_cpu (\<lambda>c. c\<lparr>e_instmix := f c\<rparr>) (load_decoded op y)) =
     upd_cpu (\<lambda>c. c\<lparr>e_instmix := f c\<rparr>) (load_decoded op y)"
    by (cases "cpu y") (simp add: load_decoded_def upd_ctx_def upd_cpu_def c)
qed

lemma enter_cached_sel [simp]:
  "state (enter_cached cc mix op y) = state y" "machine (cpu (enter_cached cc mix op y)) = machine (cpu y)"
  "direct_access (enter_cached cc mix op y) a f3 = direct_access y a f3"
  by (simp_all add: enter_cached_def load_decoded_def upd_ctx_def upd_cpu_def state_def direct_access_def
      data_translation_def effective_data_privilege_def effective_data_xlen_def Let_def)

lemma load_decoded_entered:
  "load_decoded op (enter_cached True mix op y) = enter_cached True mix op y"
  by (simp add: enter_cached_def load_decoded_twice Let_def)

subsection \<open>The fast path is exact\<close>

definition replayable :: "'d System \<Rightarrow> CachedOp \<Rightarrow> bool" where
  "replayable y op \<longleftrightarrow>
     (let s = state y; o' = op_id op; r1 = read_reg (regs s) (rs1 op); a = r1 + imm op in
      (o' \<in> {BEQ, BNE, BLT, BGE, BLTU, BGEU, JAL} \<longrightarrow> (pc s + imm op) AND alignment_mask s = 0) \<and>
      (o' = JALR \<longrightarrow> (a AND NOT 1) AND alignment_mask s = 0) \<and>
      (o' \<in> {LB, LH, LW, LD, LBU, LHU, LWU} \<union> {SB, SH, SW, SD} \<longrightarrow> direct_access y a (funct3 op)) \<and>
      (o' \<in> {SB, SH, SW, SD} \<longrightarrow> \<not> is_tohost_addr (machine (cpu y)) a))"

text \<open>(C1)
  The cached fast path is exact. For an instruction that was decoded before, in the 64-bit personality,
  replaying it from the decode cache gives the same system, pipeline context aside, as fetching its
  operands and running it through execution, memory access, write-back and commit: registers,
  memory, program counter, counters, undo log and a taken interrupt agree. The hypotheses exclude
  what the two paths treat differently: jump targets that are misaligned without the C extension,
  and loads and stores that do not reach DRAM untranslated or hit the host communication word.
\<close>

theorem fast_path_exact:
  assumes "decoded_op op" "xlen (regs (state y)) = 64" "read_reg (regs (state y)) 0 = 0" "replayable y op"
  shows "same_but_context (execute_cached_op_fast u copy_ctx inst_mix op y)
    (execute_cached_fallback u (load_decoded op (enter_cached copy_ctx inst_mix op y)))"
proof -
  let ?y = "enter_cached copy_ctx inst_mix op y"
  let ?r1 = "read_reg (regs (state y)) (rs1 op)" and ?r2 = "read_reg (regs (state y)) (rs2 op)"
  note r = assms(4) [unfolded replayable_def Let_def]
  consider (alu) v where "cached_alu (state y) op = Some v"
    | (branch) "cached_alu (state y) op = None" "op_id op \<in> {BEQ, BNE, BLT, BGE, BLTU, BGEU}"
    | (jal) "cached_alu (state y) op = None" "op_id op = JAL" | (jalr) "cached_alu (state y) op = None" "op_id op = JALR"
    | (load) "cached_alu (state y) op = None" "op_id op \<in> {LB, LH, LW, LD, LBU, LHU, LWU}"
    | (store) "cached_alu (state y) op = None" "op_id op \<in> {SB, SH, SW, SD}"
    | (other) "cached_alu (state y) op = None" "op_id op \<notin> {BEQ, BNE, BLT, BGE, BLTU, BGEU, JAL, JALR} \<union>
        {LB, LH, LW, LD, LBU, LHU, LWU} \<union> {SB, SH, SW, SD}"
    by (cases "cached_alu (state y) op") auto
  then show ?thesis
  proof cases
    case alu
    then show ?thesis
      using cached_alu_equiv [of op ?y v u] assms by (simp add: execute_cached_op_fast_def Let_def)
  next
    case branch
    then have "execute_cached_op_fast u copy_ctx inst_mix op y = execute_cached_branch op ?r1 ?r2 ?y"
      by (simp only: execute_cached_op_fast_def Let_def enter_cached_sel option.case if_True)
    then show ?thesis
      using cached_branch_equiv [OF assms(1), of ?y u] assms(2) branch(2) r by (simp only: enter_cached_sel) blast
  next
    case jal
    then have "execute_cached_op_fast u copy_ctx inst_mix op y = cached_jump op (pc (state y) + imm op) ?y"
      by (simp add: execute_cached_op_fast_def execute_cached_jal_def Let_def)
    then show ?thesis
      using cached_jump_equiv [of op ?y "pc (state y) + imm op" u] assms jal r by simp
  next
    case jalr
    then have "execute_cached_op_fast u copy_ctx inst_mix op y = cached_jump op (low_target (state y) ((?r1 + imm op) AND NOT 1)) ?y"
      by (simp add: execute_cached_op_fast_def execute_cached_jalr_def Let_def)
    then show ?thesis
      using cached_jump_equiv [of op ?y "low_target (state y) ((?r1 + imm op) AND NOT 1)" u] assms jalr r
      by (simp add: low_target_def)
  next
    case load
    then have "execute_cached_op_fast u copy_ctx inst_mix op y = execute_cached_load u op ?r1 ?y"
      by (elim insertE emptyE) (simp_all add: execute_cached_op_fast_def Let_def)
    then show ?thesis
      using cached_load_equiv [OF assms(1), of ?y u] assms(3) load(2) r by (simp only: enter_cached_sel) blast
  next
    case store
    then have "execute_cached_op_fast u copy_ctx inst_mix op y = execute_cached_store u op ?r1 ?r2 ?y"
      by (elim insertE emptyE) (simp_all add: execute_cached_op_fast_def Let_def)
    then show ?thesis
      using cached_store_equiv [OF assms(1) store(2), of ?y u] store(2) r by (simp only: enter_cached_sel) blast
  next
    case other
    then have "execute_cached_op_fast u copy_ctx inst_mix op y =
        execute_cached_fallback u (if copy_ctx then ?y else load_decoded op ?y)"
      by (simp add: execute_cached_op_fast_def Let_def)
    then show ?thesis
      by (cases copy_ctx) (simp_all add: same_but_context_def load_decoded_entered)
  qed
qed

subsection \<open>An example\<close>

definition no_device :: "unit DeviceHandler" where
  "no_device i req resp s = (False, resp, s)"

definition example_units :: "unit Units" where
  "example_units =
     (let none = \<lparr>fr_fp_wb_data = 0, fr_fp_wb_enable = False, fr_int_wb_data = 0, fr_int_wb_enable = False\<rparr>
      in \<lparr>handler = no_device, fusedFp = (\<lambda>_ _ _ _ _ _ _ f. (none, f)), opFp = (\<lambda>_ _ _ _ _ _ f. (none, f)),
          execute_vector = (\<lambda>_ _ y. y), semihost = (\<lambda>_ _ y. y), step_instruction = (\<lambda>_ _ _ y. (1, y))\<rparr>)"

definition example_system :: "unit System" where
  "example_system =
     \<lparr>cpu = default_CPU, mmu = make_Mmu (\<lambda>_. 0) kDramBaseAddress kDramSize, system_bus = initial_TileLinkBus, framebuffer = None,
      devices = ()\<rparr>"

definition example_addi :: CachedOp where
  "example_addi =
     (cached_op_of initial_DecodedInstruction)
       \<lparr>cpc := 0x80000000, imm := 7, ir := 0x00728293, ir_org := 0x00728293, op_id := ADDI, opcode := Opcode_OpImm,
        rd := 5, rs1 := 5, co_valid := True, co_len := 4\<rparr>"

theorem fast_path_exact_witness:
  "same_but_context (execute_cached_op_fast example_units False False example_addi example_system)
     (execute_cached_fallback example_units
        (load_decoded example_addi (enter_cached False False example_addi example_system)))"
proof (rule fast_path_exact)
  show "decoded_op example_addi" by code_simp
  show "xlen (regs (state example_system)) = 64" "read_reg (regs (state example_system)) 0 = 0"
    by (simp_all add: example_system_def state_def default_CPU_def initial_ArchState_def
        initial_RegisterFile_def read_reg_def)
  show "replayable example_system example_addi"
    by (simp add: replayable_def example_addi_def Let_def)
qed

end
