(* ===== verification/Mmio_Devices.thy ===== *)
theory Mmio_Devices
  imports Memory_Access
begin

text \<open>
  The register-level devices behind the system bus: the power controller
  (\<^verbatim>\<open>src/device/Power.cpp\<close>), the real-time clock (\<^verbatim>\<open>Rtc.cpp\<close>), the serial port (\<^verbatim>\<open>Uart.cpp\<close>), the
  keyboard and mouse (\<^verbatim>\<open>InputDevice.cpp\<close>), the control registers of the frame buffer
  (\<^verbatim>\<open>Framebuffer.cpp\<close>) and the audio registers (\<^verbatim>\<open>Audio.cpp\<close>). Each device is a record and each
  \<^verbatim>\<open>handle_request\<close> a function of the request, the response it is given, the device and, where the
  device raises an interrupt or stops the machine, the hart. Input that reaches a device from a
  reader thread of the host is an operation of its own: the threads only ever append under the lock
  of the queue. The handlers always report the request as handled, so their result is the response.
\<close>

definition is_write_request :: "TlChannelA \<Rightarrow> bool" where
  "is_write_request req \<longleftrightarrow> a_opcode req = PutFullData \<or> a_opcode req = PutPartialData"

subsection \<open>Power controller\<close>

abbreviation (input) kPowerBaseAddress :: Address where "kPowerBaseAddress \<equiv> 0x00100000"
abbreviation (input) PowerCommand_Poweroff :: Word where "PowerCommand_Poweroff \<equiv> 0x5555"
abbreviation (input) PowerCommand_Crash :: Word where "PowerCommand_Crash \<equiv> 0x3333"
abbreviation (input) PowerCommand_Reboot :: Word where "PowerCommand_Reboot \<equiv> 0x7777"
abbreviation (input) PowerCommand_Exit :: Word where "PowerCommand_Exit \<equiv> 0x8888"

definition power_command :: "Word \<Rightarrow> MachineState \<Rightarrow> MachineState" where
  "power_command wdata ms =
     (let cmd = wdata AND 0xffff;
          status = ucast (drop_bit 16 wdata) :: u32
      in if cmd = PowerCommand_Poweroff then machine_stop (ms\<lparr>exit_code := status\<rparr>)
         else if cmd = PowerCommand_Crash
         then machine_stop (ms\<lparr>exit_code := (if status \<noteq> 0 then status else 1)\<rparr>)
         else if cmd = PowerCommand_Reboot then request_reboot ms
         else if cmd = PowerCommand_Exit then request_exit status ms
         else ms)"

definition power_handle_request :: "TlChannelA \<Rightarrow> TlChannelD \<Rightarrow> CPU \<Rightarrow> TlChannelD \<times> CPU" where
  "power_handle_request req resp0 c =
     (let resp = resp0\<lparr>d_error := False, d_data := 0\<rparr>;
          off = a_address req - kPowerBaseAddress
      in if is_write_request req then
           if off = 0 \<and> a_size req = 2
           then (resp, c\<lparr>machine := power_command (a_data req) (machine c)\<rparr>)
           else (resp\<lparr>d_error := True\<rparr>, c)
         else if a_opcode req = Get then
           if off = 0 \<and> a_size req = 2 then (resp\<lparr>d_data := 0\<rparr>, c)
           else (resp\<lparr>d_error := True\<rparr>, c)
         else (resp, c))"

subsection \<open>Real-time clock\<close>

record Rtc =
  alarm_time :: u64
  alarm_enabled :: bool
  alarm_status :: bool

definition initial_Rtc :: Rtc where
  "initial_Rtc = \<lparr>alarm_time = 0, alarm_enabled = False, alarm_status = False\<rparr>"

abbreviation (input) kRtcBaseAddress :: Address where "kRtcBaseAddress \<equiv> 0x70000000"
abbreviation (input) kRtcIrq :: int where "kRtcIrq \<equiv> 3"

definition rtc_ns :: "CPU \<Rightarrow> u64" where
  "rtc_ns c = mtime (clint_mmio c) * 100"

definition evaluate_alarm :: "Rtc \<Rightarrow> CPU \<Rightarrow> Rtc \<times> CPU" where
  "evaluate_alarm r c =
     (if alarm_enabled r \<and> \<not> alarm_status r \<and> rtc_ns c \<ge> alarm_time r
      then (r\<lparr>alarm_status := True\<rparr>, setIrq c kRtcIrq 1)
      else (r, c))"

definition rtc_read :: "Address \<Rightarrow> Rtc \<Rightarrow> CPU \<Rightarrow> Word" where
  "rtc_read off r c =
     (if off = 0 then rtc_ns c AND 0xffffffff
      else if off = 4 then drop_bit 32 (rtc_ns c)
      else if off = 0x10 then (if alarm_enabled r then 1 else 0)
      else if off = 0x18 then (if alarm_status r then 1 else 0)
      else 0)"

definition rtc_write :: "Address \<Rightarrow> Word \<Rightarrow> Rtc \<Rightarrow> CPU \<Rightarrow> Rtc \<times> CPU" where
  "rtc_write off wdata r c =
     (if off = 0x08 then (r\<lparr>alarm_time := (alarm_time r AND 0xffffffff00000000) OR wdata\<rparr>, c)
      else if off = 0x0c
      then (r\<lparr>alarm_time := (alarm_time r AND 0x00000000ffffffff) OR push_bit 32 wdata\<rparr>, c)
      else if off = 0x10 then (r\<lparr>alarm_enabled := (wdata \<noteq> 0)\<rparr>, c)
      else if off = 0x14
      then (r\<lparr>alarm_enabled := False, alarm_status := False\<rparr>, setIrq c kRtcIrq 0)
      else if off = 0x1c then (r\<lparr>alarm_status := False\<rparr>, setIrq c kRtcIrq 0)
      else (r, c))"

definition rtc_handle_request ::
    "TlChannelA \<Rightarrow> TlChannelD \<Rightarrow> Rtc \<Rightarrow> CPU \<Rightarrow> TlChannelD \<times> Rtc \<times> CPU" where
  "rtc_handle_request req resp0 r0 c0 =
     (let (r, c) = evaluate_alarm r0 c0;
          resp = resp0\<lparr>d_error := False, d_data := 0\<rparr>;
          off = a_address req - kRtcBaseAddress
      in if \<not> is_write_request req then (resp\<lparr>d_data := rtc_read off r c\<rparr>, r, c)
         else (resp, rtc_write off (a_data req) r c))"

subsection \<open>Serial port\<close>

abbreviation (input) kUartBaseAddress :: Address where "kUartBaseAddress \<equiv> 0x10000000"
abbreviation (input) kUartLcrDlabMask :: Word where "kUartLcrDlabMask \<equiv> 0x80"
abbreviation (input) kUartLsrDataReady :: Word where "kUartLsrDataReady \<equiv> 0x01"
abbreviation (input) kUartLsrThreTemt :: Word where "kUartLsrThreTemt \<equiv> 0x60"
abbreviation (input) kUartRegRbrThrDll :: Address where "kUartRegRbrThrDll \<equiv> 0x00"
abbreviation (input) kUartRegIerDlm :: Address where "kUartRegIerDlm \<equiv> 0x01"
abbreviation (input) kUartRegIirFcr :: Address where "kUartRegIirFcr \<equiv> 0x02"
abbreviation (input) kUartRegLcr :: Address where "kUartRegLcr \<equiv> 0x03"
abbreviation (input) kUartRegMcr :: Address where "kUartRegMcr \<equiv> 0x04"
abbreviation (input) kUartRegLsr :: Address where "kUartRegLsr \<equiv> 0x05"
abbreviation (input) kUartRegMsr :: Address where "kUartRegMsr \<equiv> 0x06"
abbreviation (input) kUartRegScr :: Address where "kUartRegScr \<equiv> 0x07"
abbreviation (input) kUartRegInvalid :: Address where "kUartRegInvalid \<equiv> 0xffffffffffffffff"
abbreviation (input) D_UART_IRQ_NUM :: int where "D_UART_IRQ_NUM \<equiv> 3"
abbreviation (input) kMaxRxFifoSize :: nat where "kMaxRxFifoSize \<equiv> 2048"

definition uart_reg_byte :: "Address \<Rightarrow> Address" where
  "uart_reg_byte raw =
     (let k = raw AND 0x07 in
      if k = kUartRegRbrThrDll then kUartRegRbrThrDll
      else if k = kUartRegIerDlm then kUartRegIerDlm
      else if k = kUartRegIirFcr then kUartRegIirFcr
      else if k = kUartRegLcr then kUartRegLcr
      else if k = kUartRegMcr then kUartRegMcr
      else if k = kUartRegLsr then kUartRegLsr
      else if k = kUartRegMsr then kUartRegMsr
      else if k = kUartRegScr then kUartRegScr
      else kUartRegInvalid)"

definition uart_reg_word :: "Address \<Rightarrow> Address" where
  "uart_reg_word raw =
     (if raw = 0x00 then kUartRegRbrThrDll
      else if raw = 0x04 then kUartRegIerDlm
      else if raw = 0x08 then kUartRegIirFcr
      else if raw = 0x0C then kUartRegLcr
      else if raw = 0x10 then kUartRegMcr
      else if raw = 0x14 then kUartRegLsr
      else if raw = 0x18 then kUartRegMsr
      else if raw = 0x1C then kUartRegScr
      else kUartRegInvalid)"

text \<open>The register stride is inferred from the first access that tells the two layouts apart.\<close>

definition uart_reg :: "Address \<Rightarrow> int \<Rightarrow> Address \<times> int" where
  "uart_reg address mode0 =
     (let raw = address - kUartBaseAddress;
          mode =
            (if mode0 < 0 then
               let mode1 = (if raw = 0x01 \<or> raw = 0x02 \<or> raw = 0x03 \<or> raw = 0x05 \<or> raw = 0x06 \<or> raw = 0x07
                            then 0 else mode0);
                   mode2 = (if raw = 0x08 \<or> raw = 0x0C \<or> raw = 0x10 \<or> raw = 0x14 \<or> raw = 0x18 \<or> raw = 0x1C
                            then 2 else mode1)
               in max mode2 0
             else mode0)
      in (if mode = 2 then uart_reg_word raw else uart_reg_byte raw, mode))"

record Uart =
  uart_reg_shift :: int
  uart_lcr :: Word
  uart_ier :: Word
  uart_mcr :: Word
  uart_scr :: Word
  uart_dll :: Word
  uart_dlm :: Word
  tx_irq_pending :: bool
  fcr_fifo_enabled :: bool
  rx_fifo :: "u8 list"
  rx_ready :: bool
  pty_is_open :: bool
  pty_out :: "u8 list"

definition initial_Uart :: Uart where
  "initial_Uart =
     \<lparr>uart_reg_shift = - 1, uart_lcr = 0, uart_ier = 0, uart_mcr = 0, uart_scr = 0, uart_dll = 0,
      uart_dlm = 0, tx_irq_pending = False, fcr_fifo_enabled = True, rx_fifo = [], rx_ready = False,
      pty_is_open = False, pty_out = []\<rparr>"

definition update_uart_irq :: "bool \<Rightarrow> Word \<Rightarrow> bool \<Rightarrow> CPU \<Rightarrow> CPU" where
  "update_uart_irq uart_rx_ready ier tx_pending c =
     (let rx_irq_enabled = (ier AND 0x1 \<noteq> 0);
          tx_irq_enabled = (ier AND 0x2 \<noteq> 0);
          irq = (rx_irq_enabled \<and> uart_rx_ready \<or> tx_irq_enabled \<and> tx_pending)
      in setIrq c D_UART_IRQ_NUM (if irq then 1 else 0))"

definition uart_update :: "Uart \<Rightarrow> CPU \<Rightarrow> CPU" where
  "uart_update u = update_uart_irq (rx_fifo u \<noteq> []) (uart_ier u) (tx_irq_pending u)"

definition dlab_enabled :: "Uart \<Rightarrow> bool" where
  "dlab_enabled u \<longleftrightarrow> uart_lcr u AND kUartLcrDlabMask \<noteq> 0"

definition uart_receive :: "Uart \<Rightarrow> CPU \<Rightarrow> Word \<times> Uart \<times> CPU" where
  "uart_receive u c =
     (let (data, rest) = (case rx_fifo u of [] \<Rightarrow> (0, []) | b # bs \<Rightarrow> (ucast b, bs));
          u' = u\<lparr>rx_fifo := rest, rx_ready := (rest \<noteq> [])\<rparr>
      in (data, u', uart_update u' c))"

definition uart_iir :: "Uart \<Rightarrow> CPU \<Rightarrow> Word \<times> Uart \<times> CPU" where
  "uart_iir u c =
     (let (iir_val, u', c') =
            (if rx_fifo u \<noteq> [] then (0x04, u, c)
             else if tx_irq_pending u \<and> uart_ier u AND 0x2 \<noteq> 0 then
               let u1 = u\<lparr>tx_irq_pending := False\<rparr>
               in (0x02, u1, update_uart_irq False (uart_ier u1) (tx_irq_pending u1) c)
             else (0x01, u, c))
      in (if fcr_fifo_enabled u' then iir_val OR 0xC0 else iir_val, u', c'))"

definition uart_read :: "Address \<Rightarrow> Uart \<Rightarrow> CPU \<Rightarrow> Word \<times> Uart \<times> CPU" where
  "uart_read sel u c =
     (if sel = kUartRegRbrThrDll then
        if dlab_enabled u then (uart_dll u, u, c) else uart_receive u c
      else if sel = kUartRegIerDlm then (if dlab_enabled u then uart_dlm u else uart_ier u, u, c)
      else if sel = kUartRegIirFcr then uart_iir u c
      else if sel = kUartRegLcr then (uart_lcr u, u, c)
      else if sel = kUartRegMcr then (uart_mcr u, u, c)
      else if sel = kUartRegLsr
      then (kUartLsrThreTemt OR (if rx_fifo u \<noteq> [] then kUartLsrDataReady else 0), u, c)
      else if sel = kUartRegMsr then (0xB0, u, c)
      else if sel = kUartRegScr then (uart_scr u, u, c)
      else (0, u, c))"

text \<open>
  A transmitted byte goes to the pseudo terminal when one is open and to the terminal interface;
  without that interface and without a pseudo terminal it goes to the standard output.
\<close>

definition emit_byte :: "u8 \<Rightarrow> CPU \<Rightarrow> CPU" where
  "emit_byte ch c =
     (let ms = machine c in c\<lparr>machine := ms\<lparr>console_out := console_out ms @ [ch]\<rparr>\<rparr>)"

definition uart_transmit :: "u8 \<Rightarrow> Uart \<Rightarrow> CPU \<Rightarrow> Uart \<times> CPU" where
  "uart_transmit ch u c =
     (let u1 = (if pty_is_open u then u\<lparr>pty_out := pty_out u @ [ch]\<rparr> else u);
          c1 = (if s_tuimode (machine c) then emit_byte ch c
                else if \<not> pty_is_open u then emit_byte ch c
                else c);
          u2 = u1\<lparr>tx_irq_pending := True\<rparr>
      in (u2, uart_update u2 c1))"

definition uart_write :: "Address \<Rightarrow> Word \<Rightarrow> Uart \<Rightarrow> CPU \<Rightarrow> Uart \<times> CPU" where
  "uart_write sel wdata u c =
     (if sel = kUartRegRbrThrDll then
        if dlab_enabled u then (u\<lparr>uart_dll := wdata AND 0xff\<rparr>, c)
        else uart_transmit (ucast (wdata AND 0xff)) u c
      else if sel = kUartRegIerDlm then
        if dlab_enabled u then (u\<lparr>uart_dlm := wdata AND 0xff\<rparr>, c)
        else
          let u1 = u\<lparr>uart_ier := wdata AND 0x0f\<rparr>;
              u2 = (if uart_ier u1 AND 0x2 \<noteq> 0 then u1\<lparr>tx_irq_pending := True\<rparr> else u1)
          in (u2, uart_update u2 c)
      else if sel = kUartRegIirFcr then
        let u1 = u\<lparr>fcr_fifo_enabled := (wdata AND 0x01 \<noteq> 0)\<rparr>;
            u2 = (if wdata AND 0x02 \<noteq> 0 then u1\<lparr>rx_fifo := [], rx_ready := False\<rparr> else u1)
        in (u2, uart_update u2 c)
      else if sel = kUartRegLcr then (u\<lparr>uart_lcr := wdata AND 0xff\<rparr>, c)
      else if sel = kUartRegMcr then (u\<lparr>uart_mcr := wdata AND 0x1f\<rparr>, c)
      else if sel = kUartRegMsr then (u, c)
      else if sel = kUartRegScr then (u\<lparr>uart_scr := wdata AND 0xff\<rparr>, c)
      else (u, c))"

definition uart_handle_request ::
    "TlChannelA \<Rightarrow> TlChannelD \<Rightarrow> Uart \<Rightarrow> CPU \<Rightarrow> TlChannelD \<times> Uart \<times> CPU" where
  "uart_handle_request req resp u0 c =
     (let (sel, mode) = uart_reg (a_address req) (uart_reg_shift u0);
          u = u0\<lparr>uart_reg_shift := mode\<rparr>
      in if sel = kUartRegInvalid then
           (if a_opcode req = Get then resp\<lparr>d_data := 0\<rparr> else resp, u, c)
         else if a_opcode req = Get then
           let (data, u', c') = uart_read sel u c in (resp\<lparr>d_data := data\<rparr>, u', c')
         else (resp, uart_write sel (a_data req) u c))"

definition fifo_push :: "u8 \<Rightarrow> u8 list \<Rightarrow> u8 list" where
  "fifo_push byte q = (if length q < kMaxRxFifoSize then q @ [byte] else q)"

definition push_rx_byte :: "u8 \<Rightarrow> Uart \<Rightarrow> Uart" where
  "push_rx_byte byte u =
     (if length (rx_fifo u) < kMaxRxFifoSize
      then u\<lparr>rx_fifo := rx_fifo u @ [byte], rx_ready := True\<rparr> else u)"

text \<open>The bodies of the two reader threads, on the bytes that the host has delivered.\<close>

definition stdin_byte :: "u8 \<Rightarrow> Uart \<Rightarrow> CPU \<Rightarrow> Uart \<times> CPU" where
  "stdin_byte byte u c =
     (if byte = 17 then (u, c\<lparr>machine := (machine c)\<lparr>is_running := False\<rparr>\<rparr>)
      else
        let u1 = u\<lparr>rx_fifo := fifo_push byte (rx_fifo u)\<rparr>
        in (u1\<lparr>rx_ready := (rx_fifo u1 \<noteq> [])\<rparr>, c))"

definition pty_bytes :: "u8 list \<Rightarrow> Uart \<Rightarrow> Uart" where
  "pty_bytes buf u =
     (if buf = [] then u else u\<lparr>rx_fifo := fold fifo_push buf (rx_fifo u), rx_ready := True\<rparr>)"

definition non_tui_poll_input :: "Uart \<Rightarrow> CPU \<Rightarrow> CPU" where
  "non_tui_poll_input u c =
     (if s_tuimode (machine c) then update_uart_irq (rx_ready u) (uart_ier u) (tx_irq_pending u) c
      else if \<not> rx_ready u \<and> \<not> tx_irq_pending u then c
      else uart_update u c)"

definition is_interrupt_pending :: "Uart \<Rightarrow> bool" where
  "is_interrupt_pending u \<longleftrightarrow>
     uart_ier u AND 0x1 \<noteq> 0 \<and> rx_fifo u \<noteq> [] \<or> uart_ier u AND 0x2 \<noteq> 0 \<and> tx_irq_pending u"

subsection \<open>Keyboard and mouse\<close>

record MouseEvent =
  ev_dx :: "32 word"
  ev_dy :: "32 word"
  ev_buttons :: u8

record InputDevice =
  key_queue :: "Word list"
  mouse_queue :: "MouseEvent list"

definition initial_InputDevice :: InputDevice where
  "initial_InputDevice = \<lparr>key_queue = [], mouse_queue = []\<rparr>"

abbreviation (input) kInputBaseAddress :: Address where "kInputBaseAddress \<equiv> 0x30000010"
abbreviation (input) InputRegister_KeyboardRead :: Address where "InputRegister_KeyboardRead \<equiv> 0x0"
abbreviation (input) InputRegister_KeyboardStatus :: Address where "InputRegister_KeyboardStatus \<equiv> 0x4"
abbreviation (input) InputRegister_MouseRead :: Address where "InputRegister_MouseRead \<equiv> 0x8"
abbreviation (input) InputRegister_MouseStatus :: Address where "InputRegister_MouseStatus \<equiv> 0xC"

definition pack_mouse :: "MouseEvent \<Rightarrow> Word" where
  "pack_mouse ev =
     (let buttons = ucast (ev_buttons ev) AND 0xFF :: u32;
          dx = ev_dx ev AND 0xFFF;
          dy = ev_dy ev AND 0xFFF
      in ucast (buttons OR push_bit 8 dx OR push_bit 20 dy))"

definition read_key :: "InputDevice \<Rightarrow> Word \<times> InputDevice" where
  "read_key d = (case key_queue d of [] \<Rightarrow> (0, d) | k # ks \<Rightarrow> (k, d\<lparr>key_queue := ks\<rparr>))"

definition read_mouse :: "InputDevice \<Rightarrow> Word \<times> InputDevice" where
  "read_mouse d =
     (case mouse_queue d of [] \<Rightarrow> (0, d) | ev # evs \<Rightarrow> (pack_mouse ev, d\<lparr>mouse_queue := evs\<rparr>))"

definition input_handle_request ::
    "TlChannelA \<Rightarrow> TlChannelD \<Rightarrow> InputDevice \<Rightarrow> TlChannelD \<times> InputDevice" where
  "input_handle_request req resp0 d =
     (let resp = resp0\<lparr>d_error := False, d_data := 0\<rparr>;
          off = a_address req - kInputBaseAddress
      in if is_write_request req then (resp\<lparr>d_error := True\<rparr>, d)
         else if a_opcode req = Get then
           if off = InputRegister_KeyboardRead
           then (let (data, d') = read_key d in (resp\<lparr>d_data := data\<rparr>, d'))
           else if off = InputRegister_KeyboardStatus
           then (resp\<lparr>d_data := (if key_queue d = [] then 0 else 1)\<rparr>, d)
           else if off = InputRegister_MouseRead
           then (let (data, d') = read_mouse d in (resp\<lparr>d_data := data\<rparr>, d'))
           else if off = InputRegister_MouseStatus
           then (resp\<lparr>d_data := (if mouse_queue d = [] then 0 else 1)\<rparr>, d)
           else (resp, d)
         else (resp, d))"

definition push_key :: "Word \<Rightarrow> InputDevice \<Rightarrow> InputDevice" where
  "push_key key_event d =
     (if length (key_queue d) < 256 then d\<lparr>key_queue := key_queue d @ [key_event]\<rparr> else d)"

definition push_mouse :: "MouseEvent \<Rightarrow> InputDevice \<Rightarrow> InputDevice" where
  "push_mouse ev d =
     (if length (mouse_queue d) < 256 then d\<lparr>mouse_queue := mouse_queue d @ [ev]\<rparr> else d)"

subsection \<open>Frame buffer registers\<close>

abbreviation (input) FramebufferRegister_Width :: Address where "FramebufferRegister_Width \<equiv> 0x0"
abbreviation (input) FramebufferRegister_Height :: Address where "FramebufferRegister_Height \<equiv> 0x4"
abbreviation (input) FramebufferRegister_Format :: Address where "FramebufferRegister_Format \<equiv> 0x8"
abbreviation (input) FramebufferRegister_Flush :: Address where "FramebufferRegister_Flush \<equiv> 0xC"

definition initial_Framebuffer :: Framebuffer where
  "initial_Framebuffer =
     \<lparr>recreate_display_resources = False, fb_width = 320, fb_height = 200, fb_format = 0,
      fb_mem = (\<lambda>_. 0), fb_dirty = False, fb_tui_dirty = True\<rparr>"

definition framebuffer_contains :: "Address \<Rightarrow> bool" where
  "framebuffer_contains addr \<longleftrightarrow>
     addr \<ge> kFramebufferBaseAddress \<and> addr < kFramebufferBaseAddress + kFramebufferSize \<and>
     \<not> (addr - kFramebufferBaseAddress \<ge> 0x10 \<and> addr - kFramebufferBaseAddress < 0x20)"

definition fb_write_register :: "Address \<Rightarrow> Word \<Rightarrow> Framebuffer \<Rightarrow> Framebuffer" where
  "fb_write_register off wdata fb =
     (let v = ucast wdata :: 32 word in
      if off = FramebufferRegister_Width then
        if v \<noteq> fb_width fb \<and> sint v > 0 \<and> sint v \<le> 2048
        then fb\<lparr>fb_width := v, recreate_display_resources := True\<rparr> else fb
      else if off = FramebufferRegister_Height then
        if v \<noteq> fb_height fb \<and> sint v > 0 \<and> sint v \<le> 2048
        then fb\<lparr>fb_height := v, recreate_display_resources := True\<rparr> else fb
      else if off = FramebufferRegister_Format then
        if v \<noteq> fb_format fb \<and> (v = 0 \<or> v = 1)
        then fb\<lparr>fb_format := v, recreate_display_resources := True\<rparr> else fb
      else if off = FramebufferRegister_Flush then
        if wdata = 1 then fb\<lparr>fb_dirty := True, fb_tui_dirty := True\<rparr> else fb
      else fb)"

definition fb_read_register :: "Address \<Rightarrow> Framebuffer \<Rightarrow> Word" where
  "fb_read_register off fb =
     (if off = FramebufferRegister_Width then scast (fb_width fb)
      else if off = FramebufferRegister_Height then scast (fb_height fb)
      else if off = FramebufferRegister_Format then scast (fb_format fb)
      else 0)"

definition fb_mem_size :: nat where
  "fb_mem_size = unat (kFramebufferSize - 0x1000)"

definition framebuffer_handle_request ::
    "TlChannelA \<Rightarrow> TlChannelD \<Rightarrow> Framebuffer \<Rightarrow> TlChannelD \<times> Framebuffer" where
  "framebuffer_handle_request req resp0 fb =
     (let resp = resp0\<lparr>d_error := False, d_data := 0\<rparr>;
          off = a_address req - kFramebufferBaseAddress;
          fb_offset = unat (off - 0x1000);
          bytes = 2 ^ unat (a_size req) :: nat
      in if is_write_request req then
           if off < 0x1000 then (resp, fb_write_register off (a_data req) fb)
           else if off < kFramebufferSize then
             if fb_offset + bytes \<le> fb_mem_size
             then (resp, fb\<lparr>fb_mem := write_bytes (fb_mem fb) fb_offset (le_bytes bytes (a_data req)),
                            fb_dirty := True, fb_tui_dirty := True\<rparr>)
             else (resp, fb)
           else (resp\<lparr>d_error := True\<rparr>, fb)
         else if a_opcode req = Get then
           if off < 0x1000 then (resp\<lparr>d_data := fb_read_register off fb\<rparr>, fb)
           else if off < kFramebufferSize then
             if fb_offset + bytes \<le> fb_mem_size
             then (resp\<lparr>d_data := le_word (host_bytes (fb_mem fb) fb_offset bytes)\<rparr>, fb)
             else (resp, fb)
           else (resp\<lparr>d_error := True\<rparr>, fb)
         else (resp, fb))"

subsection \<open>Audio registers\<close>

record Audio =
  current_channel :: nat
  sample_address :: "nat \<Rightarrow> Address"
  sample_length :: "nat \<Rightarrow> Word"
  sample_rate :: "nat \<Rightarrow> Word"
  audio_volume :: "nat \<Rightarrow> Word"
  audio_panning :: "nat \<Rightarrow> Word"
  music_address :: Address
  music_length :: Word
  music_volume :: Word
  music_looping :: Word

definition initial_Audio :: Audio where
  "initial_Audio =
     \<lparr>current_channel = 0, sample_address = (\<lambda>_. 0), sample_length = (\<lambda>_. 0), sample_rate = (\<lambda>_. 0),
      audio_volume = (\<lambda>_. 127), audio_panning = (\<lambda>_. 128), music_address = 0, music_length = 0,
      music_volume = 100, music_looping = 0\<rparr>"

abbreviation (input) kAudioBaseAddress :: Address where "kAudioBaseAddress \<equiv> 0x30200000"

text \<open>The playback commands have empty bodies in this build, so a command write changes nothing.\<close>

definition audio_write :: "Address \<Rightarrow> Word \<Rightarrow> Audio \<Rightarrow> Audio" where
  "audio_write off wdata d =
     (let ch = current_channel d in
      if off < 0x100 then
        if off = 0x00 then d\<lparr>current_channel := nat (min (max (sint (ucast wdata :: 32 word)) 0) 7)\<rparr>
        else if off = 0x04 then d\<lparr>sample_address := (sample_address d)(ch := wdata)\<rparr>
        else if off = 0x08 then d\<lparr>sample_length := (sample_length d)(ch := wdata)\<rparr>
        else if off = 0x0C then d\<lparr>sample_rate := (sample_rate d)(ch := wdata)\<rparr>
        else if off = 0x10 then d\<lparr>audio_volume := (audio_volume d)(ch := wdata)\<rparr>
        else if off = 0x14 then d\<lparr>audio_panning := (audio_panning d)(ch := wdata)\<rparr>
        else d
      else if off < 0x120 then
        if off = 0x100 then d\<lparr>music_address := wdata\<rparr>
        else if off = 0x104 then d\<lparr>music_length := wdata\<rparr>
        else if off = 0x10C then d\<lparr>music_volume := wdata\<rparr>
        else if off = 0x110 then d\<lparr>music_looping := wdata\<rparr>
        else d
      else d)"

definition audio_read :: "Address \<Rightarrow> Audio \<Rightarrow> Word" where
  "audio_read off d =
     (let ch = current_channel d in
      if off < 0x100 then
        if off = 0x00 then of_nat ch
        else if off = 0x04 then sample_address d ch
        else if off = 0x08 then sample_length d ch
        else if off = 0x0C then sample_rate d ch
        else if off = 0x10 then audio_volume d ch
        else if off = 0x14 then audio_panning d ch
        else 0
      else if off < 0x120 then
        if off = 0x100 then music_address d
        else if off = 0x104 then music_length d
        else if off = 0x10C then music_volume d
        else if off = 0x110 then music_looping d
        else 0
      else 0)"

definition audio_handle_request :: "TlChannelA \<Rightarrow> TlChannelD \<Rightarrow> Audio \<Rightarrow> TlChannelD \<times> Audio" where
  "audio_handle_request req resp0 d =
     (let off = a_address req - kAudioBaseAddress;
          resp = resp0\<lparr>d_opcode := (if is_write_request req then AccessAck else AccessAckData),
                      d_size := a_size req, d_source := a_source req, d_error := False\<rparr>
      in if is_write_request req then (resp, audio_write off (a_data req) d)
         else (resp\<lparr>d_data := audio_read off d\<rparr>, d))"

subsection \<open>Bounded queues\<close>

text \<open>
  The input side of a device is a queue of bounded capacity: an arrival is appended while there is
  room and dropped otherwise, and a read returns and removes the oldest entry, or 0. \<open>queue_run\<close> runs
  arrivals (\<open>Some e\<close>) and reads (\<open>None\<close>) on a device, \<open>queue_spec\<close> on the list alone.
\<close>

fun queue_run :: "('e \<Rightarrow> 's \<Rightarrow> 's) \<Rightarrow> ('s \<Rightarrow> Word \<times> 's) \<Rightarrow> 'e option list \<Rightarrow> 's \<Rightarrow> Word list" where
  "queue_run push pop [] s = []"
| "queue_run push pop (Some e # ops) s = queue_run push pop ops (push e s)"
| "queue_run push pop (None # ops) s = fst (pop s) # queue_run push pop ops (snd (pop s))"

fun queue_spec :: "nat \<Rightarrow> ('e \<Rightarrow> Word) \<Rightarrow> 'e option list \<Rightarrow> 'e list \<Rightarrow> Word list" where
  "queue_spec cap val [] q = []"
| "queue_spec cap val (Some e # ops) q = queue_spec cap val ops (if length q < cap then q @ [e] else q)"
| "queue_spec cap val (None # ops) [] = 0 # queue_spec cap val ops []"
| "queue_spec cap val (None # ops) (e # q) = val e # queue_spec cap val ops q"

locale input_queue =
  fixes contents :: "'s \<Rightarrow> 'e list"
    and push :: "'e \<Rightarrow> 's \<Rightarrow> 's"
    and pop :: "'s \<Rightarrow> Word \<times> 's"
    and val :: "'e \<Rightarrow> Word"
    and cap :: nat
    and readable :: "'s \<Rightarrow> bool"
  assumes push_contents:
      "contents (push e s) = (if length (contents s) < cap then contents s @ [e] else contents s)"
    and push_readable: "readable s \<Longrightarrow> readable (push e s)"
    and pop_value: "readable s \<Longrightarrow> fst (pop s) = (case contents s of [] \<Rightarrow> 0 | e # _ \<Rightarrow> val e)"
    and pop_contents: "readable s \<Longrightarrow> contents (snd (pop s)) = tl (contents s)"
    and pop_readable: "readable s \<Longrightarrow> readable (snd (pop s))"
begin

lemma run_refines: "readable s \<Longrightarrow> queue_run push pop ops s = queue_spec cap val ops (contents s)"
proof (induction ops arbitrary: s)
  case (Cons op ops)
  show ?case
  proof (cases op)
    case None
    then show ?thesis
      using Cons by (cases "contents s") (simp_all add: pop_value pop_contents pop_readable)
  next
    case (Some e)
    then show ?thesis using Cons by (simp add: push_contents push_readable)
  qed
qed simp

end

definition get_request :: "Address \<Rightarrow> TlChannelA" where
  "get_request addr = initial_TlChannelA\<lparr>a_opcode := Get, a_size := 2, a_address := addr\<rparr>"

definition uart_pop :: "Uart \<times> CPU \<Rightarrow> Word \<times> Uart \<times> CPU" where
  "uart_pop s =
     (let (resp, s') = uart_handle_request (get_request kUartBaseAddress) initial_TlChannelD (fst s) (snd s)
      in (d_data resp, s'))"

definition input_pop :: "Address \<Rightarrow> InputDevice \<Rightarrow> Word \<times> InputDevice" where
  "input_pop addr d =
     (let (resp, d') = input_handle_request (get_request addr) initial_TlChannelD d in (d_data resp, d'))"

lemma uart_reg_base: "fst (uart_reg kUartBaseAddress mode) = kUartRegRbrThrDll"
  by (simp add: uart_reg_def uart_reg_word_def uart_reg_byte_def Let_def)

lemma get_request_sel [simp]:
  "a_opcode (get_request a) = Get" "a_address (get_request a) = a" "is_write_request (get_request a) = False"
  by (simp_all add: get_request_def is_write_request_def)

lemma uart_pop_receive:
  "\<not> dlab_enabled u \<Longrightarrow> \<exists>mode. uart_pop (u, c) = uart_receive (u\<lparr>uart_reg_shift := mode\<rparr>) c"
  by (intro exI [of _ "snd (uart_reg kUartBaseAddress (uart_reg_shift u))"])
    (simp add: uart_pop_def uart_handle_request_def uart_reg_base case_prod_beta Let_def uart_read_def
      dlab_enabled_def uart_receive_def)

interpretation serial: input_queue "\<lambda>s. rx_fifo (fst s)" "\<lambda>b s. (push_rx_byte b (fst s), snd s)" uart_pop
  ucast kMaxRxFifoSize "\<lambda>s. \<not> dlab_enabled (fst s)"
proof unfold_locales
  fix s :: "Uart \<times> CPU" assume "\<not> dlab_enabled (fst s)"
  then obtain mode where p: "uart_pop s = uart_receive ((fst s)\<lparr>uart_reg_shift := mode\<rparr>) (snd s)"
    using uart_pop_receive [of "fst s" "snd s"] by auto
  show "fst (uart_pop s) = (case rx_fifo (fst s) of [] \<Rightarrow> 0 | e # _ \<Rightarrow> ucast e)"
    "rx_fifo (fst (snd (uart_pop s))) = tl (rx_fifo (fst s))"
    by (simp_all add: p uart_receive_def Let_def split: list.split)
  show "\<not> dlab_enabled (fst (snd (uart_pop s)))"
    using \<open>\<not> dlab_enabled (fst s)\<close> by (simp add: p uart_receive_def Let_def dlab_enabled_def case_prod_beta)
qed (simp_all add: push_rx_byte_def dlab_enabled_def)

interpretation keyboard: input_queue key_queue push_key "input_pop kInputBaseAddress" id 256 "\<lambda>_. True"
  by unfold_locales
    (simp_all add: push_key_def input_pop_def input_handle_request_def read_key_def Let_def split: list.split)

interpretation mouse: input_queue mouse_queue push_mouse "input_pop 0x30000018" pack_mouse 256 "\<lambda>_. True"
  by unfold_locales
    (simp_all add: push_mouse_def input_pop_def input_handle_request_def read_mouse_def Let_def split: list.split)

text \<open>(C19)
  Input is delivered in order: for any interleaving of arriving bytes, key codes and mouse events
  with guest reads of the data registers, the values read are those of a queue with 2048 (serial
  port, with the divisor latch closed) or 256 entries (keyboard and mouse), which drops what arrives
  when it is full and reads as 0 when it is empty.
\<close>
theorem input_delivered_in_order:
  assumes "\<not> dlab_enabled u"
  shows "queue_run (\<lambda>b s. (push_rx_byte b (fst s), snd s)) uart_pop bytes (u, c) = queue_spec 2048 ucast bytes (rx_fifo u) \<and>
    queue_run push_key (input_pop 0x30000010) keys d = queue_spec 256 id keys (key_queue d) \<and>
    queue_run push_mouse (input_pop 0x30000018) events d = queue_spec 256 pack_mouse events (mouse_queue d)"
  using assms serial.run_refines [where s = "(u, c)" and ops = bytes] keyboard.run_refines [where s = d and ops = keys]
    mouse.run_refines [where s = d and ops = events]
  by simp

theorem input_delivered_in_order_witness:
  "\<not> dlab_enabled initial_Uart \<and>
   queue_run (\<lambda>b s. (push_rx_byte b (fst s), snd s)) uart_pop [Some 0x41, Some 0x42, None, None, None]
     (initial_Uart, default_CPU) = [0x41, 0x42, 0] \<and>
   queue_run push_key (input_pop 0x30000010) [Some 7, None, None] initial_InputDevice = [7, 0]"
proof -
  have l: "\<not> dlab_enabled initial_Uart" by (simp add: initial_Uart_def dlab_enabled_def)
  show ?thesis
    using l input_delivered_in_order [OF l, where bytes = "[Some 0x41, Some 0x42, None, None, None]"
        and c = default_CPU and keys = "[Some 7, None, None]" and d = initial_InputDevice]
    by (simp add: initial_Uart_def initial_InputDevice_def)
qed

subsection \<open>The serial port\<close>

definition uart_ok :: "Uart \<Rightarrow> bool" where
  "uart_ok u \<longleftrightarrow>
     length (rx_fifo u) \<le> 2048 \<and> rx_ready u = (rx_fifo u \<noteq> []) \<and> uart_reg_shift u \<in> {- 1, 0, 2} \<and>
     uart_lcr u \<le> 0xff \<and> uart_ier u \<le> 0xf \<and> uart_mcr u \<le> 0x1f \<and> uart_scr u \<le> 0xff \<and>
     uart_dll u \<le> 0xff \<and> uart_dlm u \<le> 0xff"

inductive uart_step :: "Uart \<times> CPU \<Rightarrow> Uart \<times> CPU \<Rightarrow> bool" where
  guest_access: "uart_step (u, c) (snd (uart_handle_request req resp u c))"
| host_byte: "uart_step (u, c) (push_rx_byte b u, c)"
| host_stdin: "uart_step (u, c) (stdin_byte b u c)"
| host_pty: "uart_step (u, c) (pty_bytes buf u, c)"
| poll: "uart_step (u, c) (u, non_tui_poll_input u c)"

lemma uart_reg_shift_ok: "k \<in> {- 1, 0, 2} \<Longrightarrow> snd (uart_reg a k) \<in> {0, 2}"
  by (auto simp: uart_reg_def Let_def)

lemma and_mask_le [simp]:
  "w AND 0xff \<le> (0xff :: Word)" "w AND 0x1f \<le> (0x1f :: Word)" "w AND 0x0f \<le> (0x0f :: Word)"
  by (rule word_and_le1)+

lemma uart_read_ok: "uart_ok u \<Longrightarrow> uart_ok (fst (snd (uart_read sel u c)))"
  by (auto simp: uart_read_def uart_receive_def uart_iir_def uart_ok_def Let_def split: list.split)

lemma uart_write_ok: "uart_ok u \<Longrightarrow> uart_ok (fst (uart_write sel w u c))"
  by (simp add: uart_write_def uart_transmit_def uart_ok_def Let_def)

lemma uart_handle_ok:
  assumes "uart_ok u" shows "uart_ok (fst (snd (uart_handle_request req resp u c)))"
proof -
  let ?u = "u\<lparr>uart_reg_shift := snd (uart_reg (a_address req) (uart_reg_shift u))\<rparr>"
  have "uart_ok ?u"
    using assms uart_reg_shift_ok [of "uart_reg_shift u" "a_address req"] by (auto simp: uart_ok_def)
  then show ?thesis
    by (simp add: uart_handle_request_def Let_def case_prod_beta uart_read_ok uart_write_ok)
qed

lemma fifo_push_length: "length q \<le> 2048 \<Longrightarrow> length (fifo_push b q) \<le> 2048 \<and> fifo_push b q \<noteq> []"
  by (auto simp: fifo_push_def)

lemma fold_fifo_push:
  "length q \<le> 2048 \<Longrightarrow> length (fold fifo_push bs q) \<le> 2048 \<and> (bs \<noteq> [] \<or> q \<noteq> [] \<longrightarrow> fold fifo_push bs q \<noteq> [])"
  by (induction bs arbitrary: q) (auto dest: fifo_push_length)

lemma uart_step_ok: "uart_step s s' \<Longrightarrow> uart_ok (fst s) \<Longrightarrow> uart_ok (fst s')"
proof (induction rule: uart_step.induct)
  case (host_stdin u c b)
  then show ?case using fifo_push_length [of "rx_fifo u" b] by (simp add: stdin_byte_def uart_ok_def Let_def)
next
  case (guest_access u c req resp)
  then show ?case by (simp add: uart_handle_ok)
next
  case (host_pty u c buf)
  then show ?case using fold_fifo_push [of "rx_fifo u" buf] by (simp add: pty_bytes_def uart_ok_def)
qed (auto simp: push_rx_byte_def uart_ok_def)

text \<open>(C28)
  In every state of the serial port that guest accesses, arriving bytes and polls can reach from
  reset, the receive queue holds at most 2048 bytes, the ready flag the reader threads publish says
  whether it is empty, the register stride is undetermined, bytes or words, and every register holds
  only the bits it implements.
\<close>
theorem uart_reachable_ok:
  assumes "uart_step\<^sup>*\<^sup>* (initial_Uart, c) (u, c')"
  shows "uart_ok u"
proof -
  have "uart_ok (fst s')" if "uart_step\<^sup>*\<^sup>* s s'" "uart_ok (fst s)" for s s'
    using that by (induction rule: rtranclp_induct) (auto dest: uart_step_ok)
  from this [OF assms] show ?thesis by (simp add: uart_ok_def initial_Uart_def)
qed

theorem uart_reachable_ok_witness:
  "uart_ok (push_rx_byte 0x41 initial_Uart) \<and> rx_fifo (push_rx_byte 0x41 initial_Uart) = [0x41]"
proof -
  have "uart_step\<^sup>*\<^sup>* (initial_Uart, default_CPU) (push_rx_byte 0x41 initial_Uart, default_CPU)"
    by (intro r_into_rtranclp uart_step.host_byte)
  from uart_reachable_ok [OF this] show ?thesis by (simp add: push_rx_byte_def initial_Uart_def)
qed

text \<open>The pending bit of the interrupt source that the port drives says what its registers say.\<close>

definition uart_line_ok :: "Uart \<Rightarrow> CPU \<Rightarrow> bool" where
  "uart_line_ok u c \<longleftrightarrow> bit (plic_pending (plic_mmio c) 0) 3 = is_interrupt_pending u"

lemma setIrq_pending:
  assumes "0 < i" "i < 32"
  shows "bit (plic_pending (plic_mmio (setIrq c i v)) 0) n =
    (if n = nat i then v \<noteq> 0 else bit (plic_pending (plic_mmio c) 0) n)"
  using assms
  by (auto simp: setIrq_def plic_update_mip_def Let_def bit_simps dest: bit_imp_le_length)

lemma uart_line_update: "uart_line_ok u (uart_update u c)"
  by (auto simp: uart_line_ok_def uart_update_def update_uart_irq_def setIrq_pending is_interrupt_pending_def Let_def)

lemma uart_line_read:
  assumes "uart_line_ok u c"
  shows "uart_line_ok (fst (snd (uart_read sel u c))) (snd (snd (uart_read sel u c)))"
proof -
  have iir: "uart_line_ok (fst (snd (uart_iir u c))) (snd (snd (uart_iir u c)))"
    using assms
    by (auto simp: uart_iir_def Let_def uart_line_ok_def is_interrupt_pending_def update_uart_irq_def setIrq_pending)
  show ?thesis
    using assms iir
    by (simp add: uart_read_def uart_receive_def Let_def case_prod_beta uart_line_update)
qed

lemma uart_line_other [simp]:
  "uart_line_ok (u\<lparr>uart_reg_shift := k\<rparr>) c = uart_line_ok u c"
  "uart_line_ok (u\<lparr>uart_lcr := w\<rparr>) c = uart_line_ok u c"
  "uart_line_ok (u\<lparr>uart_mcr := w\<rparr>) c = uart_line_ok u c"
  "uart_line_ok (u\<lparr>uart_scr := w\<rparr>) c = uart_line_ok u c"
  "uart_line_ok (u\<lparr>uart_dll := w\<rparr>) c = uart_line_ok u c"
  "uart_line_ok (u\<lparr>uart_dlm := w\<rparr>) c = uart_line_ok u c"
  by (simp_all add: uart_line_ok_def is_interrupt_pending_def)

lemma uart_line_write:
  assumes "uart_line_ok u c"
  shows "uart_line_ok (fst (uart_write sel w u c)) (snd (uart_write sel w u c))"
  using assms
  by (simp add: uart_write_def uart_transmit_def Let_def uart_line_update)

lemma uart_line_poll:
  assumes "uart_ok u" "rx_fifo u \<noteq> [] \<or> uart_line_ok u c"
  shows "uart_line_ok u (non_tui_poll_input u c)"
proof -
  have "non_tui_poll_input u c = (if s_tuimode (machine c) \<or> rx_fifo u \<noteq> [] \<or> tx_irq_pending u then uart_update u c else c)"
    using assms(1) by (auto simp: non_tui_poll_input_def uart_ok_def uart_update_def)
  then show ?thesis using assms by (auto simp: uart_line_update)
qed

lemma uart_pushed: "uart_ok u \<Longrightarrow> uart_ok (push_rx_byte b u) \<and> rx_fifo (push_rx_byte b u) \<noteq> []"
  by (auto simp: push_rx_byte_def uart_ok_def)

lemma pushed_bytes:
  "uart_ok u \<Longrightarrow> uart_ok (fold push_rx_byte bs u) \<and> (bs = [] \<or> rx_fifo (fold push_rx_byte bs u) \<noteq> [])"
proof (induction bs rule: rev_induct)
  case (snoc b bs)
  then show ?case using uart_pushed [of "fold push_rx_byte bs u" b] by simp
qed simp

text \<open>(C27)
  The interrupt line of the serial port: a guest access to any register keeps the pending bit of
  source 3 of the interrupt controller equal to the condition of the port (data received or
  transmitter empty, each with its enable bit), a poll keeps it so whatever the queue holds, and after
  any bytes have arrived from the host the next poll makes it so again: a poll raises the line exactly
  when the condition holds.
\<close>
theorem uart_line_exact:
  assumes "uart_ok u" "uart_line_ok u c"
  shows "(case uart_handle_request req resp u c of (_, u', c') \<Rightarrow> uart_line_ok u' c') \<and>
    uart_line_ok u (non_tui_poll_input u c) \<and>
    (let u' = fold push_rx_byte bs u in uart_line_ok u' (non_tui_poll_input u' c))"
proof -
  let ?u = "u\<lparr>uart_reg_shift := snd (uart_reg (a_address req) (uart_reg_shift u))\<rparr>"
  have l: "uart_line_ok ?u c" using assms(2) by simp
  have "uart_line_ok (fst (snd (uart_handle_request req resp u c))) (snd (snd (uart_handle_request req resp u c)))"
    using uart_line_read [OF l] uart_line_write [OF l] l
    by (simp add: uart_handle_request_def Let_def case_prod_beta)
  then show ?thesis
    using uart_line_poll [of u c] uart_line_poll [of "fold push_rx_byte bs u" c] pushed_bytes [OF assms(1), of bs] assms
    by (cases bs) (auto simp: case_prod_beta Let_def)
qed

theorem uart_line_exact_witness:
  "let u = initial_Uart\<lparr>uart_ier := 1\<rparr>; u' = push_rx_byte 0x41 u; c' = non_tui_poll_input u' default_CPU
   in uart_ok u \<and> uart_line_ok u default_CPU \<and> uart_line_ok u' c' \<and> is_interrupt_pending u'"
proof -
  let ?u = "initial_Uart\<lparr>uart_ier := 1\<rparr>"
  have ok: "uart_ok ?u" by (simp add: uart_ok_def initial_Uart_def)
  have l: "uart_line_ok ?u default_CPU"
    by (simp add: uart_line_ok_def is_interrupt_pending_def initial_Uart_def default_CPU_def)
  have "is_interrupt_pending (push_rx_byte 0x41 ?u)"
    by (simp add: push_rx_byte_def is_interrupt_pending_def initial_Uart_def)
  with ok l uart_line_exact [OF ok l, where bs = "[0x41]"] show ?thesis by (simp add: Let_def)
qed

end
