(* ===== verification/Virtio.thy ===== *)
theory Virtio
  imports Mmio_Devices
begin

text \<open>
  The VirtIO devices: the queue accesses in guest memory (\<^verbatim>\<open>device/VirtioUtil.hpp\<close>), the register
  interface both devices share (\<^verbatim>\<open>src/device/VirtioDevice.cpp\<close>), the block device (\<^verbatim>\<open>Disk.cpp\<close>) and the
  console (\<^verbatim>\<open>Console.cpp\<close>). A device is a record that extends \<open>VirtioDevice\<close>; its operations act on the
  device, the hart (interrupt line, caches, terminal output) and the guest memory. The virtual
  \<^verbatim>\<open>process_queue\<close> and the identification registers are arguments of the shared register interface.

  Two copies of the block device have no sound bound in the source: the transfer when the byte
  offset plus the length wraps around, and the identification string at the end of guest memory.
  There the C++ program writes outside its buffers; the model leaves everything as it is and sets
  \<open>out_of_bounds\<close>, so that a statement can say when this does not happen.
\<close>

subsection \<open>Guest memory\<close>

definition ram_copy_out :: "HostMem \<Rightarrow> nat \<Rightarrow> nat \<Rightarrow> u8 list" where
  "ram_copy_out m start len =
     (let sz = unat kDramSize in
      if start + len \<le> sz then host_bytes m start len
      else host_bytes m start (sz - start) @ host_bytes m 0 (len - (sz - start)))"

definition ram_copy_in :: "HostMem \<Rightarrow> nat \<Rightarrow> u8 list \<Rightarrow> HostMem" where
  "ram_copy_in m start bs =
     (let sz = unat kDramSize in
      if start + length bs \<le> sz then write_bytes m start bs
      else write_bytes (write_bytes m start (take (sz - start) bs)) 0 (drop (sz - start) bs))"

definition ram_start :: "Address \<Rightarrow> nat" where
  "ram_start addr = unat (addr AND kDramMask)"

text \<open>A structure of \<open>sz\<close> bytes, of which at most \<open>limit\<close> are read; the rest is zero.\<close>

definition read_struct_from_ram :: "HostMem \<Rightarrow> Address \<Rightarrow> nat \<Rightarrow> nat \<Rightarrow> u8 list" where
  "read_struct_from_ram m addr sz limit =
     (let bs = ram_copy_out m (ram_start addr) (min limit sz) in bs @ replicate (sz - length bs) 0)"

definition write_struct_to_ram :: "HostMem \<Rightarrow> Address \<Rightarrow> u8 list \<Rightarrow> HostMem" where
  "write_struct_to_ram m addr bs = ram_copy_in m (ram_start addr) bs"

text \<open>Every call passes a width of 1 or 2; the source ends the program for widths other than 1, 2 and 4.\<close>

definition load_from_ram :: "HostMem \<Rightarrow> Address \<Rightarrow> nat \<Rightarrow> Word" where
  "load_from_ram m addr n = le_word (ram_copy_out m (ram_start addr) n)"

definition store_to_ram :: "HostMem \<Rightarrow> Address \<Rightarrow> Word \<Rightarrow> nat \<Rightarrow> HostMem" where
  "store_to_ram m addr data n = ram_copy_in m (ram_start addr) (le_bytes n data)"

subsection \<open>Queues\<close>

record QueueState =
  Ready :: Word
  Notify :: Word
  DescLow :: Address
  DescHigh :: Address
  AvailLow :: Address
  AvailHigh :: Address
  UsedLow :: Address
  UsedHigh :: Address
  last_avail_idx :: Word

definition empty_QueueState :: QueueState where
  "empty_QueueState =
     \<lparr>Ready = 0, Notify = 0, DescLow = 0, DescHigh = 0, AvailLow = 0, AvailHigh = 0, UsedLow = 0,
      UsedHigh = 0, last_avail_idx = 0\<rparr>"

record Descriptor =
  desc_adr :: u64
  desc_len :: u32
  desc_flags :: u16
  desc_next :: u16

record BlockRequestHeader =
  hdr_type :: u32
  hdr_ioprio :: u32
  hdr_sector_num :: u64

definition combined_address :: "Address \<Rightarrow> Address \<Rightarrow> Address" where
  "combined_address high low = push_bit 32 high OR ucast (ucast low :: u32)"

definition get_desc_addr_combined :: "QueueState \<Rightarrow> Address" where
  "get_desc_addr_combined qs = combined_address (DescHigh qs) (DescLow qs)"

definition get_avail_addr_combined :: "QueueState \<Rightarrow> Address" where
  "get_avail_addr_combined qs = combined_address (AvailHigh qs) (AvailLow qs)"

definition get_used_addr_combined :: "QueueState \<Rightarrow> Address" where
  "get_used_addr_combined qs = combined_address (UsedHigh qs) (UsedLow qs)"

definition next_avail_desc_idx :: "QueueState \<Rightarrow> Word \<Rightarrow> HostMem \<Rightarrow> u16" where
  "next_avail_desc_idx qs q_num m =
     ucast (load_from_ram m (get_avail_addr_combined qs + 4 + (last_avail_idx qs AND (q_num - 1)) * 2) 2)"

definition get_desc_addr :: "u16 \<Rightarrow> QueueState \<Rightarrow> Address" where
  "get_desc_addr desc_idx qs = ucast desc_idx * 16 + get_desc_addr_combined qs"

definition read_descriptor :: "HostMem \<Rightarrow> Address \<Rightarrow> Descriptor" where
  "read_descriptor m addr =
     (let b = read_struct_from_ram m addr 16 16
      in \<lparr>desc_adr = le_word (take 8 b), desc_len = le_word (take 4 (drop 8 b)),
          desc_flags = le_word (take 2 (drop 12 b)), desc_next = le_word (take 2 (drop 14 b))\<rparr>)"

definition descriptor_at :: "HostMem \<Rightarrow> QueueState \<Rightarrow> u16 \<Rightarrow> Descriptor" where
  "descriptor_at m qs desc_idx = read_descriptor m (get_desc_addr desc_idx qs)"

definition read_block_header :: "HostMem \<Rightarrow> Descriptor \<Rightarrow> BlockRequestHeader" where
  "read_block_header m d =
     (let b = read_struct_from_ram m (desc_adr d) 16 (unat (desc_len d))
      in \<lparr>hdr_type = le_word (take 4 b), hdr_ioprio = le_word (take 4 (drop 4 b)),
          hdr_sector_num = le_word (take 8 (drop 8 b))\<rparr>)"

definition update_descriptor :: "Word \<Rightarrow> Word \<Rightarrow> Word \<Rightarrow> QueueState \<Rightarrow> HostMem \<Rightarrow> HostMem" where
  "update_descriptor desc_idx len q_num qs m =
     (let addr_used_idx = get_used_addr_combined qs + 2;
          index = le_word (read_struct_from_ram m addr_used_idx 2 2) :: u16;
          m1 = write_struct_to_ram m addr_used_idx (le_bytes 2 (index + 1));
          slot = (ucast index AND (ucast q_num - 1)) * 8 :: 32 word;
          addr_used_entry = get_used_addr_combined qs + 4 + scast slot
      in write_struct_to_ram m1 addr_used_entry
           (le_bytes 4 (ucast desc_idx :: u32) @ le_bytes 4 (ucast len :: u32)))"

definition avail_index :: "QueueState \<Rightarrow> HostMem \<Rightarrow> u16" where
  "avail_index qs m = ucast (load_from_ram m (AvailLow qs + 2) 2)"

subsection \<open>The register interface\<close>

record VirtioDevice =
  Queue :: "nat \<Rightarrow> QueueState"
  DeviceFeaturesSel :: Word
  DriverFeatures :: Word
  DriverFeaturesSel :: Word
  InterruptStatus :: Word
  Status :: Word
  QueueSel :: Word
  QueueNum :: Word
  virtio_irq :: Word
  max_queues :: Word

abbreviation (input) virtio_kMagicValue :: Word where "virtio_kMagicValue \<equiv> 0x74726976"
abbreviation (input) virtio_kVersion :: Word where "virtio_kVersion \<equiv> 2"
abbreviation (input) virtio_kVendorId :: Word where "virtio_kVendorId \<equiv> 0xffff"
abbreviation (input) MmioOffset_Config :: Address where "MmioOffset_Config \<equiv> 0x100"

text \<open>The identification that a concrete device supplies through virtual functions.\<close>

record VirtioIdent =
  device_id :: Word
  device_features :: Word
  queue_num_max :: Word
  config_generation :: Word

definition trigger_interrupt :: "'a VirtioDevice_scheme \<Rightarrow> CPU \<Rightarrow> 'a VirtioDevice_scheme \<times> CPU" where
  "trigger_interrupt d c =
     (d\<lparr>InterruptStatus := InterruptStatus d OR 1\<rparr>, setIrq c (sint (ucast (virtio_irq d) :: 32 word)) 1)"

definition virtio_mmio_read ::
    "VirtioIdent \<Rightarrow> (Address \<Rightarrow> Word) \<Rightarrow> Address \<Rightarrow> 'a VirtioDevice_scheme \<Rightarrow> Word" where
  "virtio_mmio_read ident read_config off d =
     (if off \<ge> MmioOffset_Config then read_config off
      else if off = 0x000 then virtio_kMagicValue
      else if off = 0x004 then virtio_kVersion
      else if off = 0x008 then device_id ident
      else if off = 0x00c then virtio_kVendorId
      else if off = 0x010 then (if DeviceFeaturesSel d = 1 then 1 else device_features ident)
      else if off = 0x034 then queue_num_max ident
      else if off = 0x0fc then config_generation ident
      else if off = 0x044 then (if QueueSel d < max_queues d then Ready (Queue d (unat (QueueSel d))) else 0)
      else if off = 0x060 then InterruptStatus d
      else if off = 0x070 then Status d
      else 0)"

definition upd_queue ::
    "nat \<Rightarrow> (QueueState \<Rightarrow> QueueState) \<Rightarrow> 'a VirtioDevice_scheme \<Rightarrow> 'a VirtioDevice_scheme" where
  "upd_queue i f d = d\<lparr>Queue := (Queue d)(i := f (Queue d i))\<rparr>"

definition upd_selected ::
    "(QueueState \<Rightarrow> QueueState) \<Rightarrow> 'a VirtioDevice_scheme \<Rightarrow> 'a VirtioDevice_scheme" where
  "upd_selected f d = (if QueueSel d < max_queues d then upd_queue (unat (QueueSel d)) f d else d)"

type_synonym 'a VirtioSys = "'a VirtioDevice_scheme \<times> CPU \<times> HostMem"

definition virtio_ack :: "Word \<Rightarrow> 'a VirtioDevice_scheme \<Rightarrow> CPU \<Rightarrow> 'a VirtioDevice_scheme \<times> CPU" where
  "virtio_ack wdata d c =
     (let status = InterruptStatus d AND NOT wdata
      in (d\<lparr>InterruptStatus := status\<rparr>,
          setIrq c (sint (ucast (virtio_irq d) :: 32 word)) (if status = 0 then 0 else 1)))"

definition virtio_mmio_write ::
    "(Word \<Rightarrow> 'a VirtioSys \<Rightarrow> 'a VirtioSys) \<Rightarrow> Address \<Rightarrow> Word \<Rightarrow> 'a VirtioSys \<Rightarrow> 'a VirtioSys" where
  "virtio_mmio_write process_queue off wdata s =
     (let (d, c, m) = s;
          upd = (\<lambda>d'. (d', c, m))
      in if off \<ge> MmioOffset_Config then s
         else if off = 0x014 then upd (d\<lparr>DeviceFeaturesSel := wdata\<rparr>)
         else if off = 0x020 then upd (d\<lparr>DriverFeatures := wdata\<rparr>)
         else if off = 0x024 then upd (d\<lparr>DriverFeaturesSel := wdata\<rparr>)
         else if off = 0x030 then upd (d\<lparr>QueueSel := wdata\<rparr>)
         else if off = 0x038 then upd (if QueueSel d < max_queues d then d\<lparr>QueueNum := wdata\<rparr> else d)
         else if off = 0x044 then upd (upd_selected (\<lambda>q. q\<lparr>Ready := wdata\<rparr>) d)
         else if off = 0x050 then
           if wdata < max_queues d
           then process_queue wdata (upd (upd_queue (unat wdata) (\<lambda>q. q\<lparr>Notify := 1\<rparr>) d))
           else s
         else if off = 0x064 then (let (d', c') = virtio_ack wdata d c in (d', c', m))
         else if off = 0x070 then upd (d\<lparr>Status := wdata\<rparr>)
         else if off = 0x080 then upd (upd_selected (\<lambda>q. q\<lparr>DescLow := wdata\<rparr>) d)
         else if off = 0x084 then upd (upd_selected (\<lambda>q. q\<lparr>DescHigh := wdata\<rparr>) d)
         else if off = 0x090 then upd (upd_selected (\<lambda>q. q\<lparr>AvailLow := wdata\<rparr>) d)
         else if off = 0x094 then upd (upd_selected (\<lambda>q. q\<lparr>AvailHigh := wdata\<rparr>) d)
         else if off = 0x0a0 then upd (upd_selected (\<lambda>q. q\<lparr>UsedLow := wdata\<rparr>) d)
         else if off = 0x0a4 then upd (upd_selected (\<lambda>q. q\<lparr>UsedHigh := wdata\<rparr>) d)
         else s)"

definition virtio_handle_request ::
    "Address \<Rightarrow> VirtioIdent \<Rightarrow> (Address \<Rightarrow> Word) \<Rightarrow> (Word \<Rightarrow> 'a VirtioSys \<Rightarrow> 'a VirtioSys) \<Rightarrow>
     TlChannelA \<Rightarrow> TlChannelD \<Rightarrow> 'a VirtioSys \<Rightarrow> TlChannelD \<times> 'a VirtioSys" where
  "virtio_handle_request base ident read_config process_queue req resp s =
     (let off = a_address req - base in
      if a_opcode req = Get then (resp\<lparr>d_data := virtio_mmio_read ident read_config off (fst s)\<rparr>, s)
      else (resp, virtio_mmio_write process_queue off (a_data req) s))"

subsection \<open>The block device\<close>

record Disk = VirtioDevice +
  sector_set :: bool
  sector_storage :: "u8 list"
  out_of_bounds :: bool

abbreviation (input) kDiskSectorSize :: u64 where "kDiskSectorSize \<equiv> 512"
abbreviation (input) VringDescFlag_Next :: u16 where "VringDescFlag_Next \<equiv> 1"
abbreviation (input) kDiskMaxQueueNum :: Word where "kDiskMaxQueueNum \<equiv> 4"
abbreviation (input) kDiskBaseAddress :: Address where "kDiskBaseAddress \<equiv> 0x48000000"

definition empty_VirtioQueues :: "nat \<Rightarrow> QueueState" where
  "empty_VirtioQueues = (\<lambda>_. empty_QueueState)"

definition initial_Disk :: "u8 list \<Rightarrow> Disk" where
  "initial_Disk disk_image =
     \<lparr>Queue = empty_VirtioQueues, DeviceFeaturesSel = 0, DriverFeatures = 0, DriverFeaturesSel = 0,
      InterruptStatus = 0, Status = 0, QueueSel = 0, QueueNum = 0, virtio_irq = kDiskIrq,
      max_queues = kDiskMaxQueueNum, sector_set = (disk_image \<noteq> []), sector_storage = disk_image,
      out_of_bounds = False\<rparr>"

definition disk_offset :: "BlockRequestHeader \<Rightarrow> u64" where
  "disk_offset header = hdr_sector_num header * kDiskSectorSize"

text \<open>The bounds check of the source, in 64-bit arithmetic, and what the copies really need.\<close>

definition disk_in_range :: "Disk \<Rightarrow> u64 \<Rightarrow> u32 \<Rightarrow> bool" where
  "disk_in_range d off len \<longleftrightarrow> sector_set d \<and> off + ucast len \<le> of_nat (length (sector_storage d))"

definition transfer_in_buffers :: "Disk \<Rightarrow> u64 \<Rightarrow> u32 \<Rightarrow> Address \<Rightarrow> bool" where
  "transfer_in_buffers d off len addr \<longleftrightarrow>
     unat off + unat len \<le> length (sector_storage d) \<and> ram_start addr + unat len \<le> 2 * unat kDramSize"

definition blk_in ::
    "BlockRequestHeader \<Rightarrow> QueueState \<Rightarrow> Descriptor \<Rightarrow> Disk \<times> CPU \<times> HostMem \<Rightarrow> u32 \<times> Disk \<times> CPU \<times> HostMem" where
  "blk_in header qs desc0 s =
     (let (d, c, m) = s;
          sector = descriptor_at m qs (desc_next desc0);
          footer = descriptor_at m qs (desc_next sector);
          off = disk_offset header;
          len = desc_len sector
      in if disk_in_range d off len then
           if transfer_in_buffers d off len (desc_adr sector) then
             let m1 = ram_copy_in m (ram_start (desc_adr sector))
                        (take (unat len) (drop (unat off) (sector_storage d)));
                 m2 = store_to_ram m1 (desc_adr footer) 0 1
             in (len + 1, d,
                 c\<lparr>soft_tlbs := soft_tlb_flush (soft_tlbs c), decode_cache := decode_flush (decode_cache c)\<rparr>,
                 m2)
           else (len + 1, d\<lparr>out_of_bounds := True\<rparr>, c, m)
         else (len + 1, d, c, store_to_ram m (desc_adr footer) 1 1))"

definition blk_out ::
    "BlockRequestHeader \<Rightarrow> QueueState \<Rightarrow> Descriptor \<Rightarrow> Disk \<times> CPU \<times> HostMem \<Rightarrow> u32 \<times> Disk \<times> CPU \<times> HostMem" where
  "blk_out header qs desc0 s =
     (let (d, c, m) = s;
          sector = descriptor_at m qs (desc_next desc0);
          footer = descriptor_at m qs (desc_next sector);
          off = disk_offset header;
          len = desc_len sector
      in if disk_in_range d off len then
           if transfer_in_buffers d off len (desc_adr sector) then
             let img = sector_storage d;
                 img' = take (unat off) img @ ram_copy_out m (ram_start (desc_adr sector)) (unat len) @
                        drop (unat off + unat len) img
             in (1, d\<lparr>sector_storage := img'\<rparr>, c, store_to_ram m (desc_adr footer) 0 1)
           else (1, d\<lparr>out_of_bounds := True\<rparr>, c, m)
         else (1, d, c, store_to_ram m (desc_adr footer) 1 1))"

definition has_next :: "Descriptor \<Rightarrow> bool" where
  "has_next desc \<longleftrightarrow> desc_flags desc AND VringDescFlag_Next \<noteq> 0"

definition blk_status :: "Word \<Rightarrow> QueueState \<Rightarrow> Descriptor \<Rightarrow> HostMem \<Rightarrow> HostMem" where
  "blk_status code qs desc m =
     (if has_next desc
      then let footer = descriptor_at m qs (desc_next desc) in store_to_ram m (desc_adr footer) code 1
      else m)"

definition kDiskId :: "u8 list" where
  "kDiskId = map (\<lambda>ch. of_nat (of_char ch)) ''SimRV_VirtIO_Disk''"

definition blk_get_id :: "QueueState \<Rightarrow> Descriptor \<Rightarrow> Disk \<times> CPU \<times> HostMem \<Rightarrow> u32 \<times> Disk \<times> CPU \<times> HostMem" where
  "blk_get_id qs desc0 s =
     (let (d, c, m) = s in
      if has_next desc0 then
        let desc = descriptor_at m qs (desc_next desc0);
            bs = take (unat (desc_len desc)) kDiskId;
            start = ram_start (desc_adr desc)
        in if start + length bs \<le> unat kDramSize
           then (1, d, c, blk_status 0 qs desc (write_bytes m start bs))
           else (1, d\<lparr>out_of_bounds := True\<rparr>, c, m)
      else (1, d, c, m))"

definition blk_request ::
    "BlockRequestHeader \<Rightarrow> QueueState \<Rightarrow> Descriptor \<Rightarrow> Disk \<times> CPU \<times> HostMem \<Rightarrow> u32 \<times> Disk \<times> CPU \<times> HostMem" where
  "blk_request header qs desc s =
     (let (d, c, m) = s in
      if hdr_type header = 0 then blk_in header qs desc s
      else if hdr_type header = 1 then blk_out header qs desc s
      else if hdr_type header = 4 then (1, d, c, blk_status 0 qs desc m)
      else if hdr_type header = 8 then blk_get_id qs desc s
      else (1, d, c, blk_status 2 qs desc m))"

definition disk_turn :: "nat \<Rightarrow> Disk \<times> CPU \<times> HostMem \<Rightarrow> Disk \<times> CPU \<times> HostMem" where
  "disk_turn q s =
     (let (d, c, m) = s;
          qs = Queue d q;
          desc_idx_header = next_avail_desc_idx qs (QueueNum d) m;
          desc = descriptor_at m qs desc_idx_header;
          header = read_block_header m desc;
          (request_size, d1, c1, m1) = blk_request header qs desc s;
          m2 = update_descriptor (ucast desc_idx_header) (ucast request_size) (QueueNum d1) qs m1;
          d2 = upd_queue q (\<lambda>qs. qs\<lparr>last_avail_idx := last_avail_idx qs + 1\<rparr>) d1;
          (d3, c3) = trigger_interrupt d2 c1
      in (d3, c3, m2))"

lemma blk_request_Queue [simp]:
  "Queue (fst (snd (blk_request header qs desc s))) = Queue (fst s)"
  "QueueNum (fst (snd (blk_request header qs desc s))) = QueueNum (fst s)"
  by (simp_all add: blk_request_def blk_in_def blk_out_def blk_get_id_def Let_def case_prod_beta)

lemma disk_turn_last:
  "last_avail_idx (Queue (fst (disk_turn q s)) q) = last_avail_idx (Queue (fst s) q) + 1"
  by (simp add: disk_turn_def trigger_interrupt_def upd_queue_def Let_def case_prod_beta)

lemma queue_distance_step:
  fixes l :: Word and a :: u16
  assumes "ucast l \<noteq> a"
  shows "unat (a - ucast l) = Suc (unat (a - ucast (l + 1)))"
proof -
  have u: "(ucast (l + 1) :: u16) = ucast l + 1" 
    by (simp add: word_uint_eq_iff uint_word_ariths unsigned_ucast_eq take_bit_eq_mod mod_mod_cancel mod_simps)
  have nz: "a - ucast l \<noteq> 0" using assms by auto
  then have "0 < unat (a - ucast l)" by (simp add: unat_gt_0)
  with unat_minus_one [OF nz] have "unat (a - ucast l) = Suc (unat (a - ucast l - 1))" by linarith
  then show ?thesis by (simp add: u diff_diff_eq)
qed

function disk_loop :: "nat \<Rightarrow> u16 \<Rightarrow> Disk \<times> CPU \<times> HostMem \<Rightarrow> Disk \<times> CPU \<times> HostMem" where
  "disk_loop q avail_idx s =
     (if ucast (last_avail_idx (Queue (fst s) q)) = avail_idx then s
      else disk_loop q avail_idx (disk_turn q s))"
  by pat_completeness auto

termination disk_loop
  by (relation "measure (\<lambda>(q, a, s). unat (a - ucast (last_avail_idx (Queue (fst s) q))))")
    (simp_all add: disk_turn_last queue_distance_step)

declare disk_loop.simps [simp del]

definition disk_process_queue :: "Word \<Rightarrow> Disk \<times> CPU \<times> HostMem \<Rightarrow> Disk \<times> CPU \<times> HostMem" where
  "disk_process_queue q_idx s =
     (let (d, c, m) = s;
          q = unat q_idx
      in if q_idx \<ge> kDiskMaxQueueNum then s
         else if Ready (Queue d q) = 0 then s
         else disk_loop q (avail_index (Queue d q) m) s)"

abbreviation (input) virtio_kDiskSize :: u64 where "virtio_kDiskSize \<equiv> 128 * 1024 * 1024"

definition disk_read_config :: "Disk \<Rightarrow> Address \<Rightarrow> Word" where
  "disk_read_config d off =
     (let config_offset = off - MmioOffset_Config;
          capacity_sectors =
            (if sector_storage d = [] then virtio_kDiskSize div kDiskSectorSize
             else of_nat (length (sector_storage d)) div kDiskSectorSize)
      in if config_offset = 0 then capacity_sectors AND 0xFFFFFFFF
         else if config_offset = 4 then drop_bit 32 capacity_sectors AND 0xFFFFFFFF
         else 0)"

definition disk_ident :: VirtioIdent where
  "disk_ident = \<lparr>device_id = 2, device_features = 1, queue_num_max = 4, config_generation = 0\<rparr>"

definition disk_handle_request ::
    "TlChannelA \<Rightarrow> TlChannelD \<Rightarrow> Disk \<times> CPU \<times> HostMem \<Rightarrow> TlChannelD \<times> Disk \<times> CPU \<times> HostMem" where
  "disk_handle_request req resp s =
     virtio_handle_request kDiskBaseAddress disk_ident (disk_read_config (fst s)) disk_process_queue req resp s"

subsection \<open>The console\<close>

record Console = VirtioDevice +
  fifo_en :: bool
  cons_fifo :: u8
  rx_pending :: "u8 list"

abbreviation (input) kConsoleMaxQueueNum :: Word where "kConsoleMaxQueueNum \<equiv> 2"
abbreviation (input) kVirtioBaseAddress :: Address where "kVirtioBaseAddress \<equiv> 0x40000000"

definition initial_Console :: Console where
  "initial_Console =
     \<lparr>Queue = empty_VirtioQueues, DeviceFeaturesSel = 0, DriverFeatures = 0, DriverFeaturesSel = 0,
      InterruptStatus = 0, Status = 0, QueueSel = 0, QueueNum = 0, virtio_irq = kConsoleIrq,
      max_queues = kConsoleMaxQueueNum, fifo_en = False, cons_fifo = 0, rx_pending = []\<rparr>"

definition push_input_byte :: "u8 \<Rightarrow> Console \<Rightarrow> Console" where
  "push_input_byte byte d = d\<lparr>rx_pending := rx_pending d @ [byte]\<rparr>"

definition pop_pending_input :: "Console \<Rightarrow> bool \<times> Console" where
  "pop_pending_input d =
     (case rx_pending d of
        [] \<Rightarrow> (False, d)
      | b # bs \<Rightarrow> (True, d\<lparr>cons_fifo := b, rx_pending := bs, fifo_en := True\<rparr>))"

definition console_buffer :: "HostMem \<Rightarrow> Descriptor \<Rightarrow> u8 list" where
  "console_buffer m desc =
     map (\<lambda>i. ucast (load_from_ram m (desc_adr desc + of_nat i) 1)) [0..<unat (desc_len desc)]"

definition complete_descriptor :: "nat \<Rightarrow> u16 \<Rightarrow> u32 \<Rightarrow> 'a VirtioDevice_scheme \<times> HostMem \<Rightarrow> 'a VirtioDevice_scheme \<times> HostMem" where
  "complete_descriptor q desc_idx len s =
     (let (d, m) = s in
      (upd_queue q (\<lambda>qs. qs\<lparr>last_avail_idx := last_avail_idx qs + 1\<rparr>) d,
       update_descriptor (ucast desc_idx) (ucast len) (QueueNum d) (Queue d q) m))"

definition console_turn :: "nat \<Rightarrow> Console \<times> CPU \<times> HostMem \<Rightarrow> Console \<times> CPU \<times> HostMem" where
  "console_turn q s =
     (let (d, c, m) = s;
          desc_idx = next_avail_desc_idx (Queue d q) (QueueNum d) m;
          desc = descriptor_at m (Queue d q) desc_idx;
          c1 = fold emit_byte (console_buffer m desc) c;
          (d1, m1) = complete_descriptor q desc_idx (desc_len desc) (d, m)
      in (d1, c1, m1))"

lemma console_turn_last:
  "last_avail_idx (Queue (fst (console_turn q s)) q) = last_avail_idx (Queue (fst s) q) + 1"
  by (simp add: console_turn_def complete_descriptor_def upd_queue_def Let_def case_prod_beta)

function console_loop :: "nat \<Rightarrow> u16 \<Rightarrow> Console \<times> CPU \<times> HostMem \<Rightarrow> Console \<times> CPU \<times> HostMem" where
  "console_loop q avail_idx s =
     (if ucast (last_avail_idx (Queue (fst s) q)) = avail_idx then s
      else console_loop q avail_idx (console_turn q s))"
  by pat_completeness auto

termination console_loop
  by (relation "measure (\<lambda>(q, a, s). unat (a - ucast (last_avail_idx (Queue (fst s) q))))")
    (simp_all add: console_turn_last queue_distance_step)

declare console_loop.simps [simp del]

definition console_process_queue :: "Word \<Rightarrow> Console \<times> CPU \<times> HostMem \<Rightarrow> Console \<times> CPU \<times> HostMem" where
  "console_process_queue q_idx s =
     (let (d, c, m) = s;
          q = unat q_idx;
          avail_idx = avail_index (Queue d q) m
      in if q_idx \<ge> kConsoleMaxQueueNum then s
         else if q_idx = 1 then
           if Ready (Queue d q) = 0 then s
           else if ucast (last_avail_idx (Queue d q)) = avail_idx then s
           else
             let (d1, c1, m1) = console_loop q avail_idx s;
                 (d2, c2) = trigger_interrupt d1 c1
             in (d2, c2, m1)
         else s)"

text \<open>
  One byte for the guest: it is stored into the next receive buffer, if the driver has supplied one.
\<close>

definition deliver_byte :: "u8 \<Rightarrow> Console \<times> CPU \<times> HostMem \<Rightarrow> (Console \<times> CPU \<times> HostMem) option" where
  "deliver_byte ch s =
     (let (d, c, m) = s;
          qs = Queue d 0
      in if Ready qs \<noteq> 0 \<and> ucast (last_avail_idx qs) \<noteq> avail_index qs m then
           let desc_idx = next_avail_desc_idx qs (QueueNum d) m;
               desc = descriptor_at m qs desc_idx;
               m1 = store_to_ram m (desc_adr desc) (ucast ch) 1;
               (d1, m2) = complete_descriptor 0 desc_idx 1 (d, m1);
               (d2, c1) = trigger_interrupt d1 c
           in Some (d2, c1, m2)
         else None)"

text \<open>
  \<open>stdin_ready\<close> is the byte that polling the standard input delivers, if there is one; the result is
  the return value of the function and the new state.
\<close>

definition deliver_fifo :: "Console \<times> CPU \<times> HostMem \<Rightarrow> int \<times> Console \<times> CPU \<times> HostMem" where
  "deliver_fifo s =
     (if fifo_en (fst s) then
        case deliver_byte (cons_fifo (fst s)) s of
          Some (d1, c1, m1) \<Rightarrow> (1, d1\<lparr>fifo_en := False\<rparr>, c1, m1)
        | None \<Rightarrow> (0, s)
      else (0, s))"

definition MC_receive_input ::
    "u8 option \<Rightarrow> Console \<times> CPU \<times> HostMem \<Rightarrow> int \<times> Console \<times> CPU \<times> HostMem" where
  "MC_receive_input stdin_ready s =
     (let (d, c, m) = s in
      if Status d = 0 then (0, s)
      else if s_tuimode (machine c) then deliver_fifo s
      else
        case stdin_ready of
          None \<Rightarrow> deliver_fifo s
        | Some ch \<Rightarrow>
            if ch = 0x11 then (- 1, s)
            else (case deliver_byte ch s of Some s' \<Rightarrow> (1, s') | None \<Rightarrow> deliver_fifo s))"

definition console_ident :: "Console \<Rightarrow> VirtioIdent" where
  "console_ident d =
     \<lparr>device_id = 3, device_features = 0,
      queue_num_max = (if QueueSel d < kConsoleMaxQueueNum then 16 else 0), config_generation = 0\<rparr>"

definition console_handle_request ::
    "TlChannelA \<Rightarrow> TlChannelD \<Rightarrow> Console \<times> CPU \<times> HostMem \<Rightarrow> TlChannelD \<times> Console \<times> CPU \<times> HostMem" where
  "console_handle_request req resp s =
     virtio_handle_request kVirtioBaseAddress (console_ident (fst s)) (\<lambda>_. 0) console_process_queue req resp s"

subsection \<open>Processing a queue\<close>

text \<open>
  Both devices process a queue by turns that each advance the index of the next request by one until
  it agrees with the index the driver has published. The loop is then a fixed number of turns.
\<close>

locale virtqueue_loop =
  fixes turn :: "'s \<Rightarrow> 's" and loop :: "u16 \<Rightarrow> 's \<Rightarrow> 's" and idx :: "'s \<Rightarrow> Word"
  assumes turn_idx: "idx (turn s) = idx s + 1"
    and loop_eq: "loop a s = (if ucast (idx s) = a then s else loop a (turn s))"
begin

lemma turns_idx: "idx ((turn ^^ n) s) = idx s + of_nat n"
  by (induction n) (simp_all add: turn_idx ac_simps)

lemma loop_turns: "loop a s = (turn ^^ unat (a - ucast (idx s))) s"
proof (induction "unat (a - ucast (idx s))" arbitrary: s)
  case 0
  then have "ucast (idx s) = a" by (metis right_minus_eq unat_eq_zero)
  then show ?case by (subst loop_eq) simp
next
  case (Suc n)
  then have ne: "ucast (idx s) \<noteq> a" by auto
  then have "unat (a - ucast (idx (turn s))) = n"
    using queue_distance_step [OF ne] Suc.hyps(2) by (simp add: turn_idx)
  with Suc.hyps(1) [of "turn s"] Suc.hyps(2) ne show ?case
    by (subst loop_eq) (simp add: funpow_swap1 flip: Suc.hyps(2))
qed

lemma loop_drains: "ucast (idx (loop a s)) = a"
proof (induction "unat (a - ucast (idx s))" arbitrary: s)
  case 0
  then have "ucast (idx s) = a" by (metis right_minus_eq unat_eq_zero)
  then show ?case by (subst loop_eq) simp
next
  case (Suc n)
  then have ne: "ucast (idx s) \<noteq> a" by auto
  then have "unat (a - ucast (idx (turn s))) = n"
    using queue_distance_step [OF ne] Suc.hyps(2) by (simp add: turn_idx)
  with Suc.hyps(1) [of "turn s"] ne show ?case by (subst loop_eq) simp
qed

end

interpretation disk_queue: virtqueue_loop "disk_turn q" "disk_loop q" "\<lambda>s. last_avail_idx (Queue (fst s) q)"
  by unfold_locales (simp_all add: disk_turn_last disk_loop.simps [of q])

interpretation console_queue: virtqueue_loop "console_turn q" "console_loop q" "\<lambda>s. last_avail_idx (Queue (fst s) q)"
  by unfold_locales (simp_all add: console_turn_last console_loop.simps [of q])

lemma trigger_pending:
  "virtio_irq d \<in> {1, 2} \<Longrightarrow> InterruptStatus (fst (trigger_interrupt d c)) AND 1 = 1 \<and>
     bit (plic_pending (plic_mmio (snd (trigger_interrupt d c))) 0) (unat (virtio_irq d))"
  by (auto simp: trigger_interrupt_def setIrq_pending bit_simps intro!: bit_word_eqI)

lemma blk_request_irq [simp]:
  "virtio_irq (fst (snd (blk_request header qs desc s))) = virtio_irq (fst s)"
  by (simp_all add: blk_request_def blk_in_def blk_out_def blk_get_id_def Let_def case_prod_beta)

lemma disk_turn_irq: "virtio_irq (fst (disk_turn q s)) = virtio_irq (fst s)"
  by (simp add: disk_turn_def trigger_interrupt_def upd_queue_def Let_def case_prod_beta)

lemma disk_turns_irq: "virtio_irq (fst ((disk_turn q ^^ n) s)) = virtio_irq (fst s)"
  by (induction n) (simp_all add: disk_turn_irq)

lemma disk_turn_pending:
  assumes "virtio_irq (fst s) = 2"
  shows "InterruptStatus (fst (disk_turn q s)) AND 1 = 1 \<and>
     bit (plic_pending (plic_mmio (fst (snd (disk_turn q s)))) 0) 2"
proof -
  let ?r = "blk_request (read_block_header (snd (snd s)) (descriptor_at (snd (snd s)) (Queue (fst s) q)
    (next_avail_desc_idx (Queue (fst s) q) (QueueNum (fst s)) (snd (snd s))))) (Queue (fst s) q)
    (descriptor_at (snd (snd s)) (Queue (fst s) q) (next_avail_desc_idx (Queue (fst s) q) (QueueNum (fst s)) (snd (snd s)))) s"
  let ?d = "upd_queue q (\<lambda>qs. qs\<lparr>last_avail_idx := last_avail_idx qs + 1\<rparr>) (fst (snd ?r))"
  have "virtio_irq ?d = 2" using assms by (simp add: upd_queue_def)
  then have "InterruptStatus (fst (trigger_interrupt ?d (fst (snd (snd ?r))))) AND 1 = 1 \<and>
     bit (plic_pending (plic_mmio (snd (trigger_interrupt ?d (fst (snd (snd ?r)))))) 0) 2"
    using trigger_pending [of ?d "fst (snd (snd ?r))"] by simp
  then show ?thesis by (simp add: disk_turn_def Let_def case_prod_beta)
qed

text \<open>(C4)
  Processing a notified queue of the block device ends, for every content of guest memory and every
  pair of indices, wrap-around of the 16-bit index included: exactly the requests between the
  device's index and the index published by the driver are served, one turn each, and when there was
  at least one the device interrupt is pending.
\<close>
theorem disk_queue_served:
  assumes "q < 4" "Ready (Queue d (unat q)) \<noteq> 0" "virtio_irq d = 2"
  shows "let n = unat (avail_index (Queue d (unat q)) m - ucast (last_avail_idx (Queue d (unat q))));
             s' = disk_process_queue q (d, c, m)
    in s' = (disk_turn (unat q) ^^ n) (d, c, m) \<and>
       last_avail_idx (Queue (fst s') (unat q)) = last_avail_idx (Queue d (unat q)) + of_nat n \<and>
       ucast (last_avail_idx (Queue (fst s') (unat q))) = avail_index (Queue d (unat q)) m \<and>
       (0 < n \<longrightarrow> InterruptStatus (fst s') AND 1 = 1 \<and> bit (plic_pending (plic_mmio (fst (snd s'))) 0) 2)"
proof -
  let ?q = "unat q" and ?a = "avail_index (Queue d (unat q)) m" and ?s = "(d, c, m)"
  let ?n = "unat (?a - ucast (last_avail_idx (Queue d ?q)))"
  have run: "disk_process_queue q ?s = disk_loop ?q ?a ?s"
    using assms by (simp add: disk_process_queue_def Let_def not_le [symmetric])
  also have loop: "\<dots> = (disk_turn ?q ^^ ?n) ?s" using disk_queue.loop_turns [of ?q ?a ?s] by simp
  finally have e: "disk_process_queue q ?s = (disk_turn ?q ^^ ?n) ?s" .
  have pend: "InterruptStatus (fst ((disk_turn ?q ^^ ?n) ?s)) AND 1 = 1 \<and>
      bit (plic_pending (plic_mmio (fst (snd ((disk_turn ?q ^^ ?n) ?s)))) 0) 2" if pos: "0 < ?n"
  proof -
    obtain k where k: "?n = Suc k" using gr0_implies_Suc [OF pos] by blast
    show ?thesis
      unfolding k using disk_turn_pending [of "(disk_turn ?q ^^ k) ?s" ?q] assms(3) by (simp add: disk_turns_irq)
  qed
  have i: "last_avail_idx (Queue (fst ((disk_turn ?q ^^ ?n) ?s)) ?q) = last_avail_idx (Queue d ?q) + of_nat ?n"
    using disk_queue.turns_idx [where q = ?q and n = ?n and s = ?s] by simp
  have "ucast (last_avail_idx (Queue (fst ((disk_turn ?q ^^ ?n) ?s)) ?q)) = ?a"
    using disk_queue.loop_drains [of ?q ?a ?s] by (simp only: loop)
  with i pend show ?thesis unfolding Let_def e by blast
qed

definition example_disk :: Disk where
  "example_disk =
     upd_queue 0 (\<lambda>q. q\<lparr>Ready := 1, DescLow := 0x80001000, AvailLow := 0x80002000, UsedLow := 0x80003000,
                       last_avail_idx := 0xffff\<rparr>) ((initial_Disk (replicate 1024 0))\<lparr>QueueNum := 4\<rparr>)"

theorem disk_queue_served_witness:
  "let s' = disk_process_queue 0 (example_disk, default_CPU, (\<lambda>_. 0)) in
   s' = disk_turn 0 (example_disk, default_CPU, (\<lambda>_. 0)) \<and>
   bit (plic_pending (plic_mmio (fst (snd s'))) 0) 2"
proof -
  have a: "avail_index (Queue example_disk 0) (\<lambda>_. 0) = 0"
    by (simp add: avail_index_def load_from_ram_def ram_copy_out_def ram_start_def host_bytes_def Let_def
        upt_rec example_disk_def upd_queue_def kDramMask_def kDramSize_def)
  have l: "last_avail_idx (Queue example_disk 0) = 0xffff" "Ready (Queue example_disk 0) \<noteq> 0" "virtio_irq example_disk = 2"
    by (simp_all add: example_disk_def upd_queue_def initial_Disk_def)
  have n: "unat (avail_index (Queue example_disk (unat (0 :: Word))) (\<lambda>_. 0) -
      ucast (last_avail_idx (Queue example_disk (unat (0 :: Word))))) = 1"
    using a l by simp
  show ?thesis
    using disk_queue_served [of 0 example_disk "\<lambda>_. 0" default_CPU] l unfolding Let_def n by auto
qed

subsection \<open>Transfers\<close>

lemma ram_start_less: "ram_start addr < unat kDramSize"
proof -
  have "addr AND kDramMask \<le> kDramMask" by (rule word_and_le1)
  then have "unat (addr AND kDramMask) \<le> unat kDramMask" by (simp add: word_le_nat_alt)
  then show ?thesis by (simp add: ram_start_def kDramMask_def kDramSize_def)
qed

lemma length_ram_copy_out [simp]: "length (ram_copy_out m start len) = len"
  by (auto simp: ram_copy_out_def Let_def host_bytes_def)

lemma ram_copy_out_nth:
  assumes "start < unat kDramSize" "len \<le> unat kDramSize" "i < len"
  shows "ram_copy_out m start len ! i = m ((start + i) mod unat kDramSize)"
proof -
  let ?sz = "unat kDramSize"
  show ?thesis
  proof (cases "start + i < ?sz")
    case True
    then show ?thesis using assms by (auto simp: ram_copy_out_def Let_def host_bytes_def nth_append)
  next
    case False
    then have "(start + i) mod ?sz = start + i - ?sz" "i - (?sz - start) = start + i - ?sz"
      using assms by (simp_all add: le_mod_geq del: unat_kDram)
    then show ?thesis using assms False by (auto simp: ram_copy_out_def Let_def host_bytes_def nth_append)
  qed
qed

lemma ram_copy_in_at:
  assumes "start < unat kDramSize" "length bs \<le> unat kDramSize" "i < length bs"
  shows "ram_copy_in m start bs ((start + i) mod unat kDramSize) = bs ! i"
proof -
  let ?sz = "unat kDramSize"
  show ?thesis
  proof (cases "start + i < ?sz")
    case True
    then show ?thesis using assms by (auto simp: ram_copy_in_def Let_def write_bytes_def)
  next
    case False
    then have "(start + i) mod ?sz = start + i - ?sz" using assms by (simp add: le_mod_geq del: unat_kDram)
    then show ?thesis using assms False by (auto simp: ram_copy_in_def Let_def write_bytes_def)
  qed
qed

lemma ram_copy_out_in:
  assumes "start < unat kDramSize" "length bs \<le> unat kDramSize"
  shows "ram_copy_out (ram_copy_in m start bs) start (length bs) = bs"
  using assms by (intro nth_equalityI) (simp_all add: ram_copy_out_nth ram_copy_in_at del: unat_kDram)

lemma store_byte: "store_to_ram m addr v 1 = m(ram_start addr := ucast v)"
proof -
  have "ram_start addr + 1 \<le> unat kDramSize" using ram_start_less [of addr] by linarith
  then show ?thesis
    by (auto simp: store_to_ram_def ram_copy_in_def Let_def write_bytes_def le_bytes_def byte_at_def)
qed

lemma ram_copy_out_upd:
  assumes "start < unat kDramSize" "len \<le> unat kDramSize" "\<forall>i < len. (start + i) mod unat kDramSize \<noteq> p"
  shows "ram_copy_out (m(p := v)) start len = ram_copy_out m start len"
  using assms by (intro nth_equalityI) (simp_all add: ram_copy_out_nth del: unat_kDram)

lemma unat_add_wrap: "unat (a + b) = (if unat a + unat b < 2 ^ 64 then unat a + unat b else unat a + unat b - 2 ^ 64)"
  for a b :: u64
  using unsigned_less [of a, where ?'a = nat] unsigned_less [of b, where ?'a = nat]
  by (simp add: unat_word_ariths le_mod_geq)

lemma disk_in_range_iff:
  assumes "length (sector_storage d) < 2 ^ 64"
  shows "disk_in_range d off len \<longleftrightarrow> sector_set d \<and>
    (if unat off + unat len < 2 ^ 64 then unat off + unat len \<le> length (sector_storage d)
     else unat off + unat len - 2 ^ 64 \<le> length (sector_storage d))"
proof -
  have "unat (of_nat (length (sector_storage d)) :: u64) = length (sector_storage d)"
    using assms by (simp add: unat_of_nat)
  moreover have "unat (ucast len :: u64) = unat len" 
    using unsigned_less [of len, where ?'a = nat] by (simp add: unsigned_ucast_eq take_bit_nat_eq_self_iff)
  ultimately show ?thesis by (simp add: disk_in_range_def word_le_nat_alt unat_add_wrap)
qed

text \<open>(C26)
  A request of the block device leaves the disk image and guest memory only in three cases: a read or
  write whose byte offset plus length exceeds \<open>2 ^ 64\<close> and wraps to a value that passes the bounds check,
  a transfer longer than the rest of guest memory and guest memory once more, and a request for the
  identification string into the last bytes of guest memory. Without them every copy stays inside
  the two buffers.
\<close>
theorem disk_bounds_exact:
  assumes "length (sector_storage d) < 2 ^ 64" "\<not> out_of_bounds d"
  shows "let sector = descriptor_at m qs (desc_next desc); len = unat (desc_len sector);
             off = unat (disk_offset header); start = ram_start (desc_adr sector);
             d' = fst (snd (blk_request header qs desc (d, c, m)))
    in out_of_bounds d' \<longleftrightarrow>
      hdr_type header \<in> {0, 1} \<and> sector_set d \<and>
        (2 ^ 64 \<le> off + len \<and> off + len - 2 ^ 64 \<le> length (sector_storage d) \<or>
         off + len \<le> length (sector_storage d) \<and> 2 * unat kDramSize < start + len) \<or>
      hdr_type header = 8 \<and> has_next desc \<and> unat kDramSize < start + min len 17"
proof -
  have id: "length kDiskId = 17" by (simp add: kDiskId_def)
  show ?thesis
    using assms
    by (auto simp: Let_def blk_request_def blk_in_def blk_out_def blk_get_id_def disk_in_range_iff transfer_in_buffers_def
        id split: if_splits)
qed

definition example_ram :: HostMem where
  "example_ram = (\<lambda>_. 0)(0x1001 := 0x50, 0x1013 := 0x80, 0x1019 := 4)"

definition example_desc :: Descriptor where
  "example_desc = \<lparr>desc_adr = 0, desc_len = 16, desc_flags = 1, desc_next = 1\<rparr>"

lemma example_footer:
  "descriptor_at example_ram (Queue example_disk 0) 0 = \<lparr>desc_adr = 0x5000, desc_len = 0, desc_flags = 0, desc_next = 0\<rparr>"
proof -
  have "get_desc_addr 0 (Queue example_disk 0) = 0x80001000"
    by (simp add: get_desc_addr_def get_desc_addr_combined_def combined_address_def example_disk_def upd_queue_def
        initial_Disk_def empty_VirtioQueues_def empty_QueueState_def)
  then have "read_struct_from_ram example_ram (get_desc_addr 0 (Queue example_disk 0)) 16 16 =
      [0, 0x50, 0, 0, 0, 0, 0, 0, 0, 0, 0, 0, 0, 0, 0, 0]"
    by (simp add: read_struct_from_ram_def ram_copy_out_def ram_start_def host_bytes_def Let_def upt_rec
        kDramMask_def kDramSize_def example_ram_def)
  then show ?thesis by (simp add: descriptor_at_def read_descriptor_def Let_def)
qed

lemma example_sector:
  "descriptor_at example_ram (Queue example_disk 0) 1 = \<lparr>desc_adr = 0x80000000, desc_len = 1024, desc_flags = 0, desc_next = 0\<rparr>"
proof -
  have "get_desc_addr 1 (Queue example_disk 0) = 0x80001010"
    by (simp add: get_desc_addr_def get_desc_addr_combined_def combined_address_def example_disk_def upd_queue_def
        initial_Disk_def empty_VirtioQueues_def empty_QueueState_def)
  then have "read_struct_from_ram example_ram (get_desc_addr 1 (Queue example_disk 0)) 16 16 =
      [0, 0, 0, 0x80, 0, 0, 0, 0, 0, 4, 0, 0, 0, 0, 0, 0]"
    by (simp add: read_struct_from_ram_def ram_copy_out_def ram_start_def host_bytes_def Let_def upt_rec
        kDramMask_def kDramSize_def example_ram_def)
  then show ?thesis by (simp add: descriptor_at_def read_descriptor_def Let_def)
qed

theorem disk_bounds_exact_witness:
  "length (sector_storage example_disk) < 2 ^ 64 \<and> \<not> out_of_bounds example_disk \<and>
   out_of_bounds (fst (snd (blk_request \<lparr>hdr_type = 1, hdr_ioprio = 0, hdr_sector_num = 0x7fffffffffffff\<rparr>
     (Queue example_disk 0) example_desc (example_disk, default_CPU, example_ram))))"
proof -
  have a: "length (sector_storage example_disk) = 1024" "\<not> out_of_bounds example_disk" "sector_set example_disk"
    by (simp_all add: example_disk_def upd_queue_def initial_Disk_def)
  then have b: "length (sector_storage example_disk) < 2 ^ 64" by simp
  show ?thesis
    using a disk_bounds_exact [OF b a(2), where m = example_ram and qs = "Queue example_disk 0" and desc = example_desc
        and c = default_CPU and header = "\<lparr>hdr_type = 1, hdr_ioprio = 0, hdr_sector_num = 0x7fffffffffffff\<rparr>"]
    by (simp add: Let_def example_sector example_desc_def disk_offset_def)
qed

text \<open>(C9)
  What is written to the disk is read back: after a write request, and whatever happens to guest
  memory, the queues and the hart meanwhile, a read request for the same sectors fills its buffer
  with the bytes the write took from its own, also when a buffer wraps around the end of guest
  memory, and reports success; the rest of the image is unchanged.
\<close>
theorem disk_write_read:
  assumes wr: "blk_out header qs desc (d, c, m) = (r1, d1, c1, m1)"
    and rw: "blk_in header qs' desc' (d1, c2, m2) = (r2, d2, c3, m3)"
    and A: "A = descriptor_at m qs (desc_next desc)" and B: "B = descriptor_at m2 qs' (desc_next desc')"
    and F: "F = descriptor_at m2 qs' (desc_next B)"
    and len: "desc_len A = len" "desc_len B = len" "unat len \<le> unat kDramSize"
    and range: "sector_set d" "unat (disk_offset header) + unat len \<le> length (sector_storage d)"
      "length (sector_storage d) < 2 ^ 64"
    and status: "\<forall>i < unat len. (ram_start (desc_adr B) + i) mod unat kDramSize \<noteq> ram_start (desc_adr F)"
  shows "ram_copy_out m3 (ram_start (desc_adr B)) (unat len) = ram_copy_out m (ram_start (desc_adr A)) (unat len) \<and>
    m3 (ram_start (desc_adr F)) = 0 \<and> r2 = len + 1 \<and> d2 = d1 \<and>
    length (sector_storage d1) = length (sector_storage d) \<and>
    (\<forall>i < length (sector_storage d). i < unat (disk_offset header) \<or> unat (disk_offset header) + unat len \<le> i \<longrightarrow>
       sector_storage d1 ! i = sector_storage d ! i)"
proof -
  let ?o = "unat (disk_offset header)" and ?n = "unat len" and ?img = "sector_storage d"
  let ?w = "ram_copy_out m (ram_start (desc_adr A)) ?n"
  have fit: "ram_start a + ?n \<le> 2 * unat kDramSize" for a using ram_start_less [of a] len(3) by linarith
  have in_range: "disk_in_range d' (disk_offset header) len" "transfer_in_buffers d' (disk_offset header) len a"
    if "sector_set d'" "length (sector_storage d') = length ?img" for d' a
    using that range fit [of a] by (simp_all add: disk_in_range_iff transfer_in_buffers_def)
  have d1: "d1 = d\<lparr>sector_storage := take ?o ?img @ ?w @ drop (?o + ?n) ?img\<rparr>"
    using wr len(1) in_range [of d] range(1) unfolding A by (simp add: blk_out_def Let_def)
  have img: "length (sector_storage d1) = length ?img" "take ?n (drop ?o (sector_storage d1)) = ?w"
    using range(2) unfolding d1 by simp_all
  have m3: "m3 = (ram_copy_in m2 (ram_start (desc_adr B)) ?w)(ram_start (desc_adr F) := 0)" and r: "r2 = len + 1" "d2 = d1"
    using rw len(2) in_range [of d1] img range(1) d1 unfolding B F by (auto simp: blk_in_def Let_def store_byte simp del: One_nat_def)
  have "ram_copy_out m3 (ram_start (desc_adr B)) ?n = ?w"
    using ram_copy_out_in [where start = "ram_start (desc_adr B)" and bs = ?w and m = m2, OF ram_start_less] ram_copy_out_upd [OF ram_start_less len(3) status] len(3)
    unfolding m3 by simp
  moreover have "sector_storage d1 ! i = ?img ! i" if "i < length ?img" "i < ?o \<or> ?o + ?n \<le> i" for i
    using that range(2) unfolding d1 by (auto simp: nth_append)
  ultimately show ?thesis using m3 r img(1) by simp
qed

theorem disk_write_read_witness:
  "let h = \<lparr>hdr_type = 1, hdr_ioprio = 0, hdr_sector_num = 0\<rparr>; qs = Queue example_disk 0;
       (r1, d1, c1, m1) = blk_out h qs example_desc (example_disk, default_CPU, example_ram);
       (r2, d2, c3, m3) = blk_in h qs example_desc (d1, c1, example_ram)
   in ram_copy_out m3 0 1024 = ram_copy_out example_ram 0 1024 \<and> r2 = 1025 \<and> length (sector_storage d2) = 1024"
proof -
  let ?h = "\<lparr>hdr_type = 1, hdr_ioprio = 0, hdr_sector_num = 0\<rparr>" and ?q = "Queue example_disk 0"
  obtain r1 d1 c1 m1 where w: "blk_out ?h ?q example_desc (example_disk, default_CPU, example_ram) = (r1, d1, c1, m1)"
    by (metis prod_cases4)
  obtain r2 d2 c3 m3 where r: "blk_in ?h ?q example_desc (d1, c1, example_ram) = (r2, d2, c3, m3)"
    by (metis prod_cases4)
  have a: "length (sector_storage example_disk) = 1024" "sector_set example_disk"
    by (simp_all add: example_disk_def upd_queue_def initial_Disk_def)
  have n: "desc_next example_desc = 1" by (simp add: example_desc_def)
  have st: "ram_start 0x80000000 = 0" "ram_start 0x5000 = 0x5000"
    by (simp_all add: ram_start_def kDramMask_def kDramSize_def)
  show ?thesis
    using disk_write_read [OF w r refl refl refl, of 1024] a w r by (simp add: n example_sector example_footer st disk_offset_def)
qed

end
