(* ===== verification/Device_Frame.thy ===== *)
theory Device_Frame
  imports Virtio
begin

text \<open>
  What the devices behind the system bus may change of the hart they are attached to. Every device
  handler acts on its own registers and on the hart: the timer and the interrupt controller on the pending
  bits, a device with an interrupt line through \<^verbatim>\<open>Plic::setIrq\<close>, the power controller on the run state, the
  serial port and the console on the output, the block device on the caches it makes stale. The frames
  here bound these effects handler by handler; the bus composes them.
\<close>

subsection \<open>Frames\<close>

text \<open>
  The devices also act on the hart they are attached to. What a transaction may change there depends on
  the device: \<open>C\<close>, \<open>P\<close> and \<open>W\<close> say that it is the timer, the interrupt controller or the power controller,
  \<open>L\<close> are the interrupt lines the device drives, \<open>out\<close> says that it writes characters to the terminal and
  \<open>flush\<close> that it writes guest memory behind the caches of decoded and translated instructions.
\<close>

definition status_frame :: "bool \<Rightarrow> bool \<Rightarrow> ArchState \<Rightarrow> ArchState \<Rightarrow> bool" where
  "status_frame timer line s s' \<longleftrightarrow>
     (\<exists>p e t. s' = s\<lparr>mip := p, seip_external := e, stip_timer := t\<rparr>) \<and>
     (timer \<or> stip_timer s' = stip_timer s \<and> (\<forall>n. n \<in> {5, 9, 11} \<or> bit (mip s') n = bit (mip s) n)) \<and>
     (line \<or> seip_external s' = seip_external s \<and> bit (mip s') 11 = bit (mip s) 11) \<and>
     (timer \<or> line \<or> s' = s)"

definition pending_frame :: "nat set \<Rightarrow> PlicMmio \<Rightarrow> PlicMmio \<Rightarrow> bool" where
  "pending_frame L pl pl' \<longleftrightarrow>
     (\<exists>p. pl' = pl\<lparr>plic_pending := (plic_pending pl)(0 := p)\<rparr> \<and> (\<forall>n. n \<in> L \<or> bit p n = bit (plic_pending pl 0) n))"

definition output_frame :: "bool \<Rightarrow> MachineState \<Rightarrow> MachineState \<Rightarrow> bool" where
  "output_frame out ms ms' \<longleftrightarrow> (\<exists>w. ms' = ms\<lparr>console_out := console_out ms @ w\<rparr> \<and> (out \<or> w = []))"

definition hart_frame :: "bool \<Rightarrow> bool \<Rightarrow> bool \<Rightarrow> nat set \<Rightarrow> bool \<Rightarrow> bool \<Rightarrow> CPU \<Rightarrow> CPU \<Rightarrow> bool" where
  "hart_frame C P W L out flush c c' \<longleftrightarrow>
     status_frame C (P \<or> L \<noteq> {}) (st c) (st c') \<and>
     (C \<or> clint_mmio c' = clint_mmio c) \<and>
     (P \<or> pending_frame L (plic_mmio c) (plic_mmio c')) \<and>
     (W \<or> output_frame out (machine c) (machine c')) \<and>
     (flush \<or> soft_tlbs c' = soft_tlbs c \<and> decode_cache c' = decode_cache c) \<and>
     prev_st c' = prev_st c \<and> tlb c' = tlb c \<and> pipeline_context c' = pipeline_context c \<and> icache c' = icache c \<and>
     dcache c' = dcache c \<and> e_icount c' = e_icount c \<and> e_ccount c' = e_ccount c \<and> e_instmix c' = e_instmix c \<and>
     undo_stack c' = undo_stack c \<and> trace_history_buf c' = trace_history_buf c \<and>
     trace_history_head c' = trace_history_head c \<and> trace_history_size c' = trace_history_size c \<and>
     use_opensbi c' = use_opensbi c"

lemma status_frame_refl [simp]: "status_frame timer line s s"
proof -
  have "s = s\<lparr>mip := mip s, seip_external := seip_external s, stip_timer := stip_timer s\<rparr>" by simp
  then show ?thesis unfolding status_frame_def by blast
qed

lemma pending_frame_refl [simp]: "pending_frame L pl pl"
  unfolding pending_frame_def by (rule exI [of _ "plic_pending pl 0"]) simp

lemma output_frame_refl [simp]: "output_frame out ms ms"
  unfolding output_frame_def by (rule exI [of _ "[]"]) simp

lemma status_frame_trans:
  assumes "status_frame timer line s s'" "status_frame timer line s' s''"
  shows "status_frame timer line s s''"
proof -
  obtain p e t p' e' t' where s: "s' = s\<lparr>mip := p, seip_external := e, stip_timer := t\<rparr>"
      "s'' = s'\<lparr>mip := p', seip_external := e', stip_timer := t'\<rparr>"
    using assms unfolding status_frame_def by blast
  have "s'' = s\<lparr>mip := p', seip_external := e', stip_timer := t'\<rparr>" unfolding s by simp
  then have "\<exists>p e t. s'' = s\<lparr>mip := p, seip_external := e, stip_timer := t\<rparr>" by blast
  with assms show ?thesis unfolding status_frame_def by metis
qed

lemma pending_frame_trans: "pending_frame L pl pl' \<Longrightarrow> pending_frame L pl' pl'' \<Longrightarrow> pending_frame L pl pl''"
  unfolding pending_frame_def by fastforce

lemma output_frame_trans:
  assumes "output_frame out ms ms'" "output_frame out ms' ms''"
  shows "output_frame out ms ms''"
proof -
  obtain w w' where "ms' = ms\<lparr>console_out := console_out ms @ w\<rparr>" "out \<or> w = []"
      "ms'' = ms'\<lparr>console_out := console_out ms' @ w'\<rparr>" "out \<or> w' = []"
    using assms unfolding output_frame_def by blast
  then have "ms'' = ms\<lparr>console_out := console_out ms @ (w @ w')\<rparr> \<and> (out \<or> w @ w' = [])" by auto
  then show ?thesis unfolding output_frame_def by blast
qed

lemma frame_mono:
  "status_frame timer line s s' \<Longrightarrow> timer \<longrightarrow> timer' \<Longrightarrow> line \<longrightarrow> line' \<Longrightarrow> status_frame timer' line' s s'"
  "pending_frame L pl pl' \<Longrightarrow> L \<subseteq> L' \<Longrightarrow> pending_frame L' pl pl'"
  "output_frame out ms ms' \<Longrightarrow> out \<longrightarrow> out' \<Longrightarrow> output_frame out' ms ms'"
  unfolding status_frame_def pending_frame_def output_frame_def by blast+

lemma hart_frame_refl [simp]: "hart_frame C P W L out flush c c"
  by (simp add: hart_frame_def)

lemma hart_frame_trans:
  assumes "hart_frame C P W L out flush a b" "hart_frame C P W L out flush b c"
  shows "hart_frame C P W L out flush a c"
proof -
  note A = assms [unfolded hart_frame_def]
  have "status_frame C (P \<or> L \<noteq> {}) (st a) (st c)"
    by (rule status_frame_trans [OF A(1) [THEN conjunct1] A(2) [THEN conjunct1]])
  moreover have "P \<or> pending_frame L (plic_mmio a) (plic_mmio c)"
    using A by (cases P) (simp_all, blast intro: pending_frame_trans)
  moreover have "W \<or> output_frame out (machine a) (machine c)"
    using A by (cases W) (simp_all, blast intro: output_frame_trans)
  moreover have "C \<or> clint_mmio c = clint_mmio a" using A by (cases C) simp_all
  moreover have "flush \<or> soft_tlbs c = soft_tlbs a \<and> decode_cache c = decode_cache a" using A by (cases flush) simp_all
  ultimately show ?thesis using A unfolding hart_frame_def by simp
qed

lemma hart_frame_mono:
  assumes "hart_frame C P W L out flush c c'" "C \<longrightarrow> C'" "P \<longrightarrow> P'" "W \<longrightarrow> W'" "L \<subseteq> L'" "out \<longrightarrow> out'" "flush \<longrightarrow> flush'"
  shows "hart_frame C' P' W' L' out' flush' c c'"
proof -
  note A = assms(1) [unfolded hart_frame_def]
  have "status_frame C' (P' \<or> L' \<noteq> {}) (st c) (st c')"
    using A by (rule conjunct1 [THEN frame_mono(1)]) (use assms in auto)
  moreover have "P' \<or> pending_frame L' (plic_mmio c) (plic_mmio c')" "W' \<or> output_frame out' (machine c) (machine c')"
    using A assms frame_mono(2,3) by blast+
  moreover have "C' \<or> clint_mmio c' = clint_mmio c" "flush' \<or> soft_tlbs c' = soft_tlbs c \<and> decode_cache c' = decode_cache c"
    using A assms(2,7) by blast+
  ultimately show ?thesis using A unfolding hart_frame_def by simp
qed

lemma hart_frame_fold:
  "(\<And>x c. hart_frame C P W L out flush c (f x c)) \<Longrightarrow> hart_frame C P W L out flush c (fold f xs c)"
  by (induction xs arbitrary: c) (auto intro: hart_frame_trans)

subsection \<open>The interrupt controller\<close>

lemma updateMip_frame: "line \<Longrightarrow> status_frame timer line s (updateMip pl s)"
proof -
  let ?x = "(if max_priority pl 0 > plic_threshold pl 0 then s\<lparr>mip := mip s OR Mip_Meip\<rparr> else s\<lparr>mip := mip s AND NOT Mip_Meip\<rparr>)
    \<lparr>seip_external := max_priority pl 1 > plic_threshold pl 1\<rparr>"
  have u: "updateMip pl s = refresh_supervisor_pending ?x" by (simp add: updateMip_def Let_def)
  have r: "refresh_supervisor_pending x = x\<lparr>mip := mip (refresh_supervisor_pending x)\<rparr>" for x
    by (simp add: refresh_supervisor_pending_def Let_def)
  have s: "updateMip pl s = s\<lparr>mip := mip (updateMip pl s), seip_external := seip_external ?x, stip_timer := stip_timer s\<rparr>"
    unfolding u by (subst r) simp
  have "stip_timer (updateMip pl s) = stip_timer s"
    by (simp add: updateMip_def refresh_supervisor_pending_def Let_def)
  moreover have "bit (mip (updateMip pl s)) n = bit (mip s) n" if "n \<notin> {5, 9, 11}" for n
    using that unfolding u by (auto simp: bit_refresh_supervisor_pending bit_simps dest: bit_imp_le_length)
  ultimately show "status_frame timer line s (updateMip pl s)" if line
    using that s unfolding status_frame_def by blast
qed

lemma plic_update_mip_frame: "hart_frame C True W L out flush c (plic_update_mip c)"
  by (simp add: hart_frame_def plic_update_mip_def updateMip_frame)

lemma setIrq_frame:
  assumes "nat i \<in> L"
  shows "hart_frame C P W L out flush c (setIrq c i v)"
proof (cases "i \<le> 0 \<or> i \<ge> 32")
  case False
  let ?p = "if v \<noteq> 0 then plic_pending (plic_mmio c) 0 OR push_bit (nat i) 1 else plic_pending (plic_mmio c) 0 AND NOT (push_bit (nat i) 1)"
  let ?pl = "(plic_mmio c)\<lparr>plic_pending := (plic_pending (plic_mmio c))(0 := ?p)\<rparr>"
  have s: "setIrq c i v = c\<lparr>plic_mmio := ?pl, st := updateMip ?pl (st c)\<rparr>"
    using False by (simp add: setIrq_def plic_update_mip_def Let_def)
  have "\<forall>n. n \<in> L \<or> bit ?p n = bit (plic_pending (plic_mmio c) 0) n"
    using assms by (auto simp: bit_simps dest: bit_imp_le_length)
  then have "pending_frame L (plic_mmio c) ?pl" unfolding pending_frame_def by blast
  moreover have "status_frame C (P \<or> L \<noteq> {}) (st c) (updateMip ?pl (st c))"
    using assms by (intro updateMip_frame) auto
  ultimately show ?thesis unfolding hart_frame_def s by simp
qed (simp add: setIrq_def)

lemma plic_store_frame: "hart_frame C True W L out flush c (c\<lparr>plic_mmio := pl\<rparr>)"
  by (simp add: hart_frame_def)

lemma plic_irq_frame: "hart_frame C True W L out flush c (setIrq c i v)"
  by (simp add: hart_frame_def setIrq_def plic_update_mip_def updateMip_frame Let_def)

lemma plic_frame:
  assumes "plic_handle_request lines req resp c = (b, resp', c')"
  shows "hart_frame False True False {} False False c c'"
proof -
  note T = hart_frame_trans [OF plic_store_frame plic_update_mip_frame] hart_frame_trans [OF plic_store_frame plic_irq_frame]
  note I = eq_if_cases [where P = "hart_frame False True False {} False False c"]
  have r: "hart_frame False True False {} False False c (snd (plic_mmio_read c off))" for off
    by (simp add: plic_mmio_read_def plic_claim_read_def Let_def case_prod_beta T)
  have k: "hart_frame False True False {} False False c (plic_complete lines c i w)" for i w
    unfolding plic_complete_def Let_def by (intro I T plic_store_frame hart_frame_refl)
  have w: "hart_frame False True False {} False False c (plic_mmio_write lines c off w)" for off w
    unfolding plic_mmio_write_def Let_def
    by (rule hart_frame_trans [OF _ plic_update_mip_frame], intro I k plic_store_frame hart_frame_refl)
  show ?thesis
    using assms r [of "a_address req - kPlicBaseAddress"] w
    by (auto simp: plic_handle_request_def Let_def case_prod_beta split: if_split_asm)
qed

subsection \<open>The other devices\<close>

lemma timer_evaluation_frame: "hart_frame True P W L out flush c (evaluate_timer_interrupt c)"
proof -
  let ?s1 = "if supervisor_timer (clint_mmio c)
    then (st c)\<lparr>mip := mip (st c) AND NOT Mip_Mtip, stip_timer := mtime (clint_mmio c) \<ge> mtimecmp (clint_mmio c)\<rparr>
    else (st c)\<lparr>stip_timer := False, mip := (if mtime (clint_mmio c) \<ge> mtimecmp (clint_mmio c) then mip (st c) OR Mip_Mtip else mip (st c) AND NOT Mip_Mtip)\<rparr>"
  have e: "evaluate_timer_interrupt c = c\<lparr>st := refresh_supervisor_pending ?s1\<rparr>"
    by (simp add: evaluate_timer_interrupt_def Let_def)
  have "refresh_supervisor_pending ?s1 =
      (st c)\<lparr>mip := mip (refresh_supervisor_pending ?s1), seip_external := seip_external (st c), stip_timer := stip_timer ?s1\<rparr>"
    by (simp add: refresh_supervisor_pending_def Let_def)
  moreover have "seip_external (refresh_supervisor_pending ?s1) = seip_external (st c)"
    by (simp add: refresh_supervisor_pending_def Let_def)
  moreover have "bit (mip (refresh_supervisor_pending ?s1)) 11 = bit (mip (st c)) 11"
    by (simp add: bit_refresh_supervisor_pending bit_simps)
  ultimately have "status_frame True line (st c) (refresh_supervisor_pending ?s1)" for line
    unfolding status_frame_def by blast
  then show ?thesis by (simp add: hart_frame_def e)
qed

lemma clint_frame:
  assumes "clint_handle_request req resp c = (b, resp', c')"
  shows "hart_frame True False False {} False False c c'"
proof -
  let ?F = "hart_frame True False False {} False False"
  note I = eq_if_cases [where P = "?F c"]
  have "?F c (c\<lparr>clint_mmio := cl\<rparr>)" for cl by (simp add: hart_frame_def)
  note T = hart_frame_trans [OF this timer_evaluation_frame]
  have m: "?F c (c\<lparr>st := (st c)\<lparr>mip := p\<rparr>\<rparr>)" if "bit p 11 = bit (mip (st c)) 11" for p
  proof -
    have "(st c)\<lparr>mip := p\<rparr> = (st c)\<lparr>mip := p, seip_external := seip_external (st c), stip_timer := stip_timer (st c)\<rparr>" by simp
    then have "\<exists>p' e t. (st c)\<lparr>mip := p\<rparr> = (st c)\<lparr>mip := p', seip_external := e, stip_timer := t\<rparr>" by blast
    then show ?thesis using that by (simp add: hart_frame_def status_frame_def)
  qed
  have w: "?F c (clint_mmio_write c off w)" for off w
    unfolding clint_mmio_write_def store_mtimecmp_def store_mtime_def Let_def
    by (intro I T m hart_frame_refl; simp add: bit_simps)
  have "?F c (store_mtimecmp c v)" "?F c (store_mtime c v)" for v
    unfolding store_mtimecmp_def store_mtime_def by (rule T)+
  with w show ?thesis
    using assms by (auto simp: clint_handle_request_def Let_def split: if_split_asm)
qed

lemma power_frame:
  "power_handle_request req resp c = (resp', c') \<Longrightarrow> hart_frame False False True {} False False c c'"
  by (auto simp: power_handle_request_def hart_frame_def Let_def split: if_split_asm)

lemma emit_byte_frame: "hart_frame C P W L True flush c (emit_byte ch c)"
  by (auto simp: hart_frame_def output_frame_def emit_byte_def Let_def)

lemma rtc_frame:
  assumes "rtc_handle_request req resp r c = (resp', r', c')"
  shows "hart_frame False False False {3} False False c c'"
proof -
  let ?F = "hart_frame False False False {3} False False"
  have i: "?F c (setIrq c 3 v)" for c v by (rule setIrq_frame) simp
  have e: "?F c (snd (evaluate_alarm r c))" by (simp add: evaluate_alarm_def i)
  have "?F c (snd (rtc_write off w r c))" for off w r c by (simp add: rtc_write_def i)
  then show ?thesis
    using assms e by (auto simp: rtc_handle_request_def Let_def case_prod_beta split: if_split_asm intro: hart_frame_trans)
       (metis hart_frame_trans prod.sel snd_conv)
qed

lemma uart_frame:
  assumes "uart_handle_request req resp u c = (resp', u', c')"
  shows "hart_frame False False False {3} True False c c'"
proof -
  let ?F = "hart_frame False False False {3} True False"
  have i: "?F c (update_uart_irq a b d c)" "?F c (Mmio_Devices.uart_update u c)" for a b c d u
    by (simp_all add: Mmio_Devices.uart_update_def update_uart_irq_def Let_def setIrq_frame)
  have t: "?F c (snd (uart_transmit ch u c))" for ch u c
    by (simp add: uart_transmit_def Let_def i hart_frame_trans [OF emit_byte_frame i(2)])
  have r: "?F c (snd (snd (uart_read sel u c)))" for sel u
    by (simp add: uart_read_def uart_receive_def uart_iir_def Let_def case_prod_beta i)
  have w: "?F c (snd (uart_write sel w u c))" for sel w u
    by (simp add: uart_write_def Let_def i t)
  show ?thesis
    using assms r w [of _ "a_data req"] unfolding uart_handle_request_def Let_def case_prod_beta
    by (auto split: if_split_asm) (metis snd_conv)+
qed

text \<open>A VirtIO device drives one line, given by its number, which none of its operations changes.\<close>

definition virtio_line :: "'a VirtioDevice_scheme \<Rightarrow> nat" where
  "virtio_line d = nat (sint (ucast (virtio_irq d) :: 32 word))"

lemma virtio_frame:
  assumes "\<And>q d m. virtio_line d = l \<Longrightarrow> hart_frame False False False {l} out flush c (fst (snd (pq q (d, c, m))))"
    and "virtio_handle_request base ident rc pq req resp (d, c, m) = (resp', d', c', m')" "virtio_line d = l"
  shows "hart_frame False False False {l} out flush c c'"
proof -
  let ?F = "hart_frame False False False {l} out flush"
  have l: "virtio_line (upd_queue i f d) = virtio_line d" for i f by (simp add: virtio_line_def upd_queue_def)
  have q: "?F c (fst (snd (pq w (upd_queue i f d, c, m))))" for w i f
    using assms(1) [of "upd_queue i f d"] assms(3) by (simp add: l)
  have a: "?F c (snd (virtio_ack w d c))" for w
    using assms(3) by (simp add: virtio_ack_def Let_def setIrq_frame virtio_line_def)
  have "?F c (fst (snd (virtio_mmio_write pq off w (d, c, m))))" for off w
    by (simp add: virtio_mmio_write_def Let_def case_prod_beta q a)
  from this [of "a_address req - base" "a_data req"] show ?thesis
    using assms(2) by (auto simp: virtio_handle_request_def Let_def split: if_split_asm)
qed

lemma trigger_frame: "hart_frame C P W {virtio_line d} out flush c (snd (trigger_interrupt d c))"
  by (simp add: trigger_interrupt_def virtio_line_def setIrq_frame)

lemma disk_turn_frame:
  "hart_frame False False False {virtio_line (fst s)} out True (fst (snd s)) (fst (snd (disk_turn q s)))"
proof -
  obtain d c m where s: "s = (d, c, m)" by (cases s)
  let ?F = "hart_frame False False False {virtio_line d} out True"
  have f: "?F c (c\<lparr>soft_tlbs := t, decode_cache := dc\<rparr>)" for t dc by (simp add: hart_frame_def)
  have b: "?F c (fst (snd (snd (blk_request h qs desc (d, c, m)))))" for h qs desc
    by (simp add: blk_request_def blk_in_def blk_out_def blk_get_id_def Let_def f)
  have l: "virtio_line (upd_queue i g d') = virtio_line d" if "virtio_irq d' = virtio_irq d" for i g d'
    using that by (simp add: virtio_line_def upd_queue_def)
  have t: "?F c (snd (trigger_interrupt (upd_queue i g (fst (snd (blk_request h qs desc (d, c, m)))))
      (fst (snd (snd (blk_request h qs desc (d, c, m)))))))" for i g h qs desc
    using hart_frame_trans [OF b trigger_frame [of False False False "upd_queue i g (fst (snd (blk_request h qs desc (d, c, m))))",
          unfolded l [OF blk_request_irq [of h qs desc "(d, c, m)", unfolded fst_conv]]]] .
  show ?thesis by (simp add: s disk_turn_def Let_def case_prod_beta t)
qed

lemma disk_turns_frame:
  "hart_frame False False False {virtio_line (fst s)} out True (fst (snd s)) (fst (snd ((disk_turn q ^^ n) s)))"
proof (induction n)
  case (Suc n)
  have "virtio_line (fst ((disk_turn q ^^ n) s)) = virtio_line (fst s)" by (simp add: virtio_line_def disk_turns_irq)
  with Suc disk_turn_frame [of "(disk_turn q ^^ n) s" out q] show ?case by (auto intro: hart_frame_trans)
qed simp

lemma console_turns_frame:
  "virtio_irq (fst ((console_turn q ^^ n) s)) = virtio_irq (fst s) \<and>
   hart_frame C P W L True flush (fst (snd s)) (fst (snd ((console_turn q ^^ n) s)))"
proof (induction n)
  case (Suc n)
  have "virtio_irq (fst (console_turn q s)) = virtio_irq (fst s)" for s
    by (simp add: console_turn_def complete_descriptor_def upd_queue_def Let_def case_prod_beta)
  moreover have "hart_frame C P W L True flush (fst (snd s)) (fst (snd (console_turn q s)))" for s
    by (simp add: console_turn_def Let_def case_prod_beta hart_frame_fold emit_byte_frame)
  ultimately show ?case
    using Suc hart_frame_trans [of C P W L True flush "fst (snd s)" "fst (snd ((console_turn q ^^ n) s))"] by simp
qed simp

lemma disk_frame:
  assumes "disk_handle_request req resp (d, c, m) = (resp', d', c', m')"
  shows "hart_frame False False False {virtio_line d} False True c c'"
proof (rule virtio_frame [OF _ assms [unfolded disk_handle_request_def] refl])
  fix q :: Word and d' :: Disk and m assume "virtio_line d' = virtio_line d"
  then show "hart_frame False False False {virtio_line d} False True c (fst (snd (disk_process_queue q (d', c, m))))"
    using disk_turns_frame [of "(d', c, m)"] by (simp add: disk_process_queue_def Let_def disk_queue.loop_turns)
qed

lemma console_frame:
  assumes "console_handle_request req resp (d, c, m) = (resp', d', c', m')"
  shows "hart_frame False False False {virtio_line d} True False c c'"
proof (rule virtio_frame [OF _ assms [unfolded console_handle_request_def] refl])
  fix q :: Word and d' :: Console and m assume l: "virtio_line d' = virtio_line d"
  let ?n = "unat (avail_index (Queue d' (unat q)) m - ucast (last_avail_idx (Queue d' (unat q))))"
  let ?s = "(console_turn (unat q) ^^ ?n) (d', c, m)"
  have t: "virtio_line (fst ?s) = virtio_line d" "hart_frame False False False {virtio_line d} True False c (fst (snd ?s))"
    using console_turns_frame [of ?n "unat q" "(d', c, m)"] l by (simp_all add: virtio_line_def)
  have "hart_frame False False False {virtio_line d} True False c (snd (trigger_interrupt (fst ?s) (fst (snd ?s))))"
    by (rule hart_frame_trans [OF t(2)]) (use trigger_frame [of _ _ _ "fst ?s"] in \<open>simp add: t(1)\<close>)
  then show "hart_frame False False False {virtio_line d} True False c (fst (snd (console_process_queue q (d', c, m))))"
    by (auto simp: console_process_queue_def Let_def case_prod_beta console_queue.loop_turns)
qed

end
