(* ===== verification/Device_Bus.thy ===== *)
theory Device_Bus
  imports Device_Frame
begin

text \<open>
  The devices behind the system bus as \<^verbatim>\<open>Machine::initialize\<close> (\<^verbatim>\<open>src/core/MachineInit.cpp\<close>) connects
  them: the node each device presents to the router, the registration order, and the request handler
  that dispatches on the node. The interface of the bus (\<open>bus_devices\<close>) is discharged for this handler.
\<close>

subsection \<open>Nodes and dispatch\<close>

record Devices =
  console :: Console
  disk :: Disk
  rtc :: Rtc
  uart :: Uart
  input_device :: InputDevice
  audio :: Audio

definition simple_node :: "nat \<Rightarrow> string \<Rightarrow> Address \<Rightarrow> Address \<Rightarrow> TlNode" where
  "simple_node i nm base sz =
     \<lparr>node_id = i, node_name = nm, base_address = base, node_size = sz,
      node_contains = default_contains base sz, alignment = 1, is_read_only = False\<rparr>"

definition console_node :: TlNode where "console_node = simple_node 2 ''console'' kVirtioBaseAddress 0x1000"
definition disk_node :: TlNode where "disk_node = simple_node 3 ''disk'' kDiskBaseAddress 0x08000000"
definition rtc_node :: TlNode where "rtc_node = simple_node 4 ''rtc'' kRtcBaseAddress 0x1000"
definition uart_node :: TlNode where "uart_node = simple_node 5 ''uart'' kUartBaseAddress 0x100"
definition power_node :: TlNode where "power_node = simple_node 6 ''power'' kPowerBaseAddress 0x1000"

definition framebuffer_node :: TlNode where
  "framebuffer_node =
     (simple_node 7 ''framebuffer'' kFramebufferBaseAddress kFramebufferSize)
       \<lparr>node_contains := framebuffer_contains\<rparr>"

definition input_node :: TlNode where
  "input_node =
     (simple_node 8 ''input'' kInputBaseAddress 0x10)
       \<lparr>node_contains := (\<lambda>addr. addr \<ge> 0x30000010 \<and> addr < 0x30000020)\<rparr>"

definition audio_node :: TlNode where "audio_node = simple_node 9 ''audio'' kAudioBaseAddress 0x10000"

definition machine_nodes :: "TlNode list" where
  "machine_nodes =
     [console_node, disk_node, rtc_node, uart_node, power_node, framebuffer_node, input_node, audio_node,
      plic_node, clint_node]"

definition initial_system_bus :: TileLinkBus where
  "initial_system_bus = fold (\<lambda>n. add_node (Some n)) machine_nodes initial_TileLinkBus"

definition device_lines :: "Devices \<Rightarrow> IrqLines" where
  "device_lines d =
     \<lparr>console_line = (InterruptStatus (console d) \<noteq> 0), disk_line = (InterruptStatus (disk d) \<noteq> 0),
      uart_line = is_interrupt_pending (uart d)\<rparr>"

definition machine_handle :: "Devices DeviceHandler" where
  "machine_handle i req resp s =
     (let (c, m, fb, d) = s in
      if i = 0 then (let (b, resp', c') = plic_handle_request (device_lines d) req resp c in (b, resp', c', m, fb, d))
      else if i = 1 then (let (b, resp', c') = clint_handle_request req resp c in (b, resp', c', m, fb, d))
      else if i = 2 then
        (let (resp', x, c', m') = console_handle_request req resp (console d, c, m)
         in (True, resp', c', m', fb, d\<lparr>console := x\<rparr>))
      else if i = 3 then
        (let (resp', x, c', m') = disk_handle_request req resp (disk d, c, m)
         in (True, resp', c', m', fb, d\<lparr>disk := x\<rparr>))
      else if i = 4 then
        (let (resp', x, c') = rtc_handle_request req resp (rtc d) c in (True, resp', c', m, fb, d\<lparr>rtc := x\<rparr>))
      else if i = 5 then
        (let (resp', x, c') = uart_handle_request req resp (uart d) c in (True, resp', c', m, fb, d\<lparr>uart := x\<rparr>))
      else if i = 6 then (let (resp', c') = power_handle_request req resp c in (True, resp', c', m, fb, d))
      else if i = 7 then
        (case fb of
           None \<Rightarrow> (False, resp, s)
         | Some x \<Rightarrow> (let (resp', x') = framebuffer_handle_request req resp x in (True, resp', c, m, Some x', d)))
      else if i = 8 then
        (let (resp', x) = input_handle_request req resp (input_device d)
         in (True, resp', c, m, fb, d\<lparr>input_device := x\<rparr>))
      else if i = 9 then
        (let (resp', x) = audio_handle_request req resp (audio d) in (True, resp', c, m, fb, d\<lparr>audio := x\<rparr>))
      else (False, resp, s))"

lemma handler_source:
  "d_source (fst (power_handle_request req resp c)) = d_source resp"
  "d_source (fst (rtc_handle_request req resp r c)) = d_source resp"
  "d_source (fst (uart_handle_request req resp u c)) = d_source resp"
  "d_source (fst (input_handle_request req resp i)) = d_source resp"
  "d_source (fst (framebuffer_handle_request req resp f)) = d_source resp"
  "d_source (fst (audio_handle_request req resp a)) = a_source req"
  "d_source (fst (virtio_handle_request b ident rc pq req resp s)) = d_source resp"
  "d_source (fst (snd (plic_handle_request l req resp c))) = d_source resp"
  "d_source (fst (snd (clint_handle_request req resp c))) = d_source resp"
  by (simp_all add: power_handle_request_def rtc_handle_request_def uart_handle_request_def input_handle_request_def
      framebuffer_handle_request_def audio_handle_request_def virtio_handle_request_def plic_handle_request_def
      clint_handle_request_def Let_def case_prod_beta)

interpretation system_bus: bus_devices machine_handle
  by unfold_locales
    (simp add: machine_handle_def Let_def case_prod_beta disk_handle_request_def console_handle_request_def
      handler_source split: option.split)

lemma machine_nodes_wf: "n \<in> set machine_nodes \<Longrightarrow> node_wf n"
  by (auto simp: machine_nodes_def node_wf_def simple_node_def console_node_def disk_node_def rtc_node_def uart_node_def
      power_node_def framebuffer_node_def input_node_def audio_node_def plic_node_def clint_node_def
      default_contains_def framebuffer_contains_def word_le_nat_alt word_less_nat_alt unat_sub)

subsection \<open>The address map\<close>

lemmas node_defs = simple_node_def console_node_def disk_node_def rtc_node_def uart_node_def power_node_def
  framebuffer_node_def input_node_def audio_node_def plic_node_def clint_node_def

fun nodes_apart :: "TlNode list \<Rightarrow> bool" where
  "nodes_apart [] \<longleftrightarrow> True"
| "nodes_apart (n # ns) \<longleftrightarrow>
     (\<forall>n' \<in> set ns. node_id n \<noteq> node_id n' \<and> disjoint_nodes n n') \<and> nodes_apart ns"

lemma scan_nodes_None:
  "(\<And>n. n \<in> set ns \<Longrightarrow> node_id n \<noteq> node_id node \<and> node_wf n \<and> \<not> owns_same_byte node n) \<Longrightarrow> scan_nodes node ns = None"
  by (induction ns) (auto simp: node_wf_def not_less)

lemma disjoint_nodes_sym: "disjoint_nodes n n' \<Longrightarrow> disjoint_nodes n' n"
  by (auto simp: disjoint_nodes_def)

lemma add_node_apart:
  assumes "router_ok (router b)" "node_wf node"
    and apart: "\<And>n. n \<in> set (nodes (router b)) \<Longrightarrow> node_id n \<noteq> node_id node \<and> disjoint_nodes n node"
  shows "router_ok (router (add_node (Some node) b)) \<and>
    set (nodes (router (add_node (Some node) b))) = insert node (set (nodes (router b)))"
proof -
  have "scan_nodes node (nodes (router b)) = None"
    using assms by (intro scan_nodes_None) (auto simp: router_ok_def owns_same_byte_iff dest: disjoint_nodes_sym)
  moreover have "router_ok (router (add_node (Some node) b))"
    using register_device_ok [OF assms(1,2), of "fst (register_device (Some node) (router b))"
        "snd (register_device (Some node) (router b))"] by (simp add: add_node_def)
  ultimately show ?thesis
    using assms(2) by (auto simp: add_node_def register_device_def node_wf_def)
qed

lemma add_nodes_apart:
  assumes "router_ok (router b)" "\<forall>n \<in> set ns. node_wf n" "nodes_apart ns"
    and "\<forall>n \<in> set (nodes (router b)). \<forall>n' \<in> set ns. node_id n \<noteq> node_id n' \<and> disjoint_nodes n n'"
  shows "router_ok (router (fold (\<lambda>n. add_node (Some n)) ns b)) \<and>
    set (nodes (router (fold (\<lambda>n. add_node (Some n)) ns b))) = set (nodes (router b)) \<union> set ns"
  using assms
proof (induction ns arbitrary: b)
  case (Cons n ns)
  have "router_ok (router (add_node (Some n) b)) \<and>
      set (nodes (router (add_node (Some n) b))) = insert n (set (nodes (router b)))"
    using Cons.prems by (intro add_node_apart) auto
  with Cons.IH [of "add_node (Some n) b"] Cons.prems show ?case by auto
qed simp

lemma nodes_apart_ranges:
  assumes "node_wf n" "node_wf n'"
    and "unat (base_address n + node_size n) \<le> unat (base_address n') \<or> unat (base_address n' + node_size n') \<le> unat (base_address n)"
  shows "disjoint_nodes n n'"
  using assms node_range [OF assms(1)] node_range [OF assms(2)] unfolding disjoint_nodes_def
  by (meson le_trans not_le)

lemma node_attributes [simp]:
  "node_id console_node = 2" "base_address console_node = 0x40000000" "node_size console_node = 0x1000"
  "node_id disk_node = 3" "base_address disk_node = 0x48000000" "node_size disk_node = 0x08000000"
  "node_id rtc_node = 4" "base_address rtc_node = 0x70000000" "node_size rtc_node = 0x1000"
  "node_id uart_node = 5" "base_address uart_node = 0x10000000" "node_size uart_node = 0x100"
  "node_id power_node = 6" "base_address power_node = 0x00100000" "node_size power_node = 0x1000"
  "node_id framebuffer_node = 7" "base_address framebuffer_node = 0x30000000" "node_size framebuffer_node = 0x00200000"
  "node_id input_node = 8" "base_address input_node = 0x30000010" "node_size input_node = 0x10"
  "node_id audio_node = 9" "base_address audio_node = 0x30200000" "node_size audio_node = 0x10000"
  "node_id plic_node = 0" "base_address plic_node = 0x50000000" "node_size plic_node = 0x04000000"
  "node_id clint_node = 1" "base_address clint_node = 0x60000000" "node_size clint_node = 0x000c0000"
  by (simp_all add: node_defs)

lemma machine_nodes_apart: "nodes_apart machine_nodes"
proof -
  have fi: "disjoint_nodes framebuffer_node input_node"
    by (auto simp: disjoint_nodes_def node_defs framebuffer_contains_def word_le_nat_alt word_less_nat_alt unat_sub)
  have *: "disjoint_nodes n n'"
    if "n \<in> set machine_nodes" "n' \<in> set machine_nodes"
      "unat (base_address n + node_size n) \<le> unat (base_address n') \<or> unat (base_address n' + node_size n') \<le> unat (base_address n)" for n n'
    using that by (intro nodes_apart_ranges machine_nodes_wf)
  show ?thesis
    by (simp add: machine_nodes_def fi * [unfolded machine_nodes_def])
qed

lemma system_bus_nodes:
  "router_ok (router initial_system_bus) \<and> set (nodes (router initial_system_bus)) = set machine_nodes"
  using add_nodes_apart [of initial_TileLinkBus machine_nodes] machine_nodes_wf machine_nodes_apart
  by (simp add: initial_system_bus_def initial_TileLinkBus_def initial_MmioRouter_def router_ok_def)

text \<open>(C29)
  The address map of the machine: registration accepts all ten devices, and an address is resolved to
  a device exactly when that device claims it; in particular no address has two owners, the key and
  mouse registers inside the aperture of the frame buffer included. The ranges are those of the device
  classes: the console claims one page at 0x40000000, not the 128 MB that the memory map of
  \<^verbatim>\<open>docs/user/baremetal.md\<close> gives it, so the addresses 0x40001000 to 0x47ffffff belong to no device.
\<close>
theorem address_map_exact:
  "resolve_device (router initial_system_bus) a = Some n \<longleftrightarrow> n \<in> set machine_nodes \<and> node_contains n a"
  using system_bus_nodes resolve_device_iff [of "router initial_system_bus"] by simp

subsection \<open>Transactions\<close>

definition owned_by :: "TlNode \<Rightarrow> TlChannelA \<Rightarrow> bool" where
  "owned_by n req \<longleftrightarrow> node_contains n (a_address req)"

text \<open>The state of every device whose node does not claim the address is the same.\<close>

definition others_unchanged :: "TlChannelA \<Rightarrow> Framebuffer option \<times> Devices \<Rightarrow> Framebuffer option \<times> Devices \<Rightarrow> bool" where
  "others_unchanged req s s' \<longleftrightarrow>
     (\<not> owned_by console_node req \<longrightarrow> console (snd s') = console (snd s)) \<and>
     (\<not> owned_by disk_node req \<longrightarrow> disk (snd s') = disk (snd s)) \<and>
     (\<not> owned_by rtc_node req \<longrightarrow> rtc (snd s') = rtc (snd s)) \<and>
     (\<not> owned_by uart_node req \<longrightarrow> uart (snd s') = uart (snd s)) \<and>
     (\<not> owned_by framebuffer_node req \<longrightarrow> fst s' = fst s) \<and>
     (\<not> owned_by input_node req \<longrightarrow> input_device (snd s') = input_device (snd s)) \<and>
     (\<not> owned_by audio_node req \<longrightarrow> audio (snd s') = audio (snd s))"

lemma others_unchanged_refl [simp]: "others_unchanged req s s"
  by (simp add: others_unchanged_def)

lemma machine_handle_frame:
  assumes "n \<in> set machine_nodes" "owned_by n req" "machine_handle (node_id n) req' resp (c, m, s) = (b, resp', c', m', s')"
  shows "others_unchanged req s s'"
proof -
  obtain fb d fb' d' where s: "s = (fb, d)" "s' = (fb', d')" by (cases s, cases s')
  show ?thesis
    using assms unfolding machine_nodes_def s
    by (auto simp: machine_handle_def others_unchanged_def Let_def split: prod.splits option.splits)
qed

text \<open>
  The lines that the device at the address drives, and what the transaction may change of the hart. The
  bus itself stores the word written to the watched address of a test program, and guest memory when the
  address is in it.
\<close>

definition bus_lines :: "TlChannelA \<Rightarrow> Devices \<Rightarrow> nat set" where
  "bus_lines req d =
     {l. owned_by console_node req \<and> l = virtio_line (console d) \<or> owned_by disk_node req \<and> l = virtio_line (disk d) \<or>
         (owned_by rtc_node req \<or> owned_by uart_node req) \<and> l = 3}"

definition hart_unchanged :: "TlChannelA \<Rightarrow> Devices \<Rightarrow> CPU \<Rightarrow> CPU \<Rightarrow> bool" where
  "hart_unchanged req d =
     hart_frame (owned_by clint_node req) (owned_by plic_node req) (owned_by power_node req) (bus_lines req d)
       (owned_by console_node req \<or> owned_by uart_node req) (owned_by disk_node req)"

definition is_dram_request :: "TlChannelA \<Rightarrow> bool" where
  "is_dram_request req \<longleftrightarrow> a_size req \<le> 3 \<and> is_dram_access (a_address req) (2 ^ unat (a_size req))"

definition tohost_watched :: "TlChannelA \<Rightarrow> CPU \<Rightarrow> CPU" where
  "tohost_watched req c =
     (if is_write_request req \<and> a_size req \<in> {2, 3} \<and> is_tohost_address (machine c) (a_address req)
      then c\<lparr>machine := (machine c)\<lparr>tohost := a_data req\<rparr>\<rparr> else c)"

definition memory_written :: "TlChannelA \<Rightarrow> HostMem \<Rightarrow> HostMem" where
  "memory_written req m =
     (if is_write_request req \<and> is_dram_request req then ram_write_fast (a_address req) (a_data req) (ucast (a_size req)) m else m)"

lemma hart_unchanged_refl [simp]: "hart_unchanged req d c c"
  by (simp add: hart_unchanged_def)

lemma hart_unchangedI:
  "hart_frame C P W L out flush c c' \<Longrightarrow> C \<longrightarrow> owned_by clint_node req \<Longrightarrow> P \<longrightarrow> owned_by plic_node req \<Longrightarrow>
   W \<longrightarrow> owned_by power_node req \<Longrightarrow> L \<subseteq> bus_lines req d \<Longrightarrow> out \<longrightarrow> owned_by console_node req \<or> owned_by uart_node req \<Longrightarrow>
   flush \<longrightarrow> owned_by disk_node req \<Longrightarrow> hart_unchanged req d c c'"
  unfolding hart_unchanged_def by (rule hart_frame_mono)

lemma machine_handle_hart:
  assumes "n \<in> set machine_nodes" "owned_by n req" "machine_handle (node_id n) req' resp (c, m, fb, d) = (b, resp', c', m', s')"
  shows "hart_unchanged req d c c' \<and> (owned_by console_node req \<or> owned_by disk_node req \<or> m' = m)"
proof -
  have "n = console_node \<or> n = disk_node \<or> n = rtc_node \<or> n = uart_node \<or> n = power_node \<or> n = plic_node \<or> n = clint_node \<or>
      n = framebuffer_node \<or> n = input_node \<or> n = audio_node"
    using assms(1) by (auto simp: machine_nodes_def)
  then show ?thesis
  proof (elim disjE)
    assume "n = console_node"
    with assms show ?thesis
      by (auto simp: machine_handle_def Let_def bus_lines_def split: prod.splits intro!: hart_unchangedI [OF console_frame])
  next
    assume "n = disk_node"
    with assms show ?thesis
      by (auto simp: machine_handle_def Let_def bus_lines_def split: prod.splits intro!: hart_unchangedI [OF disk_frame])
  next
    assume "n = rtc_node"
    with assms show ?thesis
      by (auto simp: machine_handle_def Let_def bus_lines_def split: prod.splits intro!: hart_unchangedI [OF rtc_frame])
  next
    assume "n = uart_node"
    with assms show ?thesis
      by (auto simp: machine_handle_def Let_def bus_lines_def split: prod.splits intro!: hart_unchangedI [OF uart_frame])
  next
    assume "n = power_node"
    with assms show ?thesis
      by (auto simp: machine_handle_def Let_def split: prod.splits intro!: hart_unchangedI [OF power_frame])
  next
    assume "n = plic_node"
    with assms show ?thesis
      by (auto simp: machine_handle_def Let_def split: prod.splits intro!: hart_unchangedI [OF plic_frame])
  next
    assume "n = clint_node"
    with assms show ?thesis
      by (auto simp: machine_handle_def Let_def split: prod.splits intro!: hart_unchangedI [OF clint_frame])
  qed (use assms in \<open>auto simp: machine_handle_def Let_def split: prod.splits option.splits\<close>)
qed

lemma route_hart:
  assumes "nodes r = nodes (router initial_system_bus)" "a_address req' = a_address req"
    "route_request machine_handle req' resp r (c, m, fb, d) = (h, resp', r', c', m', s')"
  shows "others_unchanged req (fb, d) s' \<and> hart_unchanged req d c c' \<and>
    (owned_by console_node req \<or> owned_by disk_node req \<or> m' = m)"
proof (cases "resolve_device r (a_address req)")
  case None
  then show ?thesis using assms by (simp add: route_request_def)
next
  case (Some n)
  have "router_ok r" using assms(1) system_bus_nodes by (simp add: router_ok_def)
  with Some have n: "n \<in> set machine_nodes" "owned_by n req"
    using resolve_device_iff [of r] assms(1) system_bus_nodes by (auto simp: owned_by_def)
  obtain b resp1 c1 m1 s1 where h: "machine_handle (node_id n) req' resp (c, m, fb, d) = (b, resp1, c1, m1, s1)"
    by (metis prod_cases5)
  have "(c', m', s') = (c, m, fb, d) \<or> (c', m', s') = (c1, m1, s1)"
    using assms(2,3) Some h by (auto simp: route_request_def Let_def split: if_splits)
  then show ?thesis using machine_handle_frame [OF n h] machine_handle_hart [OF n h] by auto
qed

lemma process_hart:
  assumes "nodes (router b) = nodes (router initial_system_bus)"
    "process_request machine_handle req b (c, m, fb, d) = (resp, b', c', m', s')"
  shows "others_unchanged req (fb, d) s' \<and> hart_unchanged req d (tohost_watched req c) c' \<and>
    (owned_by console_node req \<or> owned_by disk_node req \<or> m' = memory_written req m)"
proof -
  define req' where "req' = (if a_mask req = 0 then req\<lparr>a_mask := compute_mask (a_size req) (a_address req)\<rparr> else req)"
  have a: "a_address req' = a_address req" "a_size req' = a_size req" "a_opcode req' = a_opcode req" "a_data req' = a_data req"
    by (simp_all add: req'_def)
  let ?f = "ucast (a_size req) :: u32"
  have f: "?f = 2 \<longleftrightarrow> a_size req = 2" "?f = 3 \<longleftrightarrow> a_size req = 3"
    using uint_lt2p [of "a_size req"] by (simp_all add: word_uint_eq_iff unsigned_ucast_eq take_bit_int_eq_self)
  note R = route_hart [OF assms(1) a(1)]
  consider "\<not> a_size req \<le> 3" | "a_size req \<le> 3" "a_opcode req = Get" | "a_size req \<le> 3" "is_write_request req"
    | "a_size req \<le> 3" "a_opcode req \<noteq> Get" "\<not> is_write_request req" by blast
  then show ?thesis
  proof cases
    case 3
    then have nget: "a_opcode req \<noteq> Get" "a_opcode req = PutFullData \<or> a_opcode req = PutPartialData" by (auto simp: is_write_request_def)
    show ?thesis
      using assms(2) 3 nget R
      unfolding process_request_def Let_def req'_def [symmetric]
      by (auto simp: a f tohost_watched_def memory_written_def is_dram_request_def split: prod.splits if_split_asm)
  qed (use assms(2) R in \<open>auto simp: process_request_def Let_def req'_def [symmetric] a is_write_request_def tohost_watched_def
     memory_written_def is_dram_request_def split: prod.splits if_split_asm\<close>)
qed

text \<open>(C8)
  A transaction on the idle system bus: for every request, well-formed or not, exactly one response
  comes back, it carries the tag of the request, and the bus is idle again with the same devices
  attached. Of the devices, only the one that claims the address can have changed, with one exception
  that the code has: the console, the disk, the clock and the serial port drive an interrupt line, so a
  transaction with one of them may change the pending bit of that line in the interrupt controller, and
  with it the external pending bits of the hart; the other lines, the priorities, enables, thresholds and
  claims stay. The timer registers change only through the timer, the run state only through the power
  controller (apart from the watched word of a store and from characters written by the console and the
  serial port), the decoded and translated caches only through the disk, and nothing else of the hart
  changes. Guest memory changes only by a store to it, exactly as that store says, or through the console
  and the disk.
\<close>
theorem bus_transaction_exact:
  assumes "nodes (router b) = nodes (router initial_system_bus)" "req_queue b = []" "resp_queue b = []"
  shows "\<exists>resp b' c' m' s'.
    get_response machine_handle (a_source req) (send_request req b) (c, m, s) = (Some resp, b', c', m', s') \<and>
    d_source resp = a_source req \<and> req_queue b' = [] \<and> resp_queue b' = [] \<and>
    nodes (router b') = nodes (router b) \<and> others_unchanged req s s' \<and>
    hart_unchanged req (snd s) (tohost_watched req c) c' \<and>
    (owned_by console_node req \<or> owned_by disk_node req \<or> m' = memory_written req m)"
proof -
  obtain fb d where s: "s = (fb, d)" by (cases s)
  obtain resp b' c' m' s' where p: "process_request machine_handle req b (c, m, s) = (resp, b', c', m', s')"
    by (metis prod_cases5)
  have "get_response machine_handle (a_source req) (send_request req b) (c, m, s) = (Some resp, b', c', m', s')"
    using system_bus.transaction [OF assms(2,3), of req "(c, m, s)"] p by simp
  moreover have "d_source resp = a_source req" using system_bus.process_source [of req b "(c, m, s)"] p by simp
  moreover have "others_unchanged req s s' \<and> hart_unchanged req (snd s) (tohost_watched req c) c' \<and>
      (owned_by console_node req \<or> owned_by disk_node req \<or> m' = memory_written req m)"
    using process_hart [OF assms(1) p [unfolded s]] s by simp
  ultimately show ?thesis
    using process_request_keeps [of machine_handle req b "(c, m, s)"] p assms(2,3) by auto
qed

lemma add_nodes_queues:
  "req_queue (fold (\<lambda>n. add_node (Some n)) ns b) = req_queue b \<and> resp_queue (fold (\<lambda>n. add_node (Some n)) ns b) = resp_queue b"
  by (induction ns arbitrary: b) (simp_all add: add_node_def)

definition initial_Devices :: "u8 list \<Rightarrow> Devices" where
  "initial_Devices img =
     \<lparr>console = initial_Console, disk = initial_Disk img, rtc = initial_Rtc, uart = initial_Uart,
      input_device = initial_InputDevice, audio = initial_Audio\<rparr>"

theorem bus_transaction_exact_witness:
  "\<exists>resp b' c' m' s'.
    get_response machine_handle 0 (send_request (get_request 0x70000000) initial_system_bus)
      (default_CPU, (\<lambda>_. 0), None, initial_Devices []) = (Some resp, b', c', m', s') \<and>
    d_source resp = 0 \<and> uart (snd s') = initial_Uart \<and> disk (snd s') = initial_Disk [] \<and>
    clint_mmio c' = clint_mmio default_CPU \<and> plic_enables (plic_mmio c') = plic_enables (plic_mmio default_CPU) \<and>
    machine c' = machine default_CPU \<and> m' = (\<lambda>_. 0)"
proof -
  let ?r = "get_request 0x70000000"
  have q: "req_queue initial_system_bus = []" "resp_queue initial_system_bus = []"
    using add_nodes_queues [of machine_nodes initial_TileLinkBus]
    by (simp_all add: initial_system_bus_def initial_TileLinkBus_def)
  have src: "a_source ?r = 0" by (simp add: get_request_def initial_TlChannelA_def)
  have other: "\<not> owned_by uart_node ?r" "\<not> owned_by disk_node ?r" "\<not> owned_by console_node ?r" "\<not> owned_by plic_node ?r"
    "\<not> owned_by clint_node ?r" "\<not> owned_by power_node ?r"
    by (simp_all add: owned_by_def node_defs default_contains_def)
  have get: "tohost_watched ?r default_CPU = default_CPU" "memory_written ?r (\<lambda>_. 0) = (\<lambda>_. 0)"
    by (simp_all add: tohost_watched_def memory_written_def is_write_request_def)
  have frame: "clint_mmio c' = clint_mmio default_CPU \<and> plic_enables (plic_mmio c') = plic_enables (plic_mmio default_CPU) \<and>
      machine c' = machine default_CPU" if "hart_unchanged ?r d default_CPU c'" for c' d
    using that other by (auto simp: hart_unchanged_def hart_frame_def pending_frame_def output_frame_def)
  from bus_transaction_exact [OF refl q, of ?r default_CPU "\<lambda>_. 0" "(None, initial_Devices [])"]
  obtain resp b' c' m' s' where r: "get_response machine_handle 0 (send_request ?r initial_system_bus)
      (default_CPU, (\<lambda>_. 0), None, initial_Devices []) = (Some resp, b', c', m', s')" "d_source resp = 0"
    "others_unchanged ?r (None, initial_Devices []) s'" "hart_unchanged ?r (initial_Devices []) default_CPU c'" "m' = (\<lambda>_. 0)"
    unfolding src get using other by auto
  then show ?thesis
    using frame [OF r(4)] other by (simp add: others_unchanged_def initial_Devices_def)
qed

end
