(* ===== verification/Timing_Model.thy ===== *)
theory Timing_Model
  imports Arch_State
begin

text \<open>
  The cycle model of the in-order five-stage pipeline (\<^verbatim>\<open>src/pipeline/InOrderPipeline.cpp\<close>,
  \<^verbatim>\<open>PipelineSim.cpp\<close>): stage registers, stall and hazard conditions, branch predictors and target
  buffer, the tick of one clock cycle and \<^verbatim>\<open>step_instruction\<close>, which feeds one retired instruction
  and returns the cycles it took. The thirteen arguments of \<^verbatim>\<open>step_instruction\<close> are the record
  \<open>Retired\<close>. The C++ class refers to the configuration of its owner; here it is a field. The target
  buffer is accessed with a range check that throws; \<open>range_error\<close> records such an exception.
\<close>

subsection \<open>Data\<close>

record BtbEntry =
  btb_pc :: Register
  btb_target :: Register
  btb_valid :: bool

definition empty_BtbEntry :: BtbEntry where
  "empty_BtbEntry = \<lparr>btb_pc = 0, btb_target = 0, btb_valid = False\<rparr>"

record PipelineReg =
  pr_inst_id :: u64
  pr_pc :: Register
  pr_opcode :: Opcode
  pr_rd :: RegId
  pr_rs1 :: RegId
  pr_rs2 :: RegId
  pr_op_id :: OperationId
  pr_writes_reg :: bool
  pr_is_load :: bool
  pr_remaining_latency :: int
  pr_valid :: bool
  pr_tlb_miss :: bool
  pr_icache_miss :: bool
  pr_dcache_miss :: bool
  pr_is_branch :: bool
  pr_is_jump :: bool
  pr_branched :: bool
  pr_target_pc :: Register
  pr_control_resolved :: bool

definition empty_PipelineReg :: PipelineReg where
  "empty_PipelineReg =
     \<lparr>pr_inst_id = 0, pr_pc = 0, pr_opcode = 0, pr_rd = 0, pr_rs1 = 0, pr_rs2 = 0, pr_op_id = UNKNOWN,
      pr_writes_reg = False, pr_is_load = False, pr_remaining_latency = 0, pr_valid = False,
      pr_tlb_miss = False, pr_icache_miss = False, pr_dcache_miss = False, pr_is_branch = False,
      pr_is_jump = False, pr_branched = False, pr_target_pc = 0, pr_control_resolved = False\<rparr>"

datatype BranchPredictorType = StaticNotTaken | StaticTaken | OneBitBimodal | TwoBitBimodal | Gshare

record CpuConfig =
  icache_miss_penalty :: u32
  dcache_miss_penalty :: u32
  tlb_miss_penalty :: u32
  mul_latency :: u32
  div_latency :: u32
  branch_mispredict_penalty :: u32
  enable_forwarding :: bool
  bp_type :: BranchPredictorType
  btb_entries :: u32
  global_history_bits :: u32
  enable_ex_forwarding :: bool
  enable_mem_forwarding :: bool

definition default_CpuConfig :: CpuConfig where
  "default_CpuConfig =
     \<lparr>icache_miss_penalty = 10, dcache_miss_penalty = 15, tlb_miss_penalty = 30, mul_latency = 3,
      div_latency = 20, branch_mispredict_penalty = 2, enable_forwarding = True,
      bp_type = TwoBitBimodal, btb_entries = 128, global_history_bits = 8,
      enable_ex_forwarding = True, enable_mem_forwarding = True\<rparr>"

record StageInfo =
  si_inst_id :: u64
  si_pc :: Register
  si_op_id :: OperationId
  si_valid :: bool
  si_stalled :: bool

record PipelineCycleSnapshot =
  snap_cycle :: u64
  snap_f :: StageInfo
  snap_d :: StageInfo
  snap_e :: StageInfo
  snap_m :: StageInfo
  snap_w :: StageInfo

record PipelineStats =
  cycle_count :: u64
  stall_cycles :: u64
  bubble_cycles :: u64
  icache_stalls :: u64
  dcache_stalls :: u64
  tlb_stalls :: u64
  structural_stalls :: u64
  data_hazard_stalls :: u64
  control_hazard_bubbles :: u64

definition empty_PipelineStats :: PipelineStats where
  "empty_PipelineStats =
     \<lparr>cycle_count = 0, stall_cycles = 0, bubble_cycles = 0, icache_stalls = 0, dcache_stalls = 0,
      tlb_stalls = 0, structural_stalls = 0, data_hazard_stalls = 0, control_hazard_bubbles = 0\<rparr>"

record PipelineSimState =
  f_reg :: PipelineReg
  d_reg :: PipelineReg
  e_reg :: PipelineReg
  m_reg :: PipelineReg
  w_reg :: PipelineReg
  branch_history_table :: "nat \<Rightarrow> u8"
  btb :: "BtbEntry list"
  cycle_history :: "PipelineCycleSnapshot list"
  control_bubble_remaining :: u32
  tlb_stall_remaining :: u32
  icache_stall_remaining :: u32
  dcache_stall_remaining :: u32
  div_busy_cycles_remaining :: u32
  stats :: PipelineStats
  gshare_history :: u32

text \<open>The members of the model are those of the saved state, and the ones that are not saved.\<close>

record InOrderPipeline = PipelineSimState +
  config :: CpuConfig
  next_inst_id :: u64
  range_error :: bool

definition reset_state :: "CpuConfig \<Rightarrow> PipelineSimState" where
  "reset_state cfg =
     \<lparr>f_reg = empty_PipelineReg, d_reg = empty_PipelineReg, e_reg = empty_PipelineReg,
      m_reg = empty_PipelineReg, w_reg = empty_PipelineReg, branch_history_table = (\<lambda>_. 1),
      btb = replicate (unat (btb_entries cfg)) empty_BtbEntry, cycle_history = [],
      control_bubble_remaining = 0, tlb_stall_remaining = 0, icache_stall_remaining = 0,
      dcache_stall_remaining = 0, div_busy_cycles_remaining = 0, stats = empty_PipelineStats,
      gshare_history = 0\<rparr>"

definition make_InOrderPipeline :: "CpuConfig \<Rightarrow> InOrderPipeline" where
  "make_InOrderPipeline cfg =
     PipelineSimState.extend (reset_state cfg)
       (InOrderPipeline.fields cfg 0 False)"

definition pipeline_reset :: "InOrderPipeline \<Rightarrow> InOrderPipeline" where
  "pipeline_reset p = make_InOrderPipeline (config p)"

subsection \<open>Stalls and hazards\<close>

definition is_mul_op :: "OperationId \<Rightarrow> bool" where
  "is_mul_op o' \<longleftrightarrow> o' = MUL \<or> o' = MULH \<or> o' = MULHSU \<or> o' = MULHU \<or> o' = MULW"

definition is_div_rem_op :: "OperationId \<Rightarrow> bool" where
  "is_div_rem_op o' \<longleftrightarrow>
     o' = DIV \<or> o' = DIVU \<or> o' = REM \<or> o' = REMU \<or> o' = DIVW \<or> o' = DIVUW \<or> o' = REMW \<or> o' = REMUW"

text \<open>The only register it is called on is the one of the execute stage.\<close>

definition init_execution_latency :: "InOrderPipeline \<Rightarrow> InOrderPipeline" where
  "init_execution_latency p =
     (let r = e_reg p; cfg = config p in
      if \<not> pr_valid r then p
      else if pr_is_load r then p\<lparr>e_reg := r\<lparr>pr_remaining_latency := 1\<rparr>\<rparr>
      else if is_mul_op (pr_op_id r)
      then p\<lparr>e_reg := r\<lparr>pr_remaining_latency := sint (mul_latency cfg) - 1\<rparr>\<rparr>
      else if is_div_rem_op (pr_op_id r)
      then p\<lparr>e_reg := r\<lparr>pr_remaining_latency := sint (div_latency cfg) - 1\<rparr>,
             div_busy_cycles_remaining := div_latency cfg - 1\<rparr>
      else p\<lparr>e_reg := r\<lparr>pr_remaining_latency := 0\<rparr>\<rparr>)"

definition check_stall_mem :: "InOrderPipeline \<Rightarrow> bool" where
  "check_stall_mem p \<longleftrightarrow> pr_valid (m_reg p) \<and> pr_dcache_miss (m_reg p) \<and> dcache_stall_remaining p > 0"

definition check_stall_ex :: "InOrderPipeline \<Rightarrow> bool" where
  "check_stall_ex p \<longleftrightarrow>
     pr_valid (e_reg p) \<and> is_div_rem_op (pr_op_id (e_reg p)) \<and> div_busy_cycles_remaining p > 0"

definition check_hazard_with_stage ::
    "InOrderPipeline \<Rightarrow> PipelineReg \<Rightarrow> bool \<Rightarrow> bool \<Rightarrow> bool \<Rightarrow> bool" where
  "check_hazard_with_stage p stage_reg stage_forwarding reads_rs1 reads_rs2 =
     (if \<not> pr_valid stage_reg \<or> \<not> pr_writes_reg stage_reg \<or> pr_rd stage_reg = 0 then False
      else if reads_rs1 \<and> pr_rs1 (d_reg p) = pr_rd stage_reg \<or> reads_rs2 \<and> pr_rs2 (d_reg p) = pr_rd stage_reg then
        if enable_forwarding (config p) \<and> stage_forwarding then pr_remaining_latency stage_reg > 0
        else True
      else False)"

definition check_stall_id :: "InOrderPipeline \<Rightarrow> bool" where
  "check_stall_id p =
     (if \<not> pr_valid (d_reg p) then False
      else
        let reads_rs1 = (pr_rs1 (d_reg p) \<noteq> 0);
            reads_rs2 = (pr_rs2 (d_reg p) \<noteq> 0)
        in if \<not> reads_rs1 \<and> \<not> reads_rs2 then False
           else check_hazard_with_stage p (e_reg p) (enable_ex_forwarding (config p)) reads_rs1 reads_rs2 \<or>
                check_hazard_with_stage p (m_reg p) (enable_mem_forwarding (config p)) reads_rs1 reads_rs2)"

definition check_stall_if :: "InOrderPipeline \<Rightarrow> bool" where
  "check_stall_if p \<longleftrightarrow>
     pr_valid (f_reg p) \<and>
     (pr_tlb_miss (f_reg p) \<and> tlb_stall_remaining p > 0 \<or> pr_icache_miss (f_reg p) \<and> icache_stall_remaining p > 0)"

subsection \<open>Branch prediction\<close>

definition btb_hit :: "CpuConfig \<Rightarrow> BtbEntry \<Rightarrow> Register \<Rightarrow> bool" where
  "btb_hit cfg entry pc' \<longleftrightarrow> btb_entries cfg > 0 \<and> btb_valid entry \<and> btb_pc entry = pc'"

definition btb_learn :: "CpuConfig \<Rightarrow> Register \<Rightarrow> Register \<Rightarrow> BtbEntry \<Rightarrow> BtbEntry" where
  "btb_learn cfg pc' target entry =
     (if btb_entries cfg > 0 then \<lparr>btb_pc = pc', btb_target = target, btb_valid = True\<rparr> else entry)"

definition resolve_jump_ex ::
    "CpuConfig \<Rightarrow> BtbEntry \<Rightarrow> Register \<Rightarrow> Opcode \<Rightarrow> Register \<Rightarrow> u32 \<times> BtbEntry" where
  "resolve_jump_ex cfg entry pc' opcode' target =
     (if btb_hit cfg entry pc' \<and> btb_target entry = target then (0, entry)
      else (if opcode' = Opcode_Jalr then branch_mispredict_penalty cfg else 1, btb_learn cfg pc' target entry))"

definition bht_index :: "InOrderPipeline \<Rightarrow> Register \<Rightarrow> nat" where
  "bht_index p pc' =
     (case bp_type (config p) of
        OneBitBimodal \<Rightarrow> unat (drop_bit 1 pc' AND 0xFF)
      | TwoBitBimodal \<Rightarrow> unat (drop_bit 1 pc' AND 0xFF)
      | Gshare \<Rightarrow> unat ((drop_bit 1 pc' XOR ucast (gshare_history p)) AND 0xFF)
      | _ \<Rightarrow> 0)"

definition predicted_taken :: "InOrderPipeline \<Rightarrow> Register \<Rightarrow> bool" where
  "predicted_taken p pc' =
     (let counter = branch_history_table p (bht_index p pc') in
      case bp_type (config p) of
        StaticNotTaken \<Rightarrow> False
      | StaticTaken \<Rightarrow> True
      | OneBitBimodal \<Rightarrow> counter \<noteq> 0
      | TwoBitBimodal \<Rightarrow> counter \<ge> 2
      | Gshare \<Rightarrow> counter \<ge> 2)"

definition saturate :: "bool \<Rightarrow> u8 \<Rightarrow> u8" where
  "saturate taken counter =
     (if taken then if counter < 3 then counter + 1 else counter
      else if counter > 0 then counter - 1 else counter)"

definition train_predictor :: "Register \<Rightarrow> bool \<Rightarrow> InOrderPipeline \<Rightarrow> InOrderPipeline" where
  "train_predictor pc' taken p =
     (let i = bht_index p pc'; t = branch_history_table p in
      case bp_type (config p) of
        OneBitBimodal \<Rightarrow> p\<lparr>branch_history_table := t(i := if taken then 1 else 0)\<rparr>
      | TwoBitBimodal \<Rightarrow> p\<lparr>branch_history_table := t(i := saturate taken (t i))\<rparr>
      | Gshare \<Rightarrow>
          p\<lparr>branch_history_table := t(i := saturate taken (t i)),
            gshare_history := (push_bit 1 (gshare_history p) OR (if taken then 1 else 0)) AND
                              (push_bit (unat (global_history_bits (config p))) 1 - 1)\<rparr>
      | _ \<Rightarrow> p)"

definition resolve_branch_ex ::
    "BtbEntry \<Rightarrow> Register \<Rightarrow> Register \<Rightarrow> bool \<Rightarrow> InOrderPipeline \<Rightarrow> u32 \<times> BtbEntry \<times> InOrderPipeline" where
  "resolve_branch_ex entry pc' target taken p =
     (let cfg = config p;
          predicted = predicted_taken p pc';
          control_bubbles =
            (if predicted \<noteq> taken then branch_mispredict_penalty cfg
             else if predicted then
               if btb_hit cfg entry pc' \<and> btb_target entry = target then 0 else branch_mispredict_penalty cfg
             else 0);
          entry' = (if taken then btb_learn cfg pc' target entry else entry)
      in (control_bubbles, entry', train_predictor pc' taken p))"

definition squash :: "u32 \<Rightarrow> InOrderPipeline \<Rightarrow> bool \<times> InOrderPipeline" where
  "squash control_bubbles p =
     (if control_bubbles > 0
      then (True, p\<lparr>control_bubble_remaining := control_bubbles, f_reg := empty_PipelineReg, d_reg := empty_PipelineReg\<rparr>)
      else (False, p))"

definition resolve_with ::
    "BtbEntry \<Rightarrow> InOrderPipeline \<Rightarrow> u32 \<times> BtbEntry \<times> InOrderPipeline" where
  "resolve_with entry p =
     (let r = e_reg p in
      if pr_is_jump r then
        (let (n, entry') = resolve_jump_ex (config p) entry (pr_pc r) (pr_opcode r) (pr_target_pc r) in (n, entry', p))
      else if pr_is_branch r then resolve_branch_ex entry (pr_pc r) (pr_target_pc r) (pr_branched r) p
      else (0, entry, p))"

definition btb_index :: "InOrderPipeline \<Rightarrow> nat" where
  "btb_index p = unat (drop_bit 1 (pr_pc (e_reg p)) mod ucast (btb_entries (config p)))"

definition resolve_branches_ex :: "InOrderPipeline \<Rightarrow> bool \<times> InOrderPipeline" where
  "resolve_branches_ex p0 =
     (if \<not> pr_valid (e_reg p0) \<or> pr_control_resolved (e_reg p0) then (False, p0)
      else
        let p = p0\<lparr>e_reg := (e_reg p0)\<lparr>pr_control_resolved := True\<rparr>\<rparr>;
            i = btb_index p
        in if btb_entries (config p) > 0 \<and> btb p \<noteq> [] then
             if i < length (btb p) then
               let (n, entry, p1) = resolve_with (btb p ! i) p in squash n (p1\<lparr>btb := (btb p1)[i := entry]\<rparr>)
             else (False, p\<lparr>range_error := True\<rparr>)
           else
             let (n, entry, p1) = resolve_with empty_BtbEntry p in squash n p1)"

subsection \<open>One cycle\<close>

definition update_stall_stats :: "bool \<Rightarrow> bool \<Rightarrow> bool \<Rightarrow> bool \<Rightarrow> InOrderPipeline \<Rightarrow> InOrderPipeline" where
  "update_stall_stats stall_mem stall_ex stall_id stall_if p =
     (let s = stats p;
          s1 = (if stall_mem then s\<lparr>dcache_stalls := dcache_stalls s + 1, stall_cycles := stall_cycles s + 1\<rparr>
                else if stall_ex
                then s\<lparr>structural_stalls := structural_stalls s + 1, stall_cycles := stall_cycles s + 1\<rparr>
                else if stall_id
                then s\<lparr>data_hazard_stalls := data_hazard_stalls s + 1, stall_cycles := stall_cycles s + 1\<rparr>
                else if stall_if then
                  let s' = (if pr_tlb_miss (f_reg p) then s\<lparr>tlb_stalls := tlb_stalls s + 1\<rparr>
                            else s\<lparr>icache_stalls := icache_stalls s + 1\<rparr>)
                  in s'\<lparr>stall_cycles := stall_cycles s' + 1\<rparr>
                else s)
      in p\<lparr>stats := s1\<lparr>cycle_count := cycle_count s1 + 1\<rparr>\<rparr>)"

definition count_down :: "u32 \<Rightarrow> u32" where
  "count_down n = (if n > 0 then n - 1 else n)"

definition decrement_stalls :: "InOrderPipeline \<Rightarrow> InOrderPipeline" where
  "decrement_stalls p =
     p\<lparr>dcache_stall_remaining := count_down (dcache_stall_remaining p),
       div_busy_cycles_remaining := count_down (div_busy_cycles_remaining p),
       tlb_stall_remaining := count_down (tlb_stall_remaining p),
       icache_stall_remaining := count_down (icache_stall_remaining p)\<rparr>"

definition decrement_latency :: "PipelineReg \<Rightarrow> PipelineReg" where
  "decrement_latency r =
     (if pr_valid r \<and> pr_remaining_latency r > 0
      then r\<lparr>pr_remaining_latency := pr_remaining_latency r - 1\<rparr> else r)"

definition decrement_latencies :: "InOrderPipeline \<Rightarrow> InOrderPipeline" where
  "decrement_latencies p =
     p\<lparr>e_reg := decrement_latency (e_reg p), m_reg := decrement_latency (m_reg p), w_reg := decrement_latency (w_reg p)\<rparr>"

definition stage_register_transfers :: "bool \<Rightarrow> bool \<Rightarrow> bool \<Rightarrow> bool \<Rightarrow> InOrderPipeline \<Rightarrow> InOrderPipeline" where
  "stage_register_transfers MEM_stalled EX_stalled ID_stalled IF_stalled p =
     (let p1 = p\<lparr>w_reg := (if \<not> MEM_stalled then m_reg p else empty_PipelineReg)\<rparr>;
          p2 = (if \<not> MEM_stalled then
                  if \<not> EX_stalled then
                    let q = p1\<lparr>m_reg := e_reg p1\<rparr>
                    in if pr_valid (m_reg q) \<and> pr_dcache_miss (m_reg q)
                       then q\<lparr>dcache_stall_remaining := dcache_miss_penalty (config q)\<rparr> else q
                  else p1\<lparr>m_reg := empty_PipelineReg\<rparr>
                else p1);
          p3 = (if \<not> EX_stalled then
                  if \<not> ID_stalled then init_execution_latency (p2\<lparr>e_reg := d_reg p2\<rparr>)
                  else p2\<lparr>e_reg := empty_PipelineReg\<rparr>
                else p2);
          p4 = (if \<not> ID_stalled then
                  p3\<lparr>d_reg := (if \<not> IF_stalled then f_reg p3 else empty_PipelineReg)\<rparr>
                else p3)
      in if \<not> IF_stalled then p4\<lparr>f_reg := empty_PipelineReg\<rparr> else p4)"

definition stage_info :: "PipelineReg \<Rightarrow> bool \<Rightarrow> StageInfo" where
  "stage_info r stalled =
     \<lparr>si_inst_id = pr_inst_id r, si_pc = pr_pc r, si_op_id = pr_op_id r, si_valid = pr_valid r, si_stalled = stalled\<rparr>"

definition record_cycle_snapshot :: "InOrderPipeline \<Rightarrow> InOrderPipeline" where
  "record_cycle_snapshot p =
     (let snap = \<lparr>snap_cycle = cycle_count (stats p),
                  snap_f = stage_info (f_reg p) (icache_stall_remaining p > 0 \<or> tlb_stall_remaining p > 0),
                  snap_d = stage_info (d_reg p) (check_stall_id p),
                  snap_e = stage_info (e_reg p) (div_busy_cycles_remaining p > 0),
                  snap_m = stage_info (m_reg p) (dcache_stall_remaining p > 0),
                  snap_w = stage_info (w_reg p) False\<rparr>;
          h = cycle_history p @ [snap]
      in p\<lparr>cycle_history := (if length h > 80 then tl h else h)\<rparr>)"

definition bubble_cycle :: "InOrderPipeline \<Rightarrow> InOrderPipeline" where
  "bubble_cycle p =
     (let s = stats p;
          p1 = p\<lparr>control_bubble_remaining := control_bubble_remaining p - 1,
                 stats := s\<lparr>control_hazard_bubbles := control_hazard_bubbles s + 1,
                            bubble_cycles := bubble_cycles s + 1, stall_cycles := stall_cycles s + 1,
                            cycle_count := cycle_count s + 1\<rparr>,
                 w_reg := m_reg p, m_reg := e_reg p, e_reg := d_reg p\<rparr>;
          p2 = init_execution_latency p1
      in p2\<lparr>d_reg := f_reg p2, f_reg := empty_PipelineReg\<rparr>)"

definition tick_pipeline :: "InOrderPipeline \<Rightarrow> InOrderPipeline" where
  "tick_pipeline p =
     (if control_bubble_remaining p > 0 then record_cycle_snapshot (bubble_cycle p)
      else
        let stall_mem = check_stall_mem p;
            stall_ex = check_stall_ex p;
            stall_id = check_stall_id p;
            stall_if = check_stall_if p;
            MEM_stalled = stall_mem;
            EX_stalled = (MEM_stalled \<or> stall_ex);
            ID_stalled = (EX_stalled \<or> stall_id);
            IF_stalled = (ID_stalled \<or> stall_if);
            p1 = decrement_latencies (decrement_stalls (update_stall_stats stall_mem stall_ex stall_id stall_if p));
            (redirect, p2) = resolve_branches_ex p1
        in if redirect then record_cycle_snapshot p2
           else record_cycle_snapshot (stage_register_transfers MEM_stalled EX_stalled ID_stalled IF_stalled p2))"

subsection \<open>Feeding an instruction\<close>

text \<open>
  Each tick makes progress: an instruction moves on, is squashed or has its control flow resolved,
  or, when nothing moves, a stall counter goes down. New stalls only begin when an instruction moves.
\<close>

definition stage_weight :: "nat \<Rightarrow> PipelineReg \<Rightarrow> nat" where
  "stage_weight k r = (if pr_valid r then k else 0)"

definition unresolved :: "PipelineReg \<Rightarrow> nat" where
  "unresolved r = (if pr_valid r \<and> \<not> pr_control_resolved r then 1 else 0)"

definition work_left :: "InOrderPipeline \<Rightarrow> nat" where
  "work_left p =
     stage_weight 4 (f_reg p) + stage_weight 3 (d_reg p) + stage_weight 2 (e_reg p) + stage_weight 1 (m_reg p) +
     (unresolved (f_reg p) + unresolved (d_reg p) + unresolved (e_reg p))"

definition counters_left :: "InOrderPipeline \<Rightarrow> nat" where
  "counters_left p =
     unat (control_bubble_remaining p) + unat (dcache_stall_remaining p) + unat (div_busy_cycles_remaining p) +
     unat (tlb_stall_remaining p) + unat (icache_stall_remaining p)"

definition fetch_blocked :: "InOrderPipeline \<Rightarrow> bool" where
  "fetch_blocked p \<longleftrightarrow>
     check_stall_mem p \<or> check_stall_ex p \<or> check_stall_id p \<or> check_stall_if p \<or>
     control_bubble_remaining p \<noteq> 0 \<or> pr_valid (f_reg p)"

definition advances :: "InOrderPipeline \<Rightarrow> InOrderPipeline \<Rightarrow> bool" where
  "advances p p' \<longleftrightarrow> work_left p' < work_left p \<or> work_left p' = work_left p \<and> counters_left p' < counters_left p"

lemma empty_reg_sel [simp]:
  "pr_valid empty_PipelineReg = False" "stage_weight k empty_PipelineReg = 0" "unresolved empty_PipelineReg = 0"
  by (simp_all add: empty_PipelineReg_def stage_weight_def unresolved_def)

lemma init_latency_sel [simp]:
  "f_reg (init_execution_latency p) = f_reg p" "d_reg (init_execution_latency p) = d_reg p"
  "m_reg (init_execution_latency p) = m_reg p" "w_reg (init_execution_latency p) = w_reg p"
  "pr_valid (e_reg (init_execution_latency p)) = pr_valid (e_reg p)"
  "pr_control_resolved (e_reg (init_execution_latency p)) = pr_control_resolved (e_reg p)"
  "control_bubble_remaining (init_execution_latency p) = control_bubble_remaining p"
  "dcache_stall_remaining (init_execution_latency p) = dcache_stall_remaining p"
  "tlb_stall_remaining (init_execution_latency p) = tlb_stall_remaining p"
  "icache_stall_remaining (init_execution_latency p) = icache_stall_remaining p"
  "config (init_execution_latency p) = config p" "stats (init_execution_latency p) = stats p"
  "\<not> pr_valid (e_reg p) \<Longrightarrow> div_busy_cycles_remaining (init_execution_latency p) = div_busy_cycles_remaining p"
  by (simp_all add: init_execution_latency_def Let_def)

lemma weights_init [simp]:
  "stage_weight k (e_reg (init_execution_latency p)) = stage_weight k (e_reg p)"
  "unresolved (e_reg (init_execution_latency p)) = unresolved (e_reg p)"
  by (simp_all add: stage_weight_def unresolved_def)

lemma snapshot_left [simp]:
  "work_left (record_cycle_snapshot p) = work_left p" "counters_left (record_cycle_snapshot p) = counters_left p"
  by (simp_all add: record_cycle_snapshot_def work_left_def counters_left_def Let_def)

lemma unat_dec: "0 < n \<Longrightarrow> unat (n - 1) < unat n" for n :: u32
  by (metis measure_unat word_greater_zero_iff)

lemma bubble_advances:
  assumes "control_bubble_remaining p > 0"
  shows "advances p (bubble_cycle p)"
proof (cases "pr_valid (f_reg p) \<or> pr_valid (d_reg p) \<or> pr_valid (e_reg p) \<or> pr_valid (m_reg p)")
  case True
  then have "work_left (bubble_cycle p) < work_left p"
    by (auto simp: work_left_def bubble_cycle_def Let_def stage_weight_def unresolved_def)
  then show ?thesis by (simp add: advances_def)
next
  case False
  then have "work_left (bubble_cycle p) = work_left p"
    by (auto simp: work_left_def bubble_cycle_def Let_def stage_weight_def unresolved_def)
  moreover have "counters_left (bubble_cycle p) < counters_left p"
    using False unat_dec [OF assms] by (simp add: counters_left_def bubble_cycle_def Let_def)
  ultimately show ?thesis by (simp add: advances_def)
qed

definition quiet_step :: "InOrderPipeline \<Rightarrow> InOrderPipeline \<Rightarrow> bool" where
  "quiet_step p q \<longleftrightarrow>
     f_reg q = f_reg p \<and> d_reg q = d_reg p \<and> pr_valid (e_reg q) = pr_valid (e_reg p) \<and>
     pr_valid (m_reg q) = pr_valid (m_reg p) \<and> unresolved (e_reg q) \<le> unresolved (e_reg p) \<and>
     control_bubble_remaining q = control_bubble_remaining p \<and>
     dcache_stall_remaining q = count_down (dcache_stall_remaining p) \<and>
     div_busy_cycles_remaining q = count_down (div_busy_cycles_remaining p) \<and>
     tlb_stall_remaining q = count_down (tlb_stall_remaining p) \<and>
     icache_stall_remaining q = count_down (icache_stall_remaining p)"

lemma count_down_le: "unat (count_down n) \<le> unat n"
  using unat_dec [of n] by (simp add: count_down_def less_imp_le)

lemma count_down_less: "0 < n \<Longrightarrow> unat (count_down n) < unat n"
  using unat_dec [of n] by (simp add: count_down_def)

lemma weights_by_valid: "stage_weight k r = k * (if pr_valid r then 1 else 0)"
  by (simp add: stage_weight_def)

lemma quiet_begin:
  "quiet_step p (decrement_latencies (decrement_stalls (update_stall_stats a b c d p)))"
  by (simp add: quiet_step_def decrement_latencies_def decrement_stalls_def update_stall_stats_def decrement_latency_def
      unresolved_def Let_def)

lemma train_predictor_sel [simp]:
  "f_reg (train_predictor a t p) = f_reg p" "d_reg (train_predictor a t p) = d_reg p"
  "e_reg (train_predictor a t p) = e_reg p" "m_reg (train_predictor a t p) = m_reg p"
  "w_reg (train_predictor a t p) = w_reg p" "btb (train_predictor a t p) = btb p"
  "control_bubble_remaining (train_predictor a t p) = control_bubble_remaining p"
  "dcache_stall_remaining (train_predictor a t p) = dcache_stall_remaining p"
  "div_busy_cycles_remaining (train_predictor a t p) = div_busy_cycles_remaining p"
  "tlb_stall_remaining (train_predictor a t p) = tlb_stall_remaining p"
  "icache_stall_remaining (train_predictor a t p) = icache_stall_remaining p"
  "config (train_predictor a t p) = config p" "stats (train_predictor a t p) = stats p"
  "next_inst_id (train_predictor a t p) = next_inst_id p" "range_error (train_predictor a t p) = range_error p"
  "cycle_history (train_predictor a t p) = cycle_history p"
  by (simp_all add: train_predictor_def Let_def split: BranchPredictorType.split)

lemma resolve_with_pipe:
  "resolve_with entry p = (n, entry', p') \<Longrightarrow> p' = p \<or> p' = train_predictor (pr_pc (e_reg p)) (pr_branched (e_reg p)) p"
  by (simp add: resolve_with_def resolve_branch_ex_def Let_def split: if_splits prod.splits) blast?

lemma resolve_with_sel:
  assumes "resolve_with entry p = (n, entry', p')"
  shows "f_reg p' = f_reg p" "d_reg p' = d_reg p" "e_reg p' = e_reg p" "m_reg p' = m_reg p" "w_reg p' = w_reg p"
    "control_bubble_remaining p' = control_bubble_remaining p" "dcache_stall_remaining p' = dcache_stall_remaining p"
    "div_busy_cycles_remaining p' = div_busy_cycles_remaining p" "tlb_stall_remaining p' = tlb_stall_remaining p"
    "icache_stall_remaining p' = icache_stall_remaining p" "config p' = config p" "stats p' = stats p" "btb p' = btb p"
    "next_inst_id p' = next_inst_id p" "range_error p' = range_error p" "cycle_history p' = cycle_history p"
  using resolve_with_pipe [OF assms] by (elim disjE; simp)+

definition resolved_view :: "InOrderPipeline \<Rightarrow> InOrderPipeline \<Rightarrow> bool" where
  "resolved_view p q \<longleftrightarrow>
     f_reg q = f_reg p \<and> d_reg q = d_reg p \<and> e_reg q = (e_reg p)\<lparr>pr_control_resolved := True\<rparr> \<and>
     m_reg q = m_reg p \<and> w_reg q = w_reg p \<and> control_bubble_remaining q = control_bubble_remaining p \<and>
     dcache_stall_remaining q = dcache_stall_remaining p \<and> div_busy_cycles_remaining q = div_busy_cycles_remaining p \<and>
     tlb_stall_remaining q = tlb_stall_remaining p \<and> icache_stall_remaining q = icache_stall_remaining p \<and>
     config q = config p \<and> stats q = stats p \<and> length (btb q) = length (btb p) \<and>
     next_inst_id q = next_inst_id p \<and> cycle_history q = cycle_history p"

lemma resolve_view:
  assumes "pr_valid (e_reg p)" "\<not> pr_control_resolved (e_reg p)"
  shows "\<exists>n q. resolve_branches_ex p = squash n q \<and> resolved_view p q"
proof -
  let ?p = "p\<lparr>e_reg := (e_reg p)\<lparr>pr_control_resolved := True\<rparr>\<rparr>"
  obtain n1 entry1 q1 where r1: "resolve_with (btb ?p ! btb_index ?p) ?p = (n1, entry1, q1)" by (metis prod_cases3)
  obtain n2 entry2 q2 where r2: "resolve_with empty_BtbEntry ?p = (n2, entry2, q2)" by (metis prod_cases3)
  have v1: "resolved_view p (q1\<lparr>btb := (btb q1)[btb_index ?p := entry1]\<rparr>)"
    using resolve_with_sel [OF r1] by (simp add: resolved_view_def)
  have v2: "resolved_view p q2" using resolve_with_sel [OF r2] by (simp add: resolved_view_def)
  have v3: "resolved_view p (?p\<lparr>range_error := True\<rparr>)" by (simp add: resolved_view_def)
  show ?thesis
  proof (cases "btb_entries (config p) > 0 \<and> btb p \<noteq> []")
    case True
    show ?thesis
    proof (cases "btb_index ?p < length (btb p)")
      case in_range: True
      with True assms r1 have "resolve_branches_ex p = squash n1 (q1\<lparr>btb := (btb q1)[btb_index ?p := entry1]\<rparr>)"
        by (simp add: resolve_branches_ex_def Let_def)
      with v1 show ?thesis by blast
    next
      case False
      with True assms have "resolve_branches_ex p = squash 0 (?p\<lparr>range_error := True\<rparr>)"
        by (simp add: resolve_branches_ex_def Let_def squash_def)
      with v3 show ?thesis by blast
    qed
  next
    case False
    then have "resolve_branches_ex p = squash n2 q2"
      using assms r2 by (simp only: resolve_branches_ex_def Let_def if_False simp_thms) (simp add: False)
    with v2 show ?thesis by blast
  qed
qed

lemma resolve_cases:
  obtains (nothing) "resolve_branches_ex p = (False, p)"
  | (resolved) q where "resolve_branches_ex p = (False, q)" "resolved_view p q" "unresolved (e_reg p) = 1"
  | (squashed) q n where "resolve_branches_ex p = (True, q\<lparr>control_bubble_remaining := n, f_reg := empty_PipelineReg,
        d_reg := empty_PipelineReg\<rparr>)" "resolved_view p q" "unresolved (e_reg p) = 1"
proof (cases "pr_valid (e_reg p) \<and> \<not> pr_control_resolved (e_reg p)")
  case True
  then obtain n q where r: "resolve_branches_ex p = squash n q" "resolved_view p q" using resolve_view by blast
  have u: "unresolved (e_reg p) = 1" using True by (simp add: unresolved_def)
  show ?thesis
  proof (cases "n > 0")
    case True
    then show ?thesis using r u squashed by (simp add: squash_def)
  next
    case False
    then show ?thesis using r u resolved by (simp add: squash_def)
  qed
next
  case False
  then have "resolve_branches_ex p = (False, p)" by (auto simp: resolve_branches_ex_def)
  then show ?thesis by (rule nothing)
qed

lemma view_quiet: "resolved_view q q' \<Longrightarrow> quiet_step p q \<Longrightarrow> quiet_step p q'"
  by (auto simp: resolved_view_def quiet_step_def unresolved_def)

lemma squash_advances:
  assumes "quiet_step p q" "resolved_view q q'" "unresolved (e_reg q) = 1"
  shows "work_left (q'\<lparr>control_bubble_remaining := n, f_reg := empty_PipelineReg, d_reg := empty_PipelineReg\<rparr>) < work_left p"
proof -
  have q: "pr_valid (e_reg q') = pr_valid (e_reg p)" "pr_valid (m_reg q') = pr_valid (m_reg p)"
    "pr_control_resolved (e_reg q')" "unresolved (e_reg q) \<le> unresolved (e_reg p)"
    using assms(1,2) by (simp_all add: resolved_view_def quiet_step_def)
  then have "unresolved (e_reg q') = 0" "stage_weight k (e_reg q') = stage_weight k (e_reg p)"
    "stage_weight k (m_reg q') = stage_weight k (m_reg p)" for k
    by (simp_all add: unresolved_def stage_weight_def)
  then show ?thesis using q(4) assms(3) by (simp add: work_left_def)
qed

lemma stall_id_producer: "check_stall_id p \<Longrightarrow> pr_valid (e_reg p) \<or> pr_valid (m_reg p)"
proof (rule ccontr)
  assume c: "check_stall_id p" "\<not> (pr_valid (e_reg p) \<or> pr_valid (m_reg p))"
  then have "\<not> check_hazard_with_stage p (e_reg p) f x y" "\<not> check_hazard_with_stage p (m_reg p) f x y" for f x y
    by (simp_all add: check_hazard_with_stage_def)
  with c(1) show False by (simp add: check_stall_id_def Let_def split: if_splits)
qed

lemma transfers_advance:
  assumes q: "quiet_step p q" and b: "control_bubble_remaining p = 0" and "fetch_blocked p"
    and M: "M = check_stall_mem p" and E: "E = (M \<or> check_stall_ex p)" and I: "I = (E \<or> check_stall_id p)"
    and F: "F = (I \<or> check_stall_if p)"
  shows "advances p (stage_register_transfers M E I F q)"
proof -
  note d = stage_register_transfers_def Let_def work_left_def counters_left_def
  note qs = q [unfolded quiet_step_def]
  have le: "unat (count_down (dcache_stall_remaining p)) \<le> unat (dcache_stall_remaining p)"
    "unat (count_down (div_busy_cycles_remaining p)) \<le> unat (div_busy_cycles_remaining p)"
    "unat (count_down (tlb_stall_remaining p)) \<le> unat (tlb_stall_remaining p)"
    "unat (count_down (icache_stall_remaining p)) \<le> unat (icache_stall_remaining p)"
    by (rule count_down_le)+
  have w: "stage_weight k (e_reg q) = stage_weight k (e_reg p)" "stage_weight k (m_reg q) = stage_weight k (m_reg p)" for k
    using qs by (simp_all add: stage_weight_def)
  consider (mem) "M" | (ex) "\<not> M" "E" | (id) "\<not> E" "I" | (if') "\<not> I" "F" | (none) "\<not> F"
    using E I F by blast
  then show ?thesis
  proof cases
    case mem
    then have e: "E" "I" "F" and c: "unat (count_down (dcache_stall_remaining p)) < unat (dcache_stall_remaining p)"
      using M E I F by (auto simp: check_stall_mem_def intro: count_down_less)
    have "work_left (stage_register_transfers M E I F q) \<le> work_left p"
      using mem e qs w by (simp add: d)
    moreover have "counters_left (stage_register_transfers M E I F q) < counters_left p"
      using mem e qs le c by (simp add: d)
    ultimately show ?thesis by (auto simp: advances_def)
  next
    case ex
    then have e: "I" "F" and c: "unat (count_down (div_busy_cycles_remaining p)) < unat (div_busy_cycles_remaining p)"
      using M E I F by (auto simp: check_stall_ex_def intro: count_down_less)
    have eq: "stage_register_transfers M E I F q = q\<lparr>w_reg := m_reg q, m_reg := empty_PipelineReg\<rparr>"
      using ex e by (simp add: stage_register_transfers_def)
    have u: "f_reg q = f_reg p" "d_reg q = d_reg p" "unresolved (e_reg q) \<le> unresolved (e_reg p)" using qs by simp_all
    have "work_left (stage_register_transfers M E I F q) \<le> work_left p"
      using u(3) by (simp add: eq work_left_def w u(1,2))
    moreover have "counters_left (stage_register_transfers M E I F q) < counters_left p"
      using qs le c by (simp add: eq counters_left_def)
    ultimately show ?thesis by (auto simp: advances_def)
  next
    case id
    then have e: "F" "\<not> M" and v: "pr_valid (e_reg p) \<or> pr_valid (m_reg p)"
      using E F I stall_id_producer [of p] by blast+
    have "work_left (stage_register_transfers M E I F q) < work_left p"
      using id e v qs w by (auto simp: d stage_weight_def)
    then show ?thesis by (simp add: advances_def)
  next
    case if'
    then have e: "\<not> E" "\<not> M" and c: "unat (count_down (tlb_stall_remaining p)) < unat (tlb_stall_remaining p) \<or>
        unat (count_down (icache_stall_remaining p)) < unat (icache_stall_remaining p)"
      using E I F by (auto simp: check_stall_if_def intro: count_down_less)
    show ?thesis
    proof (cases "pr_valid (d_reg p) \<or> pr_valid (e_reg p) \<or> pr_valid (m_reg p)")
      case True
      have "work_left (stage_register_transfers M E I F q) < work_left p"
        using if' e qs w True by (auto simp: d stage_weight_def unresolved_def)
      then show ?thesis by (simp add: advances_def)
    next
      case False
      have "work_left (stage_register_transfers M E I F q) \<le> work_left p"
        using if' e qs w False by (auto simp: d stage_weight_def unresolved_def)
      moreover have "counters_left (stage_register_transfers M E I F q) < counters_left p"
        using if' e qs le c False by (auto simp: d)
      ultimately show ?thesis by (auto simp: advances_def)
    qed
  next
    case none
    then have e: "\<not> I" "\<not> E" "\<not> M" and v: "pr_valid (f_reg p)"
      using assms(3) b E I F M by (auto simp: fetch_blocked_def)
    have "work_left (stage_register_transfers M E I F q) < work_left p"
      using none e v qs w by (auto simp: d stage_weight_def unresolved_def)
    then show ?thesis by (simp add: advances_def)
  qed
qed

lemma tick_advances:
  assumes "fetch_blocked p"
  shows "advances p (tick_pipeline p)"
proof (cases "control_bubble_remaining p > 0")
  case True
  then show ?thesis using bubble_advances [OF True] by (simp add: tick_pipeline_def advances_def)
next
  case False
  then have b: "control_bubble_remaining p = 0" by (simp add: word_gt_0)
  let ?q = "decrement_latencies (decrement_stalls (update_stall_stats (check_stall_mem p) (check_stall_ex p)
    (check_stall_id p) (check_stall_if p) p))"
  have q: "quiet_step p ?q" by (rule quiet_begin)
  show ?thesis
  proof (cases rule: resolve_cases [of ?q])
    case nothing
    then show ?thesis
      using transfers_advance [OF q b assms refl refl refl refl] False by (simp add: tick_pipeline_def Let_def advances_def)
  next
    case (resolved q')
    then show ?thesis
      using transfers_advance [OF view_quiet [OF resolved(2) q] b assms refl refl refl refl] False
      by (simp add: tick_pipeline_def Let_def advances_def)
  next
    case (squashed q' n)
    then show ?thesis
      using squash_advances [OF q squashed(2,3)] False by (simp add: tick_pipeline_def Let_def advances_def)
  qed
qed

record Retired =
  ret_pc :: Register
  ret_opcode :: Opcode
  ret_rd :: RegId
  ret_rs1 :: RegId
  ret_rs2 :: RegId
  ret_op_id :: OperationId
  ret_branched :: bool
  ret_is_branch :: bool
  ret_is_jump :: bool
  ret_icache_miss :: bool
  ret_dcache_miss :: bool
  ret_tlb_miss :: bool
  ret_target_pc :: Register

function drain :: "InOrderPipeline \<Rightarrow> u32 \<Rightarrow> u32 \<times> InOrderPipeline" where
  "drain p cycles_spent =
     (if fetch_blocked p then drain (tick_pipeline p) (cycles_spent + 1) else (cycles_spent, p))"
  by pat_completeness auto

termination drain
  by (relation "measures [\<lambda>(p, n). work_left p, \<lambda>(p, n). counters_left p]")
    (use tick_advances in \<open>auto simp: advances_def\<close>)

declare drain.simps [simp del]

definition enter_fetch :: "Retired \<Rightarrow> InOrderPipeline \<Rightarrow> InOrderPipeline" where
  "enter_fetch a p =
     (let i = next_inst_id p + 1;
          r = (f_reg p)\<lparr>pr_inst_id := i, pr_pc := ret_pc a, pr_opcode := ret_opcode a, pr_rd := ret_rd a,
                pr_rs1 := ret_rs1 a, pr_rs2 := ret_rs2 a, pr_op_id := ret_op_id a,
                pr_writes_reg := (ret_rd a \<noteq> 0 \<and> ret_opcode a \<noteq> Opcode_Branch \<and> ret_opcode a \<noteq> Opcode_Store \<and>
                                  ret_opcode a \<noteq> Opcode_StoreFp),
                pr_is_load := (ret_opcode a = Opcode_Load \<or> ret_opcode a = Opcode_LoadFp),
                pr_tlb_miss := ret_tlb_miss a, pr_icache_miss := ret_icache_miss a,
                pr_dcache_miss := ret_dcache_miss a, pr_is_branch := ret_is_branch a,
                pr_is_jump := ret_is_jump a, pr_branched := ret_branched a,
                pr_target_pc := ret_target_pc a, pr_valid := True, pr_control_resolved := False\<rparr>;
          p1 = p\<lparr>next_inst_id := i, f_reg := r\<rparr>;
          p2 = (if ret_tlb_miss a then p1\<lparr>tlb_stall_remaining := tlb_miss_penalty (config p)\<rparr> else p1)
      in if ret_icache_miss a then p2\<lparr>icache_stall_remaining := icache_miss_penalty (config p)\<rparr> else p2)"

definition pipeline_step_instruction :: "Retired \<Rightarrow> InOrderPipeline \<Rightarrow> u32 \<times> InOrderPipeline" where
  "pipeline_step_instruction a p =
     (let (cycles_spent, p1) = drain p 0 in (cycles_spent + 1, tick_pipeline (enter_fetch a p1)))"

definition save_state :: "InOrderPipeline \<Rightarrow> PipelineSimState" where
  "save_state p = PipelineSimState.truncate p"

definition restore_state :: "PipelineSimState \<Rightarrow> InOrderPipeline \<Rightarrow> InOrderPipeline" where
  "restore_state s p =
     PipelineSimState.extend s (InOrderPipeline.fields (config p) (next_inst_id p) (range_error p))"

definition get_bht_entry :: "InOrderPipeline \<Rightarrow> Register \<Rightarrow> u8" where
  "get_bht_entry p pc' = branch_history_table p (unat (drop_bit 1 pc' AND 0xFF))"

definition get_btb_target :: "InOrderPipeline \<Rightarrow> Register \<Rightarrow> bool \<times> Register" where
  "get_btb_target p pc' =
     (if btb_entries (config p) = 0 \<or> btb p = [] then (False, 0)
      else
        let entry = btb p ! unat (drop_bit 1 pc' mod ucast (btb_entries (config p)))
        in if btb_valid entry \<and> btb_pc entry = pc' then (True, btb_target entry) else (False, 0))"

subsection \<open>What every step keeps\<close>

definition stats_ok :: "PipelineStats \<Rightarrow> bool" where
  "stats_ok s \<longleftrightarrow>
     stall_cycles s = dcache_stalls s + structural_stalls s + data_hazard_stalls s + tlb_stalls s + icache_stalls s +
       control_hazard_bubbles s \<and>
     bubble_cycles s = control_hazard_bubbles s"

definition tables_ok :: "InOrderPipeline \<Rightarrow> bool" where
  "tables_ok p \<longleftrightarrow>
     \<not> range_error p \<and> length (btb p) = unat (btb_entries (config p)) \<and> (\<forall>i. branch_history_table p i \<le> 3)"

definition pipe_ok :: "InOrderPipeline \<Rightarrow> bool" where
  "pipe_ok p \<longleftrightarrow> tables_ok p \<and> stats_ok (stats p) \<and> length (cycle_history p) \<le> 80"

lemma saturate_le: "n \<le> 3 \<Longrightarrow> saturate t n \<le> 3"
proof -
  assume "n \<le> 3"
  then have "unat n \<le> 3" by (simp add: word_le_nat_alt)
  then have "unat n \<in> {0, 1, 2, 3}" by auto
  then have "n = 0 \<or> n = 1 \<or> n = 2 \<or> n = 3" by (simp add: word_unat_eq_iff)
  then show ?thesis by (auto simp: saturate_def)
qed

lemma train_tables: "tables_ok p \<Longrightarrow> tables_ok (train_predictor a t p)"
  by (auto simp: train_predictor_def tables_ok_def Let_def saturate_le split: BranchPredictorType.split)

lemma btb_index_less: "btb_entries (config p) > 0 \<Longrightarrow> btb_index p < unat (btb_entries (config p))"
proof -
  assume pos: "btb_entries (config p) > 0"
  have u: "unat (ucast (btb_entries (config p)) :: u64) = unat (btb_entries (config p))"
    using unsigned_less [of "btb_entries (config p)", where ?'a = nat]
    by (simp add: unsigned_ucast_eq take_bit_nat_eq_self_iff)
  show ?thesis using pos by (simp add: btb_index_def unat_mod u word_gt_0 unat_gt_0)
qed

lemma tables_cong:
  "range_error q = range_error p \<Longrightarrow> length (btb q) = length (btb p) \<Longrightarrow> config q = config p \<Longrightarrow>
     branch_history_table q = branch_history_table p \<Longrightarrow> tables_ok q = tables_ok p"
  by (simp add: tables_ok_def)

lemma tables_upd [simp]:
  "tables_ok (p\<lparr>f_reg := r\<rparr>) = tables_ok p" "tables_ok (p\<lparr>d_reg := r\<rparr>) = tables_ok p"
  "tables_ok (p\<lparr>e_reg := r\<rparr>) = tables_ok p" "tables_ok (p\<lparr>m_reg := r\<rparr>) = tables_ok p"
  "tables_ok (p\<lparr>w_reg := r\<rparr>) = tables_ok p" "tables_ok (p\<lparr>stats := s\<rparr>) = tables_ok p"
  "tables_ok (p\<lparr>control_bubble_remaining := n\<rparr>) = tables_ok p" "tables_ok (p\<lparr>dcache_stall_remaining := n\<rparr>) = tables_ok p"
  "tables_ok (p\<lparr>div_busy_cycles_remaining := n\<rparr>) = tables_ok p" "tables_ok (p\<lparr>tlb_stall_remaining := n\<rparr>) = tables_ok p"
  "tables_ok (p\<lparr>icache_stall_remaining := n\<rparr>) = tables_ok p" "tables_ok (p\<lparr>next_inst_id := i\<rparr>) = tables_ok p"
  "tables_ok (p\<lparr>cycle_history := h\<rparr>) = tables_ok p" "tables_ok (p\<lparr>btb := (btb p)[k := b]\<rparr>) = tables_ok p"
  by (simp_all add: tables_ok_def)

lemma resolve_with_tables: "resolve_with entry p = (n, entry', p') \<Longrightarrow> tables_ok p \<Longrightarrow> tables_ok p'"
  using resolve_with_pipe train_tables by blast

lemma squash_tables: "tables_ok (snd (squash n p)) = tables_ok p"
  by (simp add: squash_def)

lemma resolve_tables:
  assumes "tables_ok p" shows "tables_ok (snd (resolve_branches_ex p))"
proof -
  let ?p = "p\<lparr>e_reg := (e_reg p)\<lparr>pr_control_resolved := True\<rparr>\<rparr>"
  have t: "tables_ok ?p" and "btb_entries (config ?p) > 0 \<Longrightarrow> btb_index ?p < length (btb ?p)"
    using assms btb_index_less [of ?p] by (simp_all add: tables_ok_def)
  have w: "tables_ok (snd (snd (resolve_with entry ?p)))" for entry
    using resolve_with_tables [where entry = entry and p = ?p and n = "fst (resolve_with entry ?p)"
        and entry' = "fst (snd (resolve_with entry ?p))" and p' = "snd (snd (resolve_with entry ?p))"] t by simp
  show ?thesis
    using assms t w \<open>btb_entries (config ?p) > 0 \<Longrightarrow> _\<close>
    by (auto simp: resolve_branches_ex_def Let_def case_prod_beta squash_tables)
qed

lemma resolve_keeps:
  "config (snd (resolve_branches_ex p)) = config p" "stats (snd (resolve_branches_ex p)) = stats p"
  "cycle_history (snd (resolve_branches_ex p)) = cycle_history p" "next_inst_id (snd (resolve_branches_ex p)) = next_inst_id p"
  by (cases rule: resolve_cases [of p]; simp add: resolved_view_def)+

lemma init_latency_tables [simp]:
  "tables_ok (init_execution_latency p) = tables_ok p" "cycle_history (init_execution_latency p) = cycle_history p"
  "next_inst_id (init_execution_latency p) = next_inst_id p"
  by (simp_all add: init_execution_latency_def Let_def)

lemma transfers_keep:
  "tables_ok (stage_register_transfers a b c d p) = tables_ok p"
  "stats (stage_register_transfers a b c d p) = stats p" "config (stage_register_transfers a b c d p) = config p"
  "cycle_history (stage_register_transfers a b c d p) = cycle_history p"
  "next_inst_id (stage_register_transfers a b c d p) = next_inst_id p"
  by (simp_all add: stage_register_transfers_def Let_def)

lemma snapshot_keeps:
  "tables_ok (record_cycle_snapshot p) = tables_ok p" "stats (record_cycle_snapshot p) = stats p"
  "config (record_cycle_snapshot p) = config p" "next_inst_id (record_cycle_snapshot p) = next_inst_id p"
  "length (cycle_history p) \<le> 80 \<Longrightarrow> length (cycle_history (record_cycle_snapshot p)) \<le> 80"
  by (simp_all add: record_cycle_snapshot_def Let_def)

lemma begin_keeps:
  fixes a b c d p
  defines "q \<equiv> decrement_latencies (decrement_stalls (update_stall_stats a b c d p))"
  shows "tables_ok q = tables_ok p" "config q = config p" "cycle_history q = cycle_history p" "next_inst_id q = next_inst_id p"
    "cycle_count (stats q) = cycle_count (stats p) + 1" "stats_ok (stats p) \<Longrightarrow> stats_ok (stats q)"
  by (simp_all add: q_def decrement_latencies_def decrement_stalls_def update_stall_stats_def stats_ok_def Let_def)

lemma bubble_keeps:
  "tables_ok (bubble_cycle p) = tables_ok p" "config (bubble_cycle p) = config p"
  "cycle_history (bubble_cycle p) = cycle_history p" "next_inst_id (bubble_cycle p) = next_inst_id p"
  "cycle_count (stats (bubble_cycle p)) = cycle_count (stats p) + 1" "stats_ok (stats p) \<Longrightarrow> stats_ok (stats (bubble_cycle p))"
  by (simp_all add: bubble_cycle_def stats_ok_def Let_def)

lemma tick_keeps:
  assumes "pipe_ok p"
  shows "pipe_ok (tick_pipeline p) \<and> cycle_count (stats (tick_pipeline p)) = cycle_count (stats p) + 1 \<and>
    config (tick_pipeline p) = config p \<and> next_inst_id (tick_pipeline p) = next_inst_id p"
  using assms
  by (simp add: tick_pipeline_def pipe_ok_def Let_def case_prod_beta bubble_keeps begin_keeps resolve_keeps resolve_tables
      transfers_keep snapshot_keeps)

lemma enter_keeps:
  "pipe_ok p \<Longrightarrow> pipe_ok (enter_fetch a p)" "stats (enter_fetch a p) = stats p" "config (enter_fetch a p) = config p"
  "next_inst_id (enter_fetch a p) = next_inst_id p + 1"
  by (simp_all add: enter_fetch_def pipe_ok_def Let_def)

lemma drain_keeps:
  assumes "pipe_ok p"
  shows "\<exists>k. fst (drain p n) = n + of_nat k \<and> snd (drain p n) = (tick_pipeline ^^ k) p \<and>
    pipe_ok (snd (drain p n)) \<and> \<not> fetch_blocked (snd (drain p n)) \<and>
    cycle_count (stats (snd (drain p n))) = cycle_count (stats p) + of_nat k \<and>
    config (snd (drain p n)) = config p \<and> next_inst_id (snd (drain p n)) = next_inst_id p"
  using assms
proof (induction p n rule: drain.induct)
  case (1 p n)
  show ?case
  proof (cases "fetch_blocked p")
    case True
    note t = tick_keeps [OF "1.prems"]
    from "1.IH" [OF True] t obtain k where k: "fst (drain (tick_pipeline p) (n + 1)) = n + 1 + of_nat k"
      "snd (drain (tick_pipeline p) (n + 1)) = (tick_pipeline ^^ k) (tick_pipeline p)"
      "pipe_ok (snd (drain (tick_pipeline p) (n + 1)))" "\<not> fetch_blocked (snd (drain (tick_pipeline p) (n + 1)))"
      "cycle_count (stats (snd (drain (tick_pipeline p) (n + 1)))) = cycle_count (stats (tick_pipeline p)) + of_nat k"
      "config (snd (drain (tick_pipeline p) (n + 1))) = config (tick_pipeline p)"
      "next_inst_id (snd (drain (tick_pipeline p) (n + 1))) = next_inst_id (tick_pipeline p)" by blast
    have d: "drain p n = drain (tick_pipeline p) (n + 1)" using True by (subst drain.simps) simp
    show ?thesis
      using k t by (intro exI [of _ "Suc k"]) (simp add: d funpow_swap1 ac_simps)
  next
    case False
    then have "drain p n = (n, p)" by (subst drain.simps) simp
    with False "1.prems" show ?thesis by (intro exI [of _ 0]) simp
  qed
qed

text \<open>(C16)
  Feeding an instruction to the cycle model always ends, whatever stalls, hazards and mispredictions
  are in flight and whatever the configured penalties: it returns the number of clock ticks it took,
  at least one, and the cycle counter has advanced by as many. The books balance at every moment:
  every stall cycle is counted under exactly one cause, the predictor counters stay two bits wide,
  the target buffer is never accessed out of range and the history keeps at most 80 cycles.
\<close>
theorem timing_step_accounts:
  assumes "pipe_ok p"
  shows "\<exists>k. let (n, p') = pipeline_step_instruction a p in
    n = of_nat k \<and> 1 \<le> k \<and> pipe_ok p' \<and> cycle_count (stats p') = cycle_count (stats p) + of_nat k \<and>
    config p' = config p \<and> next_inst_id p' = next_inst_id p + 1"
proof -
  obtain k where k: "fst (drain p 0) = of_nat k" "pipe_ok (snd (drain p 0))"
    "cycle_count (stats (snd (drain p 0))) = cycle_count (stats p) + of_nat k"
    "config (snd (drain p 0)) = config p" "next_inst_id (snd (drain p 0)) = next_inst_id p"
    using drain_keeps [OF assms, of 0] by auto
  have "pipe_ok (enter_fetch a (snd (drain p 0)))" using k(2) by (rule enter_keeps)
  from tick_keeps [OF this] k show ?thesis
    by (intro exI [of _ "Suc k"])
      (simp add: pipeline_step_instruction_def case_prod_beta Let_def enter_keeps ac_simps)
qed

lemma make_pipeline_ok: "pipe_ok (make_InOrderPipeline cfg)"
  by (simp add: pipe_ok_def tables_ok_def stats_ok_def make_InOrderPipeline_def reset_state_def empty_PipelineStats_def
      PipelineSimState.defs InOrderPipeline.defs)

theorem timing_step_accounts_witness:
  "\<exists>k. let (n, p') = pipeline_step_instruction \<lparr>ret_pc = 0x80000000, ret_opcode = Opcode_Load, ret_rd = 5, ret_rs1 = 6,
      ret_rs2 = 0, ret_op_id = LW, ret_branched = False, ret_is_branch = False, ret_is_jump = False,
      ret_icache_miss = True, ret_dcache_miss = True, ret_tlb_miss = True, ret_target_pc = 0\<rparr>
      (make_InOrderPipeline default_CpuConfig) in n = of_nat k \<and> 1 \<le> k \<and> cycle_count (stats p') = of_nat k"
proof -
  have c: "cycle_count (stats (make_InOrderPipeline default_CpuConfig)) = 0"
    by (simp add: make_InOrderPipeline_def reset_state_def empty_PipelineStats_def PipelineSimState.defs InOrderPipeline.defs)
  let ?a = "\<lparr>ret_pc = 0x80000000, ret_opcode = Opcode_Load, ret_rd = 5, ret_rs1 = 6,
      ret_rs2 = 0, ret_op_id = LW, ret_branched = False, ret_is_branch = False, ret_is_jump = False,
      ret_icache_miss = True, ret_dcache_miss = True, ret_tlb_miss = True, ret_target_pc = 0\<rparr>"
  show ?thesis
    using timing_step_accounts [OF make_pipeline_ok [of default_CpuConfig], of ?a] by (auto simp: c case_prod_beta Let_def)
qed

lemma restore_saved: "restore_state (save_state p) q =
    p\<lparr>config := config q, next_inst_id := next_inst_id q, range_error := range_error q\<rparr>"
  by (simp add: restore_state_def save_state_def PipelineSimState.defs InOrderPipeline.defs)

end
