(* ===== verification/Gdb_Stub.thy ===== *)
theory Gdb_Stub
  imports Sbi
begin

text \<open>
  The remote debugging stub (\<^verbatim>\<open>src/debug/GdbStub.cpp\<close>): framing and checksums of packets, register and
  memory commands, software breakpoints and the command loops. The socket is the text still to be
  read and the text written so far; an exhausted input is the closed connection that a failing
  \<^verbatim>\<open>read\<close> reports. Commands parse numbers with \<^verbatim>\<open>std::stoul\<close> and index strings with \<^verbatim>\<open>at\<close>, both of
  which throw: a handler returns \<open>None\<close> when an exception leaves it.
\<close>

subsection \<open>Characters and numbers\<close>

definition char_byte :: "char \<Rightarrow> u8" where
  "char_byte ch = of_nat (of_char ch)"

definition hex_char :: "nat \<Rightarrow> char" where
  "hex_char n = ''0123456789abcdef'' ! (n mod 16)"

definition hex2 :: "u8 \<Rightarrow> string" where
  "hex2 b = [hex_char (unat b div 16), hex_char (unat b mod 16)]"

definition is_hex_digit :: "char \<Rightarrow> bool" where
  "is_hex_digit ch \<longleftrightarrow> ch \<in> set ''0123456789abcdefABCDEF''"

text \<open>The digit functions, written three times in the source; other characters count as zero.\<close>

definition hex_digit :: "char \<Rightarrow> nat" where
  "hex_digit ch =
     (let n = of_char ch :: nat in
      if n \<ge> 48 \<and> n \<le> 57 then n - 48
      else if n \<ge> 97 \<and> n \<le> 102 then n - 97 + 10
      else if n \<ge> 65 \<and> n \<le> 70 then n - 65 + 10
      else 0)"

text \<open>\<^verbatim>\<open>std::stoul(s, nullptr, 16)\<close>: white space, sign, prefix, and the longest run of digits.\<close>

definition is_space :: "char \<Rightarrow> bool" where
  "is_space ch \<longleftrightarrow> (of_char ch :: nat) \<in> {9, 10, 11, 12, 13, 32}"

definition strip_sign :: "string \<Rightarrow> bool \<times> string" where
  "strip_sign s =
     (case s of
        [] \<Rightarrow> (False, [])
      | ch # rest \<Rightarrow>
          if ch = CHR ''-'' then (True, rest) else if ch = CHR ''+'' then (False, rest) else (False, s))"

definition strip_prefix :: "string \<Rightarrow> string" where
  "strip_prefix s =
     (case s of
        a # b # ch # rest \<Rightarrow>
          if a = CHR ''0'' \<and> (b = CHR ''x'' \<or> b = CHR ''X'') \<and> is_hex_digit ch then ch # rest else s
      | _ \<Rightarrow> s)"

definition hex_value :: "string \<Rightarrow> nat" where
  "hex_value ds = foldl (\<lambda>v ch. 16 * v + hex_digit ch) 0 ds"

definition stoul16 :: "string \<Rightarrow> u64 option" where
  "stoul16 s =
     (let (negative, s1) = strip_sign (dropWhile is_space s);
          digits = takeWhile is_hex_digit (strip_prefix s1);
          v = hex_value digits
      in if digits = [] \<or> v \<ge> 2 ^ 64 then None
         else Some (if negative then - of_nat v else of_nat v))"

definition find_char :: "char \<Rightarrow> nat \<Rightarrow> string \<Rightarrow> nat option" where
  "find_char ch from s = find (\<lambda>i. s ! i = ch) [from ..< length s]"

definition substr :: "string \<Rightarrow> nat \<Rightarrow> nat \<Rightarrow> string" where
  "substr s from len = take len (drop from s)"

subsection \<open>The connection\<close>

record GdbStub =
  is_connected :: bool
  single_step :: bool
  no_ack_mode :: bool
  sw_breakpoints :: "u32 \<Rightarrow> u32 option"
  gdb_in :: string
  gdb_out :: string

definition close_connection :: "GdbStub \<Rightarrow> GdbStub" where
  "close_connection g = g\<lparr>is_connected := False, single_step := False, no_ack_mode := False\<rparr>"

definition checksum :: "string \<Rightarrow> u8" where
  "checksum data = foldl (\<lambda>s ch. s + char_byte ch) 0 data"

definition send_raw :: "string \<Rightarrow> GdbStub \<Rightarrow> GdbStub" where
  "send_raw s g = (if is_connected g then g\<lparr>gdb_out := gdb_out g @ s\<rparr> else g)"

definition send_packet :: "string \<Rightarrow> GdbStub \<Rightarrow> GdbStub" where
  "send_packet data g = send_raw (''$'' @ data @ ''#'' @ hex2 (checksum data)) g"

datatype Lead = PacketStart string | Interrupt string | Closed

fun skip_lead :: "string \<Rightarrow> Lead" where
  "skip_lead [] = Closed"
| "skip_lead (ch # rest) =
     (if ch = CHR ''+'' \<or> ch = CHR ''-'' then skip_lead rest
      else if ch = CHR ''$'' then PacketStart rest
      else if ch = CHR 0x03 then Interrupt rest
      else skip_lead rest)"

fun read_body :: "string \<Rightarrow> string \<Rightarrow> u8 \<Rightarrow> (string \<times> u8 \<times> string) option" where
  "read_body [] out s = None"
| "read_body (ch # rest) out s =
     (if ch = CHR ''#'' then Some (out, s, rest) else read_body rest (out @ [ch]) (s + char_byte ch))"

text \<open>The result is the success flag, the packet and the stub.\<close>

definition recv_packet :: "GdbStub \<Rightarrow> bool \<times> string \<times> GdbStub" where
  "recv_packet g =
     (let failed = (False, [], close_connection (g\<lparr>gdb_in := []\<rparr>)) in
      if \<not> is_connected g then (False, [], close_connection g)
      else case skip_lead (gdb_in g) of
        Closed \<Rightarrow> failed
      | Interrupt rest \<Rightarrow> (True, [CHR 0x03], g\<lparr>gdb_in := rest\<rparr>)
      | PacketStart rest \<Rightarrow>
          (case read_body rest [] 0 of
             None \<Rightarrow> failed
           | Some (out, s, rest2) \<Rightarrow>
               (case rest2 of
                  hi # lo # rest3 \<Rightarrow>
                    let recv_sum = of_nat (16 * hex_digit hi + hex_digit lo) :: u8;
                        g1 = g\<lparr>gdb_in := rest3\<rparr>;
                        g2 = (if no_ack_mode g then g1
                              else send_raw (if recv_sum = s then ''+'' else ''-'') g1)
                    in (recv_sum = s, out, g2)
                | _ \<Rightarrow> failed)))"

subsection \<open>Registers\<close>

definition reg_to_hex :: "u32 \<Rightarrow> string" where
  "reg_to_hex val =
     hex2 (ucast (val AND 0xFF)) @ hex2 (ucast (drop_bit 8 val AND 0xFF)) @
     hex2 (ucast (drop_bit 16 val AND 0xFF)) @ hex2 (ucast (drop_bit 24 val AND 0xFF))"

definition fp_to_hex :: "u64 \<Rightarrow> string" where
  "fp_to_hex val = concat (map (\<lambda>b. hex2 (ucast (drop_bit (b * 8) val))) [0..<8])"

definition hex_to_reg :: "string \<Rightarrow> nat \<Rightarrow> u32 option" where
  "hex_to_reg s off =
     (if off + 8 \<le> length s then
        let h = (\<lambda>i. of_nat (hex_digit (s ! (off + i))) :: u32)
        in Some ((push_bit 4 (h 0) OR h 1) OR push_bit 8 (push_bit 4 (h 2) OR h 3) OR
                 push_bit 16 (push_bit 4 (h 4) OR h 5) OR push_bit 24 (push_bit 4 (h 6) OR h 7))
      else None)"

definition read_gdb_reg :: "u64 \<Rightarrow> ArchState \<Rightarrow> string option" where
  "read_gdb_reg idx s =
     (if idx < 32 then Some (reg_to_hex (ucast (read_reg (regs s) (ucast idx))))
      else if idx = 32 then Some (reg_to_hex (ucast (pc s)))
      else if idx \<ge> 33 \<and> idx < 65 then Some (fp_to_hex (read_fp (regs s) (ucast (idx - 33))))
      else None)"

definition write_gdb_reg :: "u64 \<Rightarrow> string \<Rightarrow> nat \<Rightarrow> ArchState \<Rightarrow> ArchState option" where
  "write_gdb_reg idx hex hex_off s =
     (if idx < 32
      then map_option (\<lambda>v. s\<lparr>regs := write_reg (regs s) (ucast idx) (ucast v)\<rparr>) (hex_to_reg hex hex_off)
      else if idx = 32 then map_option (\<lambda>v. s\<lparr>pc := ucast v\<rparr>) (hex_to_reg hex hex_off)
      else Some s)"

type_synonym GdbSys = "GdbStub \<times> CPU \<times> HostMem"

definition reply :: "string \<Rightarrow> GdbSys \<Rightarrow> GdbSys option" where
  "reply data y = Some (send_packet data (fst y), snd y)"

definition cmd_read_registers :: "GdbSys \<Rightarrow> GdbSys option" where
  "cmd_read_registers y =
     (let s = st (fst (snd y)) in
      reply (concat (map (\<lambda>i. reg_to_hex (ucast (read_reg (regs s) (of_nat i)))) [0..<32]) @
             reg_to_hex (ucast (pc s)) @ concat (map (\<lambda>i. fp_to_hex (read_fp (regs s) (of_nat i))) [0..<32])) y)"

fun write_registers_loop :: "string \<Rightarrow> nat \<Rightarrow> nat list \<Rightarrow> ArchState \<Rightarrow> ArchState" where
  "write_registers_loop pkt off [] s = s"
| "write_registers_loop pkt off (i # is) s =
     (if off + 8 \<le> length pkt then
        case write_gdb_reg (of_nat i) pkt off s of
          Some s' \<Rightarrow> write_registers_loop pkt (off + 8) is s'
        | None \<Rightarrow> s
      else s)"

definition cmd_write_registers :: "string \<Rightarrow> GdbSys \<Rightarrow> GdbSys option" where
  "cmd_write_registers pkt y =
     (let (g, c, m) = y in reply ''OK'' (g, c\<lparr>st := write_registers_loop pkt 1 [0..<33] (st c)\<rparr>, m))"

definition cmd_read_register :: "string \<Rightarrow> GdbSys \<Rightarrow> GdbSys option" where
  "cmd_read_register pkt y =
     (case stoul16 (drop 1 pkt) of
        None \<Rightarrow> None
      | Some idx \<Rightarrow>
          (case read_gdb_reg idx (st (fst (snd y))) of Some r \<Rightarrow> reply r y | None \<Rightarrow> reply ''E01'' y))"

definition cmd_write_register :: "string \<Rightarrow> GdbSys \<Rightarrow> GdbSys option" where
  "cmd_write_register pkt y =
     (let (g, c, m) = y in
      case find_char (CHR ''='') 0 pkt of
        None \<Rightarrow> reply ''E01'' y
      | Some eq \<Rightarrow>
          if eq + 1 \<ge> length pkt then reply ''E01'' y
          else case stoul16 (substr pkt 1 (eq - 1)) of
            None \<Rightarrow> None
          | Some idx \<Rightarrow>
              (case write_gdb_reg idx pkt (eq + 1) (st c) of
                 None \<Rightarrow> None
               | Some s \<Rightarrow> reply ''OK'' (g, c\<lparr>st := s\<rparr>, m)))"

subsection \<open>Memory\<close>

abbreviation (input) gdb_kDramBase :: u64 where "gdb_kDramBase \<equiv> 0x80000000"

definition in_dram :: "u64 \<Rightarrow> bool" where
  "in_dram phys \<longleftrightarrow> phys \<ge> gdb_kDramBase \<and> phys - gdb_kDramBase < kDramSize"

definition memory_hex :: "HostMem \<Rightarrow> u32 \<Rightarrow> nat \<Rightarrow> string" where
  "memory_hex m addr len =
     concat (map (\<lambda>i. let phys = ucast addr + of_nat i
                      in hex2 (if in_dram phys then m (unat (phys - gdb_kDramBase)) else 0)) [0..<len])"

definition cmd_read_memory :: "string \<Rightarrow> GdbSys \<Rightarrow> GdbSys option" where
  "cmd_read_memory pkt y =
     (case find_char (CHR '','') 0 pkt of
        None \<Rightarrow> reply ''E01'' y
      | Some comma \<Rightarrow>
          (case stoul16 (substr pkt 1 (comma - 1)) of
             None \<Rightarrow> None
           | Some addr \<Rightarrow>
               (case stoul16 (drop (comma + 1) pkt) of
                  None \<Rightarrow> None
                | Some len \<Rightarrow>
                    let safe_len = min (ucast len) 4096 :: u32
                    in reply (memory_hex (snd (snd y)) (ucast addr) (unat safe_len)) y)))"

text \<open>The loop over the data of a write: it ends with the length or when fewer than two digits remain.\<close>

fun write_memory_loop :: "nat \<Rightarrow> u64 \<Rightarrow> string \<Rightarrow> HostMem \<Rightarrow> HostMem" where
  "write_memory_loop (Suc n) phys (hi # lo # rest) m =
     write_memory_loop n (phys + 1) rest
       (if in_dram phys then m(unat (phys - gdb_kDramBase) := of_nat (16 * hex_digit hi + hex_digit lo)) else m)"
| "write_memory_loop _ phys _ m = m"

definition cmd_write_memory :: "string \<Rightarrow> GdbSys \<Rightarrow> GdbSys option" where
  "cmd_write_memory pkt y =
     (let (g, c, m) = y in
      case (find_char (CHR '','') 0 pkt, find_char (CHR '':'') 0 pkt) of
        (Some comma, Some colon) \<Rightarrow>
          (case stoul16 (substr pkt 1 (comma - 1)) of
             None \<Rightarrow> None
           | Some addr \<Rightarrow>
               (case stoul16 (substr pkt (comma + 1) (if comma + 1 \<le> colon then colon - comma - 1 else length pkt)) of
                  None \<Rightarrow> None
                | Some len \<Rightarrow>
                    reply ''OK'' (g, c, write_memory_loop (unat (ucast len :: u32)) (ucast (ucast addr :: u32))
                                          (drop (colon + 1) pkt) m)))
      | _ \<Rightarrow> reply ''E01'' y)"

subsection \<open>Breakpoints\<close>

definition kEbreak32 :: u32 where
  "kEbreak32 = 0x00100073"

text \<open>The type and the address of an insert or remove packet: the address is \<open>Inr\<close>, an early reply \<open>Inl\<close>.\<close>

definition breakpoint_address :: "string \<Rightarrow> (string + u32) option" where
  "breakpoint_address pkt =
     (case find_char (CHR '','') 0 pkt of
        None \<Rightarrow> Some (Inl ''E01'')
      | Some c1 \<Rightarrow>
          (case find_char (CHR '','') (c1 + 1) pkt of
             None \<Rightarrow> Some (Inl ''E01'')
           | Some c2 \<Rightarrow>
               (case stoul16 (substr pkt 1 (c1 - 1)) of
                  None \<Rightarrow> None
                | Some kind \<Rightarrow>
                    if (ucast kind :: u32) \<noteq> 0 then Some (Inl '''')
                    else map_option (\<lambda>a. Inr (ucast a)) (stoul16 (substr pkt (c1 + 1) (c2 - c1 - 1))))))"

definition breakpoint_in_dram :: "u32 \<Rightarrow> bool" where
  "breakpoint_in_dram addr \<longleftrightarrow>
     ucast addr \<ge> gdb_kDramBase \<and> ucast addr - gdb_kDramBase + 4 \<le> kDramSize"

definition breakpoint_offset :: "u32 \<Rightarrow> nat" where
  "breakpoint_offset addr = unat (ucast addr - gdb_kDramBase)"

definition insert_breakpoint :: "u32 \<Rightarrow> GdbSys \<Rightarrow> string \<times> GdbSys" where
  "insert_breakpoint addr y =
     (let (g, c, m) = y in
      if \<not> breakpoint_in_dram addr then (''E02'', y)
      else
        let p = breakpoint_offset addr;
            orig = le_word (host_bytes m p 4) :: u32
        in (''OK'', g\<lparr>sw_breakpoints := (sw_breakpoints g)(addr := Some orig)\<rparr>, c,
            write_bytes m p (le_bytes 4 kEbreak32)))"

definition remove_breakpoint :: "u32 \<Rightarrow> GdbSys \<Rightarrow> string \<times> GdbSys" where
  "remove_breakpoint addr y =
     (let (g, c, m) = y in
      case sw_breakpoints g addr of
        None \<Rightarrow> (''E03'', y)
      | Some orig \<Rightarrow>
          let m' = (if breakpoint_in_dram addr then write_bytes m (breakpoint_offset addr) (le_bytes 4 orig) else m)
          in (''OK'', g\<lparr>sw_breakpoints := (sw_breakpoints g)(addr := None)\<rparr>, c, m'))"

definition breakpoint_command :: "(u32 \<Rightarrow> GdbSys \<Rightarrow> string \<times> GdbSys) \<Rightarrow> string \<Rightarrow> GdbSys \<Rightarrow> GdbSys option" where
  "breakpoint_command f pkt y =
     (case breakpoint_address pkt of
        None \<Rightarrow> None
      | Some (Inl early) \<Rightarrow> reply early y
      | Some (Inr addr) \<Rightarrow> (let (r, y') = f addr y in reply r y'))"

definition cmd_insert_breakpoint :: "string \<Rightarrow> GdbSys \<Rightarrow> GdbSys option" where
  "cmd_insert_breakpoint = breakpoint_command insert_breakpoint"

definition cmd_remove_breakpoint :: "string \<Rightarrow> GdbSys \<Rightarrow> GdbSys option" where
  "cmd_remove_breakpoint = breakpoint_command remove_breakpoint"

subsection \<open>Dispatch\<close>

definition starts_with :: "string \<Rightarrow> string \<Rightarrow> bool" where
  "starts_with prefix s \<longleftrightarrow> take (length prefix) s = prefix"

definition handle_query :: "string \<Rightarrow> GdbSys \<Rightarrow> GdbSys option" where
  "handle_query pkt y =
     (if pkt = ''qSupported'' then reply ''PacketSize=4000;QStartNoAckMode+;swbreak+'' y
      else if pkt = ''QStartNoAckMode'' then (let (g, r) = y in reply ''OK'' (g\<lparr>no_ack_mode := True\<rparr>, r))
      else if pkt = ''qAttached'' then reply ''1'' y
      else if starts_with ''qSupported:'' pkt then reply ''PacketSize=4000;QStartNoAckMode+;swbreak+'' y
      else if pkt = ''qC'' then reply ''QC1'' y
      else if pkt = ''qOffsets'' then reply ''Text=0;Data=0;Bss=0'' y
      else if pkt = ''qSymbol::'' then reply ''OK'' y
      else reply '''' y)"

definition halted :: "GdbSys option \<Rightarrow> (bool \<times> GdbSys) option" where
  "halted r = map_option (\<lambda>y. (False, y)) r"

definition resume_with :: "bool \<Rightarrow> GdbSys \<Rightarrow> (bool \<times> GdbSys) option" where
  "resume_with step y = (let (g, r) = y in Some (True, g\<lparr>single_step := step\<rparr>, r))"

text \<open>The flag says whether the simulation resumes.\<close>

definition handle_packet :: "string \<Rightarrow> GdbSys \<Rightarrow> (bool \<times> GdbSys) option" where
  "handle_packet pkt y =
     (let (g, c, m) = y in
      if pkt = [] then halted (reply '''' y)
      else
        let ch = hd pkt in
        if ch = CHR 0x03 then halted (reply ''S05'' y)
        else if ch = CHR ''?'' then halted (reply ''S05'' y)
        else if ch = CHR ''g'' then halted (cmd_read_registers y)
        else if ch = CHR ''G'' then halted (cmd_write_registers pkt y)
        else if ch = CHR ''p'' then halted (cmd_read_register pkt y)
        else if ch = CHR ''P'' then halted (cmd_write_register pkt y)
        else if ch = CHR ''m'' then halted (cmd_read_memory pkt y)
        else if ch = CHR ''M'' then halted (cmd_write_memory pkt y)
        else if ch = CHR ''Z'' then halted (cmd_insert_breakpoint pkt y)
        else if ch = CHR ''z'' then halted (cmd_remove_breakpoint pkt y)
        else if ch = CHR ''c'' then resume_with False y
        else if ch = CHR ''s'' then resume_with True y
        else if ch = CHR ''D'' then Some (True, close_connection (send_packet ''OK'' g), c, m)
        else if ch = CHR ''k'' then Some (True, close_connection g, c\<lparr>machine := machine_stop (machine c)\<rparr>, m)
        else if ch = CHR ''H'' \<or> ch = CHR ''T'' then halted (reply ''OK'' y)
        else if ch = CHR ''v'' then
          if pkt = ''vCont?'' then halted (reply ''vCont;c;C;s;S'' y)
          else if starts_with ''vCont;c'' pkt then resume_with False y
          else if starts_with ''vCont;s'' pkt then resume_with True y
          else halted (reply '''' y)
        else if ch = CHR ''q'' \<or> ch = CHR ''Q'' then halted (handle_query pkt y)
        else halted (reply '''' y))"


lemma skip_lead_shorter:
  "skip_lead s = PacketStart rest \<Longrightarrow> length rest < length s" "skip_lead s = Interrupt rest \<Longrightarrow> length rest < length s"
  by (induction s) (auto split: if_splits)

lemma read_body_shorter: "read_body s out k = Some (out', k', rest) \<Longrightarrow> length rest < length s"
  by (induction s arbitrary: out k) (auto split: if_splits intro: less_SucI)

lemma send_raw_in [simp]: "gdb_in (send_raw s g) = gdb_in g" "gdb_in (close_connection g) = gdb_in g"
  "gdb_in (send_packet s g) = gdb_in g"
  by (simp_all add: send_raw_def close_connection_def send_packet_def)

lemma recv_packet_shorter:
  assumes "recv_packet g = (True, pkt, g')"
  shows "length (gdb_in g') < length (gdb_in g)"
proof -
  have c: "is_connected g" using assms by (cases "is_connected g") (simp_all add: recv_packet_def Let_def)
  show ?thesis
  proof (cases "skip_lead (gdb_in g)")
    case (PacketStart rest)
    then obtain out k hi lo rest3 where b: "read_body rest [] 0 = Some (out, k, hi # lo # rest3)"
      using assms c by (auto simp: recv_packet_def Let_def split: option.splits list.splits)
    then have "gdb_in g' = rest3" using assms c PacketStart by (auto simp: recv_packet_def Let_def)
    then show ?thesis using read_body_shorter [OF b] skip_lead_shorter(1) [OF PacketStart] by simp
  next
    case (Interrupt rest)
    then show ?thesis using assms c skip_lead_shorter(2) [OF Interrupt] by (auto simp: recv_packet_def)
  next
    case Closed
    then show ?thesis using assms c by (simp add: recv_packet_def)
  qed
qed

lemma reply_in: "reply s y = Some y' \<Longrightarrow> gdb_in (fst y') = gdb_in (fst y)"
  by (auto simp: reply_def)

lemma insert_breakpoint_in: "gdb_in (fst (snd (insert_breakpoint a y))) = gdb_in (fst y)"
  by (simp add: insert_breakpoint_def Let_def case_prod_beta)

lemma remove_breakpoint_in: "gdb_in (fst (snd (remove_breakpoint a y))) = gdb_in (fst y)"
  by (simp add: remove_breakpoint_def Let_def case_prod_beta split: option.split)

lemma commands_in:
  "cmd_read_registers y = Some y' \<Longrightarrow> gdb_in (fst y') = gdb_in (fst y)"
  "cmd_write_registers pkt y = Some y' \<Longrightarrow> gdb_in (fst y') = gdb_in (fst y)"
  "cmd_read_register pkt y = Some y' \<Longrightarrow> gdb_in (fst y') = gdb_in (fst y)"
  "cmd_write_register pkt y = Some y' \<Longrightarrow> gdb_in (fst y') = gdb_in (fst y)"
  "cmd_read_memory pkt y = Some y' \<Longrightarrow> gdb_in (fst y') = gdb_in (fst y)"
  "cmd_write_memory pkt y = Some y' \<Longrightarrow> gdb_in (fst y') = gdb_in (fst y)"
  "cmd_insert_breakpoint pkt y = Some y' \<Longrightarrow> gdb_in (fst y') = gdb_in (fst y)"
  "cmd_remove_breakpoint pkt y = Some y' \<Longrightarrow> gdb_in (fst y') = gdb_in (fst y)"
  "handle_query pkt y = Some y' \<Longrightarrow> gdb_in (fst y') = gdb_in (fst y)"
  using insert_breakpoint_in [of _ y] remove_breakpoint_in [of _ y]
  by (auto simp: cmd_read_registers_def cmd_write_registers_def cmd_read_register_def cmd_write_register_def
      cmd_read_memory_def cmd_write_memory_def cmd_insert_breakpoint_def cmd_remove_breakpoint_def breakpoint_command_def
      handle_query_def Let_def
      split: option.splits prod.splits sum.splits if_splits dest!: reply_in) (metis fst_conv snd_conv)+

lemma handle_packet_in: "handle_packet pkt y = Some (r, y') \<Longrightarrow> gdb_in (fst y') = gdb_in (fst y)"
  by (auto simp: handle_packet_def halted_def resume_with_def Let_def split: prod.splits if_splits
      dest!: reply_in commands_in)

text \<open>\<open>ready\<close> is the answer of the non-blocking poll of the socket.\<close>

definition gdb_poll :: "bool \<Rightarrow> GdbSys \<Rightarrow> GdbSys option" where
  "gdb_poll ready y =
     (let (g, r) = y in
      if \<not> is_connected g \<or> \<not> ready then Some y
      else
        let (ok, pkt, g1) = recv_packet g
        in if ok then map_option snd (handle_packet pkt (g1, r)) else Some (g1, r))"

function command_loop :: "GdbSys \<Rightarrow> GdbSys option" where
  "command_loop (g, r) =
     (if \<not> is_connected g then Some (g, r)
      else
        case recv_packet g of
          (ok, pkt, g1) \<Rightarrow>
            if \<not> ok then Some (g1, r)
            else case handle_packet pkt (g1, r) of
              None \<Rightarrow> None
            | Some (resume, y) \<Rightarrow> if resume then Some y else command_loop y)"
  by pat_completeness auto

termination command_loop
  apply (relation "measure (\<lambda>y. length (gdb_in (fst y)))")
   apply simp
  apply (auto dest!: recv_packet_shorter [OF sym] handle_packet_in)
  done

declare command_loop.simps [simp del]

definition notify_breakpoint :: "GdbSys \<Rightarrow> GdbSys option" where
  "notify_breakpoint y =
     (let (g, r) = y in if \<not> is_connected g then Some y else command_loop (send_packet ''S05'' g, r))"



section \<open>Framing\<close>

lemma char_byte_inj: "char_byte c = char_byte d \<Longrightarrow> c = d"
proof -
  assume "char_byte c = char_byte d"
  then have "unat (char_byte c) = unat (char_byte d)" by simp
  then have "(of_char c :: nat) mod 256 = of_char d mod 256" by (simp add: char_byte_def unat_of_nat)
  then show "c = d" by simp
qed

lemma hex_digit_char: "n < 16 \<Longrightarrow> hex_digit (hex_char n) = n"
proof -
  have "\<forall>n \<in> set [0..<16]. hex_digit (hex_char n) = n" by code_simp
  then show "n < 16 \<Longrightarrow> hex_digit (hex_char n) = n" by auto
qed

lemma hex_char_digit: "is_hex_digit (hex_char n)"
proof -
  have "\<forall>n \<in> set [0..<16]. is_hex_digit (hex_char n)" by code_simp
  then have "is_hex_digit (hex_char (n mod 16))" by auto
  then show ?thesis by (simp add: hex_char_def)
qed

lemma hex2_value: "of_nat (16 * hex_digit (hex_char (unat b div 16)) + hex_digit (hex_char (unat b mod 16))) = (b :: u8)"
proof -
  have "unat b < 256" using unsigned_less [of b, where 'a = nat] by simp
  then have "unat b div 16 < 16" by auto
  then show ?thesis by (simp add: hex_digit_char)
qed

lemma checksum_foldl: "foldl (\<lambda>s ch. s + char_byte ch) k data = k + sum_list (map char_byte data)"
  by (induction data arbitrary: k) (simp_all add: ac_simps)

lemma checksum_sum: "checksum data = sum_list (map char_byte data)"
  by (simp add: checksum_def checksum_foldl)

lemma read_body_text:
  "CHR ''#'' \<notin> set data \<Longrightarrow>
     read_body (data @ CHR ''#'' # rest) out k = Some (out @ data, k + sum_list (map char_byte data), rest)"
  by (induction data arbitrary: out k) (auto simp: ac_simps)

lemma skip_lead_acks: "set acks \<subseteq> {CHR ''+'', CHR ''-''} \<Longrightarrow> skip_lead (acks @ CHR ''$'' # rest) = PacketStart rest"
  by (induction acks) auto

definition packet_text :: "string \<Rightarrow> u8 \<Rightarrow> string" where
  "packet_text data s = ''$'' @ data @ ''#'' @ hex2 s"

lemma recv_packet_text:
  assumes "is_connected h" "set acks \<subseteq> {CHR ''+'', CHR ''-''}" "CHR ''#'' \<notin> set data"
    and "gdb_in h = acks @ packet_text data s @ rest"
  shows "recv_packet h =
    (s = checksum data, data,
     h\<lparr>gdb_in := rest,
       gdb_out := gdb_out h @ (if no_ack_mode h then '''' else if s = checksum data then ''+'' else ''-'')\<rparr>)"
  using assms skip_lead_acks [OF assms(2), of "data @ CHR ''#'' # hex2 s @ rest"]
    read_body_text [OF assms(3), of "hex2 s @ rest" "[]" 0]
  by (simp add: recv_packet_def Let_def packet_text_def hex2_def hex2_value send_raw_def checksum_sum
      del: of_nat_add of_nat_mult)

lemma checksum_update:
  assumes "i < length data" "ch \<noteq> data ! i"
  shows "checksum (data[i := ch]) \<noteq> checksum data"
proof -
  have "data = take i data @ data ! i # drop (Suc i) data" using assms(1) by (rule id_take_nth_drop)
  then have "checksum data = sum_list (map char_byte (take i data @ data ! i # drop (Suc i) data))"
    by (simp only: checksum_sum)
  moreover have "checksum (data[i := ch]) = sum_list (map char_byte (take i data @ ch # drop (Suc i) data))"
    using assms(1) by (simp add: checksum_sum upd_conv_take_nth_drop)
  moreover have "char_byte ch \<noteq> char_byte (data ! i)" using assms(2) char_byte_inj by blast
  ultimately show ?thesis by simp
qed

text \<open>(C30) Packets survive the wire and single corruptions do not: what \<open>send_packet\<close> writes is received as
  the same data, behind any acknowledgements, with the rest of the stream untouched and the packet
  acknowledged; the same packet with any one character of its data replaced is refused, and answered
  with a request to send it again.\<close>

theorem packet_roundtrip:
  assumes "is_connected g" "is_connected h" "\<not> no_ack_mode h" "set acks \<subseteq> {CHR ''+'', CHR ''-''}"
    and "CHR ''#'' \<notin> set data" "CHR ''#'' \<noteq> ch" "i < length data" "ch \<noteq> data ! i"
  shows "\<exists>wire. gdb_out (send_packet data g) = gdb_out g @ wire \<and>
      recv_packet (h\<lparr>gdb_in := acks @ wire @ rest\<rparr>) = (True, data, h\<lparr>gdb_in := rest, gdb_out := gdb_out h @ ''+''\<rparr>) \<and>
      recv_packet (h\<lparr>gdb_in := acks @ wire[Suc i := ch] @ rest\<rparr>) =
        (False, data[i := ch], h\<lparr>gdb_in := rest, gdb_out := gdb_out h @ ''-''\<rparr>)"
proof (intro exI conjI)
  let ?wire = "packet_text data (checksum data)"
  show "gdb_out (send_packet data g) = gdb_out g @ ?wire"
    using assms(1) by (simp add: send_packet_def send_raw_def packet_text_def)
  show "recv_packet (h\<lparr>gdb_in := acks @ ?wire @ rest\<rparr>) = (True, data, h\<lparr>gdb_in := rest, gdb_out := gdb_out h @ ''+''\<rparr>)"
    using recv_packet_text [of "h\<lparr>gdb_in := acks @ ?wire @ rest\<rparr>" acks data "checksum data" rest] assms by simp
  have "CHR ''#'' \<notin> set (data[i := ch])" using assms(5,6) set_update_subset_insert [of data i ch] by blast
  moreover have "?wire[Suc i := ch] = packet_text (data[i := ch]) (checksum data)"
    using assms(7) by (simp add: packet_text_def list_update_append)
  ultimately show "recv_packet (h\<lparr>gdb_in := acks @ ?wire[Suc i := ch] @ rest\<rparr>) =
        (False, data[i := ch], h\<lparr>gdb_in := rest, gdb_out := gdb_out h @ ''-''\<rparr>)"
    using recv_packet_text [of "h\<lparr>gdb_in := acks @ ?wire[Suc i := ch] @ rest\<rparr>" acks "data[i := ch]" "checksum data" rest]
      assms checksum_update [OF assms(7,8)] by auto
qed



section \<open>Memory commands\<close>

lemma find_skip: "find P xs = None \<Longrightarrow> find P (xs @ ys) = find P ys"
  by (induction xs) (auto split: if_splits)

lemma find_char_split:
  assumes "ch \<notin> set (drop from xs)" "from \<le> length xs"
  shows "find_char ch from (xs @ ch # ys) = Some (length xs)"
proof -
  have split: "[from ..< length (xs @ ch # ys)] = [from ..< length xs] @ [length xs ..< length xs + Suc (length ys)]"
    using assms(2) upt_add_eq_append [of "from" "length xs" "Suc (length ys)"] by simp
  have "\<forall>i\<in>{from..<length xs}. (xs @ ch # ys) ! i \<noteq> ch"
  proof
    fix i
    assume i: "i \<in> {from..<length xs}"
    then have "xs ! i = drop from xs ! (i - from)" "i - from < length (drop from xs)" by auto
    then have "xs ! i \<in> set (drop from xs)" by (metis nth_mem)
    then show "(xs @ ch # ys) ! i \<noteq> ch" using i assms(1) by (auto simp: nth_append)
  qed
  then have "find (\<lambda>i. (xs @ ch # ys) ! i = ch) [from ..< length xs] = None"
    by (auto simp: find_None_iff)
  then show ?thesis
    unfolding find_char_def split by (simp add: find_skip upt_conv_Cons del: upt_Suc)
qed

lemma hex_text_no_mark:
  assumes "list_all is_hex_digit a"
  shows "CHR '','' \<notin> set a" "CHR '':'' \<notin> set a"
proof -
  have "\<not> is_hex_digit (CHR '','')" "\<not> is_hex_digit (CHR '':'')" by (simp_all add: is_hex_digit_def)
  then show "CHR '','' \<notin> set a" "CHR '':'' \<notin> set a" using assms by (auto simp: list_all_iff)
qed

lemma in_dram_offset: "p < 268435456 \<Longrightarrow> in_dram (gdb_kDramBase + of_nat p)"
  "p < 268435456 \<Longrightarrow> unat (gdb_kDramBase + of_nat p - gdb_kDramBase) = p"
proof -
  assume p: "p < 268435456"
  then have u: "unat (of_nat p :: u64) = p" by (simp add: unat_of_nat)
  then have "unat (gdb_kDramBase + of_nat p) = 2147483648 + p" using p
    by (simp add: unat_word_ariths)
  then show "in_dram (gdb_kDramBase + of_nat p)" using u p by (simp add: in_dram_def word_le_nat_alt word_less_nat_alt)
  show "unat (gdb_kDramBase + of_nat p - gdb_kDramBase) = p" using u by simp
qed

lemma write_memory_loop_hex2:
  "write_memory_loop (Suc n) q (hex2 b @ rest) m =
     write_memory_loop n (q + 1) rest (if in_dram q then m(unat (q - gdb_kDramBase) := b) else m)"
  by (simp add: hex2_def hex2_value del: of_nat_add of_nat_mult)

lemma write_memory_loop_bytes:
  "p + length bs \<le> 268435456 \<Longrightarrow>
     write_memory_loop (length bs) (gdb_kDramBase + of_nat p) (concat (map hex2 bs)) m = write_bytes m p bs"
proof (induction bs arbitrary: p m)
  case Nil
  show ?case by (rule ext) (auto simp: write_bytes_def)
next
  case (Cons b bs)
  have p: "p < 268435456" and nxt: "gdb_kDramBase + of_nat p + 1 = gdb_kDramBase + of_nat (Suc p)"
    using Cons.prems by simp_all
  have "write_memory_loop (length (b # bs)) (gdb_kDramBase + of_nat p) (concat (map hex2 (b # bs))) m =
      write_memory_loop (length bs) (gdb_kDramBase + of_nat (Suc p)) (concat (map hex2 bs)) (m(p := b))"
    using write_memory_loop_hex2 [of "length bs" "gdb_kDramBase + of_nat p" b "concat (map hex2 bs)" m]
    unfolding nxt in_dram_offset(2) [OF p] by (simp only: in_dram_offset(1) [OF p] list.map list.size concat.simps if_True add_Suc_right add_0_right)
  also have "\<dots> = write_bytes (m(p := b)) (Suc p) bs"
    using Cons.prems by (intro Cons.IH) simp
  also have "\<dots> = write_bytes m p (b # bs)"
    by (rule ext) (auto simp: write_bytes_def nth_Cons')
  finally show ?case .
qed

lemma memory_hex_bytes:
  assumes "ucast addr = gdb_kDramBase + of_nat p" "p + n \<le> 268435456"
  shows "memory_hex m addr n = concat (map hex2 (host_bytes m p n))"
proof -
  have "in_dram (ucast addr + of_nat i) \<and> unat (ucast addr + of_nat i - gdb_kDramBase) = p + i" if "i < n" for i
    using in_dram_offset [of "p + i"] that assms by (simp add: add.assoc)
  then show ?thesis
    unfolding memory_hex_def host_bytes_def by (intro arg_cong [where f = concat]) (simp add: Let_def)
qed

lemma ucast_ucast_32: "unat a < 2 ^ 32 \<Longrightarrow> ucast (ucast (a :: u64) :: u32) = a"
proof -
  assume "unat a < 2 ^ 32"
  then have "unat (ucast (ucast a :: u32) :: u64) = unat a"
    by (simp add: unsigned_ucast_eq unsigned_take_bit_eq take_bit_nat_eq_self)
  then show "ucast (ucast a :: u32) = a" by (simp only: unsigned_word_eqI)
qed

text \<open>(C31) Memory written through the stub reads back: for any bytes of DRAM, at most the 4096 that one read
  transfers, an \<open>M\<close> packet changes exactly those bytes of the memory and is acknowledged, and the \<open>m\<close> packet
  for the same range answers with the same text.\<close>

theorem memory_packets_roundtrip:
  assumes "list_all is_hex_digit a" "list_all is_hex_digit l"
    and "stoul16 a = Some addr" "addr = gdb_kDramBase + of_nat p" "p + length bs \<le> 268435456"
    and "stoul16 l = Some (of_nat (length bs))" "length bs \<le> 4096"
  shows "cmd_write_memory (''M'' @ a @ '','' @ l @ '':'' @ concat (map hex2 bs)) (g, c, m) =
      Some (send_packet ''OK'' g, c, write_bytes m p bs) \<and>
    cmd_read_memory (''m'' @ a @ '','' @ l) (g, c, write_bytes m p bs) =
      Some (send_packet (concat (map hex2 bs)) g, c, write_bytes m p bs)"
proof -
  define w where "w = ''M'' @ a @ '','' @ l @ '':'' @ concat (map hex2 bs)"
  have comma: "find_char (CHR '','') 0 w = Some (Suc (length a))"
    using find_char_split [of "CHR '',''" 0 "''M'' @ a"] hex_text_no_mark [OF assms(1)] by (simp add: w_def)
  have colon: "find_char (CHR '':'') 0 w = Some (length a + length l + 2)"
    using find_char_split [of "CHR '':''" 0 "''M'' @ a @ '','' @ l" "concat (map hex2 bs)"]
      hex_text_no_mark [OF assms(1)] hex_text_no_mark [OF assms(2)] by (simp add: w_def)
  have parts: "substr w 1 (Suc (length a) - 1) = a"
    "substr w (Suc (length a) + 1) (length a + length l + 2 - Suc (length a) - 1) = l"
    "drop (length a + length l + 2 + 1) w = concat (map hex2 bs)"
    by (simp_all add: w_def substr_def)
  have addr32: "ucast (ucast addr :: u32) = addr"
  proof (rule ucast_ucast_32)
    show "unat addr < 2 ^ 32" using assms(4,5) by (simp add: unat_word_ariths unat_of_nat)
  qed
  have len32: "unat (ucast (of_nat (length bs) :: u64) :: u32) = length bs"
    using assms(7) by (simp add: unsigned_ucast_eq take_bit_eq_mod unat_of_nat)
  have written: "cmd_write_memory w (g, c, m) = Some (send_packet ''OK'' g, c, write_bytes m p bs)"
    using assms write_memory_loop_bytes [OF assms(5), of m] addr32 len32
    by (simp add: cmd_write_memory_def comma colon parts [simplified] reply_def)
  have "find_char (CHR '','') 0 (''m'' @ a @ '','' @ l) = Some (Suc (length a))"
    using find_char_split [of "CHR '',''" 0 "''m'' @ a"] hex_text_no_mark [OF assms(1)] by simp
  moreover have "unat (min (ucast (of_nat (length bs) :: u64)) 4096 :: u32) = length bs"
    using len32 assms(7) by (simp add: min_def word_le_nat_alt)
  ultimately have "cmd_read_memory (''m'' @ a @ '','' @ l) (g, c, write_bytes m p bs) =
      Some (send_packet (concat (map hex2 bs)) g, c, write_bytes m p bs)"
    using assms memory_hex_bytes [of "ucast addr" p "length bs" "write_bytes m p bs", OF trans [OF addr32 assms(4)] assms(5)]
    by (simp add: cmd_read_memory_def substr_def reply_def host_bytes_write_same Let_def)
  with written show ?thesis by (simp add: w_def)
qed

section \<open>Breakpoints\<close>

text \<open>What inserting and removing breakpoints may do to the memory: \<open>m\<close> differs from the program's own memory
  \<open>m0\<close> at the words of the recorded breakpoints only, which hold the trap and whose original is recorded.\<close>

definition patched :: "(u32 \<Rightarrow> u32 option) \<Rightarrow> HostMem \<Rightarrow> HostMem \<Rightarrow> bool" where
  "patched bps m0 m \<longleftrightarrow>
     (\<forall>a w. bps a = Some w \<longrightarrow>
        breakpoint_in_dram a \<and> le_bytes 4 w = host_bytes m0 (breakpoint_offset a) 4 \<and>
        host_bytes m (breakpoint_offset a) 4 = le_bytes 4 kEbreak32 \<and>
        (\<forall>b. bps b \<noteq> None \<and> b \<noteq> a \<longrightarrow>
           breakpoint_offset b + 4 \<le> breakpoint_offset a \<or> breakpoint_offset a + 4 \<le> breakpoint_offset b)) \<and>
     (\<forall>k. (\<forall>a. bps a \<noteq> None \<longrightarrow> k < breakpoint_offset a \<or> breakpoint_offset a + 4 \<le> k) \<longrightarrow> m k = m0 k)"

text \<open>A client that never asks for a breakpoint overlapping one it has already set.\<close>

definition breakpoint_free :: "u32 \<Rightarrow> GdbStub \<Rightarrow> bool" where
  "breakpoint_free a g \<longleftrightarrow>
     (\<forall>b. sw_breakpoints g b \<noteq> None \<longrightarrow>
        breakpoint_offset b + 4 \<le> breakpoint_offset a \<or> breakpoint_offset a + 4 \<le> breakpoint_offset b)"

inductive breakpoint_session :: "GdbSys \<Rightarrow> GdbSys \<Rightarrow> bool" for y0 where
  session_start: "sw_breakpoints (fst y0) = Map.empty \<Longrightarrow> breakpoint_session y0 y0"
| session_insert: "breakpoint_session y0 y \<Longrightarrow> breakpoint_free a (fst y) \<Longrightarrow>
     insert_breakpoint a y = (r, y') \<Longrightarrow> breakpoint_session y0 y'"
| session_remove: "breakpoint_session y0 y \<Longrightarrow> remove_breakpoint a y = (r, y') \<Longrightarrow> breakpoint_session y0 y'"

lemma word_of_bytes: "le_bytes 4 (le_word (host_bytes m p 4) :: u32) = host_bytes m p 4"
  using le_bytes_le_word [of "host_bytes m p 4", where 'a = 32] by simp

lemma host_bytes_eqI: "(\<And>i. i < n \<Longrightarrow> m (p + i) = m' (p + i)) \<Longrightarrow> host_bytes m p n = host_bytes m' p n"
  by (simp add: host_bytes_def)

lemma patched_bytes:
  assumes "patched bps m0 m" "\<And>b. bps b \<noteq> None \<Longrightarrow> breakpoint_offset b + 4 \<le> p \<or> p + 4 \<le> breakpoint_offset b"
  shows "host_bytes m p 4 = host_bytes m0 p 4"
proof (rule host_bytes_eqI)
  fix i :: nat
  assume i: "i < 4"
  have "p + i < breakpoint_offset b \<or> breakpoint_offset b + 4 \<le> p + i" if "bps b \<noteq> None" for b
    using assms(2) [OF that] i by linarith
  then show "m (p + i) = m0 (p + i)" using assms(1) unfolding patched_def by blast
qed


lemma patched_insert:
  assumes p: "patched (sw_breakpoints g) m0 m" and free: "breakpoint_free a g"
    and ins: "insert_breakpoint a (g, c, m) = (r, g', c', m')"
  shows "patched (sw_breakpoints g') m0 m'"
proof (cases "breakpoint_in_dram a")
  case False
  then show ?thesis using p ins by (simp add: insert_breakpoint_def)
next
  case True
  let ?p = "breakpoint_offset a" and ?b = "sw_breakpoints g"
  have g': "sw_breakpoints g' = ?b(a := Some (le_word (host_bytes m ?p 4)))"
    and m': "m' = write_bytes m ?p (le_bytes 4 kEbreak32)"
    using ins True by (auto simp: insert_breakpoint_def Let_def)
  have dis: "breakpoint_offset b + 4 \<le> ?p \<or> ?p + 4 \<le> breakpoint_offset b" if "?b b \<noteq> None" for b
    using free that by (auto simp: breakpoint_free_def)
  have own: "host_bytes m ?p 4 = host_bytes m0 ?p 4" using p dis by (rule patched_bytes)
  have trap: "host_bytes m' ?p 4 = le_bytes 4 kEbreak32"
    using host_bytes_write_same [of m ?p "le_bytes 4 kEbreak32"] by (simp add: m')
  have other: "host_bytes m' (breakpoint_offset b) 4 = host_bytes m (breakpoint_offset b) 4" if "?b b \<noteq> None" for b
    using dis [OF that] by (simp add: m' host_bytes_write_disjoint)
  show ?thesis
    unfolding patched_def
  proof (intro conjI allI impI)
    fix b w
    assume w: "sw_breakpoints g' b = Some w"
    show "breakpoint_in_dram b" "le_bytes 4 w = host_bytes m0 (breakpoint_offset b) 4"
      "host_bytes m' (breakpoint_offset b) 4 = le_bytes 4 kEbreak32"
      using w True own trap other [of b] p by (auto simp: g' word_of_bytes patched_def split: if_splits)
    fix d
    assume "sw_breakpoints g' d \<noteq> None \<and> d \<noteq> b"
    then show "breakpoint_offset d + 4 \<le> breakpoint_offset b \<or> breakpoint_offset b + 4 \<le> breakpoint_offset d"
      using w p dis [of b] dis [of d] by (cases "a = b"; cases "a = d") (auto simp: g' patched_def)
  next
    fix k
    assume "\<forall>b. sw_breakpoints g' b \<noteq> None \<longrightarrow> k < breakpoint_offset b \<or> breakpoint_offset b + 4 \<le> k"
    then have "k < ?p \<or> ?p + 4 \<le> k" "\<forall>b. ?b b \<noteq> None \<longrightarrow> k < breakpoint_offset b \<or> breakpoint_offset b + 4 \<le> k"
      by (auto simp: g')
    then show "m' k = m0 k" using p by (auto simp: m' write_bytes_def patched_def)
  qed
qed

lemma patched_remove:
  assumes p: "patched (sw_breakpoints g) m0 m" and rem: "remove_breakpoint a (g, c, m) = (r, g', c', m')"
  shows "patched (sw_breakpoints g') m0 m'"
proof (cases "sw_breakpoints g a")
  case None
  then show ?thesis using p rem by (simp add: remove_breakpoint_def)
next
  case (Some v)
  let ?p = "breakpoint_offset a" and ?b = "sw_breakpoints g"
  have a: "breakpoint_in_dram a" "le_bytes 4 v = host_bytes m0 ?p 4" using p Some by (auto simp: patched_def)
  have g': "sw_breakpoints g' = ?b(a := None)" and m': "m' = write_bytes m ?p (host_bytes m0 ?p 4)"
    using rem Some a by (auto simp: remove_breakpoint_def Let_def)
  have dis: "breakpoint_offset b + 4 \<le> ?p \<or> ?p + 4 \<le> breakpoint_offset b" if "?b b \<noteq> None" "b \<noteq> a" for b
    using p Some that by (auto simp: patched_def)
  have other: "host_bytes m' (breakpoint_offset b) 4 = host_bytes m (breakpoint_offset b) 4"
    if "?b b \<noteq> None" "b \<noteq> a" for b
    using dis [OF that] by (simp add: m' host_bytes_write_disjoint)
  show ?thesis
    unfolding patched_def
  proof (intro conjI allI impI)
    fix b w
    assume w: "sw_breakpoints g' b = Some w"
    then have b: "?b b = Some w" "b \<noteq> a" by (auto simp: g' split: if_splits)
    show "breakpoint_in_dram b" "le_bytes 4 w = host_bytes m0 (breakpoint_offset b) 4"
      "host_bytes m' (breakpoint_offset b) 4 = le_bytes 4 kEbreak32"
      using b other [of b] p by (auto simp: patched_def)
    fix d
    assume "sw_breakpoints g' d \<noteq> None \<and> d \<noteq> b"
    then show "breakpoint_offset d + 4 \<le> breakpoint_offset b \<or> breakpoint_offset b + 4 \<le> breakpoint_offset d"
      using b p by (auto simp: g' patched_def split: if_splits)
  next
    fix k
    assume k: "\<forall>b. sw_breakpoints g' b \<noteq> None \<longrightarrow> k < breakpoint_offset b \<or> breakpoint_offset b + 4 \<le> k"
    show "m' k = m0 k"
    proof (cases "?p \<le> k \<and> k < ?p + 4")
      case True
      then obtain i where "k = ?p + i" "i < 4" by (metis le_iff_add nat_add_left_cancel_less)
      then show ?thesis by (simp add: m' write_bytes_def host_bytes_def)
    next
      case False
      then have "\<forall>b. ?b b \<noteq> None \<longrightarrow> k < breakpoint_offset b \<or> breakpoint_offset b + 4 \<le> k"
        using k not_le by (metis fun_upd_apply g')
      then show ?thesis using p False by (auto simp: m' write_bytes_def patched_def)
    qed
  qed
qed

lemma session_patched: "breakpoint_session y0 y \<Longrightarrow> patched (sw_breakpoints (fst y)) (snd (snd y0)) (snd (snd y))"
proof (induction rule: breakpoint_session.induct)
  case session_start
  then show ?case by (simp add: patched_def)
next
  case (session_insert y a r y')
  then show ?case
    using patched_insert [of "fst y" "snd (snd y0)" "snd (snd y)" a "fst (snd y)" r "fst y'" "fst (snd y')" "snd (snd y')"] by simp
next
  case (session_remove y a r y')
  then show ?case
    using patched_remove [of "fst y" "snd (snd y0)" "snd (snd y)" a "fst (snd y)" r "fst y'" "fst (snd y')" "snd (snd y')"] by simp
qed

text \<open>(C10) Breakpoints are transparent: after any sequence of insertions and removals in which no breakpoint
  overlaps a live one, every live breakpoint holds the trap and its record holds the word of the
  program, every other byte of the memory is the program's own, and once no breakpoint is left the
  memory is the program's memory again.\<close>

theorem breakpoints_transparent:
  assumes "breakpoint_session (g0, c0, m0) (g, c, m)"
  shows "(\<forall>a w. sw_breakpoints g a = Some w \<longrightarrow>
        le_word (host_bytes m (breakpoint_offset a) 4) = kEbreak32 \<and> le_word (host_bytes m0 (breakpoint_offset a) 4) = w) \<and>
      (\<forall>k. (\<forall>a. sw_breakpoints g a \<noteq> None \<longrightarrow> k < breakpoint_offset a \<or> breakpoint_offset a + 4 \<le> k) \<longrightarrow> m k = m0 k) \<and>
      (sw_breakpoints g = Map.empty \<longrightarrow> m = m0)"
proof -
  have p: "patched (sw_breakpoints g) m0 m" using session_patched [OF assms] by simp
  have rejoin: "(le_word (le_bytes 4 v) :: u32) = v" for v by (simp add: le_word_le_bytes take_bit_word_eq_self)
  have "le_word (host_bytes m (breakpoint_offset a) 4) = kEbreak32 \<and> le_word (host_bytes m0 (breakpoint_offset a) 4) = w"
    if "sw_breakpoints g a = Some w" for a w
    using p that rejoin [of kEbreak32] rejoin [of w] unfolding patched_def by metis
  then show ?thesis using p unfolding patched_def by (auto simp: fun_eq_iff)
qed

text \<open>Inserting the same breakpoint twice loses the program's word: the second insertion records the
  trap as the original, so the removal writes the trap back and the record is gone.\<close>

theorem double_insert_loses_word:
  assumes "breakpoint_in_dram a"
    and "insert_breakpoint a (g, c, m) = (r1, y1)" "insert_breakpoint a y1 = (r2, y2)"
    and "remove_breakpoint a y2 = (r3, g3, c3, m3)"
  shows "r3 = ''OK'' \<and> sw_breakpoints g3 a = None \<and> le_word (host_bytes m3 (breakpoint_offset a) 4) = kEbreak32"
proof -
  have rejoin: "(le_word (le_bytes 4 v) :: u32) = v" for v by (simp add: le_word_le_bytes take_bit_word_eq_self)
  have same: "host_bytes (write_bytes x q (le_bytes 4 v)) q 4 = le_bytes 4 v" for x q and v :: u32
    using host_bytes_write_same [of x q "le_bytes 4 v"] by simp
  show ?thesis using assms by (auto simp: insert_breakpoint_def remove_breakpoint_def Let_def same rejoin)
qed


definition sample_stub :: GdbStub where
  "sample_stub =
     \<lparr>is_connected = True, single_step = False, no_ack_mode = False, sw_breakpoints = Map.empty, gdb_in = '''', gdb_out = ''''\<rparr>"

theorem packet_roundtrip_witness:
  "\<exists>wire. gdb_out (send_packet ''m80000000,4'' sample_stub) = wire \<and>
      fst (recv_packet (sample_stub\<lparr>gdb_in := ''+'' @ wire @ ''$g''\<rparr>)) \<and>
      recv_packet (sample_stub\<lparr>gdb_in := ''+'' @ wire[Suc 1 := CHR ''9''] @ ''$g''\<rparr>) =
        (False, ''m90000000,4'', sample_stub\<lparr>gdb_in := ''$g'', gdb_out := ''-''\<rparr>)"
  using packet_roundtrip [of sample_stub sample_stub "''+''" "''m80000000,4''" "CHR ''9''" 1 "''$g''"]
  by (auto simp: sample_stub_def)

theorem memory_packets_roundtrip_witness:
  "\<forall>c m. cmd_write_memory ''M80000010,2:beef'' (sample_stub, c, m) =
      Some (send_packet ''OK'' sample_stub, c, write_bytes m 16 [0xBE, 0xEF]) \<and>
    cmd_read_memory ''m80000010,2'' (sample_stub, c, write_bytes m 16 [0xBE, 0xEF]) =
      Some (send_packet ''beef'' sample_stub, c, write_bytes m 16 [0xBE, 0xEF])"
proof (intro allI)
  fix c m
  let ?a = "''80000010''" and ?bs = "[0xBE, 0xEF] :: u8 list"
  have hex: "list_all is_hex_digit ?a" "list_all is_hex_digit ''2''" by code_simp+
  have num: "stoul16 ?a = Some 0x80000010" "stoul16 ''2'' = Some (of_nat (length ?bs))"
    by (simp_all add: stoul16_def strip_sign_def strip_prefix_def hex_value_def hex_digit_def is_hex_digit_def is_space_def)
  have "concat (map hex2 ?bs) = ''beef''" by code_simp
  then show "cmd_write_memory ''M80000010,2:beef'' (sample_stub, c, m) =
      Some (send_packet ''OK'' sample_stub, c, write_bytes m 16 ?bs) \<and>
    cmd_read_memory ''m80000010,2'' (sample_stub, c, write_bytes m 16 ?bs) =
      Some (send_packet ''beef'' sample_stub, c, write_bytes m 16 ?bs)"
    using memory_packets_roundtrip [OF hex num(1), of 16 ?bs sample_stub c m] num(2) by simp
qed

theorem breakpoints_transparent_witness:
  "\<forall>c m. snd (snd (snd (remove_breakpoint 0x80000010 (snd (insert_breakpoint 0x80000010 (sample_stub, c, m)))))) = m"
proof (intro allI)
  fix c m
  define y1 where "y1 = snd (insert_breakpoint 0x80000010 (sample_stub, c, m))"
  define y2 where "y2 = snd (remove_breakpoint 0x80000010 y1)"
  have "breakpoint_session (sample_stub, c, m) y1"
    unfolding y1_def
    by (rule session_insert [OF session_start, of _ "0x80000010" "fst (insert_breakpoint 0x80000010 (sample_stub, c, m))"])
      (simp_all add: sample_stub_def breakpoint_free_def)
  then have "breakpoint_session (sample_stub, c, m) (fst y2, fst (snd y2), snd (snd y2))"
    using session_remove [of "(sample_stub, c, m)" y1 "0x80000010" "fst (remove_breakpoint 0x80000010 y1)" y2] by (simp add: y2_def)
  moreover have "sw_breakpoints (fst y2) = Map.empty"
    by (simp add: y2_def y1_def insert_breakpoint_def remove_breakpoint_def Let_def sample_stub_def breakpoint_in_dram_def
        split: if_splits)
  ultimately have "snd (snd y2) = m" using breakpoints_transparent by blast
  then show "snd (snd (snd (remove_breakpoint 0x80000010 (snd (insert_breakpoint 0x80000010 (sample_stub, c, m)))))) = m"
    by (simp add: y2_def y1_def)
qed

theorem double_insert_loses_word_witness:
  "\<forall>c m. \<exists>y1 y2 g3 c3 m3. insert_breakpoint 0x80000010 (sample_stub, c, m) = (''OK'', y1) \<and>
     insert_breakpoint 0x80000010 y1 = (''OK'', y2) \<and> remove_breakpoint 0x80000010 y2 = (''OK'', g3, c3, m3) \<and>
     le_word (host_bytes m3 16 4) = kEbreak32"
proof (intro allI)
  fix c m
  have a: "breakpoint_in_dram 0x80000010" "breakpoint_offset 0x80000010 = 16"
    by (simp_all add: breakpoint_in_dram_def breakpoint_offset_def kDramSize_def)
  obtain y1 where y1: "insert_breakpoint 0x80000010 (sample_stub, c, m) = (''OK'', y1)"
    using a by (simp add: insert_breakpoint_def)
  obtain y2 where y2: "insert_breakpoint 0x80000010 y1 = (''OK'', y2)"
    using a by (cases y1) (auto simp: insert_breakpoint_def)
  obtain r g3 c3 m3 where y3: "remove_breakpoint 0x80000010 y2 = (r, g3, c3, m3)"
    by (metis prod_cases4)
  have "remove_breakpoint 0x80000010 y2 = (''OK'', g3, c3, m3) \<and> le_word (host_bytes m3 16 4) = kEbreak32"
    using double_insert_loses_word [OF a(1) y1 y2 y3] y3 a(2) by simp
  then show "\<exists>y1 y2 g3 c3 m3. insert_breakpoint 0x80000010 (sample_stub, c, m) = (''OK'', y1) \<and>
     insert_breakpoint 0x80000010 y1 = (''OK'', y2) \<and> remove_breakpoint 0x80000010 y2 = (''OK'', g3, c3, m3) \<and>
     le_word (host_bytes m3 16 4) = kEbreak32"
    using y1 y2 by blast
qed

text \<open>A garbled packet ends the halt: while the target is stopped, a packet with a wrong checksum is
  answered with a request to send it again, but the command loop returns, so that the simulation
  resumes without having been told to.\<close>

theorem garbled_packet_resumes:
  assumes "is_connected h" "\<not> no_ack_mode h" "CHR ''#'' \<notin> set data" "s \<noteq> checksum data"
    and "gdb_in h = packet_text data s @ rest"
  shows "notify_breakpoint (h, r) =
    Some (h\<lparr>gdb_in := rest, gdb_out := gdb_out h @ packet_text ''S05'' (checksum ''S05'') @ ''-''\<rparr>, r)"
  using assms recv_packet_text [of "send_packet ''S05'' h" "[]" data s rest]
  by (simp add: notify_breakpoint_def command_loop.simps send_packet_def send_raw_def packet_text_def)

theorem garbled_packet_resumes_witness:
  "\<forall>r. notify_breakpoint (sample_stub\<lparr>gdb_in := ''$g#00''\<rparr>, r) =
     Some (sample_stub\<lparr>gdb_in := '''', gdb_out := ''$S05#b8-''\<rparr>, r)"
proof -
  have "packet_text ''S05'' (checksum ''S05'') = ''$S05#b8''" "packet_text ''g'' 0 = ''$g#00''" "checksum ''g'' \<noteq> 0"
    by code_simp+
  then show ?thesis
    using garbled_packet_resumes [of "sample_stub\<lparr>gdb_in := ''$g#00''\<rparr>" "''g''" 0 "[]"]
    by (simp add: sample_stub_def)
qed

end
