(* ===== verification/Float_Unit.thy ===== *)
theory Float_Unit
  imports Pipeline_Stages
begin

text \<open>
  The scalar floating-point unit (\<^verbatim>\<open>src/execute/ExecuteUnitFloat.cpp\<close>). Floating-point values are
      their
  bit patterns. What the code computes on the bits itself (NaN boxing, classification, sign injection,
  minimum and maximum, comparisons, conversions to integers, the flags) is modelled exactly: the order and
  the values of the numbers come from sign, exponent and fraction. The rounded arithmetic of the host
  processor is a parameter, a record of functions that take the rounding mode in force and return the
  result with the exceptions they raise. The exceptions raised since the flags were cleared are a list.
\<close>

subsection \<open>Host arithmetic\<close>

datatype HostRound = FE_TONEAREST | FE_TOWARDZERO | FE_DOWNWARD | FE_UPWARD

datatype HostException = FE_INEXACT | FE_UNDERFLOW | FE_OVERFLOW | FE_DIVBYZERO | FE_INVALID

type_synonym 'w Rounded = "'w \<times> HostException list"

record HostFpu =
  host_add32 :: "HostRound \<Rightarrow> u32 \<Rightarrow> u32 \<Rightarrow> u32 Rounded"
  host_add64 :: "HostRound \<Rightarrow> u64 \<Rightarrow> u64 \<Rightarrow> u64 Rounded"
  host_mul32 :: "HostRound \<Rightarrow> u32 \<Rightarrow> u32 \<Rightarrow> u32 Rounded"
  host_mul64 :: "HostRound \<Rightarrow> u64 \<Rightarrow> u64 \<Rightarrow> u64 Rounded"
  host_sub32 :: "HostRound \<Rightarrow> u32 \<Rightarrow> u32 \<Rightarrow> u32 Rounded"
  host_sub64 :: "HostRound \<Rightarrow> u64 \<Rightarrow> u64 \<Rightarrow> u64 Rounded"
  host_div32 :: "HostRound \<Rightarrow> u32 \<Rightarrow> u32 \<Rightarrow> u32 Rounded"
  host_div64 :: "HostRound \<Rightarrow> u64 \<Rightarrow> u64 \<Rightarrow> u64 Rounded"
  host_sqrt32 :: "HostRound \<Rightarrow> u32 \<Rightarrow> u32 Rounded"
  host_sqrt64 :: "HostRound \<Rightarrow> u64 \<Rightarrow> u64 Rounded"
  host_fma32 :: "HostRound \<Rightarrow> u32 \<Rightarrow> u32 \<Rightarrow> u32 \<Rightarrow> u32 Rounded"
  host_fma64 :: "HostRound \<Rightarrow> u64 \<Rightarrow> u64 \<Rightarrow> u64 \<Rightarrow> u64 Rounded"
  host_f64_to_f32 :: "HostRound \<Rightarrow> u64 \<Rightarrow> u32 Rounded"
  host_f32_to_f64 :: "HostRound \<Rightarrow> u32 \<Rightarrow> u64 Rounded"
  host_int_to_f64 :: "HostRound \<Rightarrow> int \<Rightarrow> u64 Rounded"

subsection \<open>Constants and register access\<close>

definition kF32BoxerBits :: FloatingRegister where "kF32BoxerBits = 0xFFFFFFFF00000000"
definition kF32Qnan :: u32 where "kF32Qnan = 0x7FC00000"
definition kF64Qnan :: u64 where "kF64Qnan = 0x7FF8000000000000"

definition f32_exp :: "u32 \<Rightarrow> u32" where "f32_exp b = drop_bit 23 b AND 0xFF"
definition f32_frac :: "u32 \<Rightarrow> u32" where "f32_frac b = b AND 0x7FFFFF"
definition f32_sign :: "u32 \<Rightarrow> bool" where "f32_sign b \<longleftrightarrow> drop_bit 31 b \<noteq> 0"
definition f64_exp :: "u64 \<Rightarrow> u64" where "f64_exp b = drop_bit 52 b AND 0x7FF"
definition f64_frac :: "u64 \<Rightarrow> u64" where "f64_frac b = b AND 0xFFFFFFFFFFFFF"
definition f64_sign :: "u64 \<Rightarrow> bool" where "f64_sign b \<longleftrightarrow> drop_bit 63 b \<noteq> 0"

definition isnan32 :: "u32 \<Rightarrow> bool" where "isnan32 b \<longleftrightarrow> f32_exp b = 0xFF \<and> f32_frac b
    \<noteq> 0"
definition isnan64 :: "u64 \<Rightarrow> bool" where "isnan64 b \<longleftrightarrow> f64_exp b = 0x7FF \<and> f64_frac b
    \<noteq> 0"
definition negate32 :: "u32 \<Rightarrow> u32" where "negate32 b = b XOR 0x80000000"
definition negate64 :: "u64 \<Rightarrow> u64" where "negate64 b = b XOR 0x8000000000000000"

definition read_f32 :: "(RegId \<Rightarrow> FloatingRegister) \<Rightarrow> Word \<Rightarrow> u32" where
  "read_f32 fr idx =
     (let val = fr (ucast idx)
      in if val AND kF32BoxerBits \<noteq> kF32BoxerBits then 0x7FC00000 else ucast (val AND 0xFFFFFFFF))"

definition read_f64 :: "(RegId \<Rightarrow> FloatingRegister) \<Rightarrow> Word \<Rightarrow> u64" where
  "read_f64 fr idx = fr (ucast idx)"

definition write_f32_boxed :: "u32 \<Rightarrow> FloatingRegister" where
  "write_f32_boxed v = kF32BoxerBits OR ucast v"

definition canonical32 :: "u32 \<Rightarrow> u32" where
  "canonical32 v = (if isnan32 v then kF32Qnan else v)"

definition canonical64 :: "u64 \<Rightarrow> u64" where
  "canonical64 v = (if isnan64 v then kF64Qnan else v)"

subsection \<open>Classification, order and values\<close>

definition fclass32 :: "u32 \<Rightarrow> u32" where
  "fclass32 v =
     (let sign = f32_sign v; ex = f32_exp v; frac = f32_frac v in
      if ex = 0xFF then
        if frac = 0 then (if sign then push_bit 0 1 else push_bit 7 1)
        else if frac AND push_bit 22 1 \<noteq> 0 then push_bit 9 1 else push_bit 8 1
      else if ex = 0 then
        if frac = 0 then (if sign then push_bit 3 1 else push_bit 4 1)
        else (if sign then push_bit 2 1 else push_bit 5 1)
      else (if sign then push_bit 1 1 else push_bit 6 1))"

definition fclass64 :: "u64 \<Rightarrow> u32" where
  "fclass64 v =
     (let sign = f64_sign v; ex = f64_exp v; frac = f64_frac v in
      if ex = 0x7FF then
        if frac = 0 then (if sign then push_bit 0 1 else push_bit 7 1)
        else if frac AND push_bit 51 1 \<noteq> 0 then push_bit 9 1 else push_bit 8 1
      else if ex = 0 then
        if frac = 0 then (if sign then push_bit 3 1 else push_bit 4 1)
        else (if sign then push_bit 2 1 else push_bit 5 1)
      else (if sign then push_bit 1 1 else push_bit 6 1))"

definition is_snan32 :: "u32 \<Rightarrow> bool" where
  "is_snan32 v \<longleftrightarrow> f32_exp v = 0xFF \<and> f32_frac v \<noteq> 0 \<and> f32_frac v AND push_bit 22 1 = 0"

definition is_snan64 :: "u64 \<Rightarrow> bool" where
  "is_snan64 v \<longleftrightarrow> f64_exp v = 0x7FF \<and> f64_frac v \<noteq> 0 \<and> f64_frac v AND push_bit 51 1 = 0"

text \<open>The comparisons of \<^verbatim>\<open>float\<close> and \<^verbatim>\<open>double\<close> numbers: IEEE
    encodings are ordered like the integers of their
  sign and magnitude, and the two zeros are equal.\<close>

definition key32 :: "u32 \<Rightarrow> int" where
  "key32 b = (let m = uint (b AND 0x7FFFFFFF) in if f32_sign b then - m else m)"

definition key64 :: "u64 \<Rightarrow> int" where
  "key64 b = (let m = uint (b AND 0x7FFFFFFFFFFFFFFF) in if f64_sign b then - m else m)"

text \<open>The value of a number: \<open>Fin n k\<close> is \<open>n / 2 ^ k\<close>.\<close>

datatype FpValue = Nan | Infinite bool | Fin int nat

definition dyadic :: "bool \<Rightarrow> nat \<Rightarrow> int \<Rightarrow> FpValue" where
  "dyadic sign m e =
     (let n = (if sign then - int m else int m) in if e \<ge> 0 then Fin (n * 2 ^ nat e) 0 else Fin n (nat (- e)))"

definition value32 :: "u32 \<Rightarrow> FpValue" where
  "value32 b =
     (if isnan32 b then Nan
      else if f32_exp b = 0xFF then Infinite (f32_sign b)
      else if f32_exp b = 0 then dyadic (f32_sign b) (unat (f32_frac b)) (- 149)
      else dyadic (f32_sign b) (unat (f32_frac b) + 2 ^ 23) (int (unat (f32_exp b)) - 150))"

definition value64 :: "u64 \<Rightarrow> FpValue" where
  "value64 b =
     (if isnan64 b then Nan
      else if f64_exp b = 0x7FF then Infinite (f64_sign b)
      else if f64_exp b = 0 then dyadic (f64_sign b) (unat (f64_frac b)) (- 1074)
      else dyadic (f64_sign b) (unat (f64_frac b) + 2 ^ 52) (int (unat (f64_exp b)) - 1075))"

subsection \<open>Minimum and maximum\<close>

definition snan_exceptions :: "bool \<Rightarrow> HostException list" where
  "snan_exceptions signaling = (if signaling then [FE_INVALID] else [])"

definition fmin32_riscv :: "u32 \<Rightarrow> u32 \<Rightarrow> FloatingRegister Rounded" where
  "fmin32_riscv a b =
     (if isnan32 a \<and> isnan32 b then write_f32_boxed kF32Qnan
      else if isnan32 a then write_f32_boxed b
      else if isnan32 b then write_f32_boxed a
      else if key32 a = 0 \<and> key32 b = 0 then
        write_f32_boxed (if f32_sign a \<or> f32_sign b then 0x80000000 else 0)
      else write_f32_boxed (if key32 a < key32 b then a else b),
      snan_exceptions (is_snan32 a \<or> is_snan32 b))"

definition fmax32_riscv :: "u32 \<Rightarrow> u32 \<Rightarrow> FloatingRegister Rounded" where
  "fmax32_riscv a b =
     (if isnan32 a \<and> isnan32 b then write_f32_boxed kF32Qnan
      else if isnan32 a then write_f32_boxed b
      else if isnan32 b then write_f32_boxed a
      else if key32 a = 0 \<and> key32 b = 0 then
        write_f32_boxed (if \<not> f32_sign a \<or> \<not> f32_sign b then 0 else 0x80000000)
      else write_f32_boxed (if key32 a > key32 b then a else b),
      snan_exceptions (is_snan32 a \<or> is_snan32 b))"

definition fmin64_riscv :: "u64 \<Rightarrow> u64 \<Rightarrow> FloatingRegister Rounded" where
  "fmin64_riscv a b =
     (if isnan64 a \<and> isnan64 b then kF64Qnan
      else if isnan64 a then b
      else if isnan64 b then a
      else if key64 a = 0 \<and> key64 b = 0 then (if f64_sign a \<or> f64_sign b then 0x8000000000000000 else 0)
      else if key64 a < key64 b then a else b,
      snan_exceptions (is_snan64 a \<or> is_snan64 b))"

definition fmax64_riscv :: "u64 \<Rightarrow> u64 \<Rightarrow> FloatingRegister Rounded" where
  "fmax64_riscv a b =
     (if isnan64 a \<and> isnan64 b then kF64Qnan
      else if isnan64 a then b
      else if isnan64 b then a
      else if key64 a = 0 \<and> key64 b = 0 then (if \<not> f64_sign a \<or> \<not> f64_sign b then 0 else
          0x8000000000000000)
      else if key64 a > key64 b then a else b,
      snan_exceptions (is_snan64 a \<or> is_snan64 b))"

subsection \<open>Flags and rounding modes\<close>

definition host_except_to_fflags :: "HostException list \<Rightarrow> u32" where
  "host_except_to_fflags ex =
     (if FE_INEXACT \<in> set ex then 0x01 else 0) OR (if FE_UNDERFLOW \<in> set ex then 0x02 else 0) OR
     (if FE_OVERFLOW \<in> set ex then 0x04 else 0) OR (if FE_DIVBYZERO \<in> set ex then 0x08 else 0) OR
     (if FE_INVALID \<in> set ex then 0x10 else 0)"

definition accumulate_fp_flags :: "HostException list \<Rightarrow> CSRValue \<Rightarrow> CSRValue" where
  "accumulate_fp_flags ex fcsr' =
     (let old_flags = ucast (fcsr' AND kFflagsMask) :: u32;
          new_flags = host_except_to_fflags ex
      in (fcsr' AND NOT kFflagsMask) OR ucast ((old_flags OR new_flags) AND ucast kFflagsMask))"

definition effective_rm :: "Word \<Rightarrow> CSRValue \<Rightarrow> Word" where
  "effective_rm rm fcsr' = (if rm = 7 then drop_bit 5 fcsr' AND 7 else rm)"

definition rm_to_fe_round :: "Word \<Rightarrow> CSRValue \<Rightarrow> HostRound" where
  "rm_to_fe_round rm fcsr' =
     (let m = effective_rm rm fcsr' in
      if m = 0 then FE_TONEAREST
      else if m = 1 then FE_TOWARDZERO
      else if m = 2 then FE_DOWNWARD
      else if m = 3 then FE_UPWARD
      else FE_TONEAREST)"

subsection \<open>Conversion to integers\<close>

definition fcvt_saturate :: "bool \<Rightarrow> bool \<Rightarrow> bool \<Rightarrow> Register" where
  "fcvt_saturate is_unsigned is_64 upper =
     (if upper then
        if is_64 then (if is_unsigned then - 1 else 0x7FFFFFFFFFFFFFFF)
        else scast (if is_unsigned then 0xFFFFFFFF else 0x7FFFFFFF :: u32)
      else
        if is_64 then (if is_unsigned then 0 else 0x8000000000000000)
        else scast (if is_unsigned then 0 else 0x80000000 :: u32))"

text \<open>\<^verbatim>\<open>trunc\<close>, \<^verbatim>\<open>floor\<close>, \<^verbatim>\<open>ceil\<close>,
    \<^verbatim>\<open>round\<close> and \<^verbatim>\<open>rint\<close> (to nearest even) of \<open>n / 2 ^
    k\<close>.\<close>

definition round_to_int :: "Word \<Rightarrow> int \<Rightarrow> nat \<Rightarrow> int" where
  "round_to_int rm n k =
     (let d = 2 ^ k; q = n div d; r = n mod d in
      if rm = 1 then sgn n * (\<bar>n\<bar> div d)
      else if rm = 2 then q
      else if rm = 3 then - ((- n) div d)
      else if rm = 4 then sgn n * ((2 * \<bar>n\<bar> + d) div (2 * d))
      else if 2 * r < d then q
      else if 2 * r > d then q + 1
      else if even q then q else q + 1)"

definition fcvt_to_int :: "FpValue \<Rightarrow> Word \<Rightarrow> Word \<Rightarrow> Register Rounded" where
  "fcvt_to_int v op_mode rm =
     (let is_unsigned = (op_mode AND 1 \<noteq> 0);
          is_64 = (op_mode \<ge> 2)
      in case v of
           Nan \<Rightarrow> (fcvt_saturate is_unsigned is_64 True, [FE_INVALID])
         | Infinite sign \<Rightarrow> (fcvt_saturate is_unsigned is_64 (\<not> sign), [FE_INVALID])
         | Fin n k \<Rightarrow>
             let rounded = round_to_int rm n k;
                 ex = (if rounded * 2 ^ k \<noteq> n then [FE_INEXACT] else []);
                 below = (fcvt_saturate is_unsigned is_64 False, ex @ [FE_INVALID]);
                 above = (fcvt_saturate is_unsigned is_64 True, ex @ [FE_INVALID])
             in if is_64 then
                  if is_unsigned then
                    (if rounded < 0 then below else if rounded \<ge> 18446744073709551616 then above
                     else (word_of_int rounded, ex))
                  else
                    (if rounded < - 9223372036854775808 then below else if rounded \<ge> 9223372036854775808 then above
                     else (word_of_int rounded, ex))
                else
                  if is_unsigned then
                    (if rounded < 0 then below else if rounded \<ge> 4294967296 then above
                     else (scast (word_of_int rounded :: u32), ex))
                  else
                    (if rounded < - 2147483648 then below else if rounded \<ge> 2147483648 then above
                     else (scast (word_of_int rounded :: u32), ex)))"

subsection \<open>Operations\<close>

definition no_result :: FpExecResult where
  "no_result = \<lparr>fr_fp_wb_data = 0, fr_fp_wb_enable = False, fr_int_wb_data = 0, fr_int_wb_enable = False\<rparr>"

definition fp_result :: "FloatingRegister \<Rightarrow> FpExecResult" where
  "fp_result v = no_result\<lparr>fr_fp_wb_data := v, fr_fp_wb_enable := True\<rparr>"

definition int_result :: "Register \<Rightarrow> FpExecResult" where
  "int_result v = no_result\<lparr>fr_int_wb_data := v, fr_int_wb_enable := True\<rparr>"

text \<open>The end of an operation: the value with the exceptions raised since the flags were cleared.\<close>

definition single_op :: "CSRValue \<Rightarrow> u32 Rounded \<Rightarrow> FpExecResult \<times> CSRValue" where
  "single_op fcsr' v = (fp_result (write_f32_boxed (canonical32 (fst v))), accumulate_fp_flags (snd v) fcsr')"

definition double_op :: "CSRValue \<Rightarrow> u64 Rounded \<Rightarrow> FpExecResult \<times> CSRValue" where
  "double_op fcsr' v = (fp_result (canonical64 (fst v)), accumulate_fp_flags (snd v) fcsr')"

definition map_value :: "('v \<Rightarrow> 'w) \<Rightarrow> 'v Rounded \<Rightarrow> 'w Rounded" where
  "map_value f v = (f (fst v), snd v)"

definition fused32 :: "HostFpu \<Rightarrow> HostRound \<Rightarrow> Opcode \<Rightarrow> u32 \<Rightarrow> u32
    \<Rightarrow> u32 \<Rightarrow> u32 Rounded" where
  "fused32 fpu md opc a b c =
     (if opc = Opcode_MAdd then host_fma32 fpu md a b c
      else if opc = Opcode_MSub then host_fma32 fpu md a b (negate32 c)
      else if opc = Opcode_NMAdd then map_value negate32 (host_fma32 fpu md a b c)
      else if opc = Opcode_NMSub then map_value negate32 (host_fma32 fpu md a b (negate32 c))
      else (0, []))"

definition fused64 :: "HostFpu \<Rightarrow> HostRound \<Rightarrow> Opcode \<Rightarrow> u64 \<Rightarrow> u64
    \<Rightarrow> u64 \<Rightarrow> u64 Rounded" where
  "fused64 fpu md opc a b c =
     (if opc = Opcode_MAdd then host_fma64 fpu md a b c
      else if opc = Opcode_MSub then host_fma64 fpu md a b (negate64 c)
      else if opc = Opcode_NMAdd then map_value negate64 (host_fma64 fpu md a b c)
      else if opc = Opcode_NMSub then map_value negate64 (host_fma64 fpu md a b (negate64 c))
      else (0, []))"

definition execute_fusedFp ::
    "HostFpu \<Rightarrow> Opcode \<Rightarrow> Word \<Rightarrow> Word \<Rightarrow> Word \<Rightarrow> Word \<Rightarrow>
        Word \<Rightarrow> (RegId \<Rightarrow> FloatingRegister) \<Rightarrow> CSRValue \<Rightarrow>
     FpExecResult \<times> CSRValue" where
  "execute_fusedFp fpu opc fmt x1 x2 x3 rm fr fcsr' =
     (let md = rm_to_fe_round rm fcsr' in
      if fmt = 0 then single_op fcsr' (fused32 fpu md opc (read_f32 fr x1) (read_f32 fr x2) (read_f32 fr x3))
      else if fmt = 1 then double_op fcsr' (fused64 fpu md opc (read_f64 fr x1) (read_f64 fr x2) (read_f64 fr x3))
      else (no_result, accumulate_fp_flags [] fcsr'))"

text \<open>The groups of operations return \<open>None\<close> when \<open>funct7\<close> is not one of theirs.\<close>

definition fp_exec_add_sub ::
    "HostFpu \<Rightarrow> Word \<Rightarrow> Word \<Rightarrow> Word \<Rightarrow> Word \<Rightarrow>
        (RegId \<Rightarrow> FloatingRegister) \<Rightarrow> CSRValue \<Rightarrow> (FpExecResult \<times> CSRValue) option"
        where
  "fp_exec_add_sub fpu f7 rm x1 x2 fr fcsr' =
     (let md = rm_to_fe_round rm fcsr' in
      if f7 = 0x00 then Some (single_op fcsr' (host_add32 fpu md (read_f32 fr x1) (read_f32 fr x2)))
      else if f7 = 0x01 then Some (double_op fcsr' (host_add64 fpu md (read_f64 fr x1) (read_f64 fr x2)))
      else if f7 = 0x04 then Some (single_op fcsr' (host_sub32 fpu md (read_f32 fr x1) (read_f32 fr x2)))
      else if f7 = 0x05 then Some (double_op fcsr' (host_sub64 fpu md (read_f64 fr x1) (read_f64 fr x2)))
      else None)"

definition fp_exec_mul_div_sqrt ::
    "HostFpu \<Rightarrow> Word \<Rightarrow> Word \<Rightarrow> Word \<Rightarrow> Word \<Rightarrow>
        (RegId \<Rightarrow> FloatingRegister) \<Rightarrow> CSRValue \<Rightarrow> (FpExecResult \<times> CSRValue) option"
        where
  "fp_exec_mul_div_sqrt fpu f7 rm x1 x2 fr fcsr' =
     (let md = rm_to_fe_round rm fcsr' in
      if f7 = 0x08 then Some (single_op fcsr' (host_mul32 fpu md (read_f32 fr x1) (read_f32 fr x2)))
      else if f7 = 0x09 then Some (double_op fcsr' (host_mul64 fpu md (read_f64 fr x1) (read_f64 fr x2)))
      else if f7 = 0x0C then Some (single_op fcsr' (host_div32 fpu md (read_f32 fr x1) (read_f32 fr x2)))
      else if f7 = 0x0D then Some (double_op fcsr' (host_div64 fpu md (read_f64 fr x1) (read_f64 fr x2)))
      else if f7 = 0x2C then Some (single_op fcsr' (host_sqrt32 fpu md (read_f32 fr x1)))
      else if f7 = 0x2D then Some (double_op fcsr' (host_sqrt64 fpu md (read_f64 fr x1)))
      else None)"

definition unboxed_or_nan :: "FloatingRegister \<Rightarrow> FloatingRegister" where
  "unboxed_or_nan a = (if a AND kF32BoxerBits \<noteq> kF32BoxerBits then kF32BoxerBits OR 0x7FC00000 else a)"

definition fp_exec_sgnj_minmax ::
    "Word \<Rightarrow> Funct3 \<Rightarrow> Word \<Rightarrow> Word \<Rightarrow> (RegId \<Rightarrow> FloatingRegister)
        \<Rightarrow> CSRValue \<Rightarrow> (FpExecResult \<times> CSRValue) option" where
  "fp_exec_sgnj_minmax f7 f3 x1 x2 fr fcsr' =
     (if f7 = 0x10 \<or> f7 = 0x11 then
        let is_d = (f7 = 0x11);
            a = (if is_d then fr (ucast x1) else unboxed_or_nan (fr (ucast x1)));
            b = (if is_d then fr (ucast x2) else unboxed_or_nan (fr (ucast x2)));
            sign_bit = (if is_d then push_bit 63 1 else push_bit 31 1) :: u64;
            v = (if f3 = 0 then (a AND NOT sign_bit) OR (b AND sign_bit)
                 else if f3 = 1 then (a AND NOT sign_bit) OR (NOT b AND sign_bit)
                 else if f3 = 2 then a XOR (b AND sign_bit)
                 else 0)
        in Some (fp_result (if is_d then v else kF32BoxerBits OR (v AND 0xFFFFFFFF)), fcsr')
      else if f7 = 0x14 then
        let a = read_f32 fr x1; b = read_f32 fr x2;
            v = (if f3 = 1 then fmax32_riscv a b else fmin32_riscv a b)
        in Some (fp_result (fst v), accumulate_fp_flags (snd v) fcsr')
      else if f7 = 0x15 then
        let a = read_f64 fr x1; b = read_f64 fr x2;
            v = (if f3 = 1 then fmax64_riscv a b else fmin64_riscv a b)
        in Some (fp_result (fst v), accumulate_fp_flags (snd v) fcsr')
      else None)"

text \<open>The integer that a conversion from a register reads. Other values of the \<open>rs2\<close> field leave
    zero.\<close>

definition fcvt_source :: "Word \<Rightarrow> Register \<Rightarrow> int" where
  "fcvt_source x2 r =
     (if x2 = 0 then sint (ucast r :: u32)
      else if x2 = 1 then uint (ucast r :: u32)
      else if x2 = 2 then sint r
      else if x2 = 3 then uint r
      else 0)"

definition fp_exec_cvt ::
    "HostFpu \<Rightarrow> Word \<Rightarrow> Word \<Rightarrow> Word \<Rightarrow> Word \<Rightarrow> Register
        \<Rightarrow> (RegId \<Rightarrow> FloatingRegister) \<Rightarrow> CSRValue \<Rightarrow>
     (FpExecResult \<times> CSRValue) option" where
  "fp_exec_cvt fpu f7 rm x1 x2 r fr fcsr' =
     (let md = rm_to_fe_round rm fcsr' in
      if f7 = 0x20 then
        let src = read_f64 fr x1;
            v = (if isnan64 src then (kF32Qnan, []) else host_f64_to_f32 fpu md src)
        in Some (fp_result (write_f32_boxed (fst v)),
                 accumulate_fp_flags (snan_exceptions (is_snan64 src) @ snd v) fcsr')
      else if f7 = 0x21 then
        let src = read_f32 fr x1;
            v = (if isnan32 src then (kF64Qnan, []) else host_f32_to_f64 fpu md src)
        in Some (fp_result (fst v), accumulate_fp_flags (snan_exceptions (is_snan32 src) @ snd v) fcsr')
      else if f7 = 0x60 \<or> f7 = 0x61 then
        let a = (if f7 = 0x61 then value64 (read_f64 fr x1) else value32 (read_f32 fr x1));
            v = fcvt_to_int a x2 (effective_rm rm fcsr')
        in Some (int_result (fst v), accumulate_fp_flags (snd v) fcsr')
      else if f7 = 0x68 \<or> f7 = 0x69 then
        let (val, ex) = (if x2 \<le> 3 then host_int_to_f64 fpu md (fcvt_source x2 r) else (0, []))
        in if f7 = 0x69 then Some (fp_result val, accumulate_fp_flags ex fcsr')
           else let (single, ex') = host_f64_to_f32 fpu md val
                in Some (fp_result (write_f32_boxed single), accumulate_fp_flags (ex @ ex') fcsr')
      else None)"

definition compare_keys :: "Funct3 \<Rightarrow> int \<Rightarrow> int \<Rightarrow> Register" where
  "compare_keys f3 a b =
     (if f3 = 2 then of_bool (a = b) else if f3 = 1 then of_bool (a < b) else if f3 = 0 then of_bool (a \<le> b) else 0)"

definition fp_exec_cmp ::
    "Word \<Rightarrow> Funct3 \<Rightarrow> Word \<Rightarrow> Word \<Rightarrow> (RegId \<Rightarrow> FloatingRegister)
        \<Rightarrow> CSRValue \<Rightarrow> (FpExecResult \<times> CSRValue) option" where
  "fp_exec_cmp f7 f3 x1 x2 fr fcsr' =
     (if f7 = 0x50 then
        let a = read_f32 fr x1; b = read_f32 fr x2
        in if isnan32 a \<or> isnan32 b
           then Some (int_result 0, accumulate_fp_flags (snan_exceptions
               (f3 \<noteq> 2 \<or> is_snan32 a \<or> is_snan32 b)) fcsr')
           else Some (int_result (compare_keys f3 (key32 a) (key32 b)), accumulate_fp_flags [] fcsr')
      else if f7 = 0x51 then
        let a = read_f64 fr x1; b = read_f64 fr x2
        in if isnan64 a \<or> isnan64 b
           then Some (int_result 0, accumulate_fp_flags (snan_exceptions
               (f3 \<noteq> 2 \<or> is_snan64 a \<or> is_snan64 b)) fcsr')
           else Some (int_result (compare_keys f3 (key64 a) (key64 b)), accumulate_fp_flags [] fcsr')
      else None)"

definition fp_exec_mv_class ::
    "Word \<Rightarrow> Funct3 \<Rightarrow> Word \<Rightarrow> Register \<Rightarrow>
        (RegId \<Rightarrow> FloatingRegister) \<Rightarrow> FpExecResult option" where
  "fp_exec_mv_class f7 f3 x1 r fr =
     (if f7 = 0x70 \<or> f7 = 0x71 then
        let is_d = (f7 = 0x71) in
        if f3 = 0 then Some (int_result (if is_d then fr (ucast x1) else scast (ucast (fr (ucast x1)) :: u32)))
        else if f3 = 1 then
          Some (int_result (if is_d then ucast (fclass64 (read_f64 fr x1)) else ucast (fclass32 (read_f32 fr x1))))
        else Some no_result
      else if f7 = 0x78 \<or> f7 = 0x79 then
        Some (fp_result (if f7 = 0x79 then r else kF32BoxerBits OR (r AND 0xFFFFFFFF)))
      else None)"

definition execute_opFp ::
    "HostFpu \<Rightarrow> Word \<Rightarrow> Funct3 \<Rightarrow> Word \<Rightarrow> Word \<Rightarrow> Register
        \<Rightarrow> (RegId \<Rightarrow> FloatingRegister) \<Rightarrow> CSRValue \<Rightarrow>
     FpExecResult \<times> CSRValue" where
  "execute_opFp fpu f7 f3 x1 x2 r fr fcsr' =
     (let rm = ucast f3 in
      case fp_exec_add_sub fpu f7 rm x1 x2 fr fcsr' of Some v \<Rightarrow> v | None \<Rightarrow>
      case fp_exec_mul_div_sqrt fpu f7 rm x1 x2 fr fcsr' of Some v \<Rightarrow> v | None \<Rightarrow>
      case fp_exec_sgnj_minmax f7 f3 x1 x2 fr fcsr' of Some v \<Rightarrow> v | None \<Rightarrow>
      case fp_exec_cvt fpu f7 rm x1 x2 r fr fcsr' of Some v \<Rightarrow> v | None \<Rightarrow>
      case fp_exec_cmp f7 f3 x1 x2 fr fcsr' of Some v \<Rightarrow> v | None \<Rightarrow>
      case fp_exec_mv_class f7 f3 x1 r fr of Some v \<Rightarrow> (v, fcsr') | None \<Rightarrow> (no_result, fcsr'))"

subsection \<open>Order and values\<close>

text \<open>The magnitude of an encoding with \<open>p\<close> fraction bits, in units of the smallest subnormal.\<close>

definition magnitude :: "nat \<Rightarrow> nat \<Rightarrow> nat" where
  "magnitude p m = (if m div 2 ^ p = 0 then m mod 2 ^ p else (m mod 2 ^ p + 2 ^ p) * 2 ^ (m div 2 ^ p - 1))"

lemma magnitude_bounds:
  assumes "0 < m div 2 ^ p"
  shows "2 ^ p * 2 ^ (m div 2 ^ p - 1) \<le> magnitude p m" "magnitude p m < 2 ^ p * 2 ^ (m div 2 ^ p)"
proof -
  let ?e = "m div 2 ^ p" and ?f = "m mod 2 ^ p"
  have v: "magnitude p m = (?f + 2 ^ p) * 2 ^ (?e - 1)" using assms by (simp add: magnitude_def)
  show "2 ^ p * 2 ^ (?e - 1) \<le> magnitude p m" unfolding v by simp
  have "(?f + 2 ^ p) * 2 ^ (?e - 1) < (2 ^ p + 2 ^ p) * 2 ^ (?e - 1)" by (intro mult_strict_right_mono) simp_all
  also have "\<dots> = 2 ^ p * (2 * 2 ^ (?e - 1))" by (simp add: algebra_simps)
  also have "\<dots> = 2 ^ p * 2 ^ ?e" using assms by (simp flip: power_Suc)
  finally show "magnitude p m < 2 ^ p * 2 ^ ?e" unfolding v .
qed

lemma magnitude_upper: "magnitude p m < 2 ^ p * 2 ^ (m div 2 ^ p)"
  using magnitude_bounds(2) [of m p] by (cases "m div 2 ^ p = 0") (simp_all add: magnitude_def)

lemma magnitude_strict:
  assumes "m < m'"
  shows "magnitude p m < magnitude p m'"
proof -
  have "m div 2 ^ p \<le> m' div 2 ^ p" using assms by (simp add: div_le_mono)
  then consider "m div 2 ^ p = m' div 2 ^ p" | "m div 2 ^ p < m' div 2 ^ p" by fastforce
  then show ?thesis
  proof cases
    case 1
    then have "m mod 2 ^ p < m' mod 2 ^ p" using assms by (metis mod_div_mult_eq nat_add_left_cancel_less add.commute)
    then show ?thesis using 1 by (simp add: magnitude_def)
  next
    case 2
    have "magnitude p m < 2 ^ p * 2 ^ (m div 2 ^ p)" by (rule magnitude_upper)
    also have "\<dots> \<le> 2 ^ p * 2 ^ (m' div 2 ^ p - 1)" using 2 by (intro mult_le_mono2 power_increasing) auto
    also have "\<dots> \<le> magnitude p m'" using 2 by (intro magnitude_bounds(1)) auto
    finally show ?thesis .
  qed
qed

lemma magnitude_iff: "magnitude p m < magnitude p m' \<longleftrightarrow> m < m'" "magnitude p m \<le> magnitude p m'
    \<longleftrightarrow> m \<le> m'"
  "magnitude p m = magnitude p m' \<longleftrightarrow> m = m'"
  using magnitude_strict [of m m' p] magnitude_strict [of m' m p] by (metis nat_neq_iff not_less less_imp_le)+

lemma magnitude_0 [simp]: "magnitude p 0 = 0" by (simp add: magnitude_def)

text \<open>The order of the values: finite ones compare as fractions.\<close>

fun value_le :: "FpValue \<Rightarrow> FpValue \<Rightarrow> bool" where
  "value_le Nan v = False"
| "value_le v Nan = False"
| "value_le (Infinite s) v = (s \<or> v = Infinite False)"
| "value_le v (Infinite s) = (\<not> s)"
| "value_le (Fin n k) (Fin n' k') = (n * 2 ^ k' \<le> n' * 2 ^ k)"

definition signed_of :: "bool \<Rightarrow> nat \<Rightarrow> int" where
  "signed_of s m = (if s then - int m else int m)"

lemma signed_magnitude_iff: "signed_of s (magnitude p m) \<le> signed_of s' (magnitude p m') \<longleftrightarrow> signed_of
    s m \<le> signed_of s' m'"
proof -
  have "int (magnitude p m) \<le> - int (magnitude p m') \<longleftrightarrow> magnitude p m \<le> magnitude p 0 \<and>
      magnitude p m' \<le> magnitude p 0" by auto
  also have "\<dots> \<longleftrightarrow> int m \<le> - int m'" unfolding magnitude_iff by auto
  finally show ?thesis by (cases s; cases s') (simp_all add: signed_of_def magnitude_iff)
qed

lemma dyadic_scaled:
  assumes "dyadic s m e = Fin n k" "- int c \<le> e"
  shows "n * 2 ^ c = signed_of s m * 2 ^ nat (e + int c) * 2 ^ k"
proof (cases "0 \<le> e")
  case True
  then have "nat (e + int c) = nat e + c" by simp
  then show ?thesis using assms True by (auto simp: dyadic_def signed_of_def Let_def power_add)
next
  case False
  then have "nat (e + int c) + nat (- e) = c" using assms(2) by simp
  then have "(2 :: int) ^ c = 2 ^ nat (e + int c) * 2 ^ nat (- e)" by (metis power_add)
  then show ?thesis using assms False by (auto simp: dyadic_def signed_of_def Let_def)
qed

text \<open>A finite encoding of the exponent field \<open>ex\<close> and the fraction \<open>fr\<close>.\<close>

definition finite_value :: "nat \<Rightarrow> nat \<Rightarrow> bool \<Rightarrow> nat \<Rightarrow> nat \<Rightarrow>
    FpValue" where
  "finite_value p c s ex fr =
     (if ex = 0 then dyadic s fr (- int c) else dyadic s (fr + 2 ^ p) (int ex - 1 - int c))"

lemma dyadic_Fin: "\<exists>n k. dyadic s m e = Fin n k"
  by (simp add: dyadic_def Let_def)

lemma finite_value_scaled:
  assumes "finite_value p c s ex fr = Fin n k" "fr < 2 ^ p"
  shows "n * 2 ^ c = signed_of s (magnitude p (ex * 2 ^ p + fr)) * 2 ^ k"
proof (cases "ex = 0")
  case True
  then show ?thesis using assms dyadic_scaled [of s fr "- int c" n k c] by (simp add: finite_value_def magnitude_def)
next
  case False
  then have "nat (int ex - 1) = ex - 1" by simp
  then show ?thesis
    using assms False dyadic_scaled [of s "fr + 2 ^ p" "int ex - 1 - int c" n k c]
    by (simp add: finite_value_def magnitude_def signed_of_def left_diff_distrib distrib_right)
qed

lemma finite_value_le:
  assumes "fr < 2 ^ p" "fr' < 2 ^ p"
  shows "value_le (finite_value p c s ex fr) (finite_value p c s' ex' fr') \<longleftrightarrow>
    signed_of s (ex * 2 ^ p + fr) \<le> signed_of s' (ex' * 2 ^ p + fr')"
proof -
  obtain n k n' k' where v: "finite_value p c s ex fr = Fin n k" "finite_value p c s' ex' fr' = Fin n' k'"
    using dyadic_Fin by (metis finite_value_def)
  let ?M = "signed_of s (magnitude p (ex * 2 ^ p + fr))" and ?M' = "signed_of s' (magnitude p (ex' * 2 ^ p + fr'))"
  note sc = finite_value_scaled [OF v(1) assms(1)] finite_value_scaled [OF v(2) assms(2)]
  have "n * 2 ^ k' \<le> n' * 2 ^ k \<longleftrightarrow> (n * 2 ^ k') * 2 ^ c \<le> (n' * 2 ^ k) * 2 ^ c" by simp
  also have "\<dots> \<longleftrightarrow> (n * 2 ^ c) * 2 ^ k' \<le> (n' * 2 ^ c) * 2 ^ k" by
      (simp only: mult.assoc mult.commute mult.left_commute)
  also have "\<dots> \<longleftrightarrow> ?M * (2 ^ k * 2 ^ k') \<le> ?M' * (2 ^ k * 2 ^ k')" unfolding sc by
      (simp only: mult.assoc mult.commute mult.left_commute)
  also have "\<dots> \<longleftrightarrow> ?M \<le> ?M'" by simp
  finally show ?thesis unfolding signed_magnitude_iff v value_le.simps .
qed

lemma f32_fields:
  "unat (f32_exp b) = unat b div 2 ^ 23 mod 2 ^ 8" "unat (f32_frac b) = unat b mod 2 ^ 23"
  "unat (b AND 0x7FFFFFFF) = unat b mod 2 ^ 31"
proof -
  have "f32_exp b = take_bit 8 (drop_bit 23 b)" "f32_frac b = take_bit 23 b" "b AND 0x7FFFFFFF = take_bit 31 b"
    by (simp_all add: f32_exp_def f32_frac_def take_bit_eq_mask mask_eq_exp_minus_1)
  then show "unat (f32_exp b) = unat b div 2 ^ 23 mod 2 ^ 8" "unat (f32_frac b) = unat b mod 2 ^ 23"
    "unat (b AND 0x7FFFFFFF) = unat b mod 2 ^ 31"
    by (simp_all add: unsigned_take_bit_eq unsigned_drop_bit_eq take_bit_eq_mod drop_bit_eq_div unat_mod_distrib
        unat_div_distrib)
qed

lemma f64_fields:
  "unat (f64_exp b) = unat b div 2 ^ 52 mod 2 ^ 11" "unat (f64_frac b) = unat b mod 2 ^ 52"
  "unat (b AND 0x7FFFFFFFFFFFFFFF) = unat b mod 2 ^ 63"
proof -
  have "f64_exp b = take_bit 11 (drop_bit 52 b)" "f64_frac b = take_bit 52 b" "b AND 0x7FFFFFFFFFFFFFFF = take_bit 63 b"
    by (simp_all add: f64_exp_def f64_frac_def take_bit_eq_mask mask_eq_exp_minus_1)
  then show "unat (f64_exp b) = unat b div 2 ^ 52 mod 2 ^ 11" "unat (f64_frac b) = unat b mod 2 ^ 52"
    "unat (b AND 0x7FFFFFFFFFFFFFFF) = unat b mod 2 ^ 63"
    by (simp_all add: unsigned_take_bit_eq unsigned_drop_bit_eq take_bit_eq_mod drop_bit_eq_div unat_mod_distrib
        unat_div_distrib)
qed

lemma mod_split: "(x :: nat) mod 2 ^ (p + q) = (x div 2 ^ p mod 2 ^ q) * 2 ^ p + x mod 2 ^ p"
  by (simp add: power_add mod_mult2_eq)

lemma key32_fields: "key32 b = signed_of (f32_sign b) (unat (f32_exp b) * 2 ^ 23 + unat (f32_frac b))"
proof -
  have "uint (b AND 0x7FFFFFFF) = int (unat (b AND 0x7FFFFFFF))" by simp
  then show ?thesis
    using mod_split [of "unat b" 23 8] unfolding key32_def signed_of_def Let_def f32_fields by simp
qed

lemma key64_fields: "key64 b = signed_of (f64_sign b) (unat (f64_exp b) * 2 ^ 52 + unat (f64_frac b))"
proof -
  have "uint (b AND 0x7FFFFFFFFFFFFFFF) = int (unat (b AND 0x7FFFFFFFFFFFFFFF))" by simp
  then show ?thesis
    using mod_split [of "unat b" 52 11] unfolding key64_def signed_of_def Let_def f64_fields by simp
qed

lemma value32_finite: "f32_exp b \<noteq> 0xFF \<Longrightarrow> value32 b = finite_value 23 149 (f32_sign b)
    (unat (f32_exp b)) (unat (f32_frac b))"
  by (simp add: value32_def isnan32_def finite_value_def unat_eq_zero add.commute)

lemma value64_finite: "f64_exp b \<noteq> 0x7FF \<Longrightarrow> value64 b = finite_value 52 1074 (f64_sign b)
    (unat (f64_exp b)) (unat (f64_frac b))"
  by (simp add: value64_def isnan64_def finite_value_def unat_eq_zero add.commute)

lemma encoded_below_top: "ex < tp \<Longrightarrow> fr < 2 ^ p \<Longrightarrow> ex * 2 ^ p + fr < tp * (2 ^ p :: nat)"
proof -
  assume "ex < tp" "fr < 2 ^ p"
  then have "ex * 2 ^ p + fr < (ex + 1) * 2 ^ p" by simp
  also have "\<dots> \<le> tp * 2 ^ p" using \<open>ex < tp\<close> by (intro mult_right_mono) auto
  finally show ?thesis .
qed

definition encoded_value :: "nat \<Rightarrow> nat \<Rightarrow> nat \<Rightarrow> bool \<Rightarrow> nat \<Rightarrow> nat
    \<Rightarrow> FpValue" where
  "encoded_value p c tp s ex fr = (if ex = tp then Infinite s else finite_value p c s ex fr)"

lemma signed_of_top:
  "m < t \<Longrightarrow> signed_of s t \<le> signed_of s' m \<longleftrightarrow> s" "m < t \<Longrightarrow> signed_of s'
      m \<le> signed_of s t \<longleftrightarrow> \<not> s"
  "0 < t \<Longrightarrow> signed_of s t \<le> signed_of s' t \<longleftrightarrow> s \<or> \<not> s'"
  by (auto simp: signed_of_def)

lemma encoded_value_le:
  assumes "fr < 2 ^ p" "fr' < 2 ^ p" "ex \<le> tp" "ex' \<le> tp" "ex = tp \<longrightarrow> fr = 0" "ex' = tp
      \<longrightarrow> fr' = 0" "0 < tp"
  shows "value_le (encoded_value p c tp s ex fr) (encoded_value p c tp s' ex' fr') \<longleftrightarrow>
    signed_of s (ex * 2 ^ p + fr) \<le> signed_of s' (ex' * 2 ^ p + fr')"
proof -
  obtain n k n' k' where v: "finite_value p c s ex fr = Fin n k" "finite_value p c s' ex' fr' = Fin n' k'"
    using dyadic_Fin by (metis finite_value_def)
  consider "ex = tp" "ex' = tp" | "ex = tp" "ex' < tp" | "ex < tp" "ex' = tp" | "ex < tp" "ex' < tp"
    using assms(3,4) by fastforce
  then show ?thesis
  proof cases
    case 1
    then show ?thesis using assms signed_of_top(3) [of "tp * 2 ^ p" s s'] by (simp add: encoded_value_def)
  next
    case 2
    then show ?thesis using assms v signed_of_top(1) [OF encoded_below_top [OF 2(2) assms(2)], of s s'] by
        (simp add: encoded_value_def)
  next
    case 3
    then show ?thesis using assms v signed_of_top(2) [OF encoded_below_top [OF 3(1) assms(1)], of s s'] by
        (simp add: encoded_value_def)
  next
    case 4
    then show ?thesis using finite_value_le [OF assms(1,2)] by (simp add: encoded_value_def)
  qed
qed

lemma value32_encoded:
  assumes "\<not> isnan32 x"
  shows "value32 x = encoded_value 23 149 255 (f32_sign x) (unat (f32_exp x)) (unat (f32_frac x))"
    "unat (f32_exp x) \<le> 255" "unat (f32_frac x) < 2 ^ 23" "unat (f32_exp x) = 255 \<longrightarrow> unat (f32_frac x) =
        0"
proof -
  have iff: "unat (f32_exp x) = 255 \<longleftrightarrow> f32_exp x = 0xFF" by
      (simp add: word_eq_iff_unsigned [where 'a = nat])
  show "value32 x = encoded_value 23 149 255 (f32_sign x) (unat (f32_exp x)) (unat (f32_frac x))"
    using assms value32_finite [of x] by (cases "f32_exp x = 0xFF") (simp_all add: encoded_value_def iff value32_def)
  show "unat (f32_exp x) \<le> 255" "unat (f32_frac x) < 2 ^ 23" by (simp_all add: f32_fields less_Suc_eq_le [symmetric])
  show "unat (f32_exp x) = 255 \<longrightarrow> unat (f32_frac x) = 0"
    using assms iff by (auto simp: isnan32_def)
qed

lemma key32_le:
  assumes "\<not> isnan32 a" "\<not> isnan32 b"
  shows "key32 a \<le> key32 b \<longleftrightarrow> value_le (value32 a) (value32 b)"
  unfolding key32_fields value32_encoded(1) [OF assms(1)] value32_encoded(1) [OF assms(2)]
  by (rule encoded_value_le [symmetric])
    (use value32_encoded [OF assms(1)] value32_encoded [OF assms(2)] in \<open>simp_all only: zero_less_numeral\<close>)

lemma value64_encoded:
  assumes "\<not> isnan64 x"
  shows "value64 x = encoded_value 52 1074 2047 (f64_sign x) (unat (f64_exp x)) (unat (f64_frac x))"
    "unat (f64_exp x) \<le> 2047" "unat (f64_frac x) < 2 ^ 52" "unat (f64_exp x) = 2047 \<longrightarrow> unat (f64_frac x)
        = 0"
proof -
  have iff: "unat (f64_exp x) = 2047 \<longleftrightarrow> f64_exp x = 0x7FF" by
      (simp add: word_eq_iff_unsigned [where 'a = nat])
  show "value64 x = encoded_value 52 1074 2047 (f64_sign x) (unat (f64_exp x)) (unat (f64_frac x))"
    using assms value64_finite [of x] by (cases "f64_exp x = 0x7FF") (simp_all add: encoded_value_def iff value64_def)
  show "unat (f64_exp x) \<le> 2047" "unat (f64_frac x) < 2 ^ 52" by (simp_all add: f64_fields less_Suc_eq_le [symmetric])
  show "unat (f64_exp x) = 2047 \<longrightarrow> unat (f64_frac x) = 0"
    using assms iff by (auto simp: isnan64_def)
qed

lemma key64_le:
  assumes "\<not> isnan64 a" "\<not> isnan64 b"
  shows "key64 a \<le> key64 b \<longleftrightarrow> value_le (value64 a) (value64 b)"
  unfolding key64_fields value64_encoded(1) [OF assms(1)] value64_encoded(1) [OF assms(2)]
  by (rule encoded_value_le [symmetric])
    (use value64_encoded [OF assms(1)] value64_encoded [OF assms(2)] in \<open>simp_all only: zero_less_numeral\<close>)

subsection \<open>Flags and comparisons\<close>

lemma fflags_low: "bit (host_except_to_fflags ex) n \<Longrightarrow> n < 5"
proof -
  have "take_bit 5 (host_except_to_fflags ex) = host_except_to_fflags ex"
    by (simp add: host_except_to_fflags_def)
  then show "bit (host_except_to_fflags ex) n \<Longrightarrow> n < 5" by (metis bit_take_bit_iff)
qed

text \<open>Accumulation only adds flags.\<close>

lemma accumulate_fp_flags_or: "accumulate_fp_flags ex f = f OR ucast (host_except_to_fflags ex)"
proof (rule bit_word_eqI)
  fix n
  assume n: "n < LENGTH(64)"
  have m: "bit (kFflagsMask :: CSRValue) n \<longleftrightarrow> n < 5" for n
  proof -
    have k: "kFflagsMask = mask 5" by (simp add: kFflagsMask_def mask_eq_exp_minus_1)
    show ?thesis unfolding k bit_mask_iff by auto
  qed
  show "bit (accumulate_fp_flags ex f) n = bit (f OR ucast (host_except_to_fflags ex)) n"
    using n fflags_low [of ex n] by (auto simp: accumulate_fp_flags_def Let_def bit_simps m)
qed

lemma no_flags [simp]: "accumulate_fp_flags [] f = f"
  by (simp add: accumulate_fp_flags_or host_except_to_fflags_def)

lemma invalid_flag: "accumulate_fp_flags (snan_exceptions s) f = (if s then f OR 0x10 else f)"
  by (simp add: accumulate_fp_flags_or host_except_to_fflags_def snan_exceptions_def)

text \<open>What a comparison of two values should answer.\<close>

definition compare_values :: "Funct3 \<Rightarrow> FpValue \<Rightarrow> FpValue \<Rightarrow> bool" where
  "compare_values f3 v w =
     (if f3 = 0 then value_le v w
      else if f3 = 1 then value_le v w \<and> \<not> value_le w v
      else f3 = 2 \<and> value_le v w \<and> value_le w v)"

lemma value_le_Nan [simp]: "\<not> value_le v Nan" by (cases v) simp_all

lemma compare_keys_values:
  assumes "a \<le> b \<longleftrightarrow> value_le v w" "b \<le> a \<longleftrightarrow> value_le w v"
  shows "compare_keys f3 a b = of_bool (compare_values f3 v w)"
  using assms by (auto simp: compare_keys_def compare_values_def)

text \<open>(C14) The comparisons FLE, FLT and FEQ order the operands by the numbers they encode, with the two
  zeros equal and the infinities at the ends, in both precisions; a comparison with a NaN is false, and
  the invalid flag is raised exactly when an operand is a NaN and it is signaling or the comparison is
  not FEQ.\<close>

theorem float_comparison_exact:
  "fp_exec_cmp 0x50 f3 x1 x2 fr f =
     (let a = read_f32 fr x1; b = read_f32 fr x2
      in Some (int_result (of_bool (compare_values f3 (value32 a) (value32 b))),
           if (isnan32 a \<or> isnan32 b) \<and> (f3 \<noteq> 2 \<or> is_snan32 a \<or> is_snan32 b) then f OR 0x10 else f))
               \<and>
   fp_exec_cmp 0x51 f3 x1 x2 fr f =
     (let a = read_f64 fr x1; b = read_f64 fr x2
      in Some (int_result (of_bool (compare_values f3 (value64 a) (value64 b))),
           if (isnan64 a \<or> isnan64 b) \<and> (f3 \<noteq> 2 \<or> is_snan64 a \<or> is_snan64 b) then f OR 0x10 else f))"
proof -
  have 32: "compare_keys f3 (key32 a) (key32 b) = of_bool (compare_values f3 (value32 a) (value32 b))"
    if "\<not> isnan32 a" "\<not> isnan32 b" for a b
    using compare_keys_values key32_le that by blast
  have 64: "compare_keys f3 (key64 a) (key64 b) = of_bool (compare_values f3 (value64 a) (value64 b))"
    if "\<not> isnan64 a" "\<not> isnan64 b" for a b
    using compare_keys_values key64_le that by blast
  have nan: "\<not> compare_values f3 v w" if "v = Nan \<or> w = Nan" for v w
    using that by (auto simp: compare_values_def)
  have "isnan32 a \<Longrightarrow> value32 a = Nan" "isnan64 b \<Longrightarrow> value64 b = Nan" for a b
    by (simp_all add: value32_def value64_def)
  then show ?thesis
    unfolding fp_exec_cmp_def Let_def invalid_flag no_flags using 32 64 nan by auto
qed

theorem float_comparison_exact_witness:
  "fp_exec_cmp 0x50 1 3 4 (\<lambda>i. if i = 3 then 0xFFFFFFFF3F800000 else 0xFFFFFFFF40000000) 0 = Some (int_result 1, 0) \<and>
   fp_exec_cmp 0x51 1 3 4 (\<lambda>i. if i = 3 then 0x7FF8000000000000 else 0x4000000000000000) 0 =
     Some (int_result 0, 0x10)"
  using float_comparison_exact [of 1 3 4 "\<lambda>i. if i = 3 then 0xFFFFFFFF3F800000 else 0xFFFFFFFF40000000" 0]
    float_comparison_exact [of 1 3 4 "\<lambda>i. if i = 3 then 0x7FF8000000000000 else 0x4000000000000000" 0]
  by (simp add: Let_def read_f32_def read_f64_def kF32BoxerBits_def value32_def value64_def isnan32_def isnan64_def
      f32_exp_def f32_frac_def f32_sign_def f64_exp_def f64_frac_def f64_sign_def dyadic_def compare_values_def)

subsection \<open>Conversion to integers\<close>

text \<open>What the rounding modes promise of the integer \<open>r\<close> for the fraction \<open>n / d\<close>: towards
    zero, down, up,
  to nearest with ties away from zero, and to nearest with ties to even.\<close>

definition rounds_to :: "Word \<Rightarrow> int \<Rightarrow> int \<Rightarrow> int \<Rightarrow> bool" where
  "rounds_to rm n d r \<longleftrightarrow>
     (if rm = 1 then (if 0 \<le> n then r * d \<le> n \<and> n < r * d + d else r * d - d < n \<and> n \<le> r * d)
      else if rm = 2 then r * d \<le> n \<and> n < r * d + d
      else if rm = 3 then r * d - d < n \<and> n \<le> r * d
      else if rm = 4 then 2 * \<bar>n - r * d\<bar> \<le> d \<and>
          (2 * \<bar>n - r * d\<bar> = d \<longrightarrow> \<bar>n\<bar> < \<bar>r * d\<bar>)
      else 2 * \<bar>n - r * d\<bar> \<le> d \<and> (2 * \<bar>n - r * d\<bar> = d \<longrightarrow> even r))"

lemma div_bracket: "0 < d \<Longrightarrow> x div d * d \<le> x" "0 < d \<Longrightarrow> x < x div d * d + d" for x d :: int
  using pos_mod_bound [of d x] pos_mod_sign [of d x] div_mult_mod_eq [of x d] by linarith+

lemma round_away_bracket:
  fixes n d :: int
  assumes "0 < d" "0 \<le> n"
  defines "r \<equiv> (2 * n + d) div (2 * d)"
  shows "2 * (r * d) \<le> 2 * n + d" "2 * n < 2 * (r * d) + d" "0 \<le> r * d"
proof -
  have b: "r * (2 * d) \<le> 2 * n + d" "2 * n + d < r * (2 * d) + 2 * d"
    unfolding r_def using assms(1) by (simp_all add: div_bracket)
  have "r * (2 * d) = 2 * (r * d)" by simp
  then show "2 * (r * d) \<le> 2 * n + d" "2 * n < 2 * (r * d) + d" using b by linarith+
  have "0 \<le> r" unfolding r_def using assms(1,2) by (simp add: pos_imp_zdiv_nonneg_iff)
  then show "0 \<le> r * d" using assms(1) by simp
qed

lemma away_below:
  fixes n x d :: int
  assumes "n < 0" "0 \<le> x" "2 * x \<le> 2 * - n + d" "2 * - n < 2 * x + d"
  shows "2 * \<bar>n + x\<bar> \<le> d \<and> (2 * \<bar>n + x\<bar> = d \<longrightarrow> \<bar>n\<bar> < \<bar>x\<bar>)"
  using assms by (simp add: abs_if)

lemma round_to_int_rounds: "rounds_to rm n (2 ^ k) (round_to_int rm n k)"
proof -
  define d :: int where "d = 2 ^ k"
  have d: "0 < d" by (simp add: d_def)
  note qb = div_bracket [OF d, of n] and nb = div_bracket [OF d, of "- n"]
  have nq: "n = n div d * d + n mod d" by simp
  consider "rm = 1" | "rm = 2" | "rm = 3" | "rm = 4" | "rm \<notin> {1, 2, 3, 4}" by blast
  then have "rounds_to rm n d (round_to_int rm n k)"
  proof cases
    case 1
    then show ?thesis using qb nb
      by (cases "0 \<le> n"; cases "n = 0") (simp_all add: rounds_to_def round_to_int_def Let_def sgn_if flip: d_def)
  next
    case 2
    then show ?thesis using qb by (simp add: rounds_to_def round_to_int_def Let_def flip: d_def)
  next
    case 3
    then show ?thesis using nb by (simp add: rounds_to_def round_to_int_def Let_def flip: d_def)
  next
    case 4
    show ?thesis
    proof (cases "0 \<le> n")
      case True
      then have "sgn n * ((2 * \<bar>n\<bar> + d) div (2 * d)) = (2 * n + d) div (2 * d)"
        using d by (cases "n = 0") (simp_all add: sgn_if div_pos_pos_trivial)
      then have "round_to_int rm n k = (2 * n + d) div (2 * d)" using 4 by (simp only: round_to_int_def Let_def d_def) simp
      then show ?thesis using 4 True round_away_bracket [OF d True] by (simp add: rounds_to_def abs_if)
    next
      case False
      then have s: "sgn n * ((2 * \<bar>n\<bar> + d) div (2 * d)) = - ((2 * - n + d) div (2 * d))" by (simp add: sgn_if)
      then have "round_to_int rm n k = - ((2 * - n + d) div (2 * d))" using 4 by (simp only: round_to_int_def Let_def d_def)
          simp
      then show ?thesis using 4 False round_away_bracket [OF d, of "- n"] away_below [of n "(2 * - n + d) div (2 * d) * d" d]
        by (simp add: rounds_to_def)
    qed
  next
    case 5
    define q where "q = n div d"
    define f where "f = n mod d"
    have n: "n = q * d + f" unfolding q_def f_def by (rule nq)
    have f: "0 \<le> f" "f < d" using d by (simp_all add: f_def)
    have "round_to_int rm n k = (if 2 * f < d then q else if 2 * f > d then q + 1 else if even q then q else q + 1)"
      using 5 by (simp add: round_to_int_def Let_def flip: d_def q_def f_def)
    then show ?thesis using 5 f by (auto simp: rounds_to_def n algebra_simps abs_if)
  qed
  then show ?thesis by (simp add: d_def)
qed

text \<open>The range of the integer type that the \<open>rs2\<close> field names, and its place in a register.\<close>

definition fcvt_min :: "Word \<Rightarrow> int" where
  "fcvt_min op_mode = (if op_mode AND 1 \<noteq> 0 then 0 else if op_mode \<ge> 2 then - (2 ^ 63) else - (2 ^ 31))"

definition fcvt_max :: "Word \<Rightarrow> int" where
  "fcvt_max op_mode =
     (if op_mode AND 1 \<noteq> 0 then (if op_mode \<ge> 2 then 2 ^ 64 - 1 else 2 ^ 32 - 1)
      else if op_mode \<ge> 2 then 2 ^ 63 - 1 else 2 ^ 31 - 1)"

definition fcvt_register :: "Word \<Rightarrow> int \<Rightarrow> Register" where
  "fcvt_register op_mode r = (if op_mode \<ge> 2 then word_of_int r else scast (word_of_int r :: u32))"

lemma fcvt_saturate_bounds:
  "fcvt_saturate (op_mode AND 1 \<noteq> 0) (op_mode \<ge> 2) True = fcvt_register op_mode (fcvt_max op_mode)"
  "fcvt_saturate (op_mode AND 1 \<noteq> 0) (op_mode \<ge> 2) False = fcvt_register op_mode (fcvt_min op_mode)"
  by (simp_all add: fcvt_saturate_def fcvt_register_def fcvt_max_def fcvt_min_def)

lemma fcvt_to_int_finite:
  fixes rm :: Word and n :: int and k :: nat
  defines "r \<equiv> round_to_int rm n k" and "ex \<equiv> (if round_to_int rm n k * 2 ^ k \<noteq> n then [FE_INEXACT]
      else [])"
  shows "fcvt_to_int (Fin n k) op_mode rm =
    (if r < fcvt_min op_mode then (fcvt_register op_mode (fcvt_min op_mode), ex @ [FE_INVALID])
     else if fcvt_max op_mode < r then (fcvt_register op_mode (fcvt_max op_mode), ex @ [FE_INVALID])
     else (fcvt_register op_mode r, ex))"
  unfolding fcvt_to_int_def Let_def FpValue.case fcvt_saturate_bounds ex_def r_def [symmetric]
  by (simp add: fcvt_min_def fcvt_max_def fcvt_register_def not_less)

lemma fcvt_to_int_special:
  "fcvt_to_int Nan op_mode rm = (fcvt_register op_mode (fcvt_max op_mode), [FE_INVALID])"
  "fcvt_to_int (Infinite False) op_mode rm = (fcvt_register op_mode (fcvt_max op_mode), [FE_INVALID])"
  "fcvt_to_int (Infinite True) op_mode rm = (fcvt_register op_mode (fcvt_min op_mode), [FE_INVALID])"
  unfolding fcvt_to_int_def Let_def FpValue.case not_True_eq_False not_False_eq_True fcvt_saturate_bounds by simp_all

lemma fcvt_min_le_max: "fcvt_min op_mode \<le> fcvt_max op_mode"
  by (simp add: fcvt_min_def fcvt_max_def)

text \<open>(C13) Conversion to an integer rounds the encoded number as the rounding mode asks, clamps the result to
  the range of the target type and raises the invalid flag exactly when it is outside that range, the
  inexact flag exactly when it is not the number itself; a NaN and the positive infinity give the upper
  bound and the negative infinity the lower one, with the invalid flag.\<close>

theorem float_to_int_exact:
  "(\<exists>r. rounds_to rm n (2 ^ k) r \<and>
      fst (fcvt_to_int (Fin n k) op_mode rm) = fcvt_register op_mode (max (fcvt_min op_mode) (min (fcvt_max op_mode) r))
          \<and>
      (FE_INVALID \<in> set (snd (fcvt_to_int (Fin n k) op_mode rm)) \<longleftrightarrow> r < fcvt_min op_mode \<or>
          fcvt_max op_mode < r) \<and>
      (FE_INEXACT \<in> set (snd (fcvt_to_int (Fin n k) op_mode rm)) \<longleftrightarrow> r * 2 ^ k \<noteq> n)) \<and>
   fcvt_to_int Nan op_mode rm = (fcvt_register op_mode (fcvt_max op_mode), [FE_INVALID]) \<and>
   fcvt_to_int (Infinite False) op_mode rm = (fcvt_register op_mode (fcvt_max op_mode), [FE_INVALID]) \<and>
   fcvt_to_int (Infinite True) op_mode rm = (fcvt_register op_mode (fcvt_min op_mode), [FE_INVALID])"
  using round_to_int_rounds [of rm n k] fcvt_min_le_max [of op_mode]
  unfolding fcvt_to_int_special fcvt_to_int_finite by (intro conjI exI [of _ "round_to_int rm n k"]) auto

subsection \<open>NaN boxing\<close>

text \<open>A register that holds a single: boxed, and canonical when it is a NaN.\<close>

definition boxed :: "FloatingRegister \<Rightarrow> bool" where
  "boxed v \<longleftrightarrow> v AND kF32BoxerBits = kF32BoxerBits"

lemma boxed_write: "boxed (write_f32_boxed v)" "boxed (kF32BoxerBits OR w)"
  by (simp_all add: boxed_def write_f32_boxed_def word_ao_absorbs and.commute)

lemma boxer_bits: "kF32BoxerBits = NOT (mask 32)"
  by (simp add: kF32BoxerBits_def mask_eq_exp_minus_1)

lemma low_write: "ucast (write_f32_boxed v) = v"
  by (rule bit_word_eqI) (auto simp: write_f32_boxed_def boxer_bits bit_simps)

lemma read_boxed: "boxed v \<Longrightarrow> fr (ucast x) = v \<Longrightarrow> read_f32 fr x = ucast v"
  by (simp add: read_f32_def boxed_def) (rule bit_word_eqI, auto simp: bit_simps)

lemma canonical32_idem [simp]: "canonical32 (canonical32 v) = canonical32 v"
  by (simp add: canonical32_def)

lemma canonical_quiet [simp]: "canonical32 kF32Qnan = kF32Qnan" by (simp add: canonical32_def)

lemma minmax_boxed:
  "boxed (fst (fmin32_riscv a b))" "boxed (fst (fmax32_riscv a b))"
  by (simp_all add: fmin32_riscv_def fmax32_riscv_def boxed_write)

lemma zeros_not_nan [simp]: "\<not> isnan32 0" "\<not> isnan32 0x80000000"
  by (simp_all add: isnan32_def f32_exp_def f32_frac_def)

lemma minmax_canonical:
  "canonical32 (ucast (fst (fmin32_riscv a b))) = ucast (fst (fmin32_riscv a b))"
  "canonical32 (ucast (fst (fmax32_riscv a b))) = ucast (fst (fmax32_riscv a b))"
  by (cases "isnan32 a"; cases "isnan32 b"; simp add: fmin32_riscv_def fmax32_riscv_def low_write canonical32_def)+

lemma single_op_result:
  "fr_fp_wb_enable (fst (single_op f v))" "boxed (fr_fp_wb_data (fst (single_op f v)))"
  "canonical32 (ucast (fr_fp_wb_data (fst (single_op f v)))) = ucast (fr_fp_wb_data (fst (single_op f v)))"
  by (simp_all add: single_op_def fp_result_def boxed_write low_write)

lemma fp_result_fields [simp]: "fr_fp_wb_enable (fp_result v)" "fr_fp_wb_data (fp_result v) = v"
  by (simp_all add: fp_result_def)

lemmas op_groups = execute_opFp_def fp_exec_add_sub_def fp_exec_mul_div_sqrt_def fp_exec_sgnj_minmax_def fp_exec_cvt_def
  fp_exec_cmp_def fp_exec_mv_class_def

text \<open>(C15) Every operation with a single-precision result writes a NaN-boxed register, and arithmetic, minimum and
  maximum write the canonical NaN when the result is a NaN, whatever the host returns.\<close>

theorem single_results_boxed:
  fixes fpu :: HostFpu and f7 x1 x2 x3 rm :: Word and f3 :: Funct3 and opc :: Opcode and r :: Register
    and fr :: "RegId \<Rightarrow> FloatingRegister" and f :: CSRValue
  assumes "f7 \<in> {0x00, 0x04, 0x08, 0x0C, 0x2C, 0x14} \<union> {0x10, 0x20, 0x68, 0x78}"
  defines "out \<equiv> fst (execute_opFp fpu f7 f3 x1 x2 r fr f)"
    and "fused \<equiv> fst (execute_fusedFp fpu opc 0 x1 x2 x3 rm fr f)"
  shows "fr_fp_wb_enable out \<and> boxed (fr_fp_wb_data out) \<and>
    (f7 \<in> {0x10, 0x20, 0x68, 0x78} \<or> canonical32 (ucast (fr_fp_wb_data out)) = ucast (fr_fp_wb_data out)) \<and>
    fr_fp_wb_enable fused \<and> boxed (fr_fp_wb_data fused) \<and>
    canonical32 (ucast (fr_fp_wb_data fused)) = ucast (fr_fp_wb_data fused)"
proof -
  have arith: "fr_fp_wb_enable out \<and> boxed (fr_fp_wb_data out) \<and>
      canonical32 (ucast (fr_fp_wb_data out)) = ucast (fr_fp_wb_data out)" if "f7 \<in> {0x00, 0x04, 0x08, 0x0C, 0x2C, 0x14}"
    using that unfolding out_def
    by (elim insertE emptyE) (simp_all add: op_groups Let_def single_op_result minmax_boxed minmax_canonical)
  have other: "fr_fp_wb_enable out \<and> boxed (fr_fp_wb_data out)" if "f7 \<in> {0x10, 0x20, 0x68, 0x78}"
    using that unfolding out_def
    by (elim insertE emptyE) (simp_all add: op_groups Let_def boxed_write split: prod.split)
  show ?thesis using arith other assms(1) by (auto simp: fused_def execute_fusedFp_def Let_def single_op_result)
qed

definition zero_fpu :: HostFpu where
  "zero_fpu =
     \<lparr>host_add32 = (\<lambda>_ _ _. (0, [])), host_add64 = (\<lambda>_ _ _. (0, [])), host_mul32 =
         (\<lambda>_ _ _. (0, [])),
      host_mul64 = (\<lambda>_ _ _. (0, [])), host_sub32 = (\<lambda>_ _ _. (0, [])), host_sub64 = (\<lambda>_ _ _. (0, [])),
      host_div32 = (\<lambda>_ _ _. (0, [])), host_div64 = (\<lambda>_ _ _. (0, [])), host_sqrt32 = (\<lambda>_ _. (0, [])),
      host_sqrt64 = (\<lambda>_ _. (0, [])), host_fma32 = (\<lambda>_ _ _ _. (0xFFC00001, [FE_INVALID])),
      host_fma64 = (\<lambda>_ _ _ _. (0, [])), host_f64_to_f32 = (\<lambda>_ _. (0, [])), host_f32_to_f64 =
          (\<lambda>_ _. (0, [])),
      host_int_to_f64 = (\<lambda>_ _. (0, []))\<rparr>"

theorem single_results_boxed_witness:
  "boxed (fr_fp_wb_data (fst (execute_opFp zero_fpu 0x14 1 3 4 0 (\<lambda>i. if i = 3 then 5 else 0xFFFFFFFF40400000) 0)))
      \<and>
   canonical32 (ucast (fr_fp_wb_data (fst (execute_fusedFp zero_fpu Opcode_MAdd 0 3 4 5 0
     (\<lambda>i. if i = 3 then 5 else 0xFFFFFFFF40400000) 0)))) = kF32Qnan"
  using single_results_boxed
    [of "0x14" zero_fpu 1 3 4 0 "\<lambda>i. if i = 3 then 5 else 0xFFFFFFFF40400000" 0 Opcode_MAdd 5 0]
  by (simp add: execute_fusedFp_def Let_def fused32_def zero_fpu_def single_op_def low_write canonical32_def
      isnan32_def f32_exp_def f32_frac_def)

end
