(* ===== verification/Vector_Core.thy ===== *)
theory Vector_Core
  imports Alu Arch_State Dram
begin

text \<open>
  Elements, masks and loops of the vector unit (\<^verbatim>\<open>src/execute/vector/VectorHelpers.hpp\<close>) and the
  configuration instructions (\<^verbatim>\<open>VectorConfig.cpp\<close>). A function template over an element type is a
  polymorphic definition over the word length; where a template parameter does not show in the
  arguments it is passed as a type. The signed and unsigned integer types of one width share the word
  type: a template that distinguishes them takes the conversion (\<open>scast\<close> or \<open>ucast\<close>) or the
      comparison
  as an argument. The loops run over the element indices from \<open>vstart\<close> to \<open>vl\<close> and read the mask
      and
  the sources from the register file they are updating, as the code does through its references.

  The central lemmas view the 32 registers as one flat byte array, in which the elements of a
  register group are consecutive: a loop whose element \<open>i\<close> depends only on bytes that the earlier
  iterations have not written computes every active element from the state before the loop and
  changes no other byte.
\<close>

subsection \<open>Elements and mask bits\<close>

definition get_mask_bit :: "VectorRegister \<Rightarrow> nat \<Rightarrow> bool" where
  "get_mask_bit mask_reg i \<longleftrightarrow> mask_reg (i div 8) AND push_bit (i mod 8) 1 \<noteq> 0"

definition is_element_active :: "VectorRegister \<Rightarrow> nat \<Rightarrow> bool \<Rightarrow> bool" where
  "is_element_active mask_reg i vm \<longleftrightarrow> (if vm then True else mask_reg (i div 8) AND push_bit (i mod 8) 1
      \<noteq> 0)"

definition set_mask_bit :: "VectorRegister \<Rightarrow> nat \<Rightarrow> bool \<Rightarrow> VectorRegister" where
  "set_mask_bit dest i val =
     (let byte_idx = i div 8;
          b = push_bit (i mod 8) 1
      in dest(byte_idx := (if val then dest byte_idx OR b else dest byte_idx AND NOT b)))"

definition elem_bytes :: "'a::len itself \<Rightarrow> nat" where
  "elem_bytes t = LENGTH('a) div 8"

text \<open>The register and the index in it of element \<open>i\<close> of a group.\<close>

definition group_slot :: "RegisterFile \<Rightarrow> nat \<Rightarrow> RegId \<Rightarrow> nat \<Rightarrow> RegId \<times>
    nat" where
  "group_slot rf sz base_reg i =
     (let elems_per_reg = of_nat (vlen_bytes rf div sz) :: u32;
          shift = countr_zero elems_per_reg;
          reg_offset = drop_bit shift (of_nat i :: u32);
          elem_idx = of_nat i AND (elems_per_reg - 1)
      in (ucast ((ucast base_reg + reg_offset) AND 0x1F), unat elem_idx))"

definition get_group_element :: "RegisterFile \<Rightarrow> RegId \<Rightarrow> nat \<Rightarrow> 'a::len word" where
  "get_group_element rf base_reg i =
     (let sz = elem_bytes TYPE('a);
          (actual_reg, elem_idx) = group_slot rf sz base_reg i
      in le_word (host_bytes (read_vector rf actual_reg) (elem_idx * sz) sz))"

definition set_group_element :: "RegisterFile \<Rightarrow> RegId \<Rightarrow> nat \<Rightarrow> 'a::len word \<Rightarrow>
    RegisterFile" where
  "set_group_element rf base_reg i val =
     (let sz = elem_bytes TYPE('a);
          (actual_reg, elem_idx) = group_slot rf sz base_reg i
      in write_vector rf actual_reg (write_bytes (read_vector rf actual_reg) (elem_idx * sz) (le_bytes sz val)))"

subsection \<open>Loops over elements\<close>

definition vector_elements :: "ArchState \<Rightarrow> u32 \<Rightarrow> nat list" where
  "vector_elements s l = [unat (ucast (vstart s) :: u32) ..< unat l]"

text \<open>The body shared by the loops that write the elements of a group, and by those that write the
  bits of a mask register.\<close>

definition element_step ::
    "bool \<Rightarrow> RegId \<Rightarrow> (RegisterFile \<Rightarrow> nat \<Rightarrow> 'a::len word) \<Rightarrow> nat
        \<Rightarrow> RegisterFile \<Rightarrow> RegisterFile" where
  "element_step vm dst f i rf =
     (if is_element_active (read_vector rf 0) i vm then set_group_element rf dst i (f rf i) else rf)"

definition element_loop ::
    "bool \<Rightarrow> RegId \<Rightarrow> (RegisterFile \<Rightarrow> nat \<Rightarrow> 'a::len word) \<Rightarrow> u32
        \<Rightarrow> ArchState \<Rightarrow> ArchState" where
  "element_loop vm dst f l s = s\<lparr>regs := fold (element_step vm dst f) (vector_elements s l) (regs s)\<rparr>"

definition mask_step ::
    "bool \<Rightarrow> RegId \<Rightarrow> (RegisterFile \<Rightarrow> nat \<Rightarrow> bool) \<Rightarrow> nat
        \<Rightarrow> RegisterFile \<Rightarrow> RegisterFile" where
  "mask_step vm dst f i rf =
     (if is_element_active (read_vector rf 0) i vm
      then write_vector rf dst (set_mask_bit (read_vector rf dst) i (f rf i)) else rf)"

definition mask_loop :: "bool \<Rightarrow> RegId \<Rightarrow> (RegisterFile \<Rightarrow> nat \<Rightarrow> bool)
    \<Rightarrow> u32 \<Rightarrow> ArchState \<Rightarrow> ArchState" where
  "mask_loop vm dst f l s = s\<lparr>regs := fold (mask_step vm dst f) (vector_elements s l) (regs s)\<rparr>"

definition perform_vv ::
    "('a::len word \<Rightarrow> 'a word \<Rightarrow> 'a word) \<Rightarrow> RegId \<Rightarrow> RegId \<Rightarrow> RegId
        \<Rightarrow> bool \<Rightarrow> u32 \<Rightarrow> ArchState \<Rightarrow> ArchState" where
  "perform_vv f d s1 s2 vm l =
     element_loop vm d (\<lambda>rf i. f (get_group_element rf s2 i) (get_group_element rf s1 i)) l"

definition perform_vx ::
    "('a::len word \<Rightarrow> 'a word \<Rightarrow> 'a word) \<Rightarrow> RegId \<Rightarrow> Register \<Rightarrow>
        RegId \<Rightarrow> bool \<Rightarrow> u32 \<Rightarrow> ArchState \<Rightarrow> ArchState" where
  "perform_vx f d rs1_val s2 vm l =
     (let val1 = ucast rs1_val in element_loop vm d (\<lambda>rf i. f (get_group_element rf s2 i) val1) l)"

text \<open>Immediates are \<open>int32_t\<close>: the conversion to an element sign-extends.\<close>

definition perform_vi ::
    "('a::len word \<Rightarrow> 'a word \<Rightarrow> 'a word) \<Rightarrow> RegId \<Rightarrow> u32 \<Rightarrow> RegId
        \<Rightarrow> bool \<Rightarrow> u32 \<Rightarrow> ArchState \<Rightarrow> ArchState" where
  "perform_vi f d simm s2 vm l =
     (let val1 = scast simm in element_loop vm d (\<lambda>rf i. f (get_group_element rf s2 i) val1) l)"

definition perform_compare_vv ::
    "('a::len word \<Rightarrow> 'a word \<Rightarrow> bool) \<Rightarrow> RegId \<Rightarrow> RegId \<Rightarrow> RegId
        \<Rightarrow> bool \<Rightarrow> u32 \<Rightarrow> ArchState \<Rightarrow> ArchState" where
  "perform_compare_vv f d s1 s2 vm l =
     mask_loop vm d (\<lambda>rf i. f (get_group_element rf s2 i) (get_group_element rf s1 i)) l"

definition perform_compare_vx ::
    "('a::len word \<Rightarrow> 'a word \<Rightarrow> bool) \<Rightarrow> RegId \<Rightarrow> Register \<Rightarrow> RegId
        \<Rightarrow> bool \<Rightarrow> u32 \<Rightarrow> ArchState \<Rightarrow> ArchState" where
  "perform_compare_vx f d rs1_val s2 vm l =
     (let val1 = ucast rs1_val in mask_loop vm d (\<lambda>rf i. f (get_group_element rf s2 i) val1) l)"

definition perform_compare_vi ::
    "('a::len word \<Rightarrow> 'a word \<Rightarrow> bool) \<Rightarrow> RegId \<Rightarrow> u32 \<Rightarrow> RegId
        \<Rightarrow> bool \<Rightarrow> u32 \<Rightarrow> ArchState \<Rightarrow> ArchState" where
  "perform_compare_vi f d simm s2 vm l =
     (let val1 = scast simm in mask_loop vm d (\<lambda>rf i. f (get_group_element rf s2 i) val1) l)"

text \<open>The chains of tests on the element width that select an instance of a template.\<close>

definition by_sew :: "u32 \<Rightarrow> 'x \<Rightarrow> 'x \<Rightarrow> 'x \<Rightarrow> 'x \<Rightarrow> 'x" where
  "by_sew sew e8 e16 e32 e64 = (if sew = 8 then e8 else if sew = 16 then e16 else if sew = 32 then e32 else e64)"

definition by_sew3 :: "u32 \<Rightarrow> 'x \<Rightarrow> 'x \<Rightarrow> 'x \<Rightarrow> 'x" where
  "by_sew3 sew e8 e16 e32 = (if sew = 8 then e8 else if sew = 16 then e16 else e32)"

subsection \<open>Configuration\<close>

definition lmul_ratio :: "u32 \<Rightarrow> nat \<times> nat" where
  "lmul_ratio lmul_field =
     (if lmul_field = 0 then (1, 1)
      else if lmul_field = 1 then (2, 1)
      else if lmul_field = 2 then (4, 1)
      else if lmul_field = 3 then (8, 1)
      else if lmul_field = 5 then (1, 8)
      else if lmul_field = 6 then (1, 4)
      else if lmul_field = 7 then (1, 2)
      else (1, 1))"

definition vtype_illegal :: "u64 \<Rightarrow> nat \<Rightarrow> bool" where
  "vtype_illegal v xl =
     (let vill_mask = push_bit (xl - 1) 1 :: u64;
          reserved_mask = (let m = NOT (0xFF OR vill_mask) in if xl = 32 then m AND 0xFFFFFFFF else m);
          sew_field = ucast (drop_bit 3 v AND 7) :: u32;
          lmul_field = ucast (v AND 7) :: u32;
          req_sew = 8 * 2 ^ unat sew_field :: nat;
          (lmul_num, lmul_den) = lmul_ratio lmul_field
      in v AND vill_mask \<noteq> 0 \<or> v AND reserved_mask \<noteq> 0 \<or> sew_field > 3 \<or> lmul_field = 4 \<or>
         lmul_num * 64 < req_sew * lmul_den)"

definition vtype_vlmax :: "u64 \<Rightarrow> nat \<Rightarrow> nat" where
  "vtype_vlmax v vbits =
     (let (lmul_num, lmul_den) = lmul_ratio (ucast (v AND 7))
      in (vbits * lmul_num) div (8 * 2 ^ unat (drop_bit 3 v AND 7) * lmul_den))"

definition execute_vector_config ::
    "OperationId \<Rightarrow> Instruction \<Rightarrow> RegId \<Rightarrow> RegId \<Rightarrow> RegId \<Rightarrow>
        ArchState \<Rightarrow> ArchState" where
  "execute_vector_config op i d s1 s2 s =
     (let v = (if op = VSETVLI then ucast (drop_bit 20 i AND 0x7FF)
               else if op = VSETIVLI then ucast (drop_bit 20 i AND 0x3FF)
               else read_reg (regs s) s2);
          vill = vtype_illegal v (xlen (regs s));
          vtype' = (if vill then push_bit (xlen (regs s) - 1) 1 else v AND 0xFF);
          vlmax = of_nat (vtype_vlmax v (vlen (regs s))) :: u32;
          new_vl =
            (if vill then 0
             else if op = VSETIVLI then min (ucast (drop_bit 15 i AND 0x1F)) vlmax
             else if s1 = 0 then (if d = 0 then min (ucast (vl s)) vlmax else vlmax)
             else min (ucast (read_reg (regs s) s1)) vlmax)
      in s\<lparr>vl := ucast new_vl, vtype := vtype', vstart := 0, regs := write_reg (regs s) d (ucast new_vl),
           mstatus := mstatus s OR Mstatus_Vs\<rparr>)"

section \<open>The layout of register groups\<close>

lemma countr_zero_power: "m < LENGTH('a) \<Longrightarrow> countr_zero (2 ^ m :: 'a::len word) = m"
proof -
  assume m: "m < LENGTH('a)"
  have "[0..<LENGTH('a)] = [0..<m] @ m # [Suc m..<LENGTH('a)]"
    using m by (metis le_add_diff_inverse less_imp_le upt_add_eq_append upt_conv_Cons zero_le)
  moreover have "takeWhile (\<lambda>i. \<not> bit (2 ^ m :: 'a word) i) ([0..<m] @ m # [Suc m..<LENGTH('a)]) = [0..<m]"
    using m by (subst takeWhile_append2) (auto simp: bit_simps)
  ultimately show ?thesis by (simp add: countr_zero_def)
qed

text \<open>Vector registers of 64 to 1024 bits, whose lengths are powers of two.\<close>

definition vlen_ok :: "RegisterFile \<Rightarrow> bool" where
  "vlen_ok rf \<longleftrightarrow> vlen rf \<in> {64, 128, 256, 512, 1024}"

definition elems :: "RegisterFile \<Rightarrow> nat \<Rightarrow> nat" where
  "elems rf sz = vlen_bytes rf div sz"

lemma elems_power:
  assumes "vlen_ok rf" "sz \<in> {1, 2, 4, 8}"
  obtains m where "elems rf sz = 2 ^ m" "m \<le> 7"
proof -
  have "elems rf sz \<in> {2 ^ 0, 2 ^ 1, 2 ^ 2, 2 ^ 3, 2 ^ 4, 2 ^ 5, 2 ^ 6, 2 ^ 7}"
    using assms by (auto simp: vlen_ok_def elems_def vlen_bytes_def)
  then show thesis using that [of 0] that [of 1] that [of 2] that [of 3] that [of 4] that [of 5] that [of 6] that [of 7]
    by auto
qed

lemma group_slot_nat:
  assumes "vlen_ok rf" "sz \<in> {1, 2, 4, 8}" "i < 2 ^ 32"
  shows "group_slot rf sz base i = (of_nat ((unat base + i div elems rf sz) mod 32), i mod elems rf sz)"
proof -
  obtain m where e: "elems rf sz = 2 ^ m" and m: "m \<le> 7" using elems_power [OF assms(1,2)] .
  have e32: "(of_nat (vlen_bytes rf div sz) :: u32) = 2 ^ m" using e by (simp add: elems_def)
  have i: "unat (of_nat i :: u32) = i" using assms(3) by (simp add: unat_of_nat)
  have "(2 :: nat) ^ m < 2 ^ 32" using m by (intro power_strict_increasing) auto
  then have "unat (of_nat (2 ^ m) :: u32) = 2 ^ m" by (simp only: unat_of_nat len_of_numeral_defs) simp
  then have pw: "unat (2 ^ m :: u32) = 2 ^ m" by simp
  have off: "unat (drop_bit m (of_nat i :: u32)) = i div 2 ^ m"
    using i pw by (simp add: drop_bit_eq_div unat_div_distrib)
  have "(of_nat i AND (2 ^ m - 1) :: u32) = of_nat i mod 2 ^ m"
    by (simp add: mask_eq_exp_minus_1 [symmetric] take_bit_eq_mask [symmetric] take_bit_eq_mod)
  then have idx: "unat (of_nat i AND (2 ^ m - 1) :: u32) = i mod 2 ^ m"
    using i pw by (simp add: unat_mod_distrib)
  have "ucast ((ucast base + drop_bit m (of_nat i :: u32)) AND 0x1F) = (of_nat ((unat base + i div 2 ^ m) mod 32) :: RegId)"
  proof -
    have and31: "w AND 0x1F = w mod 32" for w :: u32
      using take_bit_eq_mask [of 5 w] by (simp add: mask_eq_exp_minus_1 take_bit_eq_mod)
    have "unat (ucast base + drop_bit m (of_nat i :: u32)) mod 32 = (unat base + i div 2 ^ m) mod 32"
      using off unsigned_less [of base, where 'a = nat]
      by (simp add: unat_word_ariths unsigned_ucast_eq take_bit_eq_mod mod_mod_cancel)
    then show ?thesis
      unfolding and31 by (simp add: word_eq_iff_unsigned [where 'a = nat] unsigned_ucast_eq take_bit_eq_mod unat_mod_distrib
          unat_of_nat)
  qed
  then show ?thesis
    using m idx by (simp add: group_slot_def e32 countr_zero_power e Let_def)
qed


text \<open>The bytes of an element, as pairs of a register and an offset.\<close>

definition slot_bytes :: "RegisterFile \<Rightarrow> nat \<Rightarrow> RegId \<Rightarrow> nat \<Rightarrow>
    (RegId \<times> nat) set" where
  "slot_bytes rf sz base i =
     (let (r, e) = group_slot rf sz base i in {(r, e * sz + k) |k. k < sz})"

definition mask_byte :: "nat \<Rightarrow> RegId \<times> nat" where
  "mask_byte i = (0, i div 8)"

definition same_bytes :: "(RegId \<times> nat) set \<Rightarrow> RegisterFile \<Rightarrow> RegisterFile \<Rightarrow> bool"
    where
  "same_bytes B rf rf' \<longleftrightarrow> (\<forall>(r, b) \<in> B. vreg rf' r b = vreg rf r b)"

lemma group_slot_vlen: "vlen rf' = vlen rf \<Longrightarrow> group_slot rf' sz base i = group_slot rf sz base i"
  by (simp add: group_slot_def vlen_bytes_def)

lemma slot_bytes_vlen: "vlen rf' = vlen rf \<Longrightarrow> slot_bytes rf' sz base i = slot_bytes rf sz base i"
  using group_slot_vlen [of rf' rf sz base i] by (simp add: slot_bytes_def)

lemma get_group_element_cong:
  assumes "vlen rf' = vlen rf" "same_bytes (slot_bytes rf (elem_bytes TYPE('a)) base i) rf rf'"
  shows "(get_group_element rf' base i :: 'a::len word) = get_group_element rf base i"
proof -
  obtain r e where s: "group_slot rf (elem_bytes TYPE('a)) base i = (r, e)" by fastforce
  have "vreg rf' r (e * elem_bytes TYPE('a) + k) = vreg rf r (e * elem_bytes TYPE('a) + k)" if "k < elem_bytes TYPE('a)" for
      k
  proof -
    have "(r, e * elem_bytes TYPE('a) + k) \<in> slot_bytes rf (elem_bytes TYPE('a)) base i"
      using that s by (auto simp: slot_bytes_def)
    then show ?thesis using assms(2) by (auto simp: same_bytes_def)
  qed
  then have "host_bytes (read_vector rf' r) (e * elem_bytes TYPE('a)) (elem_bytes TYPE('a)) =
      host_bytes (read_vector rf r) (e * elem_bytes TYPE('a)) (elem_bytes TYPE('a))"
    by (simp add: host_bytes_def read_vector_def)
  then show ?thesis using s group_slot_vlen [OF assms(1)] by (simp add: get_group_element_def Let_def)
qed

text \<open>Reading back an element, and what writing it leaves alone.\<close>

lemma get_set_group_element:
  assumes "8 * elem_bytes TYPE('a) = LENGTH('a)"
  shows "get_group_element (set_group_element rf base i v) base i = (v :: 'a::len word)"
proof -
  obtain r e where s: "group_slot rf (elem_bytes TYPE('a)) base i = (r, e)" by fastforce
  have "group_slot (set_group_element rf base i v) (elem_bytes TYPE('a)) base i = (r, e)"
    using s by (subst group_slot_vlen [of _ rf]) (simp_all add: set_group_element_def write_vector_def Let_def)
  then show ?thesis
    using s assms host_bytes_write_same [of "vreg rf r" "e * elem_bytes TYPE('a)" "le_bytes (elem_bytes TYPE('a)) v"]
    by (simp add: get_group_element_def set_group_element_def write_vector_def read_vector_def Let_def le_word_le_bytes
        take_bit_word_eq_self)
qed

lemma set_group_element_other:
  "(r, b) \<notin> slot_bytes rf (elem_bytes TYPE('a)) base i \<Longrightarrow>
     vreg (set_group_element rf base i (v :: 'a::len word)) r b = vreg rf r b"
proof -
  assume out: "(r, b) \<notin> slot_bytes rf (elem_bytes TYPE('a)) base i"
  obtain r' e where s: "group_slot rf (elem_bytes TYPE('a)) base i = (r', e)" by fastforce
  have "\<not> (r = r' \<and> e * elem_bytes TYPE('a) \<le> b \<and> b < e * elem_bytes TYPE('a) + elem_bytes TYPE('a))"
    using out s by (auto simp: slot_bytes_def dest: le_Suc_ex)
  then show ?thesis
    by (auto simp: set_group_element_def s Let_def write_vector_def read_vector_def write_bytes_def)
qed

lemma set_group_element_fields [simp]:
  "vlen (set_group_element rf base i v) = vlen rf" "xlen (set_group_element rf base i v) = xlen rf"
  "reg (set_group_element rf base i v) = reg rf" "freg (set_group_element rf base i v) = freg rf"
  by (simp_all add: set_group_element_def write_vector_def Let_def case_prod_beta)

lemma element_step_fields [simp]:
  "vlen (element_step vm d f i rf) = vlen rf" "xlen (element_step vm d f i rf) = xlen rf"
  "reg (element_step vm d f i rf) = reg rf" "freg (element_step vm d f i rf) = freg rf"
  by (simp_all add: element_step_def)

lemma fold_element_step_fields [simp]:
  "vlen (fold (element_step vm d f) is rf) = vlen rf" "xlen (fold (element_step vm d f) is rf) = xlen rf"
  "reg (fold (element_step vm d f) is rf) = reg rf" "freg (fold (element_step vm d f) is rf) = freg rf"
  by (induction "is" arbitrary: rf) simp_all

subsection \<open>Element loops\<close>

text \<open>No iteration writes a byte that a later one reads or writes.\<close>

definition no_overlap ::
    "(RegisterFile \<Rightarrow> nat \<Rightarrow> (RegId \<times> nat) set) \<Rightarrow> nat \<Rightarrow> RegisterFile
        \<Rightarrow> bool \<Rightarrow> RegId \<Rightarrow> nat list \<Rightarrow> bool" where
  "no_overlap reads sz rf vm d is \<longleftrightarrow>
     sorted_wrt (\<lambda>i j. slot_bytes rf sz d i \<inter>
       (reads rf j \<union> slot_bytes rf sz d j \<union> (if vm then {} else {mask_byte j})) = {}) is"

text \<open>A function of the elements: its value at \<open>i\<close> depends on the length of the registers and on the bytes
  \<open>reads\<close> names, which depend on the length only.\<close>

locale element_reads =
  fixes f :: "RegisterFile \<Rightarrow> nat \<Rightarrow> 'v"
    and reads :: "RegisterFile \<Rightarrow> nat \<Rightarrow> (RegId \<times> nat) set"
  assumes reads_only: "vlen rf' = vlen rf \<Longrightarrow> same_bytes (reads rf i) rf rf' \<Longrightarrow> f rf' i = f rf
      i"
    and reads_layout: "vlen rf' = vlen rf \<Longrightarrow> reads rf' i = reads rf i"

text \<open>Its use as the value of an element, and as a bit of a mask.\<close>

locale element_function = element_reads f reads
  for f :: "RegisterFile \<Rightarrow> nat \<Rightarrow> 'a::len word" and reads
begin

lemma element_loop_pointwise:
  assumes "8 * elem_bytes TYPE('a) = LENGTH('a)" "no_overlap reads (elem_bytes TYPE('a)) rf vm d is"
  defines "rf' \<equiv> fold (element_step vm d f) is rf"
    and "act \<equiv> \<lambda>i. is_element_active (read_vector rf 0) i vm"
  shows "(\<forall>i\<in>set is. act i \<longrightarrow> get_group_element rf' d i = f rf i) \<and>
    (\<forall>r b. (\<forall>i\<in>set is. act i \<longrightarrow> (r, b) \<notin> slot_bytes rf (elem_bytes TYPE('a)) d i)
        \<longrightarrow> vreg rf' r b = vreg rf r b)"
  using assms(2) unfolding rf'_def act_def
proof (induction "is" arbitrary: rf)
  case Nil
  then show ?case by simp
next
  case (Cons i js)
  let ?sz = "elem_bytes TYPE('a)"
  define rf1 where "rf1 = element_step vm d f i rf"
  have vl [simp]: "vlen rf1 = vlen rf" by (simp add: rf1_def)
  have slot: "slot_bytes rf1 ?sz d j = slot_bytes rf ?sz d j" for j by (rule slot_bytes_vlen) simp
  have out: "vreg rf1 r b = vreg rf r b" if "(r, b) \<notin> slot_bytes rf ?sz d i" for r b
    using that by (simp add: rf1_def element_step_def set_group_element_other)
  have dis: "slot_bytes rf ?sz d i \<inter> (reads rf j \<union> slot_bytes rf ?sz d j \<union>
      (if vm then {} else {mask_byte j})) = {}"
    if "j \<in> set js" for j
    using Cons.prems that by (simp add: no_overlap_def)
  have f1: "f rf1 j = f rf j" if "j \<in> set js" for j
    using dis [OF that] by (intro reads_only) (auto simp: same_bytes_def intro!: out)
  have act1: "is_element_active (read_vector rf1 0) j vm = is_element_active (read_vector rf 0) j vm" if "j \<in> set js"
      for j
  proof (cases vm)
    case False
    then have "vreg rf1 0 (j div 8) = vreg rf 0 (j div 8)" using dis [OF that] by (intro out) (auto simp: mask_byte_def)
    then show ?thesis by (simp add: is_element_active_def read_vector_def)
  qed (simp add: is_element_active_def)
  have "no_overlap reads ?sz rf1 vm d js"
    using Cons.prems by (simp add: no_overlap_def slot reads_layout [OF vl])
  note IH = Cons.IH [OF this]
  have own: "get_group_element (fold (element_step vm d f) js rf1) d i = f rf i" if "is_element_active (read_vector rf 0) i
      vm"
  proof -
    have "same_bytes (slot_bytes rf1 ?sz d i) rf1 (fold (element_step vm d f) js rf1)"
      unfolding same_bytes_def slot
    proof (intro ballI prod.case [THEN iffD2] case_prodI2)
      fix p r b
      assume "p \<in> slot_bytes rf ?sz d i" "p = (r, b)"
      then have "\<forall>j\<in>set js. (r, b) \<notin> slot_bytes rf ?sz d j" using dis by blast
      then show "vreg (fold (element_step vm d f) js rf1) r b = vreg rf1 r b" using IH slot by simp
    qed
    then have "(get_group_element (fold (element_step vm d f) js rf1) d i :: 'a word) = get_group_element rf1 d i"
      by (intro get_group_element_cong) simp_all
    then show ?thesis using that assms(1) by (simp add: rf1_def element_step_def get_set_group_element)
  qed
  have rest: "vreg (fold (element_step vm d f) js rf1) r b = vreg rf r b"
    if "\<forall>j\<in>set (i # js). is_element_active (read_vector rf 0) j vm \<longrightarrow> (r, b) \<notin> slot_bytes
        rf ?sz d j" for r b
  proof -
    have "vreg (fold (element_step vm d f) js rf1) r b = vreg rf1 r b"
      using IH that act1 by (auto simp: slot)
    also have "\<dots> = vreg rf r b"
      using that by (auto simp: rf1_def element_step_def set_group_element_other)
    finally show ?thesis .
  qed
  show ?case using IH own rest act1 f1 by (auto simp: rf1_def [symmetric])
qed

end


lemma get_mask_bit_bit: "get_mask_bit v i \<longleftrightarrow> bit (v (i div 8)) (i mod 8)"
  by (simp add: get_mask_bit_def del: push_bit_of_1)

lemma get_set_mask_bit:
  "get_mask_bit (set_mask_bit v i b) j \<longleftrightarrow> (if j = i then b else get_mask_bit v j)"
proof -
  have "j = i" if "j div 8 = i div 8" "j mod 8 = i mod 8" using that by (metis mult_div_mod_eq)
  then show ?thesis
    by (auto simp: get_mask_bit_bit set_mask_bit_def Let_def bit_simps)
qed

locale mask_function = element_reads f reads
  for f :: "RegisterFile \<Rightarrow> nat \<Rightarrow> bool" and reads
begin

lemma mask_loop_pointwise:
  assumes "distinct is" "\<forall>i\<in>set is. d \<notin> fst ` reads rf i" "vm \<or> d \<noteq> 0"
  defines "rf' \<equiv> fold (mask_step vm d f) is rf"
    and "act \<equiv> \<lambda>i. is_element_active (read_vector rf 0) i vm"
  shows "(\<forall>i. get_mask_bit (vreg rf' d) i = (if i \<in> set is \<and> act i then f rf i else get_mask_bit
      (vreg rf d) i)) \<and>
    (\<forall>r. r \<noteq> d \<longrightarrow> vreg rf' r = vreg rf r)"
  using assms(1-3) unfolding rf'_def act_def
proof (induction "is" arbitrary: rf)
  case Nil
  then show ?case by simp
next
  case (Cons i js)
  define rf1 where "rf1 = mask_step vm d f i rf"
  have vl [simp]: "vlen rf1 = vlen rf" and out: "\<And>r. r \<noteq> d \<Longrightarrow> vreg rf1 r = vreg rf r"
    by (simp_all add: rf1_def mask_step_def write_vector_def)
  have f1: "f rf1 j = f rf j" if "j \<in> set js" for j
  proof (rule reads_only)
    show "same_bytes (reads rf j) rf rf1"
      unfolding same_bytes_def
    proof (intro ballI case_prodI2)
      fix p r b
      assume "p \<in> reads rf j" "p = (r, b)"
      then have "r \<noteq> d" using Cons.prems(2) that by force
      then show "vreg rf1 r b = vreg rf r b" by (simp add: out)
    qed
  qed simp
  have act1: "is_element_active (read_vector rf1 0) j vm = is_element_active (read_vector rf 0) j vm" for j
    using Cons.prems(3) out [of 0] by (auto simp: is_element_active_def read_vector_def)
  have bits1: "get_mask_bit (vreg rf1 d) k =
      (if k = i \<and> is_element_active (read_vector rf 0) i vm then f rf i else get_mask_bit (vreg rf d) k)" for k
    by (simp add: rf1_def mask_step_def write_vector_def read_vector_def get_set_mask_bit)
  have "\<forall>j\<in>set js. d \<notin> fst ` reads rf1 j" using Cons.prems(2) reads_layout [OF vl] by simp
  note IH = Cons.IH [OF _ this Cons.prems(3)]
  have js: "distinct js" "i \<notin> set js" using Cons.prems(1) by simp_all
  show ?case
    using IH [OF js(1)] js(2) out f1 act1 bits1 by (auto simp: rf1_def [symmetric])
qed

end

subsection \<open>Register groups that do not meet\<close>

definition groups_apart :: "RegisterFile \<Rightarrow> nat \<Rightarrow> RegId \<Rightarrow> nat \<Rightarrow> RegId
    \<Rightarrow> nat \<Rightarrow> bool" where
  "groups_apart rf sz s sz' d n \<longleftrightarrow> (\<forall>i<n. \<forall>j<n. fst (group_slot rf sz s i) \<noteq> fst
      (group_slot rf sz' d j))"

text \<open>The overlaps a source may have with the destination: the same group of the same element width, or no
  register in common; and the mask is not in the destination of a masked operation.\<close>

definition source_ok :: "RegisterFile \<Rightarrow> nat \<Rightarrow> RegId \<Rightarrow> nat \<Rightarrow> RegId
    \<Rightarrow> nat \<Rightarrow> bool" where
  "source_ok rf sz' s sz d n \<longleftrightarrow> sz' = sz \<and> s = d \<or> groups_apart rf sz' s sz d n"

definition mask_ok :: "RegisterFile \<Rightarrow> nat \<Rightarrow> bool \<Rightarrow> RegId \<Rightarrow> nat \<Rightarrow>
    bool" where
  "mask_ok rf sz vm d n \<longleftrightarrow> vm \<or> (\<forall>j<n. fst (group_slot rf sz d j) \<noteq> 0)"

lemma slot_bytes_fst: "p \<in> slot_bytes rf sz base i \<Longrightarrow> fst p = fst (group_slot rf sz base i)"
  by (auto simp: slot_bytes_def split: prod.splits)

lemma slot_bytes_apart:
  assumes "groups_apart rf sz s sz' d n" "i < n" "j < n"
  shows "slot_bytes rf sz s i \<inter> slot_bytes rf sz' d j = {}"
  using assms slot_bytes_fst [of _ rf sz s i] slot_bytes_fst [of _ rf sz' d j] unfolding groups_apart_def by fastforce

lemma mod_add_cancel_nat:
  fixes a b c :: nat
  assumes "(a + b) mod k = (a + c) mod k" "b < k" "c < k"
  shows "b = c"
proof -
  have "(int a + int b) mod int k = (int a + int c) mod int k" using assms(1) by (metis of_nat_add of_nat_mod)
  then have "int b mod int k = int c mod int k"
    using mod_diff_cong [of "int a + int b" "int k" "int a + int c" "int a" "int a"] by simp
  then show ?thesis using assms(2,3) by (metis mod_less of_nat_eq_iff of_nat_mod)
qed

lemma slot_bytes_disjoint:
  assumes ok: "vlen_ok rf" "sz \<in> {1, 2, 4, 8}" and n: "n \<le> 32 * elems rf sz" "n < 2 ^ 32"
    and ij: "i < n" "j < n" "i \<noteq> j"
  shows "slot_bytes rf sz d i \<inter> slot_bytes rf sz d j = {}"
proof -
  let ?E = "elems rf sz"
  have E: "0 < ?E" using elems_power [OF ok] by (metis power_eq_0_iff zero_neq_numeral neq0_conv)
  have "i div ?E < 32" "j div ?E < 32"
    using n ij E by (simp_all add: less_mult_imp_div_less mult.commute)
  then have reg: "i div ?E = j div ?E" if "(unat d + i div ?E) mod 32 = (unat d + j div ?E) mod 32"
    using that by (metis mod_add_cancel_nat)
  have slot: "slot_bytes rf sz d k = {(of_nat ((unat d + k div ?E) mod 32), k mod ?E * sz + m) |m. m < sz}" if "k < n" for k
    using group_slot_nat [OF ok, of k d] that n by (simp add: slot_bytes_def)
  have sz: "0 < sz" using ok(2) by auto
  show ?thesis
  proof (rule ccontr)
    assume "slot_bytes rf sz d i \<inter> slot_bytes rf sz d j \<noteq> {}"
    then obtain m m' where m: "m < sz" "m' < sz"
      and r: "(of_nat ((unat d + i div ?E) mod 32) :: RegId) = of_nat ((unat d + j div ?E) mod 32)"
      and b: "i mod ?E * sz + m = j mod ?E * sz + m'"
      using slot [OF ij(1)] slot [OF ij(2)] by auto
    have "(unat d + i div ?E) mod 32 = (unat d + j div ?E) mod 32"
      using arg_cong [OF r, of unat] by (simp add: unat_of_nat)
    moreover have "i mod ?E = j mod ?E"
      using arg_cong [OF b, of "\<lambda>x. x div sz"] m sz by simp
    ultimately show False using reg ij(3) by (metis div_mult_mod_eq)
  qed
qed

lemma no_overlap_groups:
  assumes "vlen_ok rf" "sz \<in> {1, 2, 4, 8}" "n \<le> 32 * elems rf sz" "n < 2 ^ 32" "mask_ok rf sz vm d n"
    and "\<And>j. j < n \<Longrightarrow> reads rf j \<subseteq> (\<Union>(sz', s)\<in>S. slot_bytes rf sz' s j)"
    and "\<And>sz' s. (sz', s) \<in> S \<Longrightarrow> source_ok rf sz' s sz d n"
  shows "no_overlap reads sz rf vm d [lo..<n]"
  unfolding no_overlap_def
proof (rule sorted_wrt_mono_rel [where P = "(<)"])
  fix i j
  assume "i \<in> set [lo..<n]" "j \<in> set [lo..<n]" "i < j"
  then have ij: "i < n" "j < n" "i \<noteq> j" by auto
  have own: "slot_bytes rf sz d i \<inter> slot_bytes rf sz d j = {}"
    using slot_bytes_disjoint [OF assms(1-4) ij] .
  have src: "slot_bytes rf sz d i \<inter> slot_bytes rf sz' s j = {}" if "(sz', s) \<in> S" for sz' s
    using assms(7) [OF that] own slot_bytes_apart [of rf sz' s sz d n j i] ij by (auto simp: source_ok_def)
  have all_src: "slot_bytes rf sz d i \<inter> (\<Union>(sz', s)\<in>S. slot_bytes rf sz' s j) = {}" using src by blast
  have "mask_byte j \<notin> slot_bytes rf sz d i" if "\<not> vm"
    using assms(5) that ij(1) slot_bytes_fst [of "mask_byte j" rf sz d i] by (auto simp: mask_ok_def mask_byte_def)
  then show "slot_bytes rf sz d i \<inter> (reads rf j \<union> slot_bytes rf sz d j \<union>
      (if vm then {} else {mask_byte j})) = {}"
    using assms(6) [OF ij(2)] own all_src by auto
qed simp

text \<open>What an element loop should do: every active element from \<open>lo\<close> to \<open>n\<close> of the
    destination becomes
  \<open>g i\<close>, and no other byte of the registers changes.\<close>

definition computes_elements ::
    "RegisterFile \<Rightarrow> bool \<Rightarrow> RegId \<Rightarrow> nat \<Rightarrow> nat \<Rightarrow>
        (nat \<Rightarrow> 'a::len word) \<Rightarrow> RegisterFile \<Rightarrow> bool" where
  "computes_elements rf vm d lo n g rf' \<longleftrightarrow>
     (\<forall>i. lo \<le> i \<and> i < n \<and> is_element_active (read_vector rf 0) i vm \<longrightarrow>
         get_group_element rf' d i = g i) \<and>
     (\<forall>r b. (\<forall>i. lo \<le> i \<and> i < n \<and> is_element_active (read_vector rf 0) i vm \<longrightarrow>
                (r, b) \<notin> slot_bytes rf (elem_bytes TYPE('a)) d i) \<longrightarrow> vreg rf' r b = vreg rf r b) \<and>
     reg rf' = reg rf \<and> freg rf' = freg rf \<and> xlen rf' = xlen rf \<and> vlen rf' = vlen rf"

text \<open>The element widths, and the groups a loop may touch.\<close>

definition loop_ok :: "'a::len itself \<Rightarrow> ArchState \<Rightarrow> bool \<Rightarrow> RegId \<Rightarrow> u32
    \<Rightarrow> bool" where
  "loop_ok t s vm d l \<longleftrightarrow>
     LENGTH('a) \<in> {8, 16, 32, 64} \<and> vlen_ok (regs s) \<and> unat l \<le> 32 * elems (regs s) (elem_bytes TYPE('a))
         \<and>
     mask_ok (regs s) (elem_bytes TYPE('a)) vm d (unat l)"

lemma elem_bytes_cases:
  "LENGTH('a::len) \<in> {8, 16, 32, 64} \<Longrightarrow> elem_bytes TYPE('a) \<in> {1, 2, 4, 8} \<and> 8 * elem_bytes
      TYPE('a) = LENGTH('a)"
  by (auto simp: elem_bytes_def)

context element_function
begin

lemma element_loop_computes:
  assumes "loop_ok TYPE('a) s vm d l" "no_overlap reads (elem_bytes TYPE('a)) (regs s) vm d (vector_elements s l)"
  shows "\<exists>rf'. element_loop vm d f l s = s\<lparr>regs := rf'\<rparr> \<and>
    computes_elements (regs s) vm d (unat (ucast (vstart s) :: u32)) (unat l) (f (regs s)) rf'"
proof (intro exI conjI)
  let ?rf' = "fold (element_step vm d f) (vector_elements s l) (regs s)"
  show "element_loop vm d f l s = s\<lparr>regs := ?rf'\<rparr>" by (simp add: element_loop_def)
  have "8 * elem_bytes TYPE('a) = LENGTH('a)" using assms(1) elem_bytes_cases by (auto simp: loop_ok_def)
  then show "computes_elements (regs s) vm d (unat (ucast (vstart s) :: u32)) (unat l) (f (regs s)) ?rf'"
    using element_loop_pointwise [OF _ assms(2)] by (auto simp: computes_elements_def vector_elements_def)
qed

lemma element_loop_computes_groups:
  assumes "loop_ok TYPE('a) s vm d l"
    and "\<And>rf j. reads rf j \<subseteq> (\<Union>(sz, r)\<in>S. slot_bytes rf sz r j)"
    and "\<And>sz r. (sz, r) \<in> S \<Longrightarrow> source_ok (regs s) sz r (elem_bytes TYPE('a)) d (unat l)"
  shows "\<exists>rf'. element_loop vm d f l s = s\<lparr>regs := rf'\<rparr> \<and>
    computes_elements (regs s) vm d (unat (ucast (vstart s) :: u32)) (unat l) (f (regs s)) rf'"
proof (rule element_loop_computes [OF assms(1)])
  have "unat l < 2 ^ 32" using unsigned_less [of l, where 'a = nat] by simp
  then show "no_overlap reads (elem_bytes TYPE('a)) (regs s) vm d (vector_elements s l)"
    using assms elem_bytes_cases [where 'a = 'a] unfolding vector_elements_def loop_ok_def
    by (intro no_overlap_groups [where S = S]) auto
qed

end

text \<open>The sources of an operation, as groups of a width.\<close>

definition reads_groups :: "(nat \<times> RegId) set \<Rightarrow> RegisterFile \<Rightarrow> nat \<Rightarrow>
    (RegId \<times> nat) set" where
  "reads_groups S rf i = (\<Union>(sz, r)\<in>S. slot_bytes rf sz r i)"

lemma reads_groups_vlen: "vlen rf' = vlen rf \<Longrightarrow> reads_groups S rf' i = reads_groups S rf i"
proof -
  assume "vlen rf' = vlen rf"
  from slot_bytes_vlen [OF this] show ?thesis by (simp add: reads_groups_def)
qed

lemma get_group_element_reads:
  assumes "vlen rf' = vlen rf" "same_bytes (reads_groups S rf i) rf rf'" "(elem_bytes TYPE('a), r) \<in> S"
  shows "(get_group_element rf' r i :: 'a::len word) = get_group_element rf r i"
  using assms by (intro get_group_element_cong) (auto simp: same_bytes_def reads_groups_def)

text \<open>The element functions of the operand forms: two vectors, a vector and a scalar, and two vectors with
  the destination.\<close>

interpretation vv: element_function "\<lambda>rf i. g (get_group_element rf s2 i) (get_group_element rf s1 i)"
    "reads_groups {(elem_bytes TYPE('b), s2), (elem_bytes TYPE('c), s1)}"
  for g :: "'b::len word \<Rightarrow> 'c::len word \<Rightarrow> 'a::len word" and s1 s2
proof (standard, goal_cases)
  case (1 rf' rf i)
  then show ?case by (metis get_group_element_reads insertI1 insertI2)
next
  case (2 rf' rf i)
  show ?case by (rule reads_groups_vlen [OF 2])
qed

interpretation vx: element_function "\<lambda>rf i. g (get_group_element rf s2 i)" "reads_groups {(elem_bytes TYPE('b), s2)}"
  for g :: "'b::len word \<Rightarrow> 'a::len word" and s2
proof (standard, goal_cases)
  case (1 rf' rf i)
  then show ?case by (metis get_group_element_reads insertI1)
next
  case (2 rf' rf i)
  show ?case by (rule reads_groups_vlen [OF 2])
qed

interpretation vvd: element_function
    "\<lambda>rf i. g (get_group_element rf s2 i) (get_group_element rf s1 i) (get_group_element rf d i)"
    "reads_groups {(elem_bytes TYPE('b), s2), (elem_bytes TYPE('c), s1), (elem_bytes TYPE('a), d)}"
  for g :: "'b::len word \<Rightarrow> 'c::len word \<Rightarrow> 'a::len word \<Rightarrow> 'a word" and s1 s2 d
proof (standard, goal_cases)
  case (1 rf' rf i)
  then show ?case by (metis get_group_element_reads insertI1 insertI2)
next
  case (2 rf' rf i)
  show ?case by (rule reads_groups_vlen [OF 2])
qed

text \<open>Comparisons write one mask bit per element.\<close>

interpretation cmp: mask_function "\<lambda>rf i. g (get_group_element rf s2 i) (get_group_element rf s1 i)"
    "reads_groups {(elem_bytes TYPE('b), s2), (elem_bytes TYPE('c), s1)}"
  for g :: "'b::len word \<Rightarrow> 'c::len word \<Rightarrow> bool" and s1 s2
proof (standard, goal_cases)
  case (1 rf' rf i)
  then show ?case by (metis get_group_element_reads insertI1 insertI2)
next
  case (2 rf' rf i)
  show ?case by (rule reads_groups_vlen [OF 2])
qed

text \<open>(C11) Vector arithmetic is element-wise, in its three operand forms: when the sources are the
  destination itself or share no register with it, and the mask is not overwritten, every active element
  from \<open>vstart\<close> to \<open>vl\<close> of the destination is the operation on the elements as they were before the
  instruction, and every other byte of the vector registers, the tail, the masked-off and the earlier
  elements included, keeps its value.\<close>

theorem vector_operations_elementwise:
  fixes f :: "'a::len word \<Rightarrow> 'a word \<Rightarrow> 'a word"
  assumes "loop_ok TYPE('a) s vm d l"
    and "source_ok (regs s) (elem_bytes TYPE('a)) s2 (elem_bytes TYPE('a)) d (unat l)"
    and "source_ok (regs s) (elem_bytes TYPE('a)) s1 (elem_bytes TYPE('a)) d (unat l)"
  shows "(\<exists>rf'. perform_vv f d s1 s2 vm l s = s\<lparr>regs := rf'\<rparr> \<and>
        computes_elements (regs s) vm d (unat (ucast (vstart s) :: u32)) (unat l)
          (\<lambda>i. f (get_group_element (regs s) s2 i) (get_group_element (regs s) s1 i)) rf') \<and>
      (\<exists>rf'. perform_vx f d x s2 vm l s = s\<lparr>regs := rf'\<rparr> \<and>
        computes_elements (regs s) vm d (unat (ucast (vstart s) :: u32)) (unat l)
          (\<lambda>i. f (get_group_element (regs s) s2 i) (ucast x)) rf') \<and>
      (\<exists>rf'. perform_vi f d simm s2 vm l s = s\<lparr>regs := rf'\<rparr> \<and>
        computes_elements (regs s) vm d (unat (ucast (vstart s) :: u32)) (unat l)
          (\<lambda>i. f (get_group_element (regs s) s2 i) (scast simm)) rf')"
proof (intro conjI)
  show "\<exists>rf'. perform_vv f d s1 s2 vm l s = s\<lparr>regs := rf'\<rparr> \<and>
        computes_elements (regs s) vm d (unat (ucast (vstart s) :: u32)) (unat l)
          (\<lambda>i. f (get_group_element (regs s) s2 i) (get_group_element (regs s) s1 i)) rf'"
    unfolding perform_vv_def
    by (rule vv.element_loop_computes_groups [OF assms(1) reads_groups_def [THEN equalityD1]]) (use assms in auto)
next
  show "\<exists>rf'. perform_vx f d x s2 vm l s = s\<lparr>regs := rf'\<rparr> \<and>
        computes_elements (regs s) vm d (unat (ucast (vstart s) :: u32)) (unat l)
          (\<lambda>i. f (get_group_element (regs s) s2 i) (ucast x)) rf'"
    unfolding perform_vx_def Let_def
    by (rule vx.element_loop_computes_groups [OF assms(1) reads_groups_def [THEN equalityD1], where g = "\<lambda>v. f v
        (ucast x)"])
      (use assms in auto)
next
  show "\<exists>rf'. perform_vi f d simm s2 vm l s = s\<lparr>regs := rf'\<rparr> \<and>
        computes_elements (regs s) vm d (unat (ucast (vstart s) :: u32)) (unat l)
          (\<lambda>i. f (get_group_element (regs s) s2 i) (scast simm)) rf'"
    unfolding perform_vi_def Let_def
    by (rule vx.element_loop_computes_groups [OF assms(1) reads_groups_def [THEN equalityD1], where g = "\<lambda>v. f v
        (scast simm)"])
      (use assms in auto)
qed

lemma sint_of_int_id: "- (2 ^ (LENGTH('a) - 1)) \<le> x \<Longrightarrow> x < 2 ^ (LENGTH('a) - 1) \<Longrightarrow> sint
    (word_of_int x :: 'a::len word) = x"
  by (simp add: signed_of_int signed_take_bit_int_eq_self)

lemma mask_loop_fields [simp]:
  "vlen (fold (mask_step vm d f) is rf) = vlen rf" "reg (fold (mask_step vm d f) is rf) = reg rf"
  "freg (fold (mask_step vm d f) is rf) = freg rf"
  by (induction "is" arbitrary: rf) (simp_all add: mask_step_def write_vector_def)

text \<open>Vector comparisons are element-wise: when the destination register is not among the source
  registers and a masked comparison does not write its own mask, bit \<open>i\<close> of the destination is the
  comparison of the elements \<open>i\<close> for every active element from \<open>vstart\<close> to \<open>vl\<close>, and
      every other bit
  of it and every other register keeps its value.\<close>

theorem vector_compare_bitwise:
  fixes f :: "'a::len word \<Rightarrow> 'a word \<Rightarrow> bool"
  assumes "vm \<or> d \<noteq> 0"
    and "\<forall>i<unat l. fst (group_slot (regs s) (elem_bytes TYPE('a)) s2 i) \<noteq> d \<and> fst
        (group_slot (regs s) (elem_bytes TYPE('a)) s1 i) \<noteq> d"
  shows "\<exists>rf'. perform_compare_vv f d s1 s2 vm l s = s\<lparr>regs := rf'\<rparr> \<and>
      (\<forall>i. get_mask_bit (vreg rf' d) i =
         (if unat (ucast (vstart s) :: u32) \<le> i \<and> i < unat l \<and> is_element_active (vreg (regs s) 0) i vm
          then f (get_group_element (regs s) s2 i) (get_group_element (regs s) s1 i)
          else get_mask_bit (vreg (regs s) d) i)) \<and>
      (\<forall>r. r \<noteq> d \<longrightarrow> vreg rf' r = vreg (regs s) r) \<and> reg rf' = reg (regs s) \<and> freg
          rf' = freg (regs s)"
proof (intro exI conjI)
  let ?f = "\<lambda>rf i. f (get_group_element rf s2 i) (get_group_element rf s1 i)"
  let ?is = "vector_elements s l"
  let ?rf' = "fold (mask_step vm d ?f) ?is (regs s)"
  show "perform_compare_vv f d s1 s2 vm l s = s\<lparr>regs := ?rf'\<rparr>" by
      (simp add: perform_compare_vv_def mask_loop_def)
  have "d \<notin> fst ` reads_groups {(elem_bytes TYPE('a), s2), (elem_bytes TYPE('a), s1)} (regs s) i" if "i \<in> set
      ?is" for i
    using assms(2) that slot_bytes_fst by (fastforce simp: reads_groups_def vector_elements_def)
  then have *: "(\<forall>i. get_mask_bit (vreg ?rf' d) i =
         (if i \<in> set ?is \<and> is_element_active (read_vector (regs s) 0) i vm then ?f (regs s) i else get_mask_bit
             (vreg (regs s) d) i)) \<and>
    (\<forall>r. r \<noteq> d \<longrightarrow> vreg ?rf' r = vreg (regs s) r)"
    using assms(1) by (intro cmp.mask_loop_pointwise) (simp_all add: vector_elements_def)
  show "\<forall>i. get_mask_bit (vreg ?rf' d) i =
         (if unat (ucast (vstart s) :: u32) \<le> i \<and> i < unat l \<and> is_element_active (vreg (regs s) 0) i vm
          then f (get_group_element (regs s) s2 i) (get_group_element (regs s) s1 i)
          else get_mask_bit (vreg (regs s) d) i)"
    using * by (simp add: vector_elements_def read_vector_def)
  show "\<forall>r. r \<noteq> d \<longrightarrow> vreg ?rf' r = vreg (regs s) r" using * by blast
qed simp_all

text \<open>A sample state for the witnesses: registers of 256 bits whose bytes count up.\<close>

definition counting_state :: "ArchState \<Rightarrow> ArchState" where
  "counting_state s = s\<lparr>vstart := 0, regs := initial_RegisterFile\<lparr>vreg :=
      (\<lambda>r b. ucast r + of_nat b)\<rparr>\<rparr>"

lemma counting_vlen: "vlen_ok (regs (counting_state s))" "vlen_bytes (regs (counting_state s)) = 32"
  by (simp_all add: counting_state_def vlen_ok_def vlen_bytes_def initial_RegisterFile_def)

lemma counting_slot:
  "sz \<in> {1, 2, 4, 8} \<Longrightarrow> i < 4 \<Longrightarrow> group_slot (regs (counting_state s)) sz base i =
     (of_nat ((unat base + i div (32 div sz)) mod 32), i mod (32 div sz))"
  by (simp add: group_slot_nat [OF counting_vlen(1)] elems_def counting_vlen(2))

lemma counting_ok:
  "loop_ok TYPE(32) (counting_state s) True 8 4"
  "source_ok (regs (counting_state s)) (elem_bytes TYPE(32)) 24 (elem_bytes TYPE(32)) 8 (unat (4 :: u32))"
  "source_ok (regs (counting_state s)) (elem_bytes TYPE(32)) 16 (elem_bytes TYPE(32)) 8 (unat (4 :: u32))"
  using counting_vlen [of s]
  by (simp_all add: loop_ok_def mask_ok_def elems_def elem_bytes_def source_ok_def groups_apart_def counting_slot)

theorem vector_operations_elementwise_witness:
  "\<forall>s. \<exists>rf'. perform_vv ((+) :: u32 \<Rightarrow> _) 8 16 24 True 4 (counting_state s) = counting_state
      s\<lparr>regs := rf'\<rparr> \<and>
     get_group_element rf' 8 3 =
       (get_group_element (regs (counting_state s)) 24 3 + get_group_element (regs (counting_state s)) 16 3 :: u32)"
proof
  fix s
  let ?s = "counting_state s"
  obtain rf' where "perform_vv ((+) :: u32 \<Rightarrow> _) 8 16 24 True 4 ?s = ?s\<lparr>regs := rf'\<rparr>"
    and "computes_elements (regs ?s) True 8 (unat (ucast (vstart ?s) :: u32)) (unat (4 :: u32))
      (\<lambda>i. (get_group_element (regs ?s) 24 i + get_group_element (regs ?s) 16 i :: u32)) rf'"
    using vector_operations_elementwise [OF counting_ok, THEN conjunct1, of "(+)"] by blast
  moreover have "vstart ?s = 0" by (simp add: counting_state_def)
  ultimately show "\<exists>rf'. perform_vv ((+) :: u32 \<Rightarrow> _) 8 16 24 True 4 ?s = ?s\<lparr>regs := rf'\<rparr>
      \<and>
     get_group_element rf' 8 3 = (get_group_element (regs ?s) 24 3 + get_group_element (regs ?s) 16 3 :: u32)"
    by (auto simp: computes_elements_def is_element_active_def)
qed

theorem vector_compare_bitwise_witness:
  "\<forall>s. \<exists>rf'. perform_compare_vv ((<) :: u32 \<Rightarrow> _) 8 16 (24 :: RegId) True 4 (counting_state s) =
      counting_state s\<lparr>regs := rf'\<rparr> \<and>
     get_mask_bit (vreg rf' 8) 2 =
       ((get_group_element (regs (counting_state s)) 24 2 :: u32) < get_group_element (regs (counting_state s)) 16 2)"
proof
  fix s
  let ?s = "counting_state s"
  have sz: "elem_bytes TYPE(32) = 4" by (simp add: elem_bytes_def)
  have "\<forall>i<unat (4 :: u32). fst (group_slot (regs ?s) (elem_bytes TYPE(32)) 24 i) \<noteq> 8 \<and>
      fst (group_slot (regs ?s) (elem_bytes TYPE(32)) 16 i) \<noteq> 8"
    by (simp add: counting_slot sz)
  from vector_compare_bitwise [where s = ?s and vm = True and d = 8 and f = "(<)", OF _ this]
  show "\<exists>rf'. perform_compare_vv ((<) :: u32 \<Rightarrow> _) 8 16 (24 :: RegId) True 4 ?s = ?s\<lparr>regs :=
      rf'\<rparr> \<and>
     get_mask_bit (vreg rf' 8) 2 = ((get_group_element (regs ?s) 24 2 :: u32) < get_group_element (regs ?s) 16 2)"
    by (auto simp: counting_state_def is_element_active_def)
qed

subsection \<open>Configuration\<close>

lemma lmul_ratio_bounds: "fst (lmul_ratio f) \<le> 8 * snd (lmul_ratio f)" "0 < snd (lmul_ratio f)"
  by (simp_all add: lmul_ratio_def)

lemma vtype_vlmax_bound:
  assumes "vlen_ok rf" "unat (drop_bit 3 v AND 7) \<le> 3"
  shows "vtype_vlmax v (vlen rf) \<le> 8 * elems rf (2 ^ unat (drop_bit 3 v AND 7))"
proof -
  obtain n dn where r: "lmul_ratio (ucast (v AND 7)) = (n, dn)" by fastforce
  have b: "n \<le> 8 * dn" "0 < dn" using lmul_ratio_bounds [of "ucast (v AND 7)"] r by simp_all
  let ?k = "2 ^ unat (drop_bit 3 v AND 7) :: nat"
  have "vlen rf * n div (8 * ?k * dn) \<le> vlen rf * (8 * dn) div (8 * ?k * dn)"
    using b by (intro div_le_mono mult_le_mono2)
  also have "\<dots> = vlen rf div ?k" using b by simp
  also have "\<dots> = 8 * elems rf ?k"
  proof -
    have "?k \<in> {2 ^ 0, 2 ^ 1, 2 ^ 2, 2 ^ 3}" using assms(2) by (auto simp: le_Suc_eq numeral_3_eq_3)
    then show ?thesis using assms(1) by (auto simp: vlen_ok_def elems_def vlen_bytes_def)
  qed
  finally show ?thesis using r by (simp add: vtype_vlmax_def)
qed

lemma and_low_fields: "(v AND 0xFF) AND 7 = v AND (7 :: u64)" "drop_bit 3 (v AND 0xFF) AND 7 = drop_bit 3 v AND (7 :: u64)"
  by (simp_all add: and.assoc drop_bit_and)

lemma vlmax_word: "vlen_ok rf \<Longrightarrow> unat (drop_bit 3 v AND 7) \<le> 3 \<Longrightarrow> unat
    (of_nat (vtype_vlmax v (vlen rf)) :: u32) = vtype_vlmax v (vlen rf)"
proof -
  assume a: "vlen_ok rf" "unat (drop_bit 3 v AND 7) \<le> 3"
  have "vtype_vlmax v (vlen rf) \<le> 8 * elems rf (2 ^ unat (drop_bit 3 v AND 7))" by (rule vtype_vlmax_bound [OF a])
  also have "\<dots> \<le> 8 * vlen_bytes rf" unfolding elems_def by (intro mult_le_mono2 div_le_dividend)
  also have "\<dots> < 2 ^ 32" using a(1) by (auto simp: vlen_ok_def vlen_bytes_def)
  finally show ?thesis by (simp add: unat_of_nat)
qed

text \<open>(C39) The configuration instructions establish what the vector loops rely on: \<open>vstart\<close> is zero and
  either the requested type is illegal, \<open>vill\<close> is set and \<open>vl\<close> is zero, or the element width is at
      most
  64 bits, \<open>vl\<close> is at most VLMAX of the new type and its elements fit in eight registers. The destination
  register receives \<open>vl\<close>.\<close>

theorem vector_config_fits:
  fixes op :: OperationId and i :: Instruction and d s1 s2 :: RegId
  assumes "vlen_ok (regs s)"
  defines "s' \<equiv> execute_vector_config op i d s1 s2 s"
  defines "k \<equiv> unat (drop_bit 3 (vtype s') AND 7)"
  shows "vstart s' = 0 \<and>
    (vtype s' = push_bit (xlen (regs s) - 1) 1 \<and> vl s' = 0 \<or>
     k \<le> 3 \<and> unat (vl s') \<le> vtype_vlmax (vtype s') (vlen (regs s)) \<and> unat (vl s') \<le> 8 * elems
         (regs s') (2 ^ k)) \<and>
    regs s' = write_reg (regs s) d (vl s')"
proof -
  define v where "v = (if op = VSETVLI then ucast (drop_bit 20 i AND 0x7FF)
               else if op = VSETIVLI then ucast (drop_bit 20 i AND 0x3FF) else read_reg (regs s) s2)"
  let ?max = "of_nat (vtype_vlmax v (vlen (regs s))) :: u32"
  define n where "n = (if vtype_illegal v (xlen (regs s)) then 0
             else if op = VSETIVLI then min (ucast (drop_bit 15 i AND 0x1F)) ?max
             else if s1 = 0 then (if d = 0 then min (ucast (vl s)) ?max else ?max)
             else min (ucast (read_reg (regs s) s1)) ?max)"
  have s': "s' = s\<lparr>vl := ucast n, vtype := (if vtype_illegal v (xlen (regs s)) then push_bit (xlen (regs s) - 1) 1
      else v AND 0xFF),
      vstart := 0, regs := write_reg (regs s) d (ucast n), mstatus := mstatus s OR Mstatus_Vs\<rparr>"
    unfolding s'_def execute_vector_config_def v_def [symmetric] Let_def n_def by (rule refl)
  have n: "if vtype_illegal v (xlen (regs s)) then n = 0 else n \<le> ?max" by (simp add: n_def)
  have vlen: "vlen (write_reg (regs s) d x) = vlen (regs s)" for x by (simp add: write_reg_def Let_def)
  show ?thesis
  proof (cases "vtype_illegal v (xlen (regs s))")
    case True
    then show ?thesis using n s' by simp
  next
    case False
    have "ucast (drop_bit 3 v AND 7) \<le> (3 :: u32)" using False by
        (simp add: vtype_illegal_def Let_def not_less case_prod_beta)
    moreover have "unat (drop_bit 3 v AND 7) \<le> 7" using word_and_le1 [of "drop_bit 3 v" 7] by (simp add: word_le_nat_alt)
    ultimately have k3: "unat (drop_bit 3 v AND 7) \<le> 3"
      by (simp add: word_le_nat_alt unsigned_ucast_eq take_bit_nat_eq_self)
    have "unat (ucast n :: u64) \<le> vtype_vlmax v (vlen (regs s))"
      using n False vlmax_word [OF assms(1) k3]
      by (simp add: word_le_nat_alt unsigned_ucast_eq order_trans [OF take_bit_nat_less_eq_self])
    moreover have "vtype_vlmax (v AND 0xFF) (vlen (regs s)) = vtype_vlmax v (vlen (regs s))"
      unfolding vtype_vlmax_def and_low_fields ..
    moreover have "k = unat (drop_bit 3 v AND 7)" using False by (simp add: k_def s' and.assoc drop_bit_and)
    ultimately show ?thesis
      using False k3 s' vtype_vlmax_bound [OF assms(1) k3] by (simp add: vlen elems_def vlen_bytes_def)
  qed
qed

theorem vector_config_fits_witness:
  "\<forall>s. vstart (execute_vector_config VSETVLI 0x0D057557 10 10 0 (counting_state s)) = 0 \<and>
     regs (execute_vector_config VSETVLI 0x0D057557 10 10 0 (counting_state s)) =
       write_reg (regs (counting_state s)) 10 (vl (execute_vector_config VSETVLI 0x0D057557 10 10 0 (counting_state s)))"
  using vector_config_fits [OF counting_vlen(1)] by blast

end
