(* ===== verification/Vector_Integer.thy ===== *)
theory Vector_Integer
  imports Vector_Core
begin

text \<open>
  Vector integer instructions (\<^verbatim>\<open>src/execute/vector/VectorInteger.cpp\<close>): arithmetic, logic, shifts,
  comparisons, narrowing and widening forms, multiply-accumulate, carries, extensions, masks and bit
  manipulation, and the chain of groups that \<open>execute_vector_integer\<close> tries. A group returns
      \<open>None\<close> when
  the operation is not one of its own.
\<close>

subsection \<open>Element operations\<close>

definition calc_carry_out :: "'a::len word \<Rightarrow> 'a word \<Rightarrow> bool \<Rightarrow> bool" where
  "calc_carry_out u2 u1 carry_in \<longleftrightarrow>
     (let s = u2 + u1 + (if carry_in then 1 else 0) in if carry_in then s \<le> u2 else s < u2)"

definition calc_borrow_out :: "'a::len word \<Rightarrow> 'a word \<Rightarrow> bool \<Rightarrow> bool" where
  "calc_borrow_out u2 u1 borrow_in \<longleftrightarrow> (if borrow_in then u2 \<le> u1 else u2 < u1)"

text \<open>\<^verbatim>\<open>std::rotl\<close> and \<^verbatim>\<open>std::rotr\<close> reduce the
    \<^verbatim>\<open>uint32_t\<close> amount modulo the width.\<close>

definition vrotl :: "'a::len word \<Rightarrow> u32 \<Rightarrow> 'a word" where
  "vrotl v shift = word_rotl (unat shift mod LENGTH('a)) v"

definition vrotr :: "'a::len word \<Rightarrow> u32 \<Rightarrow> 'a word" where
  "vrotr v shift = word_rotr (unat shift mod LENGTH('a)) v"

definition bit_reverse :: "'a::len word \<Rightarrow> 'a word" where
  "bit_reverse u =
     fold (\<lambda>b res. if u AND push_bit b 1 \<noteq> 0 then res OR push_bit (LENGTH('a) - 1 - b) 1 else res)
         [0..<LENGTH('a)] 0"

definition bit_reverse_bytes :: "'a::len word \<Rightarrow> 'a word" where
  "bit_reverse_bytes u =
     fold (\<lambda>k res. res OR push_bit (k * 8) (ucast (bit_reverse (ucast (drop_bit (k * 8) u) :: u8))))
       [0..<LENGTH('a) div 8] 0"

definition byteswap_element :: "'a::len word \<Rightarrow> 'a word" where
  "byteswap_element u = le_word (rev (le_bytes (LENGTH('a) div 8) u))"

definition vclmul_low :: "'a::len word \<Rightarrow> 'a word \<Rightarrow> 'a word" where
  "vclmul_low u2 u1 =
     fold (\<lambda>i res. if u1 AND push_bit i 1 \<noteq> 0 then res XOR push_bit i u2 else res) [0..<LENGTH('a)] 0"

definition vclmul_high :: "'a::len word \<Rightarrow> 'a word \<Rightarrow> 'a word" where
  "vclmul_high u2 u1 =
     fold (\<lambda>i res. if u1 AND push_bit i 1 \<noteq> 0 then res XOR drop_bit (LENGTH('a) - i) u2 else res)
         [1..<LENGTH('a)] 0"

definition vdiv_f :: "'a::len word \<Rightarrow> 'a word \<Rightarrow> 'a word" where
  "vdiv_f a b = (if b = 0 then - 1 else if a = push_bit (LENGTH('a) - 1) 1 \<and> b = - 1 then a else sdiv_word a b)"

definition vdivu_f :: "'a::len word \<Rightarrow> 'a word \<Rightarrow> 'a word" where
  "vdivu_f a b = (if b = 0 then - 1 else a div b)"

definition vmin_f :: "'a::len word \<Rightarrow> 'a word \<Rightarrow> 'a word" where
  "vmin_f a b = (if b <s a then b else a)"

definition vmax_f :: "'a::len word \<Rightarrow> 'a word \<Rightarrow> 'a word" where
  "vmax_f a b = (if a <s b then b else a)"

definition vshamt :: "'a::len word \<Rightarrow> nat" where
  "vshamt b = unat (b AND of_nat (LENGTH('a) - 1))"

definition vsll_f :: "'a::len word \<Rightarrow> 'a word \<Rightarrow> 'a word" where
  "vsll_f a b = push_bit (vshamt b) a"

definition vsrl_f :: "'a::len word \<Rightarrow> 'a word \<Rightarrow> 'a word" where
  "vsrl_f a b = drop_bit (vshamt b) a"

definition vsra_f :: "'a::len word \<Rightarrow> 'a word \<Rightarrow> 'a word" where
  "vsra_f a b = signed_drop_bit (vshamt b) a"

subsection \<open>Loops\<close>

text \<open>Sources are copied before the destination is written.\<close>

definition execute_vsext ::
    "('b::len word \<Rightarrow> 'a::len word) \<Rightarrow> RegId \<Rightarrow> RegId \<Rightarrow> bool \<Rightarrow> u32
        \<Rightarrow> ArchState \<Rightarrow> ArchState" where
  "execute_vsext ext d s2 vm l s =
     (let src_vals = (\<lambda>i. get_group_element (regs s) s2 i)
      in element_loop vm d (\<lambda>rf i. ext (src_vals i)) l s)"

definition borrow_value :: "bool \<Rightarrow> 'a::len word" where
  "borrow_value b = (if b then 1 else 0)"

definition execute_vsbc_vv :: "'a::len itself \<Rightarrow> RegId \<Rightarrow> RegId \<Rightarrow> RegId \<Rightarrow> u32
    \<Rightarrow> ArchState \<Rightarrow> ArchState" where
  "execute_vsbc_vv t d s1 s2 l =
     element_loop True d (\<lambda>rf i. get_group_element rf s2 i - get_group_element rf s1 i -
       (borrow_value (get_mask_bit (read_vector rf 0) i) :: 'a word)) l"

definition execute_vsbc_vx :: "'a::len itself \<Rightarrow> RegId \<Rightarrow> Register \<Rightarrow> RegId \<Rightarrow>
    u32 \<Rightarrow> ArchState \<Rightarrow> ArchState" where
  "execute_vsbc_vx t d rs1_val s2 l =
     element_loop True d (\<lambda>rf i. get_group_element rf s2 i - ucast rs1_val -
       (borrow_value (get_mask_bit (read_vector rf 0) i) :: 'a word)) l"

definition execute_vadc_vv :: "'a::len itself \<Rightarrow> RegId \<Rightarrow> RegId \<Rightarrow> RegId \<Rightarrow> u32
    \<Rightarrow> ArchState \<Rightarrow> ArchState" where
  "execute_vadc_vv t d s1 s2 l =
     element_loop True d (\<lambda>rf i. get_group_element rf s2 i + get_group_element rf s1 i +
       (borrow_value (get_mask_bit (read_vector rf 0) i) :: 'a word)) l"

definition execute_vadc_vx :: "'a::len itself \<Rightarrow> RegId \<Rightarrow> Register \<Rightarrow> RegId \<Rightarrow>
    u32 \<Rightarrow> ArchState \<Rightarrow> ArchState" where
  "execute_vadc_vx t d rs1_val s2 l =
     element_loop True d (\<lambda>rf i. get_group_element rf s2 i + ucast rs1_val +
       (borrow_value (get_mask_bit (read_vector rf 0) i) :: 'a word)) l"

definition execute_vadc_vi :: "'a::len itself \<Rightarrow> RegId \<Rightarrow> u32 \<Rightarrow> RegId \<Rightarrow> u32
    \<Rightarrow> ArchState \<Rightarrow> ArchState" where
  "execute_vadc_vi t d simm s2 l =
     element_loop True d (\<lambda>rf i. get_group_element rf s2 i + scast simm +
       (borrow_value (get_mask_bit (read_vector rf 0) i) :: 'a word)) l"

text \<open>Widening arithmetic: the functions \<open>g\<close> are \<open>+\<close>, \<open>-\<close> and \<open>*\<close>
    of the destination type.\<close>

definition widening_vv ::
    "('a::len word \<Rightarrow> 'a word \<Rightarrow> 'a word) \<Rightarrow> ('b::len word \<Rightarrow> 'a word)
        \<Rightarrow> ('b word \<Rightarrow> 'a word) \<Rightarrow>
     RegId \<Rightarrow> RegId \<Rightarrow> RegId \<Rightarrow> bool \<Rightarrow> u32 \<Rightarrow> ArchState
         \<Rightarrow> ArchState" where
  "widening_vv g ext2 ext1 d s1 s2 vm l =
     element_loop vm d (\<lambda>rf i. g (ext2 (get_group_element rf s2 i)) (ext1 (get_group_element rf s1 i))) l"

definition widening_vx ::
    "('a::len word \<Rightarrow> 'a word \<Rightarrow> 'a word) \<Rightarrow> ('b::len word \<Rightarrow> 'a word)
        \<Rightarrow> ('b word \<Rightarrow> 'a word) \<Rightarrow>
     RegId \<Rightarrow> Register \<Rightarrow> RegId \<Rightarrow> bool \<Rightarrow> u32 \<Rightarrow> ArchState
         \<Rightarrow> ArchState" where
  "widening_vx g ext2 ext1 d rs1_val s2 vm l =
     element_loop vm d (\<lambda>rf i. g (ext2 (get_group_element rf s2 i)) (ext1 (ucast rs1_val))) l"

definition widening_wv ::
    "('a::len word \<Rightarrow> 'a word \<Rightarrow> 'a word) \<Rightarrow> ('b::len word \<Rightarrow> 'a word)
        \<Rightarrow>
     RegId \<Rightarrow> RegId \<Rightarrow> RegId \<Rightarrow> bool \<Rightarrow> u32 \<Rightarrow> ArchState
         \<Rightarrow> ArchState" where
  "widening_wv g ext d s1 s2 vm l =
     element_loop vm d (\<lambda>rf i. g (get_group_element rf s2 i) (ext (get_group_element rf s1 i))) l"

definition widening_wx ::
    "('a::len word \<Rightarrow> 'a word \<Rightarrow> 'a word) \<Rightarrow> ('b::len word \<Rightarrow> 'a word)
        \<Rightarrow>
     RegId \<Rightarrow> Register \<Rightarrow> RegId \<Rightarrow> bool \<Rightarrow> u32 \<Rightarrow> ArchState
         \<Rightarrow> ArchState" where
  "widening_wx g ext d rs1_val s2 vm l =
     element_loop vm d (\<lambda>rf i. g (get_group_element rf s2 i) (ext (ucast rs1_val))) l"

definition execute_vwadd_vv ::
    "('b::len word \<Rightarrow> 'a::len word) \<Rightarrow> RegId \<Rightarrow> RegId \<Rightarrow> RegId \<Rightarrow>
        bool \<Rightarrow> u32 \<Rightarrow> ArchState \<Rightarrow> ArchState" where
  "execute_vwadd_vv ext = widening_vv (+) ext ext"

definition execute_vwadd_vx ::
    "('b::len word \<Rightarrow> 'a::len word) \<Rightarrow> RegId \<Rightarrow> Register \<Rightarrow> RegId \<Rightarrow>
        bool \<Rightarrow> u32 \<Rightarrow> ArchState \<Rightarrow> ArchState" where
  "execute_vwadd_vx ext = widening_vx (+) ext ext"

definition execute_vwadd_wv ::
    "('b::len word \<Rightarrow> 'a::len word) \<Rightarrow> RegId \<Rightarrow> RegId \<Rightarrow> RegId \<Rightarrow>
        bool \<Rightarrow> u32 \<Rightarrow> ArchState \<Rightarrow> ArchState" where
  "execute_vwadd_wv ext = widening_wv (+) ext"

definition execute_vwadd_wx ::
    "('b::len word \<Rightarrow> 'a::len word) \<Rightarrow> RegId \<Rightarrow> Register \<Rightarrow> RegId \<Rightarrow>
        bool \<Rightarrow> u32 \<Rightarrow> ArchState \<Rightarrow> ArchState" where
  "execute_vwadd_wx ext = widening_wx (+) ext"

definition execute_vwsub_vv ::
    "('b::len word \<Rightarrow> 'a::len word) \<Rightarrow> RegId \<Rightarrow> RegId \<Rightarrow> RegId \<Rightarrow>
        bool \<Rightarrow> u32 \<Rightarrow> ArchState \<Rightarrow> ArchState" where
  "execute_vwsub_vv ext = widening_vv (-) ext ext"

definition execute_vwsub_vx ::
    "('b::len word \<Rightarrow> 'a::len word) \<Rightarrow> RegId \<Rightarrow> Register \<Rightarrow> RegId \<Rightarrow>
        bool \<Rightarrow> u32 \<Rightarrow> ArchState \<Rightarrow> ArchState" where
  "execute_vwsub_vx ext = widening_vx (-) ext ext"

definition execute_vwsub_wv ::
    "('b::len word \<Rightarrow> 'a::len word) \<Rightarrow> RegId \<Rightarrow> RegId \<Rightarrow> RegId \<Rightarrow>
        bool \<Rightarrow> u32 \<Rightarrow> ArchState \<Rightarrow> ArchState" where
  "execute_vwsub_wv ext = widening_wv (-) ext"

definition execute_vwsub_wx ::
    "('b::len word \<Rightarrow> 'a::len word) \<Rightarrow> RegId \<Rightarrow> Register \<Rightarrow> RegId \<Rightarrow>
        bool \<Rightarrow> u32 \<Rightarrow> ArchState \<Rightarrow> ArchState" where
  "execute_vwsub_wx ext = widening_wx (-) ext"

definition execute_vwmul_vv ::
    "('b::len word \<Rightarrow> 'a::len word) \<Rightarrow> RegId \<Rightarrow> RegId \<Rightarrow> RegId \<Rightarrow>
        bool \<Rightarrow> u32 \<Rightarrow> ArchState \<Rightarrow> ArchState" where
  "execute_vwmul_vv ext = widening_vv (*) ext ext"

definition execute_vwmul_vx ::
    "('b::len word \<Rightarrow> 'a::len word) \<Rightarrow> RegId \<Rightarrow> Register \<Rightarrow> RegId \<Rightarrow>
        bool \<Rightarrow> u32 \<Rightarrow> ArchState \<Rightarrow> ArchState" where
  "execute_vwmul_vx ext = widening_vx (*) ext ext"

text \<open>The element of \<open>vs2\<close> is signed and the multiplier unsigned.\<close>

definition execute_vwmulsu_vv ::
    "'a::len itself \<Rightarrow> 'b::len itself \<Rightarrow> RegId \<Rightarrow> RegId \<Rightarrow> RegId \<Rightarrow>
        bool \<Rightarrow> u32 \<Rightarrow> ArchState \<Rightarrow> ArchState" where
  "execute_vwmulsu_vv td ts = widening_vv (*) (scast :: 'b word \<Rightarrow> 'a word) ucast"

definition execute_vwmulsu_vx ::
    "'a::len itself \<Rightarrow> 'b::len itself \<Rightarrow> RegId \<Rightarrow> Register \<Rightarrow> RegId
        \<Rightarrow> bool \<Rightarrow> u32 \<Rightarrow> ArchState \<Rightarrow> ArchState" where
  "execute_vwmulsu_vx td ts = widening_vx (*) (scast :: 'b word \<Rightarrow> 'a word) ucast"

text \<open>Narrowing shifts: the amount is taken modulo the source width.\<close>

definition narrow_mask :: "'b::len itself \<Rightarrow> u32" where
  "narrow_mask ts = of_nat (LENGTH('b) - 1)"

definition execute_vnsrl_wv ::
    "'a::len itself \<Rightarrow> 'b::len itself \<Rightarrow> RegId \<Rightarrow> RegId \<Rightarrow> RegId \<Rightarrow>
        bool \<Rightarrow> u32 \<Rightarrow> ArchState \<Rightarrow> ArchState" where
  "execute_vnsrl_wv td ts d s1 s2 vm l =
     element_loop vm d (\<lambda>rf i.
       let val2 = get_group_element rf s2 i :: 'b word;
           shift_amt = get_group_element rf s1 i :: 'a word
       in (ucast (drop_bit (unat (ucast shift_amt AND narrow_mask ts)) val2) :: 'a word)) l"

definition execute_vnsrl_wx ::
    "'a::len itself \<Rightarrow> 'b::len itself \<Rightarrow> RegId \<Rightarrow> Register \<Rightarrow> RegId
        \<Rightarrow> bool \<Rightarrow> u32 \<Rightarrow> ArchState \<Rightarrow> ArchState" where
  "execute_vnsrl_wx td ts d rs1_val s2 vm l =
     (let shift_amt = ucast rs1_val AND narrow_mask ts
      in element_loop vm d (\<lambda>rf i. (ucast (drop_bit (unat shift_amt) (get_group_element rf s2 i :: 'b word)) :: 'a
          word)) l)"

definition execute_vnsrl_wi ::
    "'a::len itself \<Rightarrow> 'b::len itself \<Rightarrow> RegId \<Rightarrow> u32 \<Rightarrow> RegId \<Rightarrow>
        bool \<Rightarrow> u32 \<Rightarrow> ArchState \<Rightarrow> ArchState" where
  "execute_vnsrl_wi td ts d uimm5 s2 vm l =
     (let shift_amt = uimm5 AND narrow_mask ts
      in element_loop vm d (\<lambda>rf i. (ucast (drop_bit (unat shift_amt) (get_group_element rf s2 i :: 'b word)) :: 'a
          word)) l)"

definition execute_vnsra_wv ::
    "'a::len itself \<Rightarrow> 'b::len itself \<Rightarrow> RegId \<Rightarrow> RegId \<Rightarrow> RegId \<Rightarrow>
        bool \<Rightarrow> u32 \<Rightarrow> ArchState \<Rightarrow> ArchState" where
  "execute_vnsra_wv td ts d s1 s2 vm l =
     element_loop vm d (\<lambda>rf i.
       let val2 = get_group_element rf s2 i :: 'b word;
           shift_amt = get_group_element rf s1 i :: 'a word
       in (ucast (signed_drop_bit (unat (ucast shift_amt AND narrow_mask ts)) val2) :: 'a word)) l"

definition execute_vnsra_wx ::
    "'a::len itself \<Rightarrow> 'b::len itself \<Rightarrow> RegId \<Rightarrow> Register \<Rightarrow> RegId
        \<Rightarrow> bool \<Rightarrow> u32 \<Rightarrow> ArchState \<Rightarrow> ArchState" where
  "execute_vnsra_wx td ts d rs1_val s2 vm l =
     (let shift_amt = ucast rs1_val AND narrow_mask ts
      in element_loop vm d (\<lambda>rf i. (ucast (signed_drop_bit (unat shift_amt) (get_group_element rf s2 i :: 'b word))
          :: 'a word)) l)"

definition execute_vnsra_wi ::
    "'a::len itself \<Rightarrow> 'b::len itself \<Rightarrow> RegId \<Rightarrow> u32 \<Rightarrow> RegId \<Rightarrow>
        bool \<Rightarrow> u32 \<Rightarrow> ArchState \<Rightarrow> ArchState" where
  "execute_vnsra_wi td ts d uimm5 s2 vm l =
     (let shift_amt = uimm5 AND narrow_mask ts
      in element_loop vm d (\<lambda>rf i. (ucast (signed_drop_bit (unat shift_amt) (get_group_element rf s2 i :: 'b word))
          :: 'a word)) l)"

text \<open>Sum reductions read the registers before anything is written.\<close>

definition reduction_sum ::
    "('b::len word \<Rightarrow> 'a::len word) \<Rightarrow> RegId \<Rightarrow> RegId \<Rightarrow> RegId \<Rightarrow>
        bool \<Rightarrow> u32 \<Rightarrow> ArchState \<Rightarrow> ArchState" where
  "reduction_sum ext d s1 s2 vm l s =
     (let rf = regs s;
          total = fold (\<lambda>i acc. if is_element_active (read_vector rf 0) i vm
                                then acc + ext (get_group_element rf s2 i) else acc)
                    (vector_elements s l) (get_group_element rf s1 0)
      in s\<lparr>regs := set_group_element rf d 0 total\<rparr>)"

definition execute_vwredsum_vs ::
    "('b::len word \<Rightarrow> 'a::len word) \<Rightarrow> RegId \<Rightarrow> RegId \<Rightarrow> RegId \<Rightarrow>
        bool \<Rightarrow> u32 \<Rightarrow> ArchState \<Rightarrow> ArchState" where
  "execute_vwredsum_vs = reduction_sum"

definition execute_vredsum_vs :: "'a::len itself \<Rightarrow> RegId \<Rightarrow> RegId \<Rightarrow> RegId \<Rightarrow>
    bool \<Rightarrow> u32 \<Rightarrow> ArchState \<Rightarrow> ArchState" where
  "execute_vredsum_vs t = reduction_sum (\<lambda>x :: 'a word. x)"

text \<open>Multiply-accumulate.\<close>

definition mac_value :: "bool \<Rightarrow> bool \<Rightarrow> 'a::len word \<Rightarrow> 'a word \<Rightarrow> 'a word
    \<Rightarrow> 'a word" where
  "mac_value overwrite_acc subtract val1 val2 dest_val =
     (let prod = val1 * val2 in
      if overwrite_acc then (if subtract then dest_val - prod else dest_val + prod)
      else let term1 = val1 * dest_val in (if subtract then val2 - term1 else val2 + term1))"

definition perform_mac_vv ::
    "'a::len itself \<Rightarrow> RegId \<Rightarrow> RegId \<Rightarrow> RegId \<Rightarrow> bool \<Rightarrow> u32
        \<Rightarrow> bool \<Rightarrow> bool \<Rightarrow> ArchState \<Rightarrow> ArchState" where
  "perform_mac_vv t d s1 s2 vm l overwrite_acc subtract =
     element_loop vm d (\<lambda>rf i. mac_value overwrite_acc subtract (get_group_element rf s1 i)
       (get_group_element rf s2 i) (get_group_element rf d i :: 'a word)) l"

definition perform_mac_vx ::
    "'a::len itself \<Rightarrow> RegId \<Rightarrow> Register \<Rightarrow> RegId \<Rightarrow> bool \<Rightarrow> u32
        \<Rightarrow> bool \<Rightarrow> bool \<Rightarrow> ArchState \<Rightarrow> ArchState" where
  "perform_mac_vx t d rs1_val s2 vm l overwrite_acc subtract =
     element_loop vm d (\<lambda>rf i. mac_value overwrite_acc subtract (ucast rs1_val)
       (get_group_element rf s2 i) (get_group_element rf d i :: 'a word)) l"

definition perform_widening_mac_vv ::
    "('b::len word \<Rightarrow> 'a::len word) \<Rightarrow> ('b word \<Rightarrow> 'a word) \<Rightarrow> RegId
        \<Rightarrow> RegId \<Rightarrow> RegId \<Rightarrow> bool \<Rightarrow> u32 \<Rightarrow>
     ArchState \<Rightarrow> ArchState" where
  "perform_widening_mac_vv ext1 ext2 d s1 s2 vm l =
     element_loop vm d (\<lambda>rf i. get_group_element rf d i +
       ext1 (get_group_element rf s1 i) * ext2 (get_group_element rf s2 i)) l"

definition perform_widening_mac_vx ::
    "('b::len word \<Rightarrow> 'a::len word) \<Rightarrow> ('b word \<Rightarrow> 'a word) \<Rightarrow> RegId
        \<Rightarrow> Register \<Rightarrow> RegId \<Rightarrow> bool \<Rightarrow> u32 \<Rightarrow>
     ArchState \<Rightarrow> ArchState" where
  "perform_widening_mac_vx ext1 ext2 d rs1_val s2 vm l =
     element_loop vm d (\<lambda>rf i. get_group_element rf d i +
       ext1 (ucast rs1_val) * ext2 (get_group_element rf s2 i)) l"

subsection \<open>Mask instructions\<close>

text \<open>The loops that look for the first set bit carry the flag \<open>found_first\<close>; \<open>out src
    found\<close> is the bit
  they write.\<close>

definition first_step ::
    "(bool \<Rightarrow> bool \<Rightarrow> bool) \<Rightarrow> RegId \<Rightarrow> RegId \<Rightarrow> bool \<Rightarrow>
        nat \<Rightarrow> bool \<times> RegisterFile \<Rightarrow> bool \<times> RegisterFile" where
  "first_step out d s2 vm i st =
     (let (found_first, rf) = st in
      if \<not> is_element_active (read_vector rf 0) i vm then st
      else
        let src_bit = get_mask_bit (read_vector rf s2) i
        in (found_first \<or> src_bit, write_vector rf d (set_mask_bit (read_vector rf d) i (out src_bit found_first))))"

definition first_loop :: "(bool \<Rightarrow> bool \<Rightarrow> bool) \<Rightarrow> RegId \<Rightarrow> RegId \<Rightarrow>
    bool \<Rightarrow> u32 \<Rightarrow> ArchState \<Rightarrow> ArchState" where
  "first_loop out d s2 vm l s =
     s\<lparr>regs := snd (fold (first_step out d s2 vm) (vector_elements s l) (False, regs s))\<rparr>"

definition execute_vmsbf_m :: "RegId \<Rightarrow> RegId \<Rightarrow> bool \<Rightarrow> u32 \<Rightarrow> ArchState
    \<Rightarrow> ArchState" where
  "execute_vmsbf_m = first_loop (\<lambda>src_bit found. \<not> found \<and> \<not> src_bit)"

definition execute_vmsif_m :: "RegId \<Rightarrow> RegId \<Rightarrow> bool \<Rightarrow> u32 \<Rightarrow> ArchState
    \<Rightarrow> ArchState" where
  "execute_vmsif_m = first_loop (\<lambda>src_bit found. \<not> found)"

definition execute_vmsof_m :: "RegId \<Rightarrow> RegId \<Rightarrow> bool \<Rightarrow> u32 \<Rightarrow> ArchState
    \<Rightarrow> ArchState" where
  "execute_vmsof_m = first_loop (\<lambda>src_bit found. src_bit \<and> \<not> found)"

definition mask_selected :: "RegisterFile \<Rightarrow> RegId \<Rightarrow> bool \<Rightarrow> nat \<Rightarrow> bool" where
  "mask_selected rf s2 vm i \<longleftrightarrow> is_element_active (read_vector rf 0) i vm \<and> get_mask_bit
      (read_vector rf s2) i"

definition execute_vfirst_m :: "RegId \<Rightarrow> RegId \<Rightarrow> bool \<Rightarrow> u32 \<Rightarrow> ArchState
    \<Rightarrow> ArchState" where
  "execute_vfirst_m d s2 vm l s =
     (let first_idx = (case find (mask_selected (regs s) s2 vm) (vector_elements s l) of
                         Some i \<Rightarrow> of_nat i | None \<Rightarrow> - 1) :: u32
      in s\<lparr>regs := write_reg (regs s) d (scast first_idx)\<rparr>)"

definition execute_vcpop_m :: "RegId \<Rightarrow> RegId \<Rightarrow> bool \<Rightarrow> u32 \<Rightarrow> ArchState
    \<Rightarrow> ArchState" where
  "execute_vcpop_m d s2 vm l s =
     (let count = fold (\<lambda>i c. if mask_selected (regs s) s2 vm i then c + 1 else c) (vector_elements s l) (0 :: u32)
      in s\<lparr>regs := write_reg (regs s) d (ucast count)\<rparr>)"

definition iota_step ::
    "'a::len itself \<Rightarrow> RegId \<Rightarrow> RegId \<Rightarrow> bool \<Rightarrow> nat \<Rightarrow> 'a word
        \<times> RegisterFile \<Rightarrow> 'a word \<times> RegisterFile" where
  "iota_step t d s2 vm i st =
     (let (count, rf) = st in
      if \<not> is_element_active (read_vector rf 0) i vm then st
      else
        let rf1 = set_group_element rf d i count
        in (if get_mask_bit (read_vector rf1 s2) i then count + 1 else count, rf1))"

definition execute_viota_m :: "'a::len itself \<Rightarrow> RegId \<Rightarrow> RegId \<Rightarrow> bool \<Rightarrow> u32
    \<Rightarrow> ArchState \<Rightarrow> ArchState" where
  "execute_viota_m t d s2 vm l s =
     s\<lparr>regs := snd (fold (iota_step t d s2 vm) (vector_elements s l) (0, regs s))\<rparr>"

definition mask_logic :: "OperationId \<Rightarrow> bool \<Rightarrow> bool \<Rightarrow> bool" where
  "mask_logic op bit1 bit2 =
     (if op = VMAND_MM then bit2 \<and> bit1
      else if op = VMNAND_MM then \<not> (bit2 \<and> bit1)
      else if op = VMANDN_MM then bit2 \<and> \<not> bit1
      else if op = VMXOR_MM then bit2 \<noteq> bit1
      else if op = VMOR_MM then bit2 \<or> bit1
      else if op = VMNOR_MM then \<not> (bit2 \<or> bit1)
      else if op = VMORN_MM then bit2 \<or> \<not> bit1
      else if op = VMXNOR_MM then bit2 = bit1
      else False)"

definition execute_mask_logical :: "RegId \<Rightarrow> RegId \<Rightarrow> RegId \<Rightarrow> u32 \<Rightarrow>
    OperationId \<Rightarrow> ArchState \<Rightarrow> ArchState" where
  "execute_mask_logical d s1 s2 l op =
     mask_loop True d (\<lambda>rf i. mask_logic op (get_mask_bit (read_vector rf s1) i)
         (get_mask_bit (read_vector rf s2) i)) l"

subsection \<open>Bit counts, carries and widening shifts\<close>

definition unary_loop :: "('a::len word \<Rightarrow> 'a word) \<Rightarrow> RegId \<Rightarrow> RegId \<Rightarrow> bool
    \<Rightarrow> u32 \<Rightarrow> ArchState \<Rightarrow> ArchState" where
  "unary_loop g d s2 vm l = element_loop vm d (\<lambda>rf i. g (get_group_element rf s2 i)) l"

definition execute_vclz :: "'a::len itself \<Rightarrow> RegId \<Rightarrow> RegId \<Rightarrow> bool \<Rightarrow> u32
    \<Rightarrow> ArchState \<Rightarrow> ArchState" where
  "execute_vclz t = unary_loop (\<lambda>u :: 'a word. of_nat (if u = 0 then LENGTH('a) else countl_zero u))"

definition execute_vctz :: "'a::len itself \<Rightarrow> RegId \<Rightarrow> RegId \<Rightarrow> bool \<Rightarrow> u32
    \<Rightarrow> ArchState \<Rightarrow> ArchState" where
  "execute_vctz t = unary_loop (\<lambda>u :: 'a word. of_nat (if u = 0 then LENGTH('a) else countr_zero u))"

definition execute_vcpop_v :: "'a::len itself \<Rightarrow> RegId \<Rightarrow> RegId \<Rightarrow> bool \<Rightarrow> u32
    \<Rightarrow> ArchState \<Rightarrow> ArchState" where
  "execute_vcpop_v t = unary_loop (\<lambda>u :: 'a word. of_nat (popcount u))"

definition carry_bit :: "bool \<Rightarrow> RegisterFile \<Rightarrow> nat \<Rightarrow> bool" where
  "carry_bit vm rf i \<longleftrightarrow> \<not> vm \<and> get_mask_bit (read_vector rf 0) i"

definition execute_vmadc_vv :: "'a::len itself \<Rightarrow> RegId \<Rightarrow> RegId \<Rightarrow> RegId \<Rightarrow>
    bool \<Rightarrow> u32 \<Rightarrow> ArchState \<Rightarrow> ArchState" where
  "execute_vmadc_vv t d s1 s2 vm l =
     mask_loop True d (\<lambda>rf i. calc_carry_out (get_group_element rf s2 i :: 'a word) (get_group_element rf s1 i)
         (carry_bit vm rf i)) l"

definition execute_vmadc_vx :: "'a::len itself \<Rightarrow> RegId \<Rightarrow> Register \<Rightarrow> RegId \<Rightarrow>
    bool \<Rightarrow> u32 \<Rightarrow> ArchState \<Rightarrow> ArchState" where
  "execute_vmadc_vx t d rs1_val s2 vm l =
     mask_loop True d (\<lambda>rf i. calc_carry_out (get_group_element rf s2 i :: 'a word) (ucast rs1_val)
         (carry_bit vm rf i)) l"

definition execute_vmadc_vi :: "'a::len itself \<Rightarrow> RegId \<Rightarrow> u32 \<Rightarrow> RegId \<Rightarrow> bool
    \<Rightarrow> u32 \<Rightarrow> ArchState \<Rightarrow> ArchState" where
  "execute_vmadc_vi t d simm s2 vm l =
     mask_loop True d (\<lambda>rf i. calc_carry_out (get_group_element rf s2 i :: 'a word) (scast simm)
         (carry_bit vm rf i)) l"

definition execute_vmsbc_vv :: "'a::len itself \<Rightarrow> RegId \<Rightarrow> RegId \<Rightarrow> RegId \<Rightarrow>
    bool \<Rightarrow> u32 \<Rightarrow> ArchState \<Rightarrow> ArchState" where
  "execute_vmsbc_vv t d s1 s2 vm l =
     mask_loop True d (\<lambda>rf i. calc_borrow_out (get_group_element rf s2 i :: 'a word) (get_group_element rf s1 i)
         (carry_bit vm rf i)) l"

definition execute_vmsbc_vx :: "'a::len itself \<Rightarrow> RegId \<Rightarrow> Register \<Rightarrow> RegId \<Rightarrow>
    bool \<Rightarrow> u32 \<Rightarrow> ArchState \<Rightarrow> ArchState" where
  "execute_vmsbc_vx t d rs1_val s2 vm l =
     mask_loop True d (\<lambda>rf i. calc_borrow_out (get_group_element rf s2 i :: 'a word) (ucast rs1_val)
         (carry_bit vm rf i)) l"

definition widening_shift :: "'a::len itself \<Rightarrow> 'b::len itself \<Rightarrow> 'b word \<Rightarrow> u32
    \<Rightarrow> 'a word" where
  "widening_shift td ts u2 amount = push_bit (unat (amount AND of_nat (LENGTH('a) - 1))) (ucast u2)"

definition execute_vwsll_vv ::
    "'a::len itself \<Rightarrow> 'b::len itself \<Rightarrow> RegId \<Rightarrow> RegId \<Rightarrow> RegId \<Rightarrow>
        bool \<Rightarrow> u32 \<Rightarrow> ArchState \<Rightarrow> ArchState" where
  "execute_vwsll_vv td ts d s1 s2 vm l s =
     (let src2_vals = (\<lambda>i. get_group_element (regs s) s2 i :: 'b word);
          src1_vals = (\<lambda>i. get_group_element (regs s) s1 i :: 'b word)
      in element_loop vm d (\<lambda>rf i. widening_shift td ts (src2_vals i) (scast (src1_vals i))) l s)"

definition execute_vwsll_vx ::
    "'a::len itself \<Rightarrow> 'b::len itself \<Rightarrow> RegId \<Rightarrow> Register \<Rightarrow> RegId
        \<Rightarrow> bool \<Rightarrow> u32 \<Rightarrow> ArchState \<Rightarrow> ArchState" where
  "execute_vwsll_vx td ts d rs1_val s2 vm l s =
     (let src2_vals = (\<lambda>i. get_group_element (regs s) s2 i :: 'b word)
      in element_loop vm d (\<lambda>rf i. widening_shift td ts (src2_vals i) (ucast rs1_val)) l s)"

definition execute_vwsll_vi ::
    "'a::len itself \<Rightarrow> 'b::len itself \<Rightarrow> RegId \<Rightarrow> u32 \<Rightarrow> RegId \<Rightarrow>
        bool \<Rightarrow> u32 \<Rightarrow> ArchState \<Rightarrow> ArchState" where
  "execute_vwsll_vi td ts d simm s2 vm l s =
     (let src2_vals = (\<lambda>i. get_group_element (regs s) s2 i :: 'b word)
      in element_loop vm d (\<lambda>rf i. widening_shift td ts (src2_vals i) (simm AND 0x1F)) l s)"

subsection \<open>Dispatch\<close>

definition dispatch_vv ::
    "(u8 \<Rightarrow> u8 \<Rightarrow> u8) \<Rightarrow> (u16 \<Rightarrow> u16 \<Rightarrow> u16) \<Rightarrow>
     (u32 \<Rightarrow> u32 \<Rightarrow> u32) \<Rightarrow> (u64 \<Rightarrow> u64 \<Rightarrow> u64) \<Rightarrow>
     RegId \<Rightarrow> RegId \<Rightarrow> RegId \<Rightarrow> bool \<Rightarrow> u32 \<Rightarrow> u32 \<Rightarrow>
         ArchState \<Rightarrow> ArchState" where
  "dispatch_vv f8 f16 f32 f64 d x1 s2 vm l sew =
     by_sew sew (perform_vv f8 d x1 s2 vm l) (perform_vv f16 d x1 s2 vm l) (perform_vv f32 d x1 s2 vm l)
         (perform_vv f64 d x1 s2 vm l)"

definition dispatch_cmp_vv ::
    "(u8 \<Rightarrow> u8 \<Rightarrow> bool) \<Rightarrow> (u16 \<Rightarrow> u16 \<Rightarrow> bool) \<Rightarrow>
     (u32 \<Rightarrow> u32 \<Rightarrow> bool) \<Rightarrow> (u64 \<Rightarrow> u64 \<Rightarrow> bool) \<Rightarrow>
     RegId \<Rightarrow> RegId \<Rightarrow> RegId \<Rightarrow> bool \<Rightarrow> u32 \<Rightarrow> u32 \<Rightarrow>
         ArchState \<Rightarrow> ArchState" where
  "dispatch_cmp_vv f8 f16 f32 f64 d x1 s2 vm l sew =
     by_sew sew (perform_compare_vv f8 d x1 s2 vm l) (perform_compare_vv f16 d x1 s2 vm l)
         (perform_compare_vv f32 d x1 s2 vm l) (perform_compare_vv f64 d x1 s2 vm l)"

definition dispatch_vx ::
    "(u8 \<Rightarrow> u8 \<Rightarrow> u8) \<Rightarrow> (u16 \<Rightarrow> u16 \<Rightarrow> u16) \<Rightarrow>
     (u32 \<Rightarrow> u32 \<Rightarrow> u32) \<Rightarrow> (u64 \<Rightarrow> u64 \<Rightarrow> u64) \<Rightarrow>
     RegId \<Rightarrow> Register \<Rightarrow> RegId \<Rightarrow> bool \<Rightarrow> u32 \<Rightarrow> u32 \<Rightarrow>
         ArchState \<Rightarrow> ArchState" where
  "dispatch_vx f8 f16 f32 f64 d x1 s2 vm l sew =
     by_sew sew (perform_vx f8 d x1 s2 vm l) (perform_vx f16 d x1 s2 vm l) (perform_vx f32 d x1 s2 vm l)
         (perform_vx f64 d x1 s2 vm l)"

definition dispatch_cmp_vx ::
    "(u8 \<Rightarrow> u8 \<Rightarrow> bool) \<Rightarrow> (u16 \<Rightarrow> u16 \<Rightarrow> bool) \<Rightarrow>
     (u32 \<Rightarrow> u32 \<Rightarrow> bool) \<Rightarrow> (u64 \<Rightarrow> u64 \<Rightarrow> bool) \<Rightarrow>
     RegId \<Rightarrow> Register \<Rightarrow> RegId \<Rightarrow> bool \<Rightarrow> u32 \<Rightarrow> u32 \<Rightarrow>
         ArchState \<Rightarrow> ArchState" where
  "dispatch_cmp_vx f8 f16 f32 f64 d x1 s2 vm l sew =
     by_sew sew (perform_compare_vx f8 d x1 s2 vm l) (perform_compare_vx f16 d x1 s2 vm l)
         (perform_compare_vx f32 d x1 s2 vm l) (perform_compare_vx f64 d x1 s2 vm l)"

definition dispatch_vi ::
    "(u8 \<Rightarrow> u8 \<Rightarrow> u8) \<Rightarrow> (u16 \<Rightarrow> u16 \<Rightarrow> u16) \<Rightarrow>
     (u32 \<Rightarrow> u32 \<Rightarrow> u32) \<Rightarrow> (u64 \<Rightarrow> u64 \<Rightarrow> u64) \<Rightarrow>
     RegId \<Rightarrow> u32 \<Rightarrow> RegId \<Rightarrow> bool \<Rightarrow> u32 \<Rightarrow> u32 \<Rightarrow>
         ArchState \<Rightarrow> ArchState" where
  "dispatch_vi f8 f16 f32 f64 d x1 s2 vm l sew =
     by_sew sew (perform_vi f8 d x1 s2 vm l) (perform_vi f16 d x1 s2 vm l) (perform_vi f32 d x1 s2 vm l)
         (perform_vi f64 d x1 s2 vm l)"

definition dispatch_cmp_vi ::
    "(u8 \<Rightarrow> u8 \<Rightarrow> bool) \<Rightarrow> (u16 \<Rightarrow> u16 \<Rightarrow> bool) \<Rightarrow>
     (u32 \<Rightarrow> u32 \<Rightarrow> bool) \<Rightarrow> (u64 \<Rightarrow> u64 \<Rightarrow> bool) \<Rightarrow>
     RegId \<Rightarrow> u32 \<Rightarrow> RegId \<Rightarrow> bool \<Rightarrow> u32 \<Rightarrow> u32 \<Rightarrow>
         ArchState \<Rightarrow> ArchState" where
  "dispatch_cmp_vi f8 f16 f32 f64 d x1 s2 vm l sew =
     by_sew sew (perform_compare_vi f8 d x1 s2 vm l) (perform_compare_vi f16 d x1 s2 vm l)
         (perform_compare_vi f32 d x1 s2 vm l) (perform_compare_vi f64 d x1 s2 vm l)"

definition execute_vector_int_arith ::
    "OperationId \<Rightarrow> RegId \<Rightarrow> RegId \<Rightarrow> RegId \<Rightarrow> bool \<Rightarrow> u32
        \<Rightarrow> u32 \<Rightarrow> Register \<Rightarrow> u32 \<Rightarrow> ArchState \<Rightarrow> ArchState option"
        where
  "execute_vector_int_arith op d s1 s2 vm l sew rs1_val simm s =
     (if op = VADD_VV then Some (dispatch_vv (+) (+) (+) (+) d s1 s2 vm l sew s)
      else if op = VADD_VX then Some (dispatch_vx (+) (+) (+) (+) d rs1_val s2 vm l sew s)
      else if op = VADD_VI then Some (dispatch_vi (+) (+) (+) (+) d simm s2 vm l sew s)
      else if op = VSUB_VV then Some (dispatch_vv (-) (-) (-) (-) d s1 s2 vm l sew s)
      else if op = VSUB_VX then Some (dispatch_vx (-) (-) (-) (-) d rs1_val s2 vm l sew s)
      else if op = VMUL_VV then Some (dispatch_vv (*) (*) (*) (*) d s1 s2 vm l sew s)
      else if op = VMUL_VX then Some (dispatch_vx (*) (*) (*) (*) d rs1_val s2 vm l sew s)
      else if op = VDIV_VV then Some (dispatch_vv vdiv_f vdiv_f vdiv_f vdiv_f d s1 s2 vm l sew s)
      else if op = VDIV_VX then Some (dispatch_vx vdiv_f vdiv_f vdiv_f vdiv_f d rs1_val s2 vm l sew s)
      else if op = VDIVU_VV then Some (dispatch_vv vdivu_f vdivu_f vdivu_f vdivu_f d s1 s2 vm l sew s)
      else if op = VDIVU_VX then Some (dispatch_vx vdivu_f vdivu_f vdivu_f vdivu_f d rs1_val s2 vm l sew s)
      else if op = VMIN_VV then Some (dispatch_vv vmin_f vmin_f vmin_f vmin_f d s1 s2 vm l sew s)
      else if op = VMIN_VX then Some (dispatch_vx vmin_f vmin_f vmin_f vmin_f d rs1_val s2 vm l sew s)
      else if op = VMINU_VV then Some (dispatch_vv min min min min d s1 s2 vm l sew s)
      else if op = VMINU_VX then Some (dispatch_vx min min min min d rs1_val s2 vm l sew s)
      else if op = VMAX_VV then Some (dispatch_vv vmax_f vmax_f vmax_f vmax_f d s1 s2 vm l sew s)
      else if op = VMAX_VX then Some (dispatch_vx vmax_f vmax_f vmax_f vmax_f d rs1_val s2 vm l sew s)
      else if op = VMAXU_VV then Some (dispatch_vv max max max max d s1 s2 vm l sew s)
      else if op = VMAXU_VX then Some (dispatch_vx max max max max d rs1_val s2 vm l sew s)
      else None)"

definition vrol_f :: "'a::len word \<Rightarrow> 'a word \<Rightarrow> 'a word" where
  "vrol_f a b = vrotl a (ucast b)"

definition vror_f :: "'a::len word \<Rightarrow> 'a word \<Rightarrow> 'a word" where
  "vror_f a b = vrotr a (ucast b)"

definition vandn_f :: "'a::len word \<Rightarrow> 'a word \<Rightarrow> 'a word" where
  "vandn_f a b = a AND NOT b"

definition execute_vector_int_logic_shifts ::
    "OperationId \<Rightarrow> RegId \<Rightarrow> RegId \<Rightarrow> RegId \<Rightarrow> bool \<Rightarrow> u32
        \<Rightarrow> u32 \<Rightarrow> Register \<Rightarrow> u32 \<Rightarrow> ArchState \<Rightarrow> ArchState option"
        where
  "execute_vector_int_logic_shifts op d s1 s2 vm l sew rs1_val simm s =
     (if op = VAND_VV then Some (dispatch_vv (AND) (AND) (AND) (AND) d s1 s2 vm l sew s)
      else if op = VAND_VX then Some (dispatch_vx (AND) (AND) (AND) (AND) d rs1_val s2 vm l sew s)
      else if op = VAND_VI then Some (dispatch_vi (AND) (AND) (AND) (AND) d simm s2 vm l sew s)
      else if op = VOR_VV then Some (dispatch_vv (OR) (OR) (OR) (OR) d s1 s2 vm l sew s)
      else if op = VOR_VX then Some (dispatch_vx (OR) (OR) (OR) (OR) d rs1_val s2 vm l sew s)
      else if op = VOR_VI then Some (dispatch_vi (OR) (OR) (OR) (OR) d simm s2 vm l sew s)
      else if op = VXOR_VV then Some (dispatch_vv (XOR) (XOR) (XOR) (XOR) d s1 s2 vm l sew s)
      else if op = VXOR_VX then Some (dispatch_vx (XOR) (XOR) (XOR) (XOR) d rs1_val s2 vm l sew s)
      else if op = VXOR_VI then Some (dispatch_vi (XOR) (XOR) (XOR) (XOR) d simm s2 vm l sew s)
      else if op = VSLL_VV then Some (dispatch_vv vsll_f vsll_f vsll_f vsll_f d s1 s2 vm l sew s)
      else if op = VSLL_VX then Some (dispatch_vx vsll_f vsll_f vsll_f vsll_f d rs1_val s2 vm l sew s)
      else if op = VSLL_VI then Some (dispatch_vi vsll_f vsll_f vsll_f vsll_f d simm s2 vm l sew s)
      else if op = VSRL_VV then Some (dispatch_vv vsrl_f vsrl_f vsrl_f vsrl_f d s1 s2 vm l sew s)
      else if op = VSRL_VX then Some (dispatch_vx vsrl_f vsrl_f vsrl_f vsrl_f d rs1_val s2 vm l sew s)
      else if op = VSRL_VI then Some (dispatch_vi vsrl_f vsrl_f vsrl_f vsrl_f d simm s2 vm l sew s)
      else if op = VSRA_VV then Some (dispatch_vv vsra_f vsra_f vsra_f vsra_f d s1 s2 vm l sew s)
      else if op = VSRA_VX then Some (dispatch_vx vsra_f vsra_f vsra_f vsra_f d rs1_val s2 vm l sew s)
      else if op = VSRA_VI then Some (dispatch_vi vsra_f vsra_f vsra_f vsra_f d simm s2 vm l sew s)
      else if op = VANDN_VV then Some (dispatch_vv vandn_f vandn_f vandn_f vandn_f d s1 s2 vm l sew s)
      else if op = VANDN_VX then Some (dispatch_vx vandn_f vandn_f vandn_f vandn_f d rs1_val s2 vm l sew s)
      else if op = VROL_VV then Some (dispatch_vv vrol_f vrol_f vrol_f vrol_f d s1 s2 vm l sew s)
      else if op = VROL_VX then Some (dispatch_vx vrol_f vrol_f vrol_f vrol_f d rs1_val s2 vm l sew s)
      else if op = VROR_VV then Some (dispatch_vv vror_f vror_f vror_f vror_f d s1 s2 vm l sew s)
      else if op = VROR_VX then Some (dispatch_vx vror_f vror_f vror_f vror_f d rs1_val s2 vm l sew s)
      else if op = VROR_VI then Some (dispatch_vi vror_f vror_f vror_f vror_f d simm s2 vm l sew s)
      else if op = VCLMUL_VV then Some (dispatch_vv vclmul_low vclmul_low vclmul_low vclmul_low d s1 s2 vm l sew s)
      else if op = VCLMUL_VX then Some (dispatch_vx vclmul_low vclmul_low vclmul_low vclmul_low d rs1_val s2 vm l sew s)
      else if op = VCLMULH_VV then Some (dispatch_vv vclmul_high vclmul_high vclmul_high vclmul_high d s1 s2 vm l sew s)
      else if op = VCLMULH_VX then Some (dispatch_vx vclmul_high vclmul_high vclmul_high vclmul_high d rs1_val s2 vm l sew s)
      else None)"

definition vgt_f :: "'a::len word \<Rightarrow> 'a word \<Rightarrow> bool" where
  "vgt_f a b \<longleftrightarrow> b <s a"

definition vgtu_f :: "'a::len word \<Rightarrow> 'a word \<Rightarrow> bool" where
  "vgtu_f a b \<longleftrightarrow> b < a"

definition vne_f :: "'a::len word \<Rightarrow> 'a word \<Rightarrow> bool" where
  "vne_f a b \<longleftrightarrow> a \<noteq> b"

definition execute_vector_int_cmp ::
    "OperationId \<Rightarrow> RegId \<Rightarrow> RegId \<Rightarrow> RegId \<Rightarrow> bool \<Rightarrow> u32
        \<Rightarrow> u32 \<Rightarrow> Register \<Rightarrow> u32 \<Rightarrow> ArchState \<Rightarrow> ArchState option"
        where
  "execute_vector_int_cmp op d s1 s2 vm l sew rs1_val simm s =
     (if op = VMSEQ_VV then Some (dispatch_cmp_vv (=) (=) (=) (=) d s1 s2 vm l sew s)
      else if op = VMSEQ_VX then Some (dispatch_cmp_vx (=) (=) (=) (=) d rs1_val s2 vm l sew s)
      else if op = VMSEQ_VI then Some (dispatch_cmp_vi (=) (=) (=) (=) d simm s2 vm l sew s)
      else if op = VMSNE_VV then Some (dispatch_cmp_vv vne_f vne_f vne_f vne_f d s1 s2 vm l sew s)
      else if op = VMSNE_VX then Some (dispatch_cmp_vx vne_f vne_f vne_f vne_f d rs1_val s2 vm l sew s)
      else if op = VMSNE_VI then Some (dispatch_cmp_vi vne_f vne_f vne_f vne_f d simm s2 vm l sew s)
      else if op = VMSLT_VV then Some (dispatch_cmp_vv (<s) (<s) (<s) (<s) d s1 s2 vm l sew s)
      else if op = VMSLT_VX then Some (dispatch_cmp_vx (<s) (<s) (<s) (<s) d rs1_val s2 vm l sew s)
      else if op = VMSLTU_VV then Some (dispatch_cmp_vv (<) (<) (<) (<) d s1 s2 vm l sew s)
      else if op = VMSLTU_VX then Some (dispatch_cmp_vx (<) (<) (<) (<) d rs1_val s2 vm l sew s)
      else if op = VMSLE_VV then Some (dispatch_cmp_vv (\<le>s) (\<le>s) (\<le>s) (\<le>s) d s1 s2 vm l sew s)
      else if op = VMSLE_VX then Some (dispatch_cmp_vx (\<le>s) (\<le>s) (\<le>s) (\<le>s) d rs1_val s2 vm l sew s)
      else if op = VMSLE_VI then Some (dispatch_cmp_vi (\<le>s) (\<le>s) (\<le>s) (\<le>s) d simm s2 vm l sew s)
      else if op = VMSLEU_VV then Some (dispatch_cmp_vv (\<le>) (\<le>) (\<le>) (\<le>) d s1 s2 vm l sew s)
      else if op = VMSLEU_VX then Some (dispatch_cmp_vx (\<le>) (\<le>) (\<le>) (\<le>) d rs1_val s2 vm l sew s)
      else if op = VMSLEU_VI then Some (dispatch_cmp_vi (\<le>) (\<le>) (\<le>) (\<le>) d simm s2 vm l sew s)
      else if op = VMSGT_VX then Some (dispatch_cmp_vx vgt_f vgt_f vgt_f vgt_f d rs1_val s2 vm l sew s)
      else if op = VMSGT_VI then Some (dispatch_cmp_vi vgt_f vgt_f vgt_f vgt_f d simm s2 vm l sew s)
      else if op = VMSGTU_VX then Some (dispatch_cmp_vx vgtu_f vgtu_f vgtu_f vgtu_f d rs1_val s2 vm l sew s)
      else if op = VMSGTU_VI then Some (dispatch_cmp_vi vgtu_f vgtu_f vgtu_f vgtu_f d simm s2 vm l sew s)
      else None)"

text \<open>A chain of tests without a final \<^verbatim>\<open>else\<close> does nothing for the other widths.\<close>

definition if_sew :: "u32 \<Rightarrow> (u32 \<times> (ArchState \<Rightarrow> ArchState)) list \<Rightarrow> ArchState
    \<Rightarrow> ArchState" where
  "if_sew sew cases = (case map_of cases sew of Some g \<Rightarrow> g | None \<Rightarrow> (\<lambda>s. s))"

definition execute_vector_int_narrow_shifts ::
    "OperationId \<Rightarrow> RegId \<Rightarrow> RegId \<Rightarrow> RegId \<Rightarrow> bool \<Rightarrow> u32
        \<Rightarrow> u32 \<Rightarrow> Register \<Rightarrow> u32 \<Rightarrow> ArchState \<Rightarrow> ArchState option"
        where
  "execute_vector_int_narrow_shifts op d s1 s2 vm l sew rs1_val simm s =
     (if op = VNSRL_WV then Some (if_sew sew [(8, execute_vnsrl_wv TYPE(8) TYPE(16) d s1 s2 vm l),
         (16, execute_vnsrl_wv TYPE(16) TYPE(32) d s1 s2 vm l), (32, execute_vnsrl_wv TYPE(32) TYPE(64) d s1 s2 vm l)] s)
      else if op = VNSRL_WX then Some (if_sew sew [(8, execute_vnsrl_wx TYPE(8) TYPE(16) d rs1_val s2 vm l),
          (16, execute_vnsrl_wx TYPE(16) TYPE(32) d rs1_val s2 vm l),
          (32, execute_vnsrl_wx TYPE(32) TYPE(64) d rs1_val s2 vm l)] s)
      else if op = VNSRL_WI then Some (if_sew sew [(8, execute_vnsrl_wi TYPE(8) TYPE(16) d (simm AND 0x1F) s2 vm l),
          (16, execute_vnsrl_wi TYPE(16) TYPE(32) d (simm AND 0x1F) s2 vm l),
          (32, execute_vnsrl_wi TYPE(32) TYPE(64) d (simm AND 0x1F) s2 vm l)] s)
      else if op = VNSRA_WV then Some (if_sew sew [(8, execute_vnsra_wv TYPE(8) TYPE(16) d s1 s2 vm l),
          (16, execute_vnsra_wv TYPE(16) TYPE(32) d s1 s2 vm l), (32, execute_vnsra_wv TYPE(32) TYPE(64) d s1 s2 vm l)] s)
      else if op = VNSRA_WX then Some (if_sew sew [(8, execute_vnsra_wx TYPE(8) TYPE(16) d rs1_val s2 vm l),
          (16, execute_vnsra_wx TYPE(16) TYPE(32) d rs1_val s2 vm l),
          (32, execute_vnsra_wx TYPE(32) TYPE(64) d rs1_val s2 vm l)] s)
      else if op = VNSRA_WI then Some (if_sew sew [(8, execute_vnsra_wi TYPE(8) TYPE(16) d (simm AND 0x1F) s2 vm l),
          (16, execute_vnsra_wi TYPE(16) TYPE(32) d (simm AND 0x1F) s2 vm l),
          (32, execute_vnsra_wi TYPE(32) TYPE(64) d (simm AND 0x1F) s2 vm l)] s)
      else None)"

definition execute_vector_int_mac ::
    "OperationId \<Rightarrow> RegId \<Rightarrow> RegId \<Rightarrow> RegId \<Rightarrow> bool \<Rightarrow> u32
        \<Rightarrow> u32 \<Rightarrow> Register \<Rightarrow> u32 \<Rightarrow> ArchState \<Rightarrow> ArchState option"
        where
  "execute_vector_int_mac op d s1 s2 vm l sew rs1_val simm s =
     (if op = VMACC_VV \<or> op = VMADD_VV \<or> op = VNMSAC_VV \<or> op = VNSUB_VV then Some
         (by_sew sew (perform_mac_vv TYPE(8) d s1 s2 vm l (op = VMACC_VV \<or> op = VNMSAC_VV)
         (op = VNMSAC_VV \<or> op = VNSUB_VV))
          (perform_mac_vv TYPE(16) d s1 s2 vm l (op = VMACC_VV \<or> op = VNMSAC_VV) (op = VNMSAC_VV \<or> op = VNSUB_VV))
          (perform_mac_vv TYPE(32) d s1 s2 vm l (op = VMACC_VV \<or> op = VNMSAC_VV) (op = VNMSAC_VV \<or> op = VNSUB_VV))
          (perform_mac_vv TYPE(64) d s1 s2 vm l (op = VMACC_VV \<or> op = VNMSAC_VV) (op = VNMSAC_VV \<or> op = VNSUB_VV)) s)
      else if op = VMACC_VX \<or> op = VMADD_VX \<or> op = VNMSAC_VX \<or> op = VNSUB_VX then Some
          (by_sew sew (perform_mac_vx TYPE(8) d rs1_val s2 vm l (op = VMACC_VX \<or> op = VNMSAC_VX)
          (op = VNMSAC_VX \<or> op = VNSUB_VX))
          (perform_mac_vx TYPE(16) d rs1_val s2 vm l (op = VMACC_VX \<or> op = VNMSAC_VX)
              (op = VNMSAC_VX \<or> op = VNSUB_VX))
          (perform_mac_vx TYPE(32) d rs1_val s2 vm l (op = VMACC_VX \<or> op = VNMSAC_VX)
              (op = VNMSAC_VX \<or> op = VNSUB_VX))
          (perform_mac_vx TYPE(64) d rs1_val s2 vm l (op = VMACC_VX \<or> op = VNMSAC_VX)
              (op = VNMSAC_VX \<or> op = VNSUB_VX)) s)
      else if op = VWMACCU_VV then Some (if_sew sew [(8, perform_widening_mac_vv (ucast :: u8 \<Rightarrow> u16)
          (ucast :: u8 \<Rightarrow> u16) d s1 s2 vm l), (16, perform_widening_mac_vv (ucast :: u16 \<Rightarrow> u32)
          (ucast :: u16 \<Rightarrow> u32) d s1 s2 vm l), (32, perform_widening_mac_vv (ucast :: u32 \<Rightarrow> u64)
          (ucast :: u32 \<Rightarrow> u64) d s1 s2 vm l)] s)
      else if op = VWMACCU_VX then Some (if_sew sew [(8, perform_widening_mac_vx (ucast :: u8 \<Rightarrow> u16)
          (ucast :: u8 \<Rightarrow> u16) d rs1_val s2 vm l),
          (16, perform_widening_mac_vx (ucast :: u16 \<Rightarrow> u32) (ucast :: u16 \<Rightarrow> u32) d rs1_val s2 vm l),
          (32, perform_widening_mac_vx (ucast :: u32 \<Rightarrow> u64) (ucast :: u32 \<Rightarrow> u64) d rs1_val s2 vm l)]
          s)
      else if op = VWMACC_VV then Some (if_sew sew [(8, perform_widening_mac_vv (scast :: u8 \<Rightarrow> u16)
          (scast :: u8 \<Rightarrow> u16) d s1 s2 vm l), (16, perform_widening_mac_vv (scast :: u16 \<Rightarrow> u32)
          (scast :: u16 \<Rightarrow> u32) d s1 s2 vm l), (32, perform_widening_mac_vv (scast :: u32 \<Rightarrow> u64)
          (scast :: u32 \<Rightarrow> u64) d s1 s2 vm l)] s)
      else if op = VWMACC_VX then Some (if_sew sew [(8, perform_widening_mac_vx (scast :: u8 \<Rightarrow> u16)
          (scast :: u8 \<Rightarrow> u16) d rs1_val s2 vm l),
          (16, perform_widening_mac_vx (scast :: u16 \<Rightarrow> u32) (scast :: u16 \<Rightarrow> u32) d rs1_val s2 vm l),
          (32, perform_widening_mac_vx (scast :: u32 \<Rightarrow> u64) (scast :: u32 \<Rightarrow> u64) d rs1_val s2 vm l)]
          s)
      else if op = VWMACCUS_VX then Some (if_sew sew [(8, perform_widening_mac_vx (ucast :: u8 \<Rightarrow> u16)
          (scast :: u8 \<Rightarrow> u16) d rs1_val s2 vm l),
          (16, perform_widening_mac_vx (ucast :: u16 \<Rightarrow> u32) (scast :: u16 \<Rightarrow> u32) d rs1_val s2 vm l),
          (32, perform_widening_mac_vx (ucast :: u32 \<Rightarrow> u64) (scast :: u32 \<Rightarrow> u64) d rs1_val s2 vm l)]
          s)
      else if op = VWMACCSU_VV then Some (if_sew sew [(8, perform_widening_mac_vv (scast :: u8 \<Rightarrow> u16)
          (ucast :: u8 \<Rightarrow> u16) d s1 s2 vm l), (16, perform_widening_mac_vv (scast :: u16 \<Rightarrow> u32)
          (ucast :: u16 \<Rightarrow> u32) d s1 s2 vm l), (32, perform_widening_mac_vv (scast :: u32 \<Rightarrow> u64)
          (ucast :: u32 \<Rightarrow> u64) d s1 s2 vm l)] s)
      else if op = VWMACCSU_VX then Some (if_sew sew [(8, perform_widening_mac_vx (scast :: u8 \<Rightarrow> u16)
          (ucast :: u8 \<Rightarrow> u16) d rs1_val s2 vm l),
          (16, perform_widening_mac_vx (scast :: u16 \<Rightarrow> u32) (ucast :: u16 \<Rightarrow> u32) d rs1_val s2 vm l),
          (32, perform_widening_mac_vx (scast :: u32 \<Rightarrow> u64) (ucast :: u32 \<Rightarrow> u64) d rs1_val s2 vm l)]
          s)
      else None)"

definition execute_vector_int_widening_arith ::
    "OperationId \<Rightarrow> RegId \<Rightarrow> RegId \<Rightarrow> RegId \<Rightarrow> bool \<Rightarrow> u32
        \<Rightarrow> u32 \<Rightarrow> Register \<Rightarrow> u32 \<Rightarrow> ArchState \<Rightarrow> ArchState option"
        where
  "execute_vector_int_widening_arith op d s1 s2 vm l sew rs1_val simm s =
     (if op = VREDSUM_VS then Some (by_sew sew (execute_vredsum_vs TYPE(8) d s1 s2 vm l)
         (execute_vredsum_vs TYPE(16) d s1 s2 vm l) (execute_vredsum_vs TYPE(32) d s1 s2 vm l)
         (execute_vredsum_vs TYPE(64) d s1 s2 vm l) s)
      else if op = VWMUL_VV then Some (by_sew3 sew (execute_vwmul_vv (scast :: u8 \<Rightarrow> u16) d s1 s2 vm l)
          (execute_vwmul_vv (scast :: u16 \<Rightarrow> u32) d s1 s2 vm l)
          (execute_vwmul_vv (scast :: u32 \<Rightarrow> u64) d s1 s2 vm l) s)
      else if op = VWMUL_VX then Some (by_sew3 sew (execute_vwmul_vx (scast :: u8 \<Rightarrow> u16) d rs1_val s2 vm l)
          (execute_vwmul_vx (scast :: u16 \<Rightarrow> u32) d rs1_val s2 vm l)
          (execute_vwmul_vx (scast :: u32 \<Rightarrow> u64) d rs1_val s2 vm l) s)
      else if op = VWADD_VV then Some (by_sew3 sew (execute_vwadd_vv (scast :: u8 \<Rightarrow> u16) d s1 s2 vm l)
          (execute_vwadd_vv (scast :: u16 \<Rightarrow> u32) d s1 s2 vm l)
          (execute_vwadd_vv (scast :: u32 \<Rightarrow> u64) d s1 s2 vm l) s)
      else if op = VWADD_VX then Some (by_sew3 sew (execute_vwadd_vx (scast :: u8 \<Rightarrow> u16) d rs1_val s2 vm l)
          (execute_vwadd_vx (scast :: u16 \<Rightarrow> u32) d rs1_val s2 vm l)
          (execute_vwadd_vx (scast :: u32 \<Rightarrow> u64) d rs1_val s2 vm l) s)
      else if op = VWADD_WV then Some (by_sew3 sew (execute_vwadd_wv (scast :: u8 \<Rightarrow> u16) d s1 s2 vm l)
          (execute_vwadd_wv (scast :: u16 \<Rightarrow> u32) d s1 s2 vm l)
          (execute_vwadd_wv (scast :: u32 \<Rightarrow> u64) d s1 s2 vm l) s)
      else if op = VWADD_WX then Some (by_sew3 sew (execute_vwadd_wx (scast :: u8 \<Rightarrow> u16) d rs1_val s2 vm l)
          (execute_vwadd_wx (scast :: u16 \<Rightarrow> u32) d rs1_val s2 vm l)
          (execute_vwadd_wx (scast :: u32 \<Rightarrow> u64) d rs1_val s2 vm l) s)
      else if op = VWADDU_VV then Some (by_sew3 sew (execute_vwadd_vv (ucast :: u8 \<Rightarrow> u16) d s1 s2 vm l)
          (execute_vwadd_vv (ucast :: u16 \<Rightarrow> u32) d s1 s2 vm l)
          (execute_vwadd_vv (ucast :: u32 \<Rightarrow> u64) d s1 s2 vm l) s)
      else if op = VWADDU_VX then Some (by_sew3 sew (execute_vwadd_vx (ucast :: u8 \<Rightarrow> u16) d rs1_val s2 vm l)
          (execute_vwadd_vx (ucast :: u16 \<Rightarrow> u32) d rs1_val s2 vm l)
          (execute_vwadd_vx (ucast :: u32 \<Rightarrow> u64) d rs1_val s2 vm l) s)
      else if op = VWADDU_WV then Some (by_sew3 sew (execute_vwadd_wv (ucast :: u8 \<Rightarrow> u16) d s1 s2 vm l)
          (execute_vwadd_wv (ucast :: u16 \<Rightarrow> u32) d s1 s2 vm l)
          (execute_vwadd_wv (ucast :: u32 \<Rightarrow> u64) d s1 s2 vm l) s)
      else if op = VWADDU_WX then Some (by_sew3 sew (execute_vwadd_wx (ucast :: u8 \<Rightarrow> u16) d rs1_val s2 vm l)
          (execute_vwadd_wx (ucast :: u16 \<Rightarrow> u32) d rs1_val s2 vm l)
          (execute_vwadd_wx (ucast :: u32 \<Rightarrow> u64) d rs1_val s2 vm l) s)
      else if op = VWSUB_VV then Some (by_sew3 sew (execute_vwsub_vv (scast :: u8 \<Rightarrow> u16) d s1 s2 vm l)
          (execute_vwsub_vv (scast :: u16 \<Rightarrow> u32) d s1 s2 vm l)
          (execute_vwsub_vv (scast :: u32 \<Rightarrow> u64) d s1 s2 vm l) s)
      else if op = VWSUB_VX then Some (by_sew3 sew (execute_vwsub_vx (scast :: u8 \<Rightarrow> u16) d rs1_val s2 vm l)
          (execute_vwsub_vx (scast :: u16 \<Rightarrow> u32) d rs1_val s2 vm l)
          (execute_vwsub_vx (scast :: u32 \<Rightarrow> u64) d rs1_val s2 vm l) s)
      else if op = VWSUB_WV then Some (by_sew3 sew (execute_vwsub_wv (scast :: u8 \<Rightarrow> u16) d s1 s2 vm l)
          (execute_vwsub_wv (scast :: u16 \<Rightarrow> u32) d s1 s2 vm l)
          (execute_vwsub_wv (scast :: u32 \<Rightarrow> u64) d s1 s2 vm l) s)
      else if op = VWSUB_WX then Some (by_sew3 sew (execute_vwsub_wx (scast :: u8 \<Rightarrow> u16) d rs1_val s2 vm l)
          (execute_vwsub_wx (scast :: u16 \<Rightarrow> u32) d rs1_val s2 vm l)
          (execute_vwsub_wx (scast :: u32 \<Rightarrow> u64) d rs1_val s2 vm l) s)
      else if op = VWSUBU_VV then Some (by_sew3 sew (execute_vwsub_vv (ucast :: u8 \<Rightarrow> u16) d s1 s2 vm l)
          (execute_vwsub_vv (ucast :: u16 \<Rightarrow> u32) d s1 s2 vm l)
          (execute_vwsub_vv (ucast :: u32 \<Rightarrow> u64) d s1 s2 vm l) s)
      else if op = VWSUBU_VX then Some (by_sew3 sew (execute_vwsub_vx (ucast :: u8 \<Rightarrow> u16) d rs1_val s2 vm l)
          (execute_vwsub_vx (ucast :: u16 \<Rightarrow> u32) d rs1_val s2 vm l)
          (execute_vwsub_vx (ucast :: u32 \<Rightarrow> u64) d rs1_val s2 vm l) s)
      else if op = VWSUBU_WV then Some (by_sew3 sew (execute_vwsub_wv (ucast :: u8 \<Rightarrow> u16) d s1 s2 vm l)
          (execute_vwsub_wv (ucast :: u16 \<Rightarrow> u32) d s1 s2 vm l)
          (execute_vwsub_wv (ucast :: u32 \<Rightarrow> u64) d s1 s2 vm l) s)
      else if op = VWSUBU_WX then Some (by_sew3 sew (execute_vwsub_wx (ucast :: u8 \<Rightarrow> u16) d rs1_val s2 vm l)
          (execute_vwsub_wx (ucast :: u16 \<Rightarrow> u32) d rs1_val s2 vm l)
          (execute_vwsub_wx (ucast :: u32 \<Rightarrow> u64) d rs1_val s2 vm l) s)
      else if op = VWMULU_VV then Some (if_sew sew [(8, execute_vwmul_vv (ucast :: u8 \<Rightarrow> u16) d s1 s2 vm l),
          (16, execute_vwmul_vv (ucast :: u16 \<Rightarrow> u32) d s1 s2 vm l),
          (64, execute_vwmul_vv (ucast :: u32 \<Rightarrow> u64) d s1 s2 vm l)] s)
      else if op = VWMULU_VX then Some (if_sew sew [(8, execute_vwmul_vx (ucast :: u8 \<Rightarrow> u16) d rs1_val s2 vm l),
          (16, execute_vwmul_vx (ucast :: u16 \<Rightarrow> u32) d rs1_val s2 vm l),
          (64, execute_vwmul_vx (ucast :: u32 \<Rightarrow> u64) d rs1_val s2 vm l)] s)
      else if op = VWMULSU_VV then Some (if_sew sew [(8, execute_vwmulsu_vv TYPE(16) TYPE(8) d s1 s2 vm l),
          (16, execute_vwmulsu_vv TYPE(32) TYPE(16) d s1 s2 vm l), (64, execute_vwmulsu_vv TYPE(64) TYPE(32) d s1 s2 vm l)]
          s)
      else if op = VWMULSU_VX then Some (if_sew sew [(8, execute_vwmulsu_vx TYPE(16) TYPE(8) d rs1_val s2 vm l),
          (16, execute_vwmulsu_vx TYPE(32) TYPE(16) d rs1_val s2 vm l),
          (64, execute_vwmulsu_vx TYPE(64) TYPE(32) d rs1_val s2 vm l)] s)
      else if op = VWREDSUM_VS then Some (by_sew3 sew (execute_vwredsum_vs (scast :: u8 \<Rightarrow> u16) d s1 s2 vm l)
          (execute_vwredsum_vs (scast :: u16 \<Rightarrow> u32) d s1 s2 vm l)
          (execute_vwredsum_vs (scast :: u32 \<Rightarrow> u64) d s1 s2 vm l) s)
      else if op = VWREDSUMU_VS then Some (by_sew3 sew (execute_vwredsum_vs (ucast :: u8 \<Rightarrow> u16) d s1 s2 vm l)
          (execute_vwredsum_vs (ucast :: u16 \<Rightarrow> u32) d s1 s2 vm l)
          (execute_vwredsum_vs (ucast :: u32 \<Rightarrow> u64) d s1 s2 vm l) s)
      else None)"

definition execute_vector_int_carry_ext ::
    "OperationId \<Rightarrow> RegId \<Rightarrow> RegId \<Rightarrow> RegId \<Rightarrow> bool \<Rightarrow> u32
        \<Rightarrow> u32 \<Rightarrow> Register \<Rightarrow> u32 \<Rightarrow> ArchState \<Rightarrow> ArchState option"
        where
  "execute_vector_int_carry_ext op d s1 s2 vm l sew rs1_val simm s =
     (if op = VSBC_VVM then Some (by_sew sew (execute_vsbc_vv TYPE(8) d s1 s2 l) (execute_vsbc_vv TYPE(16) d s1 s2 l)
         (execute_vsbc_vv TYPE(32) d s1 s2 l) (execute_vsbc_vv TYPE(64) d s1 s2 l) s)
      else if op = VSBC_VXM then Some (by_sew sew (execute_vsbc_vx TYPE(8) d rs1_val s2 l)
          (execute_vsbc_vx TYPE(16) d rs1_val s2 l) (execute_vsbc_vx TYPE(32) d rs1_val s2 l)
          (execute_vsbc_vx TYPE(64) d rs1_val s2 l) s)
      else if op = VSEXT_VF2 then Some (if_sew sew [(16, execute_vsext (scast :: u8 \<Rightarrow> u16) d s2 vm l),
          (32, execute_vsext (scast :: u16 \<Rightarrow> u32) d s2 vm l),
          (64, execute_vsext (scast :: u32 \<Rightarrow> u64) d s2 vm l)] s)
      else if op = VSEXT_VF4 then Some (if_sew sew [(32, execute_vsext (scast :: u8 \<Rightarrow> u32) d s2 vm l),
          (64, execute_vsext (scast :: u16 \<Rightarrow> u64) d s2 vm l)] s)
      else if op = VSEXT_VF8 then Some (if_sew sew [(64, execute_vsext (scast :: u8 \<Rightarrow> u64) d s2 vm l)] s)
      else if op = VZEXT_VF2 then Some (if_sew sew [(16, execute_vsext (ucast :: u8 \<Rightarrow> u16) d s2 vm l),
          (32, execute_vsext (ucast :: u16 \<Rightarrow> u32) d s2 vm l),
          (64, execute_vsext (ucast :: u32 \<Rightarrow> u64) d s2 vm l)] s)
      else if op = VZEXT_VF4 then Some (if_sew sew [(32, execute_vsext (ucast :: u8 \<Rightarrow> u32) d s2 vm l),
          (64, execute_vsext (ucast :: u16 \<Rightarrow> u64) d s2 vm l)] s)
      else if op = VZEXT_VF8 then Some (if_sew sew [(64, execute_vsext (ucast :: u8 \<Rightarrow> u64) d s2 vm l)] s)
      else if op = VADC_VVM then Some (by_sew sew (execute_vadc_vv TYPE(8) d s1 s2 l) (execute_vadc_vv TYPE(16) d s1 s2 l)
          (execute_vadc_vv TYPE(32) d s1 s2 l) (execute_vadc_vv TYPE(64) d s1 s2 l) s)
      else if op = VADC_VXM then Some (by_sew sew (execute_vadc_vx TYPE(8) d rs1_val s2 l)
          (execute_vadc_vx TYPE(16) d rs1_val s2 l) (execute_vadc_vx TYPE(32) d rs1_val s2 l)
          (execute_vadc_vx TYPE(64) d rs1_val s2 l) s)
      else if op = VADC_VIM then Some (by_sew sew (execute_vadc_vi TYPE(8) d simm s2 l)
          (execute_vadc_vi TYPE(16) d simm s2 l) (execute_vadc_vi TYPE(32) d simm s2 l)
          (execute_vadc_vi TYPE(64) d simm s2 l) s)
      else if op = VMADC_VV \<or> op = VMADC_VVM then Some (by_sew sew (execute_vmadc_vv TYPE(8) d s1 s2 vm l)
          (execute_vmadc_vv TYPE(16) d s1 s2 vm l) (execute_vmadc_vv TYPE(32) d s1 s2 vm l)
          (execute_vmadc_vv TYPE(64) d s1 s2 vm l) s)
      else if op = VMADC_VX \<or> op = VMADC_VXM then Some (by_sew sew (execute_vmadc_vx TYPE(8) d rs1_val s2 vm l)
          (execute_vmadc_vx TYPE(16) d rs1_val s2 vm l) (execute_vmadc_vx TYPE(32) d rs1_val s2 vm l)
          (execute_vmadc_vx TYPE(64) d rs1_val s2 vm l) s)
      else if op = VMADC_VI \<or> op = VMADC_VIM then Some (by_sew sew (execute_vmadc_vi TYPE(8) d simm s2 vm l)
          (execute_vmadc_vi TYPE(16) d simm s2 vm l) (execute_vmadc_vi TYPE(32) d simm s2 vm l)
          (execute_vmadc_vi TYPE(64) d simm s2 vm l) s)
      else if op = VMSBC_VV \<or> op = VMSBC_VVM then Some (by_sew sew (execute_vmsbc_vv TYPE(8) d s1 s2 vm l)
          (execute_vmsbc_vv TYPE(16) d s1 s2 vm l) (execute_vmsbc_vv TYPE(32) d s1 s2 vm l)
          (execute_vmsbc_vv TYPE(64) d s1 s2 vm l) s)
      else if op = VMSBC_VX \<or> op = VMSBC_VXM then Some (by_sew sew (execute_vmsbc_vx TYPE(8) d rs1_val s2 vm l)
          (execute_vmsbc_vx TYPE(16) d rs1_val s2 vm l) (execute_vmsbc_vx TYPE(32) d rs1_val s2 vm l)
          (execute_vmsbc_vx TYPE(64) d rs1_val s2 vm l) s)
      else None)"

definition execute_vector_int_mask_bitmanip ::
    "OperationId \<Rightarrow> RegId \<Rightarrow> RegId \<Rightarrow> RegId \<Rightarrow> bool \<Rightarrow> u32
        \<Rightarrow> u32 \<Rightarrow> Register \<Rightarrow> u32 \<Rightarrow> ArchState \<Rightarrow> ArchState option"
        where
  "execute_vector_int_mask_bitmanip op d s1 s2 vm l sew rs1_val simm s =
     (if op = VMSBF_M then Some (execute_vmsbf_m d s2 vm l s)
      else if op = VMSIF_M then Some (execute_vmsif_m d s2 vm l s)
      else if op = VMSOF_M then Some (execute_vmsof_m d s2 vm l s)
      else if op = VFIRST_M then Some (execute_vfirst_m d s2 vm l s)
      else if op = VCPOP_M then Some (execute_vcpop_m d s2 vm l s)
      else if op = VMAND_MM \<or> op = VMNAND_MM \<or> op = VMANDN_MM \<or> op = VMXOR_MM \<or> op = VMOR_MM \<or> op =
          VMNOR_MM \<or> op = VMORN_MM \<or> op = VMXNOR_MM then Some (execute_mask_logical d s1 s2 l op s)
      else if op = VIOTA_M then Some (by_sew sew (execute_viota_m TYPE(8) d s2 vm l) (execute_viota_m TYPE(16) d s2 vm l)
          (execute_viota_m TYPE(32) d s2 vm l) (execute_viota_m TYPE(64) d s2 vm l) s)
      else if op = VCLZ_V then Some (by_sew sew (execute_vclz TYPE(8) d s2 vm l) (execute_vclz TYPE(16) d s2 vm l)
          (execute_vclz TYPE(32) d s2 vm l) (execute_vclz TYPE(64) d s2 vm l) s)
      else if op = VCTZ_V then Some (by_sew sew (execute_vctz TYPE(8) d s2 vm l) (execute_vctz TYPE(16) d s2 vm l)
          (execute_vctz TYPE(32) d s2 vm l) (execute_vctz TYPE(64) d s2 vm l) s)
      else if op = VCPOP_V then Some (by_sew sew (execute_vcpop_v TYPE(8) d s2 vm l) (execute_vcpop_v TYPE(16) d s2 vm l)
          (execute_vcpop_v TYPE(32) d s2 vm l) (execute_vcpop_v TYPE(64) d s2 vm l) s)
      else if op = VBREV_V then Some (by_sew sew (perform_vv (\<lambda>(a :: u8) _. bit_reverse a) d s2 s2 vm l)
          (perform_vv (\<lambda>(a :: u16) _. bit_reverse a) d s2 s2 vm l)
          (perform_vv (\<lambda>(a :: u32) _. bit_reverse a) d s2 s2 vm l)
          (perform_vv (\<lambda>(a :: u64) _. bit_reverse a) d s2 s2 vm l) s)
      else if op = VBREV8_V then Some (by_sew sew (perform_vv (\<lambda>(a :: u8) _. bit_reverse_bytes a) d s2 s2 vm l)
          (perform_vv (\<lambda>(a :: u16) _. bit_reverse_bytes a) d s2 s2 vm l)
          (perform_vv (\<lambda>(a :: u32) _. bit_reverse_bytes a) d s2 s2 vm l)
          (perform_vv (\<lambda>(a :: u64) _. bit_reverse_bytes a) d s2 s2 vm l) s)
      else if op = VREV8_V then Some (by_sew sew (perform_vv (\<lambda>(a :: u8) _. byteswap_element a) d s2 s2 vm l)
          (perform_vv (\<lambda>(a :: u16) _. byteswap_element a) d s2 s2 vm l)
          (perform_vv (\<lambda>(a :: u32) _. byteswap_element a) d s2 s2 vm l)
          (perform_vv (\<lambda>(a :: u64) _. byteswap_element a) d s2 s2 vm l) s)
      else if op = VWSLL_VV then Some (by_sew3 sew (execute_vwsll_vv TYPE(16) TYPE(8) d s1 s2 vm l)
          (execute_vwsll_vv TYPE(32) TYPE(16) d s1 s2 vm l) (execute_vwsll_vv TYPE(64) TYPE(32) d s1 s2 vm l) s)
      else if op = VWSLL_VX then Some (by_sew3 sew (execute_vwsll_vx TYPE(16) TYPE(8) d rs1_val s2 vm l)
          (execute_vwsll_vx TYPE(32) TYPE(16) d rs1_val s2 vm l) (execute_vwsll_vx TYPE(64) TYPE(32) d rs1_val s2 vm l) s)
      else if op = VWSLL_VI then Some (by_sew3 sew (execute_vwsll_vi TYPE(16) TYPE(8) d simm s2 vm l)
          (execute_vwsll_vi TYPE(32) TYPE(16) d simm s2 vm l) (execute_vwsll_vi TYPE(64) TYPE(32) d simm s2 vm l) s)
      else None)"

definition execute_vector_integer ::
    "OperationId \<Rightarrow> RegId \<Rightarrow> RegId \<Rightarrow> RegId \<Rightarrow> bool \<Rightarrow> u32
        \<Rightarrow> u32 \<Rightarrow> Register \<Rightarrow> u32 \<Rightarrow> ArchState \<Rightarrow> ArchState" where
  "execute_vector_integer op d s1 s2 vm l sew rs1_val simm s =
     (case execute_vector_int_arith op d s1 s2 vm l sew rs1_val simm s of Some s1' \<Rightarrow> s1' | None \<Rightarrow>
      case execute_vector_int_logic_shifts op d s1 s2 vm l sew rs1_val simm s of Some s1' \<Rightarrow> s1' | None
          \<Rightarrow>
      case execute_vector_int_cmp op d s1 s2 vm l sew rs1_val simm s of Some s1' \<Rightarrow> s1' | None \<Rightarrow>
      case execute_vector_int_narrow_shifts op d s1 s2 vm l sew rs1_val simm s of Some s1' \<Rightarrow> s1' | None
          \<Rightarrow>
      case execute_vector_int_mac op d s1 s2 vm l sew rs1_val simm s of Some s1' \<Rightarrow> s1' | None \<Rightarrow>
      case execute_vector_int_widening_arith op d s1 s2 vm l sew rs1_val simm s of Some s1' \<Rightarrow> s1' | None
          \<Rightarrow>
      case execute_vector_int_carry_ext op d s1 s2 vm l sew rs1_val simm s of Some s1' \<Rightarrow> s1' | None \<Rightarrow>
      case execute_vector_int_mask_bitmanip op d s1 s2 vm l sew rs1_val simm s of Some s1' \<Rightarrow> s1' | None
          \<Rightarrow>
      s)"

subsection \<open>Carries and widening\<close>

lemma uint_borrow_value: "1 < LENGTH('a::len) \<Longrightarrow> uint (borrow_value c :: 'a word) = of_bool c"
  by (simp add: borrow_value_def)

lemma mod_once:
  fixes x :: int
  shows "0 \<le> x \<Longrightarrow> x < 2 * m \<Longrightarrow> x mod m = (if x < m then x else x - m)"
    and "- m \<le> x \<Longrightarrow> x < m \<Longrightarrow> x mod m = (if x < 0 then x + m else x)"
  using mod_pos_pos_trivial [of "x - m" m] minus_mod_self2 [of x m] mod_pos_pos_trivial [of "x + m" m] mod_add_self2 [of x m]
  by (auto simp: mod_pos_pos_trivial)

lemma carry_out_exact:
  fixes a b :: "'a::len word"
  assumes "1 < LENGTH('a)"
  shows "uint (a + b + borrow_value c) + 2 ^ LENGTH('a) * of_bool (calc_carry_out a b c) = uint a + uint b + of_bool c"
proof -
  let ?M = "2 ^ LENGTH('a) :: int"
  have r: "0 \<le> uint a" "uint a < ?M" "0 \<le> uint b" "uint b < ?M" using uint_lt2p [of a] uint_lt2p [of b] by simp_all
  have c: "0 \<le> (of_bool c :: int)" "of_bool c \<le> (1 :: int)" by simp_all
  have s: "uint (a + b + borrow_value c) = (uint a + uint b + of_bool c) mod ?M"
    using uint_borrow_value [OF assms, of c] by (simp add: uint_word_ariths mod_simps)
  have "(uint a + uint b + of_bool c) mod ?M =
      (if uint a + uint b + of_bool c < ?M then uint a + uint b + of_bool c else uint a + uint b + of_bool c - ?M)"
    by (rule mod_once(1); use r c in linarith)
  note v = s [unfolded this]
  have "calc_carry_out a b c \<longleftrightarrow> (if c then uint (a + b + borrow_value c) \<le> uint a else uint
      (a + b + borrow_value c) < uint a)"
    by (simp add: calc_carry_out_def borrow_value_def Let_def word_less_def word_le_def)
  then have "calc_carry_out a b c \<longleftrightarrow> ?M \<le> uint a + uint b + of_bool c"
    unfolding v using r by (simp only: of_bool_def split: if_split) linarith
  then show ?thesis unfolding v by (simp add: not_less)
qed

lemma borrow_out_exact:
  fixes a b :: "'a::len word"
  assumes "1 < LENGTH('a)"
  shows "uint (a - b - borrow_value c) - 2 ^ LENGTH('a) * of_bool (calc_borrow_out a b c) = uint a - uint b - of_bool c"
proof -
  let ?M = "2 ^ LENGTH('a) :: int"
  have r: "0 \<le> uint a" "uint a < ?M" "0 \<le> uint b" "uint b < ?M" using uint_lt2p [of a] uint_lt2p [of b] by simp_all
  have c: "0 \<le> (of_bool c :: int)" "of_bool c \<le> (1 :: int)" by simp_all
  have s: "uint (a - b - borrow_value c) = (uint a - uint b - of_bool c) mod ?M"
    using uint_borrow_value [OF assms, of c] by (simp add: uint_word_ariths mod_simps)
  have "(uint a - uint b - of_bool c) mod ?M =
      (if uint a - uint b - of_bool c < 0 then uint a - uint b - of_bool c + ?M else uint a - uint b - of_bool c)"
    by (rule mod_once(2); use r c in linarith)
  then show ?thesis
    using s r by (cases c) (auto simp: calc_borrow_out_def word_less_def word_le_def split: if_splits)
qed

lemma product_bound:
  fixes x y p q :: int
  assumes "\<bar>x\<bar> \<le> p" "\<bar>y\<bar> \<le> q"
  shows "\<bar>x * y\<bar> \<le> p * q"
  using assms by (simp add: abs_mult mult_mono')

text \<open>Twice the width holds the sums, differences and products of two elements.\<close>

lemma widening_fits:
  fixes a b :: "'b::len word"
  assumes "2 * LENGTH('b) \<le> LENGTH('a::len)"
  shows "sint ((scast a :: 'a word) * scast b) = sint a * sint b"
    and "sint ((scast a :: 'a word) + scast b) = sint a + sint b"
    and "sint ((scast a :: 'a word) - scast b) = sint a - sint b"
    and "uint ((ucast a :: 'a word) * ucast b) = uint a * uint b"
    and "uint ((ucast a :: 'a word) + ucast b) = uint a + uint b"
    and "sint ((scast a :: 'a word) * ucast b) = sint a * uint b"
proof -
  define h :: int where "h = 2 ^ (LENGTH('b) - 1)"
  have h: "1 \<le> h" by (simp add: h_def)
  have w: "2 ^ LENGTH('b) = 2 * h" by (simp add: h_def flip: power_Suc)
  have "h * h = 2 ^ ((LENGTH('b) - 1) + (LENGTH('b) - 1))" unfolding h_def by (rule power_add [symmetric])
  then have "2 * (h * h) = 2 ^ Suc ((LENGTH('b) - 1) + (LENGTH('b) - 1))" by (simp only: power_Suc)
  also have "\<dots> \<le> 2 ^ (LENGTH('a) - 1)"
  proof (rule power_increasing)
    have "0 < LENGTH('b)" by simp
    then show "Suc ((LENGTH('b) - 1) + (LENGTH('b) - 1)) \<le> LENGTH('a) - 1" using assms by linarith
  qed simp
  finally have W: "2 * (h * h) \<le> 2 ^ (LENGTH('a) - 1)" .
  have W2: "2 * (2 * (h * h)) \<le> 2 ^ LENGTH('a)"
    using W power_Suc [of "2 :: int" "LENGTH('a) - 1"] by simp
  have hh: "h \<le> h * h" using h mult_left_mono [of 1 h h] by simp
  have s: "\<bar>sint x\<bar> \<le> h" "- h \<le> sint x" "sint x < h" for x :: "'b word"
    using sint_range_size [of x] by (simp_all add: h_def word_size abs_le_iff)
  have u: "0 \<le> uint x" "uint x < 2 * h" "\<bar>uint x\<bar> \<le> 2 * h" for x :: "'b word" using uint_lt2p [of x] w by
      simp_all
  have sc: "(scast x :: 'a word) = word_of_int (sint x)" and uc: "(ucast x :: 'a word) = word_of_int (uint x)" for x :: "'b
      word"
    by simp_all
  have ss: "\<bar>sint a * sint b\<bar> \<le> h * h" using product_bound [OF s(1) s(1)] .
  have su: "\<bar>sint a * uint b\<bar> \<le> h * (2 * h - 1)" using product_bound [OF s(1) [of a], of "uint b" "2 * h - 1"]
      u [of b] by simp
  have ub: "0 \<le> uint a * uint b" "uint a * uint b \<le> (2 * h) * (2 * h - 1)"
    using u [of a] u [of b] h by (auto intro!: mult_mono)
  show "sint ((scast a :: 'a word) * scast b) = sint a * sint b"
    unfolding sc of_int_mult [symmetric] using ss W h hh by (intro sint_of_int_id) linarith+
  show "sint ((scast a :: 'a word) + scast b) = sint a + sint b"
    unfolding sc of_int_add [symmetric] using s [of a] s [of b] W hh by (intro sint_of_int_id) linarith+
  show "sint ((scast a :: 'a word) - scast b) = sint a - sint b"
    unfolding sc of_int_diff [symmetric] using s [of a] s [of b] W hh by (intro sint_of_int_id) linarith+
  show "sint ((scast a :: 'a word) * ucast b) = sint a * uint b"
    unfolding sc uc of_int_mult [symmetric] using su W h by (intro sint_of_int_id) (auto simp: algebra_simps)
  show "uint ((ucast a :: 'a word) * ucast b) = uint a * uint b"
    unfolding uc of_int_mult [symmetric] uint_word_of_int using ub W2 h by (intro mod_pos_pos_trivial)
        (auto simp: algebra_simps)
  show "uint ((ucast a :: 'a word) + ucast b) = uint a + uint b"
    unfolding uc of_int_add [symmetric] uint_word_of_int using u [of a] u [of b] W2 hh by (intro mod_pos_pos_trivial)
        linarith+
qed

text \<open>Multi-word arithmetic is exact: the sum with carry-in that \<open>vadc\<close> writes and the carry-out that
  \<open>vmadc\<close> writes are together the sum of the operands and the carry, and the difference of \<open>vsbc\<close>
      and the
  borrow-out of \<open>vmsbc\<close> are together the difference of the operands and the borrow.\<close>

theorem vector_carry_exact:
  fixes a b :: "'a::len word"
  assumes "1 < LENGTH('a)"
  shows "uint (a + b + borrow_value c) + 2 ^ LENGTH('a) * of_bool (calc_carry_out a b c) = uint a + uint b + of_bool c \<and>
    uint (a - b - borrow_value c) - 2 ^ LENGTH('a) * of_bool (calc_borrow_out a b c) = uint a - uint b - of_bool c"
  using carry_out_exact [OF assms] borrow_out_exact [OF assms] by simp

theorem vector_carry_exact_witness:
  "uint (0xFF + 0xFF + borrow_value True :: u8) + 2 ^ 8 * of_bool (calc_carry_out (0xFF :: u8) 0xFF True) = 0x1FF \<and>
   calc_carry_out (0xFF :: u8) 0xFF True"
  using vector_carry_exact [where a = "0xFF :: u8" and b = "0xFF" and c = True] by (simp add: calc_carry_out_def)

lemma widening_difference_unsigned:
  fixes a b :: "'b::len word"
  assumes "2 * LENGTH('b) \<le> LENGTH('a::len)"
  shows "sint ((ucast a :: 'a word) - ucast b) = uint a - uint b"
proof -
  have "2 ^ LENGTH('b) \<le> (2 :: int) ^ (LENGTH('a) - 1)"
  proof (rule power_increasing)
    have "0 < LENGTH('b)" by simp
    then show "LENGTH('b) \<le> LENGTH('a) - 1" using assms by linarith
  qed simp
  moreover have "(ucast a :: 'a word) - ucast b = word_of_int (uint a - uint b)" by simp
  ultimately show ?thesis
    using uint_lt2p [of a] uint_lt2p [of b] uint_ge_0 [of a] uint_ge_0 [of b]
    by (simp only:) (intro sint_of_int_id; linarith)
qed

lemma widening_computes:
  fixes g :: "'a::len word \<Rightarrow> 'a word \<Rightarrow> 'a word" and ext2 ext1 :: "'b::len word \<Rightarrow> 'a word"
  assumes "loop_ok TYPE('a) s vm d l" "unat (ucast (vstart s) :: u32) \<le> i" "i < unat l"
    "is_element_active (read_vector (regs s) 0) i vm"
    "source_ok (regs s) (elem_bytes TYPE('b)) s1 (elem_bytes TYPE('a)) d (unat l)"
  shows "source_ok (regs s) (elem_bytes TYPE('b)) s2 (elem_bytes TYPE('a)) d (unat l) \<Longrightarrow>
      get_group_element (regs (widening_vv g ext2 ext1 d s1 s2 vm l s)) d i =
        g (ext2 (get_group_element (regs s) s2 i)) (ext1 (get_group_element (regs s) s1 i))"
    and "source_ok (regs s) (elem_bytes TYPE('b)) s2 (elem_bytes TYPE('a)) d (unat l) \<Longrightarrow>
      get_group_element (regs (widening_vx g ext2 ext1 d rs1_val s2 vm l s)) d i =
        g (ext2 (get_group_element (regs s) s2 i)) (ext1 (ucast rs1_val))"
    and "source_ok (regs s) (elem_bytes TYPE('a)) s2 (elem_bytes TYPE('a)) d (unat l) \<Longrightarrow>
      get_group_element (regs (widening_wv g ext1 d s1 s2 vm l s)) d i =
        g (get_group_element (regs s) s2 i) (ext1 (get_group_element (regs s) s1 i))"
    and "source_ok (regs s) (elem_bytes TYPE('a)) s2 (elem_bytes TYPE('a)) d (unat l) \<Longrightarrow>
      get_group_element (regs (widening_wx g ext1 d rs1_val s2 vm l s)) d i =
        g (get_group_element (regs s) s2 i) (ext1 (ucast rs1_val))"
proof -
  have pick: "get_group_element (regs s') d i = f i"
    if "\<exists>rf'. s' = s\<lparr>regs := rf'\<rparr> \<and> computes_elements (regs s) vm d
        (unat (ucast (vstart s) :: u32)) (unat l) f rf'"
    for s' :: ArchState and f :: "nat \<Rightarrow> 'a word"
    using that assms(2-4) by (auto simp: computes_elements_def)
  note vv = vv.element_loop_computes_groups [OF assms(1) reads_groups_def [THEN equalityD1]]
  note vx = vx.element_loop_computes_groups [OF assms(1) reads_groups_def [THEN equalityD1]]
  show "get_group_element (regs (widening_vv g ext2 ext1 d s1 s2 vm l s)) d i =
        g (ext2 (get_group_element (regs s) s2 i)) (ext1 (get_group_element (regs s) s1 i))"
    if "source_ok (regs s) (elem_bytes TYPE('b)) s2 (elem_bytes TYPE('a)) d (unat l)"
    unfolding widening_vv_def by (rule pick, rule vv [where g = "\<lambda>x y. g (ext2 x) (ext1 y)"])
        (use assms that in auto)
  show "get_group_element (regs (widening_vx g ext2 ext1 d rs1_val s2 vm l s)) d i =
        g (ext2 (get_group_element (regs s) s2 i)) (ext1 (ucast rs1_val))"
    if "source_ok (regs s) (elem_bytes TYPE('b)) s2 (elem_bytes TYPE('a)) d (unat l)"
    unfolding widening_vx_def by (rule pick, rule vx [where g = "\<lambda>x. g (ext2 x) (ext1 (ucast rs1_val))"])
        (use assms that in auto)
  show "get_group_element (regs (widening_wv g ext1 d s1 s2 vm l s)) d i =
        g (get_group_element (regs s) s2 i) (ext1 (get_group_element (regs s) s1 i))"
    if "source_ok (regs s) (elem_bytes TYPE('a)) s2 (elem_bytes TYPE('a)) d (unat l)"
    unfolding widening_wv_def by (rule pick, rule vv [where g = "\<lambda>x y. g x (ext1 y)"]) (use assms that in auto)
  show "get_group_element (regs (widening_wx g ext1 d rs1_val s2 vm l s)) d i =
        g (get_group_element (regs s) s2 i) (ext1 (ucast rs1_val))"
    if "source_ok (regs s) (elem_bytes TYPE('a)) s2 (elem_bytes TYPE('a)) d (unat l)"
    unfolding widening_wx_def by (rule pick, rule vx [where g = "\<lambda>x. g x (ext1 (ucast rs1_val))"])
        (use assms that in auto)
qed

lemma widening_multiply_group:
  assumes "op \<in> {VWMULU_VV, VWMULU_VX, VWMULSU_VV, VWMULSU_VX}"
  shows "execute_vector_int_arith op d s1 s2 vm l sew rs1_val simm s = None"
    and "execute_vector_int_logic_shifts op d s1 s2 vm l sew rs1_val simm s = None"
    and "execute_vector_int_cmp op d s1 s2 vm l sew rs1_val simm s = None"
    and "execute_vector_int_narrow_shifts op d s1 s2 vm l sew rs1_val simm s = None"
    and "execute_vector_int_mac op d s1 s2 vm l sew rs1_val simm s = None"
    and "execute_vector_int_widening_arith op d s1 s2 vm l 32 rs1_val simm s = Some s"
  using assms
  by (elim insertE emptyE; simp add: execute_vector_int_arith_def execute_vector_int_logic_shifts_def
      execute_vector_int_cmp_def execute_vector_int_narrow_shifts_def execute_vector_int_mac_def
      execute_vector_int_widening_arith_def if_sew_def)+

text \<open>The unsigned and mixed widening multiplications test for an element width of 64 where 32 is
  meant: with 32-bit elements they leave the state as it is.\<close>

theorem widening_multiply_ignored:
  assumes "op \<in> {VWMULU_VV, VWMULU_VX, VWMULSU_VV, VWMULSU_VX}"
  shows "execute_vector_integer op d s1 s2 vm l 32 rs1_val simm s = s"
  unfolding execute_vector_integer_def by (simp only: widening_multiply_group [OF assms] option.case)

theorem widening_multiply_ignored_witness:
  "\<forall>s. execute_vector_integer VWMULU_VV 8 16 24 True 4 32 0 0 s = s"
  using widening_multiply_ignored [of VWMULU_VV] by blast

text \<open>(C38) Widening arithmetic: with a destination of at least twice the width whose registers are not
  sources, every active element of a widening product, sum or difference of two vectors or of a vector and a
  scalar is the exact result on the source elements, in the signed, the unsigned and the mixed form; the forms
  whose first operand is already wide add and subtract the extended second operand modulo the wide type. The
  unsigned and mixed products of 32-bit elements never reach these loops: the dispatcher tests for an
  element width of 64 where 32 is meant, and the instructions leave the state as it is.\<close>

theorem vector_widening_exact:
  fixes s :: ArchState and d s1 s2 :: RegId and i :: nat and rs1_val :: Register
  defines "x \<equiv> get_group_element (regs s) s2 i :: 'b::len word" and "y \<equiv> get_group_element (regs s) s1 i :: 'b
      word"
    and "z \<equiv> ucast rs1_val :: 'b word" and "w \<equiv> get_group_element (regs s) s2 i :: 'a::len word"
    and "res \<equiv> \<lambda>s'. get_group_element (regs s') d i :: 'a word"
  defines "sx \<equiv> scast :: 'b word \<Rightarrow> 'a word" and "ux \<equiv> ucast :: 'b word \<Rightarrow> 'a word"
  assumes "2 * LENGTH('b) \<le> LENGTH('a)" "loop_ok TYPE('a) s vm d l"
    and "source_ok (regs s) (elem_bytes TYPE('b)) s1 (elem_bytes TYPE('a)) d (unat l)"
    and "unat (ucast (vstart s) :: u32) \<le> i" "i < unat l" "is_element_active (read_vector (regs s) 0) i vm"
  shows "(source_ok (regs s) (elem_bytes TYPE('b)) s2 (elem_bytes TYPE('a)) d (unat l) \<longrightarrow>
      sint (res (execute_vwmul_vv sx d s1 s2 vm l s)) = sint x * sint y \<and>
      uint (res (execute_vwmul_vv ux d s1 s2 vm l s)) = uint x * uint y \<and>
      sint (res (execute_vwmulsu_vv TYPE('a) TYPE('b) d s1 s2 vm l s)) = sint x * uint y \<and>
      sint (res (execute_vwadd_vv sx d s1 s2 vm l s)) = sint x + sint y \<and>
      uint (res (execute_vwadd_vv ux d s1 s2 vm l s)) = uint x + uint y \<and>
      sint (res (execute_vwsub_vv sx d s1 s2 vm l s)) = sint x - sint y \<and>
      sint (res (execute_vwsub_vv ux d s1 s2 vm l s)) = uint x - uint y \<and>
      sint (res (execute_vwmul_vx sx d rs1_val s2 vm l s)) = sint x * sint z \<and>
      uint (res (execute_vwmul_vx ux d rs1_val s2 vm l s)) = uint x * uint z \<and>
      sint (res (execute_vwmulsu_vx TYPE('a) TYPE('b) d rs1_val s2 vm l s)) = sint x * uint z \<and>
      sint (res (execute_vwadd_vx sx d rs1_val s2 vm l s)) = sint x + sint z \<and>
      uint (res (execute_vwadd_vx ux d rs1_val s2 vm l s)) = uint x + uint z \<and>
      sint (res (execute_vwsub_vx sx d rs1_val s2 vm l s)) = sint x - sint z \<and>
      sint (res (execute_vwsub_vx ux d rs1_val s2 vm l s)) = uint x - uint z) \<and>
    (source_ok (regs s) (elem_bytes TYPE('a)) s2 (elem_bytes TYPE('a)) d (unat l) \<longrightarrow>
      res (execute_vwadd_wv sx d s1 s2 vm l s) = w + sx y \<and> res (execute_vwadd_wv ux d s1 s2 vm l s) = w + ux y \<and>
      res (execute_vwsub_wv sx d s1 s2 vm l s) = w - sx y \<and> res (execute_vwsub_wv ux d s1 s2 vm l s) = w - ux y \<and>
      res (execute_vwadd_wx sx d rs1_val s2 vm l s) = w + sx z \<and> res (execute_vwadd_wx ux d rs1_val s2 vm l s) = w + ux
          z \<and>
      res (execute_vwsub_wx sx d rs1_val s2 vm l s) = w - sx z \<and> res (execute_vwsub_wx ux d rs1_val s2 vm l s) = w - ux
          z) \<and>
    (\<forall>op \<in> {VWMULU_VV, VWMULU_VX, VWMULSU_VV, VWMULSU_VX}.
       execute_vector_integer op d s1 s2 vm l 32 rs1_val simm s = s)"
proof -
  note run = widening_computes [OF assms(9,11-13,10)]
  note fits = widening_fits [OF assms(8)] widening_difference_unsigned [OF assms(8)]
  show ?thesis
    unfolding res_def x_def y_def z_def w_def sx_def ux_def execute_vwmul_vv_def execute_vwmulsu_vv_def execute_vwadd_vv_def
      execute_vwsub_vv_def execute_vwmul_vx_def execute_vwmulsu_vx_def execute_vwadd_vx_def execute_vwsub_vx_def
      execute_vwadd_wv_def execute_vwsub_wv_def execute_vwadd_wx_def execute_vwsub_wx_def
    by (intro conjI impI ballI widening_multiply_ignored; simp only: run fits)
qed

theorem vector_widening_exact_witness:
  "\<forall>s. sint (get_group_element (regs (execute_vwmul_vv (scast :: u16 \<Rightarrow> u32) 8 16 24 True 4
      (counting_state s))) 8 2 :: u32) =
       sint (get_group_element (regs (counting_state s)) 24 2 :: u16) *
       sint (get_group_element (regs (counting_state s)) 16 2 :: u16) \<and>
     get_group_element (regs (execute_vwadd_wv (ucast :: u16 \<Rightarrow> u32) 8 16 24 True 4 (counting_state s))) 8 2 =
       get_group_element (regs (counting_state s)) 24 2 +
       (ucast (get_group_element (regs (counting_state s)) 16 2 :: u16) :: u32)"
proof
  fix s
  have "source_ok (regs (counting_state s)) (elem_bytes TYPE(16)) 24 (elem_bytes TYPE(32)) 8 (unat (4 :: u32))"
    "source_ok (regs (counting_state s)) (elem_bytes TYPE(32)) 24 (elem_bytes TYPE(32)) 8 (unat (4 :: u32))"
    "source_ok (regs (counting_state s)) (elem_bytes TYPE(16)) 16 (elem_bytes TYPE(32)) 8 (unat (4 :: u32))"
    by (simp_all add: elem_bytes_def source_ok_def groups_apart_def counting_slot)
  then show "sint (get_group_element (regs (execute_vwmul_vv (scast :: u16 \<Rightarrow> u32) 8 16 24 True 4
      (counting_state s))) 8 2 :: u32) =
       sint (get_group_element (regs (counting_state s)) 24 2 :: u16) *
       sint (get_group_element (regs (counting_state s)) 16 2 :: u16) \<and>
     get_group_element (regs (execute_vwadd_wv (ucast :: u16 \<Rightarrow> u32) 8 16 24 True 4 (counting_state s))) 8 2 =
       get_group_element (regs (counting_state s)) 24 2 +
       (ucast (get_group_element (regs (counting_state s)) 16 2 :: u16) :: u32)"
    using vector_widening_exact [where 'a = 32 and 'b = 16 and i = 2, OF _ counting_ok(1)]
    by (simp add: is_element_active_def counting_state_def)
qed

end
