(* ===== verification/Vector_Fixed.thy ===== *)
theory Vector_Fixed
  imports Vector_Core
begin

text \<open>
  Vector fixed-point instructions: the saturating and rounding helpers of
  \<^verbatim>\<open>src/execute/vector/VectorHelpers.hpp\<close> and the loops and families of
      \<^verbatim>\<open>VectorFixedPoint.cpp\<close>. The
  helpers that set a saturation flag return it. Rounding is computed in the type the usual arithmetic
  conversions give: \<^verbatim>\<open>int\<close> for 8- and 16-bit sources, the source type for 32 and 64 bits.
\<close>

subsection \<open>Saturation and rounding\<close>

definition smin :: "'a::len itself \<Rightarrow> int" where
  "smin t = - (2 ^ (LENGTH('a) - 1))"

definition smax :: "'a::len itself \<Rightarrow> int" where
  "smax t = 2 ^ (LENGTH('a) - 1) - 1"

text \<open>The comparison of a promoted result with the limits of a signed type.\<close>

definition clamp_signed :: "int \<Rightarrow> 'a::len word \<times> bool" where
  "clamp_signed res =
     (if res < smin TYPE('a) then (word_of_int (smin TYPE('a)), True)
      else if res > smax TYPE('a) then (word_of_int (smax TYPE('a)), True)
      else (word_of_int res, False))"

definition sat_add_signed :: "'a::len word \<Rightarrow> 'a word \<Rightarrow> 'a word \<times> bool" where
  "sat_add_signed a b = clamp_signed (sint a + sint b)"

definition sat_add_unsigned :: "'a::len word \<Rightarrow> 'a word \<Rightarrow> 'a word \<times> bool" where
  "sat_add_unsigned a b = (let res = a + b in if res < a then (- 1, True) else (res, False))"

definition sat_sub_signed :: "'a::len word \<Rightarrow> 'a word \<Rightarrow> 'a word \<times> bool" where
  "sat_sub_signed a b = clamp_signed (sint a - sint b)"

definition sat_sub_unsigned :: "'a::len word \<Rightarrow> 'a word \<Rightarrow> 'a word \<times> bool" where
  "sat_sub_unsigned a b = (if a < b then (0, True) else (a - b, False))"

text \<open>The rounding modes of \<open>vxrm\<close> on the value of the source; \<open>arith\<close> is the type in which
    the code adds
  the rounding bit, given as the function that reduces an integer to it.\<close>

definition round_with :: "(int \<Rightarrow> int) \<Rightarrow> int \<Rightarrow> nat \<Rightarrow> u32 \<Rightarrow> int"
    where
  "round_with arith v n rm =
     (if n = 0 then v
      else
        let round_bit = 2 ^ (n - 1);
            fractional = v mod 2 ^ n
        in if rm = 0 then arith (v + round_bit) div 2 ^ n
           else if rm = 1 then
             (if fractional = round_bit then (v div 2 ^ n) + (v div 2 ^ n) mod 2
              else arith (v + round_bit) div 2 ^ n)
           else if rm = 2 then v div 2 ^ n
           else if rm = 3 then (if fractional \<noteq> 0 \<and> even (v div 2 ^ n) then v div 2 ^ n + 1 else v div 2 ^ n)
           else v)"

definition round_and_clip :: "(int \<Rightarrow> int) \<Rightarrow> int \<Rightarrow> int \<Rightarrow> int \<Rightarrow>
    nat \<Rightarrow> u32 \<Rightarrow> 'a::len word \<times> bool" where
  "round_and_clip arith min_limit max_limit v n rm =
     (let rounded = round_with arith v n rm in
      if rounded < min_limit then (word_of_int min_limit, True)
      else if rounded > max_limit then (word_of_int max_limit, True)
      else (word_of_int rounded, False))"

text \<open>The arithmetic of a signed and of an unsigned source type. Sums of 8- and 16-bit operands are
  computed in \<^verbatim>\<open>int\<close>.\<close>

definition signed_arith :: "'b::len itself \<Rightarrow> int \<Rightarrow> int" where
  "signed_arith t x = (if LENGTH('b) < 32 then x else sint (word_of_int x :: 'b word))"

definition unsigned_arith :: "'b::len itself \<Rightarrow> int \<Rightarrow> int" where
  "unsigned_arith t x = (if LENGTH('b) < 32 then x else uint (word_of_int x :: 'b word))"

definition round_shift_signed :: "'a::len word \<Rightarrow> nat \<Rightarrow> u32 \<Rightarrow> 'a word" where
  "round_shift_signed v n rm =
     fst (round_and_clip (signed_arith TYPE('a)) (smin TYPE('a)) (smax TYPE('a)) (sint v) n rm)"

definition round_shift_unsigned :: "'a::len word \<Rightarrow> nat \<Rightarrow> u32 \<Rightarrow> 'a word" where
  "round_shift_unsigned v n rm =
     fst (round_and_clip (unsigned_arith TYPE('a)) 0 (2 ^ LENGTH('a) - 1) (uint v) n rm)"

definition execute_vsmul_element :: "'a::len word \<Rightarrow> 'a word \<Rightarrow> u32 \<Rightarrow> 'a word \<times>
    bool" where
  "execute_vsmul_element vs2 vs1 rm =
     clamp_signed (round_with (\<lambda>x. x) (sint vs2 * sint vs1) (LENGTH('a) - 1) rm)"

subsection \<open>Loops\<close>

definition sat_step ::
    "bool \<Rightarrow> RegId \<Rightarrow> (RegisterFile \<Rightarrow> nat \<Rightarrow> 'a::len word \<times> bool)
        \<Rightarrow> nat \<Rightarrow> bool \<times> RegisterFile \<Rightarrow> bool \<times> RegisterFile" where
  "sat_step vm d f i st =
     (let (saturated, rf) = st in
      if is_element_active (read_vector rf 0) i vm
      then let (res, sat) = f rf i in (saturated \<or> sat, set_group_element rf d i res)
      else st)"

definition sat_loop ::
    "bool \<Rightarrow> RegId \<Rightarrow> (RegisterFile \<Rightarrow> nat \<Rightarrow> 'a::len word \<times> bool)
        \<Rightarrow> u32 \<Rightarrow> ArchState \<Rightarrow> ArchState" where
  "sat_loop vm d f l s =
     (let (saturated, rf) = fold (sat_step vm d f) (vector_elements s l) (False, regs s)
      in s\<lparr>regs := rf, vxsat := (if saturated then 1 else vxsat s)\<rparr>)"

definition execute_vsadd_vv ::
    "('a::len word \<Rightarrow> 'a word \<Rightarrow> 'a word \<times> bool) \<Rightarrow> RegId \<Rightarrow> RegId
        \<Rightarrow> RegId \<Rightarrow> bool \<Rightarrow> u32 \<Rightarrow> ArchState \<Rightarrow> ArchState" where
  "execute_vsadd_vv f d s1 s2 vm l =
     sat_loop vm d (\<lambda>rf i. f (get_group_element rf s2 i) (get_group_element rf s1 i)) l"

definition execute_vsadd_vx ::
    "('a::len word \<Rightarrow> 'a word \<Rightarrow> 'a word \<times> bool) \<Rightarrow> RegId \<Rightarrow> Register
        \<Rightarrow> RegId \<Rightarrow> bool \<Rightarrow> u32 \<Rightarrow> ArchState \<Rightarrow> ArchState" where
  "execute_vsadd_vx f d rs1_val s2 vm l = sat_loop vm d (\<lambda>rf i. f (get_group_element rf s2 i) (ucast rs1_val)) l"

definition execute_vsadd_vi ::
    "('a::len word \<Rightarrow> 'a word \<Rightarrow> 'a word \<times> bool) \<Rightarrow> RegId \<Rightarrow> u32
        \<Rightarrow> RegId \<Rightarrow> bool \<Rightarrow> u32 \<Rightarrow> ArchState \<Rightarrow> ArchState" where
  "execute_vsadd_vi f d simm s2 vm l = sat_loop vm d (\<lambda>rf i. f (get_group_element rf s2 i) (scast simm)) l"

definition execute_vsmul_vv ::
    "'a::len itself \<Rightarrow> RegId \<Rightarrow> RegId \<Rightarrow> RegId \<Rightarrow> bool \<Rightarrow> u32
        \<Rightarrow> u32 \<Rightarrow> ArchState \<Rightarrow> ArchState" where
  "execute_vsmul_vv t d s1 s2 vm l rm =
     sat_loop vm d (\<lambda>rf i. execute_vsmul_element (get_group_element rf s2 i :: 'a word) (get_group_element rf s1 i)
         rm) l"

definition execute_vsmul_vx ::
    "'a::len itself \<Rightarrow> RegId \<Rightarrow> Register \<Rightarrow> RegId \<Rightarrow> bool \<Rightarrow> u32
        \<Rightarrow> u32 \<Rightarrow> ArchState \<Rightarrow> ArchState" where
  "execute_vsmul_vx t d rs1_val s2 vm l rm =
     sat_loop vm d (\<lambda>rf i. execute_vsmul_element (get_group_element rf s2 i :: 'a word) (ucast rs1_val) rm) l"

text \<open>\<open>shr\<close> is the rounding shift of the signed or the unsigned element type.\<close>

definition execute_vsshr_vv ::
    "('a::len word \<Rightarrow> nat \<Rightarrow> u32 \<Rightarrow> 'a word) \<Rightarrow> RegId \<Rightarrow> RegId
        \<Rightarrow> RegId \<Rightarrow> bool \<Rightarrow> u32 \<Rightarrow> u32 \<Rightarrow> ArchState \<Rightarrow>
        ArchState" where
  "execute_vsshr_vv shr d s1 s2 vm l rm =
     element_loop vm d (\<lambda>rf i.
       let val2 = get_group_element rf s2 i;
           val1 = get_group_element rf s1 i :: 'a word;
           shift = unat ((ucast val1 :: u32) AND of_nat (LENGTH('a) - 1))
       in shr val2 shift rm) l"

definition execute_vsshr_vx ::
    "('a::len word \<Rightarrow> nat \<Rightarrow> u32 \<Rightarrow> 'a word) \<Rightarrow> RegId \<Rightarrow> Register
        \<Rightarrow> RegId \<Rightarrow> bool \<Rightarrow> u32 \<Rightarrow> u32 \<Rightarrow> ArchState \<Rightarrow>
        ArchState" where
  "execute_vsshr_vx shr d rs1_val s2 vm l rm =
     (let shift = unat ((ucast rs1_val :: u32) AND of_nat (LENGTH('a) - 1))
      in element_loop vm d (\<lambda>rf i. shr (get_group_element rf s2 i) shift rm) l)"

definition execute_vsshr_vi ::
    "('a::len word \<Rightarrow> nat \<Rightarrow> u32 \<Rightarrow> 'a word) \<Rightarrow> RegId \<Rightarrow> u32
        \<Rightarrow> RegId \<Rightarrow> bool \<Rightarrow> u32 \<Rightarrow> u32 \<Rightarrow> ArchState \<Rightarrow>
        ArchState" where
  "execute_vsshr_vi shr d simm s2 vm l rm =
     (let shift = unat (simm AND of_nat (LENGTH('a) - 1))
      in element_loop vm d (\<lambda>rf i. shr (get_group_element rf s2 i) shift rm) l)"

text \<open>The source elements of a clip are signed, for the signed and the unsigned destination.\<close>

definition clip_element :: "'a::len itself \<Rightarrow> bool \<Rightarrow> 'b::len word \<Rightarrow> nat \<Rightarrow> u32
    \<Rightarrow> 'a word \<times> bool" where
  "clip_element td uns val2 shift rm =
     (if uns then round_and_clip (signed_arith TYPE('b)) 0 (2 ^ LENGTH('a) - 1) (sint val2) shift rm
      else round_and_clip (signed_arith TYPE('b)) (smin TYPE('a)) (smax TYPE('a)) (sint val2) shift rm)"

definition execute_vnclip ::
    "'a::len itself \<Rightarrow> 'b::len itself \<Rightarrow> bool \<Rightarrow> RegId \<Rightarrow> RegId \<Rightarrow>
        RegId \<Rightarrow> bool \<Rightarrow> u32 \<Rightarrow> bool \<Rightarrow> bool \<Rightarrow>
     Register \<Rightarrow> u32 \<Rightarrow> ArchState \<Rightarrow> ArchState" where
  "execute_vnclip td ts uns d s1 s2 vm l is_vx is_vi rs1_val simm s =
     (let rm = ucast (vxrm s) :: u32;
          shift_mask = of_nat (2 * LENGTH('a) - 1) :: u32
      in sat_loop vm d (\<lambda>rf i.
           let shift = (if is_vi then simm AND shift_mask
                        else if is_vx then ucast rs1_val AND shift_mask
                        else ucast (get_group_element rf s1 i :: 'a word) AND shift_mask)
           in clip_element td uns (get_group_element rf s2 i :: 'b word) (unat shift) rm) l s)"

subsection \<open>Families\<close>

definition execute_vsadd_family ::
    "OperationId \<Rightarrow> RegId \<Rightarrow> RegId \<Rightarrow> RegId \<Rightarrow> bool \<Rightarrow> u32
        \<Rightarrow> u32 \<Rightarrow> Register \<Rightarrow> u32 \<Rightarrow> ArchState \<Rightarrow> ArchState" where
  "execute_vsadd_family op d s1 s2 vm l sew rs1_val simm s =
     (if op = VSADD_VV then by_sew sew (execute_vsadd_vv (sat_add_signed :: u8 \<Rightarrow> _) d s1 s2 vm l)
         (execute_vsadd_vv (sat_add_signed :: u16 \<Rightarrow> _) d s1 s2 vm l)
         (execute_vsadd_vv (sat_add_signed :: u32 \<Rightarrow> _) d s1 s2 vm l)
         (execute_vsadd_vv (sat_add_signed :: u64 \<Rightarrow> _) d s1 s2 vm l) s
      else if op = VSADD_VX then by_sew sew (execute_vsadd_vx (sat_add_signed :: u8 \<Rightarrow> _) d rs1_val s2 vm l)
          (execute_vsadd_vx (sat_add_signed :: u16 \<Rightarrow> _) d rs1_val s2 vm l)
          (execute_vsadd_vx (sat_add_signed :: u32 \<Rightarrow> _) d rs1_val s2 vm l)
          (execute_vsadd_vx (sat_add_signed :: u64 \<Rightarrow> _) d rs1_val s2 vm l) s
      else if op = VSADD_VI then by_sew sew (execute_vsadd_vi (sat_add_signed :: u8 \<Rightarrow> _) d simm s2 vm l)
          (execute_vsadd_vi (sat_add_signed :: u16 \<Rightarrow> _) d simm s2 vm l)
          (execute_vsadd_vi (sat_add_signed :: u32 \<Rightarrow> _) d simm s2 vm l)
          (execute_vsadd_vi (sat_add_signed :: u64 \<Rightarrow> _) d simm s2 vm l) s
      else if op = VSADDU_VV then by_sew sew (execute_vsadd_vv (sat_add_unsigned :: u8 \<Rightarrow> _) d s1 s2 vm l)
          (execute_vsadd_vv (sat_add_unsigned :: u16 \<Rightarrow> _) d s1 s2 vm l)
          (execute_vsadd_vv (sat_add_unsigned :: u32 \<Rightarrow> _) d s1 s2 vm l)
          (execute_vsadd_vv (sat_add_unsigned :: u64 \<Rightarrow> _) d s1 s2 vm l) s
      else if op = VSADDU_VX then by_sew sew (execute_vsadd_vx (sat_add_unsigned :: u8 \<Rightarrow> _) d rs1_val s2 vm l)
          (execute_vsadd_vx (sat_add_unsigned :: u16 \<Rightarrow> _) d rs1_val s2 vm l)
          (execute_vsadd_vx (sat_add_unsigned :: u32 \<Rightarrow> _) d rs1_val s2 vm l)
          (execute_vsadd_vx (sat_add_unsigned :: u64 \<Rightarrow> _) d rs1_val s2 vm l) s
      else if op = VSADDU_VI then by_sew sew (execute_vsadd_vi (sat_add_unsigned :: u8 \<Rightarrow> _) d simm s2 vm l)
          (execute_vsadd_vi (sat_add_unsigned :: u16 \<Rightarrow> _) d simm s2 vm l)
          (execute_vsadd_vi (sat_add_unsigned :: u32 \<Rightarrow> _) d simm s2 vm l)
          (execute_vsadd_vi (sat_add_unsigned :: u64 \<Rightarrow> _) d simm s2 vm l) s
      else s)"

definition execute_vssub_family ::
    "OperationId \<Rightarrow> RegId \<Rightarrow> RegId \<Rightarrow> RegId \<Rightarrow> bool \<Rightarrow> u32
        \<Rightarrow> u32 \<Rightarrow> Register \<Rightarrow> u32 \<Rightarrow> ArchState \<Rightarrow> ArchState" where
  "execute_vssub_family op d s1 s2 vm l sew rs1_val simm s =
     (if op = VSSUB_VV then by_sew sew (execute_vsadd_vv (sat_sub_signed :: u8 \<Rightarrow> _) d s1 s2 vm l)
         (execute_vsadd_vv (sat_sub_signed :: u16 \<Rightarrow> _) d s1 s2 vm l)
         (execute_vsadd_vv (sat_sub_signed :: u32 \<Rightarrow> _) d s1 s2 vm l)
         (execute_vsadd_vv (sat_sub_signed :: u64 \<Rightarrow> _) d s1 s2 vm l) s
      else if op = VSSUB_VX then by_sew sew (execute_vsadd_vx (sat_sub_signed :: u8 \<Rightarrow> _) d rs1_val s2 vm l)
          (execute_vsadd_vx (sat_sub_signed :: u16 \<Rightarrow> _) d rs1_val s2 vm l)
          (execute_vsadd_vx (sat_sub_signed :: u32 \<Rightarrow> _) d rs1_val s2 vm l)
          (execute_vsadd_vx (sat_sub_signed :: u64 \<Rightarrow> _) d rs1_val s2 vm l) s
      else if op = VSSUBU_VV then by_sew sew (execute_vsadd_vv (sat_sub_unsigned :: u8 \<Rightarrow> _) d s1 s2 vm l)
          (execute_vsadd_vv (sat_sub_unsigned :: u16 \<Rightarrow> _) d s1 s2 vm l)
          (execute_vsadd_vv (sat_sub_unsigned :: u32 \<Rightarrow> _) d s1 s2 vm l)
          (execute_vsadd_vv (sat_sub_unsigned :: u64 \<Rightarrow> _) d s1 s2 vm l) s
      else if op = VSSUBU_VX then by_sew sew (execute_vsadd_vx (sat_sub_unsigned :: u8 \<Rightarrow> _) d rs1_val s2 vm l)
          (execute_vsadd_vx (sat_sub_unsigned :: u16 \<Rightarrow> _) d rs1_val s2 vm l)
          (execute_vsadd_vx (sat_sub_unsigned :: u32 \<Rightarrow> _) d rs1_val s2 vm l)
          (execute_vsadd_vx (sat_sub_unsigned :: u64 \<Rightarrow> _) d rs1_val s2 vm l) s
      else s)"

definition execute_vsshr_family ::
    "OperationId \<Rightarrow> RegId \<Rightarrow> RegId \<Rightarrow> RegId \<Rightarrow> bool \<Rightarrow> u32
        \<Rightarrow> u32 \<Rightarrow> Register \<Rightarrow> u32 \<Rightarrow> ArchState \<Rightarrow> ArchState" where
  "execute_vsshr_family op d s1 s2 vm l sew rs1_val simm s =
     (let rm = ucast (vxrm s) :: u32 in
      if op = VSSRA_VV then by_sew sew (execute_vsshr_vv (round_shift_signed :: u8 \<Rightarrow> _) d s1 s2 vm l rm)
          (execute_vsshr_vv (round_shift_signed :: u16 \<Rightarrow> _) d s1 s2 vm l rm)
          (execute_vsshr_vv (round_shift_signed :: u32 \<Rightarrow> _) d s1 s2 vm l rm)
          (execute_vsshr_vv (round_shift_signed :: u64 \<Rightarrow> _) d s1 s2 vm l rm) s
      else if op = VSSRA_VX then by_sew sew (execute_vsshr_vx (round_shift_signed :: u8 \<Rightarrow> _) d rs1_val s2 vm l
          rm) (execute_vsshr_vx (round_shift_signed :: u16 \<Rightarrow> _) d rs1_val s2 vm l rm)
          (execute_vsshr_vx (round_shift_signed :: u32 \<Rightarrow> _) d rs1_val s2 vm l rm)
          (execute_vsshr_vx (round_shift_signed :: u64 \<Rightarrow> _) d rs1_val s2 vm l rm) s
      else if op = VSSRA_VI then by_sew sew (execute_vsshr_vi (round_shift_signed :: u8 \<Rightarrow> _) d simm s2 vm l rm)
          (execute_vsshr_vi (round_shift_signed :: u16 \<Rightarrow> _) d simm s2 vm l rm)
          (execute_vsshr_vi (round_shift_signed :: u32 \<Rightarrow> _) d simm s2 vm l rm)
          (execute_vsshr_vi (round_shift_signed :: u64 \<Rightarrow> _) d simm s2 vm l rm) s
      else if op = VSSRL_VV then by_sew sew (execute_vsshr_vv (round_shift_unsigned :: u8 \<Rightarrow> _) d s1 s2 vm l rm)
          (execute_vsshr_vv (round_shift_unsigned :: u16 \<Rightarrow> _) d s1 s2 vm l rm)
          (execute_vsshr_vv (round_shift_unsigned :: u32 \<Rightarrow> _) d s1 s2 vm l rm)
          (execute_vsshr_vv (round_shift_unsigned :: u64 \<Rightarrow> _) d s1 s2 vm l rm) s
      else if op = VSSRL_VX then by_sew sew (execute_vsshr_vx (round_shift_unsigned :: u8 \<Rightarrow> _) d rs1_val s2 vm l
          rm) (execute_vsshr_vx (round_shift_unsigned :: u16 \<Rightarrow> _) d rs1_val s2 vm l rm)
          (execute_vsshr_vx (round_shift_unsigned :: u32 \<Rightarrow> _) d rs1_val s2 vm l rm)
          (execute_vsshr_vx (round_shift_unsigned :: u64 \<Rightarrow> _) d rs1_val s2 vm l rm) s
      else if op = VSSRL_VI then by_sew sew (execute_vsshr_vi (round_shift_unsigned :: u8 \<Rightarrow> _) d simm s2 vm l
          rm) (execute_vsshr_vi (round_shift_unsigned :: u16 \<Rightarrow> _) d simm s2 vm l rm)
          (execute_vsshr_vi (round_shift_unsigned :: u32 \<Rightarrow> _) d simm s2 vm l rm)
          (execute_vsshr_vi (round_shift_unsigned :: u64 \<Rightarrow> _) d simm s2 vm l rm) s
      else s)"

definition execute_vsmul_family ::
    "OperationId \<Rightarrow> RegId \<Rightarrow> RegId \<Rightarrow> RegId \<Rightarrow> bool \<Rightarrow> u32
        \<Rightarrow> u32 \<Rightarrow> Register \<Rightarrow> u32 \<Rightarrow> ArchState \<Rightarrow> ArchState" where
  "execute_vsmul_family op d s1 s2 vm l sew rs1_val simm s =
     (let rm = ucast (vxrm s) :: u32 in
      if op = VSMUL_VV then by_sew sew (execute_vsmul_vv TYPE(8) d s1 s2 vm l rm)
          (execute_vsmul_vv TYPE(16) d s1 s2 vm l rm) (execute_vsmul_vv TYPE(32) d s1 s2 vm l rm)
          (execute_vsmul_vv TYPE(64) d s1 s2 vm l rm) s
      else if op = VSMUL_VX then by_sew sew (execute_vsmul_vx TYPE(8) d rs1_val s2 vm l rm)
          (execute_vsmul_vx TYPE(16) d rs1_val s2 vm l rm) (execute_vsmul_vx TYPE(32) d rs1_val s2 vm l rm)
          (execute_vsmul_vx TYPE(64) d rs1_val s2 vm l rm) s
      else s)"

definition execute_vnclip_family ::
    "OperationId \<Rightarrow> RegId \<Rightarrow> RegId \<Rightarrow> RegId \<Rightarrow> bool \<Rightarrow> u32
        \<Rightarrow> u32 \<Rightarrow> Register \<Rightarrow> u32 \<Rightarrow> ArchState \<Rightarrow> ArchState" where
  "execute_vnclip_family op d s1 s2 vm l sew rs1_val simm =
     (let is_vx = (op = VNCLIP_WX \<or> op = VNCLIPU_WX);
          is_vi = (op = VNCLIP_WI \<or> op = VNCLIPU_WI);
          is_unsigned = (op \<ge> VNCLIPU_WV \<and> op \<le> VNCLIPU_WI)
      in by_sew3 sew (execute_vnclip TYPE(8) TYPE(16) is_unsigned d s1 s2 vm l is_vx is_vi rs1_val simm)
           (execute_vnclip TYPE(16) TYPE(32) is_unsigned d s1 s2 vm l is_vx is_vi rs1_val simm)
           (execute_vnclip TYPE(32) TYPE(64) is_unsigned d s1 s2 vm l is_vx is_vi rs1_val simm))"

definition execute_vector_fixed_point ::
    "OperationId \<Rightarrow> RegId \<Rightarrow> RegId \<Rightarrow> RegId \<Rightarrow> bool \<Rightarrow> u32
        \<Rightarrow> u32 \<Rightarrow> Register \<Rightarrow> u32 \<Rightarrow> ArchState \<Rightarrow> ArchState" where
  "execute_vector_fixed_point op d s1 s2 vm l sew rs1_val simm s =
     (if op \<ge> VNCLIP_WV \<and> op \<le> VNCLIPU_WI then execute_vnclip_family op d s1 s2 vm l sew rs1_val simm s
      else if op \<ge> VSADD_VV \<and> op \<le> VSADDU_VI then execute_vsadd_family op d s1 s2 vm l sew rs1_val simm s
      else if op \<ge> VSSUB_VV \<and> op \<le> VSSUBU_VX then execute_vssub_family op d s1 s2 vm l sew rs1_val simm s
      else if (op \<ge> VSSRA_VV \<and> op \<le> VSSRA_VI) \<or> (op \<ge> VSSRL_VV \<and> op \<le> VSSRL_VI)
      then execute_vsshr_family op d s1 s2 vm l sew rs1_val simm s
      else if op = VSMUL_VV \<or> op = VSMUL_VX then execute_vsmul_family op d s1 s2 vm l sew rs1_val simm s
      else s)"

subsection \<open>Saturation\<close>


lemma sint_word_of_int:
  assumes "smin TYPE('a) \<le> x" "x \<le> smax TYPE('a)"
  shows "sint (word_of_int x :: 'a::len word) = x"
  using assms by (intro sint_of_int_id) (simp_all add: smin_def smax_def)

lemma smin_le_smax: "smin TYPE('a::len) \<le> smax TYPE('a)"
  by (simp add: smin_def smax_def)

lemma clamp_signed_value:
  "sint (fst (clamp_signed x :: 'a::len word \<times> bool)) = max (smin TYPE('a)) (min (smax TYPE('a)) x)"
  "snd (clamp_signed x :: 'a word \<times> bool) \<longleftrightarrow> x < smin TYPE('a) \<or> smax TYPE('a) < x"
  using smin_le_smax [where 'a = 'a] by (auto simp: clamp_signed_def sint_word_of_int)


lemma sat_add_unsigned_value:
  fixes a b :: "'a::len word"
  shows "uint (fst (sat_add_unsigned a b)) = min (2 ^ LENGTH('a) - 1) (uint a + uint b) \<and>
    (snd (sat_add_unsigned a b) \<longleftrightarrow> 2 ^ LENGTH('a) \<le> uint a + uint b)"
proof -
  have s: "uint (a + b) = (if uint a + uint b < 2 ^ LENGTH('a) then uint a + uint b else uint a + uint b - 2 ^ LENGTH('a))"
    using uint_plus_if' [of a b] by simp
  have lt: "a + b < a \<longleftrightarrow> 2 ^ LENGTH('a) \<le> uint a + uint b"
    using s uint_lt2p [of b] uint_ge_0 [of b] by (auto simp: word_less_def split: if_splits)
  have m: "uint (- 1 :: 'a word) = 2 ^ LENGTH('a) - 1" by (simp add: unsigned_minus_1_eq_mask mask_eq_exp_minus_1)
  show ?thesis using s lt m by (simp add: sat_add_unsigned_def Let_def)
qed

lemma sat_sub_unsigned_value:
  "uint (fst (sat_sub_unsigned a b)) = max 0 (uint a - uint b) \<and>
      (snd (sat_sub_unsigned a b) \<longleftrightarrow> uint a < uint b)"
  by (auto simp: sat_sub_unsigned_def word_less_def uint_minus_simple_alt word_le_def uint_sub_if')

text \<open>Saturating addition and subtraction return the exact result clamped to the range of the element
  type, signed and unsigned, and raise the saturation flag exactly when the exact result is outside it.\<close>

theorem saturating_arithmetic_exact:
  fixes a b :: "'a::len word"
  shows "sint (fst (sat_add_signed a b)) = max (smin TYPE('a)) (min (smax TYPE('a)) (sint a + sint b)) \<and>
    (snd (sat_add_signed a b) \<longleftrightarrow> sint a + sint b < smin TYPE('a) \<or> smax TYPE('a) < sint a + sint b)
        \<and>
    sint (fst (sat_sub_signed a b)) = max (smin TYPE('a)) (min (smax TYPE('a)) (sint a - sint b)) \<and>
    (snd (sat_sub_signed a b) \<longleftrightarrow> sint a - sint b < smin TYPE('a) \<or> smax TYPE('a) < sint a - sint b)
        \<and>
    uint (fst (sat_add_unsigned a b)) = min (2 ^ LENGTH('a) - 1) (uint a + uint b) \<and>
    (snd (sat_add_unsigned a b) \<longleftrightarrow> 2 ^ LENGTH('a) \<le> uint a + uint b) \<and>
    uint (fst (sat_sub_unsigned a b)) = max 0 (uint a - uint b) \<and>
    (snd (sat_sub_unsigned a b) \<longleftrightarrow> uint a < uint b)"
  unfolding sat_add_signed_def sat_sub_signed_def clamp_signed_value
  using sat_add_unsigned_value [of a b] sat_sub_unsigned_value [of a b] by blast

subsection \<open>Rounding\<close>

text \<open>What the modes of \<open>vxrm\<close> promise of the quotient \<open>r\<close> of \<open>v\<close> by
    \<open>m\<close>: round to nearest with ties up,
  with ties to even, down, and to odd.\<close>

definition rounds :: "u32 \<Rightarrow> int \<Rightarrow> int \<Rightarrow> int \<Rightarrow> bool" where
  "rounds rm v m r \<longleftrightarrow>
     (if rm = 0 then - m < 2 * (r * m - v) \<and> 2 * (r * m - v) \<le> m
      else if rm = 1 then 2 * \<bar>r * m - v\<bar> \<le> m \<and> (2 * \<bar>r * m - v\<bar> = m \<longrightarrow> even r)
      else if rm = 2 then r * m \<le> v \<and> v < r * m + m
      else r * m = v \<or> odd r \<and> \<bar>r * m - v\<bar> < m)"

















text \<open>The rounding increment of a 32-bit shift is added in 32 bits: rounding the largest value up
  wraps around to zero instead of giving two to the thirty-first.\<close>

theorem rounding_increment_wraps:
  "round_shift_unsigned (0xFFFFFFFF :: u32) 1 0 = 0 \<and> \<not> rounds 0 (uint (0xFFFFFFFF :: u32)) (2 ^ 1) 0 \<and>
   rounds 0 (uint (0xFFFFFFFF :: u32)) (2 ^ 1) (2 ^ 31)"
  by (simp add: round_shift_unsigned_def round_and_clip_def round_with_def unsigned_arith_def rounds_def Let_def)

subsection \<open>Saturating loops\<close>

text \<open>A function of the elements that also says whether it saturated.\<close>

locale saturating_function = element_reads f reads
  for f :: "RegisterFile \<Rightarrow> nat \<Rightarrow> 'a::len word \<times> bool" and reads

sublocale saturating_function \<subseteq> result: element_function "\<lambda>rf i. fst (f rf i)" reads
proof (standard, goal_cases)
  case (1 rf' rf i)
  then show ?case using reads_only [OF 1] by simp
next
  case (2 rf' rf i)
  then show ?case by (rule reads_layout)
qed

context saturating_function
begin

lemma step_keeps:
  assumes "slot_bytes rf (elem_bytes TYPE('a)) d i \<inter>
      (reads rf j \<union> slot_bytes rf (elem_bytes TYPE('a)) d j \<union> (if vm then {} else {mask_byte j})) = {}"
  defines "rf1 \<equiv> element_step vm d (\<lambda>rf i. fst (f rf i)) i rf"
  shows "f rf1 j = f rf j" "is_element_active (read_vector rf1 0) j vm = is_element_active (read_vector rf 0) j vm"
proof -
  have out: "vreg rf1 r b = vreg rf r b" if "(r, b) \<notin> slot_bytes rf (elem_bytes TYPE('a)) d i" for r b
    using that by (simp add: rf1_def element_step_def set_group_element_other)
  show "f rf1 j = f rf j"
    using assms(1) by (intro reads_only) (auto simp: rf1_def same_bytes_def intro!: out [unfolded rf1_def])
  show "is_element_active (read_vector rf1 0) j vm = is_element_active (read_vector rf 0) j vm"
  proof (cases vm)
    case False
    then have "vreg rf1 0 (j div 8) = vreg rf 0 (j div 8)" using assms(1) by (intro out) (auto simp: mask_byte_def)
    then show ?thesis by (simp add: is_element_active_def read_vector_def)
  qed (simp add: is_element_active_def)
qed

lemma sat_fold:
  assumes "no_overlap reads (elem_bytes TYPE('a)) rf vm d is"
  shows "fold (sat_step vm d f) is (sat, rf) =
    (sat \<or> (\<exists>i\<in>set is. is_element_active (read_vector rf 0) i vm \<and> snd (f rf i)),
     fold (element_step vm d (\<lambda>rf i. fst (f rf i))) is rf)"
  using assms
proof (induction "is" arbitrary: sat rf)
  case (Cons i js)
  define rf1 where "rf1 = element_step vm d (\<lambda>rf i. fst (f rf i)) i rf"
  have vl: "vlen rf1 = vlen rf" by (simp add: rf1_def)
  have dis: "slot_bytes rf (elem_bytes TYPE('a)) d i \<inter>
      (reads rf j \<union> slot_bytes rf (elem_bytes TYPE('a)) d j \<union>
      (if vm then {} else {mask_byte j})) = {}" if "j \<in> set js" for j
    using Cons.prems that by (simp add: no_overlap_def)
  note keep = step_keeps [OF dis, folded rf1_def]
  have "no_overlap reads (elem_bytes TYPE('a)) rf1 vm d js"
    using Cons.prems by (simp add: no_overlap_def slot_bytes_vlen [OF vl] reads_layout [OF vl])
  note IH = Cons.IH [OF this]
  have "sat_step vm d f i (sat, rf) = (sat \<or> is_element_active (read_vector rf 0) i vm \<and> snd (f rf i), rf1)"
    by (simp add: sat_step_def rf1_def element_step_def split: prod.split)
  then show ?case using keep by (auto simp: IH simp flip: rf1_def)
qed simp

lemma sat_loop_computes:
  assumes "loop_ok TYPE('a) s vm d l"
    and "\<And>rf j. reads rf j \<subseteq> (\<Union>(sz, r)\<in>S. slot_bytes rf sz r j)"
    and "\<And>sz r. (sz, r) \<in> S \<Longrightarrow> source_ok (regs s) sz r (elem_bytes TYPE('a)) d (unat l)"
  shows "\<exists>rf'. sat_loop vm d f l s = s\<lparr>regs := rf', vxsat :=
      (if \<exists>i\<in>set (vector_elements s l). is_element_active (read_vector (regs s) 0) i vm \<and> snd (f (regs s) i)
       then 1 else vxsat s)\<rparr> \<and>
    computes_elements (regs s) vm d (unat (ucast (vstart s) :: u32)) (unat l) (\<lambda>i. fst (f (regs s) i)) rf'"
proof -
  have "unat l < 2 ^ 32" using unsigned_less [of l, where 'a = nat] by simp
  then have "no_overlap reads (elem_bytes TYPE('a)) (regs s) vm d (vector_elements s l)"
    using assms elem_bytes_cases [where 'a = 'a] unfolding vector_elements_def loop_ok_def
    by (intro no_overlap_groups [where S = S]) auto
  note fold = sat_fold [OF this, of False]
  obtain rf' where e: "element_loop vm d (\<lambda>rf i. fst (f rf i)) l s = s\<lparr>regs := rf'\<rparr>"
    and c: "computes_elements (regs s) vm d (unat (ucast (vstart s) :: u32)) (unat l) (\<lambda>i. fst (f (regs s) i)) rf'"
    using result.element_loop_computes_groups [OF assms] by blast
  from arg_cong [OF e, of regs] have "fold (element_step vm d (\<lambda>rf i. fst (f rf i))) (vector_elements s l) (regs s)
      = rf'"
    by (simp add: element_loop_def)
  then show ?thesis using fold c by (auto simp: sat_loop_def)
qed

end

interpretation sat_vv: saturating_function "\<lambda>rf i. g (get_group_element rf s2 i) (get_group_element rf s1 i)"
    "reads_groups {(elem_bytes TYPE('b), s2), (elem_bytes TYPE('c), s1)}"
  for g :: "'b::len word \<Rightarrow> 'c::len word \<Rightarrow> 'a::len word \<times> bool" and s1 s2
proof (standard, goal_cases)
  case (1 rf' rf i)
  then show ?case by (metis get_group_element_reads insertI1 insertI2)
next
  case (2 rf' rf i)
  show ?case by (rule reads_groups_vlen [OF 2])
qed

lemma execute_vsadd_vv_computes:
  fixes f :: "'a::len word \<Rightarrow> 'a word \<Rightarrow> 'a word \<times> bool"
  assumes "loop_ok TYPE('a) s vm d l"
    and "source_ok (regs s) (elem_bytes TYPE('a)) s2 (elem_bytes TYPE('a)) d (unat l)"
    and "source_ok (regs s) (elem_bytes TYPE('a)) s1 (elem_bytes TYPE('a)) d (unat l)"
  shows "\<exists>rf'. execute_vsadd_vv f d s1 s2 vm l s = s\<lparr>regs := rf', vxsat :=
        (if \<exists>i\<in>set (vector_elements s l). is_element_active (read_vector (regs s) 0) i vm \<and>
              snd (f (get_group_element (regs s) s2 i) (get_group_element (regs s) s1 i)) then 1 else vxsat s)\<rparr> \<and>
      computes_elements (regs s) vm d (unat (ucast (vstart s) :: u32)) (unat l)
        (\<lambda>i. fst (f (get_group_element (regs s) s2 i) (get_group_element (regs s) s1 i))) rf'"
  unfolding execute_vsadd_vv_def
  by (rule sat_vv.sat_loop_computes [OF assms(1) reads_groups_def [THEN equalityD1]]) (use assms in auto)

text \<open>(C17) The saturating vector addition adds every active element with the exact sum clamped to the
  signed range and leaves every other byte of the vector registers alone; it sets \<open>vxsat\<close> when some active
  sum leaves the range and otherwise keeps it, so the flag is sticky.\<close>

theorem vector_saturating_add:
  fixes s :: ArchState and s1 s2 :: RegId
  defines "sums \<equiv> \<lambda>i. sint (get_group_element (regs s) s2 i :: 'a::len word) + sint
      (get_group_element (regs s) s1 i :: 'a word)"
  assumes "loop_ok TYPE('a) s vm d l"
    and "source_ok (regs s) (elem_bytes TYPE('a)) s2 (elem_bytes TYPE('a)) d (unat l)"
    and "source_ok (regs s) (elem_bytes TYPE('a)) s1 (elem_bytes TYPE('a)) d (unat l)"
  shows "\<exists>rf'. execute_vsadd_vv (sat_add_signed :: 'a word \<Rightarrow> _) d s1 s2 vm l s = s\<lparr>regs := rf',
      vxsat :=
        (if \<exists>i\<in>set (vector_elements s l). is_element_active (read_vector (regs s) 0) i vm \<and>
              (sums i < smin TYPE('a) \<or> smax TYPE('a) < sums i) then 1 else vxsat s)\<rparr> \<and>
      computes_elements (regs s) vm d (unat (ucast (vstart s) :: u32)) (unat l)
        (\<lambda>i. word_of_int (max (smin TYPE('a)) (min (smax TYPE('a)) (sums i))) :: 'a word) rf'"
proof -
  have "fst (sat_add_signed a b) = word_of_int (max (smin TYPE('a)) (min (smax TYPE('a)) (sint a + sint b)))" for a b :: "'a
      word"
    using smin_le_smax [where 'a = 'a] by (auto simp: sat_add_signed_def clamp_signed_def max_def min_def)
  then show ?thesis
    using execute_vsadd_vv_computes [where f = sat_add_signed, OF assms(2-4)]
    by (simp add: sums_def sat_add_signed_def clamp_signed_value(2))
qed

theorem vector_saturating_add_witness:
  "\<forall>s. \<exists>rf' x. execute_vsadd_vv (sat_add_signed :: u32 \<Rightarrow> _) 8 16 24 True 4 (counting_state s) =
       counting_state s\<lparr>regs := rf', vxsat := x\<rparr> \<and>
     get_group_element rf' 8 1 = (word_of_int (max (smin TYPE(32)) (min (smax TYPE(32))
       (sint (get_group_element (regs (counting_state s)) 24 1 :: u32) + sint
           (get_group_element (regs (counting_state s)) 16 1 :: u32)))) :: u32)"
proof
  fix s
  let ?s = "counting_state s"
  have start: "vstart ?s = 0" by (simp add: counting_state_def)
  have "\<exists>rf' x. execute_vsadd_vv (sat_add_signed :: u32 \<Rightarrow> _) 8 16 24 True 4 ?s = ?s\<lparr>regs := rf',
      vxsat := x\<rparr> \<and>
     computes_elements (regs ?s) True 8 (unat (ucast (vstart ?s) :: u32)) (unat (4 :: u32))
       (\<lambda>i. word_of_int (max (smin TYPE(32)) (min (smax TYPE(32))
       (sint (get_group_element (regs ?s) 24 i :: u32) + sint (get_group_element (regs ?s) 16 i :: u32)))) :: u32) rf'"
    using vector_saturating_add [OF counting_ok, of s] by blast
  then show "\<exists>rf' x. execute_vsadd_vv (sat_add_signed :: u32 \<Rightarrow> _) 8 16 24 True 4 ?s = ?s\<lparr>regs :=
      rf', vxsat := x\<rparr> \<and>
     get_group_element rf' 8 1 = (word_of_int (max (smin TYPE(32)) (min (smax TYPE(32))
       (sint (get_group_element (regs ?s) 24 1 :: u32) + sint (get_group_element (regs ?s) 16 1 :: u32)))) :: u32)"
    unfolding computes_elements_def is_element_active_def start by force
qed

end
