(* ===== verification/Vector_Permute.thy ===== *)
theory Vector_Permute
  imports Vector_Core
begin

text \<open>
  Vector moves, slides, merges and compression (\<^verbatim>\<open>src/execute/vector/VectorPermute.cpp\<close>). Loops that
      copy
  their source first read the registers before the loop; the others read the registers they update.
\<close>

subsection \<open>Loops\<close>

definition vmv_whole_step :: "RegId \<Rightarrow> RegId \<Rightarrow> nat \<Rightarrow> RegisterFile \<Rightarrow>
    RegisterFile" where
  "vmv_whole_step d s2 i rf =
     (let n = vlen_bytes rf;
          src_reg = of_nat ((unat s2 + i div n) mod 32);
          dst_reg = of_nat ((unat d + i div n) mod 32);
          val = read_vector rf src_reg (i mod n)
      in write_vector rf dst_reg ((read_vector rf dst_reg)(i mod n := val)))"

definition execute_vmv_whole :: "RegId \<Rightarrow> RegId \<Rightarrow> nat \<Rightarrow> u32 \<Rightarrow> ArchState
    \<Rightarrow> ArchState" where
  "execute_vmv_whole d s2 nr sew s =
     (let total_bytes = nr * vlen_bytes (regs s);
          first_byte = unat ((ucast (vstart s) :: u32) * (sew div 8))
      in s\<lparr>regs := fold (vmv_whole_step d s2) [first_byte ..< total_bytes] (regs s)\<rparr>)"

definition execute_vcompress :: "'a::len itself \<Rightarrow> RegId \<Rightarrow> RegId \<Rightarrow> RegId \<Rightarrow>
    u32 \<Rightarrow> ArchState \<Rightarrow> ArchState" where
  "execute_vcompress t d s2 s1 l s =
     (let rf = regs s;
          src_vals = map (\<lambda>i. get_group_element rf s2 i :: 'a word)
                       (filter (\<lambda>i. is_element_active (read_vector rf s1) i False) (vector_elements s l))
      in s\<lparr>regs := fold (\<lambda>i rf. set_group_element rf d i (src_vals ! i)) [0..<length src_vals] rf\<rparr>)"

definition execute_vslideup ::
    "'a::len itself \<Rightarrow> RegId \<Rightarrow> u32 \<Rightarrow> RegId \<Rightarrow> bool \<Rightarrow> u32
        \<Rightarrow> ArchState \<Rightarrow> ArchState" where
  "execute_vslideup t d offset s2 vm l s =
     (let src_vals = (\<lambda>i. get_group_element (regs s) s2 i :: 'a word);
          from = max (unat offset) (unat (ucast (vstart s) :: u32))
      in s\<lparr>regs := fold (element_step vm d (\<lambda>rf i. src_vals (i - unat offset))) [from ..< unat l]
          (regs s)\<rparr>)"

text \<open>The sum of the index and the offset is a \<^verbatim>\<open>uint32_t\<close>.\<close>

definition execute_vslidedown ::
    "'a::len itself \<Rightarrow> RegId \<Rightarrow> u32 \<Rightarrow> RegId \<Rightarrow> bool \<Rightarrow> u32
        \<Rightarrow> ArchState \<Rightarrow> ArchState" where
  "execute_vslidedown t d offset s2 vm l s =
     (let src_vals = (\<lambda>i. get_group_element (regs s) s2 i :: 'a word)
      in element_loop vm d (\<lambda>rf i. let k = of_nat i + offset in if k < l then src_vals (unat k) else 0) l s)"

definition execute_vslide1down ::
    "'a::len itself \<Rightarrow> RegId \<Rightarrow> Register \<Rightarrow> RegId \<Rightarrow> bool \<Rightarrow> u32
        \<Rightarrow> ArchState \<Rightarrow> ArchState" where
  "execute_vslide1down t d rs1_val s2 vm l s =
     (let temp = (\<lambda>i. if i + 1 < unat l then get_group_element (regs s) s2 (i + 1) :: 'a word else ucast rs1_val)
      in element_loop vm d (\<lambda>rf i. temp i) l s)"

definition execute_vslide1up ::
    "'a::len itself \<Rightarrow> RegId \<Rightarrow> Register \<Rightarrow> RegId \<Rightarrow> bool \<Rightarrow> u32
        \<Rightarrow> ArchState \<Rightarrow> ArchState" where
  "execute_vslide1up t d rs1_val s2 vm l s =
     (let temp = (\<lambda>i. if i > 0 then get_group_element (regs s) s2 (i - 1) :: 'a word else ucast rs1_val)
      in element_loop vm d (\<lambda>rf i. temp i) l s)"

definition execute_vmerge_vv :: "'a::len itself \<Rightarrow> RegId \<Rightarrow> RegId \<Rightarrow> RegId \<Rightarrow>
    u32 \<Rightarrow> ArchState \<Rightarrow> ArchState" where
  "execute_vmerge_vv t d s1 s2 l =
     element_loop True d (\<lambda>rf i. if is_element_active (read_vector rf 0) i False
       then get_group_element rf s1 i :: 'a word else get_group_element rf s2 i) l"

definition execute_vmerge_vx :: "'a::len itself \<Rightarrow> RegId \<Rightarrow> Register \<Rightarrow> RegId \<Rightarrow>
    u32 \<Rightarrow> ArchState \<Rightarrow> ArchState" where
  "execute_vmerge_vx t d rs1_val s2 l =
     element_loop True d (\<lambda>rf i. if is_element_active (read_vector rf 0) i False
       then ucast rs1_val :: 'a word else get_group_element rf s2 i) l"

definition execute_vmerge_vi :: "'a::len itself \<Rightarrow> RegId \<Rightarrow> u32 \<Rightarrow> RegId \<Rightarrow> u32
    \<Rightarrow> ArchState \<Rightarrow> ArchState" where
  "execute_vmerge_vi t d simm s2 l =
     element_loop True d (\<lambda>rf i. if is_element_active (read_vector rf 0) i False
       then scast simm :: 'a word else get_group_element rf s2 i) l"

definition execute_vid :: "'a::len itself \<Rightarrow> RegId \<Rightarrow> bool \<Rightarrow> u32 \<Rightarrow> ArchState
    \<Rightarrow> ArchState" where
  "execute_vid t d vm l = element_loop vm d (\<lambda>rf i. of_nat i :: 'a word) l"

subsection \<open>Groups\<close>

definition execute_vector_permute_scalar ::
    "OperationId \<Rightarrow> RegId \<Rightarrow> RegId \<Rightarrow> RegId \<Rightarrow> u32 \<Rightarrow> ArchState
        \<Rightarrow> ArchState option" where
  "execute_vector_permute_scalar op d s1 s2 sew s =
     (let rf = regs s in
      if op = VMV_X_S then
        let val = by_sew sew (scast (get_group_element rf s2 0 :: u8)) (scast (get_group_element rf s2 0 :: u16))
                    (scast (get_group_element rf s2 0 :: u32)) (get_group_element rf s2 0 :: u64)
        in Some (s\<lparr>regs := write_reg rf d val\<rparr>)
      else if op = VMV_S_X then
        let val = read_reg rf s1
        in Some (s\<lparr>regs := by_sew sew (set_group_element rf d 0 (ucast val :: u8))
            (set_group_element rf d 0 (ucast val :: u16))
                             (set_group_element rf d 0 (ucast val :: u32)) (set_group_element rf d 0 val)\<rparr>)
      else if op = VFMV_F_S then
        let val = (if sew = 16 then ucast (get_group_element rf s2 0 :: u16) OR 0xFFFFFFFFFFFF0000
                   else if sew = 32 then ucast (get_group_element rf s2 0 :: u32) OR 0xFFFFFFFF00000000
                   else if sew = 64 then get_group_element rf s2 0
                   else 0) :: u64
        in Some (s\<lparr>regs := write_fp rf d val\<rparr>)
      else if op = VFMV_S_F then
        let val = read_fp rf s1
        in Some (s\<lparr>regs := (if sew = 16 then set_group_element rf d 0 (ucast val :: u16)
                             else if sew = 32 then set_group_element rf d 0 (ucast val :: u32)
                             else if sew = 64 then set_group_element rf d 0 val
                             else rf)\<rparr>)
      else None)"

definition execute_vector_permute_merge ::
    "OperationId \<Rightarrow> RegId \<Rightarrow> RegId \<Rightarrow> RegId \<Rightarrow> u32 \<Rightarrow> u32
        \<Rightarrow> Register \<Rightarrow> u32 \<Rightarrow> ArchState \<Rightarrow> ArchState option" where
  "execute_vector_permute_merge op d s1 s2 l sew rs1_val simm s =
     (if op = VFMERGE_VFM then
        let val = read_fp (regs s) s1
        in Some ((if sew = 16 then execute_vmerge_vx TYPE(16) d val s2 l
                  else if sew = 32 then execute_vmerge_vx TYPE(32) d val s2 l
                  else if sew = 64 then execute_vmerge_vx TYPE(64) d val s2 l
                  else (\<lambda>s. s)) s)
      else if op = VMERGE_VVM then Some ((by_sew sew (execute_vmerge_vv TYPE(8) d s1 s2 l)
          (execute_vmerge_vv TYPE(16) d s1 s2 l) (execute_vmerge_vv TYPE(32) d s1 s2 l)
          (execute_vmerge_vv TYPE(64) d s1 s2 l)) s)
      else if op = VMERGE_VXM then Some ((by_sew sew (execute_vmerge_vx TYPE(8) d rs1_val s2 l)
          (execute_vmerge_vx TYPE(16) d rs1_val s2 l) (execute_vmerge_vx TYPE(32) d rs1_val s2 l)
          (execute_vmerge_vx TYPE(64) d rs1_val s2 l)) s)
      else if op = VMERGE_VIM then Some ((by_sew sew (execute_vmerge_vi TYPE(8) d simm s2 l)
          (execute_vmerge_vi TYPE(16) d simm s2 l) (execute_vmerge_vi TYPE(32) d simm s2 l)
          (execute_vmerge_vi TYPE(64) d simm s2 l)) s)
      else None)"

definition execute_vector_permute_vid ::
    "OperationId \<Rightarrow> RegId \<Rightarrow> RegId \<Rightarrow> RegId \<Rightarrow> bool \<Rightarrow> u32
        \<Rightarrow> u32 \<Rightarrow> ArchState \<Rightarrow> ArchState option" where
  "execute_vector_permute_vid op d s1 s2 vm l sew s =
     (if op = VID_V then Some ((by_sew sew (execute_vid TYPE(8) d vm l) (execute_vid TYPE(16) d vm l)
         (execute_vid TYPE(32) d vm l) (execute_vid TYPE(64) d vm l)) s)
      else if op = VCOMPRESS_VM then Some ((by_sew sew (execute_vcompress TYPE(8) d s2 s1 l)
          (execute_vcompress TYPE(16) d s2 s1 l) (execute_vcompress TYPE(32) d s2 s1 l)
          (execute_vcompress TYPE(64) d s2 s1 l)) s)
      else None)"

definition execute_vector_permute_mv ::
    "OperationId \<Rightarrow> RegId \<Rightarrow> RegId \<Rightarrow> RegId \<Rightarrow> u32 \<Rightarrow> u32
        \<Rightarrow> Register \<Rightarrow> u32 \<Rightarrow> ArchState \<Rightarrow> ArchState option" where
  "execute_vector_permute_mv op d s1 s2 l sew rs1_val simm s =
     (if op = VMV_V_V then Some ((by_sew sew (perform_vv (\<lambda>_ b :: u8. b) d s1 s2 True l)
         (perform_vv (\<lambda>_ b :: u16. b) d s1 s2 True l) (perform_vv (\<lambda>_ b :: u32. b) d s1 s2 True l)
         (perform_vv (\<lambda>_ b :: u64. b) d s1 s2 True l)) s)
      else if op = VMV_V_X then Some ((by_sew sew (perform_vx (\<lambda>_ b :: u8. b) d rs1_val s2 True l)
          (perform_vx (\<lambda>_ b :: u16. b) d rs1_val s2 True l)
          (perform_vx (\<lambda>_ b :: u32. b) d rs1_val s2 True l)
          (perform_vx (\<lambda>_ b :: u64. b) d rs1_val s2 True l)) s)
      else if op = VMV_V_I then Some ((by_sew sew (perform_vi (\<lambda>_ b :: u8. b) d simm s2 True l)
          (perform_vi (\<lambda>_ b :: u16. b) d simm s2 True l) (perform_vi (\<lambda>_ b :: u32. b) d simm s2 True l)
          (perform_vi (\<lambda>_ b :: u64. b) d simm s2 True l)) s)
      else if op = VMV1R_V then Some (execute_vmv_whole d s2 1 sew s)
      else if op = VMV2R_V then Some (execute_vmv_whole d s2 2 sew s)
      else if op = VMV4R_V then Some (execute_vmv_whole d s2 4 sew s)
      else if op = VMV8R_V then Some (execute_vmv_whole d s2 8 sew s)
      else None)"

definition execute_vector_permute_slide1 ::
    "OperationId \<Rightarrow> RegId \<Rightarrow> RegId \<Rightarrow> bool \<Rightarrow> u32 \<Rightarrow> u32
        \<Rightarrow> Register \<Rightarrow> ArchState \<Rightarrow> ArchState option" where
  "execute_vector_permute_slide1 op d s2 vm l sew rs1_val s =
     (if op = VSLIDE1UP_VX then Some ((by_sew sew (execute_vslide1up TYPE(8) d rs1_val s2 vm l)
         (execute_vslide1up TYPE(16) d rs1_val s2 vm l) (execute_vslide1up TYPE(32) d rs1_val s2 vm l)
         (execute_vslide1up TYPE(64) d rs1_val s2 vm l)) s)
      else if op = VSLIDE1DOWN_VX then Some ((by_sew sew (execute_vslide1down TYPE(8) d rs1_val s2 vm l)
          (execute_vslide1down TYPE(16) d rs1_val s2 vm l) (execute_vslide1down TYPE(32) d rs1_val s2 vm l)
          (execute_vslide1down TYPE(64) d rs1_val s2 vm l)) s)
      else None)"

definition slide_by_sew ::
    "(u32 \<Rightarrow> ArchState \<Rightarrow> ArchState) \<Rightarrow>
        (u32 \<Rightarrow> ArchState \<Rightarrow> ArchState) \<Rightarrow>
        (u32 \<Rightarrow> ArchState \<Rightarrow> ArchState) \<Rightarrow>
     (u32 \<Rightarrow> ArchState \<Rightarrow> ArchState) \<Rightarrow> u32 \<Rightarrow> u32 \<Rightarrow> ArchState
         \<Rightarrow> ArchState" where
  "slide_by_sew e8 e16 e32 e64 sew offset = by_sew sew (e8 offset) (e16 offset) (e32 offset) (e64 offset)"

definition execute_vector_permute_slidedown_up ::
    "OperationId \<Rightarrow> RegId \<Rightarrow> RegId \<Rightarrow> bool \<Rightarrow> u32 \<Rightarrow> u32
        \<Rightarrow> Register \<Rightarrow> u32 \<Rightarrow> ArchState \<Rightarrow> ArchState option" where
  "execute_vector_permute_slidedown_up op d s2 vm l sew rs1_val simm s =
     (let down = slide_by_sew (\<lambda>x. execute_vslidedown TYPE(8) d x s2 vm l)
         (\<lambda>x. execute_vslidedown TYPE(16) d x s2 vm l)
                   (\<lambda>x. execute_vslidedown TYPE(32) d x s2 vm l)
                       (\<lambda>x. execute_vslidedown TYPE(64) d x s2 vm l) sew;
          up = slide_by_sew (\<lambda>x. execute_vslideup TYPE(8) d x s2 vm l)
              (\<lambda>x. execute_vslideup TYPE(16) d x s2 vm l)
                   (\<lambda>x. execute_vslideup TYPE(32) d x s2 vm l) (\<lambda>x. execute_vslideup TYPE(64) d x s2 vm l)
                       sew
      in if op = VSLIDEDOWN_VX then Some (down (ucast rs1_val) s)
         else if op = VSLIDEDOWN_VI then Some (down (simm AND 0x1F) s)
         else if op = VSLIDEUP_VX then Some (up (ucast rs1_val) s)
         else if op = VSLIDEUP_VI then Some (up (simm AND 0x1F) s)
         else None)"

definition execute_vector_permute ::
    "OperationId \<Rightarrow> RegId \<Rightarrow> RegId \<Rightarrow> RegId \<Rightarrow> bool \<Rightarrow> u32
        \<Rightarrow> u32 \<Rightarrow> Register \<Rightarrow> u32 \<Rightarrow> ArchState \<Rightarrow> ArchState" where
  "execute_vector_permute op d s1 s2 vm l sew rs1_val simm s =
     (case execute_vector_permute_scalar op d s1 s2 sew s of Some s' \<Rightarrow> s' | None \<Rightarrow>
      case execute_vector_permute_merge op d s1 s2 l sew rs1_val simm s of Some s' \<Rightarrow> s' | None \<Rightarrow>
      case execute_vector_permute_vid op d s1 s2 vm l sew s of Some s' \<Rightarrow> s' | None \<Rightarrow>
      case execute_vector_permute_mv op d s1 s2 l sew rs1_val simm s of Some s' \<Rightarrow> s' | None \<Rightarrow>
      case execute_vector_permute_slide1 op d s2 vm l sew rs1_val s of Some s' \<Rightarrow> s' | None \<Rightarrow>
      case execute_vector_permute_slidedown_up op d s2 vm l sew rs1_val simm s of Some s' \<Rightarrow> s' | None
          \<Rightarrow> s)"

end
