(* ===== verification/Vector_Memory.thy ===== *)
theory Vector_Memory
  imports Pipeline_Stages Vector_Core
begin

text \<open>
  Vector loads and stores (\<^verbatim>\<open>src/execute/vector/VectorMemory.cpp\<close>): whole-register, unit-stride with
  segments, strided and indexed accesses, element by element through the memory access path of the
  hart. A loop stops at the first access that leaves a pending exception, with \<open>vstart\<close> at the element
  that faulted. The code is that of the 64-bit build, where \<^verbatim>\<open>if constexpr (kIsXLen64)\<close> makes
  an access to a 64-bit element one load or store.
\<close>

subsection \<open>Access loops\<close>

text \<open>The flag of a body says that the function has returned.\<close>

fun vector_accesses :: "(nat \<Rightarrow> 'd System \<Rightarrow> bool \<times> 'd System) \<Rightarrow> nat list
    \<Rightarrow> 'd System \<Rightarrow> bool \<times> 'd System" where
  "vector_accesses body [] y = (False, y)"
| "vector_accesses body (i # is) y =
     (let (stop, y1) = body i y in if stop then (True, y1) else vector_accesses body is y1)"

definition set_vstart :: "nat \<Rightarrow> 'd System \<Rightarrow> 'd System" where
  "set_vstart i = upd_state (\<lambda>s. s\<lparr>vstart := of_nat i\<rparr>)"

definition upd_regs :: "(RegisterFile \<Rightarrow> RegisterFile) \<Rightarrow> 'd System \<Rightarrow> 'd System" where
  "upd_regs g = upd_state (\<lambda>s. s\<lparr>regs := g (regs s)\<rparr>)"

text \<open>One load into element \<open>i\<close> of the group \<open>target\<close>, and one store from it.\<close>

definition load_element ::
    "'d DeviceHandler \<Rightarrow> 'a::len itself \<Rightarrow> u8 \<Rightarrow> RegId \<Rightarrow> nat \<Rightarrow>
        Address \<Rightarrow> 'd System \<Rightarrow> bool \<times> 'd System" where
  "load_element h t f3 target i addr y =
     (let (val, y1) = loadInt h addr f3 y in
      if has_fault y1 then (True, set_vstart i y1)
      else (False, upd_regs (\<lambda>rf. set_group_element rf target i (ucast val :: 'a word)) y1))"

definition store_element ::
    "'d DeviceHandler \<Rightarrow> 'a::len itself \<Rightarrow> u8 \<Rightarrow> RegId \<Rightarrow> nat \<Rightarrow>
        Address \<Rightarrow> 'd System \<Rightarrow> bool \<times> 'd System" where
  "store_element h t f3 source i addr y =
     (let val = get_group_element (regs (state y)) source i :: 'a word;
          y1 = storeInt h addr (ucast val) f3 y
      in if has_fault y1 then (True, set_vstart i y1) else (False, y1))"

text \<open>The loop over the active elements.\<close>

definition masked_accesses ::
    "bool \<Rightarrow> u32 \<Rightarrow> (nat \<Rightarrow> 'd System \<Rightarrow> bool \<times> 'd System) \<Rightarrow>
        'd System \<Rightarrow> 'd System" where
  "masked_accesses vm l body y =
     snd (vector_accesses (\<lambda>i y. if is_element_active (read_vector (regs (state y)) 0) i vm then body i y else
         (False, y))
            (vector_elements (state y) l) y)"

subsection \<open>Loads and stores\<close>

text \<open>The bodies of the loops over the bytes of whole registers, and the loops.\<close>

definition vl_whole_byte ::
    "'d DeviceHandler \<Rightarrow> RegId \<Rightarrow> Register \<Rightarrow> u32 \<Rightarrow> nat \<Rightarrow> nat
        \<Rightarrow> 'd System \<Rightarrow> bool \<times> 'd System" where
  "vl_whole_byte h d base_addr element_bytes n i y =
     (let (val, y1) = loadInt h (base_addr + of_nat i) Funct3_Lbu y in
      if has_fault y1 then (True, set_vstart (i div unat element_bytes) y1)
      else
        let reg_idx = of_nat ((unat d + i div n) mod 32)
        in (False, upd_regs (\<lambda>rf. write_vector rf reg_idx ((read_vector rf reg_idx)(i mod n := ucast val))) y1))"

definition execute_vl_whole ::
    "'d DeviceHandler \<Rightarrow> RegId \<Rightarrow> Register \<Rightarrow> nat \<Rightarrow> u32 \<Rightarrow> 'd System
        \<Rightarrow> 'd System" where
  "execute_vl_whole h d base_addr nr element_bytes y =
     (let n = vlen_bytes (regs (state y));
          first_byte = unat ((ucast (vstart (state y)) :: u32) * element_bytes)
      in snd (vector_accesses (vl_whole_byte h d base_addr element_bytes n) [first_byte ..< nr * n] y))"

definition vs_whole_byte ::
    "'d DeviceHandler \<Rightarrow> RegId \<Rightarrow> Register \<Rightarrow> nat \<Rightarrow> nat \<Rightarrow> 'd System
        \<Rightarrow> bool \<times> 'd System" where
  "vs_whole_byte h vs3 base_addr n i y =
     (let reg_idx = of_nat ((unat vs3 + i div n) mod 32);
          val = read_vector (regs (state y)) reg_idx (i mod n);
          y1 = storeInt h (base_addr + of_nat i) (ucast val) Funct3_Sb y
      in if has_fault y1 then (True, set_vstart i y1) else (False, y1))"

definition execute_vs_whole :: "'d DeviceHandler \<Rightarrow> RegId \<Rightarrow> Register \<Rightarrow> nat \<Rightarrow>
    'd System \<Rightarrow> 'd System" where
  "execute_vs_whole h vs3 base_addr nr y =
     (let n = vlen_bytes (regs (state y))
      in snd (vector_accesses (vs_whole_byte h vs3 base_addr n) [unat (ucast (vstart (state y)) :: u32) ..< nr * n] y))"

text \<open>The number of fields of a segment, and the address of a field.\<close>

definition segment_fields :: "'d System \<Rightarrow> nat" where
  "segment_fields y = unat (drop_bit 29 (ir (ctx y)) AND 7) + 1"

definition segment_address :: "'a::len itself \<Rightarrow> Register \<Rightarrow> nat \<Rightarrow> nat \<Rightarrow> nat
    \<Rightarrow> Address" where
  "segment_address t base_addr nfields i k =
     base_addr + ucast (of_nat i * of_nat nfields + of_nat k :: u32) * of_nat (elem_bytes TYPE('a))"

definition execute_vle ::
    "'d DeviceHandler \<Rightarrow> 'a::len itself \<Rightarrow> RegId \<Rightarrow> Register \<Rightarrow> bool
        \<Rightarrow> u32 \<Rightarrow> u8 \<Rightarrow> 'd System \<Rightarrow> 'd System" where
  "execute_vle h t d base_addr vm l f3 y =
     (let nfields = segment_fields y
      in masked_accesses vm l (\<lambda>i. vector_accesses (\<lambda>k.
           load_element h t f3 (of_nat ((unat d + k) mod 32)) i (segment_address t base_addr nfields i k)) [0..<nfields]) y)"

definition execute_vse ::
    "'d DeviceHandler \<Rightarrow> 'a::len itself \<Rightarrow> RegId \<Rightarrow> Register \<Rightarrow> bool
        \<Rightarrow> u32 \<Rightarrow> u8 \<Rightarrow> 'd System \<Rightarrow> 'd System" where
  "execute_vse h t vs3 base_addr vm l f3 y =
     (let nfields = segment_fields y
      in masked_accesses vm l (\<lambda>i. vector_accesses (\<lambda>k.
           store_element h t f3 (of_nat ((unat vs3 + k) mod 32)) i (segment_address t base_addr nfields i k)) [0..<nfields])
               y)"

definition execute_vlse ::
    "'d DeviceHandler \<Rightarrow> 'a::len itself \<Rightarrow> RegId \<Rightarrow> Register \<Rightarrow> Register
        \<Rightarrow> bool \<Rightarrow> u32 \<Rightarrow> u8 \<Rightarrow> 'd System \<Rightarrow> 'd System" where
  "execute_vlse h t d base_addr stride vm l f3 =
     masked_accesses vm l (\<lambda>i. load_element h t f3 d i (base_addr + of_nat i * stride))"

definition execute_vsse ::
    "'d DeviceHandler \<Rightarrow> 'a::len itself \<Rightarrow> RegId \<Rightarrow> Register \<Rightarrow> Register
        \<Rightarrow> bool \<Rightarrow> u32 \<Rightarrow> u8 \<Rightarrow> 'd System \<Rightarrow> 'd System" where
  "execute_vsse h t vs3 base_addr stride vm l f3 =
     masked_accesses vm l (\<lambda>i. store_element h t f3 vs3 i (base_addr + of_nat i * stride))"

text \<open>The index elements are signed.\<close>

definition indexed_address :: "'b::len itself \<Rightarrow> Register \<Rightarrow> RegId \<Rightarrow> nat \<Rightarrow> 'd
    System \<Rightarrow> Address" where
  "indexed_address ti base_addr vs2 i y =
     base_addr + scast (get_group_element (regs (state y)) vs2 i :: 'b word)"

definition execute_vluxei ::
    "'d DeviceHandler \<Rightarrow> 'a::len itself \<Rightarrow> 'b::len itself \<Rightarrow> RegId \<Rightarrow> Register
        \<Rightarrow> RegId \<Rightarrow> bool \<Rightarrow> u32 \<Rightarrow> u8 \<Rightarrow>
     'd System \<Rightarrow> 'd System" where
  "execute_vluxei h td ti d base_addr vs2 vm l f3 =
     masked_accesses vm l (\<lambda>i y. load_element h td f3 d i (indexed_address ti base_addr vs2 i y) y)"

definition execute_vsuxei ::
    "'d DeviceHandler \<Rightarrow> 'a::len itself \<Rightarrow> 'b::len itself \<Rightarrow> RegId \<Rightarrow> Register
        \<Rightarrow> RegId \<Rightarrow> bool \<Rightarrow> u32 \<Rightarrow> u8 \<Rightarrow>
     'd System \<Rightarrow> 'd System" where
  "execute_vsuxei h td ti vs3 base_addr vs2 vm l f3 =
     masked_accesses vm l (\<lambda>i y. store_element h td f3 vs3 i (indexed_address ti base_addr vs2 i y) y)"

definition dispatch_vluxei ::
    "'d DeviceHandler \<Rightarrow> 'b::len itself \<Rightarrow> RegId \<Rightarrow> Register \<Rightarrow> RegId
        \<Rightarrow> bool \<Rightarrow> u32 \<Rightarrow> u32 \<Rightarrow> 'd System \<Rightarrow> 'd System" where
  "dispatch_vluxei h ti d base_addr vs2 vm l sew =
     by_sew sew (execute_vluxei h TYPE(8) ti d base_addr vs2 vm l Funct3_Lbu)
         (execute_vluxei h TYPE(16) ti d base_addr vs2 vm l Funct3_Lhu)
       (execute_vluxei h TYPE(32) ti d base_addr vs2 vm l Funct3_Lw)
           (execute_vluxei h TYPE(64) ti d base_addr vs2 vm l Funct3_Ld)"

definition dispatch_vsuxei ::
    "'d DeviceHandler \<Rightarrow> 'b::len itself \<Rightarrow> RegId \<Rightarrow> Register \<Rightarrow> RegId
        \<Rightarrow> bool \<Rightarrow> u32 \<Rightarrow> u32 \<Rightarrow> 'd System \<Rightarrow> 'd System" where
  "dispatch_vsuxei h ti vs3 base_addr vs2 vm l sew =
     by_sew sew (execute_vsuxei h TYPE(8) ti vs3 base_addr vs2 vm l Funct3_Sb)
         (execute_vsuxei h TYPE(16) ti vs3 base_addr vs2 vm l Funct3_Sh)
       (execute_vsuxei h TYPE(32) ti vs3 base_addr vs2 vm l Funct3_Sw)
           (execute_vsuxei h TYPE(64) ti vs3 base_addr vs2 vm l Funct3_Sd)"

definition execute_vector_memory ::
    "'d DeviceHandler \<Rightarrow> OperationId \<Rightarrow> RegId \<Rightarrow> RegId \<Rightarrow> RegId \<Rightarrow>
        bool \<Rightarrow> u32 \<Rightarrow> u32 \<Rightarrow> 'd System \<Rightarrow> 'd System" where
  "execute_vector_memory h op d s1 s2 vm l sew y =
     (let base = read_reg (regs (state y)) s1;
          stride = read_reg (regs (state y)) s2
      in if op = VLE8_V then execute_vle h TYPE(8) d base vm l Funct3_Lbu y
         else if op = VLE16_V then execute_vle h TYPE(16) d base vm l Funct3_Lhu y
         else if op = VLE32_V then execute_vle h TYPE(32) d base vm l Funct3_Lw y
         else if op = VLE64_V then execute_vle h TYPE(64) d base vm l Funct3_Ld y
         else if op = VSE8_V then execute_vse h TYPE(8) d base vm l Funct3_Sb y
         else if op = VSE16_V then execute_vse h TYPE(16) d base vm l Funct3_Sh y
         else if op = VSE32_V then execute_vse h TYPE(32) d base vm l Funct3_Sw y
         else if op = VSE64_V then execute_vse h TYPE(64) d base vm l Funct3_Sd y
         else if op = VLSE8_V then execute_vlse h TYPE(8) d base stride vm l Funct3_Lbu y
         else if op = VLSE16_V then execute_vlse h TYPE(16) d base stride vm l Funct3_Lhu y
         else if op = VLSE32_V then execute_vlse h TYPE(32) d base stride vm l Funct3_Lw y
         else if op = VLSE64_V then execute_vlse h TYPE(64) d base stride vm l Funct3_Ld y
         else if op = VSSE8_V then execute_vsse h TYPE(8) d base stride vm l Funct3_Sb y
         else if op = VSSE16_V then execute_vsse h TYPE(16) d base stride vm l Funct3_Sh y
         else if op = VSSE32_V then execute_vsse h TYPE(32) d base stride vm l Funct3_Sw y
         else if op = VSSE64_V then execute_vsse h TYPE(64) d base stride vm l Funct3_Sd y
         else if op = VLUXEI8_V \<or> op = VLOXEI8_V then dispatch_vluxei h TYPE(8) d base s2 vm l sew y
         else if op = VLUXEI16_V \<or> op = VLOXEI16_V then dispatch_vluxei h TYPE(16) d base s2 vm l sew y
         else if op = VLUXEI32_V \<or> op = VLOXEI32_V then dispatch_vluxei h TYPE(32) d base s2 vm l sew y
         else if op = VLUXEI64_V \<or> op = VLOXEI64_V then dispatch_vluxei h TYPE(64) d base s2 vm l sew y
         else if op = VSUXEI8_V \<or> op = VSOXEI8_V then dispatch_vsuxei h TYPE(8) d base s2 vm l sew y
         else if op = VSUXEI16_V \<or> op = VSOXEI16_V then dispatch_vsuxei h TYPE(16) d base s2 vm l sew y
         else if op = VSUXEI32_V \<or> op = VSOXEI32_V then dispatch_vsuxei h TYPE(32) d base s2 vm l sew y
         else if op = VSUXEI64_V \<or> op = VSOXEI64_V then dispatch_vsuxei h TYPE(64) d base s2 vm l sew y
         else if op = VL1RE8_V then execute_vl_whole h d base 1 1 y
         else if op = VL1RE16_V then execute_vl_whole h d base 1 2 y
         else if op = VL1RE32_V then execute_vl_whole h d base 1 4 y
         else if op = VL1RE64_V then execute_vl_whole h d base 1 8 y
         else if op = VL2RE8_V then execute_vl_whole h d base 2 1 y
         else if op = VL2RE16_V then execute_vl_whole h d base 2 2 y
         else if op = VL2RE32_V then execute_vl_whole h d base 2 4 y
         else if op = VL2RE64_V then execute_vl_whole h d base 2 8 y
         else if op = VL4RE8_V then execute_vl_whole h d base 4 1 y
         else if op = VL4RE16_V then execute_vl_whole h d base 4 2 y
         else if op = VL4RE32_V then execute_vl_whole h d base 4 4 y
         else if op = VL4RE64_V then execute_vl_whole h d base 4 8 y
         else if op = VL8RE8_V then execute_vl_whole h d base 8 1 y
         else if op = VL8RE16_V then execute_vl_whole h d base 8 2 y
         else if op = VL8RE32_V then execute_vl_whole h d base 8 4 y
         else if op = VL8RE64_V then execute_vl_whole h d base 8 8 y
         else if op = VS1R_V then execute_vs_whole h d base 1 y
         else if op = VS2R_V then execute_vs_whole h d base 2 y
         else if op = VS4R_V then execute_vs_whole h d base 4 y
         else if op = VS8R_V then execute_vs_whole h d base 8 y
         else y)"

subsection \<open>Faults and restarts\<close>

text \<open>What the body of an access loop promises: it stops exactly when its access faults, with \<open>vstart\<close> at
  the element it was working on.\<close>

locale access_body =
  fixes body :: "nat \<Rightarrow> 'd System \<Rightarrow> bool \<times> 'd System" and element :: "nat \<Rightarrow> nat"
  assumes stops: "\<not> has_fault y \<Longrightarrow> body i y = (True, y') \<Longrightarrow> has_fault y' \<and> vstart
      (state y') = of_nat (element i)"
    and continues: "\<not> has_fault y \<Longrightarrow> body i y = (False, y') \<Longrightarrow> \<not> has_fault y'"
begin

lemma accesses_stop:
  assumes "\<not> has_fault y" "vector_accesses body is y = (b, y')"
  shows "if b then has_fault y' \<and> (\<exists>i\<in>set is. vstart (state y') = of_nat (element i)) else \<not> has_fault
      y'"
  using assms
proof (induction "is" arbitrary: y)
  case (Cons i js)
  obtain b1 y1 where b1: "body i y = (b1, y1)" by fastforce
  show ?case
  proof (cases b1)
    case True
    then show ?thesis using Cons.prems b1 stops [OF Cons.prems(1)] by auto
  next
    case False
    then have "\<not> has_fault y1" using continues [OF Cons.prems(1)] b1 by simp
    from Cons.IH [OF this] show ?thesis using Cons.prems(2) b1 False by auto
  qed
qed simp

text \<open>A loop that stops does so at its first faulting access: the accesses before it complete, and the loop
  up to it leaves the state of the whole loop.\<close>

lemma accesses_split:
  assumes "\<not> has_fault y" "vector_accesses body is y = (True, y')"
  shows "\<exists>pre i post. is = pre @ i # post \<and> \<not> fst (vector_accesses body pre y) \<and>
    \<not> has_fault (snd (vector_accesses body pre y)) \<and> vector_accesses body (pre @ [i]) y = (True, y') \<and>
    vstart (state y') = of_nat (element i)"
  using assms
proof (induction "is" arbitrary: y)
  case (Cons i js)
  obtain b1 y1 where b1: "body i y = (b1, y1)" by fastforce
  show ?case
  proof (cases b1)
    case True
    then show ?thesis using Cons.prems b1 stops [OF Cons.prems(1)] by (intro exI [of _ "[]"]) auto
  next
    case False
    then have "\<not> has_fault y1" "vector_accesses body js y1 = (True, y')"
      using continues [OF Cons.prems(1)] b1 Cons.prems(2) by simp_all
    from Cons.IH [OF this] obtain pre k post where "js = pre @ k # post" "\<not> fst (vector_accesses body pre y1)"
      "\<not> has_fault (snd (vector_accesses body pre y1))" "vector_accesses body (pre @ [k]) y1 = (True, y')"
      "vstart (state y') = of_nat (element k)" by blast
    then show ?thesis using b1 False by (intro exI [of _ "i # pre"] exI [of _ k] exI [of _ post]) simp
  qed
qed simp

lemma interval_split:
  assumes "\<not> has_fault y" "has_fault (snd (vector_accesses body [a..<b] y))"
  shows "\<exists>k. a \<le> k \<and> k < b \<and> \<not> has_fault (snd (vector_accesses body [a..<k] y)) \<and>
    snd (vector_accesses body [a..<b] y) = snd (vector_accesses body [a..<Suc k] y) \<and>
    vstart (state (snd (vector_accesses body [a..<b] y))) = of_nat (element k)"
proof -
  obtain s y' where r: "vector_accesses body [a..<b] y = (s, y')" by fastforce
  then have s using accesses_stop [OF assms(1) r] assms(2) by (auto split: if_splits)
  then obtain pre k post where p: "[a..<b] = pre @ k # post" "\<not> has_fault (snd (vector_accesses body pre y))"
    "vector_accesses body (pre @ [k]) y = (True, y')" "vstart (state y') = of_nat (element k)"
    using accesses_split [OF assms(1), of "[a..<b]" y'] r by auto
  have len: "length pre < b - a" using arg_cong [OF p(1), of length] by (simp only: length_upt length_append list.size)
  have "k = [a..<b] ! length pre" "pre = take (length pre) [a..<b]" unfolding p(1) by simp_all
  then have "k = a + length pre" "pre = [a..<a + length pre]" using len by (simp_all add: take_upt)
  then have k: "a \<le> k" "k < b" "pre = [a..<k]" using len by simp_all
  then show ?thesis using p k r by (intro exI [of _ k]) simp
qed

lemma masked: "access_body (\<lambda>i y. if is_element_active (read_vector (regs (state y)) 0) i vm then body i y else
    (False, y)) element"
proof
  fix y :: "'d System" and i y'
  let ?act = "is_element_active (read_vector (regs (state y)) 0) i vm"
  assume y: "\<not> has_fault y"
  show "has_fault y' \<and> vstart (state y') = of_nat (element i)" if "(if ?act then body i y else (False, y)) = (True, y')"
    using that by (cases ?act) (simp_all add: stops [OF y])
  show "\<not> has_fault y'" if "(if ?act then body i y else (False, y)) = (False, y')"
    using that y continues [OF y, of i y'] by (cases ?act) simp_all
qed

end

lemma has_fault_upd_state [simp]: "has_fault (upd_state g y) = has_fault y"
  by (simp add: has_fault_def ctx_def upd_state_def)

interpretation load_body: access_body "\<lambda>k y. load_element h t f3 (target k) (element k) (addr k y) y" element
  for h t f3 target element addr
  by unfold_locales
    (auto simp: load_element_def set_vstart_def upd_regs_def state_def upd_state_def has_fault_def ctx_def split:
        prod.splits if_splits)

interpretation store_body: access_body "\<lambda>k y. store_element h t f3 (source k) (element k) (addr k y) y" element
  for h t f3 source element addr
  by unfold_locales
    (auto simp: store_element_def set_vstart_def state_def upd_state_def has_fault_def ctx_def Let_def split: if_splits)

text \<open>A loop over the fields of a segment is a body for the loop over the elements.\<close>

lemma segment_body:
  fixes field_access :: "nat \<Rightarrow> nat \<Rightarrow> 'a System \<Rightarrow> bool \<times> 'a System"
  assumes "\<And>i. access_body (field_access i) (\<lambda>_. i)"
  shows "access_body (\<lambda>i. vector_accesses (field_access i) ks) (\<lambda>i. i)"
proof
  fix i and y y' :: "'a System"
  assume y: "\<not> has_fault y"
  show "has_fault y' \<and> vstart (state y') = of_nat i" if "vector_accesses (field_access i) ks y = (True, y')"
    using access_body.accesses_stop [OF assms y that] by auto
  show "\<not> has_fault y'" if "vector_accesses (field_access i) ks y = (False, y')"
    using access_body.accesses_stop [OF assms y that] by simp
qed

text \<open>An access loop of at most \<open>l\<close> elements, as a function of the number of elements, is
    restartable.\<close>

definition restartable :: "'d System \<Rightarrow> u32 \<Rightarrow> (u32 \<Rightarrow> 'd System) \<Rightarrow> bool" where
  "restartable y l run \<longleftrightarrow>
     (has_fault (run l) \<longrightarrow>
      (\<exists>k. unat (ucast (vstart (state y)) :: u32) \<le> k \<and> k < unat l \<and> \<not> has_fault (run (of_nat k))
          \<and>
         run l = run (of_nat (Suc k)) \<and> vstart (state (run l)) = of_nat k))"

lemma masked_restartable:
  assumes "access_body body (\<lambda>i. i)" "\<not> has_fault y"
  shows "restartable y l (\<lambda>l. masked_accesses vm l body y)"
proof -
  have u: "unat (of_nat k :: u32) = k" if "k \<le> unat l" for k
    using that unsigned_less [of l, where 'a = nat] by (simp add: unat_of_nat)
  define run where "run j = snd (vector_accesses (\<lambda>i y. if is_element_active (read_vector (regs (state y)) 0) i vm
      then body i y else (False, y)) [unat (ucast (vstart (state y)) :: u32)..<j] y)" for j
  have m: "masked_accesses vm l' body y = run (unat l')" for l'
    by (simp add: masked_accesses_def vector_elements_def run_def)
  have "\<exists>k. unat (ucast (vstart (state y)) :: u32) \<le> k \<and> k < unat l \<and> \<not> has_fault (run k) \<and>
      run (unat l) = run (Suc k) \<and> vstart (state (run (unat l))) = of_nat k" if "has_fault (run (unat l))"
    using access_body.interval_split [OF access_body.masked [OF assms(1)] assms(2)] that unfolding run_def by blast
  then show ?thesis
    unfolding restartable_def m using u by (metis Suc_leI less_imp_le)
qed

lemma element_restartable:
  assumes "\<not> has_fault y"
  shows "restartable y l (\<lambda>l. execute_vle h t d base vm l f3 y)"
    and "restartable y l (\<lambda>l. execute_vse h t d base vm l f3 y)"
    and "restartable y l (\<lambda>l. execute_vlse h t d base stride vm l f3 y)"
    and "restartable y l (\<lambda>l. execute_vsse h t d base stride vm l f3 y)"
    and "restartable y l (\<lambda>l. execute_vluxei h t t' d base vs2 vm l f3 y)"
    and "restartable y l (\<lambda>l. execute_vsuxei h t t' d base vs2 vm l f3 y)"
  unfolding execute_vle_def execute_vse_def execute_vlse_def execute_vsse_def execute_vluxei_def execute_vsuxei_def Let_def
  using assms
  by (auto intro!: masked_restartable segment_body load_body.access_body_axioms store_body.access_body_axioms)

lemma restartable_if:
  "(c \<Longrightarrow> restartable y l f) \<Longrightarrow> (\<not> c \<Longrightarrow> restartable y l g)
      \<Longrightarrow> restartable y l (\<lambda>l. if c then f l else g l)"
  by (cases c) simp_all

lemma indexed_restartable:
  assumes "\<not> has_fault y"
  shows "restartable y l (\<lambda>l. dispatch_vluxei h t d base vs2 vm l sew y)"
    and "restartable y l (\<lambda>l. dispatch_vsuxei h t d base vs2 vm l sew y)"
  unfolding dispatch_vluxei_def dispatch_vsuxei_def by_sew_def if_distrib [of "\<lambda>g. g y"]
  by (intro restartable_if element_restartable [OF assms])+

text \<open>The whole-register accesses, with the number of registers and the bytes per element.\<close>

definition whole_load :: "OperationId \<Rightarrow> (nat \<times> u32) option" where
  "whole_load =
     map_of [(VL1RE8_V, (1, 1)), (VL1RE16_V, (1, 2)), (VL1RE32_V, (1, 4)), (VL1RE64_V, (1, 8)),
             (VL2RE8_V, (2, 1)), (VL2RE16_V, (2, 2)), (VL2RE32_V, (2, 4)), (VL2RE64_V, (2, 8)),
             (VL4RE8_V, (4, 1)), (VL4RE16_V, (4, 2)), (VL4RE32_V, (4, 4)), (VL4RE64_V, (4, 8)),
             (VL8RE8_V, (8, 1)), (VL8RE16_V, (8, 2)), (VL8RE32_V, (8, 4)), (VL8RE64_V, (8, 8))]"

definition whole_store :: "OperationId \<Rightarrow> nat option" where
  "whole_store = map_of [(VS1R_V, 1), (VS2R_V, 2), (VS4R_V, 4), (VS8R_V, 8)]"

lemma whole_load_memory:
  assumes "whole_load op = Some (nr, eb)"
  shows "execute_vector_memory h op d s1 s2 vm l sew y = execute_vl_whole h d (read_reg (regs (state y)) s1) nr eb y"
  using map_of_SomeD [OF assms [unfolded whole_load_def]]
  by (simp only: list.set insert_iff empty_iff prod.inject) (elim disjE conjE FalseE; simp add: execute_vector_memory_def)

lemma whole_store_memory:
  assumes "whole_store op = Some nr"
  shows "execute_vector_memory h op d s1 s2 vm l sew y = execute_vs_whole h d (read_reg (regs (state y)) s1) nr y"
  using map_of_SomeD [OF assms [unfolded whole_store_def]]
  by (simp only: list.set insert_iff empty_iff prod.inject) (elim disjE conjE FalseE; simp add: execute_vector_memory_def)

lemma memory_restartable:
  assumes "\<not> has_fault y" "whole_load op = None" "whole_store op = None"
  shows "restartable y l (\<lambda>l. execute_vector_memory h op d s1 s2 vm l sew y)"
proof -
  have "restartable y l (\<lambda>l. y)" using assms(1) by (simp add: restartable_def)
  then show ?thesis
    unfolding execute_vector_memory_def Let_def
    by (intro restartable_if element_restartable [OF assms(1)] indexed_restartable [OF assms(1)])
      (use assms(2,3) in \<open>simp_all add: whole_load_def whole_store_def\<close>)
qed

lemma whole_bodies:
  "access_body (vl_whole_byte h d base eb n) (\<lambda>i. i div unat eb)" "access_body (vs_whole_byte h d base n)
      (\<lambda>i. i)"
  by unfold_locales
    (auto simp: vl_whole_byte_def vs_whole_byte_def set_vstart_def upd_regs_def state_def upd_state_def has_fault_def ctx_def
      Let_def split: prod.splits if_splits)

end
