(* ===== verification/Vector_Unit.thy ===== *)
theory Vector_Unit
  imports Float_Unit Vector_Integer Vector_Fixed Vector_Permute Vector_Memory
begin

text \<open>
  The vector floating-point loops (\<^verbatim>\<open>src/execute/vector/VectorFloat.cpp\<close>, with the half-precision
  conversions of \<^verbatim>\<open>VectorHelpers.hpp\<close>) and the dispatcher of the vector unit
  (\<^verbatim>\<open>src/execute/ExecuteUnitVector.cpp\<close>). Floating-point values are their bit patterns; the
  additions and fused multiplications of the host processor are fields of the parameter \<open>HostFpu\<close> of
  \<^verbatim>\<open>Float_Unit\<close>.
\<close>

subsection \<open>Rounding and flags\<close>

definition host_exceptions_to_fflags :: "HostException list \<Rightarrow> CSRValue" where
  "host_exceptions_to_fflags ex =
     (if FE_INEXACT \<in> set ex then 0x01 else 0) OR (if FE_UNDERFLOW \<in> set ex then 0x02 else 0) OR
     (if FE_OVERFLOW \<in> set ex then 0x04 else 0) OR (if FE_DIVBYZERO \<in> set ex then 0x08 else 0) OR
     (if FE_INVALID \<in> set ex then 0x10 else 0)"

definition frm_to_host_round :: "CSRValue \<Rightarrow> HostRound" where
  "frm_to_host_round f =
     (let m = drop_bit 5 f AND 7 in
      if m = 1 then FE_TOWARDZERO else if m = 2 then FE_DOWNWARD else if m = 3 then FE_UPWARD else FE_TONEAREST)"

definition canonicalize_nan32 :: "u32 \<Rightarrow> u32" where
  "canonicalize_nan32 v =
     (if v AND 0x7F800000 = 0x7F800000 \<and> v AND 0x7FFFFF \<noteq> 0 then 0x7FC00000 else v)"

definition canonicalize_nan64 :: "u64 \<Rightarrow> u64" where
  "canonicalize_nan64 v =
     (if v AND 0x7FF0000000000000 = 0x7FF0000000000000 \<and> v AND 0xFFFFFFFFFFFFF \<noteq> 0 then 0x7FF8000000000000 else
         v)"

text \<open>Half precision. The mantissa of a subnormal has ten bits, so that ten shifts normalise it.\<close>

fun normalize16 :: "nat \<Rightarrow> u32 \<Rightarrow> u32 \<Rightarrow> u32 \<times> u32" where
  "normalize16 0 h_mant h_exp = (h_mant, h_exp)"
| "normalize16 (Suc n) h_mant h_exp =
     (if h_mant AND 0x400 = 0 then normalize16 n (push_bit 1 h_mant) (h_exp - 1) else (h_mant, h_exp))"

definition fp16_to_fp32 :: "u16 \<Rightarrow> u32" where
  "fp16_to_fp32 h =
     (let h_sign = ucast (drop_bit 15 h AND 1) :: u32;
          h_exp = ucast (drop_bit 10 h AND 0x1F) :: u32;
          h_mant = ucast (h AND 0x3FF) :: u32;
          f_sign = push_bit 31 h_sign
      in if h_exp = 0 then
           if h_mant = 0 then f_sign
           else
             let (m, e) = normalize16 10 h_mant h_exp
             in f_sign OR push_bit 23 ((e + 1 - 15 + 127) AND 0xFF) OR push_bit 13 (m AND 0x3FF)
         else if h_exp = 0x1F then
           f_sign OR push_bit 23 0xFF OR (if h_mant \<noteq> 0 then push_bit 13 h_mant OR 0x400000 else 0)
         else f_sign OR push_bit 23 (h_exp - 15 + 127) OR push_bit 13 h_mant)"

definition fp32_to_fp16 :: "u32 \<Rightarrow> u16" where
  "fp32_to_fp16 f_bits =
     (let f_sign = drop_bit 31 f_bits AND 1;
          f_exp = drop_bit 23 f_bits AND 0xFF;
          f_mant = f_bits AND 0x7FFFFF;
          h_sign = push_bit 15 f_sign;
          e = int (unat f_exp) - 127 + 15;
          (h_exp, h_mant) =
            (if f_exp = 0 then (0, 0)
             else if f_exp = 0xFF then (0x1F, if f_mant \<noteq> 0 then drop_bit 13 f_mant OR 1 else 0)
             else if e \<ge> 0x1F then (0x1F, 0)
             else if e \<le> 0 then
               if 14 - e < 24 then
                 let m = f_mant OR 0x800000;
                     q = drop_bit (nat (14 - e)) m
                 in (0, if drop_bit (nat (13 - e)) m AND 1 \<noteq> 0 then q + 1 else q)
               else (0, 0)
             else
               let q = drop_bit 13 f_mant
               in if drop_bit 12 f_mant AND 1 \<noteq> 0 then
                    if (q + 1) AND 0x400 \<noteq> 0 then (of_int e + 1, 0) else (of_int e, q + 1)
                  else (of_int e, q)) :: u32 \<times> u32
      in ucast (h_sign OR push_bit 10 h_exp OR h_mant))"

subsection \<open>Floating-point loops\<close>

definition float_step ::
    "bool \<Rightarrow> RegId \<Rightarrow> (RegisterFile \<Rightarrow> nat \<Rightarrow> 'a::len word \<times>
        HostException list) \<Rightarrow> nat \<Rightarrow>
     HostException list \<times> RegisterFile \<Rightarrow> HostException list \<times> RegisterFile" where
  "float_step vm d f i acc =
     (let (ex, rf) = acc in
      if is_element_active (read_vector rf 0) i vm
      then let (res, ex') = f rf i in (ex @ ex', set_group_element rf d i res)
      else acc)"

definition float_loop ::
    "bool \<Rightarrow> RegId \<Rightarrow> (RegisterFile \<Rightarrow> nat \<Rightarrow> 'a::len word \<times>
        HostException list) \<Rightarrow> u32 \<Rightarrow> ArchState \<Rightarrow>
     HostException list \<times> ArchState" where
  "float_loop vm d f l s =
     (let (ex, rf) = fold (float_step vm d f) (vector_elements s l) ([], regs s) in (ex, s\<lparr>regs := rf\<rparr>))"

definition add_half :: "HostFpu \<Rightarrow> HostRound \<Rightarrow> u16 \<Rightarrow> u16 \<Rightarrow> u16 \<times>
    HostException list" where
  "add_half fpu rm a b =
     (let (res, ex) = host_add32 fpu rm (fp16_to_fp32 a) (fp16_to_fp32 b)
      in (fp32_to_fp16 (canonicalize_nan32 res), ex))"

definition add_single :: "HostFpu \<Rightarrow> HostRound \<Rightarrow> u32 \<Rightarrow> u32 \<Rightarrow> u32 \<times>
    HostException list" where
  "add_single fpu rm a b = (let (res, ex) = host_add32 fpu rm a b in (canonicalize_nan32 res, ex))"

definition add_double :: "HostFpu \<Rightarrow> HostRound \<Rightarrow> u64 \<Rightarrow> u64 \<Rightarrow> u64 \<times>
    HostException list" where
  "add_double fpu rm a b = (let (res, ex) = host_add64 fpu rm a b in (canonicalize_nan64 res, ex))"

definition execute_vfadd_vv ::
    "('a::len word \<Rightarrow> 'a word \<Rightarrow> 'a word \<times> HostException list) \<Rightarrow> RegId
        \<Rightarrow> RegId \<Rightarrow> RegId \<Rightarrow> bool \<Rightarrow> u32 \<Rightarrow> ArchState \<Rightarrow>
     HostException list \<times> ArchState" where
  "execute_vfadd_vv add d s1 s2 vm l =
     float_loop vm d (\<lambda>rf i. add (get_group_element rf s2 i) (get_group_element rf s1 i)) l"

text \<open>The scalar operand: a single that is not NaN-boxed reads as the canonical NaN. The sum of singles is
  stored as the host returns it.\<close>

definition unbox_single :: "FloatingRegister \<Rightarrow> u32" where
  "unbox_single v = (if v AND 0xFFFFFFFF00000000 \<noteq> 0xFFFFFFFF00000000 then 0x7FC00000 else ucast (v AND 0xFFFFFFFF))"

definition execute_vfadd_vf ::
    "('a::len word \<Rightarrow> 'a word \<Rightarrow> 'a word \<times> HostException list) \<Rightarrow> RegId
        \<Rightarrow> 'a word \<Rightarrow> RegId \<Rightarrow> bool \<Rightarrow> u32 \<Rightarrow> ArchState \<Rightarrow>
     HostException list \<times> ArchState" where
  "execute_vfadd_vf add d val1 s2 vm l = float_loop vm d (\<lambda>rf i. add (get_group_element rf s2 i) val1) l"

definition fma_single :: "HostFpu \<Rightarrow> HostRound \<Rightarrow> u32 \<Rightarrow> u32 \<Rightarrow> u32
    \<Rightarrow> u32 \<times> HostException list" where
  "fma_single fpu rm a b c = (let (res, ex) = host_fma32 fpu rm a b c in (canonicalize_nan32 res, ex))"

definition fma_double :: "HostFpu \<Rightarrow> HostRound \<Rightarrow> u64 \<Rightarrow> u64 \<Rightarrow> u64
    \<Rightarrow> u64 \<times> HostException list" where
  "fma_double fpu rm a b c = (let (res, ex) = host_fma64 fpu rm a b c in (canonicalize_nan64 res, ex))"

definition perform_vfmacc_vv ::
    "('a::len word \<Rightarrow> 'a word \<Rightarrow> 'a word \<Rightarrow> 'a word \<times> HostException list)
        \<Rightarrow> RegId \<Rightarrow> RegId \<Rightarrow> RegId \<Rightarrow> bool \<Rightarrow> u32 \<Rightarrow>
        ArchState \<Rightarrow>
     HostException list \<times> ArchState" where
  "perform_vfmacc_vv fma d s1 s2 vm l =
     float_loop vm d (\<lambda>rf i. fma (get_group_element rf s2 i) (get_group_element rf s1 i) (get_group_element rf d i))
         l"

definition perform_vfmacc_vf ::
    "('a::len word \<Rightarrow> 'a word \<Rightarrow> 'a word \<Rightarrow> 'a word \<times> HostException list)
        \<Rightarrow> RegId \<Rightarrow> 'a word \<Rightarrow> RegId \<Rightarrow> bool \<Rightarrow> u32 \<Rightarrow>
        ArchState \<Rightarrow>
     HostException list \<times> ArchState" where
  "perform_vfmacc_vf fma d scalar s2 vm l =
     float_loop vm d (\<lambda>rf i. fma (get_group_element rf s2 i) scalar (get_group_element rf d i)) l"

definition execute_vector_float ::
    "HostFpu \<Rightarrow> OperationId \<Rightarrow> RegId \<Rightarrow> RegId \<Rightarrow> RegId \<Rightarrow> bool
        \<Rightarrow> u32 \<Rightarrow> u32 \<Rightarrow> ArchState \<Rightarrow> ArchState" where
  "execute_vector_float fpu op d s1 s2 vm l sew s =
     (let rm = frm_to_host_round (fcsr s);
          v = read_fp (regs s) s1;
          (ex, s') =
            (if op = VFMACC_VV then
               if sew = 32 then perform_vfmacc_vv (fma_single fpu rm) d s1 s2 vm l s
               else if sew = 64 then perform_vfmacc_vv (fma_double fpu rm) d s1 s2 vm l s
               else ([], s)
             else if op = VFMACC_VF then
               if sew = 32 then perform_vfmacc_vf (fma_single fpu rm) d (unbox_single v) s2 vm l s
               else if sew = 64 then perform_vfmacc_vf (fma_double fpu rm) d v s2 vm l s
               else ([], s)
             else if op = VFADD_VV then
               if sew = 16 then execute_vfadd_vv (add_half fpu rm) d s1 s2 vm l s
               else if sew = 32 then execute_vfadd_vv (add_single fpu rm) d s1 s2 vm l s
               else if sew = 64 then execute_vfadd_vv (add_double fpu rm) d s1 s2 vm l s
               else ([], s)
             else if op = VFADD_VF then
               if sew = 16 then execute_vfadd_vf (add_half fpu rm) d (ucast (v AND 0xFFFF)) s2 vm l s
               else if sew = 32 then execute_vfadd_vf (host_add32 fpu rm) d (unbox_single v) s2 vm l s
               else if sew = 64 then execute_vfadd_vf (add_double fpu rm) d v s2 vm l s
               else ([], s)
             else ([], s))
      in s'\<lparr>fcsr := fcsr s' OR host_exceptions_to_fflags ex\<rparr>)"

subsection \<open>Dispatch\<close>

definition requires_zero_vstart :: "OperationId \<Rightarrow> bool" where
  "requires_zero_vstart op \<longleftrightarrow>
      op = VREDSUM_VS \<or> op = VWREDSUM_VS \<or> op = VWREDSUMU_VS \<or> op = VCPOP_M \<or> op = VFIRST_M \<or>
      op = VMSBF_M \<or> op = VMSIF_M \<or> op = VMSOF_M \<or> op = VIOTA_M \<or> op = VCOMPRESS_VM"

definition is_vector_fp :: "OperationId \<Rightarrow> bool" where
  "is_vector_fp op \<longleftrightarrow>
      op = VFADD_VV \<or> op = VFADD_VF \<or> op = VFMACC_VV \<or> op = VFMACC_VF \<or> op = VFMV_F_S \<or> op = VFMV_S_F
          \<or>
      op = VFMERGE_VFM"

definition is_vector_fp_arithmetic :: "OperationId \<Rightarrow> bool" where
  "is_vector_fp_arithmetic op \<longleftrightarrow>
      op = VFADD_VV \<or> op = VFADD_VF \<or> op = VFMACC_VV \<or> op = VFMACC_VF"

text \<open>The operations of the cases of the dispatcher.\<close>

definition is_config_case :: "OperationId \<Rightarrow> bool" where
  "is_config_case op \<longleftrightarrow>
      op = VSETVLI \<or> op = VSETIVLI \<or> op = VSETVL"

definition is_memory_case :: "OperationId \<Rightarrow> bool" where
  "is_memory_case op \<longleftrightarrow>
      op = VLE8_V \<or> op = VLE16_V \<or> op = VLE32_V \<or> op = VLE64_V \<or> op = VSE8_V \<or> op = VSE16_V \<or>
      op = VSE32_V \<or> op = VSE64_V \<or> op = VLSE8_V \<or> op = VLSE16_V \<or> op = VLSE32_V \<or> op = VLSE64_V \<or>
      op = VSSE8_V \<or> op = VSSE16_V \<or> op = VSSE32_V \<or> op = VSSE64_V \<or> op = VLUXEI8_V \<or> op = VLOXEI8_V
          \<or>
      op = VLUXEI16_V \<or> op = VLOXEI16_V \<or> op = VLUXEI32_V \<or> op = VLOXEI32_V \<or> op = VLUXEI64_V \<or>
      op = VLOXEI64_V \<or> op = VSUXEI8_V \<or> op = VSOXEI8_V \<or> op = VSUXEI16_V \<or> op = VSOXEI16_V \<or>
      op = VSUXEI32_V \<or> op = VSOXEI32_V \<or> op = VL1RE8_V \<or> op = VL1RE16_V \<or> op = VL1RE32_V \<or>
      op = VL1RE64_V \<or> op = VL2RE8_V \<or> op = VL2RE16_V \<or> op = VL2RE32_V \<or> op = VL2RE64_V \<or> op = VL4RE8_V
          \<or>
      op = VL4RE16_V \<or> op = VL4RE32_V \<or> op = VL4RE64_V \<or> op = VL8RE8_V \<or> op = VL8RE16_V \<or>
      op = VL8RE32_V \<or> op = VL8RE64_V \<or> op = VS1R_V \<or> op = VS2R_V \<or> op = VS4R_V \<or> op = VS8R_V"

definition is_float_case :: "OperationId \<Rightarrow> bool" where
  "is_float_case op \<longleftrightarrow>
      op = VFADD_VV \<or> op = VFADD_VF \<or> op = VFMACC_VV \<or> op = VFMACC_VF"

definition is_fixed_case :: "OperationId \<Rightarrow> bool" where
  "is_fixed_case op \<longleftrightarrow>
      op = VSADD_VV \<or> op = VSADD_VX \<or> op = VSADD_VI \<or> op = VSADDU_VV \<or> op = VSADDU_VX \<or> op = VSADDU_VI
          \<or>
      op = VSMUL_VV \<or> op = VSMUL_VX \<or> op = VSSRA_VV \<or> op = VSSRA_VX \<or> op = VSSRA_VI \<or> op = VSSRL_VV \<or>
      op = VSSRL_VX \<or> op = VSSRL_VI \<or> op = VSSUB_VV \<or> op = VSSUB_VX \<or> op = VSSUBU_VV \<or> op = VSSUBU_VX
          \<or>
      op = VNCLIP_WV \<or> op = VNCLIP_WX \<or> op = VNCLIP_WI \<or> op = VNCLIPU_WV \<or> op = VNCLIPU_WX \<or>
      op = VNCLIPU_WI"

definition is_permute_case :: "OperationId \<Rightarrow> bool" where
  "is_permute_case op \<longleftrightarrow>
      op = VMV_X_S \<or> op = VMV_S_X \<or> op = VMERGE_VVM \<or> op = VMERGE_VXM \<or> op = VMERGE_VIM \<or> op = VID_V
          \<or>
      op = VMV_V_V \<or> op = VMV_V_X \<or> op = VMV_V_I \<or> op = VSLIDE1UP_VX \<or> op = VSLIDE1DOWN_VX \<or>
      op = VSLIDEDOWN_VX \<or> op = VSLIDEDOWN_VI \<or> op = VSLIDEUP_VX \<or> op = VSLIDEUP_VI \<or> op = VMV1R_V \<or>
      op = VMV2R_V \<or> op = VMV4R_V \<or> op = VMV8R_V \<or> op = VCOMPRESS_VM \<or> op = VFMV_F_S \<or> op = VFMV_S_F
          \<or>
      op = VFMERGE_VFM"

definition vector_sew :: "ArchState \<Rightarrow> u32" where
  "vector_sew s = push_bit (unat (drop_bit 3 (vtype s) AND 7)) 8"

definition vector_simm5 :: "Instruction \<Rightarrow> u32" where
  "vector_simm5 i = (let v = ucast (drop_bit 15 i AND 0x1F) :: u32 in if v AND 0x10 \<noteq> 0 then v OR NOT 0x1F else v)"

definition vector_fp_illegal :: "OperationId \<Rightarrow> u32 \<Rightarrow> ArchState \<Rightarrow> bool" where
  "vector_fp_illegal op sew s \<longleftrightarrow>
     is_vector_fp op \<and>
     (let scalar_fp_enabled = (sew = 32 \<and> misa_has_extension (misa s) Ext_F) \<or>
         (sew = 64 \<and> misa_has_extension (misa s) Ext_D);
          fs_enabled = (mstatus s AND Mstatus_Fs \<noteq> 0);
          rounding = drop_bit 5 (fcsr s) AND 7
      in \<not> scalar_fp_enabled \<or> \<not> fs_enabled \<or> (is_vector_fp_arithmetic op \<and> rounding \<ge> 5))"

definition vector_dispatch :: "HostFpu \<Rightarrow> 'd DeviceHandler \<Rightarrow> OperationId \<Rightarrow> Instruction
    \<Rightarrow> 'd System \<Rightarrow> 'd System" where
  "vector_dispatch fpu h op i y =
     (let d = ucast (drop_bit 7 i AND 0x1F);
          s1 = ucast (drop_bit 15 i AND 0x1F);
          s2 = ucast (drop_bit 20 i AND 0x1F);
          vm = (drop_bit 25 i AND 1 \<noteq> 0);
          simm5 = vector_simm5 i;
          l = ucast (vl (state y)) :: u32;
          sew = vector_sew (state y);
          rs1_val = read_reg (regs (state y)) s1
      in if is_config_case op then upd_state (execute_vector_config op i d s1 s2) y
         else if is_memory_case op then execute_vector_memory h op d s1 s2 vm l sew y
         else if is_float_case op then upd_state (execute_vector_float fpu op d s1 s2 vm l sew) y
         else if is_fixed_case op then upd_state (execute_vector_fixed_point op d s1 s2 vm l sew rs1_val simm5) y
         else if is_permute_case op then upd_state (execute_vector_permute op d s1 s2 vm l sew rs1_val simm5) y
         else upd_state (execute_vector_integer op d s1 s2 vm l sew rs1_val simm5) y)"

definition execute_vector_unit :: "HostFpu \<Rightarrow> 'd DeviceHandler \<Rightarrow> OperationId \<Rightarrow>
    Instruction \<Rightarrow> 'd System \<Rightarrow> 'd System" where
  "execute_vector_unit fpu h op i y =
     (let illegal = set_fault IllegalInstruction (ucast i) y in
      if vstart (state y) \<noteq> 0 \<and> requires_zero_vstart op then illegal
      else if vector_fp_illegal op (vector_sew (state y)) (state y) then illegal
      else
        let y1 = vector_dispatch fpu h op i y
        in if has_fault y1 then y1
           else upd_state (\<lambda>s. (if is_vector_fp op then s\<lparr>mstatus := mstatus s OR Mstatus_Fs\<rparr> else
               s)\<lparr>vstart := 0\<rparr>) y1)"

subsection \<open>Completion and faults\<close>

lemma has_fault_set_fault [simp]: "has_fault (set_fault c v y)"
  by (simp add: has_fault_def ctx_def set_fault_def upd_ctx_def)

lemma state_upd_state [simp]: "state (upd_state g y) = g (state y)"
  by (simp add: state_def upd_state_def)

text \<open>The memory accesses of an instruction: the index of its first access, the number of accesses, the
  element that access \<open>k\<close> belongs to, and the instruction restricted to its accesses before \<open>k\<close>.
      Whole-register
  instructions access bytes, the others elements.\<close>

definition access_range :: "OperationId \<Rightarrow> ArchState \<Rightarrow> nat \<times> nat" where
  "access_range op s =
     (let v = ucast (vstart s) :: u32; n = vlen_bytes (regs s) in
      case (whole_load op, whole_store op) of
        (Some (nr, eb), _) \<Rightarrow> (unat (v * eb), nr * n)
      | (None, Some nr) \<Rightarrow> (unat v, nr * n)
      | (None, None) \<Rightarrow> (unat v, unat (ucast (vl s) :: u32)))"

definition access_element :: "OperationId \<Rightarrow> nat \<Rightarrow> nat" where
  "access_element op k = (case whole_load op of Some (nr, eb) \<Rightarrow> k div unat eb | None \<Rightarrow> k)"

definition accesses_before :: "'d DeviceHandler \<Rightarrow> OperationId \<Rightarrow> Instruction \<Rightarrow> 'd System
    \<Rightarrow> nat \<Rightarrow> 'd System" where
  "accesses_before h op i y k =
     (let d = ucast (drop_bit 7 i AND 0x1F); s1 = ucast (drop_bit 15 i AND 0x1F); s2 = ucast (drop_bit 20 i AND 0x1F);
          vm = (drop_bit 25 i AND 1 \<noteq> 0); base = read_reg (regs (state y)) s1; n = vlen_bytes (regs (state y));
          first = fst (access_range op (state y))
      in case (whole_load op, whole_store op) of
           (Some (nr, eb), _) \<Rightarrow> snd (vector_accesses (vl_whole_byte h d base eb n) [first..<k] y)
         | (None, Some nr) \<Rightarrow> snd (vector_accesses (vs_whole_byte h d base n) [first..<k] y)
         | (None, None) \<Rightarrow> execute_vector_memory h op d s1 s2 vm (of_nat k) (vector_sew (state y)) y)"

definition stopped_at :: "'d DeviceHandler \<Rightarrow> OperationId \<Rightarrow> Instruction \<Rightarrow> 'd System
    \<Rightarrow> 'd System \<Rightarrow> nat \<Rightarrow> bool" where
  "stopped_at h op i y y' k \<longleftrightarrow>
     fst (access_range op (state y)) \<le> k \<and> k < snd (access_range op (state y)) \<and>
     \<not> has_fault (accesses_before h op i y k) \<and> y' = accesses_before h op i y (Suc k) \<and>
     vstart (state y') = of_nat (access_element op k)"

lemma memory_stopped_at:
  fixes i :: Instruction
  defines "d \<equiv> ucast (drop_bit 7 i AND 0x1F)" and "s1 \<equiv> ucast (drop_bit 15 i AND 0x1F)" and "s2 \<equiv> ucast
      (drop_bit 20 i AND 0x1F)"
    and "vm \<equiv> (drop_bit 25 i AND 1 \<noteq> 0)"
  assumes "\<not> has_fault y"
    "has_fault (execute_vector_memory h op d s1 s2 vm (ucast (vl (state y))) (vector_sew (state y)) y)"
  shows "\<exists>k. stopped_at h op i y (execute_vector_memory h op d s1 s2 vm (ucast (vl (state y)))
      (vector_sew (state y)) y) k"
proof -
  note defs = d_def [symmetric] s1_def [symmetric] s2_def [symmetric] vm_def [symmetric]
  consider (load) nr eb where "whole_load op = Some (nr, eb)" | (store) nr where "whole_load op = None" "whole_store op =
      Some nr"
    | (elements) "whole_load op = None" "whole_store op = None"
    by (cases "whole_load op"; cases "whole_store op") auto
  then show ?thesis
  proof cases
    case load
    then show ?thesis
      using access_body.interval_split [OF whole_bodies(1) assms(5)] assms(6)
      unfolding stopped_at_def accesses_before_def Let_def defs whole_load_memory [OF load] execute_vl_whole_def
      by (simp add: access_range_def access_element_def Let_def)
  next
    case store
    then show ?thesis
      using access_body.interval_split [OF whole_bodies(2) assms(5)] assms(6)
      unfolding stopped_at_def accesses_before_def Let_def defs whole_store_memory [OF store(2)] execute_vs_whole_def
      by (simp add: access_range_def access_element_def Let_def)
  next
    case elements
    then show ?thesis
      using memory_restartable [OF assms(5) elements] assms(6)
      unfolding stopped_at_def accesses_before_def Let_def defs restartable_def
      by (simp add: access_range_def access_element_def Let_def)
  qed
qed

lemma vector_dispatch_fault:
  assumes "\<not> has_fault y" "has_fault (vector_dispatch fpu h op i y)"
  shows "vector_dispatch fpu h op i y =
    execute_vector_memory h op (ucast (drop_bit 7 i AND 0x1F)) (ucast (drop_bit 15 i AND 0x1F))
        (ucast (drop_bit 20 i AND 0x1F))
      (drop_bit 25 i AND 1 \<noteq> 0) (ucast (vl (state y))) (vector_sew (state y)) y"
  using assms unfolding vector_dispatch_def Let_def by (auto split: if_splits)

text \<open>(C12) A vector instruction is precise and restartable: without a pending exception before it, it is refused
  as illegal, with nothing else changed, exactly when \<open>vstart\<close> is not zero and the operation requires it, or a
  floating-point operation is not enabled; else it completes and leaves \<open>vstart\<close> zero, or an access of a load or
  store faulted. Then there is a first faulting access \<open>k\<close> between the access that \<open>vstart\<close> selected and the last one:
  the instruction restricted to the accesses before \<open>k\<close> does not fault, restricted to the accesses up to \<open>k\<close> it
  leaves the final state, and \<open>vstart\<close> is the element of access \<open>k\<close>. All operations are covered, whole-register loads
  and stores included.\<close>

theorem vector_unit_precise:
  fixes fpu :: HostFpu and h :: "'d DeviceHandler" and op :: OperationId and i :: Instruction and y :: "'d System"
  assumes "\<not> has_fault y"
  defines "y' \<equiv> execute_vector_unit fpu h op i y"
  shows "if vstart (state y) \<noteq> 0 \<and> requires_zero_vstart op \<or> vector_fp_illegal op (vector_sew (state y))
      (state y)
    then y' = set_fault IllegalInstruction (ucast i) y
    else if has_fault y' then \<exists>k. stopped_at h op i y y' k
    else vstart (state y') = 0"
proof (cases "has_fault (vector_dispatch fpu h op i y)")
  case True
  then show ?thesis
    using memory_stopped_at [OF assms(1), of h op i] vector_dispatch_fault [OF assms(1) True]
    unfolding y'_def execute_vector_unit_def Let_def by auto
next
  case False
  then show ?thesis unfolding y'_def execute_vector_unit_def Let_def by auto
qed


definition bare_system :: "unit System" where
  "bare_system =
     \<lparr>cpu = default_CPU, mmu = make_Mmu (\<lambda>_. 0) kDramBaseAddress kDramSize, system_bus = initial_TileLinkBus,
         framebuffer = None,
      devices = ()\<rparr>"

definition no_handler :: "unit DeviceHandler" where
  "no_handler k req resp s = (False, resp, s)"

definition four_elements :: "unit System" where
  "four_elements = upd_state (\<lambda>s. s\<lparr>vl := 4, vstart := 1\<rparr>) bare_system"

lemma four_elements_ok: "\<not> has_fault four_elements"
  by code_simp

definition masked_elements :: "unit System" where
  "masked_elements =
     upd_state (\<lambda>s. s\<lparr>regs := write_vector (regs s) 0 (\<lambda>_. 0x8), vl := 4, vstart := 1\<rparr>) bare_system"

lemma masked_elements_run:
  "pending_exception (ctx masked_elements) = None \<and>
   pending_exception (ctx (execute_vector_unit fpu no_handler VLE8_V 0x00050407 masked_elements)) = Some FaultLoad \<and>
   vstart (state (execute_vector_unit fpu no_handler VLE8_V 0x00050407 masked_elements)) = 3"
  by code_simp

text \<open>A masked load of which only element 3 is active, and faults.\<close>

theorem vector_unit_precise_witness:
  "\<forall>fpu. let y' = execute_vector_unit fpu no_handler VLE8_V 0x00050407 masked_elements in
     vstart (state y') = 3 \<and> (\<exists>k. stopped_at no_handler VLE8_V 0x00050407 masked_elements y' k)"
proof
  fix fpu
  have "\<not> has_fault masked_elements" using masked_elements_run [of fpu] by (simp add: has_fault_def)
  from vector_unit_precise [OF this, where op = VLE8_V and fpu = fpu and h = no_handler and i = "0x00050407"]
  show "let y' = execute_vector_unit fpu no_handler VLE8_V 0x00050407 masked_elements in
     vstart (state y') = 3 \<and> (\<exists>k. stopped_at no_handler VLE8_V 0x00050407 masked_elements y' k)"
    using masked_elements_run [of fpu]
    by (simp add: Let_def has_fault_def requires_zero_vstart_def vector_fp_illegal_def is_vector_fp_def)
qed

lemma indexed_store_no_group:
  assumes "op \<in> {VSUXEI64_V, VSOXEI64_V}"
  shows "execute_vector_int_arith op d s1 s2 vm l sew rs1_val simm s = None"
    and "execute_vector_int_logic_shifts op d s1 s2 vm l sew rs1_val simm s = None"
    and "execute_vector_int_cmp op d s1 s2 vm l sew rs1_val simm s = None"
    and "execute_vector_int_narrow_shifts op d s1 s2 vm l sew rs1_val simm s = None"
    and "execute_vector_int_mac op d s1 s2 vm l sew rs1_val simm s = None"
    and "execute_vector_int_widening_arith op d s1 s2 vm l sew rs1_val simm s = None"
    and "execute_vector_int_carry_ext op d s1 s2 vm l sew rs1_val simm s = None"
    and "execute_vector_int_mask_bitmanip op d s1 s2 vm l sew rs1_val simm s = None"
  using assms
  by (elim insertE emptyE; simp add: execute_vector_int_arith_def execute_vector_int_logic_shifts_def
      execute_vector_int_cmp_def execute_vector_int_narrow_shifts_def execute_vector_int_mac_def
      execute_vector_int_widening_arith_def execute_vector_int_carry_ext_def execute_vector_int_mask_bitmanip_def)+

lemma indexed_store_case:
  assumes "op \<in> {VSUXEI64_V, VSOXEI64_V}"
  shows "\<not> is_config_case op" "\<not> is_memory_case op" "\<not> is_float_case op" "\<not> is_fixed_case op" "\<not>
      is_permute_case op"
    "\<not> requires_zero_vstart op" "\<not> is_vector_fp op"
  using assms
  by (elim insertE emptyE; simp add: is_config_case_def is_memory_case_def is_float_case_def is_fixed_case_def
      is_permute_case_def requires_zero_vstart_def is_vector_fp_def)+

text \<open>(C40) The indexed stores with 64-bit indices are missing from the dispatcher: they store nothing, raise
  nothing and retire as if they had completed.\<close>

theorem indexed_store_64_ignored:
  assumes "op \<in> {VSUXEI64_V, VSOXEI64_V}" "\<not> has_fault y"
  shows "execute_vector_unit fpu h op i y = upd_state (\<lambda>s. s\<lparr>vstart := 0\<rparr>) y"
proof -
  have "vector_dispatch fpu h op i y = y"
    unfolding vector_dispatch_def Let_def execute_vector_integer_def
    by (simp add: indexed_store_case [OF assms(1)] indexed_store_no_group [OF assms(1)] upd_state_def)
  then show ?thesis
    using assms(2) by (simp add: execute_vector_unit_def vector_fp_illegal_def indexed_store_case [OF assms(1)])
qed

theorem indexed_store_64_ignored_witness:
  "\<forall>fpu. execute_vector_unit fpu no_handler VSUXEI64_V 0x06857427 four_elements =
     upd_state (\<lambda>s. s\<lparr>vstart := 0\<rparr>) four_elements"
  using indexed_store_64_ignored [of VSUXEI64_V, OF _ four_elements_ok] by blast

end
