(* ===== verification/Spec2Isabelle.thy ===== *)
theory Spec2Isabelle
  imports Fast_Path_Correct Device_Bus Timing_Model Gdb_Stub Vector_Unit
begin

text \<open>
  SimRV is a RISC-V full-system simulator (RV32 and RV64 with M, A, F, D, C, B, V, Zicsr, supervisor
  mode). This development models its core in Isabelle/HOL and proves what makes it correct. The model is
  the 64-bit build (\<^verbatim>\<open>SIMRV_XLEN = 64\<close>), which also runs RV32 guests: machine integers are words of their
  width, enums are datatypes or constants, structs and classes are records, and every operation is a
  function from the state before to the state after. Paths below are relative to \<^verbatim>\<open>src/\<close>.

  \<^bold>\<open>The program and how its parts interact.\<close> A hart (\<^verbatim>\<open>class CPU\<close>) owns the architectural state, the
  TLBs, the L1 caches, the decode cache, the interrupt controllers and a pipeline context. For every
  instruction it fetches and decodes (or replays a cached decoding), executes in the integer, vector or
  floating-point unit, accesses memory through the MMU and the data cache or through the TileLink bus to
  a device, writes back and commits; commit raises a pending exception or dispatches an interrupt
  through the trap controller. Devices read and write guest memory and raise interrupts at the PLIC;
  the SBI layer serves supervisor calls directly. The cycle model observes retired instructions, and the
  GDB stub stops and inspects the machine.

  \<^bold>\<open>Theories and the code they model.\<close>

  \<^item> \<open>Prelude\<close>, \<open>Operation_Id\<close>, \<open>Isa_Types\<close>: integer types and conversions (\<^verbatim>\<open>include/simrv/xlen\<close>), the
    operation identifiers and the instruction-set vocabulary (\<^verbatim>\<open>include/simrv/isa\<close>). The prelude holds
    the collections of simplification rules and the lemmas on words, bytes and lists that the other
    theories share.
  \<^item> \<open>Alu\<close>: the integer unit (\<^verbatim>\<open>src/execute/ExecuteUnitInt.cpp\<close>, \<^verbatim>\<open>ExecuteUnitB.cpp\<close>, \<^verbatim>\<open>xlen/Math.hpp\<close>),
    against the exact products, quotients and carry-less products.
  \<^item> \<open>Decoder\<close>, \<open>Decompress\<close>: fields, immediates, the decision tree and the compressed quadrants
    (\<^verbatim>\<open>src/pipeline/Decoder.cpp\<close>, \<^verbatim>\<open>include/simrv/isa/Common.hpp\<close>), with the encodings they invert.
  \<^item> \<open>Arch_State\<close>, \<open>Csr_File\<close>, \<open>Cpu_State\<close>: CSR numbers and masks, the register file, \<^verbatim>\<open>CsrFile\<close> (\<^verbatim>\<open>src/core/CsrFile.cpp\<close>)
    and the hart record with its rollback journal (\<^verbatim>\<open>include/simrv/core/Cpu.hpp\<close>).
  \<^item> \<open>Dram\<close>, \<open>Translation_Cache\<close>, \<open>Tlb_Table\<close>, \<open>Soft_Tlb\<close>, \<open>Decode_Cache\<close>, \<open>L1_Cache\<close>, \<open>Mmu_Walk\<close>: guest
    memory, the lookup structures (\<^verbatim>\<open>Tlb.cpp\<close>, \<^verbatim>\<open>SoftTlbEntry\<close>, \<^verbatim>\<open>CachedOp\<close>, \<^verbatim>\<open>BaseCache.hpp\<close>, \<^verbatim>\<open>ICache.cpp\<close>,
    \<^verbatim>\<open>DCache.cpp\<close>) and address translation (\<^verbatim>\<open>src/memory/Mmu.cpp\<close>). \<open>Translation_Cache\<close> is the contract of the
    lookup structures as a locale; the TLB tables, both sides of the software TLB and the decode cache
    interpret it.
  \<^item> \<open>Interrupts\<close>, \<open>Trap_Control\<close>, \<open>Hart_Invariant\<close>, \<open>Sbi\<close>: PLIC, ACLINT and timer, trap entry and return,
    interrupt selection (\<^verbatim>\<open>src/core/StateControl.cpp\<close>), the reachable states of the hart as an inductive step
    relation, and the SBI extensions (\<^verbatim>\<open>src/core/Sbi.cpp\<close>) with the run state of \<^verbatim>\<open>Machine.cpp\<close>.
  \<^item> \<open>Tile_Link\<close>, \<open>Mmio_Devices\<close>, \<open>Virtio\<close>, \<open>Device_Frame\<close>, \<open>Device_Bus\<close>: the router and bus, the power,
    clock, serial, input, framebuffer and audio registers, the VirtIO transport with disk and console queues,
    the part of the hart that each device may change, and the address map that \<^verbatim>\<open>MachineInit.cpp\<close> registers.
  \<^item> \<open>Memory_Access\<close>, \<open>Pipeline_Stages\<close>, \<open>Fast_Path\<close>, \<open>Fast_Path_Correct\<close>: loads and stores
    (\<^verbatim>\<open>MemoryAccess.cpp\<close>), the stages (\<^verbatim>\<open>PipelineStages.cpp\<close>), the execution engine with its cached fast
    path (\<^verbatim>\<open>Cpu.cpp\<close>), and the equivalence of the two paths.
  \<^item> \<open>Float_Unit\<close>: the scalar floating-point unit (\<^verbatim>\<open>src/execute/ExecuteUnitFloat.cpp\<close>): boxing, classification,
    sign injection, minimum and maximum, comparisons, conversions, flags and rounding modes on the bit
    patterns. \<open>execute_opFp\<close> and \<open>execute_fusedFp\<close> are what the fields \<open>opFp\<close> and \<open>fusedFp\<close> of the stages'
    \<open>Units\<close> stand for.
  \<^item> \<open>Vector_Core\<close>, \<open>Vector_Integer\<close>, \<open>Vector_Fixed\<close>, \<open>Vector_Permute\<close>, \<open>Vector_Memory\<close>, \<open>Vector_Unit\<close>: the vector
    unit (\<^verbatim>\<open>src/execute/vector\<close>, \<^verbatim>\<open>ExecuteUnitVector.cpp\<close>): configuration, element and mask loops, all
    instruction families and the dispatcher.
  \<^item> \<open>Timing_Model\<close>: the cycle model of the five-stage pipeline (\<^verbatim>\<open>InOrderPipeline.cpp\<close>, \<^verbatim>\<open>PipelineSim.cpp\<close>).
  \<^item> \<open>Gdb_Stub\<close>: framing, commands, software breakpoints and command loops (\<^verbatim>\<open>src/debug/GdbStub.cpp\<close>).

  \<^bold>\<open>What the theorems show.\<close> Accelerating structures are transparent: TLBs, software TLB, decode cache and
  data cache return what the structure behind them returns, on every sequence of operations, and the
  cached fast path leaves the same system as the pipeline stages for aligned jumps and accesses that go
  untranslated to memory. Translation agrees with a specification of the page-table path, writes nothing but
  A and D bits and returns the page or access fault that the path asks for. Trap
  entry, trap return, interrupt selection and CSR accesses behave as the privileged architecture says,
  and every state reachable by the operations of the hart satisfies the WARL invariant. Devices deliver
  input in order, keep their interrupt lines exact, serve disk queues to the end and answer every bus
  request once; a bus request changes only the device it addresses, the interrupt line of that device and
  what the device may change of the hart. An SBI call has the effect of its extension and no other. A backstep restores the machine. The vector loops compute each active element from the
  registers before the instruction and leave every other byte alone; their arithmetic (widening,
  carries, saturation, rounding) is exact where the code's own types are wide enough, and a faulting access
  leaves the element to restart from, with the accesses before it made and none after it.
  Floating-point comparisons and conversions to integers agree with the numbers the operands encode, and
  single-precision results are boxed and canonical. The cycle model always drains.
  Packets and memory transfers of the debugger are inverse to each other.
  Where the code departs from its own documentation or from the architecture the theorem states what
  the code does.

  \<^bold>\<open>Bounds and termination.\<close> Loops over the fields of a message, the ways of a table or the elements of a
  vector are folds over the index lists of the source. The loops whose end depends on data terminate by a
  measure: a VirtIO queue by the sixteen-bit distance of its two indices, the wait for a bus response by
  the length of the request queue, the draining of the cycle model by the latency of the instructions it
  holds, the command loop of the debugger by the bytes still to be received. The only count of steps is
  the number of instructions that the code itself passes to a batch. Vector theorems assume registers of 64 to
  1024 bits; \<open>vector_config_fits\<close> shows that a configured vector length fits in eight of them.

  \<^bold>\<open>Not modelled.\<close> The sums, products, quotients, roots, fused products and format conversions that
  the host's \<^verbatim>\<open>float\<close> and \<^verbatim>\<open>double\<close> compute are the fields of a parameter (\<open>HostFpu\<close>) of the floating-point
  and vector units; the theorems hold for every host. Start-up, the run loops with their threads and
  sockets, file loading, logging, tracing, the command line, the lockstep checker, the instruction
  explainer and the terminal interface are input and output around the core. The 32-bit build differs in
  the width of \<^verbatim>\<open>Register\<close> and is not modelled.
\<close>

end
